(* ===== verification/Prelude.thy ===== *)
theory Prelude
  imports Main "HOL-Library.Word"
begin

text \<open>
  Shared vocabulary of the development.

  Every operation of the server that talks to a service outside the repository (MySQL through
  ent, Redis, the task queue, Google Play, the clock) is modelled as an \<^emph>\<open>action\<close>: a function
  of the world \<open>'s\<close> that returns either an error or a value, together with the next world.
  The world is a type parameter, so a theorem holds for every implementation of the services
  that keeps the laws it names. \<open>wp\<close> is the weakest precondition of an action with one
  postcondition for normal and one for error results; the equations collected in \<open>wp_simps\<close>
  compute it through the combinators, so a component's proof only adds the laws of the services
  it calls.
\<close>

named_theorems wp_simps \<open>weakest preconditions of the combinators\<close>

section \<open>Actions\<close>

type_synonym ('s, 'e, 'a) act = "'s \<Rightarrow> ('e + 'a) \<times> 's"

definition ok :: "'a \<Rightarrow> ('s, 'e, 'a) act" where
  "ok x s = (Inr x, s)"

definition fail :: "'e \<Rightarrow> ('s, 'e, 'a) act" where
  "fail e s = (Inl e, s)"

definition andThen :: "('s, 'e, 'a) act \<Rightarrow> ('a \<Rightarrow> ('s, 'e, 'b) act) \<Rightarrow> ('s, 'e, 'b) act" where
  "andThen m f s = (case m s of (Inl e, t) \<Rightarrow> (Inl e, t) | (Inr x, t) \<Rightarrow> f x t)"

definition attempt :: "('s, 'e, 'a) act \<Rightarrow> ('s, 'f, 'e + 'a) act" where
  "attempt m s = (case m s of (r, t) \<Rightarrow> (Inr r, t))"

definition mapErr :: "('e \<Rightarrow> 'f) \<Rightarrow> ('s, 'e, 'a) act \<Rightarrow> ('s, 'f, 'a) act" where
  "mapErr g m s = (case m s of (Inl e, t) \<Rightarrow> (Inl (g e), t) | (Inr x, t) \<Rightarrow> (Inr x, t))"

definition deferred :: "('s, 'e, 'a) act \<Rightarrow> ('s, 'f, 'b) act \<Rightarrow> ('s, 'e, 'a) act" where
  "deferred m c s = (case m s of (r, t) \<Rightarrow> (r, snd (c t)))"

text \<open>
  \<open>attempt\<close> is Go's \<open>x, err := f()\<close>: the error becomes a value that the code inspects.
  \<open>mapErr\<close> wraps an error, \<open>deferred\<close> is a deferred call whose own error is dropped.
\<close>

fun forEach :: "'a list \<Rightarrow> ('a \<Rightarrow> ('s, 'e, unit) act) \<Rightarrow> ('s, 'e, unit) act" where
  "forEach [] f = ok ()"
| "forEach (x # xs) f = andThen (f x) (\<lambda>_. forEach xs f)"

section \<open>Weakest preconditions\<close>

definition wp :: "('s, 'e, 'a) act \<Rightarrow> ('a \<Rightarrow> 's \<Rightarrow> bool) \<Rightarrow> ('e \<Rightarrow> 's \<Rightarrow> bool) \<Rightarrow> 's \<Rightarrow> bool" where
  "wp m Q E s = (case m s of (Inl e, t) \<Rightarrow> E e t | (Inr x, t) \<Rightarrow> Q x t)"

lemma wp_ok [wp_simps]: "wp (ok x) Q E = Q x"
  by (rule ext) (simp add: wp_def ok_def)

lemma wp_fail [wp_simps]: "wp (fail e) Q E = E e"
  by (rule ext) (simp add: wp_def fail_def)

lemma wp_andThen [wp_simps]: "wp (andThen m f) Q E = wp m (\<lambda>x. wp (f x) Q E) E"
  by (rule ext) (simp add: wp_def andThen_def split: prod.splits sum.splits)

lemma wp_attempt [wp_simps]: "wp (attempt m) Q E = wp m (\<lambda>x. Q (Inr x)) (\<lambda>e. Q (Inl e))"
  by (rule ext) (simp add: wp_def attempt_def split: prod.splits sum.splits)

lemma wp_mapErr [wp_simps]: "wp (mapErr g m) Q E = wp m Q (\<lambda>e. E (g e))"
  by (rule ext) (simp add: wp_def mapErr_def split: prod.splits sum.splits)

lemma wp_deferred [wp_simps]:
  "wp (deferred m c) Q E = wp m (\<lambda>x t. Q x (snd (c t))) (\<lambda>e t. E e (snd (c t)))"
  by (rule ext) (simp add: wp_def deferred_def split: prod.splits sum.splits)

lemma wp_if [wp_simps]: "wp (if b then m else n) Q E = (if b then wp m Q E else wp n Q E)"
  by simp

lemma wp_mono:
  assumes "wp m Q E s"
    and "\<And>x t. Q x t \<Longrightarrow> Q' x t" and "\<And>e t. E e t \<Longrightarrow> E' e t"
  shows "wp m Q' E' s"
  using assms by (auto simp: wp_def split: prod.splits sum.splits)

lemma wp_conj:
  assumes "wp m Q E s" and "wp m Q' E' s"
  shows "wp m (\<lambda>x t. Q x t \<and> Q' x t) (\<lambda>e t. E e t \<and> E' e t) s"
  using assms by (auto simp: wp_def split: prod.splits sum.splits)

lemma wpD_Inr: "wp m Q E s \<Longrightarrow> m s = (Inr x, t) \<Longrightarrow> Q x t"
  by (simp add: wp_def)

lemma wpD_Inl: "wp m Q E s \<Longrightarrow> m s = (Inl e, t) \<Longrightarrow> E e t"
  by (simp add: wp_def)

lemma wp_frame:
  assumes "wp m (\<lambda>_. I) (\<lambda>_. I) s"
  shows "I (snd (m s))"
  using assms by (auto simp: wp_def split: prod.splits sum.splits)

lemma wp_final:
  assumes "wp m Q E s" and "\<And>x t. Q x t \<Longrightarrow> I t" and "\<And>e t. E e t \<Longrightarrow> I t"
  shows "I (snd (m s))"
  using assms by (auto simp: wp_def split: prod.splits sum.splits)

text \<open>A loop keeps an invariant that is indexed by the elements already handled.\<close>

lemma wp_forEach:
  assumes "\<And>done x rest t. xs = done @ x # rest \<Longrightarrow> I done t \<Longrightarrow> wp (f x) (\<lambda>_. I (done @ [x])) E t"
    and "I [] s"
  shows "wp (forEach xs f) (\<lambda>_. I xs) E s"
proof -
  have "wp (forEach ys f) (\<lambda>_. I xs) E t" if "xs = zs @ ys" and "I zs t" for ys zs t
    using that
  proof (induction ys arbitrary: zs t)
    case Nil
    then show ?case by (simp add: wp_simps)
  next
    case (Cons y ys)
    have "wp (f y) (\<lambda>_. I (zs @ [y])) E t"
      using assms(1) Cons.prems by blast
    then show ?case
      unfolding forEach.simps wp_simps
      by (rule wp_mono) (use Cons.IH [of "zs @ [y]"] Cons.prems in auto)
  qed
  from this [of "[]"] assms(2) show ?thesis by simp
qed

section \<open>Lists\<close>

lemma distinct_map_filter: "distinct (map f xs) \<Longrightarrow> distinct (map f (filter P xs))"
  by (induction xs) auto

lemma sum_list_map_cong: "(\<And>x. x \<in> set xs \<Longrightarrow> f x = g x) \<Longrightarrow> sum_list (map f xs) = sum_list (map g xs)"
  by (metis map_cong)

text \<open>
  One element of a list with distinct keys is changed: the sum changes by the difference at
  that element.
\<close>

lemma sum_list_update_one:
  fixes f :: "'r \<Rightarrow> int"
  assumes "distinct (map key xs)" and "r \<in> set xs"
  shows "sum_list (map f (map (\<lambda>x. if key x = key r then u x else x) xs))
       = sum_list (map f xs) - f r + f (u r)"
  using assms
proof (induction xs)
  case Nil
  then show ?case by simp
next
  case (Cons x xs)
  show ?case
  proof (cases "r = x")
    case True
    with Cons.prems have "key r \<notin> key ` set xs" by simp
    then have "\<forall>y \<in> set xs. key y \<noteq> key r" by (metis image_eqI)
    then have "map (\<lambda>x. if key x = key r then u x else x) xs = xs"
      by (simp add: map_idI)
    with True show ?thesis by simp
  next
    case False
    with Cons.prems have r: "r \<in> set xs" and "key x \<noteq> key r" by auto
    with Cons show ?thesis by simp
  qed
qed

end
