(* ===== verification/GoStd.thy ===== *)
theory GoStd
  imports Prelude
begin

text \<open>
  What the server uses of Go's language and standard library: signed 64-bit arithmetic on
  \<open>int\<close> with the wrap-around written out, \<open>time.Time\<close> as nanoseconds since the Unix epoch,
  and decimal formatting and parsing of unsigned integers (\<open>%d\<close>, \<open>strconv.ParseUint\<close>).
  Go strings are byte strings; \<open>string\<close> (a list of \<open>char\<close>, one per byte) models them.
\<close>

section \<open>Integers\<close>

text \<open>
  Identifiers (\<open>uint64\<close> user and row ids) are never computed with, so they are natural numbers.
\<close>

type_synonym uint64 = nat

definition wrap64 :: "int \<Rightarrow> int" where
  "wrap64 x = (x + 2 ^ 63) mod 2 ^ 64 - 2 ^ 63"

definition fits64 :: "int \<Rightarrow> bool" where
  "fits64 x \<longleftrightarrow> - (2 ^ 63) \<le> x \<and> x < 2 ^ 63"

definition wrap32 :: "int \<Rightarrow> int" where
  "wrap32 x = (x + 2 ^ 31) mod 2 ^ 32 - 2 ^ 31"

definition fits32 :: "int \<Rightarrow> bool" where
  "fits32 x \<longleftrightarrow> - (2 ^ 31) \<le> x \<and> x < 2 ^ 31"

lemma wrap64_id [simp]: "fits64 x \<Longrightarrow> wrap64 x = x"
  by (simp add: wrap64_def fits64_def)

lemma wrap64_fits [simp, intro]: "fits64 (wrap64 x)"
proof -
  have "0 \<le> (x + 2 ^ 63) mod (2 ^ 64 :: int)" and "(x + 2 ^ 63) mod (2 ^ 64 :: int) < 2 ^ 64"
    by (simp_all add: pos_mod_sign pos_mod_bound)
  then show ?thesis by (simp add: wrap64_def fits64_def)
qed

lemma wrap64_wrap64 [simp]: "wrap64 (wrap64 x) = wrap64 x"
  by (rule wrap64_id) (rule wrap64_fits)

lemma wrap64_add_wrap64 [simp]: "wrap64 (wrap64 x + y) = wrap64 (x + y)"
proof -
  have "(wrap64 x + y + 2 ^ 63) mod 2 ^ 64 = ((x + 2 ^ 63) mod 2 ^ 64 + y) mod (2 ^ 64 :: int)"
    by (simp add: wrap64_def algebra_simps)
  also have "\<dots> = (x + 2 ^ 63 + y) mod 2 ^ 64" by (rule mod_add_left_eq)
  finally show ?thesis by (simp add: wrap64_def algebra_simps)
qed

lemma wrap64_eq_iff: "wrap64 x = wrap64 y \<longleftrightarrow> x mod 2 ^ 64 = y mod 2 ^ 64"
proof -
  have "wrap64 x = wrap64 y \<longleftrightarrow> (x + 2 ^ 63) mod 2 ^ 64 = (y + 2 ^ 63) mod (2 ^ 64 :: int)"
    by (simp add: wrap64_def)
  also have "\<dots> \<longleftrightarrow> (2 ^ 64 :: int) dvd (x + 2 ^ 63) - (y + 2 ^ 63)" by (rule mod_eq_dvd_iff)
  also have "\<dots> \<longleftrightarrow> (2 ^ 64 :: int) dvd x - y" by (simp add: algebra_simps)
  also have "\<dots> \<longleftrightarrow> x mod 2 ^ 64 = y mod 2 ^ 64" by (simp only: mod_eq_dvd_iff)
  finally show ?thesis .
qed

lemma wrap64_mod [simp]: "wrap64 x mod 2 ^ 64 = x mod 2 ^ 64"
  by (simp only: wrap64_eq_iff [symmetric] wrap64_wrap64)

lemma wrap64_add_wrap64_right [simp]: "wrap64 (x + wrap64 y) = wrap64 (x + y)"
  using wrap64_add_wrap64 [of y x] by (simp add: add.commute)

lemma wrap64_add3 [simp]: "wrap64 (x + wrap64 y + z) = wrap64 (x + y + z)"
  using wrap64_add_wrap64 [of y "x + z"] by (simp add: algebra_simps)

lemma wrap64_mult_wrap64 [simp]: "wrap64 (wrap64 x * y) = wrap64 (x * y)"
proof -
  have "wrap64 x * y mod 2 ^ 64 = (wrap64 x mod 2 ^ 64) * y mod 2 ^ 64" by (simp only: mod_mult_left_eq)
  also have "\<dots> = x * y mod 2 ^ 64" by (simp only: wrap64_mod mod_mult_left_eq)
  finally show ?thesis by (simp only: wrap64_eq_iff)
qed

lemma wrap32_id [simp]: "fits32 x \<Longrightarrow> wrap32 x = x"
  by (simp add: wrap32_def fits32_def)

section \<open>time.Time and time.Duration\<close>

text \<open>
  A \<open>time.Time\<close> is the number of nanoseconds since 1970-01-01 UTC; the zero value of the type
  is 0001-01-01. A \<open>time.Duration\<close> is an int64 number of nanoseconds.
\<close>

type_synonym gotime = int
type_synonym duration = int

definition Nanosecond_per_Second :: int where
  "Nanosecond_per_Second = 1000000000"

definition Second :: duration where "Second = 1000000000"
definition Minute :: duration where "Minute = 60 * Second"
definition Hour :: duration where "Hour = 60 * Minute"

definition zeroTime :: gotime where
  "zeroTime = - 62135596800 * Nanosecond_per_Second"

definition IsZero :: "gotime \<Rightarrow> bool" where
  "IsZero t \<longleftrightarrow> t = zeroTime"

definition UnixSec :: "gotime \<Rightarrow> int" where
  "UnixSec t = t div Nanosecond_per_Second"

definition timeUnix :: "int \<Rightarrow> gotime" where
  "timeUnix sec = sec * Nanosecond_per_Second"

lemma UnixSec_timeUnix [simp]: "UnixSec (timeUnix n) = n"
  by (simp add: UnixSec_def timeUnix_def Nanosecond_per_Second_def)

section \<open>Decimal numbers\<close>

definition digit :: "nat \<Rightarrow> char" where
  "digit d = char_of (48 + d)"

fun decimal :: "nat \<Rightarrow> string" where
  "decimal n = (if n < 10 then [digit n] else decimal (n div 10) @ [digit (n mod 10)])"

declare decimal.simps [simp del]

definition digitVal :: "char \<Rightarrow> nat option" where
  "digitVal c = (let v = of_char c :: nat in if 48 \<le> v \<and> v \<le> 57 then Some (v - 48) else None)"

fun parseDigits :: "nat \<Rightarrow> string \<Rightarrow> nat option" where
  "parseDigits acc [] = Some acc"
| "parseDigits acc (c # cs) =
     (case digitVal c of None \<Rightarrow> None | Some d \<Rightarrow> parseDigits (10 * acc + d) cs)"

definition ParseUint64 :: "string \<Rightarrow> uint64 option" where
  "ParseUint64 str =
     (if str = [] then None
      else case parseDigits 0 str of
        None \<Rightarrow> None
      | Some n \<Rightarrow> if n < 2 ^ 64 then Some n else None)"

lemma digitVal_digit [simp]: "d < 10 \<Longrightarrow> digitVal (digit d) = Some d"
  by (simp add: digitVal_def digit_def)

lemma decimal_not_Nil [simp]: "decimal n \<noteq> []"
  by (subst decimal.simps) simp

lemma parseDigits_append:
  "parseDigits acc (xs @ ys) = (case parseDigits acc xs of None \<Rightarrow> None | Some a \<Rightarrow> parseDigits a ys)"
  by (induction xs arbitrary: acc) (auto split: option.splits)

lemma parseDigits_decimal: "parseDigits 0 (decimal n) = Some n"
proof (induction n rule: decimal.induct)
  case (1 n)
  show ?case
  proof (cases "n < 10")
    case True
    then show ?thesis by (simp add: decimal.simps [of n])
  next
    case False
    with 1 have "parseDigits 0 (decimal (n div 10)) = Some (n div 10)" by simp
    with False show ?thesis by (simp add: decimal.simps [of n] parseDigits_append)
  qed
qed

lemma decimal_inject [simp]: "decimal m = decimal n \<longleftrightarrow> m = n"
  by (metis option.inject parseDigits_decimal)

lemma ParseUint64_decimal [simp]: "n < 2 ^ 64 \<Longrightarrow> ParseUint64 (decimal n) = Some n"
  by (simp add: ParseUint64_def parseDigits_decimal)

lemma decimal_ascii: "c \<in> set (decimal n) \<Longrightarrow> \<exists>d < 10. c = digit d"
proof (induction n rule: decimal.induct)
  case (1 n)
  show ?case
  proof (cases "n < 10")
    case True
    with 1(2) show ?thesis by (auto simp: decimal.simps [of n])
  next
    case False
    with 1 have "c \<in> set (decimal (n div 10)) \<or> c = digit (n mod 10)"
      by (auto simp: decimal.simps [of n])
    with 1(1) False show ?thesis by (metis mod_less_divisor zero_less_numeral)
  qed
qed

lemma length_decimal: "n < 10 ^ k \<Longrightarrow> 0 < k \<Longrightarrow> length (decimal n) \<le> k"
proof (induction n arbitrary: k rule: decimal.induct)
  case (1 n)
  then show ?case
  proof (cases "n < 10")
    case True
    then show ?thesis using 1(3) by (subst decimal.simps) simp
  next
    case False
    have "k \<noteq> 1" using False 1(2) by auto
    with 1(3) obtain j where j: "k = Suc j" "0 < j" by (cases k) auto
    have "n div 10 < 10 ^ j" using 1(2) j by (simp add: less_mult_imp_div_less mult.commute)
    with 1(1) [OF False] j False show ?thesis by (subst decimal.simps) simp
  qed
qed

end
