(* ===== verification/Ent.thy ===== *)
theory Ent
  imports GoStd "HOL-Library.Multiset" "HOL-Library.Product_Lexorder"
begin

text \<open>
  The database layer. The three stores use code generated by ent (\<open>ent/*_query.go\<close>,
  \<open>*_create.go\<close>, \<open>*_update.go\<close>, \<open>*_delete.go\<close>), which in turn calls the functions of the
  third-party package \<open>sqlgraph\<close> on a MySQL connection. Those functions are the record
  \<open>nodes\<close>, one per table, a parameter of every store operation; the generated
  \<open>All\<close>/\<open>First\<close>/\<open>Only\<close>/\<open>Exist\<close>/\<open>Count\<close>/\<open>Get\<close> and the error classification are defined on top of
  it.

  The locale \<open>node_table\<close> states what is documented of a table reached through a connection:
  what SELECT, INSERT, UPDATE and DELETE do to its rows, that a unique index is enforced, and
  which errors can occur. \<open>mf\<close> says whether a statement may fail for a reason outside the
  data (connection, deadlock, timeout). \<open>mem_nodes\<close> is an executable table on lists that keeps
  the laws.
\<close>

section \<open>Errors\<close>

datatype sql_error = SqlNotFound | SqlConstraint | SqlFailure

datatype ent_error =
    NotFoundError
  | NotSingularError
  | ConstraintError
  | ValidationError string
  | DriverError

definition IsNotFound :: "ent_error \<Rightarrow> bool" where
  "IsNotFound e \<longleftrightarrow> e = NotFoundError"

definition IsConstraintError :: "ent_error \<Rightarrow> bool" where
  "IsConstraintError e \<longleftrightarrow> e = ConstraintError"

definition IsNotSingular :: "ent_error \<Rightarrow> bool" where
  "IsNotSingular e \<longleftrightarrow> e = NotSingularError"

definition IsValidationError :: "ent_error \<Rightarrow> bool" where
  "IsValidationError e \<longleftrightarrow> (case e of ValidationError _ \<Rightarrow> True | _ \<Rightarrow> False)"

section \<open>Statements\<close>

record 'r query =
  predicates :: "('r \<Rightarrow> bool) list"
  order :: "'r \<Rightarrow> int \<times> int"
  limit :: "nat option"

definition Query :: "'r query" where
  "Query = \<lparr>predicates = [], order = (\<lambda>_. (0, 0)), limit = None\<rparr>"

definition Where :: "('r \<Rightarrow> bool) list \<Rightarrow> 'r query \<Rightarrow> 'r query" where
  "Where ps q = q\<lparr>predicates := predicates q @ ps\<rparr>"

definition Order :: "('r \<Rightarrow> int \<times> int) \<Rightarrow> 'r query \<Rightarrow> 'r query" where
  "Order k q = q\<lparr>order := k\<rparr>"

definition Limit :: "nat \<Rightarrow> 'r query \<Rightarrow> 'r query" where
  "Limit n q = q\<lparr>limit := Some n\<rparr>"

definition matches :: "('r \<Rightarrow> bool) list \<Rightarrow> 'r \<Rightarrow> bool" where
  "matches ps r = list_all (\<lambda>p. p r) ps"

record ('s, 'r, 'id) nodes =
  QueryNodes :: "'r query \<Rightarrow> ('s, sql_error, 'r list) act"
  CountNodes :: "'r query \<Rightarrow> ('s, sql_error, nat) act"
  CreateNode :: "'r \<Rightarrow> ('s, sql_error, 'id) act"
  UpsertNode :: "'r \<Rightarrow> ('s, sql_error, unit) act"
  UpdateNodes :: "('r \<Rightarrow> bool) list \<Rightarrow> ('r \<Rightarrow> 'r) \<Rightarrow> ('s, sql_error, nat) act"
  UpdateNode :: "'id \<Rightarrow> ('r \<Rightarrow> 'r) \<Rightarrow> ('s, sql_error, 'r) act"
  DeleteNodes :: "('r \<Rightarrow> bool) list \<Rightarrow> ('s, sql_error, nat) act"

section \<open>Generated query and mutation code\<close>

definition sqlErr :: "sql_error \<Rightarrow> ent_error" where
  "sqlErr e = (case e of SqlNotFound \<Rightarrow> NotFoundError | SqlConstraint \<Rightarrow> ConstraintError
                       | SqlFailure \<Rightarrow> DriverError)"

definition createErr :: "sql_error \<Rightarrow> ent_error" where
  "createErr e = (if e = SqlConstraint then ConstraintError else DriverError)"

definition All :: "('s, 'r, 'id) nodes \<Rightarrow> 'r query \<Rightarrow> ('s, ent_error, 'r list) act" where
  "All nd q = mapErr (\<lambda>_. DriverError) (QueryNodes nd q)"

definition First :: "('s, 'r, 'id) nodes \<Rightarrow> 'r query \<Rightarrow> ('s, ent_error, 'r) act" where
  "First nd q = andThen (All nd (Limit 1 q))
     (\<lambda>ns. case ns of [] \<Rightarrow> fail NotFoundError | n # _ \<Rightarrow> ok n)"

definition Only :: "('s, 'r, 'id) nodes \<Rightarrow> 'r query \<Rightarrow> ('s, ent_error, 'r) act" where
  "Only nd q = andThen (All nd (Limit 2 q))
     (\<lambda>ns. case ns of [n] \<Rightarrow> ok n | [] \<Rightarrow> fail NotFoundError | _ \<Rightarrow> fail NotSingularError)"

definition Exist :: "('s, 'r, 'id) nodes \<Rightarrow> 'r query \<Rightarrow> ('s, ent_error, bool) act" where
  "Exist nd q = andThen (attempt (First nd q))
     (\<lambda>r. case r of
        Inl e \<Rightarrow> if IsNotFound e then ok False else fail e
      | Inr _ \<Rightarrow> ok True)"

definition CountQ :: "('s, 'r, 'id) nodes \<Rightarrow> 'r query \<Rightarrow> ('s, ent_error, nat) act" where
  "CountQ nd q = mapErr (\<lambda>_. DriverError) (CountNodes nd q)"

definition UpdateOneSave ::
  "('s, 'r, 'id) nodes \<Rightarrow> 'id \<Rightarrow> ('r \<Rightarrow> 'r) \<Rightarrow> ('s, ent_error, 'r) act" where
  "UpdateOneSave nd i u = mapErr sqlErr (UpdateNode nd i u)"

definition UpdateSave ::
  "('s, 'r, 'id) nodes \<Rightarrow> ('r \<Rightarrow> bool) list \<Rightarrow> ('r \<Rightarrow> 'r) \<Rightarrow> ('s, ent_error, nat) act" where
  "UpdateSave nd ps u = mapErr sqlErr (UpdateNodes nd ps u)"

definition DeleteExec ::
  "('s, 'r, 'id) nodes \<Rightarrow> ('r \<Rightarrow> bool) list \<Rightarrow> ('s, ent_error, nat) act" where
  "DeleteExec nd ps = mapErr createErr (DeleteNodes nd ps)"

definition DeleteOneExec ::
  "('s, 'r, 'id) nodes \<Rightarrow> ('r \<Rightarrow> bool) \<Rightarrow> ('s, ent_error, unit) act" where
  "DeleteOneExec nd isId = andThen (DeleteExec nd [isId])
     (\<lambda>n. if n = 0 then fail NotFoundError else ok ())"

section \<open>Builders\<close>

text \<open>A field that a builder has not set has Go's zero value.\<close>

definition getOr :: "'a \<Rightarrow> 'a option \<Rightarrow> 'a" where
  "getOr d x = (case x of None \<Rightarrow> d | Some v \<Rightarrow> v)"

lemma getOr_simps [simp]: "getOr d None = d" "getOr d (Some v) = v"
  by (simp_all add: getOr_def)

section \<open>What a table does\<close>

definition selects :: "'r query \<Rightarrow> 'r list \<Rightarrow> 'r list \<Rightarrow> bool" where
  "selects q rows rs \<longleftrightarrow>
     (\<exists>full. mset full = mset (filter (matches (predicates q)) rows)
        \<and> sorted (map (order q) full)
        \<and> rs = (case limit q of None \<Rightarrow> full | Some n \<Rightarrow> take n full))"

definition uniq :: "('r \<Rightarrow> 'id) \<Rightarrow> ('r \<Rightarrow> 'r \<Rightarrow> bool) \<Rightarrow> 'r list \<Rightarrow> bool" where
  "uniq key conflict rows \<longleftrightarrow>
     distinct (map key rows) \<and> sorted_wrt (\<lambda>a b. \<not> conflict a b) rows"

text \<open>A table with no unique index besides its primary key.\<close>

definition noIndex :: "'r \<Rightarrow> 'r \<Rightarrow> bool" where
  "noIndex a b \<longleftrightarrow> False"

lemma uniq_noIndex [simp]: "uniq key noIndex rows \<longleftrightarrow> distinct (map key rows)"
  by (induction rows) (auto simp: uniq_def noIndex_def)

definition updated :: "('r \<Rightarrow> bool) \<Rightarrow> ('r \<Rightarrow> 'r) \<Rightarrow> 'r list \<Rightarrow> 'r list" where
  "updated p u rows = map (\<lambda>r. if p r then u r else r) rows"

lemma length_updated [simp]: "length (updated p u rows) = length rows"
  by (simp add: updated_def)

lemma selects_all:
  assumes "selects q rows rs" and "limit q = None"
  shows "mset rs = mset (filter (matches (predicates q)) rows)" "sorted (map (order q) rs)"
  using assms by (auto simp: selects_def)

lemma selects_subset: "selects q rows rs \<Longrightarrow> set rs \<subseteq> {r \<in> set rows. matches (predicates q) r}"
proof -
  assume "selects q rows rs"
  then obtain full where full: "mset full = mset (filter (matches (predicates q)) rows)"
    and rs: "rs = (case limit q of None \<Rightarrow> full | Some n \<Rightarrow> take n full)"
    by (auto simp: selects_def)
  have "set rs \<subseteq> set full" by (auto simp: rs split: option.splits dest: in_set_takeD)
  moreover have "set full = {r \<in> set rows. matches (predicates q) r}"
    using full by (metis set_filter set_mset_mset)
  ultimately show ?thesis by simp
qed

text \<open>The first of a limited selection, and when it is empty.\<close>

lemma selects_Limit_Nil:
  assumes "selects (Limit (Suc n) q) rows []"
  shows "filter (matches (predicates q)) rows = []"
  using assms by (auto simp: selects_def Limit_def)

lemma selects_Limit_one:
  assumes "selects (Limit 1 q) rows (r # rs)"
  shows "rs = []"
proof -
  from assms obtain full where "r # rs = take 1 full"
    by (auto simp: selects_def Limit_def)
  then have "length (r # rs) \<le> 1" by simp
  then show ?thesis by simp
qed

lemma selects_Limit_hd:
  assumes "selects (Limit n q) rows (r # rs)"
  shows "r \<in> set rows \<and> matches (predicates q) r"
  using selects_subset [OF assms] by (auto simp: Limit_def)

lemma selects_Limit_single:
  assumes "selects (Limit 2 q) rows [r]"
  shows "filter (matches (predicates q)) rows = [r]"
proof -
  obtain full where full: "mset full = mset (filter (matches (predicates q)) rows)"
    and "[r] = take 2 full"
    using assms by (auto simp: selects_def Limit_def)
  then have "full = [r]"
    by (cases full; cases "tl full") (auto simp: numeral_2_eq_2)
  with full show ?thesis by (metis mset_single_iff mset_single_iff_right)
qed

lemma selects_Limit_many:
  assumes "selects (Limit 2 q) rows (a # b # rs)"
  shows "2 \<le> length (filter (matches (predicates q)) rows)"
proof -
  obtain full where full: "mset full = mset (filter (matches (predicates q)) rows)"
    and "a # b # rs = take 2 full"
    using assms by (auto simp: selects_def Limit_def)
  then have "2 \<le> length full"
    by (metis Suc_le_eq length_Cons length_take min.cobounded1 min_def not_less_eq_eq
        numeral_2_eq_2 zero_less_Suc)
  with full show ?thesis by (metis mset_eq_length)
qed


section \<open>The laws of a table\<close>

locale node_table =
  fixes mf :: bool
    and nd :: "('s, 'r, 'id) nodes"
    and rows :: "'s \<Rightarrow> 'r list"
    and frame :: "'s \<Rightarrow> 's \<Rightarrow> bool"
    and eframe :: "'s \<Rightarrow> 's \<Rightarrow> bool"
    and key :: "'r \<Rightarrow> 'id"
    and setkey :: "'id \<Rightarrow> 'r \<Rightarrow> 'r"
    and conflict :: "'r \<Rightarrow> 'r \<Rightarrow> bool"
  assumes query_law:
      "wp (QueryNodes nd q)
          (\<lambda>rs t. frame s t \<and> rows t = rows s \<and> selects q (rows s) rs)
          (\<lambda>_ t. mf \<and> eframe s t) s"
    and count_law:
      "limit q = None \<Longrightarrow> wp (CountNodes nd q)
          (\<lambda>n t. frame s t \<and> rows t = rows s \<and> n = length (filter (matches (predicates q)) (rows s)))
          (\<lambda>_ t. mf \<and> eframe s t) s"
    and create_law:
      "uniq key conflict (rows s) \<Longrightarrow> wp (CreateNode nd r)
          (\<lambda>i t. frame s t \<and> rows t = rows s @ [setkey i r] \<and> uniq key conflict (rows t))
          (\<lambda>e t. eframe s t \<and> (if e = SqlConstraint then \<exists>x \<in> set (rows s). conflict x r else mf)) s"
    and upsert_law:
      "wp (UpsertNode nd r)
          (\<lambda>_ t. frame s t \<and> rows t = (if key r \<in> key ` set (rows s) then rows s else rows s @ [r]))
          (\<lambda>_ t. mf \<and> eframe s t) s"
    and update_law:
      "wp (UpdateNodes nd ps u)
          (\<lambda>n t. frame s t \<and> rows t = updated (matches ps) u (rows s) \<and> uniq key conflict (rows t)
             \<and> length (filter (\<lambda>r. matches ps r \<and> u r \<noteq> r) (rows s)) \<le> n
             \<and> n \<le> length (filter (matches ps) (rows s)))
          (\<lambda>e t. eframe s t \<and> (if e = SqlConstraint
             then \<not> uniq key conflict (updated (matches ps) u (rows s)) else mf)) s"
    and update_one_law:
      "wp (UpdateNode nd i u)
          (\<lambda>x t. frame s t \<and> rows t = updated (\<lambda>r. key r = i) u (rows s) \<and> uniq key conflict (rows t)
             \<and> (\<exists>r \<in> set (rows s). key r = i \<and> x = u r))
          (\<lambda>e t. eframe s t \<and> (if e = SqlNotFound then i \<notin> key ` set (rows s)
             else if e = SqlConstraint
             then \<not> uniq key conflict (updated (\<lambda>r. key r = i) u (rows s)) else mf)) s"
    and delete_law:
      "wp (DeleteNodes nd ps)
          (\<lambda>n t. frame s t \<and> rows t = filter (\<lambda>r. \<not> matches ps r) (rows s)
             \<and> n = length (filter (matches ps) (rows s)))
          (\<lambda>_ t. mf \<and> eframe s t) s"
begin

lemma wp_All:
  assumes "\<And>rs t. frame s t \<Longrightarrow> rows t = rows s \<Longrightarrow> selects q (rows s) rs \<Longrightarrow> Q rs t"
    and "\<And>t. mf \<Longrightarrow> eframe s t \<Longrightarrow> E DriverError t"
  shows "wp (All nd q) Q E s"
  unfolding All_def wp_simps by (rule wp_mono [OF query_law]) (use assms in auto)

lemma wp_First:
  assumes "\<And>r t. frame s t \<Longrightarrow> rows t = rows s \<Longrightarrow> selects (Limit 1 q) (rows s) [r] \<Longrightarrow>
      r \<in> set (rows s) \<Longrightarrow> matches (predicates q) r \<Longrightarrow> Q r t"
    and "\<And>t. frame s t \<Longrightarrow> rows t = rows s \<Longrightarrow> filter (matches (predicates q)) (rows s) = [] \<Longrightarrow>
      E NotFoundError t"
    and "\<And>t. mf \<Longrightarrow> eframe s t \<Longrightarrow> E DriverError t"
  shows "wp (First nd q) Q E s"
  unfolding First_def wp_simps
proof (rule wp_All, goal_cases)
  case (1 rs t)
  show ?case
  proof (cases rs)
    case Nil
    with 1 selects_Limit_Nil [of 0 q "rows s"] have "filter (matches (predicates q)) (rows s) = []"
      by simp
    with 1 Nil assms(2) show ?thesis by (simp add: wp_simps)
  next
    case (Cons r rs')
    with 1 selects_Limit_one [of q "rows s" r rs'] have "rs' = []" by simp
    with 1 Cons have "selects (Limit 1 q) (rows s) [r]" by simp
    with 1 Cons assms(1) [of t r] selects_Limit_hd [of 1 q "rows s" r rs'] show ?thesis
      by (simp add: wp_simps)
  qed
next
  case (2 t)
  with assms(3) show ?case by simp
qed

lemma wp_Only:
  assumes "\<And>r t. frame s t \<Longrightarrow> rows t = rows s \<Longrightarrow>
      filter (matches (predicates q)) (rows s) = [r] \<Longrightarrow> Q r t"
    and "\<And>t. frame s t \<Longrightarrow> rows t = rows s \<Longrightarrow> filter (matches (predicates q)) (rows s) = [] \<Longrightarrow>
      E NotFoundError t"
    and "\<And>t. frame s t \<Longrightarrow> rows t = rows s \<Longrightarrow>
      2 \<le> length (filter (matches (predicates q)) (rows s)) \<Longrightarrow> E NotSingularError t"
    and "\<And>t. mf \<Longrightarrow> eframe s t \<Longrightarrow> E DriverError t"
  shows "wp (Only nd q) Q E s"
  unfolding Only_def wp_simps
proof (rule wp_All, goal_cases)
  case (1 rs t)
  consider "rs = []" | r where "rs = [r]" | a b rs' where "rs = a # b # rs'"
    by (metis list.exhaust)
  then show ?case
  proof cases
    case 1
    with \<open>selects (Limit 2 q) (rows s) rs\<close> have "filter (matches (predicates q)) (rows s) = []"
      using selects_Limit_Nil [of 1 q "rows s"] by (simp add: numeral_2_eq_2)
    with 1 \<open>frame s t\<close> \<open>rows t = rows s\<close> assms(2) show ?thesis by (simp add: wp_simps)
  next
    case 2
    with \<open>selects (Limit 2 q) (rows s) rs\<close> have "filter (matches (predicates q)) (rows s) = [r]"
      using selects_Limit_single [of q "rows s" r] by simp
    with 2 \<open>frame s t\<close> \<open>rows t = rows s\<close> assms(1) show ?thesis by (simp add: wp_simps)
  next
    case 3
    with \<open>selects (Limit 2 q) (rows s) rs\<close> have "2 \<le> length (filter (matches (predicates q)) (rows s))"
      using selects_Limit_many [of q "rows s" a b rs'] by simp
    with 3 \<open>frame s t\<close> \<open>rows t = rows s\<close> assms(3) show ?thesis by (simp add: wp_simps)
  qed
next
  case (2 t)
  with assms(4) show ?case by simp
qed

lemma wp_Exist:
  assumes "\<And>b t. frame s t \<Longrightarrow> rows t = rows s \<Longrightarrow>
      b = (\<exists>r \<in> set (rows s). matches (predicates q) r) \<Longrightarrow> Q b t"
    and "\<And>t. mf \<Longrightarrow> eframe s t \<Longrightarrow> E DriverError t"
  shows "wp (Exist nd q) Q E s"
  unfolding Exist_def wp_simps
proof (rule wp_First, goal_cases)
  case (1 r t)
  then have "\<exists>r \<in> set (rows s). matches (predicates q) r" by blast
  with 1 assms(1) [of t True] show ?case by (simp add: wp_simps)
next
  case (2 t)
  then have "\<not> (\<exists>r \<in> set (rows s). matches (predicates q) r)" by (simp add: filter_empty_conv)
  with 2 assms(1) [of t False] show ?case by (simp add: wp_simps IsNotFound_def)
next
  case (3 t)
  with assms(2) show ?case by (simp add: wp_simps IsNotFound_def)
qed

lemma wp_CountQ:
  assumes "limit q = None"
    and "\<And>t. frame s t \<Longrightarrow> rows t = rows s \<Longrightarrow>
      Q (length (filter (matches (predicates q)) (rows s))) t"
    and "\<And>t. mf \<Longrightarrow> eframe s t \<Longrightarrow> E DriverError t"
  shows "wp (CountQ nd q) Q E s"
  unfolding CountQ_def wp_simps by (rule wp_mono [OF count_law]) (use assms in auto)

lemma wp_Create:
  assumes "uniq key conflict (rows s)"
    and "\<And>i t. frame s t \<Longrightarrow> rows t = rows s @ [setkey i r] \<Longrightarrow> uniq key conflict (rows t) \<Longrightarrow> Q i t"
    and "\<And>t. eframe s t \<Longrightarrow> \<exists>x \<in> set (rows s). conflict x r \<Longrightarrow> E ConstraintError t"
    and "\<And>t. mf \<Longrightarrow> eframe s t \<Longrightarrow> E DriverError t"
  shows "wp (mapErr createErr (CreateNode nd r)) Q E s"
  unfolding wp_simps
  by (rule wp_mono [OF create_law]) (use assms in \<open>auto simp: createErr_def split: if_splits\<close>)

lemma wp_UpdateOne:
  assumes "\<And>r t. frame s t \<Longrightarrow> rows t = updated (\<lambda>x. key x = i) u (rows s) \<Longrightarrow>
      uniq key conflict (rows t) \<Longrightarrow> r \<in> set (rows s) \<Longrightarrow> key r = i \<Longrightarrow> Q (u r) t"
    and "\<And>t. eframe s t \<Longrightarrow> i \<notin> key ` set (rows s) \<Longrightarrow> E NotFoundError t"
    and "\<And>t. eframe s t \<Longrightarrow> \<not> uniq key conflict (updated (\<lambda>x. key x = i) u (rows s)) \<Longrightarrow>
      E ConstraintError t"
    and "\<And>t. mf \<Longrightarrow> eframe s t \<Longrightarrow> E DriverError t"
  shows "wp (UpdateOneSave nd i u) Q E s"
  unfolding UpdateOneSave_def wp_simps
  by (rule wp_mono [OF update_one_law])
     (use assms in \<open>auto simp: sqlErr_def split: if_splits sql_error.splits\<close>)

lemma wp_Update:
  assumes "\<And>n t. frame s t \<Longrightarrow> rows t = updated (matches ps) u (rows s) \<Longrightarrow>
      uniq key conflict (rows t) \<Longrightarrow>
      length (filter (\<lambda>r. matches ps r \<and> u r \<noteq> r) (rows s)) \<le> n \<Longrightarrow>
      n \<le> length (filter (matches ps) (rows s)) \<Longrightarrow> Q n t"
    and "\<And>t. eframe s t \<Longrightarrow> \<not> uniq key conflict (updated (matches ps) u (rows s)) \<Longrightarrow>
      E ConstraintError t"
    and "\<And>e t. mf \<Longrightarrow> eframe s t \<Longrightarrow> e \<noteq> ConstraintError \<Longrightarrow> E e t"
  shows "wp (UpdateSave nd ps u) Q E s"
  unfolding UpdateSave_def wp_simps
  by (rule wp_mono [OF update_law])
     (use assms in \<open>auto simp: sqlErr_def split: if_splits sql_error.splits\<close>)

lemma wp_Delete:
  assumes "\<And>t. frame s t \<Longrightarrow> rows t = filter (\<lambda>r. \<not> matches ps r) (rows s) \<Longrightarrow>
      Q (length (filter (matches ps) (rows s))) t"
    and "\<And>e t. mf \<Longrightarrow> eframe s t \<Longrightarrow> E e t"
  shows "wp (DeleteExec nd ps) Q E s"
  unfolding DeleteExec_def wp_simps by (rule wp_mono [OF delete_law]) (use assms in auto)

lemma wp_DeleteOne:
  assumes "\<And>t. frame s t \<Longrightarrow> rows t = filter (\<lambda>r. \<not> isId r) (rows s) \<Longrightarrow>
      \<exists>r \<in> set (rows s). isId r \<Longrightarrow> Q () t"
    and "\<And>t. frame s t \<Longrightarrow> rows t = rows s \<Longrightarrow> \<forall>r \<in> set (rows s). \<not> isId r \<Longrightarrow> E NotFoundError t"
    and "\<And>e t. mf \<Longrightarrow> eframe s t \<Longrightarrow> E e t"
  shows "wp (DeleteOneExec nd isId) Q E s"
  unfolding DeleteOneExec_def wp_simps
proof (rule wp_Delete, goal_cases)
  case (1 t)
  show ?case
  proof (cases "\<exists>r \<in> set (rows s). isId r")
    case True
    then have "length (filter (matches [isId]) (rows s)) \<noteq> 0"
      by (auto simp: matches_def filter_empty_conv)
    with 1 True assms(1) show ?thesis by (simp add: wp_simps matches_def)
  next
    case False
    then have f: "filter (matches [isId]) (rows s) = []" "filter (\<lambda>r. \<not> isId r) (rows s) = rows s"
      by (auto simp: matches_def filter_empty_conv filter_id_conv)
    with 1 False assms(2) show ?thesis by (simp add: wp_simps matches_def)
  qed
next
  case (2 e t)
  with assms(3) show ?case by simp
qed

end

section \<open>An executable table\<close>

definition mem_nodes ::
  "('s \<Rightarrow> 'r list) \<Rightarrow> ('r list \<Rightarrow> 's \<Rightarrow> 's) \<Rightarrow> ('r \<Rightarrow> 'id) \<Rightarrow> ('id \<Rightarrow> 'r \<Rightarrow> 'r)
   \<Rightarrow> ('r \<Rightarrow> 'r \<Rightarrow> bool) \<Rightarrow> ('r list \<Rightarrow> 'id) \<Rightarrow> ('s, 'r, 'id) nodes" where
  "mem_nodes get put key setkey conflict fresh =
    \<lparr>QueryNodes = (\<lambda>q s. (Inr (let full = sort_key (order q) (filter (matches (predicates q)) (get s))
                               in case limit q of None \<Rightarrow> full | Some n \<Rightarrow> take n full), s)),
     CountNodes = (\<lambda>q s. (Inr (length (filter (matches (predicates q)) (get s))), s)),
     CreateNode = (\<lambda>r s. let i = fresh (get s); new = get s @ [setkey i r]
                         in if uniq key conflict new then (Inr i, put new s) else (Inl SqlConstraint, s)),
     UpsertNode = (\<lambda>r s. if key r \<in> key ` set (get s) then (Inr (), s) else (Inr (), put (get s @ [r]) s)),
     UpdateNodes = (\<lambda>ps u s. let new = updated (matches ps) u (get s)
                             in if uniq key conflict new
                                then (Inr (length (filter (\<lambda>r. matches ps r \<and> u r \<noteq> r) (get s))), put new s)
                                else (Inl SqlConstraint, s)),
     UpdateNode = (\<lambda>i u s. let new = updated (\<lambda>r. key r = i) u (get s)
                           in case find (\<lambda>r. key r = i) (get s) of
                                None \<Rightarrow> (Inl SqlNotFound, s)
                              | Some r \<Rightarrow> if uniq key conflict new then (Inr (u r), put new s)
                                          else (Inl SqlConstraint, s)),
     DeleteNodes = (\<lambda>ps s. (Inr (length (filter (matches ps) (get s))),
                            put (filter (\<lambda>r. \<not> matches ps r) (get s)) s))\<rparr>"

lemma uniq_snoc:
  "uniq key conflict (xs @ [r]) \<longleftrightarrow>
     uniq key conflict xs \<and> key r \<notin> key ` set xs \<and> (\<forall>x \<in> set xs. \<not> conflict x r)"
  by (auto simp: uniq_def sorted_wrt_append)

lemma mem_node_table:
  assumes get_put: "\<And>xs s. get (put xs s) = xs"
    and frame_put: "\<And>xs s. frame s (put xs s)" and frame_refl: "\<And>s. frame s s"
    and eframe_refl: "\<And>s. eframe s s"
    and key_setkey: "\<And>i r. key (setkey i r) = i"
    and conflict_setkey: "\<And>x i r. conflict x (setkey i r) = conflict x r"
    and fresh: "\<And>xs. fresh xs \<notin> key ` set xs"
  shows "node_table mf (mem_nodes get put key setkey conflict fresh) get frame eframe key setkey conflict"
proof (unfold_locales, goal_cases)
  case (1 q s)
  have "selects q (get s) (let full = sort_key (order q) (filter (matches (predicates q)) (get s))
          in case limit q of None \<Rightarrow> full | Some n \<Rightarrow> take n full)"
    unfolding selects_def Let_def
    by (rule exI [of _ "sort_key (order q) (filter (matches (predicates q)) (get s))"]) simp
  then show ?case by (simp add: wp_def mem_nodes_def frame_refl)
next
  case (2 q s)
  then show ?case by (simp add: wp_def mem_nodes_def frame_refl)
next
  case (3 s r)
  then show ?case
    using fresh [of "get s"]
    by (auto simp: wp_def mem_nodes_def Let_def uniq_snoc key_setkey conflict_setkey get_put
        frame_put eframe_refl)
next
  case (4 r s)
  then show ?case by (simp add: wp_def mem_nodes_def get_put frame_put frame_refl)
next
  case (5 ps u s)
  have "length (filter (\<lambda>r. matches ps r \<and> u r \<noteq> r) (get s)) \<le> length (filter (matches ps) (get s))"
    using length_filter_le [of "\<lambda>r. u r \<noteq> r" "filter (matches ps) (get s)"]
    by (simp only: filter_filter)
  then show ?case by (simp add: wp_def mem_nodes_def Let_def get_put frame_put eframe_refl)
next
  case (6 i u s)
  show ?case
  proof (cases "find (\<lambda>r. key r = i) (get s)")
    case None
    then have "i \<notin> key ` set (get s)" by (auto simp: find_None_iff)
    with None show ?thesis by (simp add: wp_def mem_nodes_def Let_def eframe_refl)
  next
    case (Some r)
    then have "r \<in> set (get s)" and "key r = i" by (auto simp: find_Some_iff)
    with Some show ?thesis
      by (auto simp: wp_def mem_nodes_def Let_def get_put frame_put eframe_refl)
  qed
next
  case (7 ps s)
  then show ?case by (simp add: wp_def mem_nodes_def get_put frame_put)
qed

definition freshNat :: "('r \<Rightarrow> nat) \<Rightarrow> 'r list \<Rightarrow> nat" where
  "freshNat key xs = Suc (fold max (map key xs) 0)"

lemma fold_max_ge: "(a::'a::linorder) \<le> fold max xs a"
proof (induction xs arbitrary: a)
  case (Cons x xs)
  have "a \<le> max x a" by simp
  also have "\<dots> \<le> fold max xs (max x a)" by (rule Cons.IH)
  finally show ?case by simp
qed simp

lemma fold_max_upper: "(n::'a::linorder) \<in> set xs \<Longrightarrow> n \<le> fold max xs a"
proof (induction xs arbitrary: a)
  case (Cons x xs)
  show ?case
  proof (cases "n = x")
    case True
    then have "n \<le> max x a" by simp
    also have "\<dots> \<le> fold max xs (max x a)" by (rule fold_max_ge)
    finally show ?thesis by simp
  next
    case False
    with Cons show ?thesis by simp
  qed
qed simp

lemma freshNat_fresh: "freshNat key xs \<notin> key ` set xs"
proof
  assume "freshNat key xs \<in> key ` set xs"
  then have "freshNat key xs \<le> fold max (map key xs) 0" by (simp add: fold_max_upper)
  then show False by (simp add: freshNat_def)
qed

definition freshInt :: "('r \<Rightarrow> int) \<Rightarrow> 'r list \<Rightarrow> int" where
  "freshInt key xs = fold max (map key xs) 0 + 1"

lemma freshInt_fresh: "freshInt key xs \<notin> key ` set xs"
proof
  assume "freshInt key xs \<in> key ` set xs"
  then have "freshInt key xs \<le> fold max (map key xs) 0" by (simp add: fold_max_upper)
  then show False by (simp add: freshInt_def)
qed

end
