(* ===== verification/ItemsStore.thy ===== *)
theory ItemsStore
  imports Ent
begin

text \<open>
  The item store, \<open>app/Api/items/internal/store/store.go\<close>, with the parts of its generated
  ent package that it runs (\<open>ent/mutation.go\<close>, \<open>ent/item_create.go\<close>, \<open>ent/item_update.go\<close>,
  \<open>ent/itemnonce_create.go\<close>, \<open>ent/itemuserlock_create.go\<close>, \<open>ent/item/where.go\<close>,
  \<open>ent/schema\<close>). The MySQL connection, the transaction and the clock are the parameter \<open>drv\<close>;
  the item configuration is the map \<open>cfg\<close>. Counts and Unix times are int64 values; Go
  arithmetic on them is wrapped with \<open>wrap64\<close>.
\<close>

section \<open>Data\<close>

record ItemConfig =
  ci_ItemTypeId :: int
  ci_ItemSystemId :: int
  ci_Level :: int
  ci_Name :: string
  ci_Desc :: string
  ci_StackMode :: int
  ci_StackCnt :: int
  ci_ExtraArgs :: string

definition StackModeCount :: int where "StackModeCount = 0"
definition StackModeTime :: int where "StackModeTime = 1"

definition GetItem :: "(int \<rightharpoonup> ItemConfig) \<Rightarrow> int \<Rightarrow> ItemConfig option" where
  "GetItem cfg itemType = cfg itemType"

record Reward =
  rw_ItemTypeId :: int
  rw_Count :: int
  rw_ExpireDurationSec :: int
  rw_ExpireTimeUnix :: int
  rw_Args :: string

definition OperationTypeGrant :: int where "OperationTypeGrant = 1"
definition OperationTypeUse :: int where "OperationTypeUse = 2"
definition OperationTypeRevoke :: int where "OperationTypeRevoke = 3"

record Item =
  it_ID :: int
  it_UID :: uint64
  it_ItemID :: int
  it_Count :: int
  it_UsedCount :: int
  it_ExpireAtUnix :: int
  it_Source :: string
  it_CreateAtUnix :: int
  it_UpdateAtUnix :: int

record ItemNonce =
  in_ID :: uint64
  in_UID :: uint64
  in_Nonce :: string
  in_OpType :: int
  in_CreateAtUnix :: int

record ItemUserLock =
  il_ID :: uint64

text \<open>The unique index of \<open>schema/item_nonce.go\<close>.\<close>

definition nonceConflict :: "ItemNonce \<Rightarrow> ItemNonce \<Rightarrow> bool" where
  "nonceConflict a b \<longleftrightarrow> in_UID a = in_UID b \<and> in_Nonce a = in_Nonce b \<and> in_OpType a = in_OpType b"

section \<open>The external services\<close>

record 's item_drv =
  BeginTx :: "('s, sql_error, unit) act"
  CommitTx :: "('s, sql_error, unit) act"
  RollbackTx :: "('s, sql_error, unit) act"
  TxItem :: "('s, Item, int) nodes"
  TxNonce :: "('s, ItemNonce, uint64) nodes"
  TxLock :: "('s, ItemUserLock, uint64) nodes"
  DbItem :: "('s, Item, int) nodes"
  Clock :: "'s \<Rightarrow> gotime \<times> 's"

definition timeNow :: "'s item_drv \<Rightarrow> ('s, 'e, gotime) act" where
  "timeNow drv s = (case Clock drv s of (t, s') \<Rightarrow> (Inr t, s'))"

datatype item_error =
    EntErr ent_error
  | TxErr
  | ErrGrantNotCompleted
  | NilReward
  | NoItemConfig int
  | UnknownStackMode int int
  | GrantItemErr int item_error
  | RevokeItemErr int item_error

section \<open>Mutations\<close>

record ItemMutation =
  m_uid :: "uint64 option"
  m_item_id :: "int option"
  m_count :: "int option"
  m_addcount :: "int option"
  m_used_count :: "int option"
  m_addused_count :: "int option"
  m_expire_at_unix :: "int option"
  m_addexpire_at_unix :: "int option"
  m_source :: "string option"
  m_create_at_unix :: "int option"
  m_update_at_unix :: "int option"
  m_addupdate_at_unix :: "int option"

definition newItemMutation :: ItemMutation where
  "newItemMutation = \<lparr>m_uid = None, m_item_id = None, m_count = None, m_addcount = None,
     m_used_count = None, m_addused_count = None, m_expire_at_unix = None,
     m_addexpire_at_unix = None, m_source = None, m_create_at_unix = None,
     m_update_at_unix = None, m_addupdate_at_unix = None\<rparr>"

definition SetUID :: "uint64 \<Rightarrow> ItemMutation \<Rightarrow> ItemMutation" where
  "SetUID v m = m\<lparr>m_uid := Some v\<rparr>"

definition SetItemID :: "int \<Rightarrow> ItemMutation \<Rightarrow> ItemMutation" where
  "SetItemID v m = m\<lparr>m_item_id := Some v\<rparr>"

definition SetCount :: "int \<Rightarrow> ItemMutation \<Rightarrow> ItemMutation" where
  "SetCount v m = m\<lparr>m_count := Some v, m_addcount := None\<rparr>"

definition AddCount :: "int \<Rightarrow> ItemMutation \<Rightarrow> ItemMutation" where
  "AddCount v m = m\<lparr>m_addcount :=
     (case m_addcount m of Some a \<Rightarrow> Some (wrap64 (a + v)) | None \<Rightarrow> Some v)\<rparr>"

definition SetUsedCount :: "int \<Rightarrow> ItemMutation \<Rightarrow> ItemMutation" where
  "SetUsedCount v m = m\<lparr>m_used_count := Some v, m_addused_count := None\<rparr>"

definition AddUsedCount :: "int \<Rightarrow> ItemMutation \<Rightarrow> ItemMutation" where
  "AddUsedCount v m = m\<lparr>m_addused_count :=
     (case m_addused_count m of Some a \<Rightarrow> Some (wrap64 (a + v)) | None \<Rightarrow> Some v)\<rparr>"

definition SetExpireAtUnix :: "int \<Rightarrow> ItemMutation \<Rightarrow> ItemMutation" where
  "SetExpireAtUnix v m = m\<lparr>m_expire_at_unix := Some v, m_addexpire_at_unix := None\<rparr>"

definition SetSource :: "string \<Rightarrow> ItemMutation \<Rightarrow> ItemMutation" where
  "SetSource v m = m\<lparr>m_source := Some v\<rparr>"

definition SetCreateAtUnix :: "int \<Rightarrow> ItemMutation \<Rightarrow> ItemMutation" where
  "SetCreateAtUnix v m = m\<lparr>m_create_at_unix := Some v\<rparr>"

definition SetUpdateAtUnix :: "int \<Rightarrow> ItemMutation \<Rightarrow> ItemMutation" where
  "SetUpdateAtUnix v m = m\<lparr>m_update_at_unix := Some v, m_addupdate_at_unix := None\<rparr>"

lemmas item_setters [simp] = newItemMutation_def SetUID_def SetItemID_def SetCount_def AddCount_def
  SetUsedCount_def AddUsedCount_def SetExpireAtUnix_def SetSource_def SetCreateAtUnix_def
  SetUpdateAtUnix_def

section \<open>The create builder of Item\<close>

definition orDefault :: "'a \<Rightarrow> 'a option \<Rightarrow> 'a option" where
  "orDefault d x = (case x of None \<Rightarrow> Some d | Some v \<Rightarrow> Some v)"

lemma orDefault_simps [simp]: "orDefault d None = Some d" "orDefault d (Some v) = Some v"
  by (simp_all add: orDefault_def)

definition ItemCreate_defaults :: "int \<Rightarrow> ItemMutation \<Rightarrow> ItemMutation" where
  "ItemCreate_defaults nowUnix m = m\<lparr>
     m_used_count := orDefault 0 (m_used_count m),
     m_expire_at_unix := orDefault 0 (m_expire_at_unix m),
     m_source := orDefault '''' (m_source m),
     m_create_at_unix := orDefault nowUnix (m_create_at_unix m),
     m_update_at_unix := orDefault nowUnix (m_update_at_unix m)\<rparr>"

definition CountValidator :: "int \<Rightarrow> bool" where
  "CountValidator v \<longleftrightarrow> 0 \<le> v"

definition UsedCountValidator :: "int \<Rightarrow> bool" where
  "UsedCountValidator v \<longleftrightarrow> 0 \<le> v"

definition SourceValidator :: "string \<Rightarrow> bool" where
  "SourceValidator v \<longleftrightarrow> length v \<le> 255"

definition ItemCreate_check :: "ItemMutation \<Rightarrow> ent_error option" where
  "ItemCreate_check m =
     (if m_uid m = None then Some (ValidationError ''uid'')
      else if m_item_id m = None then Some (ValidationError ''item_id'')
      else if m_count m = None then Some (ValidationError ''count'')
      else if \<not> CountValidator (the (m_count m)) then Some (ValidationError ''count'')
      else if m_used_count m = None then Some (ValidationError ''used_count'')
      else if \<not> UsedCountValidator (the (m_used_count m)) then Some (ValidationError ''used_count'')
      else if m_expire_at_unix m = None then Some (ValidationError ''expire_at_unix'')
      else if m_source m = None then Some (ValidationError ''source'')
      else if \<not> SourceValidator (the (m_source m)) then Some (ValidationError ''source'')
      else if m_create_at_unix m = None then Some (ValidationError ''create_at_unix'')
      else if m_update_at_unix m = None then Some (ValidationError ''update_at_unix'')
      else None)"

text \<open>The node that \<open>createSpec\<close> fills: an unset field keeps Go's zero value.\<close>

definition ItemCreate_createSpec :: "ItemMutation \<Rightarrow> Item" where
  "ItemCreate_createSpec m = \<lparr>it_ID = 0, it_UID = getOr 0 (m_uid m), it_ItemID = getOr 0 (m_item_id m),
     it_Count = getOr 0 (m_count m), it_UsedCount = getOr 0 (m_used_count m),
     it_ExpireAtUnix = getOr 0 (m_expire_at_unix m), it_Source = getOr '''' (m_source m),
     it_CreateAtUnix = getOr 0 (m_create_at_unix m), it_UpdateAtUnix = getOr 0 (m_update_at_unix m)\<rparr>"

definition ItemCreate_sqlSave ::
  "('s, Item, int) nodes \<Rightarrow> ItemMutation \<Rightarrow> ('s, ent_error, Item) act" where
  "ItemCreate_sqlSave nd m =
     (case ItemCreate_check m of
        Some e \<Rightarrow> fail e
      | None \<Rightarrow> andThen (mapErr createErr (CreateNode nd (ItemCreate_createSpec m)))
          (\<lambda>i. ok ((ItemCreate_createSpec m)\<lparr>it_ID := i\<rparr>)))"

definition ItemCreate_Save ::
  "'s item_drv \<Rightarrow> ItemMutation \<Rightarrow> ('s, ent_error, Item) act" where
  "ItemCreate_Save drv m =
     andThen (timeNow drv) (\<lambda>t.
       ItemCreate_sqlSave (TxItem drv) (ItemCreate_defaults (UnixSec t) m))"

section \<open>The update builder of Item\<close>

definition ItemUpdateOne_check :: "ItemMutation \<Rightarrow> ent_error option" where
  "ItemUpdateOne_check m =
     (case m_count m of
        Some v \<Rightarrow> if \<not> CountValidator v then Some (ValidationError ''count'') else
          (case m_used_count m of
             Some u \<Rightarrow> if \<not> UsedCountValidator u then Some (ValidationError ''used_count'') else None
           | None \<Rightarrow> None)
      | None \<Rightarrow>
          (case m_used_count m of
             Some u \<Rightarrow> if \<not> UsedCountValidator u then Some (ValidationError ''used_count'') else None
           | None \<Rightarrow> None))"

definition setAdd :: "int option \<Rightarrow> int option \<Rightarrow> int \<Rightarrow> int" where
  "setAdd st ad v = getOr v st + getOr 0 ad"

definition ItemUpdateOne_spec :: "ItemMutation \<Rightarrow> Item \<Rightarrow> Item" where
  "ItemUpdateOne_spec m r = r\<lparr>
     it_Count := setAdd (m_count m) (m_addcount m) (it_Count r),
     it_UsedCount := setAdd (m_used_count m) (m_addused_count m) (it_UsedCount r),
     it_ExpireAtUnix := setAdd (m_expire_at_unix m) (m_addexpire_at_unix m) (it_ExpireAtUnix r),
     it_UpdateAtUnix := setAdd (m_update_at_unix m) (m_addupdate_at_unix m) (it_UpdateAtUnix r)\<rparr>"

definition ItemUpdateOne_sqlSave ::
  "('s, Item, int) nodes \<Rightarrow> int \<Rightarrow> ItemMutation \<Rightarrow> ('s, ent_error, Item) act" where
  "ItemUpdateOne_sqlSave nd i m =
     (case ItemUpdateOne_check m of
        Some e \<Rightarrow> fail e
      | None \<Rightarrow> UpdateOneSave nd i (ItemUpdateOne_spec m))"

text \<open>Every caller sets \<open>update_at_unix\<close>, so the default of \<open>defaults()\<close> is used only when it does not.\<close>

definition ItemUpdateOne_Save ::
  "'s item_drv \<Rightarrow> int \<Rightarrow> ItemMutation \<Rightarrow> ('s, ent_error, Item) act" where
  "ItemUpdateOne_Save drv i m =
     (case m_update_at_unix m of
        Some _ \<Rightarrow> ItemUpdateOne_sqlSave (TxItem drv) i m
      | None \<Rightarrow> andThen (timeNow drv) (\<lambda>t.
          ItemUpdateOne_sqlSave (TxItem drv) i (SetUpdateAtUnix (UnixSec t) m)))"

section \<open>The create builder of ItemNonce and the lock row\<close>

definition NonceValidator :: "string \<Rightarrow> bool" where
  "NonceValidator v \<longleftrightarrow> length v \<le> 128"

definition ItemNonceCreate_Save ::
  "'s item_drv \<Rightarrow> uint64 \<Rightarrow> string \<Rightarrow> int \<Rightarrow> ('s, ent_error, unit) act" where
  "ItemNonceCreate_Save drv uid nonce opType =
     andThen (timeNow drv) (\<lambda>t.
       if \<not> NonceValidator nonce then fail (ValidationError ''nonce'')
       else andThen (mapErr createErr (CreateNode (TxNonce drv)
              \<lparr>in_ID = 0, in_UID = uid, in_Nonce = nonce, in_OpType = opType,
               in_CreateAtUnix = UnixSec t\<rparr>)) (\<lambda>_. ok ()))"

definition lockUID :: "'s item_drv \<Rightarrow> uint64 \<Rightarrow> ('s, item_error, unit) act" where
  "lockUID drv uid = mapErr (\<lambda>e. EntErr (createErr e)) (UpsertNode (TxLock drv) \<lparr>il_ID = uid\<rparr>)"

section \<open>Predicates and order\<close>

definition ItemUIDEQ :: "uint64 \<Rightarrow> Item \<Rightarrow> bool" where
  "ItemUIDEQ v r \<longleftrightarrow> it_UID r = v"

definition ItemIDEQ :: "int \<Rightarrow> Item \<Rightarrow> bool" where
  "ItemIDEQ v r \<longleftrightarrow> it_ItemID r = v"

definition ExpireAtUnixEQ :: "int \<Rightarrow> Item \<Rightarrow> bool" where
  "ExpireAtUnixEQ v r \<longleftrightarrow> it_ExpireAtUnix r = v"

definition ExpireAtUnixGT :: "int \<Rightarrow> Item \<Rightarrow> bool" where
  "ExpireAtUnixGT v r \<longleftrightarrow> v < it_ExpireAtUnix r"

definition notExpiredPredicate :: "int \<Rightarrow> Item \<Rightarrow> bool" where
  "notExpiredPredicate now r \<longleftrightarrow> it_ExpireAtUnix r = 0 \<or> now < it_ExpireAtUnix r"

definition availablePredicate :: "Item \<Rightarrow> bool" where
  "availablePredicate r \<longleftrightarrow> it_UsedCount r < it_Count r"

definition NonceUIDEQ :: "uint64 \<Rightarrow> ItemNonce \<Rightarrow> bool" where
  "NonceUIDEQ v r \<longleftrightarrow> in_UID r = v"

definition NonceEQ :: "string \<Rightarrow> ItemNonce \<Rightarrow> bool" where
  "NonceEQ v r \<longleftrightarrow> in_Nonce r = v"

definition OpTypeEQ :: "int \<Rightarrow> ItemNonce \<Rightarrow> bool" where
  "OpTypeEQ v r \<longleftrightarrow> in_OpType r = v"

lemmas item_preds [simp] = ItemUIDEQ_def ItemIDEQ_def ExpireAtUnixEQ_def ExpireAtUnixGT_def
  notExpiredPredicate_def availablePredicate_def NonceUIDEQ_def NonceEQ_def OpTypeEQ_def

text \<open>\<open>(`expire_at_unix` = 0) ASC, `expire_at_unix` ASC\<close>: expiring items first, soonest first.\<close>

definition expireOrder :: "Item \<Rightarrow> int \<times> int" where
  "expireOrder r = (if it_ExpireAtUnix r = 0 then 1 else 0, it_ExpireAtUnix r)"

section \<open>Reading the bag\<close>

definition GetItems :: "'s item_drv \<Rightarrow> uint64 \<Rightarrow> ('s, ent_error, Item list) act" where
  "GetItems drv uid = andThen (timeNow drv) (\<lambda>t.
     All (DbItem drv) (Where [ItemUIDEQ uid, notExpiredPredicate (UnixSec t), availablePredicate] Query))"

section \<open>Adding items\<close>

definition expireUnix :: "gotime \<Rightarrow> int" where
  "expireUnix expireAt = (if \<not> IsZero expireAt then UnixSec expireAt else 0)"

definition addItemUnlimitedInTx ::
  "'s item_drv \<Rightarrow> uint64 \<Rightarrow> int \<Rightarrow> int \<Rightarrow> gotime \<Rightarrow> ('s, item_error, int) act" where
  "addItemUnlimitedInTx drv uid itemTypeId cnt expireAt =
     (if cnt \<le> 0 then ok 0
      else andThen (timeNow drv) (\<lambda>t.
        let now = UnixSec t; expireAtUnix = expireUnix expireAt in
        andThen (attempt (First (TxItem drv)
            (Where [ItemUIDEQ uid, ItemIDEQ itemTypeId, ExpireAtUnixEQ expireAtUnix] Query)))
          (\<lambda>found. case found of
             Inl e \<Rightarrow>
               if \<not> IsNotFound e then fail (EntErr e)
               else andThen (mapErr EntErr (ItemCreate_Save drv
                      (SetUpdateAtUnix now (SetCreateAtUnix now (SetExpireAtUnix expireAtUnix
                        (SetUsedCount 0 (SetCount cnt (SetItemID itemTypeId
                          (SetUID uid newItemMutation)))))))))
                    (\<lambda>_. ok cnt)
           | Inr existing \<Rightarrow>
               andThen (mapErr EntErr (ItemUpdateOne_Save drv (it_ID existing)
                      (SetUpdateAtUnix now (AddCount cnt newItemMutation))))
                    (\<lambda>_. ok (wrap64 (wrap64 (it_Count existing + cnt) - it_UsedCount existing))))))"

fun mergeDuration :: "int \<Rightarrow> int \<Rightarrow> Item list \<Rightarrow> int" where
  "mergeDuration now totalDuration [] = totalDuration"
| "mergeDuration now totalDuration (row # rows) =
     (let available = wrap64 (it_Count row - it_UsedCount row) in
      if available \<le> 0 then mergeDuration now totalDuration rows
      else mergeDuration now
             (wrap64 (totalDuration + wrap64 (wrap64 (it_ExpireAtUnix row - now) * available))) rows)"

definition addItemTimeStackInTx ::
  "'s item_drv \<Rightarrow> uint64 \<Rightarrow> int \<Rightarrow> int \<Rightarrow> gotime \<Rightarrow> ('s, item_error, int) act" where
  "addItemTimeStackInTx drv uid itemTypeId cnt expireAt =
     (if cnt \<le> 0 then ok 0
      else andThen (timeNow drv) (\<lambda>t.
        let now = UnixSec t; expireAtUnix = expireUnix expireAt in
        if expireAtUnix = 0 then addItemUnlimitedInTx drv uid itemTypeId cnt expireAt
        else let unitDuration = wrap64 (expireAtUnix - now) in
        if unitDuration \<le> 0 then ok 0
        else andThen (mapErr EntErr (All (TxItem drv)
               (Order expireOrder
                 (Where [ItemUIDEQ uid, ItemIDEQ itemTypeId, ExpireAtUnixGT now] Query))))
          (\<lambda>rows.
             let totalDuration = mergeDuration now (wrap64 (unitDuration * cnt)) rows;
                 newExpireAtUnix = wrap64 (now + totalDuration) in
             case rows of
               [] \<Rightarrow>
                 andThen (mapErr EntErr (ItemCreate_Save drv
                      (SetUpdateAtUnix now (SetCreateAtUnix now (SetExpireAtUnix newExpireAtUnix
                        (SetUsedCount 0 (SetCount 1 (SetItemID itemTypeId
                          (SetUID uid newItemMutation)))))))))
                   (\<lambda>_. ok 1)
             | selected # others \<Rightarrow>
                 andThen (forEach others (\<lambda>row.
                     mapErr EntErr (DeleteOneExec (TxItem drv) (\<lambda>r. it_ID r = it_ID row))))
                   (\<lambda>_. andThen (mapErr EntErr (ItemUpdateOne_Save drv (it_ID selected)
                      (SetUpdateAtUnix now (SetExpireAtUnix newExpireAtUnix
                        (SetUsedCount 0 (SetCount 1 newItemMutation))))))
                     (\<lambda>_. ok 1)))))"

text \<open>
  A store operation runs in a transaction: the deferred rollback runs on every path that did
  not commit, errors included. The body says with its second component whether it committed.
\<close>

definition withTx ::
  "'s item_drv \<Rightarrow> ('s, item_error, 'a \<times> bool) act \<Rightarrow> ('s, item_error, 'a) act" where
  "withTx drv body = andThen (mapErr (\<lambda>_. TxErr) (BeginTx drv)) (\<lambda>_ s.
     case body s of
       (Inr (x, committed), t) \<Rightarrow> (Inr x, if committed then t else snd (RollbackTx drv t))
     | (Inl e, t) \<Rightarrow> (Inl e, snd (RollbackTx drv t)))"

definition AddItem ::
  "'s item_drv \<Rightarrow> uint64 \<Rightarrow> int \<Rightarrow> int \<Rightarrow> int \<Rightarrow> gotime \<Rightarrow> ('s, item_error, int) act" where
  "AddItem drv uid stackMode itemTypeId cnt expireAt = withTx drv
     (andThen (lockUID drv uid) (\<lambda>_.
      andThen (if stackMode = StackModeTime
               then addItemTimeStackInTx drv uid itemTypeId cnt expireAt
               else addItemUnlimitedInTx drv uid itemTypeId cnt expireAt) (\<lambda>ret.
      andThen (mapErr (\<lambda>_. TxErr) (CommitTx drv)) (\<lambda>_. ok (ret, True)))))"

definition rewardExpireAt :: "gotime \<Rightarrow> Reward \<Rightarrow> gotime" where
  "rewardExpireAt now reward =
     (if 0 < rw_ExpireTimeUnix reward then timeUnix (rw_ExpireTimeUnix reward)
      else if 0 < rw_ExpireDurationSec reward
           then now + wrap64 (rw_ExpireDurationSec reward * Second)
      else zeroTime)"

definition addReward ::
  "'s item_drv \<Rightarrow> (int \<rightharpoonup> ItemConfig) \<Rightarrow> uint64 \<Rightarrow> gotime \<Rightarrow> Reward option
   \<Rightarrow> ('s, item_error, unit) act" where
  "addReward drv cfg uid now rw =
     (case rw of
        None \<Rightarrow> fail NilReward
      | Some reward \<Rightarrow>
          (case GetItem cfg (rw_ItemTypeId reward) of
             None \<Rightarrow> fail (NoItemConfig (rw_ItemTypeId reward))
           | Some itemConfig \<Rightarrow>
               let expireAt = rewardExpireAt now reward in
               if ci_StackMode itemConfig = StackModeTime
               then mapErr (GrantItemErr (rw_ItemTypeId reward)) (andThen
                      (addItemTimeStackInTx drv uid (rw_ItemTypeId reward) (rw_Count reward) expireAt)
                      (\<lambda>_. ok ()))
               else if ci_StackMode itemConfig = StackModeCount
               then mapErr (GrantItemErr (rw_ItemTypeId reward)) (andThen
                      (addItemUnlimitedInTx drv uid (rw_ItemTypeId reward) (rw_Count reward) expireAt)
                      (\<lambda>_. ok ()))
               else fail (UnknownStackMode (rw_ItemTypeId reward) (ci_StackMode itemConfig))))"

definition AddItems ::
  "'s item_drv \<Rightarrow> (int \<rightharpoonup> ItemConfig) \<Rightarrow> uint64 \<Rightarrow> string \<Rightarrow> Reward option list
   \<Rightarrow> ('s, item_error, unit) act" where
  "AddItems drv cfg uid nonce rewards = withTx drv
     (andThen (lockUID drv uid) (\<lambda>_.
      andThen (attempt (ItemNonceCreate_Save drv uid nonce OperationTypeGrant)) (\<lambda>created.
        case created of
          Inl e \<Rightarrow> if IsConstraintError e then ok ((), False) else fail (EntErr e)
        | Inr _ \<Rightarrow>
            andThen (timeNow drv) (\<lambda>now.
            andThen (forEach rewards (addReward drv cfg uid now)) (\<lambda>_.
            andThen (mapErr (\<lambda>_. TxErr) (CommitTx drv)) (\<lambda>_. ok ((), True)))))))"

section \<open>Revoking items\<close>

fun revokeRows :: "'s item_drv \<Rightarrow> int \<Rightarrow> int \<Rightarrow> Item list \<Rightarrow> ('s, item_error, unit) act" where
  "revokeRows drv now remaining [] = ok ()"
| "revokeRows drv now remaining (row # rows) =
     (if remaining \<le> 0 then ok ()
      else let available = wrap64 (it_Count row - it_UsedCount row);
               deduct = min available remaining in
           andThen (mapErr EntErr (ItemUpdateOne_Save drv (it_ID row)
                     (SetUpdateAtUnix now (AddUsedCount deduct newItemMutation))))
             (\<lambda>_. revokeRows drv now (wrap64 (remaining - deduct)) rows))"

definition revokeItemInTx ::
  "'s item_drv \<Rightarrow> uint64 \<Rightarrow> int \<Rightarrow> int \<Rightarrow> int \<Rightarrow> ('s, item_error, unit) act" where
  "revokeItemInTx drv uid itemTypeId cnt now =
     andThen (mapErr EntErr (All (TxItem drv) (Order expireOrder
        (Where [ItemUIDEQ uid, ItemIDEQ itemTypeId, notExpiredPredicate now, availablePredicate] Query))))
      (\<lambda>rows. revokeRows drv now cnt rows)"

definition revokeReward ::
  "'s item_drv \<Rightarrow> uint64 \<Rightarrow> int \<Rightarrow> Reward option \<Rightarrow> ('s, item_error, unit) act" where
  "revokeReward drv uid now rw =
     (case rw of
        None \<Rightarrow> fail NilReward
      | Some reward \<Rightarrow>
          if rw_Count reward \<le> 0 then ok ()
          else mapErr (RevokeItemErr (rw_ItemTypeId reward))
                 (revokeItemInTx drv uid (rw_ItemTypeId reward) (rw_Count reward) now))"

definition RevokeItems ::
  "'s item_drv \<Rightarrow> uint64 \<Rightarrow> string \<Rightarrow> string \<Rightarrow> Reward option list \<Rightarrow> ('s, item_error, unit) act" where
  "RevokeItems drv uid grantNonce revokeNonce rewards = withTx drv
     (andThen (lockUID drv uid) (\<lambda>_.
      andThen (mapErr EntErr (Exist (TxNonce drv)
         (Where [NonceUIDEQ uid, NonceEQ grantNonce, OpTypeEQ OperationTypeGrant] Query)))
      (\<lambda>grantCompleted.
        if \<not> grantCompleted then fail ErrGrantNotCompleted
        else andThen (attempt (ItemNonceCreate_Save drv uid revokeNonce OperationTypeRevoke)) (\<lambda>created.
          case created of
            Inl e \<Rightarrow> if IsConstraintError e then ok ((), False) else fail (EntErr e)
          | Inr _ \<Rightarrow>
              andThen (timeNow drv) (\<lambda>t.
              andThen (forEach rewards (revokeReward drv uid (UnixSec t))) (\<lambda>_.
              andThen (mapErr (\<lambda>_. TxErr) (CommitTx drv)) (\<lambda>_. ok ((), True))))))))"

end
