(* ===== verification/ItemsLaws.thy ===== *)
theory ItemsLaws
  imports ItemsStore
begin

text \<open>
  What the item store relies on and what its operations do, transaction step by transaction
  step. \<open>item_db\<close> collects the laws of the three tables inside a transaction, of begin, commit
  and rollback, and of the clock: \<open>com\<close> is the committed content of the database, \<open>cur\<close> the
  content the open transaction sees. A commit that reports an error may or may not have taken
  effect. Transactions of one player are serialised by the row lock of \<open>lockUID\<close>, so a
  transaction starts from the committed content and no other one commits in between.
\<close>

record item_tables =
  tb_items :: "Item list"
  tb_nonces :: "ItemNonce list"
  tb_locks :: "ItemUserLock list"

definition setItemID :: "int \<Rightarrow> Item \<Rightarrow> Item" where
  "setItemID i r = r\<lparr>it_ID := i\<rparr>"

definition setNonceID :: "uint64 \<Rightarrow> ItemNonce \<Rightarrow> ItemNonce" where
  "setNonceID i r = r\<lparr>in_ID := i\<rparr>"

definition setLockID :: "uint64 \<Rightarrow> ItemUserLock \<Rightarrow> ItemUserLock" where
  "setLockID i r = r\<lparr>il_ID := i\<rparr>"

locale item_db =
  it: node_table mf "TxItem drv" "\<lambda>s. tb_items (cur s)"
        "\<lambda>s t. com t = com s \<and> tb_nonces (cur t) = tb_nonces (cur s)"
        "\<lambda>s t. com t = com s" it_ID setItemID noIndex +
  nn: node_table mf "TxNonce drv" "\<lambda>s. tb_nonces (cur s)"
        "\<lambda>s t. com t = com s \<and> tb_items (cur t) = tb_items (cur s)"
        "\<lambda>s t. com t = com s" in_ID setNonceID nonceConflict +
  lk: node_table mf "TxLock drv" "\<lambda>s. tb_locks (cur s)"
        "\<lambda>s t. com t = com s \<and> tb_items (cur t) = tb_items (cur s) \<and> tb_nonces (cur t) = tb_nonces (cur s)"
        "\<lambda>s t. com t = com s" il_ID setLockID noIndex +
  db: node_table mf "DbItem drv" "\<lambda>s. tb_items (com s)"
        "\<lambda>s t. tb_nonces (com t) = tb_nonces (com s) \<and> tb_locks (com t) = tb_locks (com s)"
        "\<lambda>s t. com t = com s" it_ID setItemID noIndex
  for mf :: bool and drv :: "'s item_drv" and com cur :: "'s \<Rightarrow> item_tables" +
  assumes begin_law:
      "wp (BeginTx drv) (\<lambda>_ t. com t = com s \<and> cur t = com s) (\<lambda>_ t. mf \<and> com t = com s) s"
    and commit_law:
      "wp (CommitTx drv) (\<lambda>_ t. com t = cur s) (\<lambda>_ t. mf \<and> (com t = com s \<or> com t = cur s)) s"
    and rollback_law: "com (snd (RollbackTx drv s)) = com s"
    and clock_law: "Clock drv s = (t, s') \<Longrightarrow> com s' = com s \<and> cur s' = cur s"

definition heldBy :: "uint64 \<Rightarrow> int \<Rightarrow> Item \<Rightarrow> int" where
  "heldBy u i r = (if it_UID r = u \<and> it_ItemID r = i then it_Count r - it_UsedCount r else 0)"

definition held :: "uint64 \<Rightarrow> int \<Rightarrow> Item list \<Rightarrow> int" where
  "held u i rows = sum_list (map (heldBy u i) rows)"

definition wf_tables :: "item_tables \<Rightarrow> bool" where
  "wf_tables T \<longleftrightarrow> uniq it_ID noIndex (tb_items T) \<and> uniq in_ID nonceConflict (tb_nonces T)"

definition bag_ok :: "Item list \<Rightarrow> bool" where
  "bag_ok rows \<longleftrightarrow> (\<forall>r \<in> set rows. 0 \<le> it_UsedCount r \<and> it_UsedCount r \<le> it_Count r)"

definition hasNonce :: "uint64 \<Rightarrow> string \<Rightarrow> int \<Rightarrow> item_tables \<Rightarrow> bool" where
  "hasNonce uid nonce opType T \<longleftrightarrow>
     (\<exists>r \<in> set (tb_nonces T). in_UID r = uid \<and> in_Nonce r = nonce \<and> in_OpType r = opType)"

lemma held_append [simp]: "held u i (xs @ ys) = held u i xs + held u i ys"
  by (simp add: held_def)

lemma held_single [simp]: "held u i [r] = heldBy u i r"
  by (simp add: held_def)

lemma bag_ok_append [simp]: "bag_ok (xs @ ys) \<longleftrightarrow> bag_ok xs \<and> bag_ok ys"
  by (auto simp: bag_ok_def)

lemma held_updated:
  assumes "distinct (map it_ID rows)" and "r \<in> set rows" and "it_ID r = i"
  shows "held u j (updated (\<lambda>x. it_ID x = i) f rows) = held u j rows - heldBy u j r + heldBy u j (f r)"
  using sum_list_update_one [of it_ID rows r "heldBy u j" f] assms
  by (simp add: held_def updated_def)

lemma map_it_ID_updated:
  assumes "\<And>r. it_ID (f r) = it_ID r"
  shows "map it_ID (updated p f rows) = map it_ID rows"
  using assms by (induction rows) (auto simp: updated_def)

lemma bag_ok_updated:
  assumes "bag_ok rows"
    and "\<And>r. r \<in> set rows \<Longrightarrow> p r \<Longrightarrow> 0 \<le> it_UsedCount (f r) \<and> it_UsedCount (f r) \<le> it_Count (f r)"
  shows "bag_ok (updated p f rows)"
  using assms by (auto simp: bag_ok_def updated_def)

lemma ItemUpdateOne_spec_id [simp]:
  "it_ID (ItemUpdateOne_spec m r) = it_ID r"
  "it_UID (ItemUpdateOne_spec m r) = it_UID r"
  "it_ItemID (ItemUpdateOne_spec m r) = it_ItemID r"
  by (simp_all add: ItemUpdateOne_spec_def)

context item_db
begin

lemma wp_timeNow:
  assumes "\<And>s'. com s' = com s \<Longrightarrow> cur s' = cur s \<Longrightarrow> Q (fst (Clock drv s)) s'"
  shows "wp (timeNow drv) Q E s"
  using assms clock_law [of s] by (auto simp: wp_def timeNow_def split: prod.splits)

lemma wp_withTx:
  assumes "\<And>t. com t = com s \<Longrightarrow> cur t = com s \<Longrightarrow>
      wp body (\<lambda>(x, c) t'. Q x (com t')) (\<lambda>e t'. E e (com t')) t"
    and "mf \<Longrightarrow> E TxErr (com s)"
  shows "wp (withTx drv body) (\<lambda>x t. Q x (com t)) (\<lambda>e t. E e (com t)) s"
proof -
  have "wp (\<lambda>s. case body s of
       (Inr (x, committed), t) \<Rightarrow> (Inr x, if committed then t else snd (RollbackTx drv t))
     | (Inl e, t) \<Rightarrow> (Inl e, snd (RollbackTx drv t))) (\<lambda>x t. Q x (com t)) (\<lambda>e t. E e (com t)) t"
    if "com t = com s" "cur t = com s" for t
    using assms(1) [OF that] rollback_law
    by (auto simp: wp_def split: prod.splits sum.splits if_splits)
  with begin_law [of s] assms(2) show ?thesis
    unfolding withTx_def wp_simps by (auto elim!: wp_mono)
qed

lemma wp_lockUID:
  assumes "\<And>t. com t = com s \<Longrightarrow> tb_items (cur t) = tb_items (cur s) \<Longrightarrow>
      tb_nonces (cur t) = tb_nonces (cur s) \<Longrightarrow> Q () t"
    and "\<And>e t. mf \<Longrightarrow> com t = com s \<Longrightarrow> E (EntErr e) t"
  shows "wp (lockUID drv uid) Q E s"
  unfolding lockUID_def wp_simps by (rule wp_mono [OF lk.upsert_law]) (use assms in auto)

lemma wp_commit:
  assumes "\<And>t. com t = cur s \<Longrightarrow> Q () t"
    and "\<And>e t. mf \<Longrightarrow> com t = com s \<or> com t = cur s \<Longrightarrow> E e t"
  shows "wp (CommitTx drv) Q E s"
  by (rule wp_mono [OF commit_law]) (use assms in auto)

lemma wp_NonceCreate:
  assumes wf: "uniq in_ID nonceConflict (tb_nonces (cur s))"
    and "\<And>n t. com t = com s \<Longrightarrow> tb_items (cur t) = tb_items (cur s) \<Longrightarrow>
      uniq in_ID nonceConflict (tb_nonces (cur t)) \<Longrightarrow>
      tb_nonces (cur t) = tb_nonces (cur s) @ [n] \<Longrightarrow> \<not> hasNonce uid nonce opType (cur s) \<Longrightarrow>
      in_UID n = uid \<Longrightarrow> in_Nonce n = nonce \<Longrightarrow> in_OpType n = opType \<Longrightarrow> Q () t"
    and "\<And>t. com t = com s \<Longrightarrow> hasNonce uid nonce opType (cur s) \<Longrightarrow> E ConstraintError t"
    and "\<And>e t. com t = com s \<Longrightarrow> e \<noteq> ConstraintError \<Longrightarrow> (128 < length nonce \<or> mf) \<Longrightarrow> E e t"
  shows "wp (ItemNonceCreate_Save drv uid nonce opType) Q E s"
  unfolding ItemNonceCreate_Save_def wp_simps
proof (rule wp_timeNow, goal_cases)
  case (1 s')
  define n where "n = \<lparr>in_ID = 0, in_UID = uid, in_Nonce = nonce, in_OpType = opType,
    in_CreateAtUnix = UnixSec (fst (Clock drv s))\<rparr>"
  have conf: "nonceConflict x n \<longleftrightarrow> in_UID x = uid \<and> in_Nonce x = nonce \<and> in_OpType x = opType" for x
    by (simp add: n_def nonceConflict_def)
  have "wp (mapErr createErr (CreateNode (TxNonce drv) n)) (\<lambda>_. Q ()) E s'"
  proof (rule nn.wp_Create, goal_cases)
    case 1
    with \<open>cur s' = cur s\<close> wf show ?case by simp
  next
    case (2 i t)
    then have nc: "\<forall>x \<in> set (tb_nonces (cur s')). \<not> nonceConflict x (setNonceID i n)"
      by (simp add: uniq_snoc)
    then have "\<not> hasNonce uid nonce opType (cur s)"
      using \<open>cur s' = cur s\<close> conf by (auto simp: hasNonce_def nonceConflict_def setNonceID_def n_def)
    with 2 \<open>cur s' = cur s\<close> \<open>com s' = com s\<close> assms(2) [of t "setNonceID i n"] show ?case
      by (simp add: setNonceID_def n_def)
  next
    case (3 t)
    then have "hasNonce uid nonce opType (cur s)"
      using \<open>cur s' = cur s\<close> conf by (auto simp: hasNonce_def)
    with 3 \<open>com s' = com s\<close> assms(3) show ?case by simp
  next
    case (4 t)
    with \<open>com s' = com s\<close> assms(4) show ?case by simp
  qed
  then show ?case
    using 1 assms(4) by (auto simp: wp_simps n_def NonceValidator_def)
qed

text \<open>Creating and updating an item row from inside a transaction.\<close>

lemma wp_ItemCreate:
  assumes "0 \<le> c" and wf: "distinct (map it_ID (tb_items (cur s)))"
    and "\<And>r t. com t = com s \<Longrightarrow> tb_nonces (cur t) = tb_nonces (cur s) \<Longrightarrow>
      tb_items (cur t) = tb_items (cur s) @ [r] \<Longrightarrow> distinct (map it_ID (tb_items (cur t))) \<Longrightarrow>
      it_UID r = uid \<Longrightarrow> it_ItemID r = i \<Longrightarrow> it_Count r = c \<Longrightarrow> it_UsedCount r = 0 \<Longrightarrow>
      it_ExpireAtUnix r = e \<Longrightarrow> Q r t"
    and "\<And>err t. mf \<Longrightarrow> com t = com s \<Longrightarrow> E err t"
  shows "wp (ItemCreate_Save drv (SetUpdateAtUnix now (SetCreateAtUnix now (SetExpireAtUnix e
            (SetUsedCount 0 (SetCount c (SetItemID i (SetUID uid newItemMutation)))))))) Q E s"
  unfolding ItemCreate_Save_def wp_simps
proof (rule wp_timeNow, goal_cases)
  case (1 s')
  let ?m = "ItemCreate_defaults (UnixSec (fst (Clock drv s))) (SetUpdateAtUnix now (SetCreateAtUnix now
    (SetExpireAtUnix e (SetUsedCount 0 (SetCount c (SetItemID i (SetUID uid newItemMutation)))))))"
  have check: "ItemCreate_check ?m = None"
    using \<open>0 \<le> c\<close> by (simp add: ItemCreate_check_def ItemCreate_defaults_def CountValidator_def
        UsedCountValidator_def SourceValidator_def)
  have "wp (mapErr createErr (CreateNode (TxItem drv) (ItemCreate_createSpec ?m)))
          (\<lambda>i. Q ((ItemCreate_createSpec ?m)\<lparr>it_ID := i\<rparr>)) E s'"
  proof (rule it.wp_Create, goal_cases)
    case (2 j t)
    with 1 assms(3) [of t "setItemID j (ItemCreate_createSpec ?m)"] show ?case
      by (simp add: setItemID_def ItemCreate_createSpec_def ItemCreate_defaults_def)
  qed (use 1 wf assms(4) in \<open>auto simp: noIndex_def\<close>)
  then show ?case
    unfolding ItemCreate_sqlSave_def check by (simp only: option.case wp_simps)
qed

lemma wp_ItemUpdate:
  assumes "m_update_at_unix m = Some v" and "ItemUpdateOne_check m = None"
    and wf: "distinct (map it_ID (tb_items (cur s)))" and mem: "i \<in> it_ID ` set (tb_items (cur s))"
    and "\<And>r t. com t = com s \<Longrightarrow> tb_nonces (cur t) = tb_nonces (cur s) \<Longrightarrow>
      tb_items (cur t) = updated (\<lambda>x. it_ID x = i) (ItemUpdateOne_spec m) (tb_items (cur s)) \<Longrightarrow>
      distinct (map it_ID (tb_items (cur t))) \<Longrightarrow> r \<in> set (tb_items (cur s)) \<Longrightarrow> it_ID r = i \<Longrightarrow>
      Q (ItemUpdateOne_spec m r) t"
    and "\<And>err t. mf \<Longrightarrow> com t = com s \<Longrightarrow> E err t"
  shows "wp (ItemUpdateOne_Save drv i m) Q E s"
proof -
  have "wp (UpdateOneSave (TxItem drv) i (ItemUpdateOne_spec m)) Q E s"
  proof (rule it.wp_UpdateOne, goal_cases)
    case (3 t)
    then show ?case using wf by (simp add: map_it_ID_updated)
  qed (use assms in \<open>auto\<close>)
  then show ?thesis
    using assms(1,2) by (simp add: ItemUpdateOne_Save_def ItemUpdateOne_sqlSave_def)
qed

end

end
