(* ===== verification/ItemsProps.thy ===== *)
theory ItemsProps
  imports ItemsLaws
begin

text \<open>
  What the operations of the item store do to the bag. \<open>offBag u i\<close> are the rows that do not
  belong to item \<open>i\<close> of player \<open>u\<close>; every operation on that item leaves them alone.
\<close>

section \<open>Rows of one item\<close>

definition isRow :: "uint64 \<Rightarrow> int \<Rightarrow> Item \<Rightarrow> bool" where
  "isRow u i r \<longleftrightarrow> it_UID r = u \<and> it_ItemID r = i"

definition offBag :: "uint64 \<Rightarrow> int \<Rightarrow> Item list \<Rightarrow> Item list" where
  "offBag u i rows = filter (\<lambda>r. \<not> isRow u i r) rows"

definition otherUsers :: "uint64 \<Rightarrow> Item list \<Rightarrow> Item list" where
  "otherUsers u rows = filter (\<lambda>r. it_UID r \<noteq> u) rows"

lemma otherUsers_offBag: "otherUsers u (offBag u i rows) = otherUsers u rows"
  by (induction rows) (auto simp: otherUsers_def offBag_def isRow_def)

lemma offBag_append [simp]: "offBag u i (xs @ ys) = offBag u i xs @ offBag u i ys"
  by (simp add: offBag_def)

lemma offBag_single [simp]: "isRow u i r \<Longrightarrow> offBag u i [r] = []"
  by (simp add: offBag_def)

lemma held_offBag: "\<not> (v = u \<and> j = i) \<Longrightarrow> held v j (offBag u i rows) = held v j rows"
  by (induction rows) (auto simp: held_def offBag_def isRow_def heldBy_def)

lemma held_eq_offBag:
  "offBag u i xs = offBag u i ys \<Longrightarrow> \<not> (v = u \<and> j = i) \<Longrightarrow> held v j xs = held v j ys"
  by (metis held_offBag)

lemma otherUsers_eq_offBag: "offBag u i xs = offBag u i ys \<Longrightarrow> otherUsers u xs = otherUsers u ys"
  by (metis otherUsers_offBag)

text \<open>An update of one row of the item keeps the other rows.\<close>

lemma offBag_updated:
  assumes "distinct (map it_ID rows)" and "r \<in> set rows" and "isRow u i r"
    and "\<And>x. it_UID (f x) = it_UID x" and "\<And>x. it_ItemID (f x) = it_ItemID x"
  shows "offBag u i (updated (\<lambda>x. it_ID x = it_ID r) f rows) = offBag u i rows"
  using assms(1,2)
proof (induction rows)
  case (Cons x rows)
  show ?case
  proof (cases "r = x")
    case True
    with Cons.prems have "\<forall>y \<in> set rows. it_ID y \<noteq> it_ID r" by (auto simp: image_iff)
    then have "updated (\<lambda>x. it_ID x = it_ID r) f rows = rows"
      by (simp add: updated_def map_idI)
    with True assms(3-) show ?thesis by (simp add: updated_def offBag_def isRow_def)
  next
    case False
    with Cons.prems have "r \<in> set rows" "it_ID x \<noteq> it_ID r" by auto
    with Cons show ?thesis by (simp add: updated_def offBag_def)
  qed
qed simp

section \<open>Adding by count\<close>

definition bagAdd :: "uint64 \<Rightarrow> int \<Rightarrow> int \<Rightarrow> Item list \<Rightarrow> Item list \<Rightarrow> bool" where
  "bagAdd u i n xs ys \<longleftrightarrow> offBag u i ys = offBag u i xs \<and> held u i ys = held u i xs + n"

definition goodRows :: "Item list \<Rightarrow> bool" where
  "goodRows rows \<longleftrightarrow> distinct (map it_ID rows) \<and> bag_ok rows"

context item_db
begin

lemma wp_addUnlimited:
  assumes good: "goodRows (tb_items (cur s))"
  shows "wp (addItemUnlimitedInTx drv uid i n expireAt)
     (\<lambda>_ t. com t = com s \<and> tb_nonces (cur t) = tb_nonces (cur s) \<and> goodRows (tb_items (cur t))
        \<and> bagAdd uid i (max 0 n) (tb_items (cur s)) (tb_items (cur t)))
     (\<lambda>_ t. mf \<and> com t = com s) s"
proof (cases "n \<le> 0")
  case True
  with good show ?thesis by (simp add: addItemUnlimitedInTx_def wp_simps bagAdd_def)
next
  case False
  then have n: "0 < n" by simp
  let ?Q = "\<lambda>t. com t = com s \<and> tb_nonces (cur t) = tb_nonces (cur s) \<and> goodRows (tb_items (cur t))
        \<and> bagAdd uid i n (tb_items (cur s)) (tb_items (cur t))"
  let ?E = "\<lambda>t. mf \<and> com t = com s"
  have create: "wp (ItemCreate_Save drv (SetUpdateAtUnix now (SetCreateAtUnix now (SetExpireAtUnix e
          (SetUsedCount 0 (SetCount n (SetItemID i (SetUID uid newItemMutation)))))))) (\<lambda>_. ?Q) (\<lambda>_. ?E) t"
    if "com t = com s" "tb_nonces (cur t) = tb_nonces (cur s)" "tb_items (cur t) = tb_items (cur s)"
    for now e t
  proof (rule wp_ItemCreate, goal_cases)
    case (3 r t')
    then have "isRow uid i r" "heldBy uid i r = n" "bag_ok [r]"
      using n by (auto simp: isRow_def heldBy_def bag_ok_def)
    with 3 that good show ?case by (simp add: goodRows_def bagAdd_def)
  qed (use n good that in \<open>auto simp: goodRows_def\<close>)
  have update: "wp (ItemUpdateOne_Save drv (it_ID r) (SetUpdateAtUnix now (AddCount n newItemMutation)))
          (\<lambda>_. ?Q) (\<lambda>_. ?E) t"
    if t: "com t = com s" "tb_nonces (cur t) = tb_nonces (cur s)" "tb_items (cur t) = tb_items (cur s)"
      and r: "r \<in> set (tb_items (cur s))" "isRow uid i r" for now r t
  proof (rule wp_ItemUpdate, goal_cases)
    case (5 r' t')
    let ?m = "SetUpdateAtUnix now (AddCount n newItemMutation)"
    have spec: "it_Count (ItemUpdateOne_spec ?m x) = it_Count x + n"
      "it_UsedCount (ItemUpdateOne_spec ?m x) = it_UsedCount x" for x
      by (simp_all add: ItemUpdateOne_spec_def setAdd_def)
    have "held uid i (tb_items (cur t')) = held uid i (tb_items (cur s)) + n"
      using held_updated [of "tb_items (cur s)" r "it_ID r" uid i "ItemUpdateOne_spec ?m"]
        good r t 5 spec by (simp add: goodRows_def heldBy_def isRow_def)
    moreover have "offBag uid i (tb_items (cur t')) = offBag uid i (tb_items (cur s))"
      using offBag_updated [of "tb_items (cur s)" r uid i "ItemUpdateOne_spec ?m"] good r t 5
      by (simp add: goodRows_def)
    moreover have "bag_ok (tb_items (cur t'))"
      using bag_ok_updated [of "tb_items (cur s)" "\<lambda>x. it_ID x = it_ID r" "ItemUpdateOne_spec ?m"]
        good t 5 spec n by (fastforce simp: goodRows_def bag_ok_def)
    ultimately show ?case using 5 t by (simp add: goodRows_def bagAdd_def)
  qed (use good t r in \<open>auto simp: goodRows_def ItemUpdateOne_check_def\<close>)
  from n have "max 0 n = n" by simp
  then show ?thesis
    unfolding addItemUnlimitedInTx_def Let_def
  proof (simp only: False if_False wp_simps, intro wp_timeNow it.wp_First, goal_cases)
    case (1 s' r t)
    then have "isRow uid i r" by (simp add: Where_def Query_def matches_def isRow_def)
    with 1 update [of t r] show ?case by (simp add: wp_simps)
  next
    case (2 s' t)
    with create [of t] show ?case by (simp add: wp_simps IsNotFound_def)
  next
    case (3 s' t)
    then show ?case by (simp add: wp_simps IsNotFound_def)
  qed
qed

end

section \<open>Adding by time\<close>

definition liveRow :: "int \<Rightarrow> uint64 \<Rightarrow> int \<Rightarrow> Item \<Rightarrow> bool" where
  "liveRow now u i r \<longleftrightarrow> isRow u i r \<and> now < it_ExpireAtUnix r"

definition timeLeft :: "int \<Rightarrow> Item list \<Rightarrow> int" where
  "timeLeft now rows = sum_list (map (\<lambda>r. (it_ExpireAtUnix r - now) * (it_Count r - it_UsedCount r)) rows)"

definition countsFit :: "Item list \<Rightarrow> bool" where
  "countsFit rows \<longleftrightarrow> (\<forall>r \<in> set rows. fits64 (it_Count r))"

text \<open>
  Go's wrapping loop computes the remaining seconds modulo \<open>2 ^ 64\<close>, whatever the order of rows.
\<close>

lemma mergeDuration_eq:
  assumes "bag_ok rows" and "countsFit rows"
  shows "wrap64 (mergeDuration now d rows) = wrap64 (d + timeLeft now rows)"
  using assms
proof (induction rows arbitrary: d)
  case Nil
  then show ?case by (simp add: timeLeft_def)
next
  case (Cons r rows)
  then have r: "0 \<le> it_Count r - it_UsedCount r" "fits64 (it_Count r - it_UsedCount r)"
    by (auto simp: bag_ok_def countsFit_def fits64_def)
  have IH: "wrap64 (mergeDuration now d' rows) = wrap64 (d' + timeLeft now rows)" for d'
    using Cons by (simp add: bag_ok_def countsFit_def)
  show ?case
    using r by (simp add: IH timeLeft_def Let_def add.assoc [symmetric])
qed

lemma timeLeft_mset: "mset xs = mset ys \<Longrightarrow> timeLeft now xs = timeLeft now ys"
  unfolding timeLeft_def sum_mset_sum_list [symmetric] mset_map by simp

lemma timeLeft_nonneg:
  assumes "bag_ok rows" and "\<forall>r \<in> set rows. now < it_ExpireAtUnix r"
  shows "0 \<le> timeLeft now rows"
  unfolding timeLeft_def using assms by (intro sum_list_nonneg) (auto simp: bag_ok_def)

lemma mergeDuration_total:
  assumes "bag_ok rows" and "countsFit rows" and "fits64 (now + timeLeft now rows + d)"
  shows "wrap64 (now + mergeDuration now (wrap64 d) rows) = now + timeLeft now rows + d"
proof -
  have "wrap64 (now + mergeDuration now (wrap64 d) rows)
      = wrap64 (now + wrap64 (mergeDuration now (wrap64 d) rows))" by simp
  also have "\<dots> = wrap64 (now + timeLeft now rows + d)"
    unfolding mergeDuration_eq [OF assms(1,2)]
    by (simp only: wrap64_add_wrap64_right add.assoc [symmetric] wrap64_add3)
       (simp only: add.assoc add.commute [of d])
  finally show ?thesis using assms(3) by simp
qed

text \<open>
  The merged record: all records of the item that have not expired are replaced by one record
  of count one that holds their remaining time and the time granted.
\<close>

definition timeMerged :: "int \<Rightarrow> uint64 \<Rightarrow> int \<Rightarrow> int \<Rightarrow> Item list \<Rightarrow> Item list \<Rightarrow> bool" where
  "timeMerged now u i secs xs ys \<longleftrightarrow>
     filter (\<lambda>r. \<not> liveRow now u i r) ys = filter (\<lambda>r. \<not> liveRow now u i r) xs \<and>
     (\<exists>r. filter (liveRow now u i) ys = [r] \<and> it_Count r = 1 \<and> it_UsedCount r = 0 \<and>
          it_ExpireAtUnix r = now + timeLeft now (filter (liveRow now u i) xs) + secs)"

text \<open>
  The numbers the merge computes with: the item expires in the future, the counts are int64
  values and the new expiry time is one.
\<close>

definition timeFits :: "int \<Rightarrow> int \<Rightarrow> uint64 \<Rightarrow> int \<Rightarrow> int \<Rightarrow> Item list \<Rightarrow> bool" where
  "timeFits now e u i n rows \<longleftrightarrow> 0 < n \<and> e \<noteq> 0 \<and> now < e \<and> fits64 (e - now) \<and> countsFit rows
     \<and> fits64 (now + timeLeft now (filter (liveRow now u i) rows) + (e - now) * n)"

lemma filter_updated_same:
  assumes "\<And>x. x \<in> set rows \<Longrightarrow> p x \<Longrightarrow> P (f x) = P x"
  shows "filter P (updated p f rows) = updated p f (filter P rows)"
  using assms by (induction rows) (auto simp: updated_def)

lemma updated_none: "(\<And>x. x \<in> set rows \<Longrightarrow> \<not> p x) \<Longrightarrow> updated p f rows = rows"
  by (simp add: updated_def map_idI)

lemma distinct_key_eq: "distinct (map f xs) \<Longrightarrow> x \<in> set xs \<Longrightarrow> y \<in> set xs \<Longrightarrow> f x = f y \<Longrightarrow> x = y"
  by (induction xs) (auto simp: image_iff)

lemma mset_eq_set: "mset xs = mset ys \<Longrightarrow> set xs = set ys"
  by (metis set_mset_mset)

lemma filter_keep_selected:
  assumes dist: "distinct (map it_ID xs)"
    and sel: "mset (selected # others) = mset (filter P xs)"
  shows "filter P (filter (\<lambda>r. it_ID r \<notin> it_ID ` set others) xs) = [selected]"
proof -
  have "distinct (map it_ID (filter P xs))" using dist by (rule distinct_map_filter)
  then have "distinct (map it_ID (selected # others))"
    using sel by (metis mset_map mset_eq_imp_distinct_iff)
  then have "filter (\<lambda>r. it_ID r \<notin> it_ID ` set others) (selected # others) = [selected]"
    by (simp add: filter_empty_conv)
  then have "mset (filter (\<lambda>r. it_ID r \<notin> it_ID ` set others) (filter P xs)) = mset [selected]"
    using sel by (metis mset_filter)
  then have "filter (\<lambda>r. it_ID r \<notin> it_ID ` set others) (filter P xs) = [selected]"
    by (metis mset.simps mset_single_iff_right)
  then show ?thesis by (simp add: conj_commute)
qed

lemma merge_rows:
  assumes dist: "distinct (map it_ID xs)"
    and sel: "mset (selected # others) = mset (filter (liveRow now u i) xs)"
    and f: "\<And>x. it_UID (f x) = it_UID x" "\<And>x. it_ItemID (f x) = it_ItemID x"
      "now < it_ExpireAtUnix (f selected)"
    and ys: "ys = updated (\<lambda>x. it_ID x = it_ID selected) f (filter (\<lambda>r. it_ID r \<notin> it_ID ` set others) xs)"
  shows "filter (\<lambda>r. \<not> liveRow now u i r) ys = filter (\<lambda>r. \<not> liveRow now u i r) xs"
    and "filter (liveRow now u i) ys = [f selected]"
proof -
  let ?L = "liveRow now u i"
  let ?zs = "filter (\<lambda>r. it_ID r \<notin> it_ID ` set others) xs"
  have live: "x \<in> set xs \<and> ?L x" if "x \<in> set (selected # others)" for x
    using that mset_eq_set [OF sel] by auto
  have same: "x = y" if "x \<in> set xs" "y \<in> set (selected # others)" "it_ID x = it_ID y" for x y
    using dist that live by (metis distinct_key_eq)
  have keep: "?L (f x) = ?L x" if "x \<in> set ?zs" "it_ID x = it_ID selected" for x
    using that same [of x selected] f live [of selected] by (auto simp: liveRow_def isRow_def)
  have "filter (\<lambda>r. \<not> ?L r) ys = updated (\<lambda>x. it_ID x = it_ID selected) f (filter (\<lambda>r. \<not> ?L r) ?zs)"
    unfolding ys by (rule filter_updated_same) (use keep in auto)
  also have "\<dots> = filter (\<lambda>r. \<not> ?L r) ?zs"
    by (rule updated_none) (use same [of _ selected] live [of selected] in auto)
  also have "\<dots> = filter (\<lambda>r. \<not> ?L r) xs"
    unfolding filter_filter by (rule filter_cong) (use same live in fastforce)+
  finally show "filter (\<lambda>r. \<not> ?L r) ys = filter (\<lambda>r. \<not> ?L r) xs" .
  have "filter ?L ys = updated (\<lambda>x. it_ID x = it_ID selected) f (filter ?L ?zs)"
    unfolding ys by (rule filter_updated_same) (use keep in auto)
  also have "\<dots> = [f selected]"
    by (simp only: filter_keep_selected [OF dist sel]) (simp add: updated_def)
  finally show "filter ?L ys = [f selected]" .
qed

lemma timeMerged_intro:
  assumes good: "goodRows xs"
    and sel: "mset (selected # others) = mset (filter (liveRow now u i) xs)"
    and fits: "timeFits now e u i n xs"
    and ne: "ne = wrap64 (now + mergeDuration now (wrap64 ((e - now) * n)) (selected # others))"
    and f: "\<And>x. it_UID (f x) = it_UID x" "\<And>x. it_ItemID (f x) = it_ItemID x"
      "\<And>x. it_Count (f x) = 1" "\<And>x. it_UsedCount (f x) = 0" "\<And>x. it_ExpireAtUnix (f x) = ne"
    and ys: "ys = updated (\<lambda>x. it_ID x = it_ID selected) f (filter (\<lambda>r. it_ID r \<notin> it_ID ` set others) xs)"
  shows "timeMerged now u i ((e - now) * n) xs ys"
proof -
  let ?L = "filter (liveRow now u i) xs"
  have sub: "set (selected # others) = set ?L" using sel by (rule mset_eq_set)
  have okL: "bag_ok ?L" "\<forall>r \<in> set ?L. now < it_ExpireAtUnix r"
    using good by (auto simp: goodRows_def bag_ok_def liveRow_def)
  have so: "bag_ok (selected # others)" "countsFit (selected # others)"
    using okL fits sub by (auto simp: bag_ok_def countsFit_def timeFits_def)
  have tl: "timeLeft now (selected # others) = timeLeft now ?L" using sel by (rule timeLeft_mset)
  have ne': "ne = now + timeLeft now ?L + (e - now) * n"
    using mergeDuration_total [OF so, of now "(e - now) * n"] fits
    unfolding ne tl by (simp add: timeFits_def)
  have "0 < (e - now) * n" using fits by (simp add: timeFits_def)
  then have "now < ne" using timeLeft_nonneg [OF okL] unfolding ne' by simp
  then have "filter (\<lambda>r. \<not> liveRow now u i r) ys = filter (\<lambda>r. \<not> liveRow now u i r) xs"
    "filter (liveRow now u i) ys = [f selected]"
    using merge_rows [OF _ sel _ _ _ ys] good f by (auto simp: goodRows_def)
  with f ne' show ?thesis by (simp add: timeMerged_def)
qed

lemma merge_offBag:
  assumes dist: "distinct (map it_ID xs)"
    and sel: "set (selected # others) \<subseteq> {r \<in> set xs. isRow u i r}"
    and f: "\<And>x. it_UID (f x) = it_UID x" "\<And>x. it_ItemID (f x) = it_ItemID x"
  shows "offBag u i (updated (\<lambda>x. it_ID x = it_ID selected) f
           (filter (\<lambda>r. it_ID r \<notin> it_ID ` set others) xs)) = offBag u i xs"
proof -
  let ?zs = "filter (\<lambda>r. it_ID r \<notin> it_ID ` set others) xs"
  have same: "isRow u i x" if "x \<in> set xs" "y \<in> set (selected # others)" "it_ID x = it_ID y" for x y
    using distinct_key_eq [OF dist, of x y] that sel by auto
  have "offBag u i (updated (\<lambda>x. it_ID x = it_ID selected) f ?zs)
      = updated (\<lambda>x. it_ID x = it_ID selected) f (offBag u i ?zs)"
    unfolding offBag_def by (rule filter_updated_same) (simp add: isRow_def f)
  also have "\<dots> = offBag u i ?zs"
    by (rule updated_none) (use same [of _ selected] in \<open>auto simp: offBag_def\<close>)
  also have "\<dots> = offBag u i xs"
    unfolding filter_filter offBag_def by (rule filter_cong) (use same in fastforce)+
  finally show ?thesis .
qed

lemma offBag_live: "offBag u i (filter (\<lambda>r. \<not> liveRow now u i r) rows) = offBag u i rows"
  by (induction rows) (auto simp: offBag_def liveRow_def)

lemma timeMerged_offBag: "timeMerged now u i d xs ys \<Longrightarrow> offBag u i ys = offBag u i xs"
  by (metis offBag_live timeMerged_def)

context item_db
begin

lemma wp_deleteRows:
  assumes dist: "distinct (map it_ID (tb_items (cur s)))"
    and dels: "distinct (map it_ID others)" "set others \<subseteq> set (tb_items (cur s))"
  shows "wp (forEach others (\<lambda>row. mapErr EntErr (DeleteOneExec (TxItem drv) (\<lambda>r. it_ID r = it_ID row))))
     (\<lambda>_ t. com t = com s \<and> tb_nonces (cur t) = tb_nonces (cur s)
        \<and> tb_items (cur t) = filter (\<lambda>r. it_ID r \<notin> it_ID ` set others) (tb_items (cur s)))
     (\<lambda>_ t. mf \<and> com t = com s) s"
proof (rule wp_forEach, goal_cases)
  case (1 before row rest t)
  then have row: "row \<in> set (tb_items (cur s))" "it_ID row \<notin> it_ID ` set before"
    using dels by auto
  show ?case
    unfolding wp_simps
  proof (rule it.wp_DeleteOne, goal_cases)
    case (1 t')
    then show ?case
      using \<open>com t = com s \<and> _\<close> by (auto intro!: filter_cong)
  next
    case (2 t')
    then show ?case using \<open>com t = com s \<and> _\<close> row by auto
  next
    case (3 e t')
    then show ?case using \<open>com t = com s \<and> _\<close> by simp
  qed
next
  case 2
  then show ?case by simp
qed

lemma wp_addTime:
  assumes good: "goodRows (tb_items (cur s))"
    and now: "now = UnixSec (fst (Clock drv s))" and e: "e = expireUnix expireAt"
  shows "wp (addItemTimeStackInTx drv uid i n expireAt)
     (\<lambda>_ t. com t = com s \<and> tb_nonces (cur t) = tb_nonces (cur s) \<and> goodRows (tb_items (cur t))
        \<and> offBag uid i (tb_items (cur t)) = offBag uid i (tb_items (cur s))
        \<and> (timeFits now e uid i n (tb_items (cur s))
           \<longrightarrow> timeMerged now uid i ((e - now) * n) (tb_items (cur s)) (tb_items (cur t))))
     (\<lambda>_ t. mf \<and> com t = com s) s" (is "wp _ (\<lambda>_. ?Q) (\<lambda>_. ?E) s")
proof (cases "n \<le> 0")
  case True
  with good show ?thesis by (simp add: addItemTimeStackInTx_def wp_simps timeFits_def)
next
  case False
  have permanent: "wp (addItemUnlimitedInTx drv uid i n expireAt) (\<lambda>_. ?Q) (\<lambda>_. ?E) t"
    if "com t = com s" "cur t = cur s" "e = 0" for t
    by (rule wp_mono [OF wp_addUnlimited]) (use that good in \<open>auto simp: bagAdd_def timeFits_def\<close>)
  have create: "wp (ItemCreate_Save drv (SetUpdateAtUnix now (SetCreateAtUnix now (SetExpireAtUnix ne
          (SetUsedCount 0 (SetCount 1 (SetItemID i (SetUID uid newItemMutation)))))))) (\<lambda>_. ?Q) (\<lambda>_. ?E) t"
    if t: "com t = com s" "tb_nonces (cur t) = tb_nonces (cur s)" "tb_items (cur t) = tb_items (cur s)"
      and ne: "ne = wrap64 (now + mergeDuration now (wrap64 ((e - now) * n)) [])"
      and none: "filter (liveRow now uid i) (tb_items (cur s)) = []" for ne t
  proof (rule wp_ItemCreate, goal_cases)
    case (3 r t')
    have "timeMerged now uid i ((e - now) * n) (tb_items (cur s)) (tb_items (cur s) @ [r])"
      if "timeFits now e uid i n (tb_items (cur s))"
      using that 3 none ne by (simp add: timeMerged_def liveRow_def isRow_def timeFits_def timeLeft_def)
    with 3 t good show ?case by (simp add: goodRows_def bag_ok_def isRow_def)
  qed (use good t in \<open>auto simp: goodRows_def\<close>)
  have merge: "wp (andThen (forEach others (\<lambda>row.
                     mapErr EntErr (DeleteOneExec (TxItem drv) (\<lambda>r. it_ID r = it_ID row))))
                   (\<lambda>_. mapErr EntErr (ItemUpdateOne_Save drv (it_ID selected)
                      (SetUpdateAtUnix now (SetExpireAtUnix ne
                        (SetUsedCount 0 (SetCount 1 newItemMutation))))))) (\<lambda>_. ?Q) (\<lambda>_. ?E) t"
    if t: "com t = com s" "tb_nonces (cur t) = tb_nonces (cur s)" "tb_items (cur t) = tb_items (cur s)"
      and ne: "ne = wrap64 (now + mergeDuration now (wrap64 ((e - now) * n)) (selected # others))"
      and sel: "mset (selected # others) = mset (filter (liveRow now uid i) (tb_items (cur s)))"
    for ne t selected others
    unfolding wp_simps
  proof (rule wp_mono [OF wp_deleteRows], goal_cases)
    case 1
    with t good show ?case by (simp add: goodRows_def)
  next
    case 2
    have "distinct (map it_ID (selected # others))"
      using good sel
      by (metis distinct_map_filter goodRows_def mset_eq_imp_distinct_iff mset_map)
    then show ?case by simp
  next
    case 3
    with mset_eq_set [OF sel] t show ?case by auto
  next
    case (4 x t')
    let ?m = "SetUpdateAtUnix now (SetExpireAtUnix ne (SetUsedCount 0 (SetCount 1 newItemMutation)))"
    show ?case
    proof (rule wp_ItemUpdate, goal_cases)
      case 3
      with 4 t good show ?case by (simp add: goodRows_def distinct_map_filter)
    next
      case 4
      have "selected \<in> set (filter (\<lambda>r. it_ID r \<notin> it_ID ` set others) (tb_items (cur s)))"
        using filter_keep_selected [OF _ sel] good unfolding goodRows_def
        by (metis filter_is_subset list.set_intros(1) subsetD)
      with \<open>com t' = com t \<and> _\<close> t show ?case by auto
    next
      case (5 r t'')
      let ?X = "tb_items (cur s)"
      have rows: "tb_items (cur t'') = updated (\<lambda>x. it_ID x = it_ID selected) (ItemUpdateOne_spec ?m)
          (filter (\<lambda>r. it_ID r \<notin> it_ID ` set others) ?X)"
        using 4 5 t by simp
      have sub: "set (selected # others) \<subseteq> {r \<in> set ?X. isRow uid i r}"
        using mset_eq_set [OF sel] by (auto simp: liveRow_def)
      have "offBag uid i (tb_items (cur t'')) = offBag uid i ?X"
        unfolding rows by (rule merge_offBag) (use good sub in \<open>auto simp: goodRows_def\<close>)
      moreover have "bag_ok (tb_items (cur t''))"
        unfolding rows using good
        by (auto simp: goodRows_def bag_ok_def updated_def ItemUpdateOne_spec_def setAdd_def)
      moreover have "timeMerged now uid i ((e - now) * n) ?X (tb_items (cur t''))"
        if "timeFits now e uid i n ?X"
      proof (rule timeMerged_intro [OF _ sel])
        show "tb_items (cur t'') = updated (\<lambda>x. it_ID x = it_ID selected) (ItemUpdateOne_spec ?m)
          (filter (\<lambda>r. it_ID r \<notin> it_ID ` set others) ?X)" by (rule rows)
      qed (use that good ne in \<open>simp_all add: ItemUpdateOne_spec_def setAdd_def\<close>)
      ultimately show ?case using 4 5 t by (simp add: goodRows_def)
    qed (use 4 t in \<open>auto simp: ItemUpdateOne_check_def CountValidator_def UsedCountValidator_def\<close>)
  next
    case (5 e t')
    with t show ?case by simp
  qed
  show ?thesis
    unfolding addItemTimeStackInTx_def Let_def
  proof (simp only: False if_False wp_simps, rule wp_timeNow, fold now e, goal_cases)
    case (1 s')
    show ?case
    proof (cases "e = 0 \<or> wrap64 (e - now) \<le> 0")
      case True
      then show ?thesis
        using permanent [OF 1] 1 good by (auto simp: timeFits_def)
    next
      case False
      have all: "wp (All (TxItem drv) (Order expireOrder
              (Where [ItemUIDEQ uid, ItemIDEQ i, ExpireAtUnixGT now] Query))) R (\<lambda>_. ?E) s'"
        if R: "\<And>rs t. com t = com s \<Longrightarrow> tb_nonces (cur t) = tb_nonces (cur s) \<Longrightarrow>
           tb_items (cur t) = tb_items (cur s) \<Longrightarrow>
           mset rs = mset (filter (liveRow now uid i) (tb_items (cur s))) \<Longrightarrow> R rs t" for R
      proof (rule it.wp_All, goal_cases)
        case (1 rs t)
        have "matches [ItemUIDEQ uid, ItemIDEQ i, ExpireAtUnixGT now] = liveRow now uid i"
          by (rule ext) (simp add: matches_def liveRow_def isRow_def)
        with 1 selects_all(1) [OF \<open>selects _ _ rs\<close>] \<open>com s' = com s\<close> \<open>cur s' = cur s\<close> show ?case
          by (intro R) (simp_all add: Where_def Query_def Order_def)
      qed (use 1 in simp)
      have c: "(e = 0) = False" "(wrap64 (e - now) \<le> 0) = False" using False by auto
      show ?thesis
        unfolding c if_False wrap64_mult_wrap64
      proof (rule all, goal_cases)
        case (1 rs t)
        show ?case
        proof (cases rs)
          case Nil
          with 1 create [of t] show ?thesis by (simp add: wp_simps)
        next
          case (Cons selected others)
          with 1 merge [of t _ selected others] show ?thesis
            by (simp only: list.case wp_simps)
        qed
      qed
    qed
  qed
qed

end

section \<open>Granting a list of rewards\<close>

definition countMode :: "(int \<rightharpoonup> ItemConfig) \<Rightarrow> int \<Rightarrow> bool" where
  "countMode cfg i \<longleftrightarrow> (case cfg i of None \<Rightarrow> False | Some c \<Rightarrow> ci_StackMode c = StackModeCount)"

definition validReward :: "(int \<rightharpoonup> ItemConfig) \<Rightarrow> Reward option \<Rightarrow> bool" where
  "validReward cfg rw \<longleftrightarrow> (case rw of None \<Rightarrow> False | Some r \<Rightarrow>
     (case cfg (rw_ItemTypeId r) of None \<Rightarrow> False
      | Some c \<Rightarrow> ci_StackMode c = StackModeCount \<or> ci_StackMode c = StackModeTime))"

definition rewardAmount :: "int \<Rightarrow> Reward option \<Rightarrow> int" where
  "rewardAmount i rw = (case rw of None \<Rightarrow> 0
     | Some r \<Rightarrow> if rw_ItemTypeId r = i then max 0 (rw_Count r) else 0)"

definition rewardTotal :: "int \<Rightarrow> Reward option list \<Rightarrow> int" where
  "rewardTotal i rewards = sum_list (map (rewardAmount i) rewards)"

definition rewardItems :: "Reward option list \<Rightarrow> int set" where
  "rewardItems rewards = {rw_ItemTypeId r | r. Some r \<in> set rewards}"

definition goodTables :: "item_tables \<Rightarrow> bool" where
  "goodTables T \<longleftrightarrow> goodRows (tb_items T) \<and> uniq in_ID nonceConflict (tb_nonces T)"

definition bagGrant ::
  "(int \<rightharpoonup> ItemConfig) \<Rightarrow> uint64 \<Rightarrow> Reward option list \<Rightarrow> Item list \<Rightarrow> Item list \<Rightarrow> bool" where
  "bagGrant cfg uid rewards xs ys \<longleftrightarrow> otherUsers uid ys = otherUsers uid xs \<and>
     (\<forall>i. countMode cfg i \<or> i \<notin> rewardItems rewards \<longrightarrow>
          held uid i ys = held uid i xs + rewardTotal i rewards)"

lemma bagGrant_Nil [simp]: "bagGrant cfg uid [] xs xs"
  by (simp add: bagGrant_def rewardTotal_def)

lemma bagGrant_snoc:
  assumes "bagGrant cfg uid rs xs ys" and "offBag uid j zs = offBag uid j ys"
    and "countMode cfg j \<Longrightarrow> held uid j zs = held uid j ys + max 0 (rw_Count r)"
    and "rw_ItemTypeId r = j"
  shows "bagGrant cfg uid (rs @ [Some r]) xs zs"
  using assms otherUsers_eq_offBag [OF assms(2)] held_eq_offBag [OF assms(2), of uid]
  by (auto simp: bagGrant_def rewardTotal_def rewardAmount_def rewardItems_def)

context item_db
begin

lemma wp_addReward:
  assumes good: "goodRows (tb_items (cur s))"
    and before: "bagGrant cfg uid rs xs (tb_items (cur s))"
  shows "wp (addReward drv cfg uid now rw)
     (\<lambda>_ t. com t = com s \<and> tb_nonces (cur t) = tb_nonces (cur s) \<and> goodRows (tb_items (cur t))
        \<and> validReward cfg rw \<and> bagGrant cfg uid (rs @ [rw]) xs (tb_items (cur t)))
     (\<lambda>_ t. com t = com s \<and> (mf \<or> \<not> validReward cfg rw)) s"
proof (cases rw)
  case None
  then show ?thesis by (simp add: addReward_def wp_simps validReward_def)
next
  case (Some r)
  let ?i = "rw_ItemTypeId r"
  show ?thesis
  proof (cases "cfg ?i")
    case None
    with Some show ?thesis by (simp add: addReward_def GetItem_def wp_simps validReward_def)
  next
    case (Some c)
    note cfg = this
    consider "ci_StackMode c = StackModeTime" | "ci_StackMode c = StackModeCount"
      | "ci_StackMode c \<noteq> StackModeTime" "ci_StackMode c \<noteq> StackModeCount" by blast
    then show ?thesis
    proof cases
      case 1
      have "\<not> countMode cfg ?i" using 1 cfg by (simp add: countMode_def StackModeCount_def StackModeTime_def)
      with \<open>rw = Some r\<close> cfg 1 show ?thesis
        unfolding addReward_def GetItem_def
        by (simp add: wp_simps Let_def validReward_def)
           (rule wp_mono [OF wp_addTime [OF good refl refl]], auto intro: bagGrant_snoc [OF before])
    next
      case 2
      with \<open>rw = Some r\<close> cfg show ?thesis
        unfolding addReward_def GetItem_def
        by (simp add: wp_simps Let_def validReward_def StackModeCount_def StackModeTime_def)
           (rule wp_mono [OF wp_addUnlimited [OF good]], auto simp: bagAdd_def intro!: bagGrant_snoc [OF before])
    next
      case 3
      with \<open>rw = Some r\<close> cfg show ?thesis
        by (simp add: addReward_def GetItem_def wp_simps validReward_def)
    qed
  qed
qed

lemma wp_addRewards:
  assumes good: "goodRows (tb_items (cur s))"
  shows "wp (forEach rewards (addReward drv cfg uid now))
     (\<lambda>_ t. com t = com s \<and> tb_nonces (cur t) = tb_nonces (cur s) \<and> goodRows (tb_items (cur t))
        \<and> list_all (validReward cfg) rewards \<and> bagGrant cfg uid rewards (tb_items (cur s)) (tb_items (cur t)))
     (\<lambda>_ t. com t = com s \<and> (mf \<or> \<not> list_all (validReward cfg) rewards)) s"
proof (rule wp_forEach, goal_cases)
  case (1 before rw rest t)
  then have good': "goodRows (tb_items (cur t))"
    and gr: "bagGrant cfg uid before (tb_items (cur s)) (tb_items (cur t))" by auto
  show ?case
    by (rule wp_mono [OF wp_addReward [OF good' gr]]) (use 1 in auto)
next
  case 2
  with good show ?case by simp
qed

end

section \<open>AddItems\<close>

definition nonceAdded :: "uint64 \<Rightarrow> string \<Rightarrow> int \<Rightarrow> item_tables \<Rightarrow> item_tables \<Rightarrow> bool" where
  "nonceAdded uid nonce opType T T' \<longleftrightarrow> \<not> hasNonce uid nonce opType T \<and>
     (\<exists>n. tb_nonces T' = tb_nonces T @ [n] \<and> in_UID n = uid \<and> in_Nonce n = nonce \<and> in_OpType n = opType)"

definition granted ::
  "(int \<rightharpoonup> ItemConfig) \<Rightarrow> uint64 \<Rightarrow> string \<Rightarrow> Reward option list \<Rightarrow> item_tables \<Rightarrow> item_tables \<Rightarrow> bool" where
  "granted cfg uid nonce rewards T T' \<longleftrightarrow> nonceAdded uid nonce OperationTypeGrant T T' \<and> goodTables T' \<and>
     list_all (validReward cfg) rewards \<and> bagGrant cfg uid rewards (tb_items T) (tb_items T')"

definition addedOnce ::
  "(int \<rightharpoonup> ItemConfig) \<Rightarrow> uint64 \<Rightarrow> string \<Rightarrow> Reward option list \<Rightarrow> item_tables \<Rightarrow> item_tables \<Rightarrow> bool" where
  "addedOnce cfg uid nonce rewards T T' \<longleftrightarrow>
     (if hasNonce uid nonce OperationTypeGrant T then T' = T else granted cfg uid nonce rewards T T')"

definition addFailed ::
  "bool \<Rightarrow> (int \<rightharpoonup> ItemConfig) \<Rightarrow> uint64 \<Rightarrow> string \<Rightarrow> Reward option list \<Rightarrow> item_tables \<Rightarrow> item_tables \<Rightarrow> bool" where
  "addFailed mf cfg uid nonce rewards T T' \<longleftrightarrow>
     (T' = T \<or> mf \<and> granted cfg uid nonce rewards T T') \<and>
     (mf \<or> 128 < length nonce \<or> \<not> list_all (validReward cfg) rewards)"

lemma nonceAdded_hasNonce:
  "nonceAdded uid nonce op T T' \<Longrightarrow>
     hasNonce v k p T' \<longleftrightarrow> hasNonce v k p T \<or> (v = uid \<and> k = nonce \<and> p = op)"
  by (auto simp: nonceAdded_def hasNonce_def)

context item_db
begin

lemma wp_AddItems:
  assumes good: "goodTables (com s)"
  shows "wp (AddItems drv cfg uid nonce rewards)
     (\<lambda>_ t. addedOnce cfg uid nonce rewards (com s) (com t))
     (\<lambda>e t. addFailed mf cfg uid nonce rewards (com s) (com t)) s"
  unfolding AddItems_def
proof (rule wp_withTx [where Q = "\<lambda>_. addedOnce cfg uid nonce rewards (com s)"
      and E = "\<lambda>_. addFailed mf cfg uid nonce rewards (com s)"], goal_cases)
  case (1 t)
  let ?E = "\<lambda>t'. addFailed mf cfg uid nonce rewards (com s) (com t')"
  let ?Q = "\<lambda>t'. addedOnce cfg uid nonce rewards (com s) (com t')"
  show ?case
    unfolding wp_simps
  proof (intro wp_lockUID wp_NonceCreate, goal_cases)
    case (1 t1)
    with good \<open>cur t = com s\<close> show ?case by (simp add: goodTables_def)
  next
    case (2 t1 n t2)
    have new: "\<not> hasNonce uid nonce OperationTypeGrant (com s)"
      using 2 \<open>cur t = com s\<close> by (simp add: hasNonce_def)
    have com2: "com t2 = com s" using 2 \<open>com t = com s\<close> by simp
    have body: "wp (forEach rewards (addReward drv cfg uid now)) (\<lambda>_. wp (CommitTx drv)
        (\<lambda>_. ?Q) (\<lambda>_. ?E)) (\<lambda>_. ?E) t3"
      if t3: "com t3 = com t2" "cur t3 = cur t2" for now t3
    proof (rule wp_mono [OF wp_addRewards], goal_cases)
      case 1
      with good 2 that \<open>cur t = com s\<close> show ?case by (simp add: goodTables_def)
    next
      case (2 x t4)
      have "granted cfg uid nonce rewards (com s) (cur t4)"
        using 2 \<open>cur t = com s\<close> t3 new
          \<open>tb_nonces (cur t2) = tb_nonces (cur t1) @ [n]\<close> \<open>tb_nonces (cur t1) = tb_nonces (cur t)\<close>
          \<open>in_UID n = uid\<close> \<open>in_Nonce n = nonce\<close> \<open>in_OpType n = OperationTypeGrant\<close>
          \<open>uniq in_ID nonceConflict (tb_nonces (cur t2))\<close>
          \<open>tb_items (cur t2) = tb_items (cur t1)\<close> \<open>tb_items (cur t1) = tb_items (cur t)\<close>
        by (simp add: granted_def nonceAdded_def goodTables_def)
      with 2 t3 com2 new show ?case
        by (intro wp_commit) (auto simp: addedOnce_def addFailed_def)
    next
      case (3 e t4)
      with t3 com2 show ?case by (auto simp: addFailed_def)
    qed
    show ?case
      unfolding sum.case wp_simps prod.case by (intro wp_timeNow body)
  next
    case (3 t1 t2)
    then have "hasNonce uid nonce OperationTypeGrant (com s)"
      using \<open>cur t = com s\<close> by (simp add: hasNonce_def)
    with 3 \<open>com t = com s\<close> show ?case by (simp add: wp_simps IsConstraintError_def addedOnce_def)
  next
    case (4 t1 e t2)
    with \<open>com t = com s\<close> show ?case by (auto simp: wp_simps IsConstraintError_def addFailed_def)
  next
    case (5 e t1)
    with \<open>com t = com s\<close> show ?case by (simp add: addFailed_def)
  qed
next
  case 2
  then show ?case by (simp add: addFailed_def)
qed

end

end
