(* ===== verification/ItemsRevoke.thy ===== *)
theory ItemsRevoke
  imports ItemsProps
begin

text \<open>
  Revoking rewards. \<open>liveHeld\<close> is what a player still has of an item that has not expired;
  \<open>RevokeItems\<close> takes the revoked count from it, as far as it goes, and never touches expired
  records, other items or other players.
\<close>

definition liveHeld :: "int \<Rightarrow> uint64 \<Rightarrow> int \<Rightarrow> Item list \<Rightarrow> int" where
  "liveHeld now u i rows = held u i (filter (notExpiredPredicate now) rows)"

definition expired :: "int \<Rightarrow> Item list \<Rightarrow> Item list" where
  "expired now rows = filter (\<lambda>r. \<not> notExpiredPredicate now r) rows"

definition revocable :: "int \<Rightarrow> uint64 \<Rightarrow> int \<Rightarrow> Item \<Rightarrow> bool" where
  "revocable now u i r \<longleftrightarrow> isRow u i r \<and> notExpiredPredicate now r \<and> availablePredicate r"

definition availSum :: "Item list \<Rightarrow> int" where
  "availSum rows = sum_list (map (\<lambda>r. it_Count r - it_UsedCount r) rows)"

lemma availSum_mset: "mset xs = mset ys \<Longrightarrow> availSum xs = availSum ys"
  unfolding availSum_def sum_mset_sum_list [symmetric] mset_map by simp

lemma availSum_nonneg: "bag_ok rows \<Longrightarrow> 0 \<le> availSum rows"
  unfolding availSum_def by (rule sum_list_nonneg) (auto simp: bag_ok_def)

lemma liveHeld_availSum:
  "bag_ok rows \<Longrightarrow> liveHeld now u i rows = availSum (filter (revocable now u i) rows)"
  by (induction rows)
     (auto simp: liveHeld_def held_def availSum_def heldBy_def revocable_def isRow_def bag_ok_def)

text \<open>Deducting from one record.\<close>

definition deductRow :: "int \<Rightarrow> int \<Rightarrow> Item \<Rightarrow> Item" where
  "deductRow now d r = r\<lparr>it_UsedCount := it_UsedCount r + d, it_UpdateAtUnix := now\<rparr>"

lemma deductRow_spec: "ItemUpdateOne_spec (SetUpdateAtUnix now (AddUsedCount d newItemMutation)) = deductRow now d"
  by (rule ext) (simp add: ItemUpdateOne_spec_def setAdd_def deductRow_def)

lemma deductRow_simps [simp]:
  "it_ID (deductRow now d r) = it_ID r" "it_UID (deductRow now d r) = it_UID r"
  "it_ItemID (deductRow now d r) = it_ItemID r" "it_Count (deductRow now d r) = it_Count r"
  "it_ExpireAtUnix (deductRow now d r) = it_ExpireAtUnix r"
  "it_UsedCount (deductRow now d r) = it_UsedCount r + d"
  by (simp_all add: deductRow_def)

text \<open>One deduction, seen from the whole table.\<close>

definition took :: "int \<Rightarrow> uint64 \<Rightarrow> int \<Rightarrow> int \<Rightarrow> Item list \<Rightarrow> Item list \<Rightarrow> bool" where
  "took now u i n xs ys \<longleftrightarrow> goodRows ys \<and> countsFit ys \<and> offBag u i ys = offBag u i xs
     \<and> expired now ys = expired now xs \<and> liveHeld now u i ys = liveHeld now u i xs - n"

lemma took_refl: "goodRows xs \<Longrightarrow> countsFit xs \<Longrightarrow> took now u i 0 xs xs"
  by (simp add: took_def)

lemma took_trans: "took now u i m xs ys \<Longrightarrow> took now u i n ys zs \<Longrightarrow> took now u i (m + n) xs zs"
  by (simp add: took_def)

lemma took_deduct:
  assumes good: "goodRows xs" "countsFit xs" and r: "r \<in> set xs" "isRow u i r" "notExpiredPredicate now r"
    and d: "0 \<le> d" "d \<le> it_Count r - it_UsedCount r"
  shows "took now u i d xs (updated (\<lambda>x. it_ID x = it_ID r) (deductRow now d) xs)"
proof -
  let ?ys = "updated (\<lambda>x. it_ID x = it_ID r) (deductRow now d) xs"
  have dist: "distinct (map it_ID xs)" and ok: "bag_ok xs" using good by (auto simp: goodRows_def)
  have only: "x = r" if "x \<in> set xs" "it_ID x = it_ID r" for x
    using distinct_key_eq [OF dist] that r by blast
  have live: "filter (notExpiredPredicate now) ?ys
      = updated (\<lambda>x. it_ID x = it_ID r) (deductRow now d) (filter (notExpiredPredicate now) xs)"
    by (rule filter_updated_same) simp
  have "liveHeld now u i ?ys = liveHeld now u i xs - d"
    unfolding liveHeld_def live
    using held_updated [of "filter (notExpiredPredicate now) xs" r "it_ID r" u i "deductRow now d"] dist r
    by (simp add: distinct_map_filter heldBy_def isRow_def)
  moreover have "expired now ?ys = expired now xs"
  proof -
    have "expired now ?ys = updated (\<lambda>x. it_ID x = it_ID r) (deductRow now d) (expired now xs)"
      unfolding expired_def by (rule filter_updated_same) simp
    also have "\<dots> = expired now xs"
      by (rule updated_none) (use only r in \<open>auto simp: expired_def\<close>)
    finally show ?thesis .
  qed
  moreover have "bag_ok ?ys"
  proof (rule bag_ok_updated [OF ok])
    fix x assume "x \<in> set xs" "it_ID x = it_ID r"
    then have "x = r" by (rule only)
    with ok r d show "0 \<le> it_UsedCount (deductRow now d x)
        \<and> it_UsedCount (deductRow now d x) \<le> it_Count (deductRow now d x)"
      by (auto simp: bag_ok_def)
  qed
  moreover have "countsFit ?ys" using good by (auto simp: countsFit_def updated_def)
  moreover have "distinct (map it_ID ?ys)" using dist by (simp add: map_it_ID_updated)
  moreover have "offBag u i ?ys = offBag u i xs"
    by (rule offBag_updated) (use dist r in auto)
  ultimately show ?thesis by (simp add: took_def goodRows_def)
qed

context item_db
begin

lemma wp_revokeRows:
  assumes "goodRows (tb_items (cur s))" and "countsFit (tb_items (cur s))" and "fits64 n"
    and "distinct (map it_ID rows)"
    and "\<And>r. r \<in> set rows \<Longrightarrow> r \<in> set (tb_items (cur s)) \<and> revocable now uid i r"
  shows "wp (revokeRows drv now n rows)
     (\<lambda>_ t. com t = com s \<and> tb_nonces (cur t) = tb_nonces (cur s)
        \<and> took now uid i (min (max 0 n) (availSum rows)) (tb_items (cur s)) (tb_items (cur t)))
     (\<lambda>_ t. mf \<and> com t = com s) s"
  using assms
proof (induction rows arbitrary: n s)
  case Nil
  then show ?case by (simp add: wp_simps availSum_def took_refl)
next
  case (Cons r rows)
  let ?X = "tb_items (cur s)"
  have r: "r \<in> set ?X" "isRow uid i r" "notExpiredPredicate now r" "it_UsedCount r < it_Count r"
    using Cons.prems(5) [of r] by (auto simp: revocable_def)
  have fit: "fits64 (it_Count r)" "0 \<le> it_UsedCount r"
    using Cons.prems(1,2) r by (auto simp: countsFit_def goodRows_def bag_ok_def)
  then have av: "wrap64 (it_Count r - it_UsedCount r) = it_Count r - it_UsedCount r"
    using r by (intro wrap64_id) (simp add: fits64_def)
  have bag: "bag_ok rows" using Cons.prems(1,5) by (auto simp: goodRows_def bag_ok_def)
  have an: "0 \<le> availSum rows" using bag by (rule availSum_nonneg)
  have sum: "availSum (r # rows) = (it_Count r - it_UsedCount r) + availSum rows"
    by (simp add: availSum_def)
  show ?case
  proof (cases "n \<le> 0")
    case True
    have "0 \<le> availSum (r # rows)" using sum an r by simp
    with True Cons.prems(1,2) show ?thesis by (simp add: wp_simps took_refl)
  next
    case False
    define d where "d = min (it_Count r - it_UsedCount r) n"
    have d: "0 \<le> d" "d \<le> it_Count r - it_UsedCount r" "d \<le> n" using False r by (auto simp: d_def)
    have rest: "wrap64 (n - d) = n - d"
      using d Cons.prems(3) False by (intro wrap64_id) (simp add: fits64_def)
    have eq: "min (max 0 n) (availSum (r # rows)) = d + min (max 0 (n - d)) (availSum rows)"
      using sum an False r by (auto simp: d_def)
    have tk: "took now uid i d ?X (updated (\<lambda>x. it_ID x = it_ID r) (deductRow now d) ?X)"
      by (rule took_deduct) (use Cons.prems(1,2) r d in auto)
    have upd: "wp (ItemUpdateOne_Save drv (it_ID r) (SetUpdateAtUnix now (AddUsedCount d newItemMutation)))
      (\<lambda>_. wp (revokeRows drv now (n - d) rows) 
         (\<lambda>_ t. com t = com s \<and> tb_nonces (cur t) = tb_nonces (cur s)
            \<and> took now uid i (min (max 0 n) (availSum (r # rows))) ?X (tb_items (cur t)))
         (\<lambda>_ t. mf \<and> com t = com s)) (\<lambda>_ t. mf \<and> com t = com s) s"
    proof (rule wp_ItemUpdate, goal_cases)
      case 3
      with Cons.prems(1) show ?case by (simp add: goodRows_def)
    next
      case (5 x t)
      have X: "tb_items (cur t) = updated (\<lambda>x. it_ID x = it_ID r) (deductRow now d) ?X"
        using 5 deductRow_spec by simp
      have tk': "took now uid i d ?X (tb_items (cur t))" using tk X by simp
      have "r' \<in> set (tb_items (cur t)) \<and> revocable now uid i r'" if "r' \<in> set rows" for r'
      proof -
        have "r' \<in> set ?X" "revocable now uid i r'" "it_ID r' \<noteq> it_ID r"
          using Cons.prems(4) Cons.prems(5) [of r'] that by (auto simp: image_iff)
        then show ?thesis unfolding X by (auto simp: updated_def image_iff)
      qed
      then have "wp (revokeRows drv now (n - d) rows)
         (\<lambda>_ t'. com t' = com t \<and> tb_nonces (cur t') = tb_nonces (cur t)
            \<and> took now uid i (min (max 0 (n - d)) (availSum rows)) (tb_items (cur t)) (tb_items (cur t')))
         (\<lambda>_ t'. mf \<and> com t' = com t) t"
        using tk' d Cons.prems(3,4) by (intro Cons.IH) (auto simp: took_def fits64_def)
      then show ?case
        unfolding eq by (rule wp_mono) (use 5 tk' took_trans in auto)
    qed (use r in \<open>auto simp: ItemUpdateOne_check_def\<close>)
    have "(n \<le> 0) = False" using False by simp
    then show ?thesis
      unfolding revokeRows.simps Let_def av by (simp only: if_False wp_simps d_def [symmetric] rest upd)
  qed
qed

lemma wp_revokeItem:
  assumes good: "goodRows (tb_items (cur s))" "countsFit (tb_items (cur s))" and n: "fits64 n"
  shows "wp (revokeItemInTx drv uid i n now)
     (\<lambda>_ t. com t = com s \<and> tb_nonces (cur t) = tb_nonces (cur s)
        \<and> took now uid i (min (max 0 n) (liveHeld now uid i (tb_items (cur s)))) (tb_items (cur s)) (tb_items (cur t)))
     (\<lambda>_ t. mf \<and> com t = com s) s"
  unfolding revokeItemInTx_def wp_simps
proof (rule it.wp_All, goal_cases)
  case (1 rows t)
  let ?X = "tb_items (cur s)"
  have "matches [ItemUIDEQ uid, ItemIDEQ i, notExpiredPredicate now, availablePredicate] = revocable now uid i"
    by (rule ext) (simp add: matches_def revocable_def isRow_def)
  then have rows: "mset rows = mset (filter (revocable now uid i) ?X)"
    using selects_all(1) [OF \<open>selects _ _ rows\<close>] by (simp add: Where_def Query_def Order_def)
  have sum: "availSum rows = liveHeld now uid i ?X"
    using availSum_mset [OF rows] good by (simp add: liveHeld_availSum goodRows_def)
  have dist: "distinct (map it_ID rows)"
    using good rows by (metis distinct_map_filter goodRows_def mset_eq_imp_distinct_iff mset_map)
  have "wp (revokeRows drv now n rows)
     (\<lambda>_ t'. com t' = com t \<and> tb_nonces (cur t') = tb_nonces (cur t)
        \<and> took now uid i (min (max 0 n) (availSum rows)) (tb_items (cur t)) (tb_items (cur t')))
     (\<lambda>_ t'. mf \<and> com t' = com t) t"
    using 1 good n dist mset_eq_set [OF rows] by (intro wp_revokeRows) auto
  then show ?case
    by (rule wp_mono) (use 1 sum in auto)
qed simp

end

section \<open>RevokeItems\<close>

definition bagRevoke :: "int \<Rightarrow> uint64 \<Rightarrow> Reward option list \<Rightarrow> Item list \<Rightarrow> Item list \<Rightarrow> bool" where
  "bagRevoke now uid rewards xs ys \<longleftrightarrow>
     otherUsers uid ys = otherUsers uid xs \<and> expired now ys = expired now xs \<and>
     (\<forall>i. liveHeld now uid i ys = max 0 (liveHeld now uid i xs - rewardTotal i rewards))"

definition rewardsFit :: "Reward option list \<Rightarrow> bool" where
  "rewardsFit rewards \<longleftrightarrow> (\<forall>r. Some r \<in> set rewards \<longrightarrow> fits64 (rw_Count r))"

definition noNil :: "Reward option list \<Rightarrow> bool" where
  "noNil rewards \<longleftrightarrow> None \<notin> set rewards"

lemma liveHeld_nonneg: "bag_ok rows \<Longrightarrow> 0 \<le> liveHeld now u i rows"
  by (simp add: liveHeld_availSum availSum_nonneg bag_ok_def)

lemma bagRevoke_Nil: "bag_ok xs \<Longrightarrow> bagRevoke now uid [] xs xs"
  by (simp add: bagRevoke_def rewardTotal_def liveHeld_nonneg max_def)

lemma liveHeld_eq_offBag:
  assumes "offBag u j ys = offBag u j xs" and "i \<noteq> j"
  shows "liveHeld now u i ys = liveHeld now u i xs"
proof -
  have "offBag u j (filter (notExpiredPredicate now) zs) = filter (notExpiredPredicate now) (offBag u j zs)" for zs
    unfolding offBag_def filter_filter by (rule filter_cong) auto
  with assms show ?thesis
    unfolding liveHeld_def by (intro held_eq_offBag [of u j]) auto
qed

lemma bagRevoke_snoc:
  assumes "bagRevoke now uid rs xs ys" and ok: "bag_ok xs"
    and tk: "took now uid (rw_ItemTypeId r)
      (min (max 0 (rw_Count r)) (liveHeld now uid (rw_ItemTypeId r) ys)) ys zs"
  shows "bagRevoke now uid (rs @ [Some r]) xs zs"
proof -
  have off: "offBag uid (rw_ItemTypeId r) zs = offBag uid (rw_ItemTypeId r) ys" using tk by (simp add: took_def)
  have "liveHeld now uid i zs = max 0 (liveHeld now uid i xs - rewardTotal i (rs @ [Some r]))" for i
  proof (cases "i = rw_ItemTypeId r")
    case True
    with assms(1) tk show ?thesis
      by (auto simp: bagRevoke_def took_def rewardTotal_def rewardAmount_def)
  next
    case False
    with assms(1) liveHeld_eq_offBag [OF off] show ?thesis
      by (simp add: bagRevoke_def rewardTotal_def rewardAmount_def)
  qed
  with assms(1) tk otherUsers_eq_offBag [OF off] show ?thesis by (simp add: bagRevoke_def took_def)
qed

definition revoked ::
  "uint64 \<Rightarrow> string \<Rightarrow> Reward option list \<Rightarrow> item_tables \<Rightarrow> item_tables \<Rightarrow> bool" where
  "revoked uid revokeNonce rewards T T' \<longleftrightarrow> nonceAdded uid revokeNonce OperationTypeRevoke T T' \<and>
     goodTables T' \<and> countsFit (tb_items T') \<and> noNil rewards \<and>
     (\<exists>now. bagRevoke now uid rewards (tb_items T) (tb_items T'))"

definition revokedOnce ::
  "uint64 \<Rightarrow> string \<Rightarrow> string \<Rightarrow> Reward option list \<Rightarrow> item_tables \<Rightarrow> item_tables \<Rightarrow> bool" where
  "revokedOnce uid grantNonce revokeNonce rewards T T' \<longleftrightarrow>
     hasNonce uid grantNonce OperationTypeGrant T \<and>
     (if hasNonce uid revokeNonce OperationTypeRevoke T then T' = T
      else revoked uid revokeNonce rewards T T')"

definition revokeFailed ::
  "bool \<Rightarrow> uint64 \<Rightarrow> string \<Rightarrow> string \<Rightarrow> Reward option list \<Rightarrow> item_error \<Rightarrow> item_tables \<Rightarrow> item_tables \<Rightarrow> bool" where
  "revokeFailed mf uid grantNonce revokeNonce rewards e T T' \<longleftrightarrow>
     (T' = T \<or> mf \<and> hasNonce uid grantNonce OperationTypeGrant T \<and> revoked uid revokeNonce rewards T T') \<and>
     (mf \<or> e = ErrGrantNotCompleted \<or> 128 < length revokeNonce \<or> \<not> noNil rewards) \<and>
     (e = ErrGrantNotCompleted \<longrightarrow> T' = T \<and> \<not> hasNonce uid grantNonce OperationTypeGrant T)"

context item_db
begin

lemma wp_revokeReward:
  assumes good: "goodRows (tb_items (cur s))" "countsFit (tb_items (cur s))"
    and before: "bagRevoke now uid rs xs (tb_items (cur s))" and ok: "bag_ok xs"
    and fit: "\<And>r. rw = Some r \<Longrightarrow> fits64 (rw_Count r)"
  shows "wp (revokeReward drv uid now rw)
     (\<lambda>_ t. com t = com s \<and> tb_nonces (cur t) = tb_nonces (cur s) \<and> goodRows (tb_items (cur t))
        \<and> countsFit (tb_items (cur t)) \<and> rw \<noteq> None \<and> bagRevoke now uid (rs @ [rw]) xs (tb_items (cur t)))
     (\<lambda>e t. com t = com s \<and> (mf \<or> rw = None) \<and> e \<noteq> ErrGrantNotCompleted) s"
proof (cases rw)
  case None
  then show ?thesis by (simp add: revokeReward_def wp_simps)
next
  case (Some r)
  let ?i = "rw_ItemTypeId r"
  show ?thesis
  proof (cases "rw_Count r \<le> 0")
    case True
    have "0 \<le> liveHeld now uid ?i (tb_items (cur s))" using good by (simp add: goodRows_def liveHeld_nonneg)
    then have "bagRevoke now uid (rs @ [Some r]) xs (tb_items (cur s))"
      using True took_refl [OF good] by (intro bagRevoke_snoc [OF before ok]) (simp add: min_def max_def)
    with Some True good show ?thesis by (simp add: revokeReward_def wp_simps)
  next
    case False
    have "wp (revokeItemInTx drv uid ?i (rw_Count r) now)
     (\<lambda>_ t. com t = com s \<and> tb_nonces (cur t) = tb_nonces (cur s)
        \<and> took now uid ?i (min (max 0 (rw_Count r)) (liveHeld now uid ?i (tb_items (cur s))))
            (tb_items (cur s)) (tb_items (cur t)))
     (\<lambda>_ t. mf \<and> com t = com s) s"
      using Some fit by (intro wp_revokeItem [OF good]) simp
    then have "wp (revokeItemInTx drv uid ?i (rw_Count r) now)
     (\<lambda>_ t. com t = com s \<and> tb_nonces (cur t) = tb_nonces (cur s) \<and> goodRows (tb_items (cur t))
        \<and> countsFit (tb_items (cur t)) \<and> bagRevoke now uid (rs @ [Some r]) xs (tb_items (cur t)))
     (\<lambda>_ t. com t = com s \<and> mf) s"
      by (rule wp_mono) (auto simp: took_def intro!: bagRevoke_snoc [OF before ok])
    with Some False show ?thesis by (simp add: revokeReward_def wp_simps)
  qed
qed

lemma wp_revokeRewards:
  assumes good: "goodRows (tb_items (cur s))" "countsFit (tb_items (cur s))"
    and fit: "rewardsFit rewards"
  shows "wp (forEach rewards (revokeReward drv uid now))
     (\<lambda>_ t. com t = com s \<and> tb_nonces (cur t) = tb_nonces (cur s) \<and> goodRows (tb_items (cur t))
        \<and> countsFit (tb_items (cur t)) \<and> noNil rewards
        \<and> bagRevoke now uid rewards (tb_items (cur s)) (tb_items (cur t)))
     (\<lambda>e t. com t = com s \<and> (mf \<or> \<not> noNil rewards) \<and> e \<noteq> ErrGrantNotCompleted) s"
proof (rule wp_forEach, goal_cases)
  case (1 before rw rest t)
  then have good': "goodRows (tb_items (cur t))" "countsFit (tb_items (cur t))"
    and gr: "bagRevoke now uid before (tb_items (cur s)) (tb_items (cur t))" by auto
  have ok: "bag_ok (tb_items (cur s))" using good by (simp add: goodRows_def)
  have fit': "fits64 (rw_Count r)" if "rw = Some r" for r using fit 1 that by (auto simp: rewardsFit_def)
  show ?case
    by (rule wp_mono [OF wp_revokeReward [OF good' gr ok fit']]) (use 1 in \<open>auto simp: noNil_def\<close>)
next
  case 2
  with good show ?case by (auto simp: noNil_def goodRows_def intro: bagRevoke_Nil)
qed

lemma wp_RevokeItems:
  assumes good: "goodTables (com s)" "countsFit (tb_items (com s))" and fit: "rewardsFit rewards"
  shows "wp (RevokeItems drv uid grantNonce revokeNonce rewards)
     (\<lambda>_ t. revokedOnce uid grantNonce revokeNonce rewards (com s) (com t))
     (\<lambda>e t. revokeFailed mf uid grantNonce revokeNonce rewards e (com s) (com t)) s"
  unfolding RevokeItems_def
proof (rule wp_withTx [where Q = "\<lambda>_. revokedOnce uid grantNonce revokeNonce rewards (com s)"
      and E = "\<lambda>e. revokeFailed mf uid grantNonce revokeNonce rewards e (com s)"], goal_cases)
  case (1 t)
  let ?E = "\<lambda>e t'. revokeFailed mf uid grantNonce revokeNonce rewards e (com s) (com t')"
  let ?Q = "\<lambda>t'. revokedOnce uid grantNonce revokeNonce rewards (com s) (com t')"
  let ?G = "hasNonce uid grantNonce OperationTypeGrant (com s)"
  have create: "wp (attempt (ItemNonceCreate_Save drv uid revokeNonce OperationTypeRevoke)) R E' t1"
    if "tb_nonces (cur t1) = tb_nonces (com s)" and
      R: "\<And>t2. com t2 = com t1 \<Longrightarrow> tb_items (cur t2) = tb_items (cur t1) \<Longrightarrow>
        \<not> hasNonce uid revokeNonce OperationTypeRevoke (com s) \<Longrightarrow>
        uniq in_ID nonceConflict (tb_nonces (cur t2)) \<Longrightarrow>
        nonceAdded uid revokeNonce OperationTypeRevoke (com s) (cur t2) \<Longrightarrow> R (Inr ()) t2"
      "\<And>t2. com t2 = com t1 \<Longrightarrow> hasNonce uid revokeNonce OperationTypeRevoke (com s) \<Longrightarrow>
        R (Inl ConstraintError) t2"
      "\<And>e t2. com t2 = com t1 \<Longrightarrow> e \<noteq> ConstraintError \<Longrightarrow> 128 < length revokeNonce \<or> mf \<Longrightarrow> R (Inl e) t2"
    for R and E' :: "item_error \<Rightarrow> 's \<Rightarrow> bool" and t1
    unfolding wp_simps
    by (rule wp_NonceCreate)
       (use that good in \<open>auto simp: goodTables_def nonceAdded_def hasNonce_def\<close>)
  have body: "wp (forEach rewards (revokeReward drv uid now)) (\<lambda>_. wp (CommitTx drv)
        (\<lambda>_. ?Q) (\<lambda>_. ?E TxErr)) ?E t3"
    if t3: "com t3 = com s" "tb_items (cur t3) = tb_items (com s)" and G: ?G
      and new: "uniq in_ID nonceConflict (tb_nonces (cur t3))"
        "nonceAdded uid revokeNonce OperationTypeRevoke (com s) (cur t3)" for now t3
  proof (rule wp_mono [OF wp_revokeRewards], goal_cases)
    case (4 x t4)
    then have "revoked uid revokeNonce rewards (com s) (cur t4)"
      using t3 new by (auto simp: revoked_def nonceAdded_def goodTables_def)
    with 4 t3 G new show ?case
      by (intro wp_commit) (auto simp: revokedOnce_def revokeFailed_def nonceAdded_def)
  qed (use t3 good fit in \<open>auto simp: goodTables_def revokeFailed_def\<close>)
  show ?case
    unfolding wp_andThen wp_mapErr
  proof (intro wp_lockUID nn.wp_Exist, goal_cases)
    case (1 t1 b t2)
    then have t2: "com t2 = com s" "tb_items (cur t2) = tb_items (com s)" "tb_nonces (cur t2) = tb_nonces (com s)"
      using \<open>com t = com s\<close> \<open>cur t = com s\<close> by auto
    have b: "b = ?G"
      using 1 \<open>cur t = com s\<close> by (auto simp: hasNonce_def Where_def Query_def matches_def)
    show ?case
    proof (cases ?G)
      case False
      with b t2 show ?thesis by (simp add: wp_simps revokeFailed_def)
    next
      case True
      then have b': "(\<not> b) = False" using b by simp
      show ?thesis
        unfolding b' if_False wp_andThen
      proof (rule create, goal_cases)
        case (2 t3)
        with t2 True show ?case
          unfolding sum.case wp_simps prod.case by (intro wp_timeNow body) auto
      next
        case (3 t3)
        with t2 True show ?case by (simp add: wp_simps IsConstraintError_def revokedOnce_def)
      next
        case (4 e t3)
        with t2 show ?case by (auto simp: wp_simps IsConstraintError_def revokeFailed_def)
      qed (use t2 in auto)
    qed
  qed (use \<open>com t = com s\<close> in \<open>auto simp: revokeFailed_def\<close>)
next
  case 2
  then show ?case by (simp add: revokeFailed_def)
qed

end

end
