(* ===== verification/ItemsSpec.thy ===== *)
theory ItemsSpec
  imports ItemsRevoke
begin

text \<open>
  The contract of the item store: what a caller of \<open>AddItem\<close>, \<open>AddItems\<close>, \<open>RevokeItems\<close> and
  \<open>GetItems\<close> may rely on, for every database that keeps the laws of \<open>item_db\<close>, and an
  in-memory database on which the laws hold and the operations can be run.
\<close>

section \<open>The remaining operations\<close>

context item_db
begin

lemma wp_AddItem:
  assumes good: "goodTables (com s)"
  shows "wp (AddItem drv uid stackMode i n expireAt)
     (\<lambda>_ t. goodTables (com t) \<and> tb_nonces (com t) = tb_nonces (com s) \<and>
        offBag uid i (tb_items (com t)) = offBag uid i (tb_items (com s)) \<and>
        (stackMode \<noteq> StackModeTime \<longrightarrow> bagAdd uid i (max 0 n) (tb_items (com s)) (tb_items (com t))))
     (\<lambda>_ t. mf \<and> (com t = com s \<or> (goodTables (com t) \<and> tb_nonces (com t) = tb_nonces (com s)))) s"
  unfolding AddItem_def
proof (rule wp_withTx [where Q = "\<lambda>_ T. goodTables T \<and> tb_nonces T = tb_nonces (com s) \<and>
        offBag uid i (tb_items T) = offBag uid i (tb_items (com s)) \<and>
        (stackMode \<noteq> StackModeTime \<longrightarrow> bagAdd uid i (max 0 n) (tb_items (com s)) (tb_items T))"
      and E = "\<lambda>_ T. mf \<and> (T = com s \<or> (goodTables T \<and> tb_nonces T = tb_nonces (com s)))"], goal_cases)
  case (1 t)
  show ?case
    unfolding wp_simps prod.case
  proof (rule wp_lockUID, goal_cases)
    case (1 t1)
    then have t1: "com t1 = com s" "tb_items (cur t1) = tb_items (com s)" "tb_nonces (cur t1) = tb_nonces (com s)"
      using \<open>com t = com s\<close> \<open>cur t = com s\<close> by auto
    then have good': "goodRows (tb_items (cur t1))" using good by (simp add: goodTables_def)
    have "wp (addItemTimeStackInTx drv uid i n expireAt) (\<lambda>_ t. com t = com s \<and> goodTables (cur t) \<and>
        tb_nonces (cur t) = tb_nonces (com s) \<and> offBag uid i (tb_items (cur t)) = offBag uid i (tb_items (com s)))
       (\<lambda>_ t. mf \<and> com t = com s) t1"
      by (rule wp_mono [OF wp_addTime [OF good' refl refl]]) (use t1 good in \<open>auto simp: goodTables_def\<close>)
    moreover have "wp (addItemUnlimitedInTx drv uid i n expireAt) (\<lambda>_ t. com t = com s \<and> goodTables (cur t) \<and>
        tb_nonces (cur t) = tb_nonces (com s) \<and> offBag uid i (tb_items (cur t)) = offBag uid i (tb_items (com s)) \<and>
        bagAdd uid i (max 0 n) (tb_items (com s)) (tb_items (cur t)))
       (\<lambda>_ t. mf \<and> com t = com s) t1"
      by (rule wp_mono [OF wp_addUnlimited [OF good']]) (use t1 good in \<open>auto simp: goodTables_def bagAdd_def\<close>)
    ultimately show ?case
      by (cases "stackMode = StackModeTime") (auto elim!: wp_mono intro!: wp_commit)
  qed (use \<open>com t = com s\<close> in auto)
qed simp

lemma wp_GetItems:
  "wp (GetItems drv uid)
     (\<lambda>rs t. com t = com s \<and> mset rs = mset (filter (\<lambda>r. it_UID r = uid \<and>
        notExpiredPredicate (UnixSec (fst (Clock drv s))) r \<and> availablePredicate r) (tb_items (com s))))
     (\<lambda>_ t. mf \<and> com t = com s) s"
  unfolding GetItems_def wp_simps
proof (intro wp_timeNow db.wp_All, goal_cases)
  case (1 s' rs t)
  have "com t = com s" using 1 by (auto intro: item_tables.equality)
  moreover have "mset rs = mset (filter (matches [ItemUIDEQ uid,
      notExpiredPredicate (UnixSec (fst (Clock drv s))), availablePredicate]) (tb_items (com s)))"
    using selects_all(1) [OF \<open>selects _ _ rs\<close>] 1 by (simp add: Where_def Query_def)
  moreover have "matches [ItemUIDEQ uid, notExpiredPredicate now, availablePredicate] =
      (\<lambda>r. it_UID r = uid \<and> notExpiredPredicate now r \<and> availablePredicate r)" for now
    by (rule ext) (simp add: matches_def)
  ultimately show ?case by simp
qed simp

end

section \<open>Retries and executions\<close>

fun attempts :: "nat \<Rightarrow> ('s, 'e, 'a) act \<Rightarrow> 's \<Rightarrow> ('e + 'a) list \<times> 's" where
  "attempts 0 m s = ([], s)"
| "attempts (Suc k) m s =
     (case m s of (r, t) \<Rightarrow> (case attempts k m t of (rs, u) \<Rightarrow> (r # rs, u)))"

inductive item_step ::
  "'s item_drv \<Rightarrow> ('s \<Rightarrow> item_tables) \<Rightarrow> (int \<rightharpoonup> ItemConfig) \<Rightarrow> 's \<Rightarrow> 's \<Rightarrow> bool"
  for drv :: "'s item_drv" and com :: "'s \<Rightarrow> item_tables" and cfg :: "int \<rightharpoonup> ItemConfig" where
  step_AddItem: "snd (AddItem drv uid stackMode i n expireAt s) = t \<Longrightarrow> countsFit (tb_items (com t))
     \<Longrightarrow> item_step drv com cfg s t"
| step_AddItems: "snd (AddItems drv cfg uid nonce rewards s) = t \<Longrightarrow> countsFit (tb_items (com t))
     \<Longrightarrow> item_step drv com cfg s t"
| step_RevokeItems: "snd (RevokeItems drv uid grantNonce revokeNonce rewards s) = t \<Longrightarrow> rewardsFit rewards
     \<Longrightarrow> countsFit (tb_items (com t)) \<Longrightarrow> item_step drv com cfg s t"
| step_GetItems: "snd (GetItems drv uid s) = t \<Longrightarrow> item_step drv com cfg s t"
| step_idle: "com t = com s \<Longrightarrow> item_step drv com cfg s t"

text \<open>
  \<open>countsFit\<close> in a step says that the \<open>count\<close> column is a BIGINT: the database never stores a
  value outside int64.
\<close>

inductive_cases item_stepE: "item_step drv com cfg s t"

definition item_inv :: "item_tables \<Rightarrow> bool" where
  "item_inv T \<longleftrightarrow> goodTables T \<and> countsFit (tb_items T)"

definition noncesKept :: "item_tables \<Rightarrow> item_tables \<Rightarrow> bool" where
  "noncesKept T T' \<longleftrightarrow> set (tb_nonces T) \<subseteq> set (tb_nonces T')"

lemma hasNonce_kept: "noncesKept T T' \<Longrightarrow> hasNonce u k p T \<Longrightarrow> hasNonce u k p T'"
  by (auto simp: noncesKept_def hasNonce_def)

lemma nonceAdded_kept: "nonceAdded u k p T T' \<Longrightarrow> noncesKept T T'"
  by (auto simp: nonceAdded_def noncesKept_def)

context item_db
begin

lemma frame_AddItem:
  assumes "goodTables (com s)"
  shows "goodTables (com (snd (AddItem drv uid stackMode i n expireAt s)))
    \<and> noncesKept (com s) (com (snd (AddItem drv uid stackMode i n expireAt s)))"
  by (rule wp_final [OF wp_AddItem [OF assms], where I = "\<lambda>t. goodTables (com t) \<and> noncesKept (com s) (com t)"])
     (use assms in \<open>auto simp: noncesKept_def\<close>)

lemma frame_AddItems:
  assumes "goodTables (com s)"
  shows "goodTables (com (snd (AddItems drv cfg uid nonce rewards s)))
    \<and> noncesKept (com s) (com (snd (AddItems drv cfg uid nonce rewards s)))"
  by (rule wp_final [OF wp_AddItems [OF assms], where I = "\<lambda>t. goodTables (com t) \<and> noncesKept (com s) (com t)"])
     (use assms in \<open>auto simp: addedOnce_def addFailed_def granted_def noncesKept_def nonceAdded_def split: if_splits\<close>)

lemma frame_RevokeItems:
  assumes "goodTables (com s)" "countsFit (tb_items (com s))" "rewardsFit rewards"
  shows "goodTables (com (snd (RevokeItems drv uid grantNonce revokeNonce rewards s)))
    \<and> noncesKept (com s) (com (snd (RevokeItems drv uid grantNonce revokeNonce rewards s)))"
  by (rule wp_final [OF wp_RevokeItems [OF assms], where I = "\<lambda>t. goodTables (com t) \<and> noncesKept (com s) (com t)"])
     (use assms in \<open>auto simp: revokedOnce_def revokeFailed_def revoked_def noncesKept_def nonceAdded_def split: if_splits\<close>)

lemma frame_GetItems: "com (snd (GetItems drv uid s)) = com s"
  by (rule wp_final [OF wp_GetItems]) auto

lemma item_step_inv:
  assumes "item_step drv com cfg s t" and inv: "item_inv (com s)"
  shows "item_inv (com t) \<and> noncesKept (com s) (com t)"
  using assms(1)
proof cases
  case (step_AddItem uid stackMode i n expireAt)
  with frame_AddItem [of s uid stackMode i n expireAt] inv show ?thesis by (simp add: item_inv_def)
next
  case (step_AddItems uid nonce rewards)
  with frame_AddItems [of s cfg uid nonce rewards] inv show ?thesis by (simp add: item_inv_def)
next
  case (step_RevokeItems uid grantNonce revokeNonce rewards)
  with frame_RevokeItems [of s rewards uid grantNonce revokeNonce] inv show ?thesis by (simp add: item_inv_def)
next
  case (step_GetItems uid)
  with frame_GetItems [of uid s] inv show ?thesis by (simp add: noncesKept_def)
next
  case step_idle
  with inv show ?thesis by (simp add: noncesKept_def)
qed

lemma item_steps_inv:
  assumes "(item_step drv com cfg)\<^sup>*\<^sup>* s t" and "item_inv (com s)"
  shows "item_inv (com t) \<and> noncesKept (com s) (com t)"
  using assms
proof (induction rule: rtranclp_induct)
  case base
  then show ?case by (simp add: noncesKept_def)
next
  case (step t u)
  then show ?case using item_step_inv [of cfg t u] by (auto simp: noncesKept_def)
qed

end

section \<open>An in-memory database\<close>

record mem_items =
  mi_com :: item_tables
  mi_cur :: item_tables
  mi_clock :: gotime

definition mi_putItems :: "Item list \<Rightarrow> 'a mem_items_scheme \<Rightarrow> 'a mem_items_scheme" where
  "mi_putItems rows s = s\<lparr>mi_cur := (mi_cur s)\<lparr>tb_items := rows\<rparr>\<rparr>"

definition mi_putNonces :: "ItemNonce list \<Rightarrow> 'a mem_items_scheme \<Rightarrow> 'a mem_items_scheme" where
  "mi_putNonces rows s = s\<lparr>mi_cur := (mi_cur s)\<lparr>tb_nonces := rows\<rparr>\<rparr>"

definition mi_putLocks :: "ItemUserLock list \<Rightarrow> 'a mem_items_scheme \<Rightarrow> 'a mem_items_scheme" where
  "mi_putLocks rows s = s\<lparr>mi_cur := (mi_cur s)\<lparr>tb_locks := rows\<rparr>\<rparr>"

definition mi_putDb :: "Item list \<Rightarrow> 'a mem_items_scheme \<Rightarrow> 'a mem_items_scheme" where
  "mi_putDb rows s = s\<lparr>mi_com := (mi_com s)\<lparr>tb_items := rows\<rparr>\<rparr>"

definition mem_item_drv :: "'a mem_items_scheme item_drv" where
  "mem_item_drv = \<lparr>
     BeginTx = (\<lambda>s. (Inr (), s\<lparr>mi_cur := mi_com s\<rparr>)),
     CommitTx = (\<lambda>s. (Inr (), s\<lparr>mi_com := mi_cur s\<rparr>)),
     RollbackTx = (\<lambda>s. (Inr (), s\<lparr>mi_cur := mi_com s\<rparr>)),
     TxItem = mem_nodes (\<lambda>s. tb_items (mi_cur s)) mi_putItems it_ID setItemID noIndex (freshInt it_ID),
     TxNonce = mem_nodes (\<lambda>s. tb_nonces (mi_cur s)) mi_putNonces in_ID setNonceID nonceConflict (freshNat in_ID),
     TxLock = mem_nodes (\<lambda>s. tb_locks (mi_cur s)) mi_putLocks il_ID setLockID noIndex (freshNat il_ID),
     DbItem = mem_nodes (\<lambda>s. tb_items (mi_com s)) mi_putDb it_ID setItemID noIndex (freshInt it_ID),
     Clock = (\<lambda>s. (mi_clock s, s))\<rparr>"

lemmas mi_puts = mi_putItems_def mi_putNonces_def mi_putLocks_def mi_putDb_def

lemma mem_item_db: "item_db mf mem_item_drv mi_com mi_cur"
proof (intro item_db.intro item_db_axioms.intro, goal_cases)
  case 1
  show ?case unfolding mem_item_drv_def
    by (simp, rule mem_node_table) (auto simp: mi_puts setItemID_def noIndex_def freshInt_fresh)
next
  case 2
  show ?case unfolding mem_item_drv_def
    by (simp, rule mem_node_table) (auto simp: mi_puts setNonceID_def nonceConflict_def freshNat_fresh)
next
  case 3
  show ?case unfolding mem_item_drv_def
    by (simp, rule mem_node_table) (auto simp: mi_puts setLockID_def noIndex_def freshNat_fresh)
next
  case 4
  show ?case unfolding mem_item_drv_def
    by (simp, rule mem_node_table) (auto simp: mi_puts setItemID_def noIndex_def freshInt_fresh)
qed (auto simp: mem_item_drv_def wp_def)

interpretation mem: item_db False mem_item_drv mi_com mi_cur
  by (rule mem_item_db)

definition emptyItems :: mem_items where
  "emptyItems = \<lparr>mi_com = \<lparr>tb_items = [], tb_nonces = [], tb_locks = []\<rparr>,
     mi_cur = \<lparr>tb_items = [], tb_nonces = [], tb_locks = []\<rparr>, mi_clock = timeUnix 1000\<rparr>"

definition coinConfig :: "int \<rightharpoonup> ItemConfig" where
  "coinConfig = [1 \<mapsto> \<lparr>ci_ItemTypeId = 1, ci_ItemSystemId = 1, ci_Level = 1, ci_Name = ''coin'', ci_Desc = '''',
      ci_StackMode = StackModeCount, ci_StackCnt = 0, ci_ExtraArgs = ''''\<rparr>,
    2 \<mapsto> \<lparr>ci_ItemTypeId = 2, ci_ItemSystemId = 1, ci_Level = 1, ci_Name = ''pass'', ci_Desc = '''',
      ci_StackMode = StackModeTime, ci_StackCnt = 0, ci_ExtraArgs = ''''\<rparr>]"

definition coins :: "int \<Rightarrow> Reward option" where
  "coins n = Some \<lparr>rw_ItemTypeId = 1, rw_Count = n, rw_ExpireDurationSec = 0, rw_ExpireTimeUnix = 0, rw_Args = ''''\<rparr>"

lemma emptyItems_good [simp]: "goodTables (mi_com emptyItems)"
  by (simp add: goodTables_def goodRows_def bag_ok_def emptyItems_def uniq_def)

section \<open>Properties\<close>

text \<open>An action that grants once under a nonce, retried: whatever fails, the bag gets the rewards at most once.\<close>

lemma attempts_once:
  assumes once: "\<And>s. goodTables (com s) \<Longrightarrow> wp m (\<lambda>_ t. addedOnce cfg uid nonce rewards (com s) (com t))
      (\<lambda>_ t. com t = com s \<or> granted cfg uid nonce rewards (com s) (com t)) s"
    and "goodTables (com s)" and "attempts k m s = (results, t)"
  shows "(com t = com s \<or> granted cfg uid nonce rewards (com s) (com t)) \<and>
         (\<not> hasNonce uid nonce OperationTypeGrant (com s) \<and> (\<exists>x. Inr x \<in> set results)
          \<longrightarrow> granted cfg uid nonce rewards (com s) (com t))"
  using assms(2,3)
proof (induction k arbitrary: s results t)
  case (Suc k)
  obtain r s' where r: "m s = (r, s')" by (cases "m s")
  obtain rs where rs: "attempts k m s' = (rs, t)" "results = r # rs"
    using Suc.prems(2) r by (auto split: prod.splits)
  note w = once [OF Suc.prems(1)]
  have grantedI: "granted cfg uid nonce rewards (com s) (com s') \<Longrightarrow> ?case"
  proof -
    assume g: "granted cfg uid nonce rewards (com s) (com s')"
    then have n: "hasNonce uid nonce OperationTypeGrant (com s')" and "goodTables (com s')"
      using nonceAdded_hasNonce by (auto simp: granted_def)
    with Suc.IH [OF _ rs(1)] g have "com t = com s'" by (auto simp: granted_def nonceAdded_def)
    with g show ?case by simp
  qed
  show ?case
  proof (cases r)
    case (Inl e)
    with wpD_Inl [OF w] r have "com s' = com s \<or> granted cfg uid nonce rewards (com s) (com s')" by auto
    with grantedI show ?thesis
      using Suc.IH [OF _ rs(1)] Suc.prems(1) rs(2) Inl by auto
  next
    case (Inr x)
    with wpD_Inr [OF w] r have "addedOnce cfg uid nonce rewards (com s) (com s')" by simp
    with grantedI show ?thesis
      using Suc.IH [OF _ rs(1)] Suc.prems(1) by (auto simp: addedOnce_def split: if_splits)
  qed
qed simp

context item_db
begin

lemma attempts_AddItems:
  assumes "goodTables (com s)" and "attempts k (AddItems drv cfg uid nonce rewards) s = (results, t)"
  shows "(com t = com s \<or> granted cfg uid nonce rewards (com s) (com t)) \<and>
         (\<not> hasNonce uid nonce OperationTypeGrant (com s) \<and> Inr () \<in> set results
          \<longrightarrow> granted cfg uid nonce rewards (com s) (com t))"
proof -
  have "wp (AddItems drv cfg uid nonce rewards) (\<lambda>_ t. addedOnce cfg uid nonce rewards (com s) (com t))
      (\<lambda>_ t. com t = com s \<or> granted cfg uid nonce rewards (com s) (com t)) s" if "goodTables (com s)" for s
    by (rule wp_mono [OF wp_AddItems [OF that]]) (auto simp: addFailed_def)
  from attempts_once [of com, OF this assms] show ?thesis by auto
qed

end





text \<open>
  Adding a time-stacked item merges, and time is conserved. The records of the item that
  have not expired are replaced by a single record of count 1 whose expiry is now plus the
  seconds that were left on them plus the seconds granted; expired and permanent records, other
  items and other players are untouched. It holds as long as the new expiry is an int64 value,
  in spite of the wrap-around of the sum the code computes record by record.
\<close>

theorem addItemTimeStackInTx_merges:
  assumes "item_db mf drv com cur" and "goodRows (tb_items (cur s))"
    and "now = UnixSec (fst (Clock drv s))" and "e = expireUnix expireAt"
    and "timeFits now e uid i n (tb_items (cur s))"
  shows "case addItemTimeStackInTx drv uid i n expireAt s of
      (Inr _, t) \<Rightarrow> timeMerged now uid i ((e - now) * n) (tb_items (cur s)) (tb_items (cur t))
                    \<and> goodRows (tb_items (cur t)) \<and> com t = com s
    | (Inl _, t) \<Rightarrow> mf \<and> com t = com s"
  using item_db.wp_addTime [OF assms(1-4), of uid i n] assms(5)
  by (simp add: wp_def split: prod.splits sum.splits)

definition passRow :: "int \<Rightarrow> int \<Rightarrow> Item" where
  "passRow i expireAt = \<lparr>it_ID = i, it_UID = 7, it_ItemID = 2, it_Count = 1, it_UsedCount = 0,
     it_ExpireAtUnix = expireAt, it_Source = '''', it_CreateAtUnix = 0, it_UpdateAtUnix = 0\<rparr>"

definition twoPasses :: mem_items where
  "twoPasses = emptyItems\<lparr>mi_cur := \<lparr>tb_items = [passRow 1 1100, passRow 2 500, passRow 3 1200],
     tb_nonces = [], tb_locks = []\<rparr>\<rparr>"

theorem addItemTimeStackInTx_merges_witness:
  "case addItemTimeStackInTx mem_item_drv 7 2 2 (timeUnix 1010) twoPasses of
      (Inr _, t) \<Rightarrow> timeMerged 1000 7 2 20 (tb_items (mi_cur twoPasses)) (tb_items (mi_cur t))
                    \<and> goodRows (tb_items (mi_cur t)) \<and> mi_com t = mi_com twoPasses
    | (Inl _, t) \<Rightarrow> False"
proof -
  have "goodRows (tb_items (mi_cur twoPasses))"
    by (simp add: goodRows_def bag_ok_def twoPasses_def passRow_def)
  moreover have "UnixSec (fst (Clock mem_item_drv twoPasses)) = 1000"
    by (simp add: mem_item_drv_def twoPasses_def emptyItems_def)
  moreover have "expireUnix (timeUnix 1010) = 1010"
    by (simp add: expireUnix_def IsZero_def zeroTime_def timeUnix_def Nanosecond_per_Second_def UnixSec_def)
  moreover have "timeFits 1000 1010 7 2 2 (tb_items (mi_cur twoPasses))"
    by (simp add: timeFits_def fits64_def countsFit_def twoPasses_def passRow_def liveRow_def isRow_def timeLeft_def)
  ultimately show ?thesis
    using addItemTimeStackInTx_merges [OF mem_item_db, where s = twoPasses and mf = False and now = 1000
        and e = 1010 and expireAt = "timeUnix 1010" and uid = 7 and i = 2 and n = 2]
    by (auto split: prod.splits sum.splits)
qed

text \<open>
  C16: \<open>RevokeItems\<close> takes rewards back at most once, and only after the grant. When it
  succeeds the grant nonce is recorded; under a revoke nonce already used nothing changes, and
  under a new one every item loses the revoked count, as far as the player still has it
  unexpired (never below zero), while expired records and other players are untouched. When it
  fails, the database is unchanged unless a commit reported an error and took effect, and
  \<open>ErrGrantNotCompleted\<close> is returned only if the grant is not recorded.
\<close>

theorem RevokeItems_once:
  assumes "item_db mf drv com cur" and "goodTables (com s)" and "countsFit (tb_items (com s))"
    and "rewardsFit rewards"
  shows "case RevokeItems drv uid grantNonce revokeNonce rewards s of
      (Inr _, t) \<Rightarrow> hasNonce uid grantNonce OperationTypeGrant (com s) \<and>
         (if hasNonce uid revokeNonce OperationTypeRevoke (com s) then com t = com s
          else revoked uid revokeNonce rewards (com s) (com t))
    | (Inl e, t) \<Rightarrow> (com t = com s \<or> mf \<and> revoked uid revokeNonce rewards (com s) (com t)) \<and>
         (e = ErrGrantNotCompleted \<longrightarrow> \<not> hasNonce uid grantNonce OperationTypeGrant (com s) \<and> com t = com s) \<and>
         (mf \<or> e = ErrGrantNotCompleted \<or> 128 < length revokeNonce \<or> \<not> noNil rewards)"
  using item_db.wp_RevokeItems [OF assms, of uid grantNonce revokeNonce]
  by (auto simp: wp_def revokedOnce_def revokeFailed_def split: prod.splits sum.splits)

definition granted5 :: mem_items where
  "granted5 = snd (AddItems mem_item_drv coinConfig 7 ''grant'' [coins 5] emptyItems)"

theorem RevokeItems_once_witness:
  "revoked 7 ''revoke'' [coins 3] (mi_com granted5)
     (mi_com (snd (RevokeItems mem_item_drv 7 ''grant'' ''revoke'' [coins 3] granted5)))"
proof -
  have good: "goodTables (mi_com granted5)"
    unfolding granted5_def using mem.frame_AddItems [OF emptyItems_good] by simp
  have "list_all (\<lambda>r. - (2 ^ 63) \<le> it_Count r \<and> it_Count r < 2 ^ 63) (tb_items (mi_com granted5))" by code_simp
  then have fit: "countsFit (tb_items (mi_com granted5))" by (simp add: countsFit_def fits64_def list_all_iff)
  have "fst (RevokeItems mem_item_drv 7 ''grant'' ''revoke'' [coins 3] granted5) = Inr ()" by code_simp
  moreover have "\<not> list_ex (\<lambda>n. in_OpType n = OperationTypeRevoke) (tb_nonces (mi_com granted5))" by code_simp
  then have "\<not> hasNonce 7 ''revoke'' OperationTypeRevoke (mi_com granted5)"
    by (auto simp: hasNonce_def list_ex_iff)
  ultimately show ?thesis
    using RevokeItems_once [OF mem_item_db good fit, where rewards = "[coins 3]" and uid = 7 and mf = False
        and grantNonce = "''grant''" and revokeNonce = "''revoke''"]
    by (auto simp: rewardsFit_def coins_def fits64_def split: prod.splits sum.splits)
qed

text \<open>
  C17: In every state the item service can reach from a consistent one, by any sequence of
  \<open>AddItem\<close>, \<open>AddItems\<close>, \<open>RevokeItems\<close> and \<open>GetItems\<close> calls with any arguments and any failures,
  every record has \<open>0 \<le> used_count \<le> count\<close>, record ids and nonces are unique, and no recorded
  nonce is ever lost, so that a reward list once granted is never granted again.
\<close>

theorem item_reachable:
  assumes "item_db mf drv com cur" and "item_inv (com s)" and "(item_step drv com cfg)\<^sup>*\<^sup>* s t"
  shows "item_inv (com t) \<and> (hasNonce uid nonce opType (com s) \<longrightarrow> hasNonce uid nonce opType (com t))"
  using item_db.item_steps_inv [OF assms(1,3,2)] hasNonce_kept by blast

theorem item_reachable_witness:
  "item_inv (mi_com (snd (AddItems mem_item_drv coinConfig 7 ''order'' [coins 5] emptyItems)))"
proof -
  let ?t = "snd (AddItems mem_item_drv coinConfig 7 ''order'' [coins 5] emptyItems)"
  have "\<forall>r \<in> set (tb_items (mi_com ?t)). - (2 ^ 63) \<le> it_Count r \<and> it_Count r < 2 ^ 63" by code_simp
  then have "item_step mem_item_drv mi_com coinConfig emptyItems ?t"
    by (intro step_AddItems [of _ _ 7 "''order''" "[coins 5]"]) (auto simp: countsFit_def fits64_def)
  moreover have "item_inv (mi_com emptyItems)"
    using emptyItems_good unfolding item_inv_def by (simp add: countsFit_def emptyItems_def)
  ultimately show ?thesis using item_reachable [OF mem_item_db, of emptyItems coinConfig ?t] by blast
qed

text \<open>
  \<open>GetItems\<close> returns exactly the player's records that have not expired and are not used
  up, each once, and changes nothing.
\<close>

theorem GetItems_returns_bag:
  assumes "item_db mf drv com cur"
  shows "case GetItems drv uid s of
      (Inr rows, t) \<Rightarrow> com t = com s \<and> mset rows = mset (filter (\<lambda>r. it_UID r = uid \<and>
         (it_ExpireAtUnix r = 0 \<or> UnixSec (fst (Clock drv s)) < it_ExpireAtUnix r) \<and>
         it_UsedCount r < it_Count r) (tb_items (com s)))
    | (Inl _, t) \<Rightarrow> mf \<and> com t = com s"
  using item_db.wp_GetItems [OF assms, of uid s]
  by (simp add: wp_def split: prod.splits sum.splits)

theorem GetItems_returns_bag_witness:
  "case GetItems mem_item_drv 7 (twoPasses\<lparr>mi_com := mi_cur twoPasses\<rparr>) of
      (Inr rows, t) \<Rightarrow> mset rows = {# passRow 1 1100, passRow 3 1200 #}
    | (Inl _, t) \<Rightarrow> False"
proof -
  have "Clock mem_item_drv (twoPasses\<lparr>mi_com := mi_cur twoPasses\<rparr>)
      = (timeUnix 1000, twoPasses\<lparr>mi_com := mi_cur twoPasses\<rparr>)"
    by (simp add: mem_item_drv_def twoPasses_def emptyItems_def)
  then show ?thesis
    using GetItems_returns_bag [OF mem_item_db, where mf = False and uid = 7
        and s = "twoPasses\<lparr>mi_com := mi_cur twoPasses\<rparr>"]
    by (auto simp: twoPasses_def passRow_def split: prod.splits sum.splits)
qed

section \<open>Refinement to a ledger\<close>

text \<open>
  The abstract contract other services use: a ledger of how many of each item each player has,
  with the set of operations that were carried out.
\<close>

record ledger =
  lg_held :: "uint64 \<Rightarrow> int \<Rightarrow> int"
  lg_done :: "(uint64 \<times> string \<times> int) set"

definition ledgerOf :: "item_tables \<Rightarrow> ledger" where
  "ledgerOf T = \<lparr>lg_held = (\<lambda>u i. held u i (tb_items T)),
     lg_done = {(in_UID n, in_Nonce n, in_OpType n) | n. n \<in> set (tb_nonces T)}\<rparr>"

definition grantLedger :: "uint64 \<Rightarrow> string \<Rightarrow> Reward option list \<Rightarrow> ledger \<Rightarrow> ledger" where
  "grantLedger uid nonce rewards L =
     (if (uid, nonce, OperationTypeGrant) \<in> lg_done L then L
      else L\<lparr>lg_held := (\<lambda>u i. lg_held L u i + (if u = uid then rewardTotal i rewards else 0)),
             lg_done := insert (uid, nonce, OperationTypeGrant) (lg_done L)\<rparr>)"

lemma held_otherUsers: "u \<noteq> v \<Longrightarrow> held u i (otherUsers v rows) = held u i rows"
  by (induction rows) (auto simp: held_def otherUsers_def heldBy_def)

lemma held_eq_otherUsers: "otherUsers v xs = otherUsers v ys \<Longrightarrow> u \<noteq> v \<Longrightarrow> held u i xs = held u i ys"
  by (metis held_otherUsers)

lemma lg_done_hasNonce: "(u, k, p) \<in> lg_done (ledgerOf T) \<longleftrightarrow> hasNonce u k p T"
  by (auto simp: ledgerOf_def hasNonce_def)

lemma granted_ledger:
  assumes "granted cfg uid nonce rewards T T'" and "\<forall>i \<in> rewardItems rewards. countMode cfg i"
  shows "ledgerOf T' = grantLedger uid nonce rewards (ledgerOf T)"
proof -
  have new: "\<not> hasNonce uid nonce OperationTypeGrant T" using assms(1) by (simp add: granted_def nonceAdded_def)
  have b: "bagGrant cfg uid rewards (tb_items T) (tb_items T')" using assms(1) by (simp add: granted_def)
  have h: "held u i (tb_items T') = held u i (tb_items T) + (if u = uid then rewardTotal i rewards else 0)" for u i
    using b held_eq_otherUsers [of uid "tb_items T'" "tb_items T" u i] assms(2)
    by (auto simp: bagGrant_def)
  have d: "lg_done (ledgerOf T') = insert (uid, nonce, OperationTypeGrant) (lg_done (ledgerOf T))"
    using nonceAdded_hasNonce [of uid nonce OperationTypeGrant T T'] assms(1)
    by (auto simp: granted_def lg_done_hasNonce)
  show ?thesis
  proof (rule ledger.equality)
    show "lg_held (ledgerOf T') = lg_held (grantLedger uid nonce rewards (ledgerOf T))"
      using new h by (intro ext) (simp add: grantLedger_def lg_done_hasNonce, simp add: ledgerOf_def)
    show "lg_done (ledgerOf T') = lg_done (grantLedger uid nonce rewards (ledgerOf T))"
      using new d by (simp add: grantLedger_def lg_done_hasNonce)
  qed simp
qed

text \<open>
  C18: For rewards whose items stack by count, \<open>AddItems\<close> refines the ledger's grant: a
  successful call takes the ledger of the database to the granted ledger, and a failed call
  either leaves it or, when the failure hid a commit, takes it there too.
\<close>

theorem AddItems_refines_ledger:
  assumes "item_db mf drv com cur" and "goodTables (com s)"
    and "\<forall>i \<in> rewardItems rewards. countMode cfg i"
  shows "case AddItems drv cfg uid nonce rewards s of
      (Inr _, t) \<Rightarrow> ledgerOf (com t) = grantLedger uid nonce rewards (ledgerOf (com s))
    | (Inl _, t) \<Rightarrow> ledgerOf (com t) = ledgerOf (com s) \<or>
         mf \<and> ledgerOf (com t) = grantLedger uid nonce rewards (ledgerOf (com s))"
proof -
  have same: "grantLedger uid nonce rewards (ledgerOf (com s)) = ledgerOf (com s)"
    if "hasNonce uid nonce OperationTypeGrant (com s)"
    using that by (simp add: grantLedger_def lg_done_hasNonce)
  show ?thesis
    using item_db.wp_AddItems [OF assms(1,2), of cfg uid nonce rewards] granted_ledger [OF _ assms(3)] same
    by (auto simp: wp_def addedOnce_def addFailed_def split: prod.splits sum.splits if_splits)
qed

theorem AddItems_refines_ledger_witness:
  "lg_held (ledgerOf (mi_com (snd (AddItems mem_item_drv coinConfig 7 ''order'' [coins 5, coins 2] emptyItems)))) 7 1 = 7"
proof -
  have "\<forall>i \<in> rewardItems [coins 5, coins 2]. countMode coinConfig i"
    by (auto simp: rewardItems_def coins_def countMode_def coinConfig_def)
  moreover have "fst (AddItems mem_item_drv coinConfig 7 ''order'' [coins 5, coins 2] emptyItems) = Inr ()"
    by code_simp
  moreover have "lg_held (grantLedger 7 ''order'' [coins 5, coins 2] (ledgerOf (mi_com emptyItems))) 7 1 = 7"
    by (simp add: grantLedger_def ledgerOf_def emptyItems_def rewardTotal_def rewardAmount_def coins_def held_def)
  ultimately show ?thesis
    using AddItems_refines_ledger [OF mem_item_db emptyItems_good, where mf = False and rewards = "[coins 5, coins 2]"
        and cfg = coinConfig and uid = 7 and nonce = "''order''"]
    by (auto split: prod.splits sum.splits)
qed

end
