(* ===== verification/Cachex.thy ===== *)
theory Cachex
  imports GoStd
begin

text \<open>
  The version-checked cache of \<open>pkg/cachex/version_cache.go\<close>: a local cache on every node whose
  entries carry the version that Redis had when they were loaded. Redis, the local ristretto
  cache and \<open>cast.ToInt64\<close> are parameters; \<open>singleflight\<close> runs the loading function once for
  concurrent callers, so a call is modelled as running it; theory CacheRuns has the callers that join it.
\<close>

section \<open>Data\<close>

record 'd versionedEntry =
  ve_Data :: 'd
  ve_Version :: int

datatype redis_error = RedisNil | RedisFailure

record ('s, 'k, 'd) cache_drv =
  RedisGet :: "string \<Rightarrow> ('s, redis_error, string) act"
  RedisIncr :: "string \<Rightarrow> ('s, redis_error, unit) act"
  RedisIncrExpire :: "string \<Rightarrow> duration \<Rightarrow> ('s, redis_error, unit) act"
  LocalGet :: "'k \<Rightarrow> 's \<Rightarrow> 'd versionedEntry option \<times> 's"
  LocalSetWithTTL :: "'k \<Rightarrow> 'd versionedEntry \<Rightarrow> duration \<Rightarrow> 's \<Rightarrow> 's"
  LocalDel :: "'k \<Rightarrow> 's \<Rightarrow> 's"
  ToInt64 :: "string \<Rightarrow> int"

record ('s, 'k, 'd, 'e) VersionedCache =
  vc_drv :: "('s, 'k, 'd) cache_drv"
  vc_keyFunc :: "'k \<Rightarrow> string"
  vc_loadFunc :: "'k \<Rightarrow> ('s, 'e, 'd) act"
  vc_localTTL :: duration
  vc_versionTTL :: duration

record VersionedCacheOption =
  vo_MaxKeys :: int
  vo_LocalTTL :: duration
  vo_VersionTTL :: duration

definition DefaultVersionedCacheOption :: VersionedCacheOption where
  "DefaultVersionedCacheOption = \<lparr>vo_MaxKeys = 5000, vo_LocalTTL = 5 * Minute, vo_VersionTTL = 24 * Hour\<rparr>"

definition effectiveOption :: "VersionedCacheOption list \<Rightarrow> VersionedCacheOption" where
  "effectiveOption options =
     (let o0 = (case options of [] \<Rightarrow> DefaultVersionedCacheOption | x # _ \<Rightarrow> x);
          o1 = (if vo_MaxKeys o0 \<le> 0 then o0\<lparr>vo_MaxKeys := 5000\<rparr> else o0)
      in if vo_LocalTTL o1 \<le> 0 then o1\<lparr>vo_LocalTTL := 5 * Minute\<rparr> else o1)"

definition NewVersionedCache ::
  "('s, 'k, 'd) cache_drv \<Rightarrow> ('k \<Rightarrow> string) \<Rightarrow> ('k \<Rightarrow> ('s, 'e, 'd) act) \<Rightarrow> VersionedCacheOption list
   \<Rightarrow> ('s, 'k, 'd, 'e) VersionedCache" where
  "NewVersionedCache drv keyFunc loadFunc options =
     (let option = effectiveOption options in
      \<lparr>vc_drv = drv, vc_keyFunc = keyFunc, vc_loadFunc = loadFunc,
       vc_localTTL = vo_LocalTTL option, vc_versionTTL = vo_VersionTTL option\<rparr>)"

section \<open>Operations\<close>

definition getRemoteVersion :: "('s, 'k, 'd, 'e) VersionedCache \<Rightarrow> string \<Rightarrow> ('s, redis_error, int) act" where
  "getRemoteVersion c redisKey = andThen (attempt (RedisGet (vc_drv c) redisKey))
     (\<lambda>r. case r of
        Inl e \<Rightarrow> if e = RedisNil then ok 0 else fail e
      | Inr value \<Rightarrow> ok (ToInt64 (vc_drv c) value))"

definition localGet :: "('s, 'k, 'd, 'e) VersionedCache \<Rightarrow> 'k \<Rightarrow> ('s, 'x, 'd versionedEntry option) act" where
  "localGet c key s = (case LocalGet (vc_drv c) key s of (r, t) \<Rightarrow> (Inr r, t))"

definition localSet :: "('s, 'k, 'd, 'e) VersionedCache \<Rightarrow> 'k \<Rightarrow> 'd versionedEntry \<Rightarrow> ('s, 'x, unit) act" where
  "localSet c key entry s = (Inr (), LocalSetWithTTL (vc_drv c) key entry (vc_localTTL c) s)"

definition localDel :: "('s, 'k, 'd, 'e) VersionedCache \<Rightarrow> 'k \<Rightarrow> ('s, 'x, unit) act" where
  "localDel c key s = (Inr (), LocalDel (vc_drv c) key s)"

definition loadEntry :: "('s, 'k, 'd, 'e) VersionedCache \<Rightarrow> 'k \<Rightarrow> ('s, 'e, 'd versionedEntry) act" where
  "loadEntry c key =
     andThen (attempt (getRemoteVersion c (vc_keyFunc c key))) (\<lambda>latest.
     andThen (localGet c key) (\<lambda>current.
       if current \<noteq> None \<and> latest = Inr (ve_Version (the current)) then ok (the current)
       else andThen (attempt (vc_loadFunc c key)) (\<lambda>loaded.
         case loaded of
           Inl e \<Rightarrow> (case current of Some entry \<Rightarrow> ok entry | None \<Rightarrow> fail e)
         | Inr data \<Rightarrow>
             let latestVersion = (case latest of Inl _ \<Rightarrow> 0 | Inr v \<Rightarrow> v);
                 entry = \<lparr>ve_Data = data, ve_Version = latestVersion\<rparr>
             in andThen (localSet c key entry) (\<lambda>_. ok entry))))"

definition Get :: "('s, 'k, 'd, 'e) VersionedCache \<Rightarrow> 'k \<Rightarrow> ('s, 'e, 'd) act" where
  "Get c key =
     andThen (attempt (getRemoteVersion c (vc_keyFunc c key))) (\<lambda>remote.
     andThen (localGet c key) (\<lambda>localEntry.
       case (remote, localEntry) of
         (Inl _, Some entry) \<Rightarrow> ok (ve_Data entry)
       | (Inr v, Some entry) \<Rightarrow>
           if ve_Version entry = v then ok (ve_Data entry)
           else andThen (loadEntry c key) (\<lambda>entry'. ok (ve_Data entry'))
       | (_, None) \<Rightarrow> andThen (loadEntry c key) (\<lambda>entry'. ok (ve_Data entry'))))"

definition Invalidate :: "('s, 'k, 'd, 'e) VersionedCache \<Rightarrow> 'k \<Rightarrow> ('s, redis_error, unit) act" where
  "Invalidate c key =
     andThen (localDel c key) (\<lambda>_.
       if vc_versionTTL c \<le> 0 then RedisIncr (vc_drv c) (vc_keyFunc c key)
       else RedisIncrExpire (vc_drv c) (vc_keyFunc c key) (vc_versionTTL c))"

section \<open>What the cache relies on\<close>

text \<open>
  \<open>ver s k\<close> is the version Redis has under key \<open>k\<close> (0 when there is none), \<open>ents s key\<close> the
  entries that any node holds for a key, \<open>src s key\<close> what the loading function would return
  now. \<open>mf\<close> says whether Redis or the load may fail. An eviction or an expiry only removes
  entries.
\<close>

definition cacheBounded :: "('k \<Rightarrow> string) \<Rightarrow> (string \<Rightarrow> int) \<Rightarrow> ('k \<Rightarrow> 'd versionedEntry set) \<Rightarrow> bool" where
  "cacheBounded kf ver ents \<longleftrightarrow>
     (\<forall>key. \<forall>e \<in> ents key. ve_Version e \<le> ver (kf key)) \<and> (\<forall>k. 0 \<le> ver k)"

definition cacheFresh ::
  "('k \<Rightarrow> string) \<Rightarrow> (string \<Rightarrow> int) \<Rightarrow> ('k \<Rightarrow> 'd versionedEntry set) \<Rightarrow> ('k \<Rightarrow> 'd) \<Rightarrow> 'k \<Rightarrow> bool" where
  "cacheFresh kf ver ents src key \<longleftrightarrow>
     (\<forall>e \<in> ents key. ve_Version e = ver (kf key) \<longrightarrow> ve_Data e = src key)"

locale cache_env =
  fixes mf :: bool
    and c :: "('s, 'k, 'd, 'e) VersionedCache"
    and ver :: "'s \<Rightarrow> string \<Rightarrow> int"
    and ents :: "'s \<Rightarrow> 'k \<Rightarrow> 'd versionedEntry set"
    and src :: "'s \<Rightarrow> 'k \<Rightarrow> 'd"
  assumes redis_get_law:
      "wp (RedisGet (vc_drv c) k)
         (\<lambda>v t. ToInt64 (vc_drv c) v = ver s k \<and> ver t = ver s \<and> src t = src s \<and> (\<forall>x. ents t x \<subseteq> ents s x))
         (\<lambda>e t. (if e = RedisNil then ver s k = 0 else mf) \<and> ver t = ver s \<and> src t = src s \<and> (\<forall>x. ents t x \<subseteq> ents s x)) s"
    and redis_incr_law:
      "wp (RedisIncr (vc_drv c) k)
         (\<lambda>_ t. ver t = (ver s)(k := ver s k + 1) \<and> src t = src s \<and> (\<forall>x. ents t x \<subseteq> ents s x))
         (\<lambda>_ t. mf \<and> (ver t = ver s \<or> ver t = (ver s)(k := ver s k + 1)) \<and> src t = src s \<and> (\<forall>x. ents t x \<subseteq> ents s x)) s"
    and redis_incr_expire_law:
      "wp (RedisIncrExpire (vc_drv c) k ttl)
         (\<lambda>_ t. ver t = (ver s)(k := ver s k + 1) \<and> src t = src s \<and> (\<forall>x. ents t x \<subseteq> ents s x))
         (\<lambda>_ t. mf \<and> (ver t = ver s \<or> ver t = (ver s)(k := ver s k + 1)) \<and> src t = src s \<and> (\<forall>x. ents t x \<subseteq> ents s x)) s"
    and local_get_law:
      "LocalGet (vc_drv c) key s = (r, t) \<Longrightarrow>
         (\<forall>e. r = Some e \<longrightarrow> e \<in> ents s key) \<and> ver t = ver s \<and> src t = src s \<and> (\<forall>x. ents t x \<subseteq> ents s x)"
    and local_set_law:
      "ver (LocalSetWithTTL (vc_drv c) key entry ttl s) = ver s \<and> src (LocalSetWithTTL (vc_drv c) key entry ttl s) = src s
       \<and> ents (LocalSetWithTTL (vc_drv c) key entry ttl s) key \<subseteq> insert entry (ents s key)
       \<and> (\<forall>x. x \<noteq> key \<longrightarrow> ents (LocalSetWithTTL (vc_drv c) key entry ttl s) x \<subseteq> ents s x)"
    and local_del_law:
      "ver (LocalDel (vc_drv c) key s) = ver s \<and> src (LocalDel (vc_drv c) key s) = src s
       \<and> (\<forall>x. ents (LocalDel (vc_drv c) key s) x \<subseteq> ents s x)"
    and load_law:
      "wp (vc_loadFunc c key)
         (\<lambda>d t. d = src s key \<and> ver t = ver s \<and> src t = src s \<and> (\<forall>x. ents t x \<subseteq> ents s x))
         (\<lambda>_ t. mf \<and> ver t = ver s \<and> src t = src s \<and> (\<forall>x. ents t x \<subseteq> ents s x)) s"
    and key_inj: "vc_keyFunc c x = vc_keyFunc c y \<Longrightarrow> x = y"
begin

abbreviation bounded :: "'s \<Rightarrow> bool" where
  "bounded s \<equiv> cacheBounded (vc_keyFunc c) (ver s) (ents s)"

abbreviation fresh :: "'s \<Rightarrow> 'k \<Rightarrow> bool" where
  "fresh s key \<equiv> cacheFresh (vc_keyFunc c) (ver s) (ents s) (src s) key"

definition keeps :: "'s \<Rightarrow> 's \<Rightarrow> bool" where
  "keeps s t \<longleftrightarrow> ver t = ver s \<and> src t = src s \<and> (\<forall>x. ents t x \<subseteq> ents s x)"

lemma keeps_refl: "keeps s s"
  by (simp add: keeps_def)

lemma keeps_trans: "keeps s t \<Longrightarrow> keeps t u \<Longrightarrow> keeps s u"
  by (auto simp: keeps_def)

lemma keeps_inv: "keeps s t \<Longrightarrow> bounded s \<Longrightarrow> bounded t" "keeps s t \<Longrightarrow> fresh s key \<Longrightarrow> fresh t key"
  by (fastforce simp: keeps_def cacheBounded_def cacheFresh_def)+

lemma wp_remoteVersion:
  assumes "\<And>t. keeps s t \<Longrightarrow> Q (ver s k) t"
    and "\<And>e t. mf \<Longrightarrow> keeps s t \<Longrightarrow> E e t"
  shows "wp (getRemoteVersion c k) Q E s"
  unfolding getRemoteVersion_def wp_simps
  by (rule wp_mono [OF redis_get_law]) (use assms in \<open>auto simp: wp_simps keeps_def\<close>)

lemma wp_localGet:
  assumes "\<And>r t. keeps s t \<Longrightarrow> (\<And>e. r = Some e \<Longrightarrow> e \<in> ents s key) \<Longrightarrow> Q r t"
  shows "wp (localGet c key) Q E s"
  using assms local_get_law [of key s] by (auto simp: wp_def localGet_def keeps_def split: prod.splits)

lemma wp_loadEntry:
  assumes inv: "bounded s" "fresh s key"
  shows "wp (loadEntry c key)
     (\<lambda>entry t. bounded t \<and> fresh t key \<and> ver t = ver s \<and> src t = src s \<and> (mf \<or> ve_Data entry = src s key))
     (\<lambda>_ t. mf \<and> bounded t \<and> fresh t key \<and> ver t = ver s \<and> src t = src s) s"
proof -
  let ?k = "vc_keyFunc c key"
  let ?Q = "\<lambda>entry t. bounded t \<and> fresh t key \<and> ver t = ver s \<and> src t = src s \<and> (mf \<or> ve_Data entry = src s key)"
  let ?E = "\<lambda>t. mf \<and> bounded t \<and> fresh t key \<and> ver t = ver s \<and> src t = src s"
  have store: "wp (localSet c key \<lparr>ve_Data = src s key, ve_Version = v\<rparr>) (\<lambda>_. ?Q \<lparr>ve_Data = src s key, ve_Version = v\<rparr>) E t"
    if "keeps s t" "v \<le> ver s ?k" for v t and E :: "'e \<Rightarrow> 's \<Rightarrow> bool"
  proof -
    have "bounded t" "fresh t key" using keeps_inv that inv by blast+
    moreover have "ver t = ver s" "src t = src s" using that by (auto simp: keeps_def)
    ultimately show ?thesis
      using local_set_law [of key "\<lparr>ve_Data = src s key, ve_Version = v\<rparr>" "vc_localTTL c" t] that(2)
      unfolding wp_def localSet_def cacheBounded_def cacheFresh_def
      by (simp, fastforce)
  qed
  have load: "wp (vc_loadFunc c key) (\<lambda>d t'. d = src s key \<and> keeps s t') (\<lambda>_ t'. mf \<and> keeps s t') t" if "keeps s t" for t
    by (rule wp_mono [OF load_law]) (use that in \<open>auto simp: keeps_def\<close>)
  show ?thesis
    unfolding loadEntry_def wp_simps
  proof (intro wp_remoteVersion wp_localGet, goal_cases)
    case (1 t1 current t2)
    then have k2: "keeps s t2" and cur: "\<And>e. current = Some e \<Longrightarrow> e \<in> ents s key"
      using keeps_trans by (auto simp: keeps_def)
    have i2: "bounded t2" "fresh t2 key" using keeps_inv k2 inv by blast+
    show ?case
    proof (cases "current \<noteq> None \<and> ve_Version (the current) = ver s ?k")
      case True
      then have "ve_Data (the current) = src s key" using cur inv by (auto simp: cacheFresh_def)
      with True i2 k2 show ?thesis by (auto simp: wp_simps keeps_def)
    next
      case False
      then have "(current \<noteq> None \<and> Inr (ver s ?k) = (Inr (ve_Version (the current)) :: redis_error + int)) = False"
        by auto
      then show ?thesis
        unfolding wp_simps by (simp only: if_False) (rule wp_mono [OF load [OF k2]],
          use store [of _ "ver s ?k"] cur keeps_inv inv in \<open>auto simp: wp_simps Let_def keeps_def split: option.splits\<close>)
    qed
  next
    case (2 e t1 current t2)
    then have k2: "keeps s t2" and cur: "\<And>e. current = Some e \<Longrightarrow> e \<in> ents s key"
      using keeps_trans by (auto simp: keeps_def)
    have "0 \<le> ver s ?k" using inv by (simp add: cacheBounded_def)
    then show ?case
      unfolding wp_simps by (simp only: sum.simps if_False simp_thms) (rule wp_mono [OF load [OF k2]],
        use store [of _ 0] \<open>mf\<close> cur keeps_inv inv in \<open>auto simp: wp_simps Let_def keeps_def split: option.splits\<close>)
  qed
qed

lemma wp_Get:
  assumes inv: "bounded s" "fresh s key"
  shows "wp (Get c key)
     (\<lambda>d t. bounded t \<and> fresh t key \<and> ver t = ver s \<and> src t = src s \<and> (mf \<or> d = src s key))
     (\<lambda>_ t. mf \<and> bounded t \<and> fresh t key \<and> ver t = ver s \<and> src t = src s) s"
proof -
  have load: "wp (loadEntry c key)
     (\<lambda>entry t. bounded t \<and> fresh t key \<and> ver t = ver s \<and> src t = src s \<and> (mf \<or> ve_Data entry = src s key))
     (\<lambda>_ t. mf \<and> bounded t \<and> fresh t key \<and> ver t = ver s \<and> src t = src s) t" if "keeps s t" for t
    by (rule wp_mono [OF wp_loadEntry]) (use that keeps_inv inv in \<open>auto simp: keeps_def\<close>)
  show ?thesis
    unfolding Get_def wp_simps
  proof (intro wp_remoteVersion wp_localGet, goal_cases)
    case (1 t1 entry t2)
    then have k2: "keeps s t2" and cur: "\<And>e. entry = Some e \<Longrightarrow> e \<in> ents s key"
      using keeps_trans by (auto simp: keeps_def)
    have i2: "bounded t2" "fresh t2 key" using keeps_inv k2 inv by blast+
    show ?case
    proof (cases entry)
      case None
      with load [OF k2] show ?thesis by (simp add: wp_simps)
    next
      case (Some e)
      with cur inv have "ve_Version e = ver s (vc_keyFunc c key) \<Longrightarrow> ve_Data e = src s key"
        by (auto simp: cacheFresh_def)
      with Some load [OF k2] i2 k2 show ?thesis by (simp add: wp_simps keeps_def)
    qed
  next
    case (2 e t1 entry t2)
    then have k2: "keeps s t2" using keeps_trans by blast
    have i2: "bounded t2" "fresh t2 key" using keeps_inv k2 inv by blast+
    show ?case
      using load [OF k2] i2 k2 \<open>mf\<close> by (cases entry) (simp_all add: wp_simps keeps_def)
  qed
qed

lemma wp_Invalidate:
  assumes inv: "bounded s"
  shows "wp (Invalidate c key) (\<lambda>_ t. bounded t \<and> fresh t key \<and> src t = src s)
     (\<lambda>_ t. mf \<and> bounded t \<and> src t = src s) s"
proof -
  let ?k = "vc_keyFunc c key"
  have bump: "bounded t \<and> fresh t key"
    if "ver t = (ver s)(?k := ver s ?k + 1)" "\<forall>x. ents t x \<subseteq> ents s x" for t
    using that inv unfolding cacheBounded_def cacheFresh_def by (auto dest: key_inj) force+
  have same: "bounded t" if "ver t = ver s" "\<forall>x. ents t x \<subseteq> ents s x" for t
    using that inv unfolding cacheBounded_def by fastforce
  let ?d = "LocalDel (vc_drv c) key s"
  have d: "ver ?d = ver s" "src ?d = src s" "\<forall>x. ents ?d x \<subseteq> ents s x" using local_del_law [of key s] by auto
  have sub: "\<forall>x. ents t x \<subseteq> ents s x" if "\<forall>x. ents t x \<subseteq> ents ?d x" for t using that d(3) by blast
  have "wp (RedisIncr (vc_drv c) ?k) (\<lambda>_ t. bounded t \<and> fresh t key \<and> src t = src s) (\<lambda>_ t. mf \<and> bounded t \<and> src t = src s) ?d"
    by (rule wp_mono [OF redis_incr_law [of _ ?d, unfolded d(1,2)]]) (metis bump same sub)+
  moreover have "wp (RedisIncrExpire (vc_drv c) ?k ttl) (\<lambda>_ t. bounded t \<and> fresh t key \<and> src t = src s)
      (\<lambda>_ t. mf \<and> bounded t \<and> src t = src s) ?d" for ttl
    by (rule wp_mono [OF redis_incr_expire_law [of _ _ ?d, unfolded d(1,2)]]) (metis bump same sub)+
  ultimately show ?thesis
    unfolding Invalidate_def wp_simps by (simp add: wp_def localDel_def split: prod.splits)
qed

end

section \<open>An in-memory environment\<close>

record 'd mem_cache =
  mc_ver :: "string \<Rightarrow> nat"
  mc_local :: "nat \<Rightarrow> 'd versionedEntry option"
  mc_src :: "nat \<Rightarrow> 'd"

definition mem_incr :: "string \<Rightarrow> 'd mem_cache \<Rightarrow> 'd mem_cache" where
  "mem_incr k s = s\<lparr>mc_ver := (mc_ver s)(k := Suc (mc_ver s k))\<rparr>"

definition mem_cache_drv :: "('d mem_cache, nat, 'd) cache_drv" where
  "mem_cache_drv = \<lparr>
     RedisGet = (\<lambda>k s. (if mc_ver s k = 0 then Inl RedisNil else Inr (decimal (mc_ver s k)), s)),
     RedisIncr = (\<lambda>k s. (Inr (), mem_incr k s)),
     RedisIncrExpire = (\<lambda>k ttl s. (Inr (), mem_incr k s)),
     LocalGet = (\<lambda>key s. (mc_local s key, s)),
     LocalSetWithTTL = (\<lambda>key e ttl s. s\<lparr>mc_local := (mc_local s)(key \<mapsto> e)\<rparr>),
     LocalDel = (\<lambda>key s. s\<lparr>mc_local := (mc_local s)(key := None)\<rparr>),
     ToInt64 = (\<lambda>v. case parseDigits 0 v of None \<Rightarrow> 0 | Some n \<Rightarrow> int n)\<rparr>"

definition mem_loader :: "nat \<Rightarrow> ('d mem_cache, unit, 'd) act" where
  "mem_loader key s = (Inr (mc_src s key), s)"

definition mem_versioned :: "('d mem_cache, nat, 'd, unit) VersionedCache" where
  "mem_versioned = NewVersionedCache mem_cache_drv decimal mem_loader []"

definition memVer :: "'d mem_cache \<Rightarrow> string \<Rightarrow> int" where
  "memVer s k = int (mc_ver s k)"

definition memEnts :: "'d mem_cache \<Rightarrow> nat \<Rightarrow> 'd versionedEntry set" where
  "memEnts s key = set_option (mc_local s key)"

lemma mem_keyFunc [simp]: "vc_keyFunc mem_versioned = decimal"
  by (simp add: mem_versioned_def NewVersionedCache_def Let_def)

lemma mem_cache_env: "cache_env mf mem_versioned memVer memEnts mc_src"
  by unfold_locales
     (auto simp: mem_versioned_def NewVersionedCache_def mem_cache_drv_def wp_def memVer_def memEnts_def
        mem_incr_def mem_loader_def parseDigits_decimal Let_def fun_eq_iff)

interpretation memcache: cache_env False mem_versioned memVer memEnts mc_src
  by (rule mem_cache_env)

section \<open>Properties\<close>

text \<open>
  The cache never serves stale data once a write has been announced. Let \<open>c\<close> and \<open>c'\<close> be
  the caches of two nodes over the same Redis and the same database. Whatever entries the nodes
  hold after a write (none newer than the version in Redis), when \<open>Invalidate\<close> has run on one
  node a \<open>Get\<close> on the other returns the data the database has now, and so do all later ones.
\<close>

theorem Invalidate_then_Get:
  assumes "cache_env False c ver ents src" and "cache_env False c' ver ents src"
    and "vc_keyFunc c' = vc_keyFunc c" and "cacheBounded (vc_keyFunc c) (ver s) (ents s)"
  shows "case Invalidate c key s of
      (Inr _, t) \<Rightarrow> (case Get c' key t of
          (Inr d, u) \<Rightarrow> d = src s key \<and> cacheBounded (vc_keyFunc c) (ver u) (ents u)
                       \<and> cacheFresh (vc_keyFunc c) (ver u) (ents u) (src u) key
        | (Inl _, u) \<Rightarrow> False)
    | (Inl _, t) \<Rightarrow> False"
proof -
  have "wp (Invalidate c key) (\<lambda>_ t. wp (Get c' key)
      (\<lambda>d u. d = src s key \<and> cacheBounded (vc_keyFunc c) (ver u) (ents u)
         \<and> cacheFresh (vc_keyFunc c) (ver u) (ents u) (src u) key) (\<lambda>_ _. False) t) (\<lambda>_ _. False) s"
    by (rule wp_mono [OF cache_env.wp_Invalidate [OF assms(1,4)]])
       (auto intro!: wp_mono [OF cache_env.wp_Get [OF assms(2)]] simp: assms(3))
  then show ?thesis by (simp add: wp_def split: prod.splits sum.splits)
qed

definition staleCache :: "string mem_cache" where
  "staleCache = \<lparr>mc_ver = (\<lambda>_. 3), mc_local = (\<lambda>_. Some \<lparr>ve_Data = ''old'', ve_Version = 3\<rparr>),
     mc_src = (\<lambda>_. ''new'')\<rparr>"

theorem Invalidate_then_Get_witness:
  "fst (Get mem_versioned 7 staleCache) = Inr ''old'' \<and>
   fst (Get mem_versioned 7 (snd (Invalidate mem_versioned 7 staleCache))) = Inr ''new''"
proof
  show "fst (Get mem_versioned 7 staleCache) = Inr ''old''"
    by (simp add: Get_def mem_versioned_def NewVersionedCache_def mem_cache_drv_def staleCache_def Let_def
        getRemoteVersion_def localGet_def andThen_def attempt_def ok_def parseDigits_decimal)
  have "cacheBounded decimal (memVer staleCache) (memEnts staleCache)"
    by (simp add: cacheBounded_def staleCache_def memVer_def memEnts_def)
  then show "fst (Get mem_versioned 7 (snd (Invalidate mem_versioned 7 staleCache))) = Inr ''new''"
    using Invalidate_then_Get [OF mem_cache_env mem_cache_env refl, of staleCache 7]
    by (auto simp: staleCache_def split: prod.splits sum.splits)
qed

text \<open>
  A read through the cache is transparent: while no entry of the current version is
  stale, \<open>Get\<close> returns what the loading function would return and leaves the cache coherent.
  When Redis or the database fail it may return an older entry or an error, but it still leaves
  the cache coherent: an entry loaded while the version was unknown is never trusted later.
\<close>

theorem Get_transparent:
  assumes "cache_env mf c ver ents src" and "cacheBounded (vc_keyFunc c) (ver s) (ents s)"
    and "cacheFresh (vc_keyFunc c) (ver s) (ents s) (src s) key"
  shows "(case Get c key s of
      (Inr d, t) \<Rightarrow> (mf \<or> d = src s key) \<and> src t = src s
    | (Inl _, t) \<Rightarrow> mf \<and> src t = src s) \<and>
    cacheBounded (vc_keyFunc c) (ver (snd (Get c key s))) (ents (snd (Get c key s))) \<and>
    cacheFresh (vc_keyFunc c) (ver (snd (Get c key s))) (ents (snd (Get c key s))) (src (snd (Get c key s))) key"
  using cache_env.wp_Get [OF assms] by (auto simp: wp_def split: prod.splits sum.splits)

theorem Get_transparent_witness:
  "fst (Get mem_versioned 7 (staleCache\<lparr>mc_src := (\<lambda>_. ''old'')\<rparr>)) = Inr ''old''"
proof -
  let ?s = "staleCache\<lparr>mc_src := (\<lambda>_. ''old'')\<rparr>"
  have "cacheBounded decimal (memVer ?s) (memEnts ?s)"
    "cacheFresh decimal (memVer ?s) (memEnts ?s) (mc_src ?s) 7"
    by (simp_all add: cacheBounded_def cacheFresh_def staleCache_def memVer_def memEnts_def)
  then show ?thesis
    using Get_transparent [OF mem_cache_env, of ?s 7 False]
    by (auto simp: staleCache_def split: prod.splits sum.splits)
qed

end
