(* ===== verification/CacheRuns.thy ===== *)
theory CacheRuns
  imports Cachex
begin

text \<open>
  Concurrent use of the versioned cache. \<open>Get\<close> of \<open>pkg/cachex/version_cache.go\<close> is split at every
  access to Redis, the local cache, the database and the singleflight group, so that the calls of
  many goroutines on many nodes interleave with writers, evictions and the passing of time. Keys
  do not interact, so one key is modelled; the data is represented by the number of committed
  writes it contains. \<open>gr_since\<close>, \<open>cw_announced\<close> and \<open>cw_at\<close> are history variables that no step reads:
  the number of writes that completed calls of \<open>Invalidate\<close> had announced, when a \<open>Get\<close> began, now, and
  when the counter reached a version.
\<close>

section \<open>States and steps\<close>

datatype get_pc =
    GStart
  | GVersion "int option"
  | GDo
  | GWait nat
  | LStart
  | LVersion "int option"
  | LLoad "int option" "nat versionedEntry option"
  | LStore "int option" nat
  | LReturn "nat versionedEntry option"
  | GDone "nat option"

record getter =
  gr_node :: nat
  gr_pc :: get_pc
  gr_leader :: "nat option"
  gr_degraded :: bool
  gr_since :: nat

record cworld =
  cw_now :: duration
  cw_writes :: nat
  cw_ver :: "(int \<times> duration option) option"
  cw_local :: "nat \<Rightarrow> (nat versionedEntry \<times> duration) option"
  cw_flight :: "nat \<Rightarrow> nat option"
  cw_gets :: "nat \<Rightarrow> getter option"
  cw_announced :: nat
  cw_at :: "int \<Rightarrow> nat"

definition emptyWorld :: cworld where
  "emptyWorld = \<lparr>cw_now = 0, cw_writes = 0, cw_ver = None, cw_local = (\<lambda>_. None), cw_flight = (\<lambda>_. None),
     cw_gets = (\<lambda>_. None), cw_announced = 0, cw_at = (\<lambda>_. 0)\<rparr>"

text \<open>Redis answers \<open>redis.Nil\<close> for a key that does not exist or has expired, which the code reads as version 0.\<close>

definition remoteVersion :: "cworld \<Rightarrow> int" where
  "remoteVersion w = (case cw_ver w of
      None \<Rightarrow> 0
    | Some (v, deadline) \<Rightarrow> (case deadline of None \<Rightarrow> v | Some t \<Rightarrow> if cw_now w < t then v else 0))"

definition localEntry :: "cworld \<Rightarrow> nat \<Rightarrow> nat versionedEntry option" where
  "localEntry w n = (case cw_local w n of
      None \<Rightarrow> None
    | Some (entry, until) \<Rightarrow> if cw_now w < until then Some entry else None)"

text \<open>
  The next step of goroutine \<open>g\<close>. The flags say whether Redis answers and whether the load succeeds, if the step
  asks them. \<open>GDo\<close> is the call of \<open>group.Do\<close>, which waits for a call in flight or runs the function; \<open>LReturn\<close> is
  the end of the function, where the group forgets it and its waiters get the result.
\<close>

definition getStep :: "VersionedCacheOption \<Rightarrow> bool \<Rightarrow> bool \<Rightarrow> nat \<Rightarrow> getter \<Rightarrow> cworld \<Rightarrow> (getter \<times> cworld) option" where
  "getStep opt redisOk loadOk g x w =
     (let n = gr_node x;
          version = (if redisOk then Some (remoteVersion w) else None);
          x' = x\<lparr>gr_degraded := gr_degraded x \<or> \<not> redisOk\<rparr>
      in case gr_pc x of
        GStart \<Rightarrow> Some (x'\<lparr>gr_pc := GVersion version\<rparr>, w)
      | GVersion remote \<Rightarrow>
          Some (x\<lparr>gr_pc := (case (remote, localEntry w n) of
              (None, Some entry) \<Rightarrow> GDone (Some (ve_Data entry))
            | (Some v, Some entry) \<Rightarrow> if ve_Version entry = v then GDone (Some (ve_Data entry)) else GDo
            | (_, None) \<Rightarrow> GDo)\<rparr>, w)
      | GDo \<Rightarrow>
          (case cw_flight w n of
             Some l \<Rightarrow> Some (x\<lparr>gr_pc := GWait l, gr_leader := Some l\<rparr>, w)
           | None \<Rightarrow> Some (x\<lparr>gr_pc := LStart\<rparr>, w\<lparr>cw_flight := (cw_flight w)(n \<mapsto> g)\<rparr>))
      | LStart \<Rightarrow> Some (x'\<lparr>gr_pc := LVersion version\<rparr>, w)
      | LVersion latest \<Rightarrow>
          let current = localEntry w n in
          Some (x\<lparr>gr_pc := if current \<noteq> None \<and> latest = Some (ve_Version (the current)) then LReturn current
                            else LLoad latest current\<rparr>, w)
      | LLoad latest current \<Rightarrow>
          Some (if loadOk then x\<lparr>gr_pc := LStore latest (cw_writes w)\<rparr>
                else x\<lparr>gr_pc := LReturn current, gr_degraded := True\<rparr>, w)
      | LStore latest d \<Rightarrow>
          let entry = \<lparr>ve_Data = d, ve_Version = (case latest of None \<Rightarrow> 0 | Some v \<Rightarrow> v)\<rparr> in
          Some (x\<lparr>gr_pc := LReturn (Some entry)\<rparr>,
                w\<lparr>cw_local := (cw_local w)(n \<mapsto> (entry, cw_now w + vo_LocalTTL opt))\<rparr>)
      | LReturn entry \<Rightarrow>
          Some (x\<lparr>gr_pc := GDone (map_option ve_Data entry)\<rparr>, w\<lparr>cw_flight := (cw_flight w)(n := None)\<rparr>)
      | GWait l \<Rightarrow>
          (case cw_gets w l of
             Some y \<Rightarrow> (case gr_pc y of
                 GDone r \<Rightarrow> Some (x\<lparr>gr_pc := GDone r, gr_degraded := gr_degraded x \<or> gr_degraded y\<rparr>, w)
               | _ \<Rightarrow> None)
           | None \<Rightarrow> None)
      | GDone _ \<Rightarrow> None)"

text \<open>The second half of \<open>Invalidate\<close>: the counter grows and, if a lifetime is configured, gets a new deadline.\<close>

definition announce :: "VersionedCacheOption \<Rightarrow> cworld \<Rightarrow> cworld" where
  "announce opt w =
     (let v = remoteVersion w + 1;
          old = (if remoteVersion w = 0 then None else Option.bind (cw_ver w) snd);
          deadline = (if vo_VersionTTL opt \<le> 0 then old else Some (cw_now w + vo_VersionTTL opt))
      in w\<lparr>cw_ver := Some (v, deadline), cw_announced := cw_writes w, cw_at := (cw_at w)(v := cw_writes w)\<rparr>)"

datatype cache_event =
    Tick nat
  | Commit
  | Drop nat
  | Announce
  | Begin nat nat
  | Run nat bool bool

text \<open>
  A writer commits, then \<open>Invalidate\<close> drops the entry of its own node and announces the write. A drop on its own
  is also an eviction or a \<open>Set\<close> that ristretto did not accept.
\<close>

fun exec :: "VersionedCacheOption \<Rightarrow> cache_event \<Rightarrow> cworld \<Rightarrow> cworld option" where
  "exec opt (Tick d) w = Some (w\<lparr>cw_now := cw_now w + int d\<rparr>)"
| "exec opt Commit w = Some (w\<lparr>cw_writes := Suc (cw_writes w)\<rparr>)"
| "exec opt (Drop n) w = Some (w\<lparr>cw_local := (cw_local w)(n := None)\<rparr>)"
| "exec opt Announce w = Some (announce opt w)"
| "exec opt (Begin g n) w = (case cw_gets w g of
      Some _ \<Rightarrow> None
    | None \<Rightarrow> Some (w\<lparr>cw_gets := (cw_gets w)(g \<mapsto> \<lparr>gr_node = n, gr_pc = GStart, gr_leader = None,
        gr_degraded = False, gr_since = cw_announced w\<rparr>)\<rparr>))"
| "exec opt (Run g redisOk loadOk) w = (case cw_gets w g of
      None \<Rightarrow> None
    | Some x \<Rightarrow> map_option (\<lambda>(x', w'). w'\<lparr>cw_gets := (cw_gets w')(g \<mapsto> x')\<rparr>) (getStep opt redisOk loadOk g x w))"

fun execs :: "VersionedCacheOption \<Rightarrow> cache_event list \<Rightarrow> cworld \<Rightarrow> cworld option" where
  "execs opt [] w = Some w"
| "execs opt (ev # evs) w = Option.bind (exec opt ev w) (execs opt evs)"

inductive cache_step :: "VersionedCacheOption \<Rightarrow> cworld \<Rightarrow> cworld \<Rightarrow> bool" for opt where
  cache_stepI: "exec opt ev w = Some w' \<Longrightarrow> cache_step opt w w'"

inductive_cases cache_stepE: "cache_step opt w w'"

lemma execs_reach: "execs opt evs w = Some w' \<Longrightarrow> (cache_step opt)\<^sup>*\<^sup>* w w'"
  by (induction evs arbitrary: w) (auto simp: bind_eq_Some_conv intro: cache_stepI converse_rtranclp_into_rtranclp)

section \<open>The invariant\<close>

definition curVer :: "cworld \<Rightarrow> int" where
  "curVer w = (case cw_ver w of None \<Rightarrow> 0 | Some (v, _) \<Rightarrow> v)"

text \<open>The counter does not expire: it has no lifetime, or the run is shorter than it.\<close>

definition keepsVersion :: "VersionedCacheOption \<Rightarrow> cworld \<Rightarrow> bool" where
  "keepsVersion opt w \<longleftrightarrow> vo_VersionTTL opt \<le> 0 \<or> cw_now w < vo_VersionTTL opt"

definition okVersion :: "cworld \<Rightarrow> int \<Rightarrow> bool" where
  "okVersion w v \<longleftrightarrow> 0 \<le> v \<and> v \<le> curVer w"

definition okEntry :: "cworld \<Rightarrow> nat versionedEntry \<Rightarrow> bool" where
  "okEntry w e \<longleftrightarrow> okVersion w (ve_Version e) \<and> cw_at w (ve_Version e) \<le> ve_Data e \<and> ve_Data e \<le> cw_writes w"

definition sawVersion :: "cworld \<Rightarrow> getter \<Rightarrow> int option \<Rightarrow> bool" where
  "sawVersion w x r \<longleftrightarrow> (case r of None \<Rightarrow> gr_degraded x | Some v \<Rightarrow> okVersion w v \<and> gr_since x \<le> cw_at w v)"

definition okResult :: "cworld \<Rightarrow> getter \<Rightarrow> nat \<Rightarrow> bool" where
  "okResult w x d \<longleftrightarrow> d \<le> cw_writes w \<and> (gr_degraded x \<or>
     (case gr_leader x of None \<Rightarrow> gr_since x \<le> d | Some l \<Rightarrow> \<exists>y. cw_gets w l = Some y \<and> gr_since y \<le> d))"

definition leading :: "getter \<Rightarrow> bool" where
  "leading y \<longleftrightarrow> gr_leader y = None \<and>
     (case gr_pc y of GStart \<Rightarrow> False | GVersion _ \<Rightarrow> False | GDo \<Rightarrow> False | GWait _ \<Rightarrow> False | _ \<Rightarrow> True)"

definition isLeader :: "cworld \<Rightarrow> nat \<Rightarrow> bool" where
  "isLeader w l \<longleftrightarrow> (\<exists>y. cw_gets w l = Some y \<and> leading y)"

definition okPc :: "cworld \<Rightarrow> getter \<Rightarrow> bool" where
  "okPc w x = (case gr_pc x of
       GVersion r \<Rightarrow> gr_leader x = None \<and> sawVersion w x r
     | LVersion r \<Rightarrow> gr_leader x = None \<and> sawVersion w x r
     | LLoad r current \<Rightarrow> gr_leader x = None \<and> sawVersion w x r \<and> (\<forall>e. current = Some e \<longrightarrow> okEntry w e)
     | LStore r d \<Rightarrow> gr_leader x = None \<and> sawVersion w x r \<and> gr_since x \<le> d \<and>
         okEntry w \<lparr>ve_Data = d, ve_Version = (case r of None \<Rightarrow> 0 | Some v \<Rightarrow> v)\<rparr>
     | LReturn entry \<Rightarrow> gr_leader x = None \<and> (\<forall>e. entry = Some e \<longrightarrow> okResult w x (ve_Data e))
     | GWait l \<Rightarrow> gr_leader x = Some l \<and> isLeader w l
     | GDone r \<Rightarrow> (\<forall>d. r = Some d \<longrightarrow> okResult w x d)
     | _ \<Rightarrow> gr_leader x = None)"

definition okHistory :: "VersionedCacheOption \<Rightarrow> cworld \<Rightarrow> bool" where
  "okHistory opt w \<longleftrightarrow> 0 \<le> cw_now w \<and> 0 \<le> curVer w \<and> cw_at w 0 = 0 \<and> cw_at w (curVer w) = cw_announced w \<and>
     cw_announced w \<le> cw_writes w \<and> mono_on {0..curVer w} (cw_at w) \<and>
     (\<forall>v t. cw_ver w = Some (v, Some t) \<longrightarrow> 0 < vo_VersionTTL opt \<and> vo_VersionTTL opt \<le> t)"

definition cacheInv :: "VersionedCacheOption \<Rightarrow> cworld \<Rightarrow> bool" where
  "cacheInv opt w \<longleftrightarrow> okHistory opt w \<and>
     (\<forall>n p. cw_local w n = Some p \<longrightarrow> okEntry w (fst p)) \<and>
     (\<forall>n l. cw_flight w n = Some l \<longrightarrow> isLeader w l) \<and>
     (\<forall>g x. cw_gets w g = Some x \<longrightarrow> gr_since x \<le> cw_announced w \<and> okPc w x)"

lemma cacheInv_empty: "cacheInv opt emptyWorld"
  by (simp add: cacheInv_def okHistory_def emptyWorld_def curVer_def mono_on_def)

text \<open>What only grows: the writes, the counter with its history, and the leaders.\<close>

definition grows :: "cworld \<Rightarrow> cworld \<Rightarrow> bool" where
  "grows w w' \<longleftrightarrow> cw_writes w \<le> cw_writes w' \<and> curVer w \<le> curVer w' \<and> cw_announced w \<le> cw_announced w' \<and>
     (\<forall>v. 0 \<le> v \<and> v \<le> curVer w \<longrightarrow> cw_at w' v = cw_at w v) \<and>
     (\<forall>l y. cw_gets w l = Some y \<longrightarrow>
        (\<exists>y'. cw_gets w' l = Some y' \<and> gr_since y' = gr_since y \<and> (isLeader w l \<longrightarrow> isLeader w' l)))"

lemma okVersion_grows: "grows w w' \<Longrightarrow> okVersion w v \<Longrightarrow> okVersion w' v"
  by (auto simp: grows_def okVersion_def)

lemma okEntry_grows: "grows w w' \<Longrightarrow> okEntry w e \<Longrightarrow> okEntry w' e"
  unfolding okEntry_def okVersion_def by (auto simp: grows_def)

lemma sawVersion_grows: "grows w w' \<Longrightarrow> sawVersion w x r \<Longrightarrow> sawVersion w' x r"
  unfolding sawVersion_def okVersion_def by (auto simp: grows_def split: option.splits)

lemma isLeader_grows: "grows w w' \<Longrightarrow> isLeader w l \<Longrightarrow> isLeader w' l"
  by (auto simp: grows_def) (metis isLeader_def)

lemma okResult_grows: "grows w w' \<Longrightarrow> okResult w x d \<Longrightarrow> okResult w' x d"
  unfolding okResult_def by (auto simp: grows_def split: option.splits) metis

lemmas grows_rules = okVersion_grows okEntry_grows sawVersion_grows isLeader_grows okResult_grows

lemma okPc_grows: "grows w w' \<Longrightarrow> okPc w x \<Longrightarrow> okPc w' x"
  unfolding okPc_def by (auto split: get_pc.splits intro: grows_rules)

lemma cacheInv_grows:
  assumes inv: "cacheInv opt w" and g: "grows w w'" and "okHistory opt w'"
    and "\<And>n p. cw_local w' n = Some p \<Longrightarrow> cw_local w n = Some p \<or> okEntry w' (fst p)"
    and "\<And>n l. cw_flight w' n = Some l \<Longrightarrow> cw_flight w n = Some l \<or> isLeader w' l"
    and "\<And>i x. cw_gets w' i = Some x \<Longrightarrow> cw_gets w i = Some x \<or> (gr_since x \<le> cw_announced w' \<and> okPc w' x)"
  shows "cacheInv opt w'"
proof -
  have "okEntry w' (fst p)" if "cw_local w' n = Some p" for n p
    using assms(4) [OF that] inv okEntry_grows [OF g] unfolding cacheInv_def by blast
  moreover have "isLeader w' l" if "cw_flight w' n = Some l" for n l
    using assms(5) [OF that] inv isLeader_grows [OF g] by (auto simp: cacheInv_def)
  moreover have "gr_since x \<le> cw_announced w' \<and> okPc w' x" if "cw_gets w' i = Some x" for i x
  proof -
    have "cw_announced w \<le> cw_announced w'" using g by (simp add: grows_def)
    moreover have "cw_gets w i = Some x \<Longrightarrow> gr_since x \<le> cw_announced w \<and> okPc w x" using inv by (simp add: cacheInv_def)
    ultimately show ?thesis using assms(6) [OF that] okPc_grows [OF g] le_trans by blast
  qed
  ultimately show ?thesis using assms(3) unfolding cacheInv_def by blast
qed

lemma remoteVersion_cur: "okHistory opt w \<Longrightarrow> keepsVersion opt w \<Longrightarrow> remoteVersion w = curVer w"
  by (fastforce simp: remoteVersion_def curVer_def okHistory_def keepsVersion_def split: option.splits prod.splits)

lemma localEntry_ok: "cacheInv opt w \<Longrightarrow> localEntry w n = Some e \<Longrightarrow> okEntry w e"
  by (fastforce simp: localEntry_def cacheInv_def split: option.splits prod.splits if_splits)

lemma announce_inv:
  assumes inv: "cacheInv opt w" and k: "keepsVersion opt w"
  shows "cacheInv opt (announce opt w)"
proof -
  have h: "okHistory opt w" using inv by (simp add: cacheInv_def)
  note r = remoteVersion_cur [OF h k]
  have v: "curVer (announce opt w) = curVer w + 1" by (simp add: announce_def Let_def r curVer_def)
  have g: "grows w (announce opt w)"
    using h by (auto simp: grows_def v) (auto simp: announce_def Let_def r okHistory_def isLeader_def)
  have "mono_on {0..curVer w + 1} ((cw_at w)(curVer w + 1 := cw_writes w))"
  proof (rule mono_onI)
    fix i j assume ij: "i \<in> {0..curVer w + 1}" "j \<in> {0..curVer w + 1}" "i \<le> j"
    have "cw_at w i \<le> cw_at w (curVer w)" if "i \<in> {0..curVer w}"
      using mono_onD [of "{0..curVer w}" "cw_at w" i "curVer w"] h that by (simp add: okHistory_def)
    then show "((cw_at w)(curVer w + 1 := cw_writes w)) i \<le> ((cw_at w)(curVer w + 1 := cw_writes w)) j"
      using h ij by (auto simp: okHistory_def mono_on_def)
  qed
  then have "okHistory opt (announce opt w)"
    using h unfolding okHistory_def v by (cases "cw_ver w"; auto simp: announce_def Let_def r; auto simp: curVer_def)
  then show ?thesis
    by (rule cacheInv_grows [OF inv g]) (simp_all add: announce_def Let_def)
qed

lemma okHistory_same:
  assumes "okHistory opt w" "cw_now w' = cw_now w" "cw_writes w' = cw_writes w" "cw_ver w' = cw_ver w"
    "cw_announced w' = cw_announced w" "cw_at w' = cw_at w"
  shows "okHistory opt w'"
  using assms by (simp add: okHistory_def curVer_def)

lemma getStep_frame:
  assumes "getStep opt redisOk loadOk g x w = Some (x', w')"
  shows "gr_since x' = gr_since x \<and> (leading x \<longrightarrow> leading x')"
    and "cw_now w' = cw_now w" "cw_writes w' = cw_writes w" "cw_ver w' = cw_ver w"
    "cw_announced w' = cw_announced w" "cw_at w' = cw_at w" "cw_gets w' = cw_gets w"
  using assms by (auto simp: getStep_def Let_def leading_def split: get_pc.splits option.splits if_splits)

text \<open>A step of a \<open>Get\<close> keeps what its place in the code promises.\<close>

lemma getStep_pc:
  assumes inv: "cacheInv opt w" and k: "keepsVersion opt w" and x: "cw_gets w g = Some x"
    and step: "getStep opt redisOk loadOk g x w = Some (x', w')"
  shows "okPc w x'"
proof -
  have h: "okHistory opt w" and px: "okPc w x" and sx: "gr_since x \<le> cw_announced w" using inv x by (auto simp: cacheInv_def)
  note r = remoteVersion_cur [OF h k]
  have cur: "okVersion w (curVer w)" "gr_since x \<le> cw_at w (curVer w)" "cw_at w (curVer w) \<le> cw_writes w" "cw_at w 0 = 0"
    "gr_since x \<le> cw_writes w" "okVersion w 0"
    using h sx by (auto simp: okHistory_def okVersion_def)
  have le: "okVersion w v \<Longrightarrow> cw_at w v \<le> cw_writes w" for v
    using mono_onD [of "{0..curVer w}" "cw_at w" v "curVer w"] h cur(3) by (auto simp: okHistory_def okVersion_def)
  have leader: "cw_flight w (gr_node x) = Some l \<Longrightarrow> isLeader w l" for l using inv by (auto simp: cacheInv_def)
  note defs = getStep_def Let_def okPc_def sawVersion_def
  show ?thesis
  proof (cases "gr_pc x")
    case (GVersion v)
    then show ?thesis
      using step px localEntry_ok [OF inv, of "gr_node x"]
      by (auto simp: defs okResult_def okEntry_def split: option.splits if_splits)
  next
    case (LVersion v)
    then show ?thesis
      using step px localEntry_ok [OF inv, of "gr_node x"]
      by (auto simp: defs okResult_def okEntry_def split: option.splits if_splits)
  next
    case (LLoad v c)
    then show ?thesis
      using step px cur(4-6) le by (auto simp: defs okResult_def okEntry_def split: option.splits if_splits)
  next
    case (GWait l)
    with px obtain y where y: "cw_gets w l = Some y" "leading y" and lx: "gr_leader x = Some l" by (auto simp: okPc_def isLeader_def)
    have "okPc w y" using inv y(1) by (simp add: cacheInv_def)
    with GWait step y lx show ?thesis
      by (auto simp: getStep_def Let_def okPc_def okResult_def leading_def split: get_pc.splits)
  qed (use step px cur r leader in \<open>auto simp: defs okResult_def okEntry_def split: option.splits if_splits\<close>)
qed

lemma getStep_local:
  assumes inv: "cacheInv opt w" and x: "cw_gets w g = Some x"
    and step: "getStep opt redisOk loadOk g x w = Some (x', w')"
  shows "cw_local w' n = Some p \<Longrightarrow> cw_local w n = Some p \<or> okEntry w (fst p)"
    and "cw_flight w' n = Some l \<Longrightarrow> cw_flight w n = Some l \<or> l = g \<and> leading x'"
proof -
  have px: "okPc w x" using inv x by (simp add: cacheInv_def)
  show "cw_local w' n = Some p \<Longrightarrow> cw_local w n = Some p \<or> okEntry w (fst p)"
    using step px by (auto simp: getStep_def Let_def okPc_def split: get_pc.splits option.splits if_splits)
  show "cw_flight w' n = Some l \<Longrightarrow> cw_flight w n = Some l \<or> l = g \<and> leading x'"
    using step px by (auto simp: getStep_def Let_def okPc_def leading_def split: get_pc.splits option.splits if_splits)
qed

lemma Run_inv:
  assumes inv: "cacheInv opt w" and k: "keepsVersion opt w" and x: "cw_gets w g = Some x"
    and step: "getStep opt redisOk loadOk g x w = Some (x', w')"
  shows "cacheInv opt (w'\<lparr>cw_gets := (cw_gets w')(g \<mapsto> x')\<rparr>)" (is "cacheInv opt ?w")
proof -
  note f = getStep_frame [OF step]
  have g: "grows w ?w" using x f by (auto simp: grows_def curVer_def isLeader_def)
  have h: "okHistory opt w" and sx: "gr_since x \<le> cw_announced w" using inv x by (auto simp: cacheInv_def)
  show ?thesis
  proof (rule cacheInv_grows [OF inv g])
    show "okHistory opt ?w" by (rule okHistory_same [OF h]) (simp_all add: f)
    show "cw_local ?w n = Some p \<Longrightarrow> cw_local w n = Some p \<or> okEntry ?w (fst p)" for n p
      using getStep_local(1) [OF inv x step, of n p] okEntry_grows [OF g] by auto
    show "cw_flight ?w n = Some l \<Longrightarrow> cw_flight w n = Some l \<or> isLeader ?w l" for n l
      using getStep_local(2) [OF inv x step, of n l] by (auto simp: isLeader_def)
    show "cw_gets ?w i = Some y \<Longrightarrow> cw_gets w i = Some y \<or> gr_since y \<le> cw_announced ?w \<and> okPc ?w y" for i y
      using okPc_grows [OF g getStep_pc [OF inv k x step]] f sx by (auto split: if_splits)
  qed
qed

lemma exec_inv:
  assumes inv: "cacheInv opt w" and k: "keepsVersion opt w" and step: "exec opt ev w = Some w'"
  shows "cacheInv opt w'"
proof -
  have h: "okHistory opt w" using inv by (simp add: cacheInv_def)
  have env: "cacheInv opt w'" if "grows w w'" "okHistory opt w'" "\<And>n p. cw_local w' n = Some p \<Longrightarrow> cw_local w n = Some p"
    "cw_flight w' = cw_flight w" "\<And>i x. cw_gets w' i = Some x \<Longrightarrow> cw_gets w i = Some x \<or> (gr_since x = cw_announced w' \<and> gr_pc x = GStart \<and> gr_leader x = None)"
    using that by (intro cacheInv_grows [OF inv]) (auto simp: okPc_def dest: that(5))
  show ?thesis
  proof (cases ev)
    case Announce
    with step announce_inv [OF inv k] show ?thesis by simp
  next
    case (Run g redisOk loadOk)
    with step Run_inv [OF inv k] show ?thesis by (auto split: option.splits)
  next
    case (Begin g n)
    with step h show ?thesis
      by (intro env) (auto simp: grows_def curVer_def isLeader_def okHistory_def split: option.splits if_splits)
  qed (use step h in \<open>intro env; auto simp: grows_def curVer_def isLeader_def okHistory_def split: option.splits if_splits\<close>)+
qed

lemma exec_now: "exec opt ev w = Some w' \<Longrightarrow> cw_now w \<le> cw_now w'"
  by (cases ev) (auto simp: announce_def Let_def dest: getStep_frame split: option.splits)

lemma cache_runs:
  assumes "(cache_step opt)\<^sup>*\<^sup>* emptyWorld w" and "keepsVersion opt w"
  shows "cacheInv opt w"
  using assms
proof (induction rule: rtranclp_induct)
  case base
  show ?case by (rule cacheInv_empty)
next
  case (step w w')
  then obtain ev where ev: "exec opt ev w = Some w'" by (auto elim: cache_stepE)
  with step.prems have "keepsVersion opt w" using exec_now [OF ev] by (auto simp: keepsVersion_def)
  with step.IH ev show ?case using exec_inv by blast
qed

section \<open>One goroutine alone\<close>

text \<open>
  The cache of node \<open>n\<close> as a driver for the sequential \<open>Get\<close>: the answers of Redis and of the loader are taken
  from a list of flags.
\<close>

definition soloDrv :: "nat \<Rightarrow> (cworld \<times> bool list, nat, nat) cache_drv" where
  "soloDrv n = \<lparr>
     RedisGet = (\<lambda>k (w, fs). (if \<not> hd fs then Inl RedisFailure
        else if remoteVersion w \<le> 0 then Inl RedisNil else Inr (decimal (nat (remoteVersion w))), (w, tl fs))),
     RedisIncr = (\<lambda>k s. (Inr (), s)),
     RedisIncrExpire = (\<lambda>k ttl s. (Inr (), s)),
     LocalGet = (\<lambda>key (w, fs). (localEntry w n, (w, fs))),
     LocalSetWithTTL = (\<lambda>key e ttl (w, fs). (w\<lparr>cw_local := (cw_local w)(n \<mapsto> (e, cw_now w + ttl))\<rparr>, fs)),
     LocalDel = (\<lambda>key (w, fs). (w\<lparr>cw_local := (cw_local w)(n := None)\<rparr>, fs)),
     ToInt64 = (\<lambda>v. case parseDigits 0 v of None \<Rightarrow> 0 | Some m \<Rightarrow> int m)\<rparr>"

definition soloCache :: "VersionedCacheOption list \<Rightarrow> nat \<Rightarrow> (cworld \<times> bool list, nat, nat, unit) VersionedCache" where
  "soloCache options n = NewVersionedCache (soloDrv n) decimal
     (\<lambda>key (w, fs). (if hd fs then Inr (cw_writes w) else Inl (), (w, tl fs))) options"

definition soloEvents :: "nat \<Rightarrow> bool \<Rightarrow> bool \<Rightarrow> bool \<Rightarrow> cache_event list" where
  "soloEvents g redis1 redis2 load = (let e1 = Run g redis1 load; e2 = Run g redis2 load in [e1, e1, e2, e2, e2, e2, e2, e2])"

definition outcome :: "cworld \<Rightarrow> nat \<Rightarrow> (unit + nat) option" where
  "outcome w g = (case cw_gets w g of
      None \<Rightarrow> None
    | Some x \<Rightarrow> (case gr_pc x of GDone None \<Rightarrow> Some (Inl ()) | GDone (Some d) \<Rightarrow> Some (Inr d) | _ \<Rightarrow> None))"

definition soloPrefix :: "VersionedCacheOption list \<Rightarrow> nat \<Rightarrow> nat \<Rightarrow> bool \<Rightarrow> bool \<Rightarrow> bool \<Rightarrow> cworld \<Rightarrow> nat \<Rightarrow> bool" where
  "soloPrefix options g n redis1 redis2 load w k \<longleftrightarrow>
     (case execs (effectiveOption options) (take k (soloEvents g redis1 redis2 load)) w of
        None \<Rightarrow> False
      | Some w' \<Rightarrow> (case Get (soloCache options n) 0 (w, [redis1, redis2, load]) of
            (r, (u, _)) \<Rightarrow> outcome w' g = Some r \<and> cw_local w' = cw_local u \<and> cw_flight w' = cw_flight w))"

lemma soloVersion:
  assumes "0 \<le> remoteVersion w"
  shows "getRemoteVersion (soloCache options n) k (w, f # fs) =
    (if f then Inr (remoteVersion w) else Inl RedisFailure, (w, fs))"
  using assms by (simp add: getRemoteVersion_def soloCache_def soloDrv_def NewVersionedCache_def Let_def andThen_def attempt_def
      ok_def fail_def parseDigits_decimal)

lemma reads_frame [simp]:
  "remoteVersion (w\<lparr>cw_gets := gs\<rparr>) = remoteVersion w" "localEntry (w\<lparr>cw_gets := gs\<rparr>) n = localEntry w n"
  "remoteVersion (w\<lparr>cw_flight := fl\<rparr>) = remoteVersion w" "localEntry (w\<lparr>cw_flight := fl\<rparr>) n = localEntry w n"
  by (simp_all add: remoteVersion_def localEntry_def split: option.split)

lemma solo_simps:
  "localGet (soloCache options n) key (w, fs) = (Inr (localEntry w n), (w, fs))"
  "localSet (soloCache options n) key e (w, fs) =
     (Inr (), (w\<lparr>cw_local := (cw_local w)(n \<mapsto> (e, cw_now w + vo_LocalTTL (effectiveOption options)))\<rparr>, fs))"
  "vc_loadFunc (soloCache options n) key (w, f # fs) = (if f then Inr (cw_writes w) else Inl (), (w, fs))"
  by (simp_all add: localGet_def localSet_def soloCache_def soloDrv_def NewVersionedCache_def Let_def)

lemma get_alone:
  assumes "0 \<le> remoteVersion w" and x: "cw_gets w g = Some x" "gr_pc x = GStart" "gr_node x = n" and "cw_flight w n = None"
  shows "\<exists>k. soloPrefix options g n redis1 redis2 load w k"
proof -
  note v = soloVersion [OF assms(1)]
  note defs = soloPrefix_def Get_def loadEntry_def soloEvents_def andThen_def attempt_def ok_def fail_def v solo_simps getStep_def Let_def outcome_def x
  show ?thesis
  proof (cases "\<exists>e. localEntry w n = Some e \<and> (redis1 \<longrightarrow> ve_Version e = remoteVersion w)")
    case True
    then have "soloPrefix options g n redis1 redis2 load w 2" by (auto simp: defs numeral_2_eq_2)
    then show ?thesis ..
  next
    case False
    note f = this assms(5)
    show ?thesis
    proof (cases load)
      case True
      with f have "soloPrefix options g n redis1 redis2 load w 8"
        by (cases "localEntry w n"; cases redis1; cases redis2) (simp_all add: defs fun_upd_idem_iff)
      then show ?thesis ..
    next
      case False
      with f have "soloPrefix options g n redis1 redis2 load w 7"
        by (cases "localEntry w n"; cases redis1; cases redis2) (simp_all add: defs fun_upd_idem_iff)
      then show ?thesis ..
    qed
  qed
qed

section \<open>Properties\<close>


text \<open>A write and its announcement by node 0 while node 1 has the old entry, then a read on node 1.\<close>

definition freshRun :: "cache_event list" where
  "freshRun = Begin 1 1 # soloEvents 1 True True True @ [Commit, Drop 0, Announce, Begin 2 1] @ soloEvents 2 True True True"

definition freshWorld :: cworld where
  "freshWorld = the (execs DefaultVersionedCacheOption freshRun emptyWorld)"

lemmas run_simps = soloEvents_def Let_def emptyWorld_def getStep_def announce_def remoteVersion_def localEntry_def
  DefaultVersionedCacheOption_def Hour_def Minute_def Second_def

lemma freshWorld_run: "execs DefaultVersionedCacheOption freshRun emptyWorld = Some freshWorld"
  by (simp add: freshWorld_def freshRun_def run_simps)

lemma freshWorld_get:
  "cw_now freshWorld = 0"
  "cw_gets freshWorld 2 = Some \<lparr>gr_node = 1, gr_pc = GDone (Some 1), gr_leader = None, gr_degraded = False, gr_since = 1\<rparr>"
  by (simp_all add: freshWorld_def freshRun_def run_simps)


text \<open>
  The code between two accesses is the code of \<open>Get\<close>. When no other call of its node is in flight and
  nothing else happens meanwhile, the steps of one goroutine end with the result of the sequential
  \<open>Get\<close>, value or error, and with the same entry stored, for every answer of Redis and the loader.
\<close>

theorem Get_steps_equiv:
  assumes "0 \<le> remoteVersion w" and "cw_gets w g = Some x" and "gr_pc x = GStart" and "cw_flight w (gr_node x) = None"
  shows "\<exists>k w'. execs (effectiveOption options) (take k (soloEvents g redis1 redis2 load)) w = Some w' \<and>
    (case Get (soloCache options (gr_node x)) 0 (w, [redis1, redis2, load]) of
       (r, (u, _)) \<Rightarrow> outcome w' g = Some r \<and> cw_local w' = cw_local u \<and> cw_flight w' = cw_flight w)"
  using get_alone [OF assms(1,2,3) refl assms(4), of options redis1 redis2 load]
  by (auto simp: soloPrefix_def split: option.splits) blast

definition oneGetter :: cworld where
  "oneGetter = the (exec DefaultVersionedCacheOption (Begin 1 1) emptyWorld)"

theorem Get_steps_equiv_witness:
  "\<exists>k w'. execs (effectiveOption []) (take k (soloEvents 1 False True True)) oneGetter = Some w' \<and>
    (case Get (soloCache [] 1) 0 (oneGetter, [False, True, True]) of
       (r, (u, _)) \<Rightarrow> outcome w' 1 = Some r \<and> cw_local w' = cw_local u \<and> cw_flight w' = cw_flight oneGetter)"
proof -
  let ?x = "\<lparr>gr_node = 1, gr_pc = GStart, gr_leader = None, gr_degraded = False, gr_since = 0\<rparr>"
  have "0 \<le> remoteVersion oneGetter" "cw_gets oneGetter 1 = Some ?x" "gr_pc ?x = GStart" "cw_flight oneGetter (gr_node ?x) = None"
    by (simp_all add: oneGetter_def emptyWorld_def remoteVersion_def)
  from Get_steps_equiv [OF this] show ?thesis by simp
qed

text \<open>
  C28: A read on the node of the writer can be stale. The code comments that deleting the local entry
  guarantees that a node reads its own writes; but a call of \<open>Get\<close> that begins after \<open>Invalidate\<close> has returned may
  join a load of the same node that read the database before the write, and return the old data
  although nothing failed.
\<close>

definition joinRun :: "cache_event list" where
  "joinRun = Begin 1 0 # replicate 6 (Run 1 True True) @ [Commit, Drop 0, Announce, Begin 2 0]
     @ [Run 2 True True, Run 2 True True, Run 2 True True, Run 1 True True, Run 1 True True, Run 2 True True]"


text \<open>
  C29: The lifetime of the counter loses its purpose when it ends. With the default options, a version counter
  that has not been raised for 24 hours starts again at 1, the version of an entry another node
  loaded a minute before: this node keeps serving the old data after the next write was announced,
  although nothing failed.
\<close>

definition expiryRun :: "cache_event list" where
  "expiryRun = [Commit, Drop 0, Announce, Tick (nat (24 * Hour - Minute)), Begin 1 1] @ soloEvents 1 True True True
     @ [Tick (nat Minute), Commit, Drop 0, Announce, Begin 2 1, Run 2 True True, Run 2 True True]"


end
