(* ===== verification/Json.thy ===== *)
theory Json
  imports ItemsStore
begin

text \<open>
  What the server uses of \<open>encoding/json\<close>. A \<open>json.RawMessage\<close> is the JSON value it spells, or
  nothing when it has no bytes. \<open>marshalRewards\<close> and \<open>unmarshalRewards\<close> are \<open>json.Marshal\<close> and
  \<open>json.Unmarshal\<close> at the type \<open>[]*shared.Reward\<close>: the struct has no tags, so its fields go under
  their own names; when decoding, a key is matched without regard to case, \<open>null\<close> leaves a
  field as it was, unknown keys are skipped, and a value of another kind or out of range is an
  error.
\<close>

datatype json =
    JNull
  | JBool bool
  | JInt int
  | JFloat string
  | JStr string
  | JArr "json list"
  | JObj "(string \<times> json) list"

type_synonym RawMessage = "json option"

datatype json_error = UnmarshalTypeError

definition lowerChar :: "char \<Rightarrow> char" where
  "lowerChar c = (let v = of_char c :: int in if 65 \<le> v \<and> v \<le> 90 then char_of (v + 32) else c)"

definition foldName :: "string \<Rightarrow> string" where
  "foldName = map lowerChar"

section \<open>Rewards\<close>

definition marshalReward :: "Reward option \<Rightarrow> json" where
  "marshalReward r = (case r of None \<Rightarrow> JNull
     | Some w \<Rightarrow> JObj [(''ItemTypeId'', JInt (rw_ItemTypeId w)), (''Count'', JInt (rw_Count w)),
         (''ExpireDurationSec'', JInt (rw_ExpireDurationSec w)),
         (''ExpireTimeUnix'', JInt (rw_ExpireTimeUnix w)), (''Args'', JStr (rw_Args w))])"

definition marshalRewards :: "Reward option list option \<Rightarrow> json" where
  "marshalRewards rs = (case rs of None \<Rightarrow> JNull | Some l \<Rightarrow> JArr (map marshalReward l))"

definition zeroReward :: Reward where
  "zeroReward = \<lparr>rw_ItemTypeId = 0, rw_Count = 0, rw_ExpireDurationSec = 0, rw_ExpireTimeUnix = 0, rw_Args = ''''\<rparr>"

definition setInt :: "(int \<Rightarrow> bool) \<Rightarrow> (int \<Rightarrow> Reward \<Rightarrow> Reward) \<Rightarrow> json \<Rightarrow> Reward \<Rightarrow> json_error + Reward" where
  "setInt fits upd v r = (case v of
       JNull \<Rightarrow> Inr r
     | JInt n \<Rightarrow> if fits n then Inr (upd n r) else Inl UnmarshalTypeError
     | _ \<Rightarrow> Inl UnmarshalTypeError)"

definition setStr :: "(string \<Rightarrow> Reward \<Rightarrow> Reward) \<Rightarrow> json \<Rightarrow> Reward \<Rightarrow> json_error + Reward" where
  "setStr upd v r = (case v of
       JNull \<Rightarrow> Inr r
     | JStr str \<Rightarrow> Inr (upd str r)
     | _ \<Rightarrow> Inl UnmarshalTypeError)"

definition setField :: "string \<Rightarrow> json \<Rightarrow> Reward \<Rightarrow> json_error + Reward" where
  "setField k v r =
     (if foldName k = ''itemtypeid'' then setInt fits32 (\<lambda>n. rw_ItemTypeId_update (\<lambda>_. n)) v r
      else if foldName k = ''count'' then setInt fits32 (\<lambda>n. rw_Count_update (\<lambda>_. n)) v r
      else if foldName k = ''expiredurationsec'' then setInt fits64 (\<lambda>n. rw_ExpireDurationSec_update (\<lambda>_. n)) v r
      else if foldName k = ''expiretimeunix'' then setInt fits64 (\<lambda>n. rw_ExpireTimeUnix_update (\<lambda>_. n)) v r
      else if foldName k = ''args'' then setStr (\<lambda>x. rw_Args_update (\<lambda>_. x)) v r
      else Inr r)"

fun setFields :: "(string \<times> json) list \<Rightarrow> Reward \<Rightarrow> json_error + Reward" where
  "setFields [] r = Inr r"
| "setFields ((k, v) # kvs) r =
     (case setField k v r of Inl e \<Rightarrow> Inl e | Inr r' \<Rightarrow> setFields kvs r')"

definition unmarshalReward :: "json \<Rightarrow> json_error + Reward option" where
  "unmarshalReward v = (case v of
       JNull \<Rightarrow> Inr None
     | JObj kvs \<Rightarrow> (case setFields kvs zeroReward of Inl e \<Rightarrow> Inl e | Inr r \<Rightarrow> Inr (Some r))
     | _ \<Rightarrow> Inl UnmarshalTypeError)"

fun traverse :: "('a \<Rightarrow> 'e + 'b) \<Rightarrow> 'a list \<Rightarrow> 'e + 'b list" where
  "traverse f [] = Inr []"
| "traverse f (x # xs) = (case f x of Inl e \<Rightarrow> Inl e
     | Inr y \<Rightarrow> (case traverse f xs of Inl e \<Rightarrow> Inl e | Inr ys \<Rightarrow> Inr (y # ys)))"

definition unmarshalRewards :: "json \<Rightarrow> json_error + Reward option list" where
  "unmarshalRewards v = (case v of
       JNull \<Rightarrow> Inr []
     | JArr l \<Rightarrow> traverse unmarshalReward l
     | _ \<Rightarrow> Inl UnmarshalTypeError)"

definition wfReward :: "Reward option \<Rightarrow> bool" where
  "wfReward r = (case r of None \<Rightarrow> True
     | Some w \<Rightarrow> fits32 (rw_ItemTypeId w) \<and> fits32 (rw_Count w)
         \<and> fits64 (rw_ExpireDurationSec w) \<and> fits64 (rw_ExpireTimeUnix w))"

lemma foldName_keys:
  "foldName ''ItemTypeId'' = ''itemtypeid''" "foldName ''Count'' = ''count''"
  "foldName ''ExpireDurationSec'' = ''expiredurationsec''"
  "foldName ''ExpireTimeUnix'' = ''expiretimeunix''" "foldName ''Args'' = ''args''"
  by code_simp+

lemma traverse_map: "(\<And>x. x \<in> set xs \<Longrightarrow> f (g x) = Inr x) \<Longrightarrow> traverse f (map g xs) = Inr xs"
  by (induction xs) auto

lemma unmarshal_marshalReward: "wfReward r \<Longrightarrow> unmarshalReward (marshalReward r) = Inr r"
  by (cases r) (auto simp: marshalReward_def unmarshalReward_def setField_def setInt_def setStr_def
      foldName_keys wfReward_def zeroReward_def)

lemma unmarshal_marshalRewards:
  "list_all wfReward rs \<Longrightarrow> unmarshalRewards (marshalRewards (Some rs)) = Inr rs"
  by (simp add: marshalRewards_def unmarshalRewards_def traverse_map unmarshal_marshalReward list_all_iff)

end
