(* ===== verification/Sha256.thy ===== *)
theory Sha256
  imports GoStd
begin

unbundle bit_operations_syntax

text \<open>
  SHA-256 as in Go's \<open>crypto/sha256\<close> (\<open>Sum256\<close>) and its rendering by \<open>fmt.Sprintf("%x", ...)\<close>,
  which the payment store uses for the fixed-length index of a credential. Words are 32 bits
  wide; a byte is a \<open>char\<close>.
\<close>

type_synonym w32 = "32 word"

definition rotr :: "nat \<Rightarrow> w32 \<Rightarrow> w32" where
  "rotr n x = (drop_bit n x) OR (push_bit (32 - n) x)"

definition shaK :: "w32 list" where
  "shaK = [
    1116352408, 1899447441, 3049323471, 3921009573, 961987163, 1508970993, 2453635748, 2870763221,
    3624381080, 310598401, 607225278, 1426881987, 1925078388, 2162078206, 2614888103, 3248222580,
    3835390401, 4022224774, 264347078, 604807628, 770255983, 1249150122, 1555081692, 1996064986,
    2554220882, 2821834349, 2952996808, 3210313671, 3336571891, 3584528711, 113926993, 338241895,
    666307205, 773529912, 1294757372, 1396182291, 1695183700, 1986661051, 2177026350, 2456956037,
    2730485921, 2820302411, 3259730800, 3345764771, 3516065817, 3600352804, 4094571909, 275423344,
    430227734, 506948616, 659060556, 883997877, 958139571, 1322822218, 1537002063, 1747873779,
    1955562222, 2024104815, 2227730452, 2361852424, 2428436474, 2756734187, 3204031479, 3329325298]"

definition shaInit :: "w32 list" where
  "shaInit = [1779033703, 3144134277, 1013904242, 2773480762, 1359893119, 2600822924, 528734635, 1541459225]"

text \<open>The schedule is extended from the front: \<open>ws\<close> holds the words in reverse order.\<close>

definition shaExtend :: "w32 list \<Rightarrow> w32 list" where
  "shaExtend ws =
     (let w2 = ws ! 1; w7 = ws ! 6; w15 = ws ! 14; w16 = ws ! 15;
          s0 = rotr 7 w15 XOR rotr 18 w15 XOR drop_bit 3 w15;
          s1 = rotr 17 w2 XOR rotr 19 w2 XOR drop_bit 10 w2
      in (w16 + s0 + w7 + s1) # ws)"

definition shaSchedule :: "w32 list \<Rightarrow> w32 list" where
  "shaSchedule block = rev ((shaExtend ^^ 48) (rev block))"

fun shaRound :: "w32 list \<Rightarrow> w32 \<times> w32 \<Rightarrow> w32 list" where
  "shaRound [a, b, c, d, e, f, g, h] (k, w) =
     (let s1 = rotr 6 e XOR rotr 11 e XOR rotr 25 e;
          ch = (e AND f) XOR (NOT e AND g);
          t1 = h + s1 + ch + k + w;
          s0 = rotr 2 a XOR rotr 13 a XOR rotr 22 a;
          maj = (a AND b) XOR (a AND c) XOR (b AND c);
          t2 = s0 + maj
      in [t1 + t2, a, b, c, d + t1, e, f, g])"
| "shaRound s _ = s"

definition shaBlock :: "w32 list \<Rightarrow> w32 list \<Rightarrow> w32 list" where
  "shaBlock st block = map2 (+) st (foldl shaRound st (zip shaK (shaSchedule block)))"

definition bytesWord :: "int list \<Rightarrow> w32" where
  "bytesWord bs = word_of_int (foldl (\<lambda>acc b. 256 * acc + b) 0 bs)"

fun chunks :: "nat \<Rightarrow> 'a list \<Rightarrow> 'a list list" where
  "chunks n xs = (if n = 0 \<or> xs = [] then [] else take n xs # chunks n (drop n xs))"

declare chunks.simps [simp del]

fun bigEndian :: "nat \<Rightarrow> int \<Rightarrow> int list" where
  "bigEndian 0 v = []"
| "bigEndian (Suc k) v = bigEndian k (v div 256) @ [v mod 256]"

definition shaPad :: "int list \<Rightarrow> int list" where
  "shaPad bs = (let n = int (length bs); z = (55 - n) mod 64
                in bs @ [128] @ replicate (nat z) 0 @ bigEndian 8 (8 * n))"

definition Sum256 :: "string \<Rightarrow> int list" where
  "Sum256 str = concat (map (\<lambda>w. bigEndian 4 (uint w))
     (foldl shaBlock shaInit
       (map (\<lambda>c. map bytesWord (chunks 4 c)) (chunks 64 (shaPad (map of_char str))))))"

definition hexDigit :: "int \<Rightarrow> char" where
  "hexDigit d = (if d < 10 then char_of (48 + d) else char_of (87 + d))"

definition hexBytes :: "int list \<Rightarrow> string" where
  "hexBytes bs = concat (map (\<lambda>b. [hexDigit (b div 16), hexDigit (b mod 16)]) bs)"

definition sha256Hex :: "string \<Rightarrow> string" where
  "sha256Hex str = hexBytes (Sum256 str)"

end
