(* ===== verification/PaymentStore.thy ===== *)
theory PaymentStore
  imports Json Sha256
begin

text \<open>
  The payment order store, \<open>app/Api/payment/internal/store/store.go\<close>, with the generated ent
  package it runs (\<open>mutation.go\<close>, \<open>paymentorder_create.go\<close>, \<open>paymentorder_update.go\<close>,
  \<open>paymentorder/where.go\<close>, \<open>schema/order.go\<close>) and the types of \<open>app/Api/payment/types\<close>. The
  setters the store never calls (\<open>AddStatus\<close>, the \<open>Clear\<close> family, \<open>AppendRewards\<close>) leave their
  mutation fields unset, so the fields are not part of the model.
\<close>

section \<open>Data\<close>

definition OrderStatusPending :: int where "OrderStatusPending = 0"
definition OrderStatusPurchased :: int where "OrderStatusPurchased = 1"
definition OrderStatusCancelled :: int where "OrderStatusCancelled = 2"

definition CancelReasonTimeout :: string where "CancelReasonTimeout = ''timeout''"
definition CancelReasonRefund :: string where "CancelReasonRefund = ''refund''"

definition PaymentTypeApple :: int where "PaymentTypeApple = 1"
definition PaymentTypeGoogle :: int where "PaymentTypeGoogle = 2"

definition ThirdPartyOrderStatusPending :: int where "ThirdPartyOrderStatusPending = 0"
definition ThirdPartyOrderStatusPurchased :: int where "ThirdPartyOrderStatusPurchased = 1"
definition ThirdPartyOrderStatusCancelled :: int where "ThirdPartyOrderStatusCancelled = 2"

lemmas order_status_defs = OrderStatusPending_def OrderStatusPurchased_def OrderStatusCancelled_def
lemmas third_status_defs = ThirdPartyOrderStatusPending_def ThirdPartyOrderStatusPurchased_def
  ThirdPartyOrderStatusCancelled_def
lemmas cancel_reason_defs = CancelReasonTimeout_def CancelReasonRefund_def

record CreateOrderParams =
  cp_Uid :: uint64
  cp_ProductId :: int
  cp_ThirdPartyProductId :: string
  cp_PaymentType :: int
  cp_AmountUnit :: int
  cp_AmountNanos :: int
  cp_Currency :: string
  cp_Rewards :: RawMessage

record ThirdPartyOrder =
  tp_Status :: int
  tp_InternalOrderId :: uint64
  tp_InternalProductId :: int
  tp_Uid :: uint64
  tp_OrderId :: string
  tp_ProductId :: string
  tp_Credential :: string
  tp_AmountUnit :: int
  tp_AmountNanos :: int
  tp_Currency :: string
  tp_PayAtUnix :: int
  tp_RefundAtUnix :: int
  tp_RefundReason :: string
  tp_IsSandbox :: bool
  tp_Consumed :: bool

record PaymentOrder =
  po_ID :: uint64
  po_UID :: uint64
  po_ProductID :: int
  po_ThirdPartyProductID :: string
  po_PaymentType :: int
  po_Status :: int
  po_OrderAmountUnit :: int
  po_OrderAmountNanos :: int
  po_OrderCurrency :: string
  po_RealAmountUnit :: int
  po_RealAmountNanos :: int
  po_RealCurrency :: string
  po_ThirdPartyOrderID :: "string option"
  po_Credential :: "string option"
  po_CredentialHash :: "string option"
  po_Rewards :: RawMessage
  po_RetryTimes :: int
  po_CancelReason :: string
  po_RefundReason :: string
  po_IsSandbox :: bool
  po_CreateAtUnix :: int
  po_UpdateAtUnix :: int
  po_PayAtUnix :: int
  po_RefundAtUnix :: int
  po_CancelAtUnix :: int

definition setOrderID :: "uint64 \<Rightarrow> PaymentOrder \<Rightarrow> PaymentOrder" where
  "setOrderID i r = r\<lparr>po_ID := i\<rparr>"

text \<open>The two unique indexes; in SQL a NULL never equals another.\<close>

definition orderConflict :: "PaymentOrder \<Rightarrow> PaymentOrder \<Rightarrow> bool" where
  "orderConflict a b \<longleftrightarrow> po_PaymentType a = po_PaymentType b \<and>
     (po_ThirdPartyOrderID a \<noteq> None \<and> po_ThirdPartyOrderID a = po_ThirdPartyOrderID b \<or>
      po_CredentialHash a \<noteq> None \<and> po_CredentialHash a = po_CredentialHash b)"

section \<open>The external services\<close>

record 's order_drv =
  Orders :: "('s, PaymentOrder, uint64) nodes"
  OrderClock :: "'s \<Rightarrow> gotime \<times> 's"

definition orderNow :: "'s order_drv \<Rightarrow> ('s, 'e, int) act" where
  "orderNow drv s = (case OrderClock drv s of (t, s') \<Rightarrow> (Inr (UnixSec t), s'))"

datatype order_error =
    OrderStoreErr ent_error
  | EmptyCredential
  | OrderMismatch
  | OrderBoundElsewhere
  | OrderUnaffected

section \<open>Mutations\<close>

record PaymentOrderMutation =
  om_uid :: "uint64 option"
  om_product_id :: "int option"
  om_third_party_product_id :: "string option"
  om_payment_type :: "int option"
  om_status :: "int option"
  om_order_amount_unit :: "int option"
  om_order_amount_nanos :: "int option"
  om_order_currency :: "string option"
  om_real_amount_unit :: "int option"
  om_real_amount_nanos :: "int option"
  om_real_currency :: "string option"
  om_third_party_order_id :: "string option"
  om_credential :: "string option"
  om_credential_hash :: "string option"
  om_rewards :: "RawMessage option"
  om_retry_times :: "int option"
  om_addretry_times :: "int option"
  om_cancel_reason :: "string option"
  om_refund_reason :: "string option"
  om_is_sandbox :: "bool option"
  om_create_at_unix :: "int option"
  om_update_at_unix :: "int option"
  om_pay_at_unix :: "int option"
  om_refund_at_unix :: "int option"
  om_cancel_at_unix :: "int option"

definition newPaymentOrderMutation :: PaymentOrderMutation where
  "newPaymentOrderMutation = \<lparr>om_uid = None, om_product_id = None, om_third_party_product_id = None,
     om_payment_type = None, om_status = None, om_order_amount_unit = None, om_order_amount_nanos = None,
     om_order_currency = None, om_real_amount_unit = None, om_real_amount_nanos = None,
     om_real_currency = None, om_third_party_order_id = None, om_credential = None,
     om_credential_hash = None, om_rewards = None, om_retry_times = None, om_addretry_times = None,
     om_cancel_reason = None, om_refund_reason = None, om_is_sandbox = None, om_create_at_unix = None,
     om_update_at_unix = None, om_pay_at_unix = None, om_refund_at_unix = None, om_cancel_at_unix = None\<rparr>"

definition SetOrderUID :: "uint64 \<Rightarrow> PaymentOrderMutation \<Rightarrow> PaymentOrderMutation" where
  "SetOrderUID v m = m\<lparr>om_uid := Some v\<rparr>"
definition SetProductID :: "int \<Rightarrow> PaymentOrderMutation \<Rightarrow> PaymentOrderMutation" where
  "SetProductID v m = m\<lparr>om_product_id := Some v\<rparr>"
definition SetThirdPartyProductID :: "string \<Rightarrow> PaymentOrderMutation \<Rightarrow> PaymentOrderMutation" where
  "SetThirdPartyProductID v m = m\<lparr>om_third_party_product_id := Some v\<rparr>"
definition SetPaymentType :: "int \<Rightarrow> PaymentOrderMutation \<Rightarrow> PaymentOrderMutation" where
  "SetPaymentType v m = m\<lparr>om_payment_type := Some v\<rparr>"
definition SetStatus :: "int \<Rightarrow> PaymentOrderMutation \<Rightarrow> PaymentOrderMutation" where
  "SetStatus v m = m\<lparr>om_status := Some v\<rparr>"
definition SetOrderAmountUnit :: "int \<Rightarrow> PaymentOrderMutation \<Rightarrow> PaymentOrderMutation" where
  "SetOrderAmountUnit v m = m\<lparr>om_order_amount_unit := Some v\<rparr>"
definition SetOrderAmountNanos :: "int \<Rightarrow> PaymentOrderMutation \<Rightarrow> PaymentOrderMutation" where
  "SetOrderAmountNanos v m = m\<lparr>om_order_amount_nanos := Some v\<rparr>"
definition SetOrderCurrency :: "string \<Rightarrow> PaymentOrderMutation \<Rightarrow> PaymentOrderMutation" where
  "SetOrderCurrency v m = m\<lparr>om_order_currency := Some v\<rparr>"
definition SetRealAmountUnit :: "int \<Rightarrow> PaymentOrderMutation \<Rightarrow> PaymentOrderMutation" where
  "SetRealAmountUnit v m = m\<lparr>om_real_amount_unit := Some v\<rparr>"
definition SetRealAmountNanos :: "int \<Rightarrow> PaymentOrderMutation \<Rightarrow> PaymentOrderMutation" where
  "SetRealAmountNanos v m = m\<lparr>om_real_amount_nanos := Some v\<rparr>"
definition SetRealCurrency :: "string \<Rightarrow> PaymentOrderMutation \<Rightarrow> PaymentOrderMutation" where
  "SetRealCurrency v m = m\<lparr>om_real_currency := Some v\<rparr>"
definition SetThirdPartyOrderID :: "string \<Rightarrow> PaymentOrderMutation \<Rightarrow> PaymentOrderMutation" where
  "SetThirdPartyOrderID v m = m\<lparr>om_third_party_order_id := Some v\<rparr>"
definition SetCredential :: "string \<Rightarrow> PaymentOrderMutation \<Rightarrow> PaymentOrderMutation" where
  "SetCredential v m = m\<lparr>om_credential := Some v\<rparr>"
definition SetCredentialHash :: "string \<Rightarrow> PaymentOrderMutation \<Rightarrow> PaymentOrderMutation" where
  "SetCredentialHash v m = m\<lparr>om_credential_hash := Some v\<rparr>"
definition SetRewards :: "RawMessage \<Rightarrow> PaymentOrderMutation \<Rightarrow> PaymentOrderMutation" where
  "SetRewards v m = m\<lparr>om_rewards := Some v\<rparr>"
definition SetRetryTimes :: "int \<Rightarrow> PaymentOrderMutation \<Rightarrow> PaymentOrderMutation" where
  "SetRetryTimes v m = m\<lparr>om_retry_times := Some v, om_addretry_times := None\<rparr>"
definition AddRetryTimesField :: "int \<Rightarrow> PaymentOrderMutation \<Rightarrow> PaymentOrderMutation" where
  "AddRetryTimesField v m = m\<lparr>om_addretry_times :=
     (case om_addretry_times m of Some a \<Rightarrow> Some (wrap32 (a + v)) | None \<Rightarrow> Some v)\<rparr>"
definition SetCancelReason :: "string \<Rightarrow> PaymentOrderMutation \<Rightarrow> PaymentOrderMutation" where
  "SetCancelReason v m = m\<lparr>om_cancel_reason := Some v\<rparr>"
definition SetRefundReason :: "string \<Rightarrow> PaymentOrderMutation \<Rightarrow> PaymentOrderMutation" where
  "SetRefundReason v m = m\<lparr>om_refund_reason := Some v\<rparr>"
definition SetIsSandbox :: "bool \<Rightarrow> PaymentOrderMutation \<Rightarrow> PaymentOrderMutation" where
  "SetIsSandbox v m = m\<lparr>om_is_sandbox := Some v\<rparr>"
definition SetOrderCreateAtUnix :: "int \<Rightarrow> PaymentOrderMutation \<Rightarrow> PaymentOrderMutation" where
  "SetOrderCreateAtUnix v m = m\<lparr>om_create_at_unix := Some v\<rparr>"
definition SetOrderUpdateAtUnix :: "int \<Rightarrow> PaymentOrderMutation \<Rightarrow> PaymentOrderMutation" where
  "SetOrderUpdateAtUnix v m = m\<lparr>om_update_at_unix := Some v\<rparr>"
definition SetPayAtUnix :: "int \<Rightarrow> PaymentOrderMutation \<Rightarrow> PaymentOrderMutation" where
  "SetPayAtUnix v m = m\<lparr>om_pay_at_unix := Some v\<rparr>"
definition SetRefundAtUnix :: "int \<Rightarrow> PaymentOrderMutation \<Rightarrow> PaymentOrderMutation" where
  "SetRefundAtUnix v m = m\<lparr>om_refund_at_unix := Some v\<rparr>"
definition SetCancelAtUnix :: "int \<Rightarrow> PaymentOrderMutation \<Rightarrow> PaymentOrderMutation" where
  "SetCancelAtUnix v m = m\<lparr>om_cancel_at_unix := Some v\<rparr>"

lemmas order_setters [simp] = newPaymentOrderMutation_def SetOrderUID_def SetProductID_def
  SetThirdPartyProductID_def SetPaymentType_def SetStatus_def SetOrderAmountUnit_def
  SetOrderAmountNanos_def SetOrderCurrency_def SetRealAmountUnit_def SetRealAmountNanos_def
  SetRealCurrency_def SetThirdPartyOrderID_def SetCredential_def SetCredentialHash_def
  SetRewards_def SetRetryTimes_def AddRetryTimesField_def SetCancelReason_def SetRefundReason_def
  SetIsSandbox_def SetOrderCreateAtUnix_def SetOrderUpdateAtUnix_def SetPayAtUnix_def
  SetRefundAtUnix_def SetCancelAtUnix_def

section \<open>The create builder\<close>

definition PaymentOrderCreate_defaults :: "int \<Rightarrow> int \<Rightarrow> PaymentOrderMutation \<Rightarrow> PaymentOrderMutation" where
  "PaymentOrderCreate_defaults createNow updateNow m = m\<lparr>
     om_status := orDefault OrderStatusPending (om_status m),
     om_real_amount_unit := orDefault 0 (om_real_amount_unit m),
     om_real_amount_nanos := orDefault 0 (om_real_amount_nanos m),
     om_real_currency := orDefault '''' (om_real_currency m),
     om_retry_times := orDefault 0 (om_retry_times m),
     om_cancel_reason := orDefault '''' (om_cancel_reason m),
     om_refund_reason := orDefault '''' (om_refund_reason m),
     om_is_sandbox := orDefault False (om_is_sandbox m),
     om_create_at_unix := orDefault createNow (om_create_at_unix m),
     om_update_at_unix := orDefault updateNow (om_update_at_unix m),
     om_pay_at_unix := orDefault 0 (om_pay_at_unix m),
     om_refund_at_unix := orDefault 0 (om_refund_at_unix m),
     om_cancel_at_unix := orDefault 0 (om_cancel_at_unix m)\<rparr>"

definition PaymentOrderCreate_check :: "PaymentOrderMutation \<Rightarrow> ent_error option" where
  "PaymentOrderCreate_check m =
     (if om_uid m = None then Some (ValidationError ''uid'')
      else if om_product_id m = None then Some (ValidationError ''product_id'')
      else if om_third_party_product_id m = None then Some (ValidationError ''third_party_product_id'')
      else if om_payment_type m = None then Some (ValidationError ''payment_type'')
      else if om_status m = None then Some (ValidationError ''status'')
      else if om_order_amount_unit m = None then Some (ValidationError ''order_amount_unit'')
      else if om_order_amount_nanos m = None then Some (ValidationError ''order_amount_nanos'')
      else if om_order_currency m = None then Some (ValidationError ''order_currency'')
      else if om_real_amount_unit m = None then Some (ValidationError ''real_amount_unit'')
      else if om_real_amount_nanos m = None then Some (ValidationError ''real_amount_nanos'')
      else if om_real_currency m = None then Some (ValidationError ''real_currency'')
      else if om_retry_times m = None then Some (ValidationError ''retry_times'')
      else if om_cancel_reason m = None then Some (ValidationError ''cancel_reason'')
      else if om_refund_reason m = None then Some (ValidationError ''refund_reason'')
      else if om_is_sandbox m = None then Some (ValidationError ''is_sandbox'')
      else if om_create_at_unix m = None then Some (ValidationError ''create_at_unix'')
      else if om_update_at_unix m = None then Some (ValidationError ''update_at_unix'')
      else if om_pay_at_unix m = None then Some (ValidationError ''pay_at_unix'')
      else if om_refund_at_unix m = None then Some (ValidationError ''refund_at_unix'')
      else if om_cancel_at_unix m = None then Some (ValidationError ''cancel_at_unix'')
      else None)"

definition PaymentOrderCreate_createSpec :: "PaymentOrderMutation \<Rightarrow> PaymentOrder" where
  "PaymentOrderCreate_createSpec m = \<lparr>po_ID = 0, po_UID = getOr 0 (om_uid m),
     po_ProductID = getOr 0 (om_product_id m),
     po_ThirdPartyProductID = getOr '''' (om_third_party_product_id m),
     po_PaymentType = getOr 0 (om_payment_type m), po_Status = getOr 0 (om_status m),
     po_OrderAmountUnit = getOr 0 (om_order_amount_unit m),
     po_OrderAmountNanos = getOr 0 (om_order_amount_nanos m),
     po_OrderCurrency = getOr '''' (om_order_currency m),
     po_RealAmountUnit = getOr 0 (om_real_amount_unit m),
     po_RealAmountNanos = getOr 0 (om_real_amount_nanos m),
     po_RealCurrency = getOr '''' (om_real_currency m),
     po_ThirdPartyOrderID = om_third_party_order_id m, po_Credential = om_credential m,
     po_CredentialHash = om_credential_hash m, po_Rewards = getOr None (om_rewards m),
     po_RetryTimes = getOr 0 (om_retry_times m), po_CancelReason = getOr '''' (om_cancel_reason m),
     po_RefundReason = getOr '''' (om_refund_reason m), po_IsSandbox = getOr False (om_is_sandbox m),
     po_CreateAtUnix = getOr 0 (om_create_at_unix m), po_UpdateAtUnix = getOr 0 (om_update_at_unix m),
     po_PayAtUnix = getOr 0 (om_pay_at_unix m), po_RefundAtUnix = getOr 0 (om_refund_at_unix m),
     po_CancelAtUnix = getOr 0 (om_cancel_at_unix m)\<rparr>"

definition PaymentOrderCreate_sqlSave ::
  "('s, PaymentOrder, uint64) nodes \<Rightarrow> PaymentOrderMutation \<Rightarrow> ('s, ent_error, PaymentOrder) act" where
  "PaymentOrderCreate_sqlSave nd m =
     (case PaymentOrderCreate_check m of
        Some e \<Rightarrow> fail e
      | None \<Rightarrow> andThen (mapErr createErr (CreateNode nd (PaymentOrderCreate_createSpec m)))
          (\<lambda>i. ok ((PaymentOrderCreate_createSpec m)\<lparr>po_ID := i\<rparr>)))"

definition PaymentOrderCreate_Save ::
  "'s order_drv \<Rightarrow> PaymentOrderMutation \<Rightarrow> ('s, ent_error, PaymentOrder) act" where
  "PaymentOrderCreate_Save drv m =
     andThen (orderNow drv) (\<lambda>createNow. andThen (orderNow drv) (\<lambda>updateNow.
       PaymentOrderCreate_sqlSave (Orders drv) (PaymentOrderCreate_defaults createNow updateNow m)))"

section \<open>The update builders\<close>

definition PaymentOrderUpdate_spec :: "PaymentOrderMutation \<Rightarrow> PaymentOrder \<Rightarrow> PaymentOrder" where
  "PaymentOrderUpdate_spec m r = r\<lparr>
     po_Status := getOr (po_Status r) (om_status m),
     po_RealAmountUnit := getOr (po_RealAmountUnit r) (om_real_amount_unit m),
     po_RealAmountNanos := getOr (po_RealAmountNanos r) (om_real_amount_nanos m),
     po_RealCurrency := getOr (po_RealCurrency r) (om_real_currency m),
     po_ThirdPartyOrderID := (case om_third_party_order_id m of None \<Rightarrow> po_ThirdPartyOrderID r | Some v \<Rightarrow> Some v),
     po_Credential := (case om_credential m of None \<Rightarrow> po_Credential r | Some v \<Rightarrow> Some v),
     po_CredentialHash := (case om_credential_hash m of None \<Rightarrow> po_CredentialHash r | Some v \<Rightarrow> Some v),
     po_Rewards := getOr (po_Rewards r) (om_rewards m),
     po_RetryTimes := setAdd (om_retry_times m) (om_addretry_times m) (po_RetryTimes r),
     po_CancelReason := getOr (po_CancelReason r) (om_cancel_reason m),
     po_RefundReason := getOr (po_RefundReason r) (om_refund_reason m),
     po_IsSandbox := getOr (po_IsSandbox r) (om_is_sandbox m),
     po_UpdateAtUnix := getOr (po_UpdateAtUnix r) (om_update_at_unix m),
     po_PayAtUnix := getOr (po_PayAtUnix r) (om_pay_at_unix m),
     po_RefundAtUnix := getOr (po_RefundAtUnix r) (om_refund_at_unix m),
     po_CancelAtUnix := getOr (po_CancelAtUnix r) (om_cancel_at_unix m)\<rparr>"

definition PaymentOrderUpdate_defaults :: "int \<Rightarrow> PaymentOrderMutation \<Rightarrow> PaymentOrderMutation" where
  "PaymentOrderUpdate_defaults now m = m\<lparr>om_update_at_unix := orDefault now (om_update_at_unix m)\<rparr>"

definition PaymentOrderUpdate_Save ::
  "'s order_drv \<Rightarrow> (PaymentOrder \<Rightarrow> bool) list \<Rightarrow> PaymentOrderMutation \<Rightarrow> ('s, ent_error, nat) act" where
  "PaymentOrderUpdate_Save drv ps m = andThen (orderNow drv) (\<lambda>now.
     UpdateSave (Orders drv) ps (PaymentOrderUpdate_spec (PaymentOrderUpdate_defaults now m)))"

definition PaymentOrderUpdateOne_Save ::
  "'s order_drv \<Rightarrow> uint64 \<Rightarrow> PaymentOrderMutation \<Rightarrow> ('s, ent_error, PaymentOrder) act" where
  "PaymentOrderUpdateOne_Save drv i m = andThen (orderNow drv) (\<lambda>now.
     UpdateOneSave (Orders drv) i (PaymentOrderUpdate_spec (PaymentOrderUpdate_defaults now m)))"

section \<open>Predicates\<close>

definition OrderIDEQ :: "uint64 \<Rightarrow> PaymentOrder \<Rightarrow> bool" where "OrderIDEQ v r \<longleftrightarrow> po_ID r = v"
definition OrderUIDEQ :: "uint64 \<Rightarrow> PaymentOrder \<Rightarrow> bool" where "OrderUIDEQ v r \<longleftrightarrow> po_UID r = v"
definition PaymentTypeEQ :: "int \<Rightarrow> PaymentOrder \<Rightarrow> bool" where "PaymentTypeEQ v r \<longleftrightarrow> po_PaymentType r = v"
definition ProductIDEQ :: "int \<Rightarrow> PaymentOrder \<Rightarrow> bool" where "ProductIDEQ v r \<longleftrightarrow> po_ProductID r = v"
definition StatusEQ :: "int \<Rightarrow> PaymentOrder \<Rightarrow> bool" where "StatusEQ v r \<longleftrightarrow> po_Status r = v"
definition CancelReasonEQ :: "string \<Rightarrow> PaymentOrder \<Rightarrow> bool" where "CancelReasonEQ v r \<longleftrightarrow> po_CancelReason r = v"
definition CreateAtUnixLTE :: "int \<Rightarrow> PaymentOrder \<Rightarrow> bool" where "CreateAtUnixLTE v r \<longleftrightarrow> po_CreateAtUnix r \<le> v"
definition CredentialHashIsNil :: "PaymentOrder \<Rightarrow> bool" where "CredentialHashIsNil r \<longleftrightarrow> po_CredentialHash r = None"
definition CredentialHashEQ :: "string \<Rightarrow> PaymentOrder \<Rightarrow> bool" where "CredentialHashEQ v r \<longleftrightarrow> po_CredentialHash r = Some v"
definition ThirdPartyOrderIDIsNil :: "PaymentOrder \<Rightarrow> bool" where "ThirdPartyOrderIDIsNil r \<longleftrightarrow> po_ThirdPartyOrderID r = None"
definition ThirdPartyOrderIDEQ :: "string \<Rightarrow> PaymentOrder \<Rightarrow> bool" where "ThirdPartyOrderIDEQ v r \<longleftrightarrow> po_ThirdPartyOrderID r = Some v"
definition OrP :: "(PaymentOrder \<Rightarrow> bool) list \<Rightarrow> PaymentOrder \<Rightarrow> bool" where "OrP ps r \<longleftrightarrow> list_ex (\<lambda>p. p r) ps"
definition AndP :: "(PaymentOrder \<Rightarrow> bool) list \<Rightarrow> PaymentOrder \<Rightarrow> bool" where "AndP ps r \<longleftrightarrow> list_all (\<lambda>p. p r) ps"

lemmas order_preds [simp] = OrderIDEQ_def OrderUIDEQ_def PaymentTypeEQ_def ProductIDEQ_def StatusEQ_def
  CancelReasonEQ_def CreateAtUnixLTE_def CredentialHashIsNil_def CredentialHashEQ_def
  ThirdPartyOrderIDIsNil_def ThirdPartyOrderIDEQ_def OrP_def AndP_def

definition DescID :: "PaymentOrder \<Rightarrow> int \<times> int" where "DescID r = (- int (po_ID r), 0)"
definition AscID :: "PaymentOrder \<Rightarrow> int \<times> int" where "AscID r = (int (po_ID r), 0)"

definition GetOrder :: "'s order_drv \<Rightarrow> uint64 \<Rightarrow> ('s, ent_error, PaymentOrder) act" where
  "GetOrder drv i = Only (Orders drv) (Where [OrderIDEQ i] Query)"

section \<open>Store operations\<close>

definition FindPendingOrder ::
  "'s order_drv \<Rightarrow> uint64 \<Rightarrow> int \<Rightarrow> int \<Rightarrow> ('s, order_error, PaymentOrder option) act" where
  "FindPendingOrder drv uid paymentType productId =
     andThen (attempt (First (Orders drv) (Order DescID (Where [OrderUIDEQ uid, PaymentTypeEQ paymentType,
         ProductIDEQ productId, StatusEQ OrderStatusPending] Query))))
       (\<lambda>r. case r of
          Inl e \<Rightarrow> if IsNotFound e then ok None else fail (OrderStoreErr e)
        | Inr row \<Rightarrow> ok (Some row))"

definition createOrderMutation :: "CreateOrderParams \<Rightarrow> PaymentOrderMutation" where
  "createOrderMutation params =
     (let builder = SetOrderCurrency (cp_Currency params) (SetOrderAmountNanos (cp_AmountNanos params)
        (SetOrderAmountUnit (cp_AmountUnit params) (SetStatus OrderStatusPending
        (SetPaymentType (cp_PaymentType params) (SetThirdPartyProductID (cp_ThirdPartyProductId params)
        (SetProductID (cp_ProductId params) (SetOrderUID (cp_Uid params) newPaymentOrderMutation)))))))
      in if cp_Rewards params \<noteq> None then SetRewards (cp_Rewards params) builder else builder)"

definition CreateOrder ::
  "'s order_drv \<Rightarrow> CreateOrderParams \<Rightarrow> ('s, order_error, PaymentOrder) act" where
  "CreateOrder drv params =
     mapErr OrderStoreErr (PaymentOrderCreate_Save drv (createOrderMutation params))"

definition bindPredicates ::
  "uint64 \<Rightarrow> int \<Rightarrow> uint64 \<Rightarrow> int \<Rightarrow> string \<Rightarrow> string \<Rightarrow> (PaymentOrder \<Rightarrow> bool) list" where
  "bindPredicates uid paymentType orderId productId credentialHash thirdPartyOrderId =
     [OrderIDEQ orderId, OrderUIDEQ uid, PaymentTypeEQ paymentType, ProductIDEQ productId,
      OrP [CredentialHashIsNil, CredentialHashEQ credentialHash]] @
     (if thirdPartyOrderId \<noteq> '''' then [OrP [ThirdPartyOrderIDIsNil, ThirdPartyOrderIDEQ thirdPartyOrderId]] else [])"

definition bindMutation :: "string \<Rightarrow> string \<Rightarrow> string \<Rightarrow> PaymentOrderMutation" where
  "bindMutation credential credentialHash thirdPartyOrderId =
     (let update = SetCredentialHash credentialHash (SetCredential credential newPaymentOrderMutation)
      in if thirdPartyOrderId \<noteq> '''' then SetThirdPartyOrderID thirdPartyOrderId update else update)"

definition FindAndBindOrder ::
  "'s order_drv \<Rightarrow> uint64 \<Rightarrow> int \<Rightarrow> uint64 \<Rightarrow> int \<Rightarrow> string \<Rightarrow> string \<Rightarrow> ('s, order_error, PaymentOrder) act" where
  "FindAndBindOrder drv uid paymentType orderId productId credential thirdPartyOrderId =
     (if credential = '''' then fail EmptyCredential
      else let credentialHash = sha256Hex credential in
       andThen (mapErr OrderStoreErr (PaymentOrderUpdate_Save drv
         (bindPredicates uid paymentType orderId productId credentialHash thirdPartyOrderId)
         (bindMutation credential credentialHash thirdPartyOrderId))) (\<lambda>_.
       andThen (mapErr OrderStoreErr (GetOrder drv orderId)) (\<lambda>order.
         if po_UID order \<noteq> uid \<or> po_PaymentType order \<noteq> paymentType \<or> po_ProductID order \<noteq> productId \<or>
            po_CredentialHash order = None \<or> po_CredentialHash order \<noteq> Some credentialHash
         then fail OrderMismatch
         else if thirdPartyOrderId \<noteq> '''' \<and>
            (po_ThirdPartyOrderID order = None \<or> po_ThirdPartyOrderID order \<noteq> Some thirdPartyOrderId)
         then fail OrderBoundElsewhere
         else ok order)))"

definition FindExpiredPendingOrders ::
  "'s order_drv \<Rightarrow> int \<Rightarrow> nat \<Rightarrow> ('s, order_error, PaymentOrder list) act" where
  "FindExpiredPendingOrders drv expiredAtUnix lim =
     mapErr OrderStoreErr (All (Orders drv) (Limit lim (Order AscID
       (Where [StatusEQ OrderStatusPending, CreateAtUnixLTE expiredAtUnix] Query))))"

definition GetExpiredPendingOrder ::
  "'s order_drv \<Rightarrow> uint64 \<Rightarrow> int \<Rightarrow> ('s, order_error, PaymentOrder option) act" where
  "GetExpiredPendingOrder drv orderId expiredAtUnix =
     andThen (attempt (Only (Orders drv) (Where [OrderIDEQ orderId, StatusEQ OrderStatusPending,
         CreateAtUnixLTE expiredAtUnix] Query)))
       (\<lambda>r. case r of
          Inl e \<Rightarrow> if IsNotFound e then ok None else fail (OrderStoreErr e)
        | Inr row \<Rightarrow> ok (Some row))"

definition MarkOrderTimeout :: "'s order_drv \<Rightarrow> uint64 \<Rightarrow> int \<Rightarrow> ('s, order_error, unit) act" where
  "MarkOrderTimeout drv orderId expiredAtUnix =
     andThen (orderNow drv) (\<lambda>now.
     andThen (mapErr OrderStoreErr (PaymentOrderUpdate_Save drv
       [OrderIDEQ orderId, StatusEQ OrderStatusPending, CreateAtUnixLTE expiredAtUnix]
       (SetCancelAtUnix now (SetCancelReason CancelReasonTimeout
         (SetStatus OrderStatusCancelled newPaymentOrderMutation))))) (\<lambda>_. ok ()))"

definition purchasedPredicates :: "uint64 \<Rightarrow> (PaymentOrder \<Rightarrow> bool) list" where
  "purchasedPredicates orderId = [OrderIDEQ orderId,
     OrP [StatusEQ OrderStatusPending,
          AndP [StatusEQ OrderStatusCancelled, CancelReasonEQ CancelReasonTimeout]]]"

definition purchasedMutation :: "ThirdPartyOrder \<Rightarrow> PaymentOrderMutation" where
  "purchasedMutation tp =
     (let builder = SetCancelAtUnix 0 (SetCancelReason '''' (SetIsSandbox (tp_IsSandbox tp)
        (SetRealCurrency (tp_Currency tp) (SetRealAmountUnit (tp_AmountUnit tp)
        (SetRealAmountNanos (tp_AmountNanos tp) (SetStatus OrderStatusPurchased newPaymentOrderMutation))))));
        builder1 = (if 0 < tp_PayAtUnix tp then SetPayAtUnix (tp_PayAtUnix tp) builder else builder)
      in if tp_Credential tp \<noteq> '''' then SetCredential (tp_Credential tp) builder1 else builder1)"

definition MarkOrderPurchased ::
  "'s order_drv \<Rightarrow> uint64 \<Rightarrow> ThirdPartyOrder \<Rightarrow> ('s, order_error, unit) act" where
  "MarkOrderPurchased drv orderId tp =
     andThen (mapErr OrderStoreErr (PaymentOrderUpdate_Save drv (purchasedPredicates orderId) (purchasedMutation tp)))
       (\<lambda>affected. if affected = 0 then fail OrderUnaffected else ok ())"

definition refundedMutation :: "string \<Rightarrow> int \<Rightarrow> PaymentOrderMutation" where
  "refundedMutation refundReason refundAtUnix =
     SetCancelAtUnix refundAtUnix (SetRefundAtUnix refundAtUnix (SetRefundReason refundReason
       (SetCancelReason CancelReasonRefund (SetStatus OrderStatusCancelled newPaymentOrderMutation))))"

definition MarkOrderRefunded ::
  "'s order_drv \<Rightarrow> uint64 \<Rightarrow> ThirdPartyOrder \<Rightarrow> ('s, order_error, unit) act" where
  "MarkOrderRefunded drv orderId tp =
     andThen (if tp_RefundAtUnix tp \<le> 0 then orderNow drv else ok (tp_RefundAtUnix tp)) (\<lambda>refundAtUnix.
       let refundReason = (if tp_RefundReason tp = '''' then CancelReasonRefund else tp_RefundReason tp) in
       andThen (mapErr OrderStoreErr (PaymentOrderUpdate_Save drv
         [OrderIDEQ orderId, StatusEQ OrderStatusPurchased] (refundedMutation refundReason refundAtUnix)))
       (\<lambda>affected. if affected = 0 then fail OrderUnaffected else ok ()))"

definition cancelledMutation :: "ThirdPartyOrder \<Rightarrow> int \<Rightarrow> PaymentOrderMutation" where
  "cancelledMutation tp cancelAtUnix =
     (let builder = SetCancelAtUnix cancelAtUnix (SetCancelReason CancelReasonRefund
        (SetStatus OrderStatusCancelled newPaymentOrderMutation));
        builder1 = (if 0 < tp_RefundAtUnix tp then SetRefundAtUnix (tp_RefundAtUnix tp) builder else builder)
      in if tp_RefundReason tp \<noteq> '''' then SetRefundReason (tp_RefundReason tp) builder1 else builder1)"

definition MarkOrderCancelled ::
  "'s order_drv \<Rightarrow> uint64 \<Rightarrow> ThirdPartyOrder \<Rightarrow> ('s, order_error, unit) act" where
  "MarkOrderCancelled drv orderId tp =
     andThen (orderNow drv) (\<lambda>now.
       let cancelAtUnix = (if 0 < tp_RefundAtUnix tp then tp_RefundAtUnix tp else now) in
       andThen (mapErr OrderStoreErr (PaymentOrderUpdate_Save drv
         [OrderIDEQ orderId, StatusEQ OrderStatusPending] (cancelledMutation tp cancelAtUnix)))
       (\<lambda>affected. if affected = 0 then fail OrderUnaffected else ok ()))"

definition AddRetryTimes :: "'s order_drv \<Rightarrow> uint64 \<Rightarrow> ('s, order_error, unit) act" where
  "AddRetryTimes drv orderId =
     andThen (mapErr OrderStoreErr (PaymentOrderUpdate_Save drv [OrderIDEQ orderId]
       (AddRetryTimesField 1 newPaymentOrderMutation))) (\<lambda>_. ok ())"

definition UpdateOrderRewards ::
  "'s order_drv \<Rightarrow> uint64 \<Rightarrow> RawMessage \<Rightarrow> ('s, order_error, unit) act" where
  "UpdateOrderRewards drv orderId rewards =
     andThen (mapErr OrderStoreErr (PaymentOrderUpdateOne_Save drv orderId
       (SetRewards rewards newPaymentOrderMutation))) (\<lambda>_. ok ())"

end
