(* ===== verification/Stderr.thy ===== *)
theory Stderr
  imports Main
begin

text \<open>
  Business errors, \<open>pkg/stderr/err.go\<close>: an HTTP status and a message for the client. The messages
  are the constructors of a datatype, one per text.
\<close>

datatype message =
    MsgUnsupportedChannel
  | MsgNoProduct
  | MsgProductNotOnChannel
  | MsgNoPrice
  | MsgCreateOrderFailed
  | MsgProductConfig
  | MsgQueryOrderFailed
  | MsgNoThirdPartyOrder
  | MsgBindFailed
  | MsgNoOrder
  | MsgProductMismatch
  | MsgNotPaidYet
  | MsgThirdPartyStatus
  | MsgInternalStatus
  | MsgOrderCancelled
  | MsgMarkPurchased
  | MsgMarkCancelled
  | MsgMarkRefunded
  | MsgNoProductConfig
  | MsgMarshalRewards
  | MsgUpdateRewards
  | MsgEnqueueGrant
  | MsgEnqueueRevoke
  | MsgComplete
  | MsgScanLock
  | MsgScanQuery
  | MsgScanInterrupted
  | MsgScanLockLost
  | MsgAddItem
  | MsgGrantItems
  | MsgRevokeItems
  | MsgBagCache
  | MsgUnsupportedLogin
  | MsgBadCredential
  | MsgLoginFailed
  | MsgBindLoginFailed
  | MsgUnbindFailed
  | MsgDeleteFailed
  | MsgAccountDeleted
  | MsgBoundElsewhere
  | MsgAlreadyBound
  | MsgNotBound
  | MsgLastIdentity
  | MsgOk
  | MsgNoHeader
  | MsgTokenInvalid
  | MsgTokenUid
  | MsgParseRequest
  | MsgNoSign
  | MsgReplayed
  | MsgBadSign
  | MsgBodyTooLarge
  | MsgBadFormat
  | MsgParseHeader
  | MsgParseParams
  | MsgBadParams
  | MsgTooFrequent
  | MsgSystem
  | MsgGateAddress
  | MsgRouteUnregistered
  | MsgMockMismatch
  | MsgEncodeRequest
  | MsgGateCall
  | MsgDecodeResponse
  | MsgEncodeResponse

record Error =
  e_Code :: int
  e_Msg :: message

definition NewError :: "int \<Rightarrow> message \<Rightarrow> Error" where
  "NewError code msg = \<lparr>e_Code = code, e_Msg = msg\<rparr>"

definition BadRequest :: "message \<Rightarrow> Error" where "BadRequest msg = NewError 400 msg"
definition InternalServerError :: "message \<Rightarrow> Error" where "InternalServerError msg = NewError 500 msg"
definition NotFound :: "message \<Rightarrow> Error" where "NotFound msg = NewError 404 msg"
definition Unauthorized :: "message \<Rightarrow> Error" where "Unauthorized msg = NewError 401 msg"
definition Forbidden :: "message \<Rightarrow> Error" where "Forbidden msg = NewError 403 msg"

end
