(* ===== verification/PaymentTypes.thy ===== *)
theory PaymentTypes
  imports PaymentStore Stderr
begin

text \<open>
  The interfaces of the payment service: product configuration
  (\<open>internal/config/payment\<close>), the task queue client
  (\<open>pkg/asynqx/client.go\<close>) with the two payment tasks (\<open>types/task.go\<close>), the payment channel
  interface and its registry (\<open>channel.go\<close>), and the record of external services: the order
  table, the asynq client and the Redis lock of the nova library.
\<close>

section \<open>Configuration\<close>

record Price =
  pr_AmountUnit :: int
  pr_AmountNanos :: int

record Product =
  pd_Id :: int
  pd_ThirdPartyProductId :: "int \<rightharpoonup> string"
  pd_PriceMap :: "string \<rightharpoonup> Price"
  pd_Rewards :: "Reward option list option"

definition GetProduct :: "(int \<rightharpoonup> Product) \<Rightarrow> int \<Rightarrow> Product option" where
  "GetProduct products i = products i"

section \<open>Tasks\<close>

record GrantTask =
  gt_OrderId :: uint64
  gt_Uid :: uint64
  gt_Rewards :: RawMessage

record RevokeTask =
  rt_OrderId :: uint64
  rt_Uid :: uint64
  rt_Rewards :: RawMessage

record QTask =
  qt_Type :: string
  qt_Payload :: json
  qt_Queue :: string
  qt_TaskID :: string
  qt_MaxRetry :: int
  qt_Timeout :: duration

definition grantTaskType :: string where "grantTaskType = ''payment:grant_rewards''"
definition revokeTaskType :: string where "revokeTaskType = ''payment:revoke_rewards''"

definition grantTaskID :: "uint64 \<Rightarrow> string" where
  "grantTaskID orderId = ''payment-grant-rewards-'' @ decimal orderId"

definition revokeTaskID :: "uint64 \<Rightarrow> string" where
  "revokeTaskID orderId = ''payment-revoke-rewards-'' @ decimal orderId"

definition marshalTask :: "uint64 \<Rightarrow> uint64 \<Rightarrow> RawMessage \<Rightarrow> json" where
  "marshalTask orderId uid rewards = JObj [(''order_id'', JInt (int orderId)), (''uid'', JInt (int uid)),
     (''rewards'', getOr JNull rewards)]"

text \<open>\<open>AddTaskWithCtx\<close> builds the asynq task from the payload and the options of the task.\<close>

definition newGrantTask :: "GrantTask \<Rightarrow> QTask" where
  "newGrantTask g = \<lparr>qt_Type = grantTaskType, qt_Payload = marshalTask (gt_OrderId g) (gt_Uid g) (gt_Rewards g),
     qt_Queue = ''default'', qt_TaskID = grantTaskID (gt_OrderId g), qt_MaxRetry = 1000000000,
     qt_Timeout = 30 * Second\<rparr>"

definition newRevokeTask :: "RevokeTask \<Rightarrow> QTask" where
  "newRevokeTask r = \<lparr>qt_Type = revokeTaskType, qt_Payload = marshalTask (rt_OrderId r) (rt_Uid r) (rt_Rewards r),
     qt_Queue = ''default'', qt_TaskID = revokeTaskID (rt_OrderId r), qt_MaxRetry = 1000000000,
     qt_Timeout = 30 * Second\<rparr>"

definition taskUint :: "json \<Rightarrow> uint64 \<Rightarrow> json_error + uint64" where
  "taskUint v old = (case v of
       JNull \<Rightarrow> Inr old
     | JInt n \<Rightarrow> if 0 \<le> n \<and> n < 2 ^ 64 then Inr (nat n) else Inl UnmarshalTypeError
     | _ \<Rightarrow> Inl UnmarshalTypeError)"

fun taskFields :: "(string \<times> json) list \<Rightarrow> uint64 \<times> uint64 \<times> RawMessage \<Rightarrow> json_error + (uint64 \<times> uint64 \<times> RawMessage)" where
  "taskFields [] t = Inr t"
| "taskFields ((k, v) # kvs) (orderId, uid, rewards) =
     (if foldName k = ''order_id'' then
        (case taskUint v orderId of Inl e \<Rightarrow> Inl e | Inr n \<Rightarrow> taskFields kvs (n, uid, rewards))
      else if foldName k = ''uid'' then
        (case taskUint v uid of Inl e \<Rightarrow> Inl e | Inr n \<Rightarrow> taskFields kvs (orderId, n, rewards))
      else if foldName k = ''rewards'' then taskFields kvs (orderId, uid, Some v)
      else taskFields kvs (orderId, uid, rewards))"

definition unmarshalTask :: "json \<Rightarrow> json_error + (uint64 \<times> uint64 \<times> RawMessage)" where
  "unmarshalTask v = (case v of
       JNull \<Rightarrow> Inr (0, 0, None)
     | JObj kvs \<Rightarrow> taskFields kvs (0, 0, None)
     | _ \<Rightarrow> Inl UnmarshalTypeError)"

lemma foldName_task: "foldName ''order_id'' = ''order_id''" "foldName ''uid'' = ''uid''" "foldName ''rewards'' = ''rewards''"
  by code_simp+

lemma unmarshal_marshalTask:
  "orderId < 2 ^ 64 \<Longrightarrow> uid < 2 ^ 64 \<Longrightarrow>
   unmarshalTask (marshalTask orderId uid rewards) = Inr (orderId, uid, Some (getOr JNull rewards))"
  by (simp add: unmarshalTask_def marshalTask_def foldName_task taskUint_def)

section \<open>External services\<close>

datatype queue_error = ErrDuplicateTask | ErrTaskIDConflict | QueueFailure

record 's pay_drv =
  od :: "'s order_drv"
  EnqueueContext :: "QTask \<Rightarrow> ('s, queue_error, unit) act"
  TryLockDefault :: "string \<Rightarrow> ('s, unit, bool) act"
  UnlockLease :: "string \<Rightarrow> ('s, unit, unit) act"
  LeaseErr :: "string \<Rightarrow> ('s, unit, unit) act"
  CtxErr :: "('s, unit, unit) act"

text \<open>\<open>Enqueue\<close> treats only \<open>ErrDuplicateTask\<close> as success.\<close>

definition Enqueue :: "'s pay_drv \<Rightarrow> QTask \<Rightarrow> ('s, queue_error, unit) act" where
  "Enqueue drv task = andThen (attempt (EnqueueContext drv task))
     (\<lambda>r. case r of
        Inl e \<Rightarrow> if e = ErrDuplicateTask then ok () else fail e
      | Inr _ \<Rightarrow> ok ())"

section \<open>Payment channels\<close>

record BuildCreateOrderParams =
  bp_OrderId :: uint64
  bp_Uid :: uint64
  bp_ProductId :: int
  bp_ThirdPartyProductId :: string

record CreateOrderExtra =
  ex_AppAccountToken :: string
  ex_ObfuscatedAccountID :: string
  ex_ObfuscatedProfileID :: string

datatype channel_error =
    ApiFailure
  | NotOneLineItem nat
  | QuantityUnsupported int
  | PayloadInvalid
  | UnknownPurchaseState string
  | UserMismatch uint64 uint64
  | ChannelStoreErr order_error
  | CallbackUnsupported

record 's PaymentChannel =
  ch_Type :: int
  ch_BuildCreateOrderExtra :: "BuildCreateOrderParams \<Rightarrow> ('s, channel_error, CreateOrderExtra) act"
  ch_QueryOrder :: "string \<Rightarrow> ('s, channel_error, ThirdPartyOrder option) act"
  ch_Complete :: "ThirdPartyOrder \<Rightarrow> ('s, channel_error, unit) act"
  ch_FindOrBind :: "uint64 \<Rightarrow> string \<Rightarrow> ThirdPartyOrder \<Rightarrow> ('s, channel_error, PaymentOrder option) act"

type_synonym 's channels = "int \<rightharpoonup> 's PaymentChannel"

definition RegisterChannel :: "'s PaymentChannel \<Rightarrow> 's channels \<Rightarrow> 's channels" where
  "RegisterChannel channel chs = chs(ch_Type channel \<mapsto> channel)"

definition GetChannel :: "'s channels \<Rightarrow> int \<Rightarrow> 's PaymentChannel option" where
  "GetChannel chs paymentType = chs paymentType"

section \<open>Lock keys\<close>

definition UserLock :: "uint64 \<Rightarrow> string" where
  "UserLock uid = ''payment:{'' @ decimal uid @ ''}:user_lock''"

definition TimeoutScanLock :: string where
  "TimeoutScanLock = ''payment:{cron}:timeout_scan_lock''"

lemma UserLock_inject [simp]: "UserLock u = UserLock v \<longleftrightarrow> u = v"
  by (simp add: UserLock_def)

lemma grantTaskID_inject [simp]: "grantTaskID i = grantTaskID j \<longleftrightarrow> i = j"
  by (simp add: grantTaskID_def)

lemma revokeTaskID_inject [simp]: "revokeTaskID i = revokeTaskID j \<longleftrightarrow> i = j"
  by (simp add: revokeTaskID_def)

lemma grant_revoke_TaskID [simp]: "grantTaskID i \<noteq> revokeTaskID j" "revokeTaskID j \<noteq> grantTaskID i"
  by (simp_all add: grantTaskID_def revokeTaskID_def)

end
