(* ===== verification/ItemsService.thy ===== *)
theory ItemsService
  imports ItemsSpec Cachex PaymentTypes
begin

text \<open>
  The item service (\<open>app/Api/items/internal/service/service.go\<close>) and its bag cache
  (\<open>internal/store/cache.go\<close>): the functions other modules call through
  \<open>app/Api/items/exported.go\<close>. A failed invalidation of the cache is logged and dropped.
\<close>

section \<open>The bag cache\<close>

record BagItem =
  bi_BagId :: int
  bi_ItemTypeId :: int
  bi_Quantity :: int
  bi_ExpireAtUnix :: int

definition UserItemVersion :: "uint64 \<Rightarrow> string" where
  "UserItemVersion uid = ''item:bag:ver:{'' @ decimal uid @ ''}''"

lemma UserItemVersion_inject [simp]: "UserItemVersion u = UserItemVersion v \<longleftrightarrow> u = v"
  by (simp add: UserItemVersion_def)

definition bagEntry :: "Item \<Rightarrow> BagItem" where
  "bagEntry item = \<lparr>bi_BagId = it_ID item, bi_ItemTypeId = it_ItemID item,
     bi_Quantity = wrap64 (it_Count item - it_UsedCount item), bi_ExpireAtUnix = it_ExpireAtUnix item\<rparr>"

definition loadBag :: "'s item_drv \<Rightarrow> uint64 \<Rightarrow> ('s, ent_error, BagItem list) act" where
  "loadBag drv key = andThen (GetItems drv key) (\<lambda>itemRows. ok (map bagEntry itemRows))"

type_synonym 's bag_cache = "('s, uint64, BagItem list, ent_error) VersionedCache"

definition initCache :: "'s item_drv \<Rightarrow> ('s, uint64, BagItem list) cache_drv \<Rightarrow> 's bag_cache" where
  "initCache drv cdrv = NewVersionedCache cdrv UserItemVersion (loadBag drv) []"

section \<open>The service\<close>

definition svc_AddItem ::
  "'s item_drv \<Rightarrow> 's bag_cache \<Rightarrow> uint64 \<Rightarrow> int \<Rightarrow> int \<Rightarrow> int \<Rightarrow> gotime \<Rightarrow> ('s, Error, int) act" where
  "svc_AddItem drv bagItemCache uid stackMode itemTypeId cnt expireAt =
     andThen (mapErr (\<lambda>_. InternalServerError MsgAddItem) (AddItem drv uid stackMode itemTypeId cnt expireAt)) (\<lambda>ret.
     andThen (attempt (Invalidate bagItemCache uid)) (\<lambda>_. ok ret))"

definition svc_GetItemWithCache :: "'s bag_cache \<Rightarrow> uint64 \<Rightarrow> ('s, Error, BagItem list) act" where
  "svc_GetItemWithCache bagItemCache uid =
     mapErr (\<lambda>_. InternalServerError MsgBagCache) (Get bagItemCache uid)"

definition svc_AddItems ::
  "'s item_drv \<Rightarrow> 's bag_cache \<Rightarrow> (int \<rightharpoonup> ItemConfig) \<Rightarrow> uint64 \<Rightarrow> string \<Rightarrow> Reward option list
   \<Rightarrow> ('s, Error, unit) act" where
  "svc_AddItems drv bagItemCache cfg uid nonce rewards =
     andThen (mapErr (\<lambda>_. InternalServerError MsgGrantItems) (AddItems drv cfg uid nonce rewards)) (\<lambda>_.
     andThen (attempt (Invalidate bagItemCache uid)) (\<lambda>_. ok ()))"

definition svc_RevokeItems ::
  "'s item_drv \<Rightarrow> 's bag_cache \<Rightarrow> uint64 \<Rightarrow> string \<Rightarrow> string \<Rightarrow> Reward option list \<Rightarrow> ('s, Error, unit) act" where
  "svc_RevokeItems drv bagItemCache uid grantNonce revokeNonce rewards =
     andThen (mapErr (\<lambda>_. InternalServerError MsgRevokeItems) (RevokeItems drv uid grantNonce revokeNonce rewards)) (\<lambda>_.
     andThen (attempt (Invalidate bagItemCache uid)) (\<lambda>_. ok ()))"

section \<open>The contract of the service\<close>

locale item_service = item_db mf drv com cur
  for mf :: bool and drv :: "'s item_drv" and com cur :: "'s \<Rightarrow> item_tables" +
  fixes bag :: "'s bag_cache"
  assumes invalidate_law: "com (snd (Invalidate bag uid s)) = com s"
begin

lemma wp_invalidate: "(\<And>r t. com t = com s \<Longrightarrow> Q r t) \<Longrightarrow> wp (attempt (Invalidate bag uid)) Q E s"
  using invalidate_law [of uid s] by (auto simp: wp_def attempt_def split: prod.splits)

lemma wp_svc_AddItems:
  assumes good: "goodTables (com s)"
  shows "wp (svc_AddItems drv bag cfg uid nonce rewards)
     (\<lambda>_ t. addedOnce cfg uid nonce rewards (com s) (com t))
     (\<lambda>e t. addFailed mf cfg uid nonce rewards (com s) (com t)) s"
  unfolding svc_AddItems_def wp_simps
  by (rule wp_mono [OF wp_AddItems [OF good]]) (auto intro!: wp_invalidate [unfolded wp_attempt])

lemma wp_svc_RevokeItems:
  assumes "goodTables (com s)" "countsFit (tb_items (com s))" "rewardsFit rewards"
  shows "wp (svc_RevokeItems drv bag uid grantNonce revokeNonce rewards)
     (\<lambda>_ t. revokedOnce uid grantNonce revokeNonce rewards (com s) (com t))
     (\<lambda>_ t. \<exists>e. revokeFailed mf uid grantNonce revokeNonce rewards e (com s) (com t)) s"
  unfolding svc_RevokeItems_def wp_simps
  by (rule wp_mono [OF wp_RevokeItems [OF assms]]) (auto intro!: wp_invalidate [unfolded wp_attempt])

lemma wp_svc_AddItem:
  assumes "goodTables (com s)" and "stackMode \<noteq> StackModeTime"
  shows "wp (svc_AddItem drv bag uid stackMode i n expireAt)
     (\<lambda>_ t. bagAdd uid i (max 0 n) (tb_items (com s)) (tb_items (com t)) \<and> goodTables (com t))
     (\<lambda>_ t. mf) s"
  unfolding svc_AddItem_def wp_simps
  by (rule wp_mono [OF wp_AddItem [OF assms(1)]])
     (use assms(2) in \<open>auto intro!: wp_invalidate [unfolded wp_attempt]\<close>)

end

end
