(* ===== verification/PaymentService.thy ===== *)
theory PaymentService
  imports PaymentTypes ItemsService
begin

text \<open>
  The payment service, \<open>app/Api/payment/internal/service\<close>: the reward and refund pipeline
  (\<open>pipeline.go\<close>), the status table (\<open>order_process.go\<close>), creating an order and uploading a
  receipt (\<open>service.go\<close>), the scan of expired orders (\<open>order_cron.go\<close>) and the two asynchronous
  tasks (\<open>task.go\<close>). Logging is left out. A Go result pair \<open>(value, error)\<close> is the error when there is
  one: no caller looks at the value then.
\<close>

datatype OrderProcessResult = OrderProcessWaiting | OrderProcessPurchased | OrderProcessCancelled

definition defaultCurrency :: string where "defaultCurrency = ''CNY''"

section \<open>Pipeline\<close>

definition stepGrantRewards ::
  "'s pay_drv \<Rightarrow> (int \<rightharpoonup> Product) \<Rightarrow> PaymentOrder \<Rightarrow> ('s, Error, unit) act" where
  "stepGrantRewards drv products row =
     (case GetProduct products (po_ProductID row) of
        None \<Rightarrow> fail (InternalServerError MsgNoProductConfig)
      | Some product \<Rightarrow>
          let rewards = Some (marshalRewards (pd_Rewards product)) in
          andThen (mapErr (\<lambda>_. InternalServerError MsgUpdateRewards)
                    (UpdateOrderRewards (od drv) (po_ID row) rewards)) (\<lambda>_.
          mapErr (\<lambda>_. InternalServerError MsgEnqueueGrant)
            (Enqueue drv (newGrantTask \<lparr>gt_OrderId = po_ID row, gt_Uid = po_UID row, gt_Rewards = rewards\<rparr>))))"

definition stepRevokeRewards :: "'s pay_drv \<Rightarrow> PaymentOrder \<Rightarrow> ('s, Error, unit) act" where
  "stepRevokeRewards drv row =
     mapErr (\<lambda>_. InternalServerError MsgEnqueueRevoke)
       (Enqueue drv (newRevokeTask \<lparr>rt_OrderId = po_ID row, rt_Uid = po_UID row, rt_Rewards = po_Rewards row\<rparr>))"

definition stepComplete :: "'s PaymentChannel \<Rightarrow> ThirdPartyOrder \<Rightarrow> ('s, Error, unit) act" where
  "stepComplete channel tp = mapErr (\<lambda>_. InternalServerError MsgComplete) (ch_Complete channel tp)"

definition purchaseOrderWithoutLock ::
  "'s pay_drv \<Rightarrow> (int \<rightharpoonup> Product) \<Rightarrow> 's PaymentChannel \<Rightarrow> PaymentOrder \<Rightarrow> ThirdPartyOrder
   \<Rightarrow> ('s, Error, OrderProcessResult) act" where
  "purchaseOrderWithoutLock drv products channel row tp =
     andThen (stepGrantRewards drv products row) (\<lambda>_.
     andThen (mapErr (\<lambda>_. InternalServerError MsgMarkPurchased) (MarkOrderPurchased (od drv) (po_ID row) tp)) (\<lambda>_.
     andThen (stepComplete channel tp) (\<lambda>_. ok OrderProcessPurchased)))"

definition cancelOrderWithoutLock ::
  "'s pay_drv \<Rightarrow> PaymentOrder \<Rightarrow> ThirdPartyOrder \<Rightarrow> ('s, Error, OrderProcessResult) act" where
  "cancelOrderWithoutLock drv row tp =
     andThen (mapErr (\<lambda>_. InternalServerError MsgMarkCancelled) (MarkOrderCancelled (od drv) (po_ID row) tp))
       (\<lambda>_. ok OrderProcessCancelled)"

definition revokeOrderWithoutLock ::
  "'s pay_drv \<Rightarrow> PaymentOrder \<Rightarrow> ThirdPartyOrder \<Rightarrow> ('s, Error, OrderProcessResult) act" where
  "revokeOrderWithoutLock drv row tp =
     andThen (stepRevokeRewards drv row) (\<lambda>_.
     andThen (mapErr (\<lambda>_. InternalServerError MsgMarkRefunded) (MarkOrderRefunded (od drv) (po_ID row) tp))
       (\<lambda>_. ok OrderProcessCancelled))"

section \<open>The status table\<close>

definition ProcessOrderWithoutLock ::
  "'s pay_drv \<Rightarrow> (int \<rightharpoonup> Product) \<Rightarrow> 's PaymentChannel \<Rightarrow> PaymentOrder \<Rightarrow> ThirdPartyOrder
   \<Rightarrow> ('s, Error, OrderProcessResult) act" where
  "ProcessOrderWithoutLock drv products channel row tp =
     (if po_Status row = OrderStatusPending then
        (if tp_Status tp = ThirdPartyOrderStatusPending then ok OrderProcessWaiting
         else if tp_Status tp = ThirdPartyOrderStatusPurchased then purchaseOrderWithoutLock drv products channel row tp
         else if tp_Status tp = ThirdPartyOrderStatusCancelled then cancelOrderWithoutLock drv row tp
         else fail (InternalServerError MsgThirdPartyStatus))
      else if po_Status row = OrderStatusPurchased then
        (if tp_Status tp = ThirdPartyOrderStatusPending then ok OrderProcessPurchased
         else if tp_Status tp = ThirdPartyOrderStatusPurchased then
           andThen (stepComplete channel tp) (\<lambda>_. ok OrderProcessPurchased)
         else if tp_Status tp = ThirdPartyOrderStatusCancelled then revokeOrderWithoutLock drv row tp
         else fail (InternalServerError MsgThirdPartyStatus))
      else if po_Status row = OrderStatusCancelled then
        (if tp_Status tp = ThirdPartyOrderStatusPending then ok OrderProcessCancelled
         else if tp_Status tp = ThirdPartyOrderStatusPurchased then
           (if po_CancelReason row \<noteq> CancelReasonTimeout then fail (BadRequest MsgOrderCancelled)
            else purchaseOrderWithoutLock drv products channel row tp)
         else if tp_Status tp = ThirdPartyOrderStatusCancelled then ok OrderProcessCancelled
         else fail (InternalServerError MsgThirdPartyStatus))
      else fail (InternalServerError MsgInternalStatus))"

section \<open>Creating an order\<close>

record CreateOrderReq =
  cr_ProductId :: int
  cr_PaymentType :: int

record CreateOrderRsp =
  rs_OrderId :: uint64
  rs_ProductId :: int
  rs_ThirdPartyProductId :: string
  rs_Extra :: CreateOrderExtra

record UploadReceiptReq =
  ur_PaymentType :: int
  ur_Credential :: string

definition findOrCreateOrderWithoutLock ::
  "'s pay_drv \<Rightarrow> uint64 \<Rightarrow> CreateOrderReq \<Rightarrow> Product \<Rightarrow> string \<Rightarrow> Price \<Rightarrow> ('s, Error, PaymentOrder) act" where
  "findOrCreateOrderWithoutLock drv uid req product thirdPartyProductId price =
     andThen (mapErr (\<lambda>_. InternalServerError MsgCreateOrderFailed)
       (FindPendingOrder (od drv) uid (cr_PaymentType req) (cr_ProductId req))) (\<lambda>found.
       case found of
         Some row \<Rightarrow> ok row
       | None \<Rightarrow>
           let rewards = (case pd_Rewards product of None \<Rightarrow> None | Some rs \<Rightarrow> Some (marshalRewards (Some rs))) in
           mapErr (\<lambda>_. InternalServerError MsgCreateOrderFailed) (CreateOrder (od drv)
             \<lparr>cp_Uid = uid, cp_ProductId = cr_ProductId req, cp_ThirdPartyProductId = thirdPartyProductId,
              cp_PaymentType = cr_PaymentType req, cp_AmountUnit = pr_AmountUnit price,
              cp_AmountNanos = pr_AmountNanos price, cp_Currency = defaultCurrency, cp_Rewards = rewards\<rparr>))"

definition CreateOrderWithoutLock ::
  "'s pay_drv \<Rightarrow> 's channels \<Rightarrow> (int \<rightharpoonup> Product) \<Rightarrow> uint64 \<Rightarrow> CreateOrderReq \<Rightarrow> ('s, Error, CreateOrderRsp) act" where
  "CreateOrderWithoutLock drv chs products uid req =
     (case GetChannel chs (cr_PaymentType req) of
        None \<Rightarrow> fail (BadRequest MsgUnsupportedChannel)
      | Some channel \<Rightarrow>
     (case GetProduct products (cr_ProductId req) of
        None \<Rightarrow> fail (BadRequest MsgNoProduct)
      | Some product \<Rightarrow>
     (let thirdPartyProductId = getOr '''' (pd_ThirdPartyProductId product (cr_PaymentType req)) in
      if thirdPartyProductId = '''' then fail (BadRequest MsgProductNotOnChannel)
      else
     (case pd_PriceMap product defaultCurrency of
        None \<Rightarrow> fail (BadRequest MsgNoPrice)
      | Some price \<Rightarrow>
          andThen (findOrCreateOrderWithoutLock drv uid req product thirdPartyProductId price) (\<lambda>row.
          andThen (mapErr (\<lambda>_. InternalServerError MsgCreateOrderFailed)
            (ch_BuildCreateOrderExtra channel \<lparr>bp_OrderId = po_ID row, bp_Uid = uid,
               bp_ProductId = po_ProductID row, bp_ThirdPartyProductId = po_ThirdPartyProductID row\<rparr>)) (\<lambda>extra.
          ok \<lparr>rs_OrderId = po_ID row, rs_ProductId = po_ProductID row,
              rs_ThirdPartyProductId = po_ThirdPartyProductID row, rs_Extra = extra\<rparr>))))))"

section \<open>Uploading a receipt\<close>

definition UploadReceiptWithoutLock ::
  "'s pay_drv \<Rightarrow> 's channels \<Rightarrow> (int \<rightharpoonup> Product) \<Rightarrow> uint64 \<Rightarrow> UploadReceiptReq \<Rightarrow> ('s, Error, unit) act" where
  "UploadReceiptWithoutLock drv chs products uid req =
     (case GetChannel chs (ur_PaymentType req) of
        None \<Rightarrow> fail (BadRequest MsgUnsupportedChannel)
      | Some channel \<Rightarrow>
          andThen (mapErr (\<lambda>_. InternalServerError MsgQueryOrderFailed) (ch_QueryOrder channel (ur_Credential req))) (\<lambda>info.
          case info of
            None \<Rightarrow> fail (BadRequest MsgNoThirdPartyOrder)
          | Some tp \<Rightarrow>
              andThen (mapErr (\<lambda>_. InternalServerError MsgBindFailed)
                (ch_FindOrBind channel uid (ur_Credential req) tp)) (\<lambda>bound.
              case bound of
                None \<Rightarrow> fail (BadRequest MsgNoOrder)
              | Some row \<Rightarrow>
                  if tp_ProductId tp = '''' \<or> tp_ProductId tp \<noteq> po_ThirdPartyProductID row
                  then fail (BadRequest MsgProductMismatch)
                  else andThen (ProcessOrderWithoutLock drv products channel row tp) (\<lambda>result.
                    if result = OrderProcessWaiting then fail (BadRequest MsgNotPaidYet) else ok ()))))"

section \<open>Expired orders\<close>

definition pendingOrderTimeout :: duration where "pendingOrderTimeout = 15 * Minute"
definition expiredOrderBatch :: nat where "expiredOrderBatch = 100"

definition addRetryTimes :: "'s pay_drv \<Rightarrow> uint64 \<Rightarrow> ('s, unit, unit) act" where
  "addRetryTimes drv orderId = andThen (attempt (AddRetryTimes (od drv) orderId)) (\<lambda>_. ok ())"

definition settleExpiredOrder ::
  "'s pay_drv \<Rightarrow> 's channels \<Rightarrow> (int \<rightharpoonup> Product) \<Rightarrow> uint64 \<Rightarrow> PaymentOrder \<Rightarrow> string \<Rightarrow> int \<Rightarrow> ('s, unit, unit) act" where
  "settleExpiredOrder drv chs products orderId current credential expiredAtUnix =
     (case GetChannel chs (po_PaymentType current) of
        None \<Rightarrow> addRetryTimes drv (po_ID current)
      | Some channel \<Rightarrow>
          andThen (attempt (ch_QueryOrder channel credential)) (\<lambda>queried.
          case queried of
            Inl _ \<Rightarrow> addRetryTimes drv (po_ID current)
          | Inr None \<Rightarrow> addRetryTimes drv (po_ID current)
          | Inr (Some tp) \<Rightarrow>
              andThen (attempt (ch_FindOrBind channel (po_UID current) credential tp)) (\<lambda>bound.
              case bound of
                Inl _ \<Rightarrow> addRetryTimes drv orderId
              | Inr None \<Rightarrow> addRetryTimes drv orderId
              | Inr (Some row) \<Rightarrow>
                  if tp_ProductId tp = '''' \<or> tp_ProductId tp \<noteq> po_ThirdPartyProductID row
                  then addRetryTimes drv (po_ID row)
                  else andThen (attempt (ProcessOrderWithoutLock drv products channel row tp)) (\<lambda>result.
                    case result of
                      Inl _ \<Rightarrow> addRetryTimes drv (po_ID row)
                    | Inr res \<Rightarrow>
                        if res \<noteq> OrderProcessWaiting then ok ()
                        else andThen (attempt (MarkOrderTimeout (od drv) (po_ID row) expiredAtUnix)) (\<lambda>_. ok ())))))"

definition closeExpiredOrder ::
  "'s pay_drv \<Rightarrow> 's channels \<Rightarrow> (int \<rightharpoonup> Product) \<Rightarrow> uint64 \<Rightarrow> int \<Rightarrow> ('s, unit, unit) act" where
  "closeExpiredOrder drv chs products orderId expiredAtUnix =
     andThen (attempt (GetExpiredPendingOrder (od drv) orderId expiredAtUnix)) (\<lambda>r.
     case r of
       Inl _ \<Rightarrow> ok ()
     | Inr None \<Rightarrow> ok ()
     | Inr (Some current) \<Rightarrow>
         (if po_Credential current = None \<or> po_Credential current = Some ''''
          then andThen (attempt (MarkOrderTimeout (od drv) (po_ID current) expiredAtUnix)) (\<lambda>_. ok ())
          else settleExpiredOrder drv chs products orderId current (the (po_Credential current)) expiredAtUnix))"

definition processExpiredPendingOrder ::
  "'s pay_drv \<Rightarrow> 's channels \<Rightarrow> (int \<rightharpoonup> Product) \<Rightarrow> PaymentOrder \<Rightarrow> int \<Rightarrow> ('s, unit, unit) act" where
  "processExpiredPendingOrder drv chs products row expiredAtUnix =
     andThen (attempt (TryLockDefault drv (UserLock (po_UID row)))) (\<lambda>r.
     case r of
       Inl _ \<Rightarrow> ok ()
     | Inr locked \<Rightarrow>
         if \<not> locked then ok ()
         else deferred (closeExpiredOrder drv chs products (po_ID row) expiredAtUnix)
                (UnlockLease drv (UserLock (po_UID row))))"

definition payNow :: "'s pay_drv \<Rightarrow> ('s, 'e, gotime) act" where
  "payNow drv s = (case OrderClock (od drv) s of (t, s') \<Rightarrow> (Inr t, s'))"

definition scanExpiredOrders ::
  "'s pay_drv \<Rightarrow> 's channels \<Rightarrow> (int \<rightharpoonup> Product) \<Rightarrow> ('s, Error, unit) act" where
  "scanExpiredOrders drv chs products =
     andThen (payNow drv) (\<lambda>now.
     let expiredAtUnix = UnixSec (now - pendingOrderTimeout) in
     andThen (mapErr (\<lambda>_. InternalServerError MsgScanQuery)
       (FindExpiredPendingOrders (od drv) expiredAtUnix expiredOrderBatch)) (\<lambda>rows.
     forEach rows (\<lambda>row.
       andThen (mapErr (\<lambda>_. InternalServerError MsgScanInterrupted) (CtxErr drv)) (\<lambda>_.
       andThen (mapErr (\<lambda>_. InternalServerError MsgScanLockLost) (LeaseErr drv TimeoutScanLock)) (\<lambda>_.
       andThen (attempt (processExpiredPendingOrder drv chs products row expiredAtUnix)) (\<lambda>_. ok ()))))))"

definition CheckExpiredPendingOrders ::
  "'s pay_drv \<Rightarrow> 's channels \<Rightarrow> (int \<rightharpoonup> Product) \<Rightarrow> ('s, Error, unit) act" where
  "CheckExpiredPendingOrders drv chs products =
     andThen (mapErr (\<lambda>_. InternalServerError MsgScanLock) (TryLockDefault drv TimeoutScanLock)) (\<lambda>locked.
       if \<not> locked then ok ()
       else deferred (scanExpiredOrders drv chs products) (UnlockLease drv TimeoutScanLock))"

section \<open>Tasks\<close>

definition grantNonce :: "uint64 \<Rightarrow> string" where
  "grantNonce orderId = map char_of [232, 174, 162, 229, 141, 149, 229, 143, 145, 232, 180, 167, 45 :: nat] @ decimal orderId"

definition revokeNonce :: "uint64 \<Rightarrow> string" where
  "revokeNonce orderId = map char_of [232, 174, 162, 229, 141, 149, 233, 128, 128, 230, 172, 190, 45 :: nat] @ decimal orderId"

datatype task_error = TaskDecode | TaskItems Error | SkipRetry | NoHandler

definition taskRewards :: "RawMessage \<Rightarrow> task_error + Reward option list" where
  "taskRewards raw = (case raw of None \<Rightarrow> Inr []
     | Some v \<Rightarrow> (case unmarshalRewards v of Inl _ \<Rightarrow> Inl TaskDecode | Inr rs \<Rightarrow> Inr rs))"

definition processGrantTask ::
  "'s item_drv \<Rightarrow> 's bag_cache \<Rightarrow> (int \<rightharpoonup> ItemConfig) \<Rightarrow> GrantTask \<Rightarrow> ('s, task_error, unit) act" where
  "processGrantTask drv bag cfg task =
     (case taskRewards (gt_Rewards task) of
        Inl e \<Rightarrow> fail e
      | Inr rewards \<Rightarrow> mapErr TaskItems
          (svc_AddItems drv bag cfg (gt_Uid task) (grantNonce (gt_OrderId task)) rewards))"

definition processRevokeTask ::
  "'s item_drv \<Rightarrow> 's bag_cache \<Rightarrow> RevokeTask \<Rightarrow> ('s, task_error, unit) act" where
  "processRevokeTask drv bag task =
     (case taskRewards (rt_Rewards task) of
        Inl e \<Rightarrow> fail e
      | Inr rewards \<Rightarrow> mapErr TaskItems
          (svc_RevokeItems drv bag (rt_Uid task) (grantNonce (rt_OrderId task)) (revokeNonce (rt_OrderId task)) rewards))"

text \<open>The handlers that \<open>RegisterTasks\<close> registers: they decode the payload, and a payload that does not decode is not retried.\<close>

definition runTask ::
  "'s item_drv \<Rightarrow> 's bag_cache \<Rightarrow> (int \<rightharpoonup> ItemConfig) \<Rightarrow> QTask \<Rightarrow> ('s, task_error, unit) act" where
  "runTask drv bag cfg task =
     (if qt_Type task = grantTaskType then
        (case unmarshalTask (qt_Payload task) of
           Inl _ \<Rightarrow> fail SkipRetry
         | Inr (orderId, uid, rewards) \<Rightarrow>
             processGrantTask drv bag cfg \<lparr>gt_OrderId = orderId, gt_Uid = uid, gt_Rewards = rewards\<rparr>)
      else if qt_Type task = revokeTaskType then
        (case unmarshalTask (qt_Payload task) of
           Inl _ \<Rightarrow> fail SkipRetry
         | Inr (orderId, uid, rewards) \<Rightarrow>
             processRevokeTask drv bag \<lparr>rt_OrderId = orderId, rt_Uid = uid, rt_Rewards = rewards\<rparr>)
      else fail NoHandler)"

definition grantTaskRetryDelay :: "(int \<Rightarrow> duration) \<Rightarrow> int \<Rightarrow> duration" where
  "grantTaskRetryDelay defaultDelay retryCount =
     (let delay = defaultDelay retryCount in if 5 * Minute < delay then 5 * Minute else delay)"

definition revokeTaskRetryDelay :: "(int \<Rightarrow> duration) \<Rightarrow> int \<Rightarrow> duration" where
  "revokeTaskRetryDelay defaultDelay retryCount =
     (let delay = defaultDelay retryCount in if 5 * Minute < delay then 5 * Minute else delay)"

lemma grantNonce_inject [simp]: "grantNonce i = grantNonce j \<longleftrightarrow> i = j"
  by (simp add: grantNonce_def)

lemma revokeNonce_inject [simp]: "revokeNonce i = revokeNonce j \<longleftrightarrow> i = j"
  by (simp add: revokeNonce_def)

end
