(* ===== verification/PaymentLaws.thy ===== *)
theory PaymentLaws
  imports PaymentService
begin

text \<open>
  The life of a payment order. \<open>order_env\<close> states what is documented of the services the
  payment code calls: the order table with its unique indexes, the clock, the task queue and
  the locks. \<open>ords\<close> is the content of the order table, \<open>hist\<close> the list of all tasks the queue ever
  accepted. The order of one player is only worked on under the player's lock, so an operation
  runs without interference on the rows it touches.
\<close>

section \<open>States of an order\<close>

datatype order_state = Pending | TimedOut | Purchased | Refunded | Corrupt

definition stateOf :: "PaymentOrder \<Rightarrow> order_state" where
  "stateOf r = (if po_Status r = OrderStatusPending then Pending
     else if po_Status r = OrderStatusPurchased then Purchased
     else if po_Status r = OrderStatusCancelled then
       (if po_CancelReason r = CancelReasonTimeout then TimedOut
        else if po_CancelReason r = CancelReasonRefund then Refunded else Corrupt)
     else Corrupt)"

inductive order_step :: "order_state \<Rightarrow> order_state \<Rightarrow> bool" where
  pay: "order_step Pending Purchased"
| expire: "order_step Pending TimedOut"
| cancel: "order_step Pending Refunded"
| recover: "order_step TimedOut Purchased"
| refund: "order_step Purchased Refunded"

inductive_simps order_step_simps: "order_step a b"

text \<open>The part of a row that never changes, and the two bindings that are set at most once.\<close>

definition sameOrder :: "PaymentOrder \<Rightarrow> PaymentOrder \<Rightarrow> bool" where
  "sameOrder a b \<longleftrightarrow> po_ID b = po_ID a \<and> po_UID b = po_UID a \<and> po_ProductID b = po_ProductID a
     \<and> po_ThirdPartyProductID b = po_ThirdPartyProductID a \<and> po_PaymentType b = po_PaymentType a
     \<and> po_OrderAmountUnit b = po_OrderAmountUnit a \<and> po_OrderAmountNanos b = po_OrderAmountNanos a
     \<and> po_OrderCurrency b = po_OrderCurrency a \<and> po_CreateAtUnix b = po_CreateAtUnix a"

definition bindsOnce :: "PaymentOrder \<Rightarrow> PaymentOrder \<Rightarrow> bool" where
  "bindsOnce a b \<longleftrightarrow> (po_CredentialHash a \<noteq> None \<longrightarrow> po_CredentialHash b = po_CredentialHash a)
     \<and> (po_ThirdPartyOrderID a \<noteq> None \<longrightarrow> po_ThirdPartyOrderID b = po_ThirdPartyOrderID a)"

definition evolves :: "PaymentOrder \<Rightarrow> PaymentOrder \<Rightarrow> bool" where
  "evolves a b \<longleftrightarrow> sameOrder a b \<and> bindsOnce a b \<and> order_step\<^sup>*\<^sup>* (stateOf a) (stateOf b)"

lemma evolves_refl [simp]: "evolves a a"
  by (simp add: evolves_def sameOrder_def bindsOnce_def)

lemma evolves_trans: "evolves a b \<Longrightarrow> evolves b c \<Longrightarrow> evolves a c"
  unfolding evolves_def sameOrder_def bindsOnce_def by (auto intro: rtranclp_trans)

lemma list_all2_evolves_refl [simp]: "list_all2 evolves xs xs"
  by (simp add: list_all2_refl)

lemma steps_from_Pending: "order_step\<^sup>*\<^sup>* a b \<Longrightarrow> b = Pending \<Longrightarrow> a = Pending"
  by (induction rule: rtranclp_induct) (auto simp: order_step_simps)

text \<open>
  \<open>ordersEvolve\<close> is one operation on the table: every row moves forward and none is added or lost.
  \<open>ordersGrow\<close> also allows new rows at the end, as creating an order adds them.
\<close>

definition ordersEvolve :: "PaymentOrder list \<Rightarrow> PaymentOrder list \<Rightarrow> bool" where
  "ordersEvolve xs ys \<longleftrightarrow> list_all2 evolves xs ys"

definition ordersGrow :: "PaymentOrder list \<Rightarrow> PaymentOrder list \<Rightarrow> bool" where
  "ordersGrow xs ys \<longleftrightarrow> (\<exists>ys' new. ys = ys' @ new \<and> ordersEvolve xs ys')"

lemma ordersEvolve_refl [simp]: "ordersEvolve xs xs"
  by (simp add: ordersEvolve_def)

lemma ordersEvolve_trans:
  assumes "ordersEvolve xs ys" and "ordersEvolve ys zs"
  shows "ordersEvolve xs zs"
  using assms list_all2_trans [of evolves evolves evolves] evolves_trans unfolding ordersEvolve_def by blast

lemma ordersEvolve_grow: "ordersEvolve xs ys \<Longrightarrow> ordersGrow xs ys"
  unfolding ordersGrow_def by (intro exI [of _ ys] exI [of _ "[]"]) simp

lemma ordersGrow_snoc: "ordersGrow xs (xs @ [r])"
  unfolding ordersGrow_def by (intro exI [of _ xs] exI [of _ "[r]"]) simp

lemma ordersGrow_trans:
  assumes "ordersGrow xs ys" and "ordersGrow ys zs"
  shows "ordersGrow xs zs"
proof -
  obtain ys' new where ys: "ys = ys' @ new" "ordersEvolve xs ys'" using assms(1) by (auto simp: ordersGrow_def)
  obtain zs' new' where zs: "zs = zs' @ new'" "ordersEvolve ys zs'" using assms(2) by (auto simp: ordersGrow_def)
  obtain z1 z2 where z: "zs' = z1 @ z2" "ordersEvolve ys' z1"
    using zs(2) unfolding ys(1) ordersEvolve_def list_all2_append1 by blast
  have "ordersEvolve xs z1" using ordersEvolve_trans ys(2) z(2) by blast
  with zs(1) z(1) show ?thesis unfolding ordersGrow_def by (metis append.assoc)
qed

lemma ordersGrow_find:
  assumes "ordersGrow xs ys" and "r \<in> set xs"
  shows "\<exists>r' \<in> set ys. evolves r r'"
proof -
  obtain ys' new where ys: "ys = ys' @ new" "list_all2 evolves xs ys'"
    using assms(1) by (auto simp: ordersGrow_def ordersEvolve_def)
  obtain i where i: "i < length xs" "r = xs ! i" using assms(2) by (metis in_set_conv_nth)
  then have "evolves r (ys' ! i)" "ys' ! i \<in> set ys'" using ys(2) by (auto simp: list_all2_conv_all_nth)
  with ys(1) show ?thesis by auto
qed

lemma ordersEvolve_map:
  assumes "\<And>r. r \<in> set xs \<Longrightarrow> evolves r (f r)"
  shows "ordersEvolve xs (map f xs)"
  unfolding ordersEvolve_def using assms by (simp add: list_all2_conv_all_nth)

lemma ordersEvolve_updated:
  assumes "\<And>r. r \<in> set xs \<Longrightarrow> p r \<Longrightarrow> evolves r (f r)"
  shows "ordersEvolve xs (updated p f xs)"
  unfolding updated_def by (rule ordersEvolve_map) (use assms in auto)

section \<open>What the payment code relies on\<close>

locale order_env =
  ord: node_table mf "Orders (od drv)" ords "\<lambda>s t. hist t = hist s" "\<lambda>s t. hist t = hist s \<and> ords t = ords s"
    po_ID setOrderID orderConflict
  for mf :: bool and drv :: "'s pay_drv" and ords :: "'s \<Rightarrow> PaymentOrder list" and hist :: "'s \<Rightarrow> QTask list" +
  assumes order_clock_law: "OrderClock (od drv) s = (t, s') \<Longrightarrow> ords s' = ords s \<and> hist s' = hist s"
    and enqueue_law:
      "wp (EnqueueContext drv task)
         (\<lambda>_ t. ords t = ords s \<and> hist t = hist s @ [task])
         (\<lambda>e t. ords t = ords s \<and> (case e of
              ErrDuplicateTask \<Rightarrow> False
            | ErrTaskIDConflict \<Rightarrow> hist t = hist s \<and> (\<exists>x \<in> set (hist s). qt_TaskID x = qt_TaskID task)
            | QueueFailure \<Rightarrow> mf \<and> (hist t = hist s \<or> hist t = hist s @ [task]))) s"
    and try_lock_law: "ords (snd (TryLockDefault drv k s)) = ords s \<and> hist (snd (TryLockDefault drv k s)) = hist s"
    and unlock_law: "ords (snd (UnlockLease drv k s)) = ords s \<and> hist (snd (UnlockLease drv k s)) = hist s"
    and lease_law: "ords (snd (LeaseErr drv k s)) = ords s \<and> hist (snd (LeaseErr drv k s)) = hist s"
    and ctx_law: "ords (snd (CtxErr drv s)) = ords s \<and> hist (snd (CtxErr drv s)) = hist s"

definition goodOrders :: "PaymentOrder list \<Rightarrow> bool" where
  "goodOrders rows \<longleftrightarrow> uniq po_ID orderConflict rows"

context order_env
begin

lemma wp_orderNow:
  assumes "\<And>n t. ords t = ords s \<Longrightarrow> hist t = hist s \<Longrightarrow> Q n t"
  shows "wp (orderNow (od drv)) Q E s"
  using assms order_clock_law [of s] by (auto simp: wp_def orderNow_def split: prod.splits)

lemma wp_UpdateOrders:
  assumes "\<And>n now t. hist t = hist s \<Longrightarrow>
      ords t = updated (matches ps) (PaymentOrderUpdate_spec (PaymentOrderUpdate_defaults now m)) (ords s) \<Longrightarrow>
      goodOrders (ords t) \<Longrightarrow> n \<le> length (filter (matches ps) (ords s)) \<Longrightarrow> 
      length (filter (\<lambda>r. matches ps r \<and> PaymentOrderUpdate_spec (PaymentOrderUpdate_defaults now m) r \<noteq> r) (ords s)) \<le> n \<Longrightarrow> Q n t"
    and "\<And>now t. hist t = hist s \<Longrightarrow> ords t = ords s \<Longrightarrow>
      \<not> goodOrders (updated (matches ps) (PaymentOrderUpdate_spec (PaymentOrderUpdate_defaults now m)) (ords s)) \<Longrightarrow>
      E ConstraintError t"
    and "\<And>e t. mf \<Longrightarrow> hist t = hist s \<Longrightarrow> ords t = ords s \<Longrightarrow> E e t"
  shows "wp (PaymentOrderUpdate_Save (od drv) ps m) Q E s"
  unfolding PaymentOrderUpdate_Save_def wp_simps
proof (intro wp_orderNow ord.wp_Update, goal_cases)
  case (1 n t1 k t)
  then show ?case using assms(1) [of t n k] by (simp add: goodOrders_def)
next
  case (2 n t1 t)
  then show ?case using assms(2) [of t n] by (simp add: goodOrders_def)
next
  case (3 n t1 e t)
  then show ?case using assms(3) by simp
qed

end

lemma spec_simps [simp]:
  "sameOrder r (PaymentOrderUpdate_spec m r)"
  "po_Status (PaymentOrderUpdate_spec m r) = getOr (po_Status r) (om_status m)"
  "po_CancelReason (PaymentOrderUpdate_spec m r) = getOr (po_CancelReason r) (om_cancel_reason m)"
  "po_Rewards (PaymentOrderUpdate_spec m r) = getOr (po_Rewards r) (om_rewards m)"
  "po_ID (PaymentOrderUpdate_spec m r) = po_ID r"
  "po_UID (PaymentOrderUpdate_spec m r) = po_UID r"
  "po_CreateAtUnix (PaymentOrderUpdate_spec m r) = po_CreateAtUnix r"
  by (simp_all add: sameOrder_def PaymentOrderUpdate_spec_def)

lemma defaults_simps [simp]:
  "om_status (PaymentOrderUpdate_defaults now m) = om_status m"
  "om_cancel_reason (PaymentOrderUpdate_defaults now m) = om_cancel_reason m"
  "om_rewards (PaymentOrderUpdate_defaults now m) = om_rewards m"
  "om_credential_hash (PaymentOrderUpdate_defaults now m) = om_credential_hash m"
  "om_third_party_order_id (PaymentOrderUpdate_defaults now m) = om_third_party_order_id m"
  "om_credential (PaymentOrderUpdate_defaults now m) = om_credential m"
  by (simp_all add: PaymentOrderUpdate_defaults_def)

lemma bindsOnce_spec [simp]:
  "om_credential_hash m = None \<Longrightarrow> om_third_party_order_id m = None \<Longrightarrow> bindsOnce r (PaymentOrderUpdate_spec m r)"
  by (simp add: bindsOnce_def PaymentOrderUpdate_spec_def)

text \<open>The mutations of the status operations and the state they lead to.\<close>

lemma purchasedMutation_simps [simp]:
  "om_status (purchasedMutation tp) = Some OrderStatusPurchased"
  "om_cancel_reason (purchasedMutation tp) = Some ''''"
  "om_credential_hash (purchasedMutation tp) = None"
  "om_third_party_order_id (purchasedMutation tp) = None"
  "om_rewards (purchasedMutation tp) = None"
  by (simp_all add: purchasedMutation_def Let_def)

lemma refundedMutation_simps [simp]:
  "om_status (refundedMutation x n) = Some OrderStatusCancelled"
  "om_cancel_reason (refundedMutation x n) = Some CancelReasonRefund"
  "om_credential_hash (refundedMutation x n) = None"
  "om_third_party_order_id (refundedMutation x n) = None"
  "om_rewards (refundedMutation x n) = None"
  by (simp_all add: refundedMutation_def)

lemma cancelledMutation_simps [simp]:
  "om_status (cancelledMutation tp n) = Some OrderStatusCancelled"
  "om_cancel_reason (cancelledMutation tp n) = Some CancelReasonRefund"
  "om_credential_hash (cancelledMutation tp n) = None"
  "om_third_party_order_id (cancelledMutation tp n) = None"
  "om_rewards (cancelledMutation tp n) = None"
  by (simp_all add: cancelledMutation_def Let_def)

lemma stateOf_simps:
  "po_Status r = OrderStatusPending \<Longrightarrow> stateOf r = Pending"
  "po_Status r = OrderStatusPurchased \<Longrightarrow> stateOf r = Purchased"
  "po_Status r = OrderStatusCancelled \<Longrightarrow> po_CancelReason r = CancelReasonTimeout \<Longrightarrow> stateOf r = TimedOut"
  "po_Status r = OrderStatusCancelled \<Longrightarrow> po_CancelReason r = CancelReasonRefund \<Longrightarrow> stateOf r = Refunded"
  by (simp_all add: stateOf_def order_status_defs cancel_reason_defs)

lemma stateOf_iff:
  "stateOf r = Pending \<longleftrightarrow> po_Status r = OrderStatusPending"
  "stateOf r = Purchased \<longleftrightarrow> po_Status r = OrderStatusPurchased"
  "stateOf r = TimedOut \<longleftrightarrow> po_Status r = OrderStatusCancelled \<and> po_CancelReason r = CancelReasonTimeout"
  "stateOf r = Refunded \<longleftrightarrow> po_Status r = OrderStatusCancelled \<and> po_CancelReason r = CancelReasonRefund"
  by (auto simp: stateOf_def order_status_defs cancel_reason_defs)

lemma evolves_step:
  assumes "sameOrder a b" "bindsOnce a b" "stateOf a = stateOf b \<or> order_step (stateOf a) (stateOf b)"
  shows "evolves a b"
  using assms by (auto simp: evolves_def)

lemma goodOrders_distinct: "goodOrders rows \<Longrightarrow> distinct (map po_ID rows)"
  by (simp add: goodOrders_def uniq_def)

lemma goodOrders_same: "goodOrders rows \<Longrightarrow> r \<in> set rows \<Longrightarrow> r' \<in> set rows \<Longrightarrow> po_ID r' = po_ID r \<Longrightarrow> r' = r"
  using distinct_key_eq [OF goodOrders_distinct] by metis

lemma goodOrders_updated:
  assumes good: "goodOrders rows"
    and u: "\<And>r. po_ID (u r) = po_ID r" "\<And>r. po_PaymentType (u r) = po_PaymentType r"
      "\<And>r. po_CredentialHash (u r) = po_CredentialHash r" "\<And>r. po_ThirdPartyOrderID (u r) = po_ThirdPartyOrderID r"
  shows "goodOrders (updated p u rows)"
proof -
  have id: "po_ID (if p r then u r else r) = po_ID r"
    and conf: "orderConflict (if p a then u a else a) (if p b then u b else b) = orderConflict a b" for r a b
    using u by (auto simp: orderConflict_def)
  then show ?thesis
    using good unfolding goodOrders_def uniq_def updated_def by (simp add: sorted_wrt_map comp_def)
qed

section \<open>The status operations\<close>

text \<open>\<open>tidy s t\<close>: no task was enqueued and every order only moved forward.\<close>

context order_env
begin

definition tidy :: "'s \<Rightarrow> 's \<Rightarrow> bool" where
  "tidy s t \<longleftrightarrow> hist t = hist s \<and> goodOrders (ords t) \<and> ordersEvolve (ords s) (ords t)"

lemma tidy_refl: "goodOrders (ords s) \<Longrightarrow> hist t = hist s \<Longrightarrow> ords t = ords s \<Longrightarrow> tidy s t"
  by (simp add: tidy_def)

text \<open>
  An update whose mutation moves every selected row forward, and really changes it, reports no
  affected row exactly when it selected none.
\<close>

lemma wp_move:
  assumes good: "goodOrders (ords s)"
    and ev: "\<And>r now. r \<in> set (ords s) \<Longrightarrow> matches ps r \<Longrightarrow>
      evolves r (PaymentOrderUpdate_spec (PaymentOrderUpdate_defaults now m) r)"
    and keep: "om_credential_hash m = None" "om_third_party_order_id m = None"
    and Q: "\<And>n now t. tidy s t \<Longrightarrow>
      ords t = updated (matches ps) (PaymentOrderUpdate_spec (PaymentOrderUpdate_defaults now m)) (ords s) \<Longrightarrow>
      (n = 0 \<Longrightarrow> \<forall>r \<in> set (ords s). matches ps r \<longrightarrow> PaymentOrderUpdate_spec (PaymentOrderUpdate_defaults now m) r = r) \<Longrightarrow>
      (0 < n \<Longrightarrow> \<exists>r \<in> set (ords s). matches ps r) \<Longrightarrow> Q n t"
    and E: "\<And>e t. mf \<Longrightarrow> tidy s t \<Longrightarrow> ords t = ords s \<Longrightarrow> E e t"
  shows "wp (PaymentOrderUpdate_Save (od drv) ps m) Q E s"
proof (rule wp_UpdateOrders, goal_cases)
  case (1 n now t)
  let ?u = "PaymentOrderUpdate_spec (PaymentOrderUpdate_defaults now m)"
  have "ordersEvolve (ords s) (ords t)"
    unfolding 1(2) by (rule ordersEvolve_updated) (rule ev)
  then have "tidy s t" using 1 by (simp add: tidy_def)
  moreover have "\<forall>r \<in> set (ords s). matches ps r \<longrightarrow> ?u r = r" if "n = 0"
    using 1(5) that by (auto simp: filter_empty_conv)
  moreover have "\<exists>r \<in> set (ords s). matches ps r" if "0 < n"
    using 1(4) that by (metis filter_False list.size(3) not_le)
  ultimately show ?case using Q [of t now n] 1 by blast
next
  case (2 now t)
  let ?u = "PaymentOrderUpdate_spec (PaymentOrderUpdate_defaults now m)"
  have "goodOrders (updated (matches ps) ?u (ords s))"
    by (rule goodOrders_updated [OF good]) (use keep in \<open>simp_all add: PaymentOrderUpdate_spec_def\<close>)
  with 2 show ?case by simp
next
  case (3 e t)
  then show ?case using E tidy_refl good by blast
qed

end

definition replaceOrder :: "PaymentOrder \<Rightarrow> PaymentOrder list \<Rightarrow> PaymentOrder list" where
  "replaceOrder r rows = map (\<lambda>x. if po_ID x = po_ID r then r else x) rows"

lemma updated_replace:
  assumes good: "goodOrders rows" and row: "row \<in> set rows" "p row"
    and only: "\<And>r. r \<in> set rows \<Longrightarrow> p r \<Longrightarrow> po_ID r = po_ID row" and id: "po_ID (u row) = po_ID row"
  shows "updated p u rows = replaceOrder (u row) rows"
  unfolding updated_def replaceOrder_def
proof (rule map_cong [OF refl])
  fix x assume x: "x \<in> set rows"
  show "(if p x then u x else x) = (if po_ID x = po_ID (u row) then u row else x)"
    using goodOrders_same [OF good row(1) x] only [OF x] row(2) id by auto
qed

lemma set_replaceOrder:
  "r \<in> set (replaceOrder r' rows) \<longleftrightarrow>
     (r = r' \<and> (\<exists>x \<in> set rows. po_ID x = po_ID r')) \<or> (r \<in> set rows \<and> po_ID r \<noteq> po_ID r')"
  by (auto simp: replaceOrder_def image_iff)

lemma timeoutMutation_evolves:
  assumes "po_Status r = OrderStatusPending"
  shows "evolves r (PaymentOrderUpdate_spec (PaymentOrderUpdate_defaults now
      (SetCancelAtUnix n (SetCancelReason CancelReasonTimeout (SetStatus OrderStatusCancelled newPaymentOrderMutation)))) r)"
  using assms by (intro evolves_step) (auto simp: stateOf_simps order_step_simps)

lemma purchasedMutation_evolves:
  assumes "stateOf r = Pending \<or> stateOf r = TimedOut"
  shows "evolves r (PaymentOrderUpdate_spec (PaymentOrderUpdate_defaults now (purchasedMutation tp)) r)"
    "stateOf (PaymentOrderUpdate_spec (PaymentOrderUpdate_defaults now (purchasedMutation tp)) r) = Purchased"
  using assms by (auto intro!: evolves_step simp: stateOf_simps order_step_simps)

lemma refundedMutation_evolves:
  assumes "stateOf r = Purchased"
  shows "evolves r (PaymentOrderUpdate_spec (PaymentOrderUpdate_defaults now (refundedMutation x n)) r)"
    "stateOf (PaymentOrderUpdate_spec (PaymentOrderUpdate_defaults now (refundedMutation x n)) r) = Refunded"
  using assms by (auto intro!: evolves_step simp: stateOf_simps order_step_simps)

lemma cancelledMutation_evolves:
  assumes "stateOf r = Pending"
  shows "evolves r (PaymentOrderUpdate_spec (PaymentOrderUpdate_defaults now (cancelledMutation tp n)) r)"
    "stateOf (PaymentOrderUpdate_spec (PaymentOrderUpdate_defaults now (cancelledMutation tp n)) r) = Refunded"
  using assms by (auto intro!: evolves_step simp: stateOf_simps order_step_simps)

lemma matches_purchased:
  "matches (purchasedPredicates i) r \<longleftrightarrow> po_ID r = i \<and> (stateOf r = Pending \<or> stateOf r = TimedOut)"
  by (auto simp: matches_def purchasedPredicates_def stateOf_iff)

context order_env
begin

text \<open>The effect of a status operation on the row it is about.\<close>

definition moved :: "order_state \<Rightarrow> PaymentOrder \<Rightarrow> 's \<Rightarrow> 's \<Rightarrow> bool" where
  "moved st row s t \<longleftrightarrow> tidy s t \<and> (\<exists>row'. ords t = replaceOrder row' (ords s) \<and> evolves row row'
     \<and> stateOf row' = st \<and> po_Rewards row' = po_Rewards row)"

lemma wp_MarkPurchased:
  assumes good: "goodOrders (ords s)" and row: "row \<in> set (ords s)" "stateOf row = Pending \<or> stateOf row = TimedOut"
  shows "wp (MarkOrderPurchased (od drv) (po_ID row) tp)
     (\<lambda>_ t. moved Purchased row s t) (\<lambda>_ t. mf \<and> tidy s t \<and> ords t = ords s) s"
  unfolding MarkOrderPurchased_def wp_simps
proof (rule wp_move [OF good], goal_cases)
  case (1 r now)
  then show ?case using purchasedMutation_evolves by (auto simp: matches_purchased)
next
  case (4 n now t)
  let ?u = "PaymentOrderUpdate_spec (PaymentOrderUpdate_defaults now (purchasedMutation tp))"
  have m: "matches (purchasedPredicates (po_ID row)) row" using row by (simp add: matches_purchased)
  have st: "stateOf (?u row) = Purchased" using row(2) by (rule purchasedMutation_evolves)
  then have "n \<noteq> 0" using 4(3) m row by force
  moreover have "ords t = replaceOrder (?u row) (ords s)"
    unfolding 4(2) using m by (intro updated_replace [OF good row(1)]) (auto simp: matches_purchased)
  ultimately show ?case
    using 4 st purchasedMutation_evolves(1) [OF row(2)] by (auto simp: wp_simps moved_def)
qed auto

lemma wp_MarkRefunded:
  assumes good: "goodOrders (ords s)" and row: "row \<in> set (ords s)" "stateOf row = Purchased"
  shows "wp (MarkOrderRefunded (od drv) (po_ID row) tp)
     (\<lambda>_ t. moved Refunded row s t) (\<lambda>_ t. mf \<and> tidy s t \<and> ords t = ords s) s"
proof -
  have main: "wp (PaymentOrderUpdate_Save (od drv) [OrderIDEQ (po_ID row), StatusEQ OrderStatusPurchased] (refundedMutation x n))
     (\<lambda>k. wp (if k = 0 then fail OrderUnaffected else ok ()) (\<lambda>_ t. moved Refunded row s t)
        (\<lambda>_ t. mf \<and> tidy s t \<and> ords t = ords s))
     (\<lambda>_ t. mf \<and> tidy s t \<and> ords t = ords s) s1" if s1: "ords s1 = ords s" "hist s1 = hist s" for x n s1
  proof (rule wp_move, goal_cases)
    case 1
    then show ?case using good s1 by simp
  next
    case (2 r now)
    then show ?case using refundedMutation_evolves by (auto simp: matches_def stateOf_iff)
  next
    case (5 k now t)
    let ?u = "PaymentOrderUpdate_spec (PaymentOrderUpdate_defaults now (refundedMutation x n))"
    have m: "matches [OrderIDEQ (po_ID row), StatusEQ OrderStatusPurchased] row"
      using row by (simp add: matches_def stateOf_iff)
    have st: "stateOf (?u row) = Refunded" using row(2) by (rule refundedMutation_evolves)
    then have "k \<noteq> 0" using 5(3) m row s1 by force
    moreover have "ords t = replaceOrder (?u row) (ords s)"
      unfolding 5(2) s1 using m by (intro updated_replace [OF good row(1)]) (auto simp: matches_def)
    ultimately show ?case
      using 5 st s1 refundedMutation_evolves(1) [OF row(2)] by (auto simp: wp_simps moved_def tidy_def)
  qed (use s1 in \<open>auto simp: tidy_def\<close>)
  show ?thesis
    unfolding MarkOrderRefunded_def Let_def wp_andThen wp_mapErr wp_if [where m = "orderNow (od drv)"] wp_ok
    by (cases "tp_RefundAtUnix tp \<le> 0") (auto intro!: wp_orderNow main)
qed

lemma wp_MarkCancelled:
  assumes good: "goodOrders (ords s)" and row: "row \<in> set (ords s)" "stateOf row = Pending"
  shows "wp (MarkOrderCancelled (od drv) (po_ID row) tp)
     (\<lambda>_ t. moved Refunded row s t) (\<lambda>_ t. mf \<and> tidy s t \<and> ords t = ords s) s"
  unfolding MarkOrderCancelled_def Let_def wp_simps
proof (rule wp_orderNow, rule wp_move, goal_cases)
  case (1 n0 s1)
  then show ?case using good by simp
next
  case (2 n0 s1 r now)
  then show ?case using cancelledMutation_evolves by (auto simp: matches_def stateOf_iff)
next
  case (5 n0 s1 k now t)
  let ?u = "PaymentOrderUpdate_spec (PaymentOrderUpdate_defaults now (cancelledMutation tp
    (if 0 < tp_RefundAtUnix tp then tp_RefundAtUnix tp else n0)))"
  have m: "matches [OrderIDEQ (po_ID row), StatusEQ OrderStatusPending] row"
    using row by (simp add: matches_def stateOf_iff)
  have st: "stateOf (?u row) = Refunded" using row(2) by (rule cancelledMutation_evolves)
  then have "k \<noteq> 0" using 5 m row by force
  moreover have "ords t = replaceOrder (?u row) (ords s)"
    unfolding 5(4) 5(1) using m by (intro updated_replace [OF good row(1)]) (auto simp: matches_def)
  ultimately show ?case
    using 5 st cancelledMutation_evolves(1) [OF row(2)] by (auto simp: wp_simps moved_def tidy_def)
qed (auto simp: tidy_def)

end

section \<open>Grants and payments\<close>

definition grantOf :: "PaymentOrder \<Rightarrow> QTask" where
  "grantOf r = newGrantTask \<lparr>gt_OrderId = po_ID r, gt_Uid = po_UID r, gt_Rewards = po_Rewards r\<rparr>"

definition revokeOf :: "PaymentOrder \<Rightarrow> QTask" where
  "revokeOf r = newRevokeTask \<lparr>rt_OrderId = po_ID r, rt_Uid = po_UID r, rt_Rewards = po_Rewards r\<rparr>"

definition grantInv :: "PaymentOrder list \<Rightarrow> QTask list \<Rightarrow> bool" where
  "grantInv rows tasks \<longleftrightarrow> (\<forall>r \<in> set rows. stateOf r = Purchased \<longrightarrow> grantOf r \<in> set tasks)"

text \<open>A quiet change makes no order purchased and leaves the rewards of purchased ones alone.\<close>

definition quiet :: "PaymentOrder \<Rightarrow> PaymentOrder \<Rightarrow> bool" where
  "quiet a b \<longleftrightarrow> evolves a b \<and> (stateOf b = Purchased \<longrightarrow> stateOf a = Purchased \<and> po_Rewards b = po_Rewards a)"

definition quietRows :: "PaymentOrder list \<Rightarrow> PaymentOrder list \<Rightarrow> bool" where
  "quietRows xs ys \<longleftrightarrow> list_all2 quiet xs ys"

lemma quiet_refl [simp]: "quiet a a"
  by (simp add: quiet_def)

lemma quietRows_refl [simp]: "quietRows xs xs"
  by (simp add: quietRows_def list_all2_refl)

lemma quietRows_map:
  assumes "\<And>r. r \<in> set xs \<Longrightarrow> quiet r (f r)"
  shows "quietRows xs (map f xs)"
  unfolding quietRows_def using assms by (simp add: list_all2_conv_all_nth)

lemma quietRows_evolve: "quietRows xs ys \<Longrightarrow> ordersEvolve xs ys"
  unfolding quietRows_def ordersEvolve_def by (auto elim!: list_all2_mono simp: quiet_def)

lemma quiet_trans: "quiet a b \<Longrightarrow> quiet b c \<Longrightarrow> quiet a c"
  unfolding quiet_def using evolves_trans by metis

lemma quietRows_trans: "quietRows xs ys \<Longrightarrow> quietRows ys zs \<Longrightarrow> quietRows xs zs"
  using list_all2_trans [of quiet quiet quiet] quiet_trans unfolding quietRows_def by blast

lemma quiet_grantInv:
  assumes "quietRows xs ys" and "grantInv xs tasks"
  shows "grantInv ys tasks"
  unfolding grantInv_def
proof (intro ballI impI)
  fix b assume b: "b \<in> set ys" "stateOf b = Purchased"
  then obtain a where a: "a \<in> set xs" "quiet a b"
    using assms(1) unfolding quietRows_def by (metis in_set_conv_nth list_all2_conv_all_nth)
  then have "grantOf b = grantOf a" "stateOf a = Purchased"
    using b by (auto simp: quiet_def evolves_def sameOrder_def grantOf_def)
  with assms(2) a(1) show "grantOf b \<in> set tasks" by (simp add: grantInv_def)
qed

lemma quiet_replace:
  assumes "row \<in> set xs" "goodOrders xs" "evolves row row'" "stateOf row' \<noteq> Purchased"
  shows "quietRows xs (replaceOrder row' xs)"
  unfolding replaceOrder_def
proof (rule quietRows_map)
  fix r assume r: "r \<in> set xs"
  have "po_ID row' = po_ID row" using assms(3) by (simp add: evolves_def sameOrder_def)
  then show "quiet r (if po_ID r = po_ID row' then row' else r)"
    using assms(3,4) goodOrders_same [OF assms(2,1) r] by (auto simp: quiet_def)
qed

lemma grantInv_purchase:
  assumes inv: "grantInv xs tasks" and "grantOf row \<in> set tasks"
    and "evolves row row'" "po_Rewards row' = po_Rewards row"
  shows "grantInv (replaceOrder row' xs) tasks"
proof -
  have "grantOf row' = grantOf row" using assms(3,4) by (simp add: grantOf_def evolves_def sameOrder_def)
  with inv assms(2) show ?thesis by (auto simp: grantInv_def set_replaceOrder)
qed

context order_env
begin

definition calm :: "'s \<Rightarrow> 's \<Rightarrow> bool" where
  "calm s t \<longleftrightarrow> hist t = hist s \<and> goodOrders (ords t) \<and> quietRows (ords s) (ords t)"

lemma calm_refl: "goodOrders (ords s) \<Longrightarrow> hist t = hist s \<Longrightarrow> ords t = ords s \<Longrightarrow> calm s t"
  by (simp add: calm_def)

lemma calm_trans: "calm s t \<Longrightarrow> calm t u \<Longrightarrow> calm s u"
  unfolding calm_def using quietRows_trans by metis

lemma calm_tidy: "calm s t \<Longrightarrow> tidy s t"
  by (simp add: calm_def tidy_def quietRows_evolve)

lemma calm_good: "calm s t \<Longrightarrow> goodOrders (ords t)"
  by (simp add: calm_def)

lemma moved_calm:
  assumes "moved st row s t" "row \<in> set (ords s)" "goodOrders (ords s)" "st \<noteq> Purchased"
  shows "calm s t"
  using assms quiet_replace [OF assms(2,3)] by (auto simp: moved_def tidy_def calm_def)

lemma wp_MarkTimeout:
  assumes good: "goodOrders (ords s)"
  shows "wp (MarkOrderTimeout (od drv) i cutoff)
     (\<lambda>_ t. calm s t \<and> (\<forall>r' \<in> set (ords t). \<exists>r \<in> set (ords s).
        r' = r \<or> (po_ID r = i \<and> stateOf r = Pending \<and> po_CreateAtUnix r \<le> cutoff \<and> evolves r r' \<and> stateOf r' = TimedOut)))
     (\<lambda>_ t. mf \<and> calm s t \<and> ords t = ords s) s"
  unfolding MarkOrderTimeout_def wp_simps
proof (rule wp_orderNow, rule wp_move, goal_cases)
  case (1 n s1)
  then show ?case using good by simp
next
  case (2 n s1 r now)
  then show ?case by (intro timeoutMutation_evolves) (simp add: matches_def)
next
  case (5 n s1 k now t)
  let ?m = "SetCancelAtUnix n (SetCancelReason CancelReasonTimeout (SetStatus OrderStatusCancelled newPaymentOrderMutation))"
  let ?u = "PaymentOrderUpdate_spec (PaymentOrderUpdate_defaults now ?m)"
  let ?ps = "[OrderIDEQ i, StatusEQ OrderStatusPending, CreateAtUnixLTE cutoff]"
  have st: "stateOf (?u r) = TimedOut" for r by (simp add: stateOf_simps)
  have ev: "evolves r (?u r)" if "matches ?ps r" for r
    using that by (intro timeoutMutation_evolves) (simp add: matches_def)
  have "quietRows (ords s) (ords t)"
    unfolding 5(4) 5(1) updated_def by (rule quietRows_map) (use st ev in \<open>auto simp: quiet_def\<close>)
  moreover have "\<exists>r \<in> set (ords s). r' = r \<or> (po_ID r = i \<and> stateOf r = Pending \<and> po_CreateAtUnix r \<le> cutoff
      \<and> evolves r r' \<and> stateOf r' = TimedOut)" if r': "r' \<in> set (ords t)" for r'
  proof -
    obtain r where r: "r \<in> set (ords s)" "r' = (if matches ?ps r then ?u r else r)"
      using r' unfolding 5(4) 5(1) by (auto simp: updated_def)
    then show ?thesis
      using st [of r] ev [of r] by (cases "matches ?ps r") (auto simp: matches_def stateOf_iff)
  qed
  ultimately show ?case using 5 by (auto simp: calm_def tidy_def)
qed (use good in \<open>auto simp: calm_def tidy_def\<close>)

lemma wp_AddRetryTimes:
  assumes good: "goodOrders (ords s)"
  shows "wp (AddRetryTimes (od drv) i) (\<lambda>_ t. calm s t) (\<lambda>_ t. mf \<and> calm s t) s"
  unfolding AddRetryTimes_def wp_simps
proof (rule wp_move [OF good], goal_cases)
  case (1 r now)
  then show ?case by (intro evolves_step) (auto simp: stateOf_def)
next
  case (4 n now t)
  let ?u = "PaymentOrderUpdate_spec (PaymentOrderUpdate_defaults now (AddRetryTimesField 1 newPaymentOrderMutation))"
  have "quiet r (?u r)" for r
    unfolding quiet_def by (intro conjI evolves_step) (auto simp: stateOf_def)
  then have "quietRows (ords s) (ords t)"
    unfolding 4(2) updated_def by (intro quietRows_map) auto
  with 4 show ?case by (simp add: calm_def tidy_def)
qed (use good in \<open>auto simp: calm_def tidy_def\<close>)

lemma wp_UpdateRewards:
  assumes good: "goodOrders (ords s)" and row: "row \<in> set (ords s)" "stateOf row \<noteq> Purchased"
  shows "wp (UpdateOrderRewards (od drv) (po_ID row) rewards)
     (\<lambda>_ t. calm s t \<and> (\<exists>row'. row' \<in> set (ords t) \<and> sameOrder row row' \<and> stateOf row' = stateOf row \<and> po_Rewards row' = rewards))
     (\<lambda>_ t. mf \<and> calm s t) s"
  unfolding UpdateOrderRewards_def PaymentOrderUpdateOne_Save_def wp_simps
proof (intro wp_orderNow ord.wp_UpdateOne, goal_cases)
  case (1 n s1 r t)
  let ?u = "PaymentOrderUpdate_spec (PaymentOrderUpdate_defaults n (SetRewards rewards newPaymentOrderMutation))"
  have q: "evolves x (?u x)" "stateOf (?u x) = stateOf x" "po_Rewards (?u x) = rewards" for x
    by (auto intro!: evolves_step simp: stateOf_def)
  have eq: "ords t = replaceOrder (?u row) (ords s)"
    unfolding 1(4) 1(1) by (rule updated_replace [OF good row(1)]) auto
  then have "quietRows (ords s) (ords t)"
    using quiet_replace [OF row(1) good q(1)] row(2) q(2) by simp
  moreover have "?u row \<in> set (ords t)" unfolding eq using row by (auto simp: set_replaceOrder)
  ultimately show ?case using 1 q by (auto simp: calm_def goodOrders_def intro!: exI [of _ "?u row"])
next
  case (2 n s1 t)
  then show ?case using row by auto
next
  case (3 n s1 t)
  let ?u = "PaymentOrderUpdate_spec (PaymentOrderUpdate_defaults n (SetRewards rewards newPaymentOrderMutation))"
  have "goodOrders (updated (\<lambda>x. po_ID x = po_ID row) ?u (ords s))"
    by (rule goodOrders_updated [OF good]) (simp_all add: PaymentOrderUpdate_spec_def)
  with 3 show ?case by (simp add: goodOrders_def)
next
  case (4 n s1 t)
  then show ?case using good by (simp add: calm_def)
qed

end

section \<open>Reading, creating and binding orders\<close>

definition pendingFor :: "uint64 \<Rightarrow> int \<Rightarrow> int \<Rightarrow> PaymentOrder \<Rightarrow> bool" where
  "pendingFor uid paymentType productId r \<longleftrightarrow> po_UID r = uid \<and> po_PaymentType r = paymentType
     \<and> po_ProductID r = productId \<and> stateOf r = Pending"

lemma matches_pendingFor:
  "matches [OrderUIDEQ uid, PaymentTypeEQ pt, ProductIDEQ pid, StatusEQ OrderStatusPending] = pendingFor uid pt pid"
  by (rule ext) (simp add: matches_def pendingFor_def stateOf_iff)

text \<open>The row that \<open>CreateOrder\<close> inserts.\<close>

definition freshOrder :: "CreateOrderParams \<Rightarrow> PaymentOrder \<Rightarrow> bool" where
  "freshOrder params r \<longleftrightarrow> po_UID r = cp_Uid params \<and> po_ProductID r = cp_ProductId params
     \<and> po_ThirdPartyProductID r = cp_ThirdPartyProductId params \<and> po_PaymentType r = cp_PaymentType params
     \<and> po_OrderAmountUnit r = cp_AmountUnit params \<and> po_OrderAmountNanos r = cp_AmountNanos params
     \<and> po_OrderCurrency r = cp_Currency params \<and> po_Rewards r = cp_Rewards params
     \<and> po_CredentialHash r = None \<and> po_ThirdPartyOrderID r = None \<and> stateOf r = Pending"

lemma createSpec_fresh:
  "freshOrder params (setOrderID i (PaymentOrderCreate_createSpec (PaymentOrderCreate_defaults n k (createOrderMutation params))))"
  by (auto simp: freshOrder_def setOrderID_def PaymentOrderCreate_createSpec_def PaymentOrderCreate_defaults_def
      createOrderMutation_def Let_def stateOf_def)

lemma create_check:
  "PaymentOrderCreate_check (PaymentOrderCreate_defaults n k (createOrderMutation params)) = None"
  by (simp add: PaymentOrderCreate_check_def PaymentOrderCreate_defaults_def createOrderMutation_def Let_def)

text \<open>The order a receipt is bound to.\<close>

definition boundTo :: "uint64 \<Rightarrow> int \<Rightarrow> uint64 \<Rightarrow> int \<Rightarrow> string \<Rightarrow> string \<Rightarrow> PaymentOrder \<Rightarrow> bool" where
  "boundTo uid paymentType orderId productId credential thirdPartyOrderId r \<longleftrightarrow>
     po_ID r = orderId \<and> po_UID r = uid \<and> po_PaymentType r = paymentType \<and> po_ProductID r = productId
     \<and> po_CredentialHash r = Some (sha256Hex credential)
     \<and> (thirdPartyOrderId \<noteq> '''' \<longrightarrow> po_ThirdPartyOrderID r = Some thirdPartyOrderId)"

lemma bind_quiet:
  assumes "matches (bindPredicates uid pt i pid (sha256Hex cred) tid) r"
  shows "quiet r (PaymentOrderUpdate_spec (PaymentOrderUpdate_defaults now (bindMutation cred (sha256Hex cred) tid)) r)"
proof -
  have "bindsOnce r (PaymentOrderUpdate_spec (PaymentOrderUpdate_defaults now (bindMutation cred (sha256Hex cred) tid)) r)"
    using assms by (auto simp: matches_def bindPredicates_def bindsOnce_def PaymentOrderUpdate_spec_def
        PaymentOrderUpdate_defaults_def bindMutation_def Let_def split: if_splits)
  then show ?thesis
    unfolding quiet_def
    by (intro conjI evolves_step) (auto simp: stateOf_def bindMutation_def Let_def)
qed

context order_env
begin

lemma wp_FindPending:
  assumes good: "goodOrders (ords s)"
  shows "wp (FindPendingOrder (od drv) uid pt pid)
     (\<lambda>r t. calm s t \<and> ords t = ords s \<and> (case r of None \<Rightarrow> (\<forall>x \<in> set (ords s). \<not> pendingFor uid pt pid x)
        | Some x \<Rightarrow> x \<in> set (ords s) \<and> pendingFor uid pt pid x))
     (\<lambda>_ t. mf \<and> calm s t \<and> ords t = ords s) s"
  unfolding FindPendingOrder_def wp_simps
proof (rule ord.wp_First, goal_cases)
  case (1 r t)
  then show ?case using good by (simp add: wp_simps calm_def Order_def Where_def Query_def matches_pendingFor)
next
  case (2 t)
  then show ?case using good
    by (simp add: wp_simps calm_def Order_def Where_def Query_def matches_pendingFor IsNotFound_def filter_empty_conv)
next
  case (3 t)
  then show ?case using good by (simp add: wp_simps calm_def IsNotFound_def)
qed

lemma wp_CreateOrder:
  assumes good: "goodOrders (ords s)"
  shows "wp (CreateOrder (od drv) params)
     (\<lambda>r t. hist t = hist s \<and> goodOrders (ords t) \<and> ords t = ords s @ [r] \<and> freshOrder params r)
     (\<lambda>_ t. mf \<and> calm s t \<and> ords t = ords s) s"
  unfolding CreateOrder_def PaymentOrderCreate_Save_def PaymentOrderCreate_sqlSave_def create_check option.case wp_andThen wp_mapErr [of OrderStoreErr]
proof (intro wp_orderNow, goal_cases)
  case (1 n s1 k s2)
  let ?r = "PaymentOrderCreate_createSpec (PaymentOrderCreate_defaults n k (createOrderMutation params))"
  have keys: "po_CredentialHash ?r = None" "po_ThirdPartyOrderID ?r = None"
    using createSpec_fresh [of params 0 n k] by (auto simp: freshOrder_def setOrderID_def)
  have "wp (mapErr createErr (CreateNode (Orders (od drv)) ?r))
      (\<lambda>i t. hist t = hist s \<and> goodOrders (ords t) \<and> ords t = ords s @ [?r\<lparr>po_ID := i\<rparr>] \<and> freshOrder params (?r\<lparr>po_ID := i\<rparr>))
      (\<lambda>_ t. mf \<and> calm s t \<and> ords t = ords s) s2"
  proof (rule ord.wp_Create, goal_cases)
    case 1
    then show ?case using good \<open>ords s1 = ords s\<close> \<open>ords s2 = ords s1\<close> by (simp add: goodOrders_def)
  next
    case (2 i t)
    have f: "freshOrder params (setOrderID i ?r)" by (rule createSpec_fresh)
    with 2 1 show ?case by (simp add: calm_def goodOrders_def setOrderID_def)
  next
    case (3 t)
    then show ?case using keys by (auto simp: orderConflict_def)
  next
    case (4 t)
    then show ?case using 1 good by (simp add: calm_def)
  qed
  then show ?case by (simp add: wp_simps)
qed

lemma wp_GetOrder:
  assumes good: "goodOrders (ords s)"
    and "\<And>r t. hist t = hist s \<Longrightarrow> ords t = ords s \<Longrightarrow> r \<in> set (ords s) \<Longrightarrow> po_ID r = i \<Longrightarrow> Q r t"
    and "\<And>e t. hist t = hist s \<Longrightarrow> ords t = ords s \<Longrightarrow> E e t"
  shows "wp (GetOrder (od drv) i) Q E s"
  unfolding GetOrder_def
proof (rule ord.wp_Only, goal_cases)
  case (1 r t)
  then have "r \<in> set (filter (matches [OrderIDEQ i]) (ords s))" by (simp add: Where_def Query_def)
  with 1 show ?case by (intro assms(2)) (auto simp: matches_def)
qed (use assms(3) in auto)

lemma wp_FindAndBind:
  assumes good: "goodOrders (ords s)"
  shows "wp (FindAndBindOrder (od drv) uid pt i pid cred tid)
     (\<lambda>r t. calm s t \<and> r \<in> set (ords t) \<and> boundTo uid pt i pid cred tid r)
     (\<lambda>_ t. calm s t) s"
proof (cases "cred = ''''")
  case True
  with good show ?thesis by (simp add: FindAndBindOrder_def wp_simps calm_def)
next
  case False
  have "wp (PaymentOrderUpdate_Save (od drv) (bindPredicates uid pt i pid (sha256Hex cred) tid)
      (bindMutation cred (sha256Hex cred) tid)) (\<lambda>_ t. calm s t) (\<lambda>_ t. calm s t) s"
  proof (rule wp_UpdateOrders, goal_cases)
    case (1 n now t)
    have "quietRows (ords s) (ords t)"
      unfolding 1(2) updated_def by (rule quietRows_map) (use bind_quiet in auto)
    with 1 show ?case by (simp add: calm_def)
  qed (use good in \<open>auto simp: calm_def\<close>)
  moreover have "wp (GetOrder (od drv) i) (\<lambda>r. wp (if po_UID r \<noteq> uid \<or> po_PaymentType r \<noteq> pt \<or> po_ProductID r \<noteq> pid \<or>
            po_CredentialHash r = None \<or> po_CredentialHash r \<noteq> Some (sha256Hex cred)
         then fail OrderMismatch
         else if tid \<noteq> '''' \<and> (po_ThirdPartyOrderID r = None \<or> po_ThirdPartyOrderID r \<noteq> Some tid)
         then fail OrderBoundElsewhere
         else ok r) (\<lambda>r t. calm s t \<and> r \<in> set (ords t) \<and> boundTo uid pt i pid cred tid r) (\<lambda>_ t. calm s t))
      (\<lambda>e t. calm s t) t" if "calm s t" for t
    by (rule wp_GetOrder) (use that in \<open>auto simp: wp_simps boundTo_def calm_def split: if_splits\<close>)
  ultimately show ?thesis
    using False unfolding FindAndBindOrder_def Let_def
    by (simp only: if_False wp_andThen wp_mapErr) (auto elim!: wp_mono)
qed

lemma wp_GetExpired:
  assumes good: "goodOrders (ords s)"
  shows "wp (GetExpiredPendingOrder (od drv) i cutoff)
     (\<lambda>r t. calm s t \<and> ords t = ords s \<and> (\<forall>x. r = Some x \<longrightarrow> x \<in> set (ords s) \<and> po_ID x = i \<and> stateOf x = Pending \<and> po_CreateAtUnix x \<le> cutoff))
     (\<lambda>_ t. calm s t \<and> ords t = ords s) s"
  unfolding GetExpiredPendingOrder_def wp_simps
proof (rule ord.wp_Only, goal_cases)
  case (1 r t)
  then have "r \<in> set (filter (matches [OrderIDEQ i, StatusEQ OrderStatusPending, CreateAtUnixLTE cutoff]) (ords s))"
    by (simp add: Where_def Query_def)
  with 1 good show ?case by (auto simp: wp_simps calm_def matches_def stateOf_iff)
qed (use good in \<open>auto simp: wp_simps calm_def IsNotFound_def\<close>)

lemma wp_FindExpired:
  assumes good: "goodOrders (ords s)"
  shows "wp (FindExpiredPendingOrders (od drv) cutoff lim)
     (\<lambda>rows t. calm s t \<and> ords t = ords s \<and> (\<forall>x \<in> set rows. x \<in> set (ords s) \<and> stateOf x = Pending \<and> po_CreateAtUnix x \<le> cutoff))
     (\<lambda>_ t. mf \<and> calm s t \<and> ords t = ords s) s"
  unfolding FindExpiredPendingOrders_def wp_simps
proof (rule ord.wp_All, goal_cases)
  case (1 rs t)
  have "set rs \<subseteq> {r \<in> set (ords s). matches [StatusEQ OrderStatusPending, CreateAtUnixLTE cutoff] r}"
    using selects_subset [OF 1(3)] by (simp add: Limit_def Order_def Where_def Query_def)
  with 1 good show ?case by (auto simp: calm_def matches_def stateOf_iff)
qed (use good in \<open>auto simp: calm_def\<close>)

end

end
