(* ===== verification/PaymentProps.thy ===== *)
theory PaymentProps
  imports PaymentLaws
begin

text \<open>
  The payment service against its contract. \<open>payment_channel\<close> is what the service relies on in a
  payment channel; \<open>reports cred tp\<close> says that the third party has reported \<open>tp\<close> for the credential
  \<open>cred\<close>. The invariant \<open>payInv\<close> ties the order table to the task queue: a purchased order has its
  grant task, a grant task has a payment report, a revoke task has a grant and a refund report.
\<close>

section \<open>The invariant\<close>

definition reported ::
  "(string \<Rightarrow> ThirdPartyOrder \<Rightarrow> bool) \<Rightarrow> int \<Rightarrow> uint64 \<Rightarrow> uint64 \<Rightarrow> bool" where
  "reported reports status i u \<longleftrightarrow>
     (\<exists>cred tp. reports cred tp \<and> tp_Status tp = status \<and> tp_InternalOrderId tp = i \<and> tp_Uid tp = u)"

definition grantTaskFor :: "uint64 \<Rightarrow> uint64 \<Rightarrow> RawMessage \<Rightarrow> QTask" where
  "grantTaskFor i u rw = newGrantTask \<lparr>gt_OrderId = i, gt_Uid = u, gt_Rewards = rw\<rparr>"

definition revokeTaskFor :: "uint64 \<Rightarrow> uint64 \<Rightarrow> RawMessage \<Rightarrow> QTask" where
  "revokeTaskFor i u rw = newRevokeTask \<lparr>rt_OrderId = i, rt_Uid = u, rt_Rewards = rw\<rparr>"

definition taskInv :: "(string \<Rightarrow> ThirdPartyOrder \<Rightarrow> bool) \<Rightarrow> QTask list \<Rightarrow> bool" where
  "taskInv reports tasks \<longleftrightarrow> (\<forall>task \<in> set tasks. \<exists>i u rw.
     (task = grantTaskFor i u rw \<and> reported reports ThirdPartyOrderStatusPurchased i u) \<or>
     (task = revokeTaskFor i u rw \<and> reported reports ThirdPartyOrderStatusCancelled i u \<and>
      grantTaskFor i u rw \<in> set tasks))"

definition payInv ::
  "(string \<Rightarrow> ThirdPartyOrder \<Rightarrow> bool) \<Rightarrow> PaymentOrder list \<Rightarrow> QTask list \<Rightarrow> bool" where
  "payInv reports rows tasks \<longleftrightarrow> goodOrders rows \<and> grantInv rows tasks \<and> taskInv reports tasks"

definition tasksGrow :: "QTask list \<Rightarrow> QTask list \<Rightarrow> bool" where
  "tasksGrow xs ys \<longleftrightarrow> (\<exists>l. ys = xs @ l)"

lemma tasksGrow_refl [simp]: "tasksGrow xs xs"
  by (simp add: tasksGrow_def)

lemma tasksGrow_trans: "tasksGrow xs ys \<Longrightarrow> tasksGrow ys zs \<Longrightarrow> tasksGrow xs zs"
  by (auto simp: tasksGrow_def)

lemma tasksGrow_snoc [simp]: "tasksGrow xs (xs @ [t])"
  by (simp add: tasksGrow_def)

lemma grantInv_more: "grantInv rows tasks \<Longrightarrow> set tasks \<subseteq> set tasks' \<Longrightarrow> grantInv rows tasks'"
  by (auto simp: grantInv_def)

lemma taskInv_snoc:
  assumes "taskInv reports tasks"
    and "(\<exists>i u rw. task = grantTaskFor i u rw \<and> reported reports ThirdPartyOrderStatusPurchased i u) \<or>
     (\<exists>i u rw. task = revokeTaskFor i u rw \<and> reported reports ThirdPartyOrderStatusCancelled i u \<and>
      grantTaskFor i u rw \<in> set tasks)"
  shows "taskInv reports (tasks @ [task])"
  using assms unfolding taskInv_def by (simp, blast)

lemma grantOf_eq: "grantOf r = grantTaskFor (po_ID r) (po_UID r) (po_Rewards r)"
  by (simp add: grantOf_def grantTaskFor_def)

section \<open>Progress\<close>

locale payment_env = order_env mf drv ords hist
  for mf :: bool and drv :: "'s pay_drv" and ords :: "'s \<Rightarrow> PaymentOrder list" and hist :: "'s \<Rightarrow> QTask list" +
  fixes reports :: "string \<Rightarrow> ThirdPartyOrder \<Rightarrow> bool"
begin

abbreviation inv :: "'s \<Rightarrow> bool" where
  "inv s \<equiv> payInv reports (ords s) (hist s)"

definition progress :: "'s \<Rightarrow> 's \<Rightarrow> bool" where
  "progress s t \<longleftrightarrow> inv t \<and> ordersEvolve (ords s) (ords t) \<and> tasksGrow (hist s) (hist t)"

lemma progress_trans: "progress s t \<Longrightarrow> progress t u \<Longrightarrow> progress s u"
  unfolding progress_def using ordersEvolve_trans tasksGrow_trans by blast

lemma progress_refl: "inv s \<Longrightarrow> ords t = ords s \<Longrightarrow> hist t = hist s \<Longrightarrow> progress s t"
  by (simp add: progress_def)

lemma calm_progress: "inv s \<Longrightarrow> calm s t \<Longrightarrow> progress s t"
  unfolding progress_def calm_def payInv_def using quiet_grantInv quietRows_evolve by auto

lemma progress_inv: "progress s t \<Longrightarrow> inv t"
  by (simp add: progress_def)

lemma inv_good: "inv s \<Longrightarrow> goodOrders (ords s)"
  by (simp add: payInv_def)

text \<open>Enqueueing a task whose reason is on record.\<close>

lemma wp_Enqueue:
  assumes inv: "inv s" and "taskInv reports (hist s @ [task])"
  shows "wp (Enqueue drv task) (\<lambda>_ t. progress s t \<and> ords t = ords s \<and> hist t = hist s @ [task])
     (\<lambda>_ t. progress s t \<and> ords t = ords s) s"
proof -
  have "progress s t" if "ords t = ords s" "hist t = hist s \<or> hist t = hist s @ [task]" for t
  proof -
    have "grantInv (ords s) (hist s @ [task])"
      using inv by (auto simp: payInv_def intro: grantInv_more)
    with that assms show ?thesis by (auto simp: progress_def payInv_def)
  qed
  then show ?thesis
    unfolding Enqueue_def wp_simps
    by (intro wp_mono [OF enqueue_law]) (auto simp: wp_simps split: queue_error.splits)
qed

definition endsIn :: "uint64 \<Rightarrow> order_state \<Rightarrow> 's \<Rightarrow> bool" where
  "endsIn i st t \<longleftrightarrow> (\<exists>r \<in> set (ords t). po_ID r = i \<and> stateOf r = st)"

lemma endsIn_replace:
  assumes "ords u = replaceOrder r2 (ords t)" "evolves row r2" "row \<in> set (ords t)" "stateOf r2 = st"
  shows "endsIn (po_ID row) st u"
proof -
  have "po_ID r2 = po_ID row" using assms(2) by (simp add: evolves_def sameOrder_def)
  moreover have "r2 \<in> set (ords u)" using assms(1,3) calculation by (auto simp: set_replaceOrder)
  ultimately show ?thesis using assms(4) by (auto simp: endsIn_def)
qed

text \<open>What a result of the status table means for the order.\<close>

definition settled :: "PaymentOrder \<Rightarrow> OrderProcessResult \<Rightarrow> 's \<Rightarrow> bool" where
  "settled row res t \<longleftrightarrow> (case res of
       OrderProcessWaiting \<Rightarrow> endsIn (po_ID row) Pending t
     | OrderProcessPurchased \<Rightarrow> endsIn (po_ID row) Purchased t
     | OrderProcessCancelled \<Rightarrow> (\<exists>r \<in> set (ords t). po_ID r = po_ID row \<and> po_Status r = OrderStatusCancelled))"

lemma endsIn_settled: "endsIn (po_ID row) Refunded t \<Longrightarrow> settled row OrderProcessCancelled t"
  by (auto simp: endsIn_def settled_def stateOf_iff)

end

section \<open>The channel contract\<close>

locale payment_channel = payment_env mf drv ords hist reports
  for mf :: bool and drv :: "'s pay_drv" and ords :: "'s \<Rightarrow> PaymentOrder list" and hist :: "'s \<Rightarrow> QTask list"
    and reports :: "string \<Rightarrow> ThirdPartyOrder \<Rightarrow> bool" +
  fixes ch :: "'s PaymentChannel"
  assumes query_order_law:
      "wp (ch_QueryOrder ch cred)
         (\<lambda>r t. ords t = ords s \<and> hist t = hist s \<and> (\<forall>tp. r = Some tp \<longrightarrow> reports cred tp))
         (\<lambda>_ t. ords t = ords s \<and> hist t = hist s) s"
    and complete_law: "ords (snd (ch_Complete ch tp s)) = ords s \<and> hist (snd (ch_Complete ch tp s)) = hist s"
    and build_law: "ords (snd (ch_BuildCreateOrderExtra ch p s)) = ords s \<and> hist (snd (ch_BuildCreateOrderExtra ch p s)) = hist s"
    and find_or_bind_law:
      "goodOrders (ords s) \<Longrightarrow> wp (ch_FindOrBind ch uid cred tp)
         (\<lambda>r t. hist t = hist s \<and> goodOrders (ords t) \<and> quietRows (ords s) (ords t) \<and>
            (\<forall>x. r = Some x \<longrightarrow> x \<in> set (ords t) \<and> po_ID x = tp_InternalOrderId tp \<and> po_UID x = uid \<and> tp_Uid tp = uid
               \<and> po_PaymentType x = ch_Type ch \<and> po_CredentialHash x = Some (sha256Hex cred)))
         (\<lambda>_ t. hist t = hist s \<and> goodOrders (ords t) \<and> quietRows (ords s) (ords t)) s"
begin

lemma wp_Complete:
  assumes "\<And>r t. ords t = ords s \<Longrightarrow> hist t = hist s \<Longrightarrow> Q r t"
    and "\<And>e t. ords t = ords s \<Longrightarrow> hist t = hist s \<Longrightarrow> E e t"
  shows "wp (stepComplete ch tp) Q E s"
  using assms complete_law [of tp s]
  by (auto simp: wp_def stepComplete_def mapErr_def split: prod.splits sum.splits)

section \<open>The pipeline\<close>

lemma wp_stepGrant:
  assumes inv: "inv s" and row: "row \<in> set (ords s)" "stateOf row \<noteq> Purchased"
    and paid: "reported reports ThirdPartyOrderStatusPurchased (po_ID row) (po_UID row)"
  shows "wp (stepGrantRewards drv products row)
     (\<lambda>_ t. progress s t \<and> (\<exists>row' \<in> set (ords t). po_ID row' = po_ID row \<and> stateOf row' = stateOf row \<and> grantOf row' \<in> set (hist t)))
     (\<lambda>_ t. progress s t) s"
proof (cases "products (po_ProductID row)")
  case None
  then show ?thesis using inv by (simp add: stepGrantRewards_def GetProduct_def wp_simps progress_refl)
next
  case (Some product)
  define rw where "rw = Some (marshalRewards (pd_Rewards product))"
  let ?task = "grantTaskFor (po_ID row) (po_UID row) rw"
  have "wp (UpdateOrderRewards (od drv) (po_ID row) rw) (\<lambda>_. wp (Enqueue drv ?task)
      (\<lambda>_ t. progress s t \<and> (\<exists>row' \<in> set (ords t). po_ID row' = po_ID row \<and> stateOf row' = stateOf row \<and> grantOf row' \<in> set (hist t)))
      (\<lambda>_ t. progress s t)) (\<lambda>_ t. progress s t) s"
  proof (rule wp_mono [OF wp_UpdateRewards [OF inv_good [OF inv] row]], goal_cases)
    case (1 x t)
    then obtain row' where row': "row' \<in> set (ords t)" "sameOrder row row'" "stateOf row' = stateOf row" "po_Rewards row' = rw"
      by blast
    have pt: "progress s t" using 1 calm_progress inv by blast
    have "taskInv reports (hist t @ [?task])"
      using progress_inv [OF pt] paid by (intro taskInv_snoc) (auto simp: payInv_def)
    from wp_Enqueue [OF progress_inv [OF pt] this] show ?case
    proof (rule wp_mono, goal_cases)
      case (1 y u)
      then have "progress s u" using pt progress_trans by blast
      moreover have "grantOf row' \<in> set (hist u)" "row' \<in> set (ords u)" "po_ID row' = po_ID row"
        using 1 row' by (auto simp: grantOf_eq sameOrder_def)
      ultimately show ?case using row'(3) by blast
    next
      case (2 y u)
      then show ?case using pt progress_trans by blast
    qed
  next
    case (2 e t)
    then show ?case using calm_progress inv by blast
  qed
  then show ?thesis
    using Some by (simp add: stepGrantRewards_def GetProduct_def wp_simps rw_def grantTaskFor_def Let_def)
qed

lemma wp_purchase:
  assumes inv: "inv s" and row: "row \<in> set (ords s)" "stateOf row = Pending \<or> stateOf row = TimedOut"
    and paid: "reported reports ThirdPartyOrderStatusPurchased (po_ID row) (po_UID row)"
  shows "wp (purchaseOrderWithoutLock drv products ch row tp)
     (\<lambda>res t. progress s t \<and> res = OrderProcessPurchased \<and> endsIn (po_ID row) Purchased t)
     (\<lambda>_ t. progress s t) s"
  unfolding purchaseOrderWithoutLock_def wp_simps
proof (rule wp_mono [OF wp_stepGrant [OF inv row(1) _ paid]], goal_cases)
  case 1
  then show ?case using row(2) by auto
next
  case (2 x t)
  then obtain row' where row': "row' \<in> set (ords t)" "po_ID row' = po_ID row" "stateOf row' = stateOf row" "grantOf row' \<in> set (hist t)"
    and pt: "progress s t" by blast
  have st: "stateOf row' = Pending \<or> stateOf row' = TimedOut" using row' row(2) by simp
  have good: "goodOrders (ords t)" using pt by (simp add: progress_def payInv_def)
  have "wp (MarkOrderPurchased (od drv) (po_ID row') tp) (\<lambda>_. wp (stepComplete ch tp)
      (\<lambda>_ t. progress s t \<and> endsIn (po_ID row) Purchased t) (\<lambda>_ t. progress s t)) (\<lambda>_ t. progress s t) t"
  proof (rule wp_mono [OF wp_MarkPurchased [OF good row'(1) st]], goal_cases)
    case (1 y u)
    then obtain r2 where r2: "ords u = replaceOrder r2 (ords t)" "evolves row' r2" "stateOf r2 = Purchased" "po_Rewards r2 = po_Rewards row'"
      and tid: "tidy t u" by (auto simp: moved_def)
    have "grantInv (ords u) (hist u)"
      using pt grantInv_purchase [OF _ row'(4) r2(2,4)] r2(1) tid by (simp add: progress_def payInv_def tidy_def)
    then have pu: "progress s u"
      using pt tid progress_trans [OF pt] by (simp add: progress_def payInv_def tidy_def)
    have e: "endsIn (po_ID row) Purchased u" using endsIn_replace [OF r2(1,2) row'(1) r2(3)] row'(2) by simp
    show ?case
      by (rule wp_Complete) (use pu e in \<open>auto simp: endsIn_def progress_def\<close>)
  next
    case (2 e u)
    then show ?case using pt by (simp add: progress_def payInv_def tidy_def)
  qed
  then show ?case using row'(2) by simp
qed

end

context payment_channel
begin

lemma wp_cancel:
  assumes inv: "inv s" and row: "row \<in> set (ords s)" "stateOf row = Pending"
  shows "wp (cancelOrderWithoutLock drv row tp)
     (\<lambda>res t. progress s t \<and> res = OrderProcessCancelled \<and> endsIn (po_ID row) Refunded t)
     (\<lambda>_ t. progress s t) s"
  unfolding cancelOrderWithoutLock_def wp_simps
proof (rule wp_mono [OF wp_MarkCancelled [OF inv_good [OF inv] row]], goal_cases)
  case (1 x t)
  then obtain r2 where r2: "ords t = replaceOrder r2 (ords s)" "evolves row r2" "stateOf r2 = Refunded"
    by (auto simp: moved_def)
  have "calm s t" using moved_calm [OF 1 row(1) inv_good [OF inv]] by simp
  moreover have "endsIn (po_ID row) Refunded t"
    using endsIn_replace [OF r2(1,2) row(1) r2(3)] .
  ultimately show ?case using calm_progress inv by blast
next
  case (2 e t)
  then show ?case using inv by (simp add: progress_def payInv_def tidy_def)
qed

lemma wp_revoke:
  assumes inv: "inv s" and row: "row \<in> set (ords s)" "stateOf row = Purchased"
    and refunded: "reported reports ThirdPartyOrderStatusCancelled (po_ID row) (po_UID row)"
  shows "wp (revokeOrderWithoutLock drv row tp)
     (\<lambda>res t. progress s t \<and> res = OrderProcessCancelled \<and> endsIn (po_ID row) Refunded t \<and> revokeOf row \<in> set (hist t))
     (\<lambda>_ t. progress s t) s"
proof -
  let ?task = "revokeTaskFor (po_ID row) (po_UID row) (po_Rewards row)"
  have task: "?task = revokeOf row" by (simp add: revokeTaskFor_def revokeOf_def)
  have "grantTaskFor (po_ID row) (po_UID row) (po_Rewards row) \<in> set (hist s)"
    using inv row by (auto simp: payInv_def grantInv_def grantOf_eq)
  then have ti: "taskInv reports (hist s @ [?task])"
    using inv refunded by (intro taskInv_snoc) (auto simp: payInv_def)
  have "wp (Enqueue drv ?task) (\<lambda>_. wp (MarkOrderRefunded (od drv) (po_ID row) tp)
      (\<lambda>_ t. progress s t \<and> endsIn (po_ID row) Refunded t \<and> revokeOf row \<in> set (hist t)) (\<lambda>_ t. progress s t))
      (\<lambda>_ t. progress s t) s"
  proof (rule wp_mono [OF wp_Enqueue [OF inv ti]], goal_cases)
    case (1 x t)
    have good: "goodOrders (ords t)" and rowt: "row \<in> set (ords t)" using 1 row(1) inv by (auto simp: payInv_def)
    show ?case
    proof (rule wp_mono [OF wp_MarkRefunded [OF good rowt row(2)]], goal_cases)
      case (1 y u)
      then obtain r2 where r2: "ords u = replaceOrder r2 (ords t)" "evolves row r2" "stateOf r2 = Refunded"
        by (auto simp: moved_def)
      have c: "calm t u" using moved_calm [OF 1 rowt good] by simp
      have pt: "progress s t" using \<open>progress s t \<and> _\<close> by simp
      have "progress s u" using progress_trans [OF pt calm_progress [OF progress_inv [OF pt] c]] .
      moreover have "endsIn (po_ID row) Refunded u"
        using endsIn_replace [OF r2(1,2) rowt r2(3)] .
      moreover have "revokeOf row \<in> set (hist u)"
        using c \<open>progress s t \<and> _\<close> task by (simp add: calm_def)
      ultimately show ?case by blast
    next
      case (2 e u)
      have pt: "progress s t" using \<open>progress s t \<and> _\<close> by simp
      show ?case using 2 progress_trans [OF pt progress_refl [OF progress_inv [OF pt]]] by (simp add: tidy_def)
    qed
  qed auto
  then show ?thesis
    by (simp add: revokeOrderWithoutLock_def stepRevokeRewards_def wp_simps task [symmetric] revokeTaskFor_def)
qed

lemma wp_Process:
  assumes inv: "inv s" and row: "row \<in> set (ords s)"
    and tp: "reports cred tp" "tp_InternalOrderId tp = po_ID row" "tp_Uid tp = po_UID row"
  shows "wp (ProcessOrderWithoutLock drv products ch row tp)
     (\<lambda>res t. progress s t \<and> settled row res t) (\<lambda>_ t. progress s t) s"
proof -
  have rep: "reported reports (tp_Status tp) (po_ID row) (po_UID row)"
    using tp by (auto simp: reported_def)
  have here: "progress s s" using inv by (simp add: progress_refl)
  consider "po_Status row = OrderStatusPending" | "po_Status row = OrderStatusPurchased"
    | "po_Status row = OrderStatusCancelled"
    | "po_Status row \<notin> {OrderStatusPending, OrderStatusPurchased, OrderStatusCancelled}" by auto
  then show ?thesis
  proof cases
    case 1
    then have st: "stateOf row = Pending" by (simp add: stateOf_simps)
    have "wp (purchaseOrderWithoutLock drv products ch row tp) (\<lambda>res t. progress s t \<and> settled row res t) (\<lambda>_ t. progress s t) s"
      if "tp_Status tp = ThirdPartyOrderStatusPurchased"
      by (rule wp_mono [OF wp_purchase [OF inv row]]) (use st rep that in \<open>auto simp: settled_def\<close>)
    moreover have "wp (cancelOrderWithoutLock drv row tp) (\<lambda>res t. progress s t \<and> settled row res t) (\<lambda>_ t. progress s t) s"
      by (rule wp_mono [OF wp_cancel [OF inv row]]) (use st endsIn_settled in auto)
    ultimately show ?thesis
      using 1 here row st by (auto simp: ProcessOrderWithoutLock_def wp_simps settled_def endsIn_def)
  next
    case 2
    then have st: "stateOf row = Purchased" by (simp add: stateOf_simps)
    have "wp (revokeOrderWithoutLock drv row tp) (\<lambda>res t. progress s t \<and> settled row res t) (\<lambda>_ t. progress s t) s"
      if "tp_Status tp = ThirdPartyOrderStatusCancelled"
      by (rule wp_mono [OF wp_revoke [OF inv row]]) (use st rep that endsIn_settled in auto)
    moreover have "wp (stepComplete ch tp) (\<lambda>_ t. progress s t \<and> settled row OrderProcessPurchased t) (\<lambda>_ t. progress s t) s"
      by (rule wp_Complete) (use inv row st in \<open>auto simp: progress_def settled_def endsIn_def\<close>)
    ultimately show ?thesis
      using 2 here row st
      by (auto simp: ProcessOrderWithoutLock_def wp_simps settled_def endsIn_def order_status_defs)
  next
    case 3
    have "wp (purchaseOrderWithoutLock drv products ch row tp) (\<lambda>res t. progress s t \<and> settled row res t) (\<lambda>_ t. progress s t) s"
      if "tp_Status tp = ThirdPartyOrderStatusPurchased" "po_CancelReason row = CancelReasonTimeout"
      by (rule wp_mono [OF wp_purchase [OF inv row]]) (use 3 rep that in \<open>auto simp: settled_def stateOf_simps\<close>)
    then show ?thesis
      using 3 here row
      by (auto simp: ProcessOrderWithoutLock_def wp_simps settled_def order_status_defs)
  next
    case 4
    then show ?thesis using here by (simp add: ProcessOrderWithoutLock_def wp_simps)
  qed
qed

end

end
