(* ===== verification/PaymentFlow.thy ===== *)
theory PaymentFlow
  imports PaymentProps
begin

text \<open>
  The requests of the payment service: creating an order, uploading a receipt, and the scan of
  expired orders. \<open>payment_service\<close> is the service over a registry in which every channel keeps
  the channel contract. Each request keeps the invariant and moves orders only forward.
\<close>

section \<open>At most one open order\<close>

definition onePending :: "PaymentOrder list \<Rightarrow> bool" where
  "onePending rows \<longleftrightarrow> (\<forall>a \<in> set rows. \<forall>b \<in> set rows. stateOf a = Pending \<longrightarrow> stateOf b = Pending \<longrightarrow>
     po_UID a = po_UID b \<longrightarrow> po_PaymentType a = po_PaymentType b \<longrightarrow> po_ProductID a = po_ProductID b \<longrightarrow> po_ID a = po_ID b)"

lemma ordersEvolve_from:
  assumes "ordersEvolve xs ys" and "b \<in> set ys"
  shows "\<exists>a \<in> set xs. evolves a b"
  using assms unfolding ordersEvolve_def by (metis in_set_conv_nth list_all2_conv_all_nth)

lemma onePending_evolve:
  assumes "onePending xs" and "ordersEvolve xs ys"
  shows "onePending ys"
  unfolding onePending_def
proof (intro ballI impI)
  fix c d assume cd: "c \<in> set ys" "d \<in> set ys" "stateOf c = Pending" "stateOf d = Pending"
    "po_UID c = po_UID d" "po_PaymentType c = po_PaymentType d" "po_ProductID c = po_ProductID d"
  obtain a b where ab: "a \<in> set xs" "evolves a c" "b \<in> set xs" "evolves b d"
    using ordersEvolve_from [OF assms(2)] cd(1,2) by metis
  have "stateOf a = Pending" "stateOf b = Pending"
    using ab cd steps_from_Pending by (auto simp: evolves_def)
  then have "po_ID a = po_ID b"
    using assms(1) ab cd unfolding onePending_def evolves_def sameOrder_def by metis
  then show "po_ID c = po_ID d" using ab by (simp add: evolves_def sameOrder_def)
qed

lemma onePending_snoc:
  assumes "onePending xs" and "\<forall>x \<in> set xs. \<not> pendingFor (po_UID r) (po_PaymentType r) (po_ProductID r) x"
  shows "onePending (xs @ [r])"
  unfolding onePending_def set_append
proof (intro ballI impI)
  fix a b assume ab: "a \<in> set xs \<union> set [r]" "b \<in> set xs \<union> set [r]" "stateOf a = Pending" "stateOf b = Pending"
    "po_UID a = po_UID b" "po_PaymentType a = po_PaymentType b" "po_ProductID a = po_ProductID b"
  have "\<not> (x \<in> set xs \<and> stateOf x = Pending \<and> po_UID x = po_UID r \<and> po_PaymentType x = po_PaymentType r
      \<and> po_ProductID x = po_ProductID r)" for x
    using assms(2) by (auto simp: pendingFor_def)
  then have "a \<in> set xs \<and> b \<in> set xs \<or> a = b" using ab by fastforce
  then show "po_ID a = po_ID b" using ab assms(1) unfolding onePending_def by blast
qed

section \<open>Creating an order\<close>

locale payment_service = payment_env mf drv ords hist reports
  for mf :: bool and drv :: "'s pay_drv" and ords :: "'s \<Rightarrow> PaymentOrder list" and hist :: "'s \<Rightarrow> QTask list"
    and reports :: "string \<Rightarrow> ThirdPartyOrder \<Rightarrow> bool" +
  fixes chs :: "'s channels"
  assumes channel_law: "chs k = Some ch \<Longrightarrow> payment_channel mf drv ords hist reports ch"
    and channel_type: "chs k = Some ch \<Longrightarrow> ch_Type ch = k"
begin

definition opened :: "'s \<Rightarrow> 's \<Rightarrow> PaymentOrder \<Rightarrow> bool" where
  "opened s t row \<longleftrightarrow> row \<in> set (ords t) \<and> hist t = hist s \<and> (ords t = ords s \<or>
     ords t = ords s @ [row] \<and> (\<forall>x \<in> set (ords s). \<not> pendingFor (po_UID row) (po_PaymentType row) (po_ProductID row) x))"

lemma wp_findOrCreate:
  assumes inv: "inv s"
  shows "wp (findOrCreateOrderWithoutLock drv uid req product tpid price)
     (\<lambda>row t. inv t \<and> opened s t row \<and> pendingFor uid (cr_PaymentType req) (cr_ProductId req) row)
     (\<lambda>_ t. inv t \<and> ords t = ords s \<and> hist t = hist s) s"
  unfolding findOrCreateOrderWithoutLock_def wp_simps
proof (rule wp_mono [OF wp_FindPending [OF inv_good [OF inv]]], goal_cases)
  case (1 found t)
  show ?case
  proof (cases found)
    case (Some row)
    with 1 inv show ?thesis by (simp add: wp_simps opened_def calm_def)
  next
    case None
    have good: "goodOrders (ords t)" using 1 calm_good by blast
    show ?thesis unfolding None option.case Let_def wp_simps
    proof (rule wp_mono [OF wp_CreateOrder [OF good]], goal_cases)
      case (1 row u)
      then have "grantInv (ords u) (hist u)" "taskInv reports (hist u)" "ords t = ords s" "hist t = hist s"
        using inv \<open>calm s t \<and> _\<close> by (auto simp: payInv_def grantInv_def calm_def freshOrder_def)
      moreover have "pendingFor uid (cr_PaymentType req) (cr_ProductId req) row"
        using 1 by (simp add: freshOrder_def pendingFor_def)
      ultimately show ?case
        using 1 \<open>calm s t \<and> _\<close> None by (auto simp: payInv_def opened_def pendingFor_def)
    next
      case (2 e u)
      then show ?case using inv \<open>calm s t \<and> _\<close> by (simp add: calm_def)
    qed
  qed
next
  case (2 e t)
  then show ?case using inv by (simp add: calm_def)
qed

lemma wp_Create:
  assumes inv: "inv s"
  shows "wp (CreateOrderWithoutLock drv chs products uid req)
     (\<lambda>rsp t. inv t \<and> (\<exists>row. opened s t row \<and> pendingFor uid (cr_PaymentType req) (cr_ProductId req) row
         \<and> po_ID row = rs_OrderId rsp \<and> po_ProductID row = rs_ProductId rsp
         \<and> po_ThirdPartyProductID row = rs_ThirdPartyProductId rsp))
     (\<lambda>_ t. inv t \<and> (ords t = ords s \<and> hist t = hist s \<or> (\<exists>row. opened s t row \<and>
         pendingFor uid (cr_PaymentType req) (cr_ProductId req) row))) s"
proof -
  have main: "wp (findOrCreateOrderWithoutLock drv uid req product tpid price) (\<lambda>row.
      wp (ch_BuildCreateOrderExtra ch (par row)) (\<lambda>extra t. inv t \<and> (\<exists>row'. opened s t row'
          \<and> pendingFor uid (cr_PaymentType req) (cr_ProductId req) row'
          \<and> po_ID row' = po_ID row \<and> po_ProductID row' = po_ProductID row
          \<and> po_ThirdPartyProductID row' = po_ThirdPartyProductID row))
        (\<lambda>_ t. inv t \<and> (ords t = ords s \<and> hist t = hist s \<or> (\<exists>row. opened s t row \<and>
         pendingFor uid (cr_PaymentType req) (cr_ProductId req) row))))
      (\<lambda>_ t. inv t \<and> (ords t = ords s \<and> hist t = hist s \<or> (\<exists>row. opened s t row \<and>
         pendingFor uid (cr_PaymentType req) (cr_ProductId req) row))) s"
    if ch: "chs k = Some ch" for k ch product tpid price par
  proof (rule wp_mono [OF wp_findOrCreate [OF inv]], goal_cases)
    case (1 row t)
    have keep: "ords (snd (ch_BuildCreateOrderExtra ch p t)) = ords t" "hist (snd (ch_BuildCreateOrderExtra ch p t)) = hist t" for p
      using payment_channel.build_law [OF channel_law [OF ch]] by auto
    show ?case
      using 1 keep [of "par row"] by (auto simp: wp_def opened_def split: prod.splits sum.splits)
  qed auto
  show ?thesis
    unfolding CreateOrderWithoutLock_def GetChannel_def Let_def
    using inv by (auto simp: wp_simps split: option.split intro!: main)
qed

section \<open>Uploading a receipt\<close>

text \<open>What a settled receipt means: the order of this player that carries the receipt is paid for or closed.\<close>

definition receiptSettled :: "uint64 \<Rightarrow> int \<Rightarrow> string \<Rightarrow> 's \<Rightarrow> bool" where
  "receiptSettled uid pt cred t \<longleftrightarrow> (\<exists>tp. \<exists>r \<in> set (ords t). reports cred tp \<and> tp_InternalOrderId tp = po_ID r \<and> tp_Uid tp = uid
     \<and> po_UID r = uid \<and> po_PaymentType r = pt \<and> po_CredentialHash r = Some (sha256Hex cred)
     \<and> po_ThirdPartyProductID r = tp_ProductId tp \<and> (po_Status r = OrderStatusPurchased \<or> po_Status r = OrderStatusCancelled))"

lemma settled_receipt:
  assumes p: "progress t u" and row: "row \<in> set (ords t)" "po_UID row = uid" "po_PaymentType row = pt"
      "po_CredentialHash row = Some (sha256Hex cred)" "po_ThirdPartyProductID row = tp_ProductId tp"
    and tp: "reports cred tp" "tp_InternalOrderId tp = po_ID row" "tp_Uid tp = uid"
    and st: "settled row res u" "res \<noteq> OrderProcessWaiting"
  shows "receiptSettled uid pt cred u"
proof -
  obtain r where r: "r \<in> set (ords u)" "po_ID r = po_ID row" "po_Status r = OrderStatusPurchased \<or> po_Status r = OrderStatusCancelled"
    using st by (cases res) (auto simp: settled_def endsIn_def stateOf_iff)
  obtain r' where r': "r' \<in> set (ords u)" "evolves row r'"
    using ordersGrow_find [OF ordersEvolve_grow row(1)] p unfolding progress_def by blast
  have "goodOrders (ords u)" using p by (simp add: progress_def payInv_def)
  then have "r' = r" using goodOrders_same [OF _ r(1) r'(1)] r(2) r'(2) by (simp add: evolves_def sameOrder_def)
  with r r'(2) row tp show ?thesis
    unfolding receiptSettled_def by (intro exI [of _ tp] bexI [of _ r]) (auto simp: evolves_def sameOrder_def bindsOnce_def)
qed

lemma wp_FindOrBind:
  assumes ch: "chs k = Some ch" and inv: "inv s"
  shows "wp (ch_FindOrBind ch uid cred tp)
     (\<lambda>r t. progress s t \<and> (\<forall>x. r = Some x \<longrightarrow> x \<in> set (ords t) \<and> po_ID x = tp_InternalOrderId tp \<and> po_UID x = uid
         \<and> tp_Uid tp = uid \<and> po_PaymentType x = k \<and> po_CredentialHash x = Some (sha256Hex cred)))
     (\<lambda>_ t. progress s t) s"
proof (rule wp_mono [OF payment_channel.find_or_bind_law [OF channel_law [OF ch] inv_good [OF inv]]], goal_cases)
  case (1 r t)
  then have "calm s t" by (simp add: calm_def)
  with 1 inv channel_type [OF ch] show ?case by (auto intro: calm_progress)
next
  case (2 e t)
  then have "calm s t" by (simp add: calm_def)
  with inv show ?case by (rule calm_progress)
qed

lemma wp_ProcessBound:
  assumes ch: "chs k = Some ch" and p: "progress s t" and tp: "reports cred tp"
    and row: "row \<in> set (ords t)" "po_ID row = tp_InternalOrderId tp" "po_UID row = uid" "tp_Uid tp = uid"
  shows "wp (ProcessOrderWithoutLock drv products ch row tp)
     (\<lambda>res u. progress s u \<and> progress t u \<and> settled row res u) (\<lambda>_ u. progress s u \<and> progress t u) t"
proof (rule wp_mono [OF payment_channel.wp_Process [OF channel_law [OF ch] progress_inv [OF p] row(1) tp]])
  show "tp_InternalOrderId tp = po_ID row" "tp_Uid tp = po_UID row" using row by auto
qed (use p progress_trans in blast)+

lemma wp_QueryOrder:
  assumes ch: "chs k = Some ch" and inv: "inv s"
  shows "wp (ch_QueryOrder ch cred) (\<lambda>r t. progress s t \<and> (\<forall>tp. r = Some tp \<longrightarrow> reports cred tp)) (\<lambda>_ t. progress s t) s"
  by (rule wp_mono [OF payment_channel.query_order_law [OF channel_law [OF ch], of cred s]]) (use inv progress_refl in auto)

end

context payment_service
begin

lemma wp_Upload:
  assumes inv: "inv s"
  shows "wp (UploadReceiptWithoutLock drv chs products uid req)
     (\<lambda>_ t. progress s t \<and> receiptSettled uid (ur_PaymentType req) (ur_Credential req) t)
     (\<lambda>_ t. progress s t) s"
proof (cases "chs (ur_PaymentType req)")
  case None
  then show ?thesis using inv by (simp add: UploadReceiptWithoutLock_def GetChannel_def wp_simps progress_refl)
next
  case (Some ch)
  let ?good = "\<lambda>t. progress s t \<and> receiptSettled uid (ur_PaymentType req) (ur_Credential req) t"
  have process: "wp (ProcessOrderWithoutLock drv products ch row tp)
      (\<lambda>res. wp (if res = OrderProcessWaiting then fail (BadRequest MsgNotPaidYet) else ok ())
         (\<lambda>_. ?good) (\<lambda>_ t. progress s t)) (\<lambda>_ t. progress s t) t"
    if "progress s t" "reports (ur_Credential req) tp" "row \<in> set (ords t)" "po_ID row = tp_InternalOrderId tp"
      "po_UID row = uid" "tp_Uid tp = uid" "po_PaymentType row = ur_PaymentType req"
      "po_CredentialHash row = Some (sha256Hex (ur_Credential req))" "po_ThirdPartyProductID row = tp_ProductId tp" for row tp t
    by (rule wp_mono [OF wp_ProcessBound [OF Some that(1-6)]]) (use that settled_receipt in \<open>auto simp: wp_simps\<close>)
  show ?thesis
    unfolding UploadReceiptWithoutLock_def GetChannel_def Some option.case wp_andThen wp_mapErr
  proof (rule wp_mono [OF wp_QueryOrder [OF Some inv]], goal_cases)
    case (1 info t)
    show ?case
    proof (cases info)
      case None
      with 1 show ?thesis by (simp add: wp_simps)
    next
      case (Some tp)
      have p: "progress s t" and tp: "reports (ur_Credential req) tp" using 1 Some by auto
      show ?thesis
        unfolding Some option.case wp_andThen wp_mapErr
      proof (rule wp_mono [OF wp_FindOrBind [OF \<open>chs _ = Some ch\<close> progress_inv [OF p]]], goal_cases)
        case (1 bound u)
        then have u: "progress s u" using p progress_trans by blast
        show ?case
        proof (cases bound)
          case None
          with u show ?thesis by (simp add: wp_simps)
        next
          case (Some row)
          with 1 u process [OF u tp, of row] show ?thesis by (auto simp: wp_fail wp_andThen)
        qed
      next
        case (2 e u)
        then show ?case using p progress_trans by blast
      qed
    qed
  qed
qed

section \<open>The scan of expired orders\<close>

lemma wp_addRetry: "inv s \<Longrightarrow> wp (addRetryTimes drv i) (\<lambda>_ t. progress s t) E s"
  unfolding addRetryTimes_def wp_simps
  by (rule wp_mono [OF wp_AddRetryTimes [OF inv_good]]) (auto intro: calm_progress)

lemma wp_retry: "progress s t \<Longrightarrow> wp (addRetryTimes drv i) (\<lambda>_ u. progress s u) E t"
  by (rule wp_mono [OF wp_addRetry [OF progress_inv]]) (auto intro: progress_trans)

lemma progress_calm: "progress s t \<Longrightarrow> calm t u \<Longrightarrow> progress s u"
  using progress_trans calm_progress progress_inv by blast

lemma wp_timeout: "progress s t \<Longrightarrow> wp (MarkOrderTimeout (od drv) i cutoff) (\<lambda>_ u. progress s u) (\<lambda>_ u. progress s u) t"
  by (rule wp_mono [OF wp_MarkTimeout [OF inv_good [OF progress_inv]]]) (auto intro: progress_calm)

lemma wp_settle:
  assumes inv: "inv s"
  shows "wp (settleExpiredOrder drv chs products i current cred cutoff) (\<lambda>_ t. progress s t) E s"
proof (cases "chs (po_PaymentType current)")
  case None
  then show ?thesis using wp_addRetry [OF inv] by (simp add: settleExpiredOrder_def GetChannel_def)
next
  case (Some ch)
  have process: "wp (ProcessOrderWithoutLock drv products ch row tp)
      (\<lambda>res. wp (if res \<noteq> OrderProcessWaiting then ok ()
           else andThen (attempt (MarkOrderTimeout (od drv) (po_ID row) cutoff)) (\<lambda>_. ok ())) (\<lambda>_ t. progress s t) E)
      (\<lambda>_. wp (addRetryTimes drv (po_ID row)) (\<lambda>_ t. progress s t) E) t"
    if "progress s t" "reports cred tp" "row \<in> set (ords t)" "po_ID row = tp_InternalOrderId tp"
      "po_UID row = uid" "tp_Uid tp = uid" for row tp t uid
    by (rule wp_mono [OF wp_ProcessBound [OF Some that]]) (auto simp: wp_simps intro: wp_retry wp_timeout)
  show ?thesis
    unfolding settleExpiredOrder_def GetChannel_def Some option.case wp_andThen wp_attempt sum.case
  proof (rule wp_mono [OF wp_QueryOrder [OF Some inv]], goal_cases)
    case (1 info t)
    show ?case
    proof (cases info)
      case None
      with 1 show ?thesis by (simp add: wp_retry)
    next
      case (Some tp)
      have p: "progress s t" and tp: "reports cred tp" using 1 Some by auto
      show ?thesis
        unfolding Some option.case wp_andThen wp_attempt sum.case
      proof (rule wp_mono [OF wp_FindOrBind [OF \<open>chs _ = Some ch\<close> progress_inv [OF p]]], goal_cases)
        case (1 bound u)
        then have u: "progress s u" using p progress_trans by blast
        show ?case
        proof (cases bound)
          case None
          with u show ?thesis by (simp add: wp_retry)
        next
          case (Some row)
          show ?thesis
          proof (cases "tp_ProductId tp = '''' \<or> tp_ProductId tp \<noteq> po_ThirdPartyProductID row")
            case True
            with Some u show ?thesis by (simp add: wp_retry)
          next
            case False
            have "wp (ProcessOrderWithoutLock drv products ch row tp)
      (\<lambda>res. wp (if res \<noteq> OrderProcessWaiting then ok ()
           else andThen (attempt (MarkOrderTimeout (od drv) (po_ID row) cutoff)) (\<lambda>_. ok ())) (\<lambda>_ t. progress s t) E)
      (\<lambda>_. wp (addRetryTimes drv (po_ID row)) (\<lambda>_ t. progress s t) E) u"
              using 1 Some by (intro process [OF u tp]) auto
            with False Some show ?thesis by (auto simp: wp_andThen wp_attempt)
          qed
        qed
      next
        case (2 e u)
        then show ?case using p progress_trans wp_retry by blast
      qed
    qed
  qed (rule wp_retry)
qed

end

context payment_service
begin

lemma wp_close:
  assumes inv: "inv s"
  shows "wp (closeExpiredOrder drv chs products i cutoff) (\<lambda>_ t. progress s t) E s"
  unfolding closeExpiredOrder_def wp_andThen wp_attempt sum.case
proof (rule wp_mono [OF wp_GetExpired [OF inv_good [OF inv]]], goal_cases)
  case (1 found t)
  then have p: "progress s t" using inv calm_progress by blast
  show ?case
  proof (cases found)
    case None
    with p show ?thesis by (simp add: wp_simps)
  next
    case (Some current)
    have "wp (settleExpiredOrder drv chs products i current (the (po_Credential current)) cutoff) (\<lambda>_ u. progress s u) E t"
      by (rule wp_mono [OF wp_settle [OF progress_inv [OF p]]]) (use p progress_trans in auto)
    then show ?thesis
      using wp_timeout [OF p] by (simp add: Some wp_simps)
  qed
next
  case (2 e t)
  then show ?case using inv calm_progress by (simp add: wp_simps)
qed

lemma progress_same: "progress s t \<Longrightarrow> ords u = ords t \<Longrightarrow> hist u = hist t \<Longrightarrow> progress s u"
  by (simp add: progress_def)

lemma wp_lock:
  assumes "\<And>b t. ords t = ords s \<Longrightarrow> hist t = hist s \<Longrightarrow> Q b t" "\<And>e t. ords t = ords s \<Longrightarrow> hist t = hist s \<Longrightarrow> E e t"
  shows "wp (TryLockDefault drv k) Q E s"
  using assms try_lock_law [of k s] by (auto simp: wp_def split: prod.splits sum.splits)

lemma wp_processExpired:
  assumes p: "progress s0 s"
  shows "wp (processExpiredPendingOrder drv chs products row cutoff) (\<lambda>_ t. progress s0 t) E s"
  unfolding processExpiredPendingOrder_def wp_andThen wp_attempt sum.case
proof (rule wp_lock, goal_cases)
  case (1 b t)
  then have t: "progress s0 t" using p by (simp add: progress_same)
  have "wp (closeExpiredOrder drv chs products (po_ID row) cutoff)
      (\<lambda>_ u. progress s0 (snd (UnlockLease drv k u))) (\<lambda>e u. E e (snd (UnlockLease drv k u))) t" for k
  proof (rule wp_mono [OF wp_close [OF progress_inv [OF t], where E = "\<lambda>_ _. False"]], goal_cases)
    case (1 x u)
    then show ?case using progress_same [OF progress_trans [OF t 1]] unlock_law [of k u] by simp
  qed auto
  with t show ?case by (simp add: wp_simps)
next
  case (2 e t)
  then show ?case using p by (simp add: wp_simps progress_same)
qed

lemma wp_guard:
  assumes "progress s0 s" "\<And>s. ords (snd (m s)) = ords s \<and> hist (snd (m s)) = hist s"
  shows "wp m (\<lambda>_ t. progress s0 t) (\<lambda>_ t. progress s0 t) s"
  using assms(1) assms(2) [of s] progress_same by (auto simp: wp_def split: prod.splits sum.splits)

lemma wp_scanOne:
  assumes "progress s0 s"
  shows "wp (andThen (mapErr f (CtxErr drv)) (\<lambda>_. andThen (mapErr g (LeaseErr drv TimeoutScanLock)) (\<lambda>_.
      andThen (attempt (processExpiredPendingOrder drv chs products row cutoff)) (\<lambda>_. ok ()))))
      (\<lambda>_ t. progress s0 t) (\<lambda>_ t. progress s0 t) s"
  unfolding wp_simps
  by (rule wp_mono [OF wp_guard [OF assms ctx_law]], rule wp_mono [OF wp_guard [OF _ lease_law]])
    (auto intro: wp_processExpired)

lemma wp_scan:
  assumes p: "progress s0 s"
  shows "wp (scanExpiredOrders drv chs products) (\<lambda>_ t. progress s0 t) (\<lambda>_ t. progress s0 t) s"
proof -
  have clock: "wp (payNow drv) (\<lambda>_ t. progress s0 t) E s" for E
    using p order_clock_law [of s] progress_same by (auto simp: wp_def payNow_def split: prod.splits)
  have find: "wp (FindExpiredPendingOrders (od drv) c n) (\<lambda>_ u. progress s0 u) (\<lambda>_ u. progress s0 u) t"
    if "progress s0 t" for c n t
    by (rule wp_mono [OF wp_FindExpired [OF inv_good [OF progress_inv [OF that]]]])
      (use that progress_calm in auto)
  have loop: "wp (forEach rows (\<lambda>row. andThen (mapErr f (CtxErr drv)) (\<lambda>_. andThen (mapErr g (LeaseErr drv TimeoutScanLock)) (\<lambda>_.
      andThen (attempt (processExpiredPendingOrder drv chs products row c)) (\<lambda>_. ok ())))))
      (\<lambda>_ u. progress s0 u) (\<lambda>_ u. progress s0 u) t" if "progress s0 t" for rows f g c t
    by (rule wp_forEach [where I = "\<lambda>_ u. progress s0 u"]) (use that in \<open>auto intro: wp_scanOne\<close>)
  show ?thesis
    unfolding scanExpiredOrders_def Let_def wp_andThen [of "payNow drv"]
    by (rule wp_mono [OF clock]) (auto simp: wp_andThen [of "mapErr _ _"] wp_mapErr intro!: wp_mono [OF find] loop)
qed

lemma wp_CheckExpired:
  assumes inv: "inv s"
  shows "wp (CheckExpiredPendingOrders drv chs products) (\<lambda>_ t. progress s t) (\<lambda>_ t. progress s t) s"
  unfolding CheckExpiredPendingOrders_def wp_simps
proof (rule wp_lock, goal_cases)
  case (1 b t)
  then have t: "progress s t" using inv by (simp add: progress_refl)
  have "wp (scanExpiredOrders drv chs products) (\<lambda>_ u. progress s (snd (UnlockLease drv k u)))
      (\<lambda>_ u. progress s (snd (UnlockLease drv k u))) t" for k
    by (rule wp_mono [OF wp_scan [OF t]]) (use progress_same unlock_law [of k] in blast)+
  with t show ?case by (simp add: wp_simps)
next
  case (2 e t)
  then show ?case using inv by (simp add: progress_refl)
qed

end

end
