(* ===== verification/Aes.thy ===== *)
theory Aes
  imports GoStd
begin

unbundle bit_operations_syntax

text \<open>
  AES-128 (\<open>crypto/aes\<close>) and its CBC mode (\<open>crypto/cipher\<close>), which the server uses to hide the
  player and the order in the fields that Google Play echoes back. A state is the list of its 16
  bytes in input order. The inverse of the substitution table is looked up in the table itself.
\<close>

type_synonym byte = "8 word"

fun indexOf :: "'a list \<Rightarrow> 'a \<Rightarrow> nat option" where
  "indexOf [] y = None"
| "indexOf (x # xs) y = (if x = y then Some 0 else map_option Suc (indexOf xs y))"

lemma indexOf_nth: "distinct xs \<Longrightarrow> i < length xs \<Longrightarrow> indexOf xs (xs ! i) = Some i"
proof (induction xs arbitrary: i)
  case (Cons x xs)
  then show ?case by (cases i) auto
qed simp

section \<open>Steps of a round\<close>

definition sboxTable :: "int list" where
  "sboxTable = [99, 124, 119, 123, 242, 107, 111, 197, 48, 1, 103, 43, 254, 215, 171, 118,
    202, 130, 201, 125, 250, 89, 71, 240, 173, 212, 162, 175, 156, 164, 114, 192,
    183, 253, 147, 38, 54, 63, 247, 204, 52, 165, 229, 241, 113, 216, 49, 21,
    4, 199, 35, 195, 24, 150, 5, 154, 7, 18, 128, 226, 235, 39, 178, 117,
    9, 131, 44, 26, 27, 110, 90, 160, 82, 59, 214, 179, 41, 227, 47, 132,
    83, 209, 0, 237, 32, 252, 177, 91, 106, 203, 190, 57, 74, 76, 88, 207,
    208, 239, 170, 251, 67, 77, 51, 133, 69, 249, 2, 127, 80, 60, 159, 168,
    81, 163, 64, 143, 146, 157, 56, 245, 188, 182, 218, 33, 16, 255, 243, 210,
    205, 12, 19, 236, 95, 151, 68, 23, 196, 167, 126, 61, 100, 93, 25, 115,
    96, 129, 79, 220, 34, 42, 144, 136, 70, 238, 184, 20, 222, 94, 11, 219,
    224, 50, 58, 10, 73, 6, 36, 92, 194, 211, 172, 98, 145, 149, 228, 121,
    231, 200, 55, 109, 141, 213, 78, 169, 108, 86, 244, 234, 101, 122, 174, 8,
    186, 120, 37, 46, 28, 166, 180, 198, 232, 221, 116, 31, 75, 189, 139, 138,
    112, 62, 181, 102, 72, 3, 246, 14, 97, 53, 87, 185, 134, 193, 29, 158,
    225, 248, 152, 17, 105, 217, 142, 148, 155, 30, 135, 233, 206, 85, 40, 223,
    140, 161, 137, 13, 191, 230, 66, 104, 65, 153, 45, 15, 176, 84, 187, 22]"

definition subByte :: "byte \<Rightarrow> byte" where
  "subByte b = word_of_int (sboxTable ! unat b)"

definition invSubByte :: "byte \<Rightarrow> byte" where
  "invSubByte b = (case indexOf sboxTable (uint b) of Some i \<Rightarrow> of_nat i | None \<Rightarrow> 0)"

definition xtime :: "byte \<Rightarrow> byte" where
  "xtime b = push_bit 1 b XOR (if bit b 7 then 0x1b else 0)"

definition pick :: "nat list \<Rightarrow> 'a list \<Rightarrow> 'a list" where
  "pick is s = map (\<lambda>i. s ! i) is"

definition shiftRows :: "byte list \<Rightarrow> byte list" where
  "shiftRows = pick [0, 5, 10, 15, 4, 9, 14, 3, 8, 13, 2, 7, 12, 1, 6, 11]"

definition invShiftRows :: "byte list \<Rightarrow> byte list" where
  "invShiftRows = pick [0, 13, 10, 7, 4, 1, 14, 11, 8, 5, 2, 15, 12, 9, 6, 3]"

definition mul9 :: "byte \<Rightarrow> byte" where "mul9 b = xtime (xtime (xtime b)) XOR b"
definition mul11 :: "byte \<Rightarrow> byte" where "mul11 b = xtime (xtime (xtime b)) XOR xtime b XOR b"
definition mul13 :: "byte \<Rightarrow> byte" where "mul13 b = xtime (xtime (xtime b)) XOR xtime (xtime b) XOR b"
definition mul14 :: "byte \<Rightarrow> byte" where "mul14 b = xtime (xtime (xtime b)) XOR xtime (xtime b) XOR xtime b"

definition mixColumn :: "byte \<Rightarrow> byte \<Rightarrow> byte \<Rightarrow> byte \<Rightarrow> byte list" where
  "mixColumn a b c d =
     [xtime a XOR (xtime b XOR b) XOR c XOR d, a XOR xtime b XOR (xtime c XOR c) XOR d,
      a XOR b XOR xtime c XOR (xtime d XOR d), (xtime a XOR a) XOR b XOR c XOR xtime d]"

definition invMixColumn :: "byte \<Rightarrow> byte \<Rightarrow> byte \<Rightarrow> byte \<Rightarrow> byte list" where
  "invMixColumn a b c d =
     [mul14 a XOR mul11 b XOR mul13 c XOR mul9 d, mul9 a XOR mul14 b XOR mul11 c XOR mul13 d,
      mul13 a XOR mul9 b XOR mul14 c XOR mul11 d, mul11 a XOR mul13 b XOR mul9 c XOR mul14 d]"

fun columns :: "(byte \<Rightarrow> byte \<Rightarrow> byte \<Rightarrow> byte \<Rightarrow> byte list) \<Rightarrow> byte list \<Rightarrow> byte list" where
  "columns f (a # b # c # d # s) = f a b c d @ columns f s"
| "columns f _ = []"

definition addRoundKey :: "byte list \<Rightarrow> byte list \<Rightarrow> byte list" where
  "addRoundKey k s = map2 (XOR) s k"

section \<open>Key schedule\<close>

definition nextKey :: "byte \<Rightarrow> byte list \<Rightarrow> byte list" where
  "nextKey rcon k =
     (let t = [subByte (k ! 13) XOR rcon, subByte (k ! 14), subByte (k ! 15), subByte (k ! 12)];
          w0 = map2 (XOR) (take 4 k) t;
          w1 = map2 (XOR) (take 4 (drop 4 k)) w0;
          w2 = map2 (XOR) (take 4 (drop 8 k)) w1;
          w3 = map2 (XOR) (take 4 (drop 12 k)) w2
      in w0 @ w1 @ w2 @ w3)"

fun expandKey :: "byte list \<Rightarrow> byte list \<Rightarrow> byte list list" where
  "expandKey [] k = []"
| "expandKey (rcon # rcons) k = nextKey rcon k # expandKey rcons (nextKey rcon k)"

definition roundKeys :: "byte list \<Rightarrow> byte list list" where
  "roundKeys k = expandKey [0x01, 0x02, 0x04, 0x08, 0x10, 0x20, 0x40, 0x80, 0x1b, 0x36] k"

section \<open>The cipher\<close>

definition encRound :: "byte list \<Rightarrow> byte list \<Rightarrow> byte list" where
  "encRound k s = addRoundKey k (columns mixColumn (shiftRows (map subByte s)))"

definition decRound :: "byte list \<Rightarrow> byte list \<Rightarrow> byte list" where
  "decRound k s = map invSubByte (invShiftRows (columns invMixColumn (addRoundKey k s)))"

definition encryptBlock :: "byte list \<Rightarrow> byte list \<Rightarrow> byte list" where
  "encryptBlock key s =
     (let ks = roundKeys key in
      addRoundKey (last ks) (shiftRows (map subByte (fold encRound (butlast ks) (addRoundKey key s)))))"

definition decryptBlock :: "byte list \<Rightarrow> byte list \<Rightarrow> byte list" where
  "decryptBlock key s =
     (let ks = roundKeys key in
      addRoundKey key (foldr decRound (butlast ks) (map invSubByte (invShiftRows (addRoundKey (last ks) s)))))"

fun cbcEncrypt :: "byte list \<Rightarrow> byte list \<Rightarrow> byte list list \<Rightarrow> byte list list" where
  "cbcEncrypt key iv [] = []"
| "cbcEncrypt key iv (b # bs) =
     (let c = encryptBlock key (map2 (XOR) b iv) in c # cbcEncrypt key c bs)"

fun cbcDecrypt :: "byte list \<Rightarrow> byte list \<Rightarrow> byte list list \<Rightarrow> byte list list" where
  "cbcDecrypt key iv [] = []"
| "cbcDecrypt key iv (c # cs) = map2 (XOR) (decryptBlock key c) iv # cbcDecrypt key c cs"

section \<open>Decryption inverts encryption\<close>

lemma sbox_distinct: "distinct sboxTable" "length sboxTable = 256"
  unfolding sboxTable_def by code_simp+

lemma sbox_range: "\<forall>x \<in> set sboxTable. 0 \<le> x \<and> x < 256"
  unfolding sboxTable_def by code_simp

lemma invSub_sub [simp]: "invSubByte (subByte b) = b"
proof -
  have i: "unat b < 256" using unsigned_less [of b, where ?'a = nat] by simp
  then have "sboxTable ! unat b \<in> set sboxTable" by (simp add: sbox_distinct)
  then have "uint (subByte b) = sboxTable ! unat b"
    using sbox_range by (auto simp: subByte_def uint_word_of_int)
  with i show ?thesis by (simp add: invSubByte_def indexOf_nth sbox_distinct)
qed

lemma xtime_xor [simp]: "xtime (a XOR b) = xtime a XOR xtime b"
  by (auto simp: xtime_def bit_xor_iff ac_simps)

lemma invMix_mix: "columns invMixColumn (mixColumn a b c d @ s) = [a, b, c, d] @ columns invMixColumn s"
  by (simp add: mixColumn_def invMixColumn_def mul9_def mul11_def mul13_def mul14_def ac_simps)

lemma mapXor_inv [simp]:
  "length k = length s \<Longrightarrow> map2 (XOR) (map2 (XOR) s k) k = (s :: byte list)"
  by (induction k s rule: list_induct2) (simp_all add: xor.assoc)

lemma addRoundKey_inv [simp]: "length k = length s \<Longrightarrow> addRoundKey k (addRoundKey k s) = s"
  by (simp add: addRoundKey_def)

lemma length_addRoundKey [simp]: "length (addRoundKey k s) = min (length s) (length k)"
  by (simp add: addRoundKey_def)

lemma length16E:
  assumes "length s = 16"
  obtains a0 a1 a2 a3 a4 a5 a6 a7 a8 a9 a10 a11 a12 a13 a14 a15
  where "s = [a0, a1, a2, a3, a4, a5, a6, a7, a8, a9, a10, a11, a12, a13, a14, a15]"
  using assms by (auto simp: numeral_eq_Suc length_Suc_conv)

lemma shift_inv: "length s = 16 \<Longrightarrow> invShiftRows (shiftRows s) = s"
  by (erule length16E) (simp add: invShiftRows_def shiftRows_def pick_def)

lemma length_shift [simp]: "length (shiftRows s) = 16"
  by (simp add: shiftRows_def pick_def)

lemma mix_inv: "length s = 16 \<Longrightarrow> columns invMixColumn (columns mixColumn s) = s"
  by (erule length16E) (simp add: invMix_mix invMix_mix [where s = "[]", simplified])

lemma length_mix: "length s = 16 \<Longrightarrow> length (columns mixColumn s) = 16"
  by (erule length16E) (simp add: mixColumn_def)

lemma length_nextKey [simp]: "length k = 16 \<Longrightarrow> length (nextKey rcon k) = 16"
  by (simp add: nextKey_def Let_def)

lemma length_expandKey: "length k = 16 \<Longrightarrow> x \<in> set (expandKey rcons k) \<Longrightarrow> length x = 16"
  by (induction rcons arbitrary: k) (auto dest: length_nextKey)

lemma roundKeys_length: "length k = 16 \<Longrightarrow> x \<in> set (roundKeys k) \<Longrightarrow> length x = 16"
  unfolding roundKeys_def by (rule length_expandKey)

lemma round_inv [simp]: "length k = 16 \<Longrightarrow> length s = 16 \<Longrightarrow> decRound k (encRound k s) = s"
  by (simp add: encRound_def decRound_def length_mix mix_inv shift_inv comp_def)

lemma length_encRound [simp]: "length k = 16 \<Longrightarrow> length (encRound k s) = 16"
  by (simp add: encRound_def length_mix)

lemma length_fold_enc: "\<forall>k \<in> set ks. length k = 16 \<Longrightarrow> length s = 16 \<Longrightarrow> length (fold encRound ks s) = 16"
  by (induction ks arbitrary: s) auto

lemma rounds_inv: "\<forall>k \<in> set ks. length k = 16 \<Longrightarrow> length s = 16 \<Longrightarrow> foldr decRound ks (fold encRound ks s) = s"
  by (induction ks arbitrary: s) auto

lemma roundKeys_not_Nil [simp]: "roundKeys k \<noteq> []"
  by (simp add: roundKeys_def)

theorem decrypt_encryptBlock:
  assumes key: "length key = 16" and s: "length s = 16"
  shows "decryptBlock key (encryptBlock key s) = s"
proof -
  have last: "length (last (roundKeys key)) = 16" by (rule roundKeys_length [OF key]) simp
  have ks: "\<forall>k \<in> set (butlast (roundKeys key)). length k = 16"
    using roundKeys_length [OF key] in_set_butlastD by fast
  show ?thesis
    using key s last length_fold_enc [OF ks] rounds_inv [OF ks]
    by (simp add: encryptBlock_def decryptBlock_def Let_def shift_inv comp_def)
qed

lemma length_encryptBlock [simp]: "length key = 16 \<Longrightarrow> length (encryptBlock key s) = 16"
  using roundKeys_length [of key "last (roundKeys key)"] by (simp add: encryptBlock_def Let_def)

theorem cbc_inv:
  assumes "length key = 16" "length iv = 16" "\<forall>b \<in> set bs. length b = 16"
  shows "cbcDecrypt key iv (cbcEncrypt key iv bs) = bs"
  using assms
proof (induction bs arbitrary: iv)
  case (Cons b bs)
  then show ?case by (simp add: Let_def decrypt_encryptBlock)
qed simp

lemma cbc_lengths: "length key = 16 \<Longrightarrow> \<forall>b \<in> set (cbcEncrypt key iv bs). length b = 16"
  by (induction bs arbitrary: iv) (auto simp: Let_def)

lemma length_cbc [simp]: "length (cbcEncrypt key iv bs) = length bs"
  by (induction bs arbitrary: iv) (auto simp: Let_def)

end
