(* ===== verification/Base64.thy ===== *)
theory Base64
  imports Aes
begin

text \<open>
  Standard padded base64 (\<open>encoding/base64.StdEncoding\<close>): encoding, and decoding the way
  \<open>DecodeString\<close> does it, which skips line breaks, wants complete groups of four and ignores the
  unused bits of a padded group.
\<close>

definition b64Alphabet :: string where
  "b64Alphabet = ''ABCDEFGHIJKLMNOPQRSTUVWXYZabcdefghijklmnopqrstuvwxyz0123456789+/''"

definition b64Char :: "int \<Rightarrow> char" where
  "b64Char n = b64Alphabet ! nat (n mod 64)"

definition b64Value :: "char \<Rightarrow> int option" where
  "b64Value c = map_option int (indexOf b64Alphabet c)"

definition byteOf :: "int \<Rightarrow> byte" where
  "byteOf n = word_of_int n"

fun EncodeToString :: "byte list \<Rightarrow> string" where
  "EncodeToString [] = ''''"
| "EncodeToString [a] =
     (let n = uint a * 65536 in [b64Char (n div 262144), b64Char (n div 4096), CHR ''='', CHR ''='' ])"
| "EncodeToString [a, b] =
     (let n = uint a * 65536 + uint b * 256
      in [b64Char (n div 262144), b64Char (n div 4096), b64Char (n div 64), CHR ''='' ])"
| "EncodeToString (a # b # c # bs) =
     (let n = uint a * 65536 + uint b * 256 + uint c
      in [b64Char (n div 262144), b64Char (n div 4096), b64Char (n div 64), b64Char n] @ EncodeToString bs)"

fun decodeGroups :: "string \<Rightarrow> byte list option" where
  "decodeGroups [] = Some []"
| "decodeGroups (p # q # r # s # rest) =
     (case (b64Value p, b64Value q) of
        (Some w, Some x) \<Rightarrow>
          (if r = CHR ''='' \<and> s = CHR ''='' \<and> rest = [] then Some [byteOf ((w * 262144 + x * 4096) div 65536)]
           else (case b64Value r of
              None \<Rightarrow> None
            | Some y \<Rightarrow>
               (if s = CHR ''='' \<and> rest = []
                then (let n = w * 262144 + x * 4096 + y * 64 in Some [byteOf (n div 65536), byteOf (n div 256)])
                else (case (b64Value s, decodeGroups rest) of
                    (Some z, Some bs) \<Rightarrow>
                      (let n = w * 262144 + x * 4096 + y * 64 + z
                       in Some (byteOf (n div 65536) # byteOf (n div 256) # byteOf n # bs))
                  | _ \<Rightarrow> None))))
      | _ \<Rightarrow> None)"
| "decodeGroups _ = None"

definition DecodeString :: "string \<Rightarrow> byte list option" where
  "DecodeString s = decodeGroups (filter (\<lambda>c. c \<noteq> CHR 0x0A \<and> c \<noteq> CHR 0x0D) s)"

section \<open>Round trip\<close>

lemma alphabet_facts: "distinct b64Alphabet" "length b64Alphabet = 64"
  "CHR ''='' \<notin> set b64Alphabet" "CHR 0x0A \<notin> set b64Alphabet" "CHR 0x0D \<notin> set b64Alphabet"
  unfolding b64Alphabet_def by code_simp+

lemma value_char [simp]: "b64Value (b64Char n) = Some (n mod 64)"
proof -
  have "nat (n mod 64) < 64" by (simp add: nat_less_iff)
  then show ?thesis by (simp add: b64Value_def b64Char_def indexOf_nth alphabet_facts)
qed

lemma char_in: "b64Char n \<in> set b64Alphabet"
  by (simp add: b64Char_def alphabet_facts nat_less_iff)

lemma char_neq [simp]: "b64Char n \<noteq> CHR ''=''" "b64Char n \<noteq> CHR 0x0A" "b64Char n \<noteq> CHR 0x0D"
  using char_in [of n] alphabet_facts by metis+

lemma byte_bound: "uint (b :: byte) < 256"
  using unsigned_less [of b, where ?'a = int] by simp

text \<open>The six-bit digits of a 24-bit group.\<close>

lemma digits64:
  fixes n :: int
  shows "n mod 4096 = 64 * (n div 64 mod 64) + n mod 64"
    "n mod 262144 = 4096 * (n div 4096 mod 64) + n mod 4096"
    "n mod 16777216 = 262144 * (n div 262144 mod 64) + n mod 262144"
  using zmod_zmult2_eq [of 64 n 64] zmod_zmult2_eq [of 64 n 4096] zmod_zmult2_eq [of 64 n 262144] by simp_all

lemma group_value:
  fixes n :: int
  assumes "0 \<le> n" "n < 16777216"
  shows "(n div 262144 mod 64) * 262144 + (n div 4096 mod 64) * 4096 + (n div 64 mod 64) * 64 + n mod 64 = n"
    "n mod 64 = 0 \<Longrightarrow> (n div 262144 mod 64) * 262144 + (n div 4096 mod 64) * 4096 + (n div 64 mod 64) * 64 = n"
    "n mod 4096 = 0 \<Longrightarrow> (n div 262144 mod 64) * 262144 + (n div 4096 mod 64) * 4096 = n"
proof -
  have "n mod 16777216 = n" using assms by simp
  then show "(n div 262144 mod 64) * 262144 + (n div 4096 mod 64) * 4096 + (n div 64 mod 64) * 64 + n mod 64 = n"
    and "n mod 64 = 0 \<Longrightarrow> (n div 262144 mod 64) * 262144 + (n div 4096 mod 64) * 4096 + (n div 64 mod 64) * 64 = n"
    and "n mod 4096 = 0 \<Longrightarrow> (n div 262144 mod 64) * 262144 + (n div 4096 mod 64) * 4096 = n"
    using digits64 [of n] by linarith+
qed

text \<open>The three bytes of a group, read back from its value.\<close>

lemma byteOf_mod:
  assumes "n mod 256 = uint b"
  shows "byteOf n = b"
proof -
  have "uint (byteOf n) = uint b" using assms by (simp add: byteOf_def uint_word_of_int)
  then show ?thesis by (rule unsigned_word_eqI)
qed

lemma group_bytes:
  fixes a b c :: byte
  defines "n \<equiv> uint a * 65536 + uint b * 256 + uint c"
  shows "byteOf (n div 65536) = a" "byteOf (n div 256) = b" "byteOf n = c" "0 \<le> n" "n < 16777216"
proof -
  note bounds = byte_bound [of a] byte_bound [of b] byte_bound [of c] uint_ge_0 [of a] uint_ge_0 [of b] uint_ge_0 [of c]
  have 1: "n div 65536 = uint a"
    using div_mult_self1 [of 65536 "uint b * 256 + uint c" "uint a"] bounds by (simp add: n_def ac_simps)
  have 2: "n div 256 = uint a * 256 + uint b"
    using div_mult_self1 [of 256 "uint c" "uint a * 256 + uint b"] bounds by (simp add: n_def algebra_simps)
  have 3: "n mod 256 = uint c"
    using mod_mult_self1 [of "uint c" "uint a * 256 + uint b" 256] bounds by (simp add: n_def algebra_simps)
  show "byteOf (n div 65536) = a" unfolding 1 using bounds by (intro byteOf_mod) simp
  show "byteOf (n div 256) = b" unfolding 2 using bounds by (intro byteOf_mod) simp
  show "byteOf n = c" using 3 by (rule byteOf_mod)
  show "0 \<le> n" "n < 16777216" using bounds by (simp_all add: n_def)
qed

lemma decode_digits:
  "decodeGroups [b64Char x, b64Char y, CHR ''='', CHR ''='' ] = Some [byteOf ((x mod 64 * 262144 + y mod 64 * 4096) div 65536)]"
  "decodeGroups [b64Char x, b64Char y, b64Char z, CHR ''='' ]
     = Some [byteOf ((x mod 64 * 262144 + y mod 64 * 4096 + z mod 64 * 64) div 65536),
             byteOf ((x mod 64 * 262144 + y mod 64 * 4096 + z mod 64 * 64) div 256)]"
  "decodeGroups rest = Some bs \<Longrightarrow> decodeGroups (b64Char x # b64Char y # b64Char z # b64Char w # rest)
     = Some (byteOf ((x mod 64 * 262144 + y mod 64 * 4096 + z mod 64 * 64 + w mod 64) div 65536)
           # byteOf ((x mod 64 * 262144 + y mod 64 * 4096 + z mod 64 * 64 + w mod 64) div 256)
           # byteOf (x mod 64 * 262144 + y mod 64 * 4096 + z mod 64 * 64 + w mod 64) # bs)"
  by (simp_all add: Let_def)

lemma decode_one:
  "0 \<le> n \<Longrightarrow> n < 16777216 \<Longrightarrow> n mod 4096 = 0 \<Longrightarrow>
   decodeGroups [b64Char (n div 262144), b64Char (n div 4096), CHR ''='', CHR ''='' ] = Some [byteOf (n div 65536)]"
  by (simp only: decode_digits group_value)

lemma decode_two:
  "0 \<le> n \<Longrightarrow> n < 16777216 \<Longrightarrow> n mod 64 = 0 \<Longrightarrow>
   decodeGroups [b64Char (n div 262144), b64Char (n div 4096), b64Char (n div 64), CHR ''='' ]
     = Some [byteOf (n div 65536), byteOf (n div 256)]"
  by (simp only: decode_digits group_value)

lemma decode_three:
  "0 \<le> n \<Longrightarrow> n < 16777216 \<Longrightarrow> decodeGroups rest = Some bs \<Longrightarrow>
   decodeGroups (b64Char (n div 262144) # b64Char (n div 4096) # b64Char (n div 64) # b64Char n # rest)
     = Some (byteOf (n div 65536) # byteOf (n div 256) # byteOf n # bs)"
  by (simp only: decode_digits group_value)

lemma decode_encode_groups: "decodeGroups (EncodeToString bs) = Some bs"
proof (induction bs rule: EncodeToString.induct)
  case 1
  then show ?case by simp
next
  case (2 a)
  let ?n = "uint a * 65536"
  have "?n mod 4096 = 0" using mod_mult_self1_is_0 [of "uint a * 16" 4096] by (simp add: ac_simps)
  then have "decodeGroups [b64Char (?n div 262144), b64Char (?n div 4096), CHR ''='', CHR ''='' ] = Some [byteOf (?n div 65536)]"
    using group_bytes(4,5) [of a 0 0] by (intro decode_one) auto
  then show ?case using group_bytes(1) [of a 0 0] by (simp only: EncodeToString.simps Let_def unsigned_0 mult_zero_left add_0_right)
next
  case (3 a b)
  let ?n = "uint a * 65536 + uint b * 256"
  have "?n mod 64 = 0" using mod_mult_self1_is_0 [of "uint a * 1024 + uint b * 4" 64] by (simp add: algebra_simps)
  then have "decodeGroups [b64Char (?n div 262144), b64Char (?n div 4096), b64Char (?n div 64), CHR ''='' ]
      = Some [byteOf (?n div 65536), byteOf (?n div 256)]"
    using group_bytes(4,5) [of a b 0] by (intro decode_two) auto
  then show ?case using group_bytes(1,2) [of a b 0] by (simp only: EncodeToString.simps Let_def unsigned_0 add_0_right)
next
  case (4 a b c bs)
  show ?case
    unfolding EncodeToString.simps Let_def append_Cons append_Nil
    by (subst decode_three [OF group_bytes(4,5) 4 [OF refl]]) (simp only: group_bytes)
qed

lemma encode_no_newline: "filter (\<lambda>c. c \<noteq> CHR 0x0A \<and> c \<noteq> CHR 0x0D) (EncodeToString bs) = EncodeToString bs"
  by (induction bs rule: EncodeToString.induct) (simp_all add: Let_def)

theorem DecodeString_EncodeToString: "DecodeString (EncodeToString bs) = Some bs"
  by (simp add: DecodeString_def encode_no_newline decode_encode_groups)

lemma encode_chars: "set (EncodeToString bs) \<subseteq> insert (CHR ''='') (set b64Alphabet)"
  by (induction bs rule: EncodeToString.induct) (auto simp: Let_def char_in)

section \<open>The other encodings\<close>

text \<open>
  \<open>URLEncoding\<close> has \<open>-\<close> and \<open>_\<close> in place of \<open>+\<close> and \<open>/\<close>; the raw encodings have no padding, so
  \<open>=\<close> is not allowed in them and a single left-over character is an error.
\<close>

definition urlChar :: "char \<Rightarrow> char" where
  "urlChar c = (if c = CHR ''+'' then CHR ''-'' else if c = CHR ''/'' then CHR ''_'' else c)"

definition stdChar :: "char \<Rightarrow> char" where
  "stdChar c = (if c = CHR ''-'' then CHR ''+'' else if c = CHR ''_'' then CHR ''/''
     else if c = CHR ''+'' \<or> c = CHR ''/'' then CHR ''!'' else c)"

definition RawDecodeString :: "string \<Rightarrow> byte list option" where
  "RawDecodeString s = (let t = filter (\<lambda>c. c \<noteq> CHR 0x0A \<and> c \<noteq> CHR 0x0D) s in
     if CHR ''='' \<in> set t \<or> length t mod 4 = 1 then None
     else decodeGroups (t @ replicate ((4 - length t mod 4) mod 4) CHR ''=''))"

definition URLDecodeString :: "string \<Rightarrow> byte list option" where
  "URLDecodeString s = DecodeString (map stdChar s)"

definition RawURLDecodeString :: "string \<Rightarrow> byte list option" where
  "RawURLDecodeString s = RawDecodeString (map stdChar s)"

definition RawURLEncodeToString :: "byte list \<Rightarrow> string" where
  "RawURLEncodeToString bs = map urlChar (filter (\<lambda>c. c \<noteq> CHR ''='') (EncodeToString bs))"

lemma length_EncodeToString: "length (EncodeToString bs) \<le> 4 * length bs"
  by (induction bs rule: EncodeToString.induct) (simp_all add: Let_def)

lemma length_RawURL: "length (RawURLEncodeToString bs) \<le> 4 * length bs"
proof -
  have "length (RawURLEncodeToString bs) \<le> length (EncodeToString bs)" by (simp add: RawURLEncodeToString_def)
  with length_EncodeToString [of bs] show ?thesis by simp
qed

lemma RawURL_not_Nil: "bs \<noteq> [] \<Longrightarrow> RawURLEncodeToString bs \<noteq> ''''"
  by (cases bs rule: EncodeToString.cases) (auto simp: RawURLEncodeToString_def Let_def)

end
