(* ===== verification/IapPayload.thy ===== *)
theory IapPayload
  imports Base64 Sha256
begin

unbundle bit_operations_syntax

text \<open>
  The payload fields of \<open>pkg/googleplay/iap/payload.go\<close>: the player and the order are padded,
  encrypted with AES-128-CBC (the key is also the initialisation vector) and base64 encoded.
  \<open>cast.ToString\<close> and \<open>cast.ToUint64\<close> come from a third-party package and are parameters.
\<close>

record Profile =
  pf_OrderID :: uint64
  pf_ProductID :: int

record cast_fns =
  ToString :: "uint64 \<Rightarrow> byte list"
  ToUint64 :: "byte list \<Rightarrow> uint64"

datatype payload_error = KeySizeError | IvLengthPanic | CorruptInputError | PayloadLength | PayloadPadding | ProfileLength

section \<open>Encryption\<close>

definition padTo16 :: "byte list \<Rightarrow> byte list" where
  "padTo16 data = (let padding = 16 - length data mod 16 in data @ replicate padding (of_nat padding))"

definition newCipher :: "byte list \<Rightarrow> payload_error option" where
  "newCipher key = (if length key \<in> {16, 24, 32} then None else Some KeySizeError)"

definition encrypt :: "byte list \<Rightarrow> byte list \<Rightarrow> payload_error + string" where
  "encrypt data key = (case newCipher key of
       Some e \<Rightarrow> Inl e
     | None \<Rightarrow> if length key \<noteq> 16 then Inl IvLengthPanic
         else Inr (EncodeToString (concat (cbcEncrypt key key (chunks 16 (padTo16 data))))))"

definition unpad :: "byte list \<Rightarrow> payload_error + byte list" where
  "unpad data = (let padding = unat (last data) in
     if padding = 0 \<or> 16 < padding \<or> drop (length data - padding) data \<noteq> replicate padding (of_nat padding)
     then Inl PayloadPadding else Inr (take (length data - padding) data))"

definition decrypt :: "string \<Rightarrow> byte list \<Rightarrow> payload_error + byte list" where
  "decrypt val key = (case DecodeString val of
       None \<Rightarrow> Inl CorruptInputError
     | Some data \<Rightarrow> (case newCipher key of
         Some e \<Rightarrow> Inl e
       | None \<Rightarrow> if data = [] \<or> length data mod 16 \<noteq> 0 then Inl PayloadLength
           else if length key \<noteq> 16 then Inl IvLengthPanic
           else unpad (concat (cbcDecrypt key key (chunks 16 data)))))"

section \<open>The two fields\<close>

definition EncryptUid :: "cast_fns \<Rightarrow> uint64 \<Rightarrow> byte list \<Rightarrow> payload_error + string" where
  "EncryptUid cast uid key = encrypt (ToString cast uid) key"

definition DecryptUid :: "cast_fns \<Rightarrow> string \<Rightarrow> byte list \<Rightarrow> payload_error + uint64" where
  "DecryptUid cast val key = (case decrypt val key of Inl e \<Rightarrow> Inl e | Inr data \<Rightarrow> Inr (ToUint64 cast data))"

definition bigEndianBytes :: "nat \<Rightarrow> int \<Rightarrow> byte list" where
  "bigEndianBytes k v = map word_of_int (bigEndian k v)"

definition bytesValue :: "byte list \<Rightarrow> int" where
  "bytesValue bs = foldl (\<lambda>acc b. 256 * acc + uint b) 0 bs"

definition EncryptProfile :: "Profile \<Rightarrow> byte list \<Rightarrow> payload_error + string" where
  "EncryptProfile profile key =
     encrypt (bigEndianBytes 8 (int (pf_OrderID profile)) @ bigEndianBytes 4 (pf_ProductID profile mod 2 ^ 32)) key"

definition DecryptProfile :: "string \<Rightarrow> byte list \<Rightarrow> payload_error + Profile" where
  "DecryptProfile val key = (case decrypt val key of
       Inl e \<Rightarrow> Inl e
     | Inr data \<Rightarrow> if length data \<noteq> 12 then Inl ProfileLength
         else Inr \<lparr>pf_OrderID = nat (bytesValue (take 8 data)), pf_ProductID = wrap32 (bytesValue (drop 8 data))\<rparr>)"

section \<open>Round trips\<close>

lemma concat_chunks: "0 < n \<Longrightarrow> concat (chunks n xs) = xs"
  by (induction n xs rule: chunks.induct) (simp add: chunks.simps)

lemma chunks_lengths:
  "0 < n \<Longrightarrow> length xs mod n = 0 \<Longrightarrow> b \<in> set (chunks n xs) \<Longrightarrow> length b = n"
proof (induction n xs rule: chunks.induct)
  case (1 n xs)
  show ?case
  proof (cases "xs = []")
    case True
    with 1 show ?thesis by (simp add: chunks.simps)
  next
    case False
    then have len: "n \<le> length xs" using 1(2,3) by (metis linorder_not_less length_0_conv mod_less)
    then have "length (drop n xs) mod n = 0" using 1(3) by (simp add: le_mod_geq)
    moreover have "b = take n xs \<or> b \<in> set (chunks n (drop n xs))"
      using 1(2,4) False by (simp add: chunks.simps [of n xs])
    ultimately show ?thesis using 1 False len by auto
  qed
qed

lemma chunks_concat: "0 < n \<Longrightarrow> \<forall>b \<in> set bs. length b = n \<Longrightarrow> chunks n (concat bs) = bs"
proof (induction bs)
  case Nil
  then show ?case by (simp add: chunks.simps)
next
  case (Cons b bs)
  then have "b @ concat bs \<noteq> []" by auto
  with Cons show ?case by (simp add: chunks.simps [of n "b @ concat bs"])
qed

lemma length_concat_blocks: "\<forall>b \<in> set bs. length b = n \<Longrightarrow> length (concat bs) = n * length bs"
  by (induction bs) auto

lemma padTo16_length: "length (padTo16 data) mod 16 = 0" "padTo16 data \<noteq> []"
proof -
  have "length data mod 16 < 16" by simp
  then have "length data + (16 - length data mod 16) = 16 * (length data div 16 + 1)"
    using mult_div_mod_eq [of 16 "length data"] by arith
  then show "length (padTo16 data) mod 16 = 0" by (simp add: padTo16_def Let_def)
  show "padTo16 data \<noteq> []" using \<open>length data mod 16 < 16\<close> by (auto simp: padTo16_def Let_def)
qed

lemma unpad_padTo16: "unpad (padTo16 data) = Inr data"
proof -
  define p where "p = 16 - length data mod 16"
  have p: "0 < p" "p \<le> 16" by (auto simp: p_def)
  have u: "unat (of_nat p :: byte) = p" using p by (simp add: unsigned_of_nat take_bit_eq_mod)
  have "last (data @ replicate p (of_nat p :: byte)) = of_nat p" using p by simp
  with u p show ?thesis by (simp add: unpad_def padTo16_def Let_def p_def [symmetric])
qed

theorem decrypt_encrypt:
  assumes key: "length key = 16"
  shows "\<exists>val. encrypt data key = Inr val \<and> decrypt val key = Inr data"
proof -
  let ?bs = "chunks 16 (padTo16 data)" and ?cs = "cbcEncrypt key key (chunks 16 (padTo16 data))"
  have bs: "\<forall>b \<in> set ?bs. length b = 16" using chunks_lengths [of 16, OF _ padTo16_length(1)] by simp
  have "?bs \<noteq> []" using concat_chunks [of 16 "padTo16 data"] padTo16_length(2) [of data] by auto
  then have "length ?cs \<noteq> 0" by simp
  moreover have cs: "\<forall>b \<in> set ?cs. length b = 16" using key by (rule cbc_lengths)
  ultimately have "0 < length (concat ?cs)" "length (concat ?cs) mod 16 = 0"
    using length_concat_blocks [OF cs] by (simp_all del: length_concat)
  then have "concat ?cs \<noteq> []" "length (concat ?cs) mod 16 = 0" by (simp_all del: length_concat)
  moreover have "chunks 16 (concat ?cs) = ?cs" using cs by (intro chunks_concat) auto
  moreover have "cbcDecrypt key key ?cs = ?bs" using key bs by (intro cbc_inv) auto
  ultimately show ?thesis
    using key by (simp add: encrypt_def decrypt_def newCipher_def DecodeString_EncodeToString concat_chunks unpad_padTo16)
qed

lemma bytesValue_snoc: "bytesValue (bs @ [b]) = 256 * bytesValue bs + uint b"
  by (simp add: bytesValue_def)

lemma bytesValue_bigEndian: "bytesValue (bigEndianBytes k v) = v mod 256 ^ k"
proof (induction k arbitrary: v)
  case 0
  then show ?case by (simp add: bytesValue_def bigEndianBytes_def)
next
  case (Suc k)
  have "v mod 256 ^ Suc k = 256 * (v div 256 mod 256 ^ k) + v mod 256"
    using zmod_zmult2_eq [of "256 ^ k" v 256] by simp
  with Suc show ?case
    by (simp add: bigEndianBytes_def bytesValue_snoc uint_word_of_int)
qed

lemma length_bigEndian [simp]: "length (bigEndian k v) = k"
  by (induction k arbitrary: v) auto

lemma length_bigEndianBytes [simp]: "length (bigEndianBytes k v) = k"
  by (simp add: bigEndianBytes_def)

lemma wrap32_mod: "fits32 x \<Longrightarrow> wrap32 (x mod 2 ^ 32) = x"
proof -
  assume "fits32 x"
  then have "wrap32 x = x" by (simp add: wrap32_def fits32_def)
  moreover have "wrap32 (x mod 2 ^ 32) = wrap32 x" by (simp add: wrap32_def mod_add_left_eq)
  ultimately show ?thesis by simp
qed

lemma profile_roundtrip:
  assumes "length key = 16" and "pf_OrderID profile < 2 ^ 64" and "fits32 (pf_ProductID profile)"
  shows "\<exists>val. EncryptProfile profile key = Inr val \<and> DecryptProfile val key = Inr profile"
proof -
  let ?a = "bigEndianBytes 8 (int (pf_OrderID profile))" and ?b = "bigEndianBytes 4 (pf_ProductID profile mod 2 ^ 32)"
  obtain val where val: "encrypt (?a @ ?b) key = Inr val" "decrypt val key = Inr (?a @ ?b)"
    using decrypt_encrypt [OF assms(1)] by blast
  have "int (pf_OrderID profile) < 2 ^ 64" using assms(2) by simp
  then have "bytesValue ?a = int (pf_OrderID profile)" by (simp add: bytesValue_bigEndian)
  moreover have "wrap32 (bytesValue ?b) = pf_ProductID profile"
    using wrap32_mod [OF assms(3)] by (simp add: bytesValue_bigEndian)
  ultimately show ?thesis
    using val by (simp add: EncryptProfile_def DecryptProfile_def)
qed

text \<open>
  C19: the order that is put into the profile field comes back out of it: for every key of 16
  bytes, order id and product id, encrypting succeeds and decrypting returns the same profile.
\<close>

theorem DecryptProfile_EncryptProfile:
  assumes "length key = 16" and "pf_OrderID profile < 2 ^ 64" and "fits32 (pf_ProductID profile)"
  shows "\<exists>val. EncryptProfile profile key = Inr val \<and> DecryptProfile val key = Inr profile"
  using assms by (rule profile_roundtrip)

theorem DecryptProfile_EncryptProfile_witness:
  "\<exists>val. EncryptProfile \<lparr>pf_OrderID = 77, pf_ProductID = - 5\<rparr> (map of_nat [1..<17]) = Inr val
     \<and> DecryptProfile val (map of_nat [1..<17]) = Inr \<lparr>pf_OrderID = 77, pf_ProductID = - 5\<rparr>"
  by (rule DecryptProfile_EncryptProfile) (simp_all add: fits32_def)


definition decimalCast :: cast_fns where
  "decimalCast = \<lparr>ToString = (\<lambda>n. map (\<lambda>c. of_nat (of_char c)) (decimal n)),
     ToUint64 = (\<lambda>bs. case ParseUint64 (map (\<lambda>b. char_of (unat b)) bs) of None \<Rightarrow> 0 | Some n \<Rightarrow> n)\<rparr>"

lemma char_byte [simp]: "char_of (unat (of_nat (of_char c) :: byte)) = c"
proof -
  have "(of_char c :: nat) < 256" using of_char_mod_256 [of c, where ?'a = nat] by (metis mod_less_divisor zero_less_numeral)
  then have "unat (of_nat (of_char c) :: byte) = of_char c" by (simp add: unsigned_of_nat take_bit_eq_mod)
  then show ?thesis by simp
qed

lemma decimalCast_inv: "n < 2 ^ 64 \<Longrightarrow> ToUint64 decimalCast (ToString decimalCast n) = n"
  by (simp add: decimalCast_def comp_def)


end
