(* ===== verification/GoTime.thy ===== *)
theory GoTime
  imports GoStd
begin

text \<open>
  \<open>time.Parse(time.RFC3339, value)\<close> followed by \<open>Unix()\<close>, the way the Google channel reads the
  timestamps of Google Play. The parser follows \<open>time.Parse\<close>: the hour may have one digit, a
  fraction may follow the seconds and is dropped, an offset may reach 24 hours and 60 minutes,
  and the day must exist in its month.
\<close>

definition digitOf :: "char \<Rightarrow> int option" where
  "digitOf c = (let v = of_char c :: int in if 48 \<le> v \<and> v \<le> 57 then Some (v - 48) else None)"

fun getnum :: "bool \<Rightarrow> string \<Rightarrow> (int \<times> string) option" where
  "getnum fixed (c # s) = (case digitOf c of
       None \<Rightarrow> None
     | Some a \<Rightarrow> (case s of
           d # s' \<Rightarrow> (case digitOf d of
               Some b \<Rightarrow> Some (10 * a + b, s')
             | None \<Rightarrow> if fixed then None else Some (a, s))
         | [] \<Rightarrow> if fixed then None else Some (a, s)))"
| "getnum fixed [] = None"

fun getyear :: "string \<Rightarrow> (int \<times> string) option" where
  "getyear (a # b # c # d # s) = (case (digitOf a, digitOf b, digitOf c, digitOf d) of
       (Some w, Some x, Some y, Some z) \<Rightarrow> Some (1000 * w + 100 * x + 10 * y + z, s)
     | _ \<Rightarrow> None)"
| "getyear _ = None"

definition skipChar :: "char \<Rightarrow> string \<Rightarrow> string option" where
  "skipChar c s = (case s of d # s' \<Rightarrow> if d = c then Some s' else None | [] \<Rightarrow> None)"

definition skipFraction :: "string \<Rightarrow> string" where
  "skipFraction s = (case s of
       p # d # s' \<Rightarrow> if (p = CHR ''.'' \<or> p = CHR '','') \<and> digitOf d \<noteq> None
                     then dropWhile (\<lambda>c. digitOf c \<noteq> None) s' else s
     | _ \<Rightarrow> s)"

definition zoneOffset :: "string \<Rightarrow> (int \<times> string) option" where
  "zoneOffset s = (case s of
       CHR ''Z'' # s' \<Rightarrow> Some (0, s')
     | sg # h1 # h2 # col # m1 # m2 # s' \<Rightarrow>
         (if col \<noteq> CHR '':'' then None
          else (case (getnum True [h1, h2], getnum True [m1, m2]) of
              (Some (hr, _), Some (mm, _)) \<Rightarrow>
                if 24 < hr \<or> 60 < mm then None
                else if sg = CHR ''+'' then Some ((hr * 60 + mm) * 60, s')
                else if sg = CHR ''-'' then Some (- ((hr * 60 + mm) * 60), s')
                else None
            | _ \<Rightarrow> None))
     | _ \<Rightarrow> None)"

definition isLeap :: "int \<Rightarrow> bool" where
  "isLeap y \<longleftrightarrow> y mod 4 = 0 \<and> (y mod 100 \<noteq> 0 \<or> y mod 400 = 0)"

definition daysIn :: "int \<Rightarrow> int \<Rightarrow> int" where
  "daysIn m y = (if m = 2 then (if isLeap y then 29 else 28)
     else if m \<in> {4, 6, 9, 11} then 30 else 31)"

definition daysBefore :: "int \<Rightarrow> int \<Rightarrow> int" where
  "daysBefore m y = sum_list (map (\<lambda>k. daysIn k y) [1..m - 1])"

text \<open>Days since 1970-01-01 of a date of the proleptic Gregorian calendar.\<close>

definition epochDays :: "int \<Rightarrow> int \<Rightarrow> int \<Rightarrow> int" where
  "epochDays y m d =
     365 * (y - 1) + (y - 1) div 4 - (y - 1) div 100 + (y - 1) div 400 + daysBefore m y + (d - 1) - 719162"

definition parseRFC3339 :: "string \<Rightarrow> int option" where
  "parseRFC3339 s =
     Option.bind (getyear s) (\<lambda>(year, s).
     Option.bind (skipChar CHR ''-'' s) (\<lambda>s.
     Option.bind (getnum True s) (\<lambda>(month, s).
     Option.bind (if month < 1 \<or> 12 < month then None else skipChar CHR ''-'' s) (\<lambda>s.
     Option.bind (getnum True s) (\<lambda>(day, s).
     Option.bind (skipChar CHR ''T'' s) (\<lambda>s.
     Option.bind (getnum False s) (\<lambda>(hour, s).
     Option.bind (if 24 \<le> hour then None else skipChar CHR '':'' s) (\<lambda>s.
     Option.bind (getnum True s) (\<lambda>(minute, s).
     Option.bind (if 60 \<le> minute then None else skipChar CHR '':'' s) (\<lambda>s.
     Option.bind (getnum True s) (\<lambda>(sec, s).
     if 60 \<le> sec then None else
     Option.bind (zoneOffset (skipFraction s)) (\<lambda>(offset, s).
     if s \<noteq> [] \<or> day < 1 \<or> daysIn month year < day then None
     else Some (epochDays year month day * 86400 + hour * 3600 + minute * 60 + sec - offset)))))))))))))"

definition googleTimeUnix :: "string \<Rightarrow> int" where
  "googleTimeUnix val = (case parseRFC3339 val of None \<Rightarrow> 0 | Some t \<Rightarrow> t)"

end
