(* ===== verification/GoogleChannel.thy ===== *)
theory GoogleChannel
  imports PaymentFlow IapPayload GoTime
begin

text \<open>
  The Google Play channel, \<open>channel_google.go\<close>. The Google API clients (Android Publisher and
  Pub/Sub) are parameters: actions that return a response or fail. Optional response objects are
  options; the line items of a purchase and its purchase state are always there in a response.
\<close>

section \<open>Responses of the Google API\<close>

record OfferDetails =
  od_Quantity :: int
  od_ConsumptionState :: string

record ProductLineItem =
  li_ProductId :: string
  li_ProductOfferDetails :: "OfferDetails option"

record ProductPurchaseV2 =
  gp_ProductLineItem :: "ProductLineItem list"
  gp_ObfuscatedExternalAccountId :: string
  gp_ObfuscatedExternalProfileId :: string
  gp_OrderId :: string
  gp_TestPurchaseContext :: bool
  gp_PurchaseState :: string
  gp_PurchaseCompletionTime :: string

record Money =
  mo_Units :: int
  mo_Nanos :: int
  mo_CurrencyCode :: string

record RefundEvent =
  re_RefundReason :: string
  re_EventTime :: string

record OrderHistory =
  oh_RefundEvent :: "RefundEvent option"
  oh_CancellationEventTime :: "string option"

record GoogleOrder =
  go_Total :: "Money option"
  go_OrderHistory :: "OrderHistory option"

record PubsubMessage =
  pm_AckId :: string
  pm_Data :: string

record 's google_drv =
  Getproductpurchasev2 :: "string \<Rightarrow> string \<Rightarrow> ('s, unit, ProductPurchaseV2) act"
  OrdersGet :: "string \<Rightarrow> string \<Rightarrow> ('s, unit, GoogleOrder) act"
  Consume :: "string \<Rightarrow> string \<Rightarrow> string \<Rightarrow> ('s, unit, unit) act"
  Pull :: "string \<Rightarrow> int \<Rightarrow> ('s, unit, PubsubMessage list) act"
  Acknowledge :: "string \<Rightarrow> string list \<Rightarrow> ('s, unit, unit) act"

record GoogleChannel =
  gc_packageName :: string
  gc_subscription :: string
  gc_payloadKey :: "byte list"

section \<open>The channel\<close>

definition googleType :: int where "googleType = PaymentTypeGoogle"

definition googleBuildCreateOrderExtra ::
  "cast_fns \<Rightarrow> GoogleChannel \<Rightarrow> BuildCreateOrderParams \<Rightarrow> ('s, channel_error, CreateOrderExtra) act" where
  "googleBuildCreateOrderExtra cast g params =
     (case EncryptUid cast (bp_Uid params) (gc_payloadKey g) of
        Inl _ \<Rightarrow> fail PayloadInvalid
      | Inr accountId \<Rightarrow>
          (case EncryptProfile \<lparr>pf_OrderID = bp_OrderId params, pf_ProductID = bp_ProductId params\<rparr> (gc_payloadKey g) of
             Inl _ \<Rightarrow> fail PayloadInvalid
           | Inr profileID \<Rightarrow> ok \<lparr>ex_AppAccountToken = '''', ex_ObfuscatedAccountID = accountId,
               ex_ObfuscatedProfileID = profileID\<rparr>))"

definition googlePurchaseConsumed :: "ProductPurchaseV2 \<Rightarrow> bool" where
  "googlePurchaseConsumed purchase = (case gp_ProductLineItem purchase of
       [item] \<Rightarrow> (case li_ProductOfferDetails item of
           Some offer \<Rightarrow> od_ConsumptionState offer = ''CONSUMPTION_STATE_CONSUMED''
         | None \<Rightarrow> False)
     | _ \<Rightarrow> False)"

definition googleStatus :: "string \<Rightarrow> int option" where
  "googleStatus state =
     (if state = ''PENDING'' then Some ThirdPartyOrderStatusPending
      else if state = ''PURCHASED'' then Some ThirdPartyOrderStatusPurchased
      else if state = ''CANCELLED'' then Some ThirdPartyOrderStatusCancelled
      else None)"

definition googleOrderFields ::
  "cast_fns \<Rightarrow> GoogleChannel \<Rightarrow> string \<Rightarrow> ProductPurchaseV2 \<Rightarrow> ProductLineItem \<Rightarrow> channel_error + ThirdPartyOrder" where
  "googleOrderFields cast g credential purchase lineItem =
     (case DecryptUid cast (gp_ObfuscatedExternalAccountId purchase) (gc_payloadKey g) of
        Inl _ \<Rightarrow> Inl PayloadInvalid
      | Inr uid \<Rightarrow>
          (case DecryptProfile (gp_ObfuscatedExternalProfileId purchase) (gc_payloadKey g) of
             Inl _ \<Rightarrow> Inl PayloadInvalid
           | Inr profile \<Rightarrow>
               (case googleStatus (gp_PurchaseState purchase) of
                  None \<Rightarrow> Inl (UnknownPurchaseState (gp_PurchaseState purchase))
                | Some status \<Rightarrow> Inr \<lparr>tp_Status = status, tp_InternalOrderId = pf_OrderID profile,
                    tp_InternalProductId = pf_ProductID profile, tp_Uid = uid, tp_OrderId = gp_OrderId purchase,
                    tp_ProductId = li_ProductId lineItem, tp_Credential = credential, tp_AmountUnit = 0,
                    tp_AmountNanos = 0, tp_Currency = '''', 
                    tp_PayAtUnix = googleTimeUnix (gp_PurchaseCompletionTime purchase), tp_RefundAtUnix = 0,
                    tp_RefundReason = '''', tp_IsSandbox = gp_TestPurchaseContext purchase,
                    tp_Consumed = googlePurchaseConsumed purchase\<rparr>)))"

text \<open>The line item, player, order and state of a purchase, checked in the order of \<open>QueryOrder\<close>.\<close>

definition googleOrderInfo ::
  "cast_fns \<Rightarrow> GoogleChannel \<Rightarrow> string \<Rightarrow> ProductPurchaseV2 \<Rightarrow> channel_error + ThirdPartyOrder" where
  "googleOrderInfo cast g credential purchase =
     (case gp_ProductLineItem purchase of
        [lineItem] \<Rightarrow>
          (case li_ProductOfferDetails lineItem of
             Some offer \<Rightarrow> if 1 < od_Quantity offer then Inl (QuantityUnsupported (od_Quantity offer))
                           else googleOrderFields cast g credential purchase lineItem
           | None \<Rightarrow> googleOrderFields cast g credential purchase lineItem)
      | lineItems \<Rightarrow> Inl (NotOneLineItem (length lineItems)))"

definition googleAmount :: "GoogleOrder \<Rightarrow> ThirdPartyOrder \<Rightarrow> ThirdPartyOrder" where
  "googleAmount gord info = (case go_Total gord of
       None \<Rightarrow> info
     | Some money \<Rightarrow> info\<lparr>tp_AmountUnit := mo_Units money, tp_AmountNanos := wrap32 (mo_Nanos money),
         tp_Currency := mo_CurrencyCode money\<rparr>)"

definition googleRefund :: "GoogleOrder \<Rightarrow> ThirdPartyOrder \<Rightarrow> ThirdPartyOrder" where
  "googleRefund gord info = (case go_OrderHistory gord of
       None \<Rightarrow> info
     | Some history \<Rightarrow>
         (let info1 = (case oh_RefundEvent history of
                 None \<Rightarrow> info
               | Some e \<Rightarrow> info\<lparr>tp_RefundReason := re_RefundReason e, tp_RefundAtUnix := googleTimeUnix (re_EventTime e)\<rparr>)
          in case oh_CancellationEventTime history of
               None \<Rightarrow> info1
             | Some t \<Rightarrow> if tp_RefundAtUnix info1 = 0 then info1\<lparr>tp_RefundAtUnix := googleTimeUnix t\<rparr> else info1))"

definition googleQueryOrder ::
  "cast_fns \<Rightarrow> 's google_drv \<Rightarrow> GoogleChannel \<Rightarrow> string \<Rightarrow> ('s, channel_error, ThirdPartyOrder option) act" where
  "googleQueryOrder cast api g credential =
     andThen (mapErr (\<lambda>_. ApiFailure) (Getproductpurchasev2 api (gc_packageName g) credential)) (\<lambda>purchase.
     case googleOrderInfo cast g credential purchase of
       Inl e \<Rightarrow> fail e
     | Inr info \<Rightarrow>
         if gp_OrderId purchase = '''' then ok (Some info)
         else andThen (mapErr (\<lambda>_. ApiFailure) (OrdersGet api (gc_packageName g) (gp_OrderId purchase))) (\<lambda>gord.
           ok (Some (googleRefund gord (googleAmount gord info)))))"

definition googleComplete ::
  "'s google_drv \<Rightarrow> GoogleChannel \<Rightarrow> ThirdPartyOrder \<Rightarrow> ('s, channel_error, unit) act" where
  "googleComplete api g tp =
     (if tp_Consumed tp then ok ()
      else andThen (attempt (Consume api (gc_packageName g) (tp_ProductId tp) (tp_Credential tp))) (\<lambda>consumed.
        case consumed of
          Inr _ \<Rightarrow> ok ()
        | Inl _ \<Rightarrow> andThen (attempt (Getproductpurchasev2 api (gc_packageName g) (tp_Credential tp))) (\<lambda>queried.
            case queried of
              Inr purchase \<Rightarrow> if googlePurchaseConsumed purchase then ok () else fail ApiFailure
            | Inl _ \<Rightarrow> fail ApiFailure)))"

definition googleFindOrBind ::
  "'s order_drv \<Rightarrow> uint64 \<Rightarrow> string \<Rightarrow> ThirdPartyOrder \<Rightarrow> ('s, channel_error, PaymentOrder option) act" where
  "googleFindOrBind drv uid credential info =
     (if tp_Uid info \<noteq> uid then fail (UserMismatch uid (tp_Uid info))
      else mapErr ChannelStoreErr (andThen (FindAndBindOrder drv uid PaymentTypeGoogle (tp_InternalOrderId info)
        (tp_InternalProductId info) credential (tp_OrderId info)) (\<lambda>row. ok (Some row))))"

definition googleParseCallback :: "'r \<Rightarrow> ('s, channel_error, string option) act" where
  "googleParseCallback req = fail CallbackUnsupported"

definition googleChannel ::
  "cast_fns \<Rightarrow> 's google_drv \<Rightarrow> 's order_drv \<Rightarrow> GoogleChannel \<Rightarrow> 's PaymentChannel" where
  "googleChannel cast api drv g = \<lparr>ch_Type = googleType,
     ch_BuildCreateOrderExtra = googleBuildCreateOrderExtra cast g,
     ch_QueryOrder = googleQueryOrder cast api g,
     ch_Complete = googleComplete api g,
     ch_FindOrBind = googleFindOrBind drv\<rparr>"

section \<open>Start-up\<close>

record GoogleConfig =
  cf_PackageName :: string
  cf_Credentials :: RawMessage
  cf_PubSubSubscription :: string

text \<open>
  Parsing the service account and creating the two API services are third-party calls that may
  fail; \<open>JWTConfigFromJSON\<close> yields the private key of the account.
\<close>

record google_setup =
  JWTConfigFromJSON :: "RawMessage \<Rightarrow> string option"
  NewPublisher :: bool
  NewPubsub :: bool

datatype init_error = BadServiceAccount | NoPublisher | NoPubsub

definition payloadKeyOf :: "string \<Rightarrow> byte list" where
  "payloadKeyOf privateKey = take 16 (map word_of_int (Sum256 privateKey))"

definition InitGoogleChannel ::
  "google_setup \<Rightarrow> GoogleConfig \<Rightarrow> (GoogleChannel \<Rightarrow> 's PaymentChannel) \<Rightarrow> 's channels \<Rightarrow> init_error + 's channels" where
  "InitGoogleChannel setup cfg mk chs =
     (if cf_PackageName cfg = '''' then Inr chs
      else (case JWTConfigFromJSON setup (cf_Credentials cfg) of
         None \<Rightarrow> Inl BadServiceAccount
       | Some privateKey \<Rightarrow>
           if \<not> NewPublisher setup then Inl NoPublisher
           else if \<not> NewPubsub setup then Inl NoPubsub
           else Inr (RegisterChannel (mk \<lparr>gc_packageName = cf_PackageName cfg,
               gc_subscription = cf_PubSubSubscription cfg, gc_payloadKey = payloadKeyOf privateKey\<rparr>) chs)))"

section \<open>The channel keeps the channel contract\<close>

text \<open>
  \<open>purchases token p\<close> says that Google may report the purchase \<open>p\<close> for the token. What the channel
  reports of an order is what the purchase says of it; the order resource adds amounts and the refund.
\<close>

definition googleReports ::
  "cast_fns \<Rightarrow> GoogleChannel \<Rightarrow> (string \<Rightarrow> ProductPurchaseV2 \<Rightarrow> bool) \<Rightarrow> string \<Rightarrow> ThirdPartyOrder \<Rightarrow> bool" where
  "googleReports cast g purchases cred tp \<longleftrightarrow> (\<exists>p info. purchases cred p \<and> googleOrderInfo cast g cred p = Inr info
     \<and> tp_Status tp = tp_Status info \<and> tp_InternalOrderId tp = tp_InternalOrderId info \<and> tp_Uid tp = tp_Uid info
     \<and> tp_InternalProductId tp = tp_InternalProductId info \<and> tp_ProductId tp = tp_ProductId info
     \<and> tp_OrderId tp = tp_OrderId info \<and> tp_Credential tp = cred)"

lemma details_keep:
  "tp_Status (googleRefund gord (googleAmount gord info)) = tp_Status info"
  "tp_InternalOrderId (googleRefund gord (googleAmount gord info)) = tp_InternalOrderId info"
  "tp_Uid (googleRefund gord (googleAmount gord info)) = tp_Uid info"
  "tp_InternalProductId (googleRefund gord (googleAmount gord info)) = tp_InternalProductId info"
  "tp_ProductId (googleRefund gord (googleAmount gord info)) = tp_ProductId info"
  "tp_OrderId (googleRefund gord (googleAmount gord info)) = tp_OrderId info"
  "tp_Credential (googleRefund gord (googleAmount gord info)) = tp_Credential info"
  by (auto simp: googleRefund_def googleAmount_def Let_def split: option.split)

lemma info_credential: "googleOrderInfo cast g cred p = Inr info \<Longrightarrow> tp_Credential info = cred"
  by (auto simp: googleOrderInfo_def googleOrderFields_def split: list.splits option.splits sum.splits if_splits)

locale google_api = order_env mf drv ords hist
  for mf :: bool and drv :: "'s pay_drv" and ords :: "'s \<Rightarrow> PaymentOrder list" and hist :: "'s \<Rightarrow> QTask list" +
  fixes api :: "'s google_drv" and purchases :: "string \<Rightarrow> ProductPurchaseV2 \<Rightarrow> bool"
  assumes purchase_law: "wp (Getproductpurchasev2 api pkg cred)
      (\<lambda>p t. purchases cred p \<and> ords t = ords s \<and> hist t = hist s) (\<lambda>_ t. ords t = ords s \<and> hist t = hist s) s"
    and orders_get_law: "wp (OrdersGet api pkg i) (\<lambda>_ t. ords t = ords s \<and> hist t = hist s) (\<lambda>_ t. ords t = ords s \<and> hist t = hist s) s"
    and consume_law: "wp (Consume api pkg pid cred) (\<lambda>_ t. ords t = ords s \<and> hist t = hist s) (\<lambda>_ t. ords t = ords s \<and> hist t = hist s) s"
    and pull_law: "wp (Pull api sub n) (\<lambda>_ t. ords t = ords s \<and> hist t = hist s) (\<lambda>_ t. ords t = ords s \<and> hist t = hist s) s"
    and acknowledge_law: "wp (Acknowledge api sub ids) (\<lambda>_ t. ords t = ords s \<and> hist t = hist s) (\<lambda>_ t. ords t = ords s \<and> hist t = hist s) s"
begin

lemma wp_googleQuery:
  "wp (googleQueryOrder cast api g cred)
     (\<lambda>r t. ords t = ords s \<and> hist t = hist s \<and> (\<exists>tp. r = Some tp \<and> googleReports cast g purchases cred tp))
     (\<lambda>_ t. ords t = ords s \<and> hist t = hist s) s"
  unfolding googleQueryOrder_def wp_andThen wp_mapErr
proof (rule wp_mono [OF purchase_law], goal_cases)
  case (1 p t)
  show ?case
  proof (cases "googleOrderInfo cast g cred p")
    case (Inl e)
    with 1 show ?thesis by (simp add: wp_simps)
  next
    case (Inr info)
    then have i: "googleReports cast g purchases cred info"
      using 1 info_credential by (auto simp: googleReports_def)
    have "googleReports cast g purchases cred (googleRefund gord (googleAmount gord info))" for gord
      using 1 Inr info_credential [OF Inr] unfolding googleReports_def details_keep by blast
    then have "wp (OrdersGet api (gc_packageName g) (gp_OrderId p))
        (\<lambda>gord t. ords t = ords s \<and> hist t = hist s \<and> googleReports cast g purchases cred (googleRefund gord (googleAmount gord info)))
        (\<lambda>_ t. ords t = ords s \<and> hist t = hist s) t"
      using 1 by (intro wp_mono [OF orders_get_law [of _ _ t]]) auto
    with 1 i Inr show ?thesis by (simp add: wp_simps)
  qed
qed auto

lemma wp_googleComplete:
  "wp (googleComplete api g tp) (\<lambda>_ t. ords t = ords s \<and> hist t = hist s) (\<lambda>_ t. ords t = ords s \<and> hist t = hist s) s"
proof -
  have "wp (Getproductpurchasev2 api pkg cred)
      (\<lambda>p. wp (if googlePurchaseConsumed p then ok () else fail ApiFailure)
        (\<lambda>_ t. ords t = ords s \<and> hist t = hist s) (\<lambda>_ t. ords t = ords s \<and> hist t = hist s))
      (\<lambda>_ t. ords t = ords s \<and> hist t = hist s) t" if "ords t = ords s \<and> hist t = hist s" for pkg cred t
    by (rule wp_mono [OF purchase_law [of _ _ t]]) (use that in \<open>auto simp: wp_simps\<close>)
  then show ?thesis
    unfolding googleComplete_def by (auto simp: wp_simps intro!: wp_mono [OF consume_law])
qed

lemma wp_googleFindOrBind:
  assumes good: "goodOrders (ords s)"
  shows "wp (googleFindOrBind (od drv) uid cred tp)
     (\<lambda>r t. calm s t \<and> (\<exists>x. r = Some x \<and> x \<in> set (ords t) \<and> tp_Uid tp = uid
        \<and> boundTo uid PaymentTypeGoogle (tp_InternalOrderId tp) (tp_InternalProductId tp) cred (tp_OrderId tp) x))
     (\<lambda>_ t. calm s t) s"
  unfolding googleFindOrBind_def
  using good by (auto simp: wp_simps calm_refl intro!: wp_mono [OF wp_FindAndBind [OF good]])

end

sublocale google_api \<subseteq> google: payment_channel mf drv ords hist "googleReports cast g purchases" "googleChannel cast api (od drv) g"
  for cast g
proof (unfold_locales, goal_cases)
  case (1 cred s)
  show ?case
    unfolding googleChannel_def PaymentChannel.simps by (rule wp_mono [OF wp_googleQuery [of cast g cred s]]) auto
next
  case (2 tp s)
  show ?case
    unfolding googleChannel_def PaymentChannel.simps
    by (rule wp_frame [where I = "\<lambda>t. ords t = ords s \<and> hist t = hist s"], rule wp_googleComplete)
next
  case (3 p s)
  show ?case
    by (simp add: googleChannel_def googleBuildCreateOrderExtra_def ok_def fail_def split: sum.split)
next
  case (4 s uid cred tp)
  show ?case
    unfolding googleChannel_def PaymentChannel.simps
    by (rule wp_mono [OF wp_googleFindOrBind [OF 4]]) (auto simp: calm_def boundTo_def googleType_def)
qed

end
