(* ===== verification/JsonText.thy ===== *)
theory JsonText
  imports Json
begin

text \<open>
  The text layer of \<open>encoding/json\<close>: \<open>parseJson\<close> reads one JSON value and wants nothing after it
  but white space, as \<open>json.Unmarshal\<close> does. Escapes become UTF-8, an unpaired surrogate becomes
  the replacement character. A value is read with fuel; every nested value is shorter than the
  text around it, so the length of the text is enough. The input is assumed to be valid UTF-8.
\<close>

definition isSpace :: "char \<Rightarrow> bool" where
  "isSpace c \<longleftrightarrow> c = CHR 0x20 \<or> c = CHR 0x09 \<or> c = CHR 0x0A \<or> c = CHR 0x0D"

definition skipSpace :: "string \<Rightarrow> string" where
  "skipSpace s = dropWhile isSpace s"

definition hexVal :: "char \<Rightarrow> int option" where
  "hexVal c = (let v = of_char c :: int in
     if 48 \<le> v \<and> v \<le> 57 then Some (v - 48)
     else if 97 \<le> v \<and> v \<le> 102 then Some (v - 87)
     else if 65 \<le> v \<and> v \<le> 70 then Some (v - 55) else None)"

definition hex4 :: "char \<Rightarrow> char \<Rightarrow> char \<Rightarrow> char \<Rightarrow> int option" where
  "hex4 a b c d = (case (hexVal a, hexVal b, hexVal c, hexVal d) of
       (Some w, Some x, Some y, Some z) \<Rightarrow> Some (4096 * w + 256 * x + 16 * y + z)
     | _ \<Rightarrow> None)"

definition utf8 :: "int \<Rightarrow> string" where
  "utf8 v = map char_of
     (if v < 128 then [v]
      else if v < 2048 then [192 + v div 64, 128 + v mod 64]
      else if v < 65536 then [224 + v div 4096, 128 + v div 64 mod 64, 128 + v mod 64]
      else [240 + v div 262144, 128 + v div 4096 mod 64, 128 + v div 64 mod 64, 128 + v mod 64])"

definition simpleEscape :: "char \<Rightarrow> char option" where
  "simpleEscape c = (if c \<in> {CHR 0x22, CHR 0x5C, CHR ''/''} then Some c
     else if c = CHR ''b'' then Some CHR 0x08 else if c = CHR ''f'' then Some CHR 0x0C
     else if c = CHR ''n'' then Some CHR 0x0A else if c = CHR ''r'' then Some CHR 0x0D
     else if c = CHR ''t'' then Some CHR 0x09 else None)"

definition lowSurrogate :: "string \<Rightarrow> (int \<times> string) option" where
  "lowSurrogate s = (case s of
       b # u # e # f # g # h # s' \<Rightarrow>
         (if b = CHR 0x5C \<and> u = CHR ''u'' then
            (case hex4 e f g h of
               Some v \<Rightarrow> if 0xDC00 \<le> v \<and> v < 0xE000 then Some (v, s') else None
             | None \<Rightarrow> None)
          else None)
     | _ \<Rightarrow> None)"

lemma lowSurrogate_length: "lowSurrogate s = Some (v, s') \<Longrightarrow> length s' < length s"
  by (auto simp: lowSurrogate_def split: list.splits if_splits option.splits)

function (sequential) strBody :: "string \<Rightarrow> (string \<times> string) option" where
  "strBody [] = None"
| "strBody (c # s) =
     (if c = CHR 0x22 then Some ('''', s)
      else if c = CHR 0x5C then
        (case s of
           u # e # f # g # h # s' \<Rightarrow>
             (if u = CHR ''u'' then
                (case hex4 e f g h of
                   None \<Rightarrow> None
                 | Some v \<Rightarrow>
                     (if 0xD800 \<le> v \<and> v < 0xDC00 then
                        (case lowSurrogate s' of
                           Some (w, s'') \<Rightarrow> map_option (apfst ((@) (utf8 (0x10000 + (v - 0xD800) * 1024 + (w - 0xDC00))))) (strBody s'')
                         | None \<Rightarrow> map_option (apfst ((@) (utf8 0xFFFD))) (strBody s'))
                      else if 0xDC00 \<le> v \<and> v < 0xE000 then map_option (apfst ((@) (utf8 0xFFFD))) (strBody s')
                      else map_option (apfst ((@) (utf8 v))) (strBody s')))
              else (case simpleEscape u of
                      Some d \<Rightarrow> map_option (apfst ((#) d)) (strBody (e # f # g # h # s'))
                    | None \<Rightarrow> None))
         | u # rest \<Rightarrow> (case simpleEscape u of
                      Some d \<Rightarrow> map_option (apfst ((#) d)) (strBody rest)
                    | None \<Rightarrow> None)
         | [] \<Rightarrow> None)
      else if (of_char c :: int) < 32 then None
      else map_option (apfst ((#) c)) (strBody s))"
  by pat_completeness auto
termination
  by (relation "measure length") (auto dest: lowSurrogate_length)

definition isDigitC :: "char \<Rightarrow> bool" where
  "isDigitC c \<longleftrightarrow> (let v = of_char c :: int in 48 \<le> v \<and> v \<le> 57)"

definition decValue :: "string \<Rightarrow> int" where
  "decValue s = foldl (\<lambda>acc c. 10 * acc + (of_char c - 48)) 0 s"

definition fracPart :: "string \<Rightarrow> (string \<times> string) option" where
  "fracPart s = (case s of
       CHR ''.'' # s' \<Rightarrow> (if takeWhile isDigitC s' = [] then None
          else Some (CHR ''.'' # takeWhile isDigitC s', dropWhile isDigitC s'))
     | _ \<Rightarrow> Some ('''', s))"

definition expPart :: "string \<Rightarrow> (string \<times> string) option" where
  "expPart s = (case s of
       e # s' \<Rightarrow> (if e \<noteq> CHR ''e'' \<and> e \<noteq> CHR ''E'' then Some ('''', s)
          else let (sg, t) = (case s' of d # t \<Rightarrow> if d = CHR ''+'' \<or> d = CHR ''-'' then ([d], t) else ('''', s') | [] \<Rightarrow> ('''', s'))
               in if takeWhile isDigitC t = [] then None
                  else Some (e # sg @ takeWhile isDigitC t, dropWhile isDigitC t))
     | [] \<Rightarrow> Some ('''', s))"

definition parseNumber :: "string \<Rightarrow> (json \<times> string) option" where
  "parseNumber s =
     (let (neg, s1) = (case s of CHR ''-'' # s' \<Rightarrow> (True, s') | _ \<Rightarrow> (False, s));
          ds = takeWhile isDigitC s1
      in if ds = [] then None
         else let whole = (if hd ds = CHR ''0'' then [CHR ''0''] else ds);
                  s2 = drop (length whole) s1
              in Option.bind (fracPart s2) (\<lambda>(fp, s3). Option.bind (expPart s3) (\<lambda>(ep, s4).
                   if fp = '''' \<and> ep = '''' then Some (JInt (if neg then - decValue whole else decValue whole), s4)
                   else Some (JFloat ((if neg then ''-'' else '''') @ whole @ fp @ ep), s4))))"

definition literal :: "string \<Rightarrow> json \<Rightarrow> string \<Rightarrow> (json \<times> string) option" where
  "literal w v s = (if take (length w) s = w then Some (v, drop (length w) s) else None)"

fun parseValue :: "nat \<Rightarrow> string \<Rightarrow> (json \<times> string) option"
and parseElems :: "nat \<Rightarrow> string \<Rightarrow> (json list \<times> string) option"
and parseFields :: "nat \<Rightarrow> string \<Rightarrow> ((string \<times> json) list \<times> string) option" where
  "parseValue 0 s = None"
| "parseValue (Suc n) s = (case skipSpace s of
       [] \<Rightarrow> None
     | c # s' \<Rightarrow>
        (if c = CHR 0x7B then
           (case skipSpace s' of
              d # s'' \<Rightarrow> if d = CHR 0x7D then Some (JObj [], s'')
                          else map_option (apfst JObj) (parseFields n (d # s''))
            | [] \<Rightarrow> None)
         else if c = CHR 0x5B then
           (case skipSpace s' of
              d # s'' \<Rightarrow> if d = CHR 0x5D then Some (JArr [], s'')
                          else map_option (apfst JArr) (parseElems n (d # s''))
            | [] \<Rightarrow> None)
         else if c = CHR 0x22 then map_option (apfst JStr) (strBody s')
         else if c = CHR ''n'' then literal ''null'' JNull (c # s')
         else if c = CHR ''t'' then literal ''true'' (JBool True) (c # s')
         else if c = CHR ''f'' then literal ''false'' (JBool False) (c # s')
         else parseNumber (c # s')))"
| "parseElems 0 s = None"
| "parseElems (Suc n) s = Option.bind (parseValue n s) (\<lambda>(v, s1).
     case skipSpace s1 of
       d # s2 \<Rightarrow> if d = CHR '','' then map_option (apfst ((#) v)) (parseElems n s2)
                  else if d = CHR 0x5D then Some ([v], s2) else None
     | [] \<Rightarrow> None)"
| "parseFields 0 s = None"
| "parseFields (Suc n) s = (case skipSpace s of
       q # s0 \<Rightarrow> (if q \<noteq> CHR 0x22 then None else
         Option.bind (strBody s0) (\<lambda>(k, s1). case skipSpace s1 of
            col # s2 \<Rightarrow> (if col \<noteq> CHR '':'' then None else
              Option.bind (parseValue n s2) (\<lambda>(v, s3). case skipSpace s3 of
                d # s4 \<Rightarrow> if d = CHR '','' then map_option (apfst ((#) (k, v))) (parseFields n s4)
                           else if d = CHR 0x7D then Some ([(k, v)], s4) else None
              | [] \<Rightarrow> None))
          | [] \<Rightarrow> None))
     | [] \<Rightarrow> None)"

definition parseJson :: "string \<Rightarrow> json option" where
  "parseJson s = (case parseValue (2 * length s + 2) s of
       Some (v, rest) \<Rightarrow> if skipSpace rest = [] then Some v else None
     | None \<Rightarrow> None)"

end
