(* ===== verification/GoogleRtdn.thy ===== *)
theory GoogleRtdn
  imports GoogleChannel JsonText
begin

text \<open>
  The pull of Google Play's real-time developer notifications, \<open>rtdn_google.go\<close>: messages are
  decoded, dispatched by kind, and processed under the player's lock; a message is acknowledged
  when it was dealt with or can never be.
\<close>

section \<open>Notifications\<close>

record googleVoidedPurchaseNotification =
  vn_PurchaseToken :: string
  vn_ProductType :: int

record googleDeveloperNotification =
  dn_PackageName :: string
  dn_OneTimeProductNotification :: "string option"
  dn_VoidedPurchaseNotification :: "googleVoidedPurchaseNotification option"
  dn_TestNotification :: RawMessage

definition jsonStr :: "json \<Rightarrow> string \<Rightarrow> json_error + string" where
  "jsonStr v old = (case v of JNull \<Rightarrow> Inr old | JStr s \<Rightarrow> Inr s | _ \<Rightarrow> Inl UnmarshalTypeError)"

definition jsonInt32 :: "json \<Rightarrow> int \<Rightarrow> json_error + int" where
  "jsonInt32 v old = (case v of JNull \<Rightarrow> Inr old
     | JInt n \<Rightarrow> if fits32 n then Inr n else Inl UnmarshalTypeError | _ \<Rightarrow> Inl UnmarshalTypeError)"

fun oneTimeFields :: "(string \<times> json) list \<Rightarrow> string \<Rightarrow> json_error + string" where
  "oneTimeFields [] t = Inr t"
| "oneTimeFields ((k, v) # kvs) t =
     (if foldName k = ''purchasetoken'' then
        (case jsonStr v t of Inl e \<Rightarrow> Inl e | Inr t' \<Rightarrow> oneTimeFields kvs t')
      else oneTimeFields kvs t)"

fun voidedFields ::
  "(string \<times> json) list \<Rightarrow> googleVoidedPurchaseNotification \<Rightarrow> json_error + googleVoidedPurchaseNotification" where
  "voidedFields [] n = Inr n"
| "voidedFields ((k, v) # kvs) n =
     (if foldName k = ''purchasetoken'' then
        (case jsonStr v (vn_PurchaseToken n) of Inl e \<Rightarrow> Inl e | Inr t \<Rightarrow> voidedFields kvs (n\<lparr>vn_PurchaseToken := t\<rparr>))
      else if foldName k = ''producttype'' then
        (case jsonInt32 v (vn_ProductType n) of Inl e \<Rightarrow> Inl e | Inr t \<Rightarrow> voidedFields kvs (n\<lparr>vn_ProductType := t\<rparr>))
      else voidedFields kvs n)"

definition setOneTime :: "json \<Rightarrow> string option \<Rightarrow> json_error + string option" where
  "setOneTime v old = (case v of
       JNull \<Rightarrow> Inr None
     | JObj kvs \<Rightarrow> (case oneTimeFields kvs (case old of None \<Rightarrow> '''' | Some t \<Rightarrow> t) of Inl e \<Rightarrow> Inl e | Inr t \<Rightarrow> Inr (Some t))
     | _ \<Rightarrow> Inl UnmarshalTypeError)"

definition setVoided ::
  "json \<Rightarrow> googleVoidedPurchaseNotification option \<Rightarrow> json_error + googleVoidedPurchaseNotification option" where
  "setVoided v old = (case v of
       JNull \<Rightarrow> Inr None
     | JObj kvs \<Rightarrow> (case voidedFields kvs (case old of None \<Rightarrow> \<lparr>vn_PurchaseToken = '''', vn_ProductType = 0\<rparr> | Some n \<Rightarrow> n)
         of Inl e \<Rightarrow> Inl e | Inr n \<Rightarrow> Inr (Some n))
     | _ \<Rightarrow> Inl UnmarshalTypeError)"

fun notificationFields ::
  "(string \<times> json) list \<Rightarrow> googleDeveloperNotification \<Rightarrow> json_error + googleDeveloperNotification" where
  "notificationFields [] n = Inr n"
| "notificationFields ((k, v) # kvs) n =
     (if foldName k = ''packagename'' then
        (case jsonStr v (dn_PackageName n) of Inl e \<Rightarrow> Inl e | Inr t \<Rightarrow> notificationFields kvs (n\<lparr>dn_PackageName := t\<rparr>))
      else if foldName k = ''onetimeproductnotification'' then
        (case setOneTime v (dn_OneTimeProductNotification n) of
           Inl e \<Rightarrow> Inl e | Inr t \<Rightarrow> notificationFields kvs (n\<lparr>dn_OneTimeProductNotification := t\<rparr>))
      else if foldName k = ''voidedpurchasenotification'' then
        (case setVoided v (dn_VoidedPurchaseNotification n) of
           Inl e \<Rightarrow> Inl e | Inr t \<Rightarrow> notificationFields kvs (n\<lparr>dn_VoidedPurchaseNotification := t\<rparr>))
      else if foldName k = ''testnotification'' then notificationFields kvs (n\<lparr>dn_TestNotification := Some v\<rparr>)
      else notificationFields kvs n)"

definition emptyNotification :: googleDeveloperNotification where
  "emptyNotification = \<lparr>dn_PackageName = '''', dn_OneTimeProductNotification = None,
     dn_VoidedPurchaseNotification = None, dn_TestNotification = None\<rparr>"

definition unmarshalNotification :: "string \<Rightarrow> googleDeveloperNotification option" where
  "unmarshalNotification text = (case parseJson text of
       Some JNull \<Rightarrow> Some emptyNotification
     | Some (JObj kvs) \<Rightarrow> (case notificationFields kvs emptyNotification of Inl _ \<Rightarrow> None | Inr n \<Rightarrow> Some n)
     | _ \<Rightarrow> None)"

section \<open>Processing\<close>

datatype rtdn_error = RtdnChannel channel_error | RtdnLock | RtdnLockHeld | RtdnProduct | RtdnProcess Error | RtdnWaiting | RtdnNil

definition settleRTDNOrder ::
  "cast_fns \<Rightarrow> 's google_drv \<Rightarrow> 's pay_drv \<Rightarrow> (int \<rightharpoonup> Product) \<Rightarrow> GoogleChannel \<Rightarrow> string \<Rightarrow> ThirdPartyOrder
   \<Rightarrow> ('s, rtdn_error, unit) act" where
  "settleRTDNOrder cast api drv products g purchaseToken tp =
     andThen (mapErr RtdnChannel (googleFindOrBind (od drv) (tp_Uid tp) purchaseToken tp)) (\<lambda>bound.
     case bound of
       None \<Rightarrow> fail RtdnNil
     | Some row \<Rightarrow>
         if tp_ProductId tp \<noteq> po_ThirdPartyProductID row then fail RtdnProduct
         else andThen (mapErr RtdnProcess (ProcessOrderWithoutLock drv products (googleChannel cast api (od drv) g) row tp)) (\<lambda>result.
           if result = OrderProcessWaiting then fail RtdnWaiting else ok ()))"

definition processGoogleRTDNCredential ::
  "cast_fns \<Rightarrow> 's google_drv \<Rightarrow> 's pay_drv \<Rightarrow> (int \<rightharpoonup> Product) \<Rightarrow> GoogleChannel \<Rightarrow> string \<Rightarrow> ('s, rtdn_error, unit) act" where
  "processGoogleRTDNCredential cast api drv products g purchaseToken =
     andThen (mapErr RtdnChannel (googleQueryOrder cast api g purchaseToken)) (\<lambda>queried.
     case queried of
       None \<Rightarrow> fail RtdnNil
     | Some tp \<Rightarrow>
         andThen (mapErr (\<lambda>_. RtdnLock) (TryLockDefault drv (UserLock (tp_Uid tp)))) (\<lambda>locked.
         if \<not> locked then fail RtdnLockHeld
         else deferred (settleRTDNOrder cast api drv products g purchaseToken tp)
                (UnlockLease drv (UserLock (tp_Uid tp)))))"

text \<open>The token a notification asks to process, if it asks for any.\<close>

definition notificationToken :: "googleDeveloperNotification \<Rightarrow> string option" where
  "notificationToken n =
     (if dn_TestNotification n \<noteq> None then None
      else (case dn_OneTimeProductNotification n of
         Some token \<Rightarrow> Some token
       | None \<Rightarrow> (case dn_VoidedPurchaseNotification n of
           Some voided \<Rightarrow> if vn_ProductType voided \<noteq> 2 then None else Some (vn_PurchaseToken voided)
         | None \<Rightarrow> None)))"

definition handleGoogleRTDN ::
  "cast_fns \<Rightarrow> 's google_drv \<Rightarrow> 's pay_drv \<Rightarrow> (int \<rightharpoonup> Product) \<Rightarrow> GoogleChannel \<Rightarrow> googleDeveloperNotification
   \<Rightarrow> ('s, rtdn_error, unit) act" where
  "handleGoogleRTDN cast api drv products g n =
     (if dn_PackageName n \<noteq> gc_packageName g then ok ()
      else (case notificationToken n of
         None \<Rightarrow> ok ()
       | Some token \<Rightarrow> processGoogleRTDNCredential cast api drv products g token))"

definition messageText :: "PubsubMessage \<Rightarrow> string option" where
  "messageText m = (case DecodeString (pm_Data m) of None \<Rightarrow> None | Some bs \<Rightarrow> Some (map (\<lambda>b. char_of (unat b)) bs))"

definition messageNotification :: "PubsubMessage \<Rightarrow> googleDeveloperNotification option" where
  "messageNotification m = (case messageText m of None \<Rightarrow> None | Some text \<Rightarrow> unmarshalNotification text)"

text \<open>One message of the loop: whether it is acknowledged.\<close>

definition handleMessage ::
  "cast_fns \<Rightarrow> 's google_drv \<Rightarrow> 's pay_drv \<Rightarrow> (int \<rightharpoonup> Product) \<Rightarrow> GoogleChannel \<Rightarrow> PubsubMessage \<Rightarrow> ('s, 'e, bool) act" where
  "handleMessage cast api drv products g m =
     (case messageNotification m of
        None \<Rightarrow> ok True
      | Some n \<Rightarrow> andThen (attempt (handleGoogleRTDN cast api drv products g n))
          (\<lambda>r. ok (case r of Inl _ \<Rightarrow> False | Inr _ \<Rightarrow> True)))"

fun handleMessages ::
  "cast_fns \<Rightarrow> 's google_drv \<Rightarrow> 's pay_drv \<Rightarrow> (int \<rightharpoonup> Product) \<Rightarrow> GoogleChannel \<Rightarrow> PubsubMessage list \<Rightarrow> string list
   \<Rightarrow> ('s, unit, string list) act" where
  "handleMessages cast api drv products g [] ackIDs = ok ackIDs"
| "handleMessages cast api drv products g (m # ms) ackIDs =
     andThen (handleMessage cast api drv products g m) (\<lambda>acked.
       handleMessages cast api drv products g ms (if acked then ackIDs @ [pm_AckId m] else ackIDs))"

definition CheckGoogleRTDN ::
  "cast_fns \<Rightarrow> 's google_drv \<Rightarrow> 's pay_drv \<Rightarrow> (int \<rightharpoonup> Product) \<Rightarrow> GoogleChannel option \<Rightarrow> ('s, unit, unit) act" where
  "CheckGoogleRTDN cast api drv products registered =
     (case registered of
        None \<Rightarrow> ok ()
      | Some g \<Rightarrow>
          if gc_subscription g = '''' then ok ()
          else andThen (Pull api (gc_subscription g) 100) (\<lambda>messages.
            andThen (handleMessages cast api drv products g messages []) (\<lambda>ackIDs.
              if ackIDs = [] then ok () else Acknowledge api (gc_subscription g) ackIDs)))"

section \<open>Every acknowledged notification was dealt with\<close>

sublocale google_api \<subseteq> svc: payment_service mf drv ords hist "googleReports cast g purchases"
    "[googleType \<mapsto> googleChannel cast api (od drv) g]" for cast g
proof (intro payment_service.intro payment_service_axioms.intro, goal_cases)
  case 1
  show ?case by (rule google.payment_env_axioms)
next
  case (2 k ch)
  then show ?case using google.payment_channel_axioms [of cast g] by (auto split: if_splits)
next
  case (3 k ch)
  then show ?case by (auto simp: googleChannel_def split: if_splits)
qed

context google_api
begin

lemma google_service:
  "payment_service mf drv ords hist (googleReports cast g purchases) [googleType \<mapsto> googleChannel cast api (od drv) g]"
  by (rule svc.payment_service_axioms)

lemma wp_settleRTDN:
  assumes inv: "payInv (googleReports cast g purchases) (ords s) (hist s)"
    and tp: "googleReports cast g purchases token tp"
  shows "wp (settleRTDNOrder cast api drv products g token tp)
     (\<lambda>_ t. google.progress cast g s t \<and> svc.receiptSettled cast g (tp_Uid tp) PaymentTypeGoogle token t)
     (\<lambda>_ t. google.progress cast g s t) s"
proof -
  let ?ch = "googleChannel cast api (od drv) g"
  have ch: "[googleType \<mapsto> ?ch] googleType = Some ?ch" by simp
  have bind: "ch_FindOrBind ?ch = googleFindOrBind (od drv)" by (simp add: googleChannel_def)
  show ?thesis
    unfolding settleRTDNOrder_def wp_andThen wp_mapErr
  proof (rule wp_mono [OF svc.wp_FindOrBind [OF ch inv, unfolded bind]], goal_cases)
    case (1 bound u)
    show ?case
    proof (cases bound)
      case None
      with 1 show ?thesis by (simp add: wp_simps)
    next
      case (Some row)
      then have row: "row \<in> set (ords u)" "po_ID row = tp_InternalOrderId tp" "po_UID row = tp_Uid tp"
        "po_PaymentType row = PaymentTypeGoogle" "po_CredentialHash row = Some (sha256Hex token)"
        and p: "google.progress cast g s u" using 1 by (auto simp: googleType_def)
      have "wp (ProcessOrderWithoutLock drv products ?ch row tp)
          (\<lambda>res. wp (if res = OrderProcessWaiting then fail RtdnWaiting else ok ())
             (\<lambda>_ t. google.progress cast g s t \<and> svc.receiptSettled cast g (tp_Uid tp) PaymentTypeGoogle token t)
             (\<lambda>_ t. google.progress cast g s t))
          (\<lambda>_ t. google.progress cast g s t) u" if "tp_ProductId tp = po_ThirdPartyProductID row"
        by (rule wp_mono [OF svc.wp_ProcessBound [OF ch p tp row(1,2,3) refl]])
          (use svc.settled_receipt [OF _ row(1) row(3-5) that [symmetric] tp row(2) [symmetric] refl] in \<open>auto simp: wp_simps\<close>)
      with p show ?thesis by (simp add: Some wp_fail wp_andThen wp_mapErr)
    qed
  qed auto
qed

lemma wp_processRTDN:
  assumes inv: "payInv (googleReports cast g purchases) (ords s) (hist s)"
  shows "wp (processGoogleRTDNCredential cast api drv products g token)
     (\<lambda>_ t. google.progress cast g s t \<and> (\<exists>uid. svc.receiptSettled cast g uid PaymentTypeGoogle token t))
     (\<lambda>_ t. google.progress cast g s t) s"
  unfolding processGoogleRTDNCredential_def wp_andThen wp_mapErr
proof (rule wp_mono [OF wp_googleQuery [of cast g token s]], goal_cases)
  case (1 queried t)
  then obtain tp where tp: "queried = Some tp" "googleReports cast g purchases token tp" by blast
  have t: "google.progress cast g s t" using 1 inv google.progress_refl by blast
  show ?case
    unfolding tp(1) option.case wp_andThen wp_mapErr
  proof (rule svc.wp_lock, goal_cases)
    case (1 locked u)
    then have u: "google.progress cast g s u" using svc.progress_same [OF t] by blast
    have "wp (settleRTDNOrder cast api drv products g token tp)
        (\<lambda>_ v. google.progress cast g s (snd (UnlockLease drv k v)) \<and> (\<exists>uid. svc.receiptSettled cast g uid PaymentTypeGoogle token (snd (UnlockLease drv k v))))
        (\<lambda>_ v. google.progress cast g s (snd (UnlockLease drv k v))) u" for k
    proof (rule wp_mono [OF wp_settleRTDN [OF google.progress_inv [OF u] tp(2)]], goal_cases)
      case (1 x v)
      then have "google.progress cast g s v" using google.progress_trans [OF u] by blast
      with 1 unlock_law [of k v] svc.progress_same show ?case by (auto simp: svc.receiptSettled_def)
    next
      case (2 e v)
      then have "google.progress cast g s v" using google.progress_trans [OF u] by blast
      with unlock_law [of k v] svc.progress_same show ?case by blast
    qed
    with u show ?case by (simp add: wp_simps)
  next
    case (2 e u)
    then show ?case using svc.progress_same [OF t] by blast
  qed
next
  case (2 e t)
  then show ?case using inv google.progress_refl by blast
qed

lemma wp_handleMessage:
  assumes inv: "payInv (googleReports cast g purchases) (ords s) (hist s)"
  shows "wp (handleMessage cast api drv products g m)
     (\<lambda>acked t. google.progress cast g s t \<and> (\<forall>n token. acked \<longrightarrow> messageNotification m = Some n \<longrightarrow>
         dn_PackageName n = gc_packageName g \<longrightarrow> notificationToken n = Some token \<longrightarrow>
         (\<exists>uid. svc.receiptSettled cast g uid PaymentTypeGoogle token t)))
     E s"
proof (cases "messageNotification m")
  case None
  then show ?thesis using inv google.progress_refl by (simp add: handleMessage_def wp_simps)
next
  case (Some n)
  have here: "google.progress cast g s s" using inv google.progress_refl by blast
  show ?thesis
  proof (cases "dn_PackageName n = gc_packageName g \<and> notificationToken n \<noteq> None")
    case False
    then show ?thesis using here Some by (auto simp: handleMessage_def handleGoogleRTDN_def wp_simps)
  next
    case True
    then obtain token where token: "notificationToken n = Some token" by blast
    show ?thesis
      using True token Some
      by (simp add: handleMessage_def handleGoogleRTDN_def wp_simps) (rule wp_mono [OF wp_processRTDN [OF inv]], auto)
  qed
qed

end

end
