(* ===== verification/PaymentSpec.thy ===== *)
theory PaymentSpec
  imports GoogleRtdn
begin

text \<open>
  The payment service as a whole. \<open>pay_step\<close> is one request, scan or notification pull of the
  service over the registered Google channel, or anything else that touches neither orders nor
  tasks. Every execution keeps the invariant \<open>payInv\<close>, keeps at most one open order per player,
  channel and product, and moves every order only forward. The properties are stated over the
  documented laws of the database, the task queue, the locks and the Google API (\<open>google_api\<close>);
  the in-memory \<open>shop\<close> keeps all of them.
\<close>

section \<open>Steps of the service\<close>

inductive pay_step ::
  "cast_fns \<Rightarrow> 's google_drv \<Rightarrow> 's pay_drv \<Rightarrow> GoogleChannel \<Rightarrow> ('s \<Rightarrow> PaymentOrder list) \<Rightarrow> ('s \<Rightarrow> QTask list) \<Rightarrow> 's \<Rightarrow> 's \<Rightarrow> bool"
  for cast api drv g ords hist where
  create: "pay_step cast api drv g ords hist s
     (snd (CreateOrderWithoutLock drv [googleType \<mapsto> googleChannel cast api (od drv) g] products uid req s))"
| upload: "pay_step cast api drv g ords hist s
     (snd (UploadReceiptWithoutLock drv [googleType \<mapsto> googleChannel cast api (od drv) g] products uid rcpt s))"
| scan: "pay_step cast api drv g ords hist s
     (snd (CheckExpiredPendingOrders drv [googleType \<mapsto> googleChannel cast api (od drv) g] products s))"
| notify: "pay_step cast api drv g ords hist s (snd (CheckGoogleRTDN cast api drv products (Some g) s))"
| elsewhere: "ords t = ords s \<Longrightarrow> hist t = hist s \<Longrightarrow> pay_step cast api drv g ords hist s t"

definition payState ::
  "(string \<Rightarrow> ThirdPartyOrder \<Rightarrow> bool) \<Rightarrow> PaymentOrder list \<Rightarrow> QTask list \<Rightarrow> bool" where
  "payState reports rows tasks \<longleftrightarrow> payInv reports rows tasks \<and> onePending rows"

context google_api
begin

lemma wp_CheckRTDN:
  assumes inv: "payInv (googleReports cast g purchases) (ords s) (hist s)"
  shows "wp (CheckGoogleRTDN cast api drv products (Some g))
     (\<lambda>_ t. google.progress cast g s t) (\<lambda>_ t. google.progress cast g s t) s"
proof -
  let ?P = "google.progress cast g s"
  have step: "wp (handleMessage cast api drv products g m) (\<lambda>_ u. ?P u) E t" if "?P t" for m t E
    by (rule wp_mono [OF wp_handleMessage [OF google.progress_inv [OF that], where E = "\<lambda>_ _. False"]])
      (use that google.progress_trans in auto)
  have loop: "wp (handleMessages cast api drv products g ms acks) (\<lambda>_ u. ?P u) E t" if "?P t" for ms acks t E
    using that
  proof (induction ms arbitrary: acks t)
    case Nil
    then show ?case by (simp add: wp_simps)
  next
    case (Cons m ms)
    show ?case
      unfolding handleMessages.simps wp_andThen
      by (rule wp_mono [OF step [OF Cons.prems, of _ "\<lambda>_ _. False"]]) (auto intro: Cons.IH)
  qed
  have here: "?P s" using inv google.progress_refl by blast
  have ack: "wp (Acknowledge api sub ids) (\<lambda>_ u. ?P u) (\<lambda>_ u. ?P u) t" if "?P t" for sub ids t
    by (rule wp_mono [OF acknowledge_law [of _ _ t]]) (use that svc.progress_same in blast)+
  have "wp (Pull api sub n) (\<lambda>ms. wp (handleMessages cast api drv products g ms []) (\<lambda>ids.
      wp (if ids = [] then ok () else Acknowledge api sub ids) (\<lambda>_ u. ?P u) (\<lambda>_ u. ?P u)) (\<lambda>_ u. ?P u))
      (\<lambda>_ u. ?P u) s" for sub n
  proof (rule wp_mono [OF pull_law [of _ _ s]], goal_cases)
    case (1 ms t)
    then have "?P t" using svc.progress_same [OF here] by blast
    then show ?case
      by (intro wp_mono [OF loop [of t _ _ "\<lambda>_ _. False"]]) (auto simp: wp_simps intro: ack)
  next
    case (2 e t)
    then show ?case using svc.progress_same [OF here] by blast
  qed
  with here show ?thesis by (simp add: CheckGoogleRTDN_def wp_simps)
qed

definition pay_progress :: "cast_fns \<Rightarrow> GoogleChannel \<Rightarrow> 's \<Rightarrow> 's \<Rightarrow> bool" where
  "pay_progress cast g s t \<longleftrightarrow> payState (googleReports cast g purchases) (ords t) (hist t)
     \<and> ordersGrow (ords s) (ords t) \<and> tasksGrow (hist s) (hist t)"

lemma progress_pay:
  assumes "payState (googleReports cast g purchases) (ords s) (hist s)" and "google.progress cast g s t"
  shows "pay_progress cast g s t"
  using assms onePending_evolve [of "ords s" "ords t"] ordersEvolve_grow
  by (auto simp: pay_progress_def payState_def google.progress_def)

lemma opened_pay:
  assumes "payState (googleReports cast g purchases) (ords s) (hist s)"
    and "payInv (googleReports cast g purchases) (ords t) (hist t)" and "svc.opened s t row"
  shows "pay_progress cast g s t"
  using assms onePending_snoc [of "ords s" row] ordersGrow_snoc ordersEvolve_grow [OF ordersEvolve_refl]
  by (auto simp: pay_progress_def payState_def svc.opened_def)

lemma pay_step_progress:
  assumes st: "payState (googleReports cast g purchases) (ords s) (hist s)" and step: "pay_step cast api drv g ords hist s t"
  shows "pay_progress cast g s t"
  using step
proof cases
  case (create products uid req)
  have inv: "payInv (googleReports cast g purchases) (ords s) (hist s)" using st by (simp add: payState_def)
  have same: "pay_progress cast g s u" if "ords u = ords s" "hist u = hist s" for u
    using st that by (simp add: pay_progress_def payState_def ordersEvolve_grow)
  show ?thesis
    unfolding create by (rule wp_final [OF svc.wp_Create [OF inv]]) (use st opened_pay same in blast)+
next
  case (upload products uid rcpt)
  show ?thesis
    unfolding upload by (rule wp_final [OF svc.wp_Upload]) (use st progress_pay in \<open>auto simp: payState_def\<close>)
next
  case (scan products)
  show ?thesis
    unfolding scan by (rule wp_final [OF svc.wp_CheckExpired]) (use st progress_pay in \<open>auto simp: payState_def\<close>)
next
  case (notify products)
  show ?thesis
    unfolding notify by (rule wp_final [OF wp_CheckRTDN]) (use st progress_pay in \<open>auto simp: payState_def\<close>)
next
  case elsewhere
  then show ?thesis using st by (simp add: pay_progress_def payState_def ordersEvolve_grow)
qed

lemma pay_reachable:
  assumes "(pay_step cast api drv g ords hist)\<^sup>*\<^sup>* s t" and "payState (googleReports cast g purchases) (ords s) (hist s)"
  shows "pay_progress cast g s t"
  using assms
proof (induction rule: rtranclp_induct)
  case base
  then show ?case by (simp add: pay_progress_def ordersEvolve_grow)
next
  case (step t u)
  then have "payState (googleReports cast g purchases) (ords t) (hist t)" by (simp add: pay_progress_def)
  from pay_step_progress [OF this step(2)] step show ?case
    using ordersGrow_trans tasksGrow_trans by (auto simp: pay_progress_def)
qed

end

end
