(* ===== verification/Shop.thy ===== *)
theory Shop
  imports PaymentSpec
begin

text \<open>
  An executable world in which the item and payment services run: the item tables of
  \<open>ItemsSpec\<close>, the order table, the tasks the queue has accepted, the cache versions in Redis and
  a Google Play that reports, for every token, a fixed list of purchases one after the other
  as \<open>sh_phase\<close> advances. It keeps every law the services rely on, so it interprets their locales.
\<close>

record shop = mem_items +
  sh_orders :: "PaymentOrder list"
  sh_tasks :: "QTask list"
  sh_ver :: "string \<Rightarrow> nat"
  sh_phase :: nat
  sh_acked :: "string list"

type_synonym google_plan = "string \<Rightarrow> ProductPurchaseV2 list"

definition sh_putOrders :: "PaymentOrder list \<Rightarrow> shop \<Rightarrow> shop" where
  "sh_putOrders rows s = s\<lparr>sh_orders := rows\<rparr>"

definition shop_order_drv :: "shop order_drv" where
  "shop_order_drv = \<lparr>Orders = mem_nodes sh_orders sh_putOrders po_ID setOrderID orderConflict (freshNat po_ID),
     OrderClock = (\<lambda>s. (mi_clock s, s))\<rparr>"

definition shop_enqueue :: "QTask \<Rightarrow> (shop, queue_error, unit) act" where
  "shop_enqueue task s = (if list_ex (\<lambda>x. qt_TaskID x = qt_TaskID task) (sh_tasks s) then (Inl ErrTaskIDConflict, s)
     else (Inr (), s\<lparr>sh_tasks := sh_tasks s @ [task]\<rparr>))"

definition shop_drv :: "shop pay_drv" where
  "shop_drv = \<lparr>od = shop_order_drv, EnqueueContext = shop_enqueue, TryLockDefault = (\<lambda>_. ok True),
     UnlockLease = (\<lambda>_. ok ()), LeaseErr = (\<lambda>_. ok ()), CtxErr = ok ()\<rparr>"

definition shop_google :: "google_plan \<Rightarrow> PubsubMessage list \<Rightarrow> shop google_drv" where
  "shop_google plan inbox = \<lparr>
     Getproductpurchasev2 = (\<lambda>_ token s. (if sh_phase s < length (plan token) then Inr (plan token ! sh_phase s) else Inl (), s)),
     OrdersGet = (\<lambda>_ _. ok \<lparr>go_Total = None, go_OrderHistory = None\<rparr>),
     Consume = (\<lambda>_ _ _. ok ()),
     Pull = (\<lambda>_ _. ok inbox),
     Acknowledge = (\<lambda>_ ids s. (Inr (), s\<lparr>sh_acked := sh_acked s @ ids\<rparr>))\<rparr>"

definition planned :: "google_plan \<Rightarrow> string \<Rightarrow> ProductPurchaseV2 \<Rightarrow> bool" where
  "planned plan token p \<longleftrightarrow> p \<in> set (plan token)"

lemma shop_orders_table:
  "node_table mf (Orders shop_order_drv) sh_orders (\<lambda>s t. sh_tasks t = sh_tasks s)
     (\<lambda>s t. sh_tasks t = sh_tasks s \<and> sh_orders t = sh_orders s) po_ID setOrderID orderConflict"
  unfolding shop_order_drv_def
  by (simp, rule mem_node_table) (auto simp: sh_putOrders_def setOrderID_def orderConflict_def freshNat_fresh)

lemma shop_order_env: "order_env mf shop_drv sh_orders sh_tasks"
proof (intro order_env.intro order_env_axioms.intro, goal_cases)
  case 1
  show ?case using shop_orders_table by (simp add: shop_drv_def)
qed (auto simp: shop_drv_def shop_order_drv_def shop_enqueue_def wp_def ok_def list_ex_iff)

lemma shop_google_api: "google_api mf shop_drv sh_orders sh_tasks (shop_google plan inbox) (planned plan)"
  by (intro google_api.intro google_api_axioms.intro shop_order_env)
     (auto simp: shop_google_def planned_def wp_def ok_def)

definition shop_cache_drv :: "(shop, uint64, BagItem list) cache_drv" where
  "shop_cache_drv = \<lparr>
     RedisGet = (\<lambda>k s. (if sh_ver s k = 0 then Inl RedisNil else Inr (decimal (sh_ver s k)), s)),
     RedisIncr = (\<lambda>k s. (Inr (), s\<lparr>sh_ver := (sh_ver s)(k := Suc (sh_ver s k))\<rparr>)),
     RedisIncrExpire = (\<lambda>k ttl s. (Inr (), s\<lparr>sh_ver := (sh_ver s)(k := Suc (sh_ver s k))\<rparr>)),
     LocalGet = (\<lambda>key s. (None, s)),
     LocalSetWithTTL = (\<lambda>key e ttl s. s),
     LocalDel = (\<lambda>key s. s),
     ToInt64 = (\<lambda>v. case parseDigits 0 v of None \<Rightarrow> 0 | Some n \<Rightarrow> int n)\<rparr>"

definition shop_bag :: "shop bag_cache" where
  "shop_bag = initCache mem_item_drv shop_cache_drv"

lemma shop_item_service: "item_service mf mem_item_drv mi_com mi_cur shop_bag"
  by (intro item_service.intro item_service_axioms.intro mem_item_db)
     (simp add: shop_bag_def initCache_def NewVersionedCache_def shop_cache_drv_def Invalidate_def localDel_def
        andThen_def ok_def mapErr_def Let_def effectiveOption_def DefaultVersionedCacheOption_def split: if_splits)

interpretation shop_items: item_service False mem_item_drv mi_com mi_cur shop_bag
  by (rule shop_item_service)

interpretation shop: google_api False shop_drv sh_orders sh_tasks "shop_google plan inbox" "planned plan"
  for plan inbox
  by (rule shop_google_api)

section \<open>A day in the shop\<close>

definition shopKey :: "byte list" where
  "shopKey = map of_nat [1..<17]"

definition shopChannel :: GoogleChannel where
  "shopChannel = \<lparr>gc_packageName = ''com.game'', gc_subscription = ''sub'', gc_payloadKey = shopKey\<rparr>"

definition gemPack :: Product where
  "gemPack = \<lparr>pd_Id = 1, pd_ThirdPartyProductId = [2 \<mapsto> ''gems''],
     pd_PriceMap = [''CNY'' \<mapsto> \<lparr>pr_AmountUnit = 6, pr_AmountNanos = 0\<rparr>], pd_Rewards = Some [coins 100]\<rparr>"

definition shopProducts :: "int \<rightharpoonup> Product" where
  "shopProducts = [1 \<mapsto> gemPack]"

definition gemPurchase :: "string \<Rightarrow> ProductPurchaseV2" where
  "gemPurchase state = \<lparr>
     gp_ProductLineItem = [\<lparr>li_ProductId = ''gems'', li_ProductOfferDetails = None\<rparr>],
     gp_ObfuscatedExternalAccountId = projr (EncryptUid decimalCast 7 shopKey),
     gp_ObfuscatedExternalProfileId = projr (EncryptProfile \<lparr>pf_OrderID = 1, pf_ProductID = 1\<rparr> shopKey),
     gp_OrderId = '''', gp_TestPurchaseContext = False, gp_PurchaseState = state, gp_PurchaseCompletionTime = ''''\<rparr>"

text \<open>The player pays for token \<open>tok\<close>, and later gets the money back.\<close>

definition shopPlan :: google_plan where
  "shopPlan token = (if token = ''tok'' then map gemPurchase [''PENDING'', ''PURCHASED'', ''CANCELLED''] else [])"

definition emptyShop :: shop where
  "emptyShop = \<lparr>mi_com = \<lparr>tb_items = [], tb_nonces = [], tb_locks = []\<rparr>,
     mi_cur = \<lparr>tb_items = [], tb_nonces = [], tb_locks = []\<rparr>, mi_clock = timeUnix 10000,
     sh_orders = [], sh_tasks = [], sh_ver = (\<lambda>_. 0), sh_phase = 0, sh_acked = []\<rparr>"

definition shopChannels :: "shop channels" where
  "shopChannels = [googleType \<mapsto> googleChannel decimalCast (shop_google shopPlan []) shop_order_drv shopChannel]"

definition orderedShop :: shop where
  "orderedShop = snd (CreateOrderWithoutLock shop_drv shopChannels shopProducts 7 \<lparr>cr_ProductId = 1, cr_PaymentType = 2\<rparr> emptyShop)"

definition uploadTok :: "(shop, Error, unit) act" where
  "uploadTok = UploadReceiptWithoutLock shop_drv shopChannels shopProducts 7 \<lparr>ur_PaymentType = 2, ur_Credential = ''tok''\<rparr>"

definition paidShop :: shop where
  "paidShop = snd (uploadTok (orderedShop\<lparr>sh_phase := 1\<rparr>))"

end
