(* ===== verification/ShopRun.thy ===== *)
theory ShopRun
  imports Shop
begin

text \<open>
  A purchase in the executable shop, step by step: the order is created, the receipt is
  uploaded, the reward task is queued and the order is marked as paid. The encrypted fields are
  read back by the round trip of \<open>IapPayload\<close> and the credential hash stays symbolic.
\<close>

lemma shop_empty_state [simp]: "payState reports (sh_orders emptyShop) (sh_tasks emptyShop)"
  by (simp add: payState_def payInv_def emptyShop_def goodOrders_def uniq_def grantInv_def taskInv_def onePending_def)

abbreviation shopApi :: "shop google_drv" where
  "shopApi \<equiv> shop_google shopPlan []"

abbreviation shopReports :: "string \<Rightarrow> ThirdPartyOrder \<Rightarrow> bool" where
  "shopReports \<equiv> googleReports decimalCast shopChannel (planned shopPlan)"

lemma ordered_step: "pay_step decimalCast shopApi shop_drv shopChannel sh_orders sh_tasks emptyShop orderedShop"
  unfolding orderedShop_def shopChannels_def
  using pay_step.create [where drv = shop_drv and s = emptyShop] by (simp add: shop_drv_def)

lemma paid_step: "pay_step decimalCast shopApi shop_drv shopChannel sh_orders sh_tasks (orderedShop\<lparr>sh_phase := 1\<rparr>) paidShop"
  unfolding paidShop_def uploadTok_def shopChannels_def
  using pay_step.upload [where drv = shop_drv and s = "orderedShop\<lparr>sh_phase := 1\<rparr>"] by (simp add: shop_drv_def)

lemma shop_run: "(pay_step decimalCast shopApi shop_drv shopChannel sh_orders sh_tasks)\<^sup>*\<^sup>* emptyShop paidShop"
proof -
  have "pay_step decimalCast shopApi shop_drv shopChannel sh_orders sh_tasks orderedShop (orderedShop\<lparr>sh_phase := 1\<rparr>)"
    by (rule pay_step.elsewhere) simp_all
  then show ?thesis
    using ordered_step paid_step by (blast intro: converse_rtranclp_into_rtranclp)
qed

text \<open>What Google says of the purchases of the plan.\<close>

lemma gem_fields:
  "\<exists>a. EncryptUid decimalCast 7 shopKey = Inr a \<and> DecryptUid decimalCast a shopKey = Inr 7"
  "\<exists>b. EncryptProfile \<lparr>pf_OrderID = 1, pf_ProductID = 1\<rparr> shopKey = Inr b
     \<and> DecryptProfile b shopKey = Inr \<lparr>pf_OrderID = 1, pf_ProductID = 1\<rparr>"
proof -
  have len: "length shopKey = 16" by (simp add: shopKey_def)
  show "\<exists>a. EncryptUid decimalCast 7 shopKey = Inr a \<and> DecryptUid decimalCast a shopKey = Inr 7"
    using decrypt_encrypt [OF len, of "ToString decimalCast 7"] decimalCast_inv [of 7]
    by (auto simp: EncryptUid_def DecryptUid_def)
  show "\<exists>b. EncryptProfile \<lparr>pf_OrderID = 1, pf_ProductID = 1\<rparr> shopKey = Inr b
     \<and> DecryptProfile b shopKey = Inr \<lparr>pf_OrderID = 1, pf_ProductID = 1\<rparr>"
    using profile_roundtrip [OF len, of "\<lparr>pf_OrderID = 1, pf_ProductID = 1\<rparr>"] by (auto simp: fits32_def)
qed

definition gemOrder :: "int \<Rightarrow> ThirdPartyOrder" where
  "gemOrder status = \<lparr>tp_Status = status,
     tp_InternalOrderId = 1, tp_InternalProductId = 1, tp_Uid = 7, tp_OrderId = '''', tp_ProductId = ''gems'',
     tp_Credential = ''tok'', tp_AmountUnit = 0, tp_AmountNanos = 0, tp_Currency = '''', tp_PayAtUnix = 0,
     tp_RefundAtUnix = 0, tp_RefundReason = '''', tp_IsSandbox = False, tp_Consumed = False\<rparr>"

lemma tp_ProductId_gem: "tp_ProductId (gemOrder k) = ''gems''"
  by (simp add: gemOrder_def)

lemma gem_info:
  assumes "googleStatus state = Some status"
  shows "googleOrderInfo decimalCast shopChannel ''tok'' (gemPurchase state) = Inr (gemOrder status)"
proof -
  have "googleTimeUnix '''' = 0" by code_simp
  with gem_fields assms show ?thesis
    by (auto simp: googleOrderInfo_def googleOrderFields_def gemPurchase_def shopChannel_def googlePurchaseConsumed_def gemOrder_def)
qed

lemma shopPlan_nth:
  "k < 3 \<Longrightarrow> shopPlan ''tok'' ! k = gemPurchase ([''PENDING'', ''PURCHASED'', ''CANCELLED''] ! k)" "length (shopPlan ''tok'') = 3"
  by (simp_all add: shopPlan_def nth_map del: list.map)

lemma gem_query:
  assumes "sh_phase s < 3" and "googleStatus ([''PENDING'', ''PURCHASED'', ''CANCELLED''] ! sh_phase s) = Some status"
  shows "googleQueryOrder decimalCast shopApi shopChannel ''tok'' s = (Inr (Some (gemOrder status)), s)"
proof -
  have "gp_OrderId (gemPurchase x) = ''''" for x by (simp add: gemPurchase_def)
  with assms gem_info [OF assms(2)] show ?thesis
    by (simp add: googleQueryOrder_def shop_google_def shopPlan_nth andThen_def mapErr_def ok_def)
qed

text \<open>The first order of the shop.\<close>

definition firstOrder :: PaymentOrder where
  "firstOrder = \<lparr>po_ID = 1, po_UID = 7, po_ProductID = 1, po_ThirdPartyProductID = ''gems'', po_PaymentType = 2,
     po_Status = 0, po_OrderAmountUnit = 6, po_OrderAmountNanos = 0, po_OrderCurrency = ''CNY'',
     po_RealAmountUnit = 0, po_RealAmountNanos = 0, po_RealCurrency = '''', po_ThirdPartyOrderID = None,
     po_Credential = None, po_CredentialHash = None, po_Rewards = Some (marshalRewards (Some [coins 100])),
     po_RetryTimes = 0, po_CancelReason = '''', po_RefundReason = '''', po_IsSandbox = False,
     po_CreateAtUnix = 10000, po_UpdateAtUnix = 10000, po_PayAtUnix = 0, po_RefundAtUnix = 0, po_CancelAtUnix = 0\<rparr>"

lemmas run_defs = andThen_def attempt_def mapErr_def deferred_def ok_def fail_def
lemmas ent_defs = First_def Only_def Ent.All_def Where_def Order_def Limit_def Query_def matches_def UpdateSave_def
  UpdateOneSave_def updated_def mem_nodes_def uniq_def IsNotFound_def
lemmas shop_defs = shop_drv_def shop_order_drv_def shop_enqueue_def sh_putOrders_def orderNow_def

lemma create_first:
  "findOrCreateOrderWithoutLock shop_drv 7 \<lparr>cr_ProductId = 1, cr_PaymentType = 2\<rparr> gemPack ''gems''
     \<lparr>pr_AmountUnit = 6, pr_AmountNanos = 0\<rparr> emptyShop = (Inr firstOrder, emptyShop\<lparr>sh_orders := [firstOrder]\<rparr>)"
  by (simp add: findOrCreateOrderWithoutLock_def FindPendingOrder_def CreateOrder_def PaymentOrderCreate_Save_def
      PaymentOrderCreate_sqlSave_def PaymentOrderCreate_check_def run_defs ent_defs shop_defs emptyShop_def firstOrder_def gemPack_def
      PaymentOrderCreate_createSpec_def PaymentOrderCreate_defaults_def createOrderMutation_def Let_def
      setOrderID_def freshNat_def defaultCurrency_def order_status_defs)

lemma build_extra: "\<exists>extra. googleBuildCreateOrderExtra decimalCast shopChannel
    \<lparr>bp_OrderId = 1, bp_Uid = 7, bp_ProductId = 1, bp_ThirdPartyProductId = x\<rparr> s = (Inr extra, s)"
  using gem_fields by (auto simp: googleBuildCreateOrderExtra_def shopChannel_def ok_def)

lemma create_run:
  "\<exists>rsp. CreateOrderWithoutLock shop_drv shopChannels shopProducts 7 \<lparr>cr_ProductId = 1, cr_PaymentType = 2\<rparr> emptyShop
     = (Inr rsp, emptyShop\<lparr>sh_orders := [firstOrder]\<rparr>)"
proof -
  obtain extra where extra: "googleBuildCreateOrderExtra decimalCast shopChannel
      \<lparr>bp_OrderId = 1, bp_Uid = 7, bp_ProductId = 1, bp_ThirdPartyProductId = ''gems''\<rparr> (emptyShop\<lparr>sh_orders := [firstOrder]\<rparr>)
      = (Inr extra, emptyShop\<lparr>sh_orders := [firstOrder]\<rparr>)"
    using build_extra [of "''gems''" "emptyShop\<lparr>sh_orders := [firstOrder]\<rparr>"] by blast
  have f: "po_ID firstOrder = 1" "po_ProductID firstOrder = 1" "po_ThirdPartyProductID firstOrder = ''gems''"
    by (simp_all add: firstOrder_def)
  show ?thesis
    using create_first extra
    by (simp add: CreateOrderWithoutLock_def GetChannel_def shopChannels_def googleType_def PaymentTypeGoogle_def
      GetProduct_def shopProducts_def gemPack_def run_defs defaultCurrency_def googleChannel_def f Let_def)
qed

lemma orderedShop_eq: "orderedShop = emptyShop\<lparr>sh_orders := [firstOrder]\<rparr>"
  using create_run by (auto simp: orderedShop_def)

lemma create_result:
  "\<exists>rsp. CreateOrderWithoutLock shop_drv shopChannels shopProducts 7 \<lparr>cr_ProductId = 1, cr_PaymentType = 2\<rparr> emptyShop
     = (Inr rsp, orderedShop)"
  using create_run by (simp add: orderedShop_eq)

definition boundOrder :: PaymentOrder where
  "boundOrder = firstOrder\<lparr>po_Credential := Some ''tok'', po_CredentialHash := Some (sha256Hex ''tok'')\<rparr>"

lemma update_one:
  assumes "sh_orders s = [r]" "mi_clock s = timeUnix 10000" "\<And>x. po_ID (u x) = po_ID x"
  shows "UpdateSave (Orders shop_order_drv) ps u s =
    (Inr (if matches ps r \<and> u r \<noteq> r then 1 else 0), s\<lparr>sh_orders := [if matches ps r then u r else r]\<rparr>)"
  using assms by (simp add: UpdateSave_def mem_nodes_def updated_def uniq_def shop_order_drv_def sh_putOrders_def mapErr_def Let_def)

lemma get_one:
  assumes "sh_orders s = [r]" "po_ID r = i"
  shows "GetOrder shop_order_drv i s = (Inr r, s)"
  using assms by (simp add: GetOrder_def Only_def mem_nodes_def shop_order_drv_def Where_def Query_def run_defs matches_def Limit_def Ent.All_def)

lemma update_node:
  assumes "sh_orders s = [r]" "po_ID r = i" "po_ID (u r) = po_ID r"
  shows "UpdateOneSave (Orders shop_order_drv) i u s = (Inr (u r), s\<lparr>sh_orders := [u r]\<rparr>)"
  using assms by (simp add: UpdateOneSave_def mem_nodes_def updated_def uniq_def shop_order_drv_def sh_putOrders_def mapErr_def Let_def)

lemma shop_now: "mi_clock s = timeUnix 10000 \<Longrightarrow> orderNow shop_order_drv s = (Inr 10000, s)"
  by (simp add: orderNow_def shop_order_drv_def UnixSec_def timeUnix_def Second_def Nanosecond_per_Second_def)

lemma bind_first:
  assumes "sh_orders s = [r]" "r = firstOrder \<or> r = boundOrder" "mi_clock s = timeUnix 10000"
  shows "googleFindOrBind shop_order_drv 7 ''tok'' (gemOrder k) s = (Inr (Some boundOrder), s\<lparr>sh_orders := [boundOrder]\<rparr>)"
proof -
  let ?u = "PaymentOrderUpdate_spec (PaymentOrderUpdate_defaults 10000 (bindMutation ''tok'' (sha256Hex ''tok'') ''''))"
  let ?ps = "bindPredicates 7 2 1 1 (sha256Hex ''tok'') ''''"
  have "matches ?ps r" "?u r = boundOrder" "po_ID boundOrder = 1" "po_UID boundOrder = 7" "po_PaymentType boundOrder = 2"
    "po_ProductID boundOrder = 1" "po_CredentialHash boundOrder = Some (sha256Hex ''tok'')"
    using assms(2)
    by (auto simp: firstOrder_def boundOrder_def matches_def bindPredicates_def bindMutation_def PaymentOrderUpdate_spec_def
        PaymentOrderUpdate_defaults_def setAdd_def)
  then show ?thesis
    using assms update_one [OF assms(1,3), of ?u ?ps] get_one [of _ boundOrder 1]
    by (simp add: shop_now [OF assms(3)] googleFindOrBind_def FindAndBindOrder_def gemOrder_def PaymentOrderUpdate_Save_def run_defs PaymentTypeGoogle_def Let_def)
qed

text \<open>The order once it is paid for, and the reward tasks.\<close>

definition paidOrder :: PaymentOrder where
  "paidOrder = boundOrder\<lparr>po_Status := OrderStatusPurchased\<rparr>"

lemma order_facts:
  "po_ID boundOrder = 1" "po_UID boundOrder = 7" "po_ProductID boundOrder = 1" "po_Status boundOrder = OrderStatusPending"
  "po_ThirdPartyProductID boundOrder = ''gems''" "po_Rewards boundOrder = Some (marshalRewards (Some [coins 100]))"
  "po_ID paidOrder = 1" "po_UID paidOrder = 7" "po_ProductID paidOrder = 1" "po_Status paidOrder = OrderStatusPurchased"
  "po_ThirdPartyProductID paidOrder = ''gems''" "po_Rewards paidOrder = Some (marshalRewards (Some [coins 100]))"
  "stateOf paidOrder = Purchased" "stateOf boundOrder = Pending"
  by (simp_all add: paidOrder_def boundOrder_def firstOrder_def stateOf_def order_status_defs)

lemma grant_first:
  assumes "sh_orders s = [boundOrder]" "mi_clock s = timeUnix 10000"
  shows "stepGrantRewards shop_drv shopProducts boundOrder s =
    (if list_ex (\<lambda>x. qt_TaskID x = grantTaskID 1) (sh_tasks s) then (Inl (InternalServerError MsgEnqueueGrant), s)
     else (Inr (), s\<lparr>sh_tasks := sh_tasks s @ [grantOf boundOrder]\<rparr>))"
proof -
  let ?u = "PaymentOrderUpdate_spec (PaymentOrderUpdate_defaults 10000 (SetRewards (Some (marshalRewards (Some [coins 100]))) newPaymentOrderMutation))"
  have u: "?u boundOrder = boundOrder"
    by (simp add: boundOrder_def firstOrder_def PaymentOrderUpdate_spec_def PaymentOrderUpdate_defaults_def setAdd_def)
  have same: "s\<lparr>sh_orders := [boundOrder]\<rparr> = s" using assms(1) by simp
  have "UpdateOrderRewards shop_order_drv 1 (Some (marshalRewards (Some [coins 100]))) s = (Inr (), s)"
    using update_node [OF assms(1), of 1 ?u] u same
    by (simp add: shop_now [OF assms(2)] UpdateOrderRewards_def PaymentOrderUpdateOne_Save_def run_defs order_facts)
  then show ?thesis
    by (simp add: stepGrantRewards_def GetProduct_def shopProducts_def order_facts gemPack_def run_defs shop_drv_def Enqueue_def
        shop_enqueue_def grantOf_def newGrantTask_def Let_def)
qed

lemma mark_first:
  assumes "sh_orders s = [boundOrder]" "mi_clock s = timeUnix 10000"
  shows "MarkOrderPurchased shop_order_drv 1 (gemOrder k) s = (Inr (), s\<lparr>sh_orders := [paidOrder]\<rparr>)"
proof -
  let ?u = "PaymentOrderUpdate_spec (PaymentOrderUpdate_defaults 10000 (purchasedMutation (gemOrder k)))"
  have "?u boundOrder = paidOrder"
    by (simp add: paidOrder_def boundOrder_def firstOrder_def PaymentOrderUpdate_spec_def PaymentOrderUpdate_defaults_def setAdd_def
        purchasedMutation_def gemOrder_def Let_def)
  moreover have "paidOrder \<noteq> boundOrder" using order_facts by (metis order_state.distinct(3))
  moreover have "matches (purchasedPredicates 1) boundOrder" using order_facts by (simp add: matches_purchased)
  ultimately show ?thesis
    using update_one [OF assms, of ?u]
    by (simp add: shop_now [OF assms(2)] MarkOrderPurchased_def PaymentOrderUpdate_Save_def run_defs)
qed

lemma paidShop_eq:
  "uploadTok (orderedShop\<lparr>sh_phase := 1\<rparr>) = (Inr (), paidShop)"
  "paidShop = orderedShop\<lparr>sh_phase := 1, sh_orders := [paidOrder], sh_tasks := [grantOf boundOrder]\<rparr>"
proof -
  let ?s = "orderedShop\<lparr>sh_phase := 1\<rparr>"
  let ?ch = "googleChannel decimalCast shopApi shop_order_drv shopChannel"
  have q: "ch_QueryOrder ?ch ''tok'' ?s = (Inr (Some (gemOrder ThirdPartyOrderStatusPurchased)), ?s)"
    using gem_query [of ?s] by (simp add: googleChannel_def googleStatus_def)
  have b: "ch_FindOrBind ?ch 7 ''tok'' (gemOrder k) ?s = (Inr (Some boundOrder), ?s\<lparr>sh_orders := [boundOrder]\<rparr>)" for k
    using bind_first [of ?s firstOrder] by (simp add: googleChannel_def orderedShop_eq emptyShop_def)
  have p: "ProcessOrderWithoutLock shop_drv shopProducts ?ch boundOrder (gemOrder ThirdPartyOrderStatusPurchased) (?s\<lparr>sh_orders := [boundOrder]\<rparr>)
      = (Inr OrderProcessPurchased, ?s\<lparr>sh_orders := [paidOrder], sh_tasks := [grantOf boundOrder]\<rparr>)"
    using grant_first [of "?s\<lparr>sh_orders := [boundOrder]\<rparr>"]
      mark_first [of "?s\<lparr>sh_orders := [boundOrder], sh_tasks := [grantOf boundOrder]\<rparr>"]
    by (simp add: ProcessOrderWithoutLock_def order_facts gemOrder_def third_status_defs order_status_defs purchaseOrderWithoutLock_def
        run_defs orderedShop_eq emptyShop_def stepComplete_def googleChannel_def googleComplete_def shop_google_def shop_drv_def)
  have "uploadTok ?s = (Inr (), ?s\<lparr>sh_orders := [paidOrder], sh_tasks := [grantOf boundOrder]\<rparr>)"
    using q b p
    by (simp add: order_facts tp_ProductId_gem uploadTok_def UploadReceiptWithoutLock_def GetChannel_def shopChannels_def googleType_def PaymentTypeGoogle_def run_defs)
  then show "uploadTok ?s = (Inr (), paidShop)"
    "paidShop = orderedShop\<lparr>sh_phase := 1, sh_orders := [paidOrder], sh_tasks := [grantOf boundOrder]\<rparr>"
    by (simp_all add: paidShop_def)
qed

text \<open>The purchase is refunded.\<close>

definition refundedOrder :: PaymentOrder where
  "refundedOrder = paidOrder\<lparr>po_Status := OrderStatusCancelled, po_CancelReason := CancelReasonRefund,
     po_RefundReason := CancelReasonRefund, po_RefundAtUnix := 10000, po_CancelAtUnix := 10000\<rparr>"

definition refundedShop :: shop where
  "refundedShop = paidShop\<lparr>sh_phase := 2, sh_orders := [refundedOrder], sh_tasks := [grantOf boundOrder, revokeOf paidOrder]\<rparr>"

lemma bind_paid:
  assumes "sh_orders s = [paidOrder]" "mi_clock s = timeUnix 10000"
  shows "googleFindOrBind shop_order_drv 7 ''tok'' (gemOrder k) s = (Inr (Some paidOrder), s)"
proof -
  let ?u = "PaymentOrderUpdate_spec (PaymentOrderUpdate_defaults 10000 (bindMutation ''tok'' (sha256Hex ''tok'') ''''))"
  let ?ps = "bindPredicates 7 2 1 1 (sha256Hex ''tok'') ''''"
  have "matches ?ps paidOrder" "?u paidOrder = paidOrder" "po_PaymentType paidOrder = 2"
    "po_CredentialHash paidOrder = Some (sha256Hex ''tok'')"
    by (simp_all add: paidOrder_def firstOrder_def boundOrder_def matches_def bindPredicates_def bindMutation_def
        PaymentOrderUpdate_spec_def PaymentOrderUpdate_defaults_def setAdd_def)
  moreover have "s\<lparr>sh_orders := [paidOrder]\<rparr> = s" using assms(1) by simp
  ultimately show ?thesis
    using assms update_one [OF assms(1,2), of ?u ?ps] get_one [of _ paidOrder 1]
    by (simp add: shop_now [OF assms(2)] googleFindOrBind_def FindAndBindOrder_def gemOrder_def PaymentOrderUpdate_Save_def
        run_defs PaymentTypeGoogle_def order_facts Let_def)
qed

lemma refund_first:
  assumes "sh_orders s = [paidOrder]" "mi_clock s = timeUnix 10000"
  shows "MarkOrderRefunded shop_order_drv 1 (gemOrder k) s = (Inr (), s\<lparr>sh_orders := [refundedOrder]\<rparr>)"
proof -
  let ?u = "PaymentOrderUpdate_spec (PaymentOrderUpdate_defaults 10000 (refundedMutation CancelReasonRefund 10000))"
  have "?u paidOrder = refundedOrder"
    by (simp add: refundedOrder_def paidOrder_def boundOrder_def firstOrder_def PaymentOrderUpdate_spec_def
        PaymentOrderUpdate_defaults_def setAdd_def refundedMutation_def)
  moreover have "refundedOrder \<noteq> paidOrder"
  proof
    assume "refundedOrder = paidOrder"
    then have "po_Status refundedOrder = po_Status paidOrder" by simp
    then show False by (simp add: refundedOrder_def order_facts order_status_defs)
  qed
  moreover have "matches [OrderIDEQ 1, StatusEQ OrderStatusPurchased] paidOrder" by (simp add: matches_def order_facts)
  ultimately show ?thesis
    using update_one [OF assms, of ?u]
    by (simp add: shop_now [OF assms(2)] MarkOrderRefunded_def PaymentOrderUpdate_Save_def run_defs gemOrder_def Let_def)
qed

lemma refundedShop_eq: "uploadTok (paidShop\<lparr>sh_phase := 2\<rparr>) = (Inr (), refundedShop)"
proof -
  let ?s = "paidShop\<lparr>sh_phase := 2\<rparr>"
  let ?ch = "googleChannel decimalCast shopApi shop_order_drv shopChannel"
  have s: "sh_orders ?s = [paidOrder]" "mi_clock ?s = timeUnix 10000" "sh_tasks ?s = [grantOf boundOrder]"
    by (simp_all add: paidShop_eq(2) orderedShop_eq emptyShop_def)
  have q: "ch_QueryOrder ?ch ''tok'' ?s = (Inr (Some (gemOrder ThirdPartyOrderStatusCancelled)), ?s)"
    using gem_query [of ?s] by (simp add: googleChannel_def googleStatus_def)
  have b: "ch_FindOrBind ?ch 7 ''tok'' (gemOrder k) ?s = (Inr (Some paidOrder), ?s)" for k
    using bind_paid [OF s(1,2)] by (simp add: googleChannel_def)
  have t: "qt_TaskID (grantOf boundOrder) = grantTaskID 1" by (simp add: grantOf_def newGrantTask_def order_facts)
  have e: "stepRevokeRewards shop_drv paidOrder ?s = (Inr (), ?s\<lparr>sh_tasks := [grantOf boundOrder, revokeOf paidOrder]\<rparr>)"
    using s(3) t by (simp add: stepRevokeRewards_def Enqueue_def shop_drv_def shop_enqueue_def run_defs order_facts
        newRevokeTask_def revokeOf_def)
  have p: "ProcessOrderWithoutLock shop_drv shopProducts ?ch paidOrder (gemOrder ThirdPartyOrderStatusCancelled) ?s
      = (Inr OrderProcessCancelled, refundedShop)"
    using e refund_first [of "?s\<lparr>sh_tasks := [grantOf boundOrder, revokeOf paidOrder]\<rparr>"] s
    by (simp add: ProcessOrderWithoutLock_def order_facts gemOrder_def third_status_defs order_status_defs revokeOrderWithoutLock_def
        run_defs shop_drv_def refundedShop_def)
  show ?thesis
    using q b p
    by (simp add: order_facts tp_ProductId_gem uploadTok_def UploadReceiptWithoutLock_def GetChannel_def shopChannels_def
        googleType_def PaymentTypeGoogle_def run_defs)
qed

lemma shop_refund_steps: "(pay_step decimalCast shopApi shop_drv shopChannel sh_orders sh_tasks)\<^sup>*\<^sup>* paidShop refundedShop"
proof -
  have "pay_step decimalCast shopApi shop_drv shopChannel sh_orders sh_tasks paidShop (paidShop\<lparr>sh_phase := 2\<rparr>)"
    by (rule pay_step.elsewhere) simp_all
  moreover have "pay_step decimalCast shopApi shop_drv shopChannel sh_orders sh_tasks (paidShop\<lparr>sh_phase := 2\<rparr>) refundedShop"
    using pay_step.upload [where drv = shop_drv and s = "paidShop\<lparr>sh_phase := 2\<rparr>" and cast = decimalCast and api = shopApi
        and g = shopChannel and ords = sh_orders and hist = sh_tasks and products = shopProducts and uid = 7
        and rcpt = "\<lparr>ur_PaymentType = 2, ur_Credential = ''tok''\<rparr>"] refundedShop_eq
    by (simp add: uploadTok_def shopChannels_def shop_drv_def)
  ultimately show ?thesis by (blast intro: converse_rtranclp_into_rtranclp)
qed

lemma shop_refund_run: "(pay_step decimalCast shopApi shop_drv shopChannel sh_orders sh_tasks)\<^sup>*\<^sup>* emptyShop refundedShop"
  using shop_run shop_refund_steps by (rule rtranclp_trans)

end
