(* ===== verification/PaymentTheorems.thy ===== *)
theory PaymentTheorems
  imports ShopRun
begin

text \<open>
  The properties of the payment service over the laws of its environment, each applied to the
  executable shop.
\<close>

lemma grantTask_type [simp]: "qt_Type (grantTaskFor i u rw) = grantTaskType" "qt_Type (revokeTaskFor i u rw) = revokeTaskType"
  by (simp_all add: grantTaskFor_def revokeTaskFor_def newGrantTask_def newRevokeTask_def)

lemma task_types [simp]: "grantTaskType \<noteq> revokeTaskType" "revokeTaskType \<noteq> grantTaskType"
  by (simp_all add: grantTaskType_def revokeTaskType_def)

lemma reported_google:
  "reported (googleReports cast g purchases) status i u \<Longrightarrow> \<exists>token p info. purchases token p \<and>
     googleOrderInfo cast g token p = Inr info \<and> tp_Status info = status \<and> tp_InternalOrderId info = i \<and> tp_Uid info = u"
  unfolding reported_def googleReports_def by metis

lemma taskInv_grant:
  assumes "taskInv reports tasks" "task \<in> set tasks" "qt_Type task = grantTaskType"
  shows "\<exists>i u rw. task = grantTaskFor i u rw \<and> reported reports ThirdPartyOrderStatusPurchased i u"
proof -
  obtain i u rw where "(task = grantTaskFor i u rw \<and> reported reports ThirdPartyOrderStatusPurchased i u) \<or> task = revokeTaskFor i u rw"
    using assms(1,2) unfolding taskInv_def by blast
  then show ?thesis using assms(3) by auto
qed

lemma taskInv_revoke:
  assumes "taskInv reports tasks" "task \<in> set tasks" "qt_Type task = revokeTaskType"
  shows "\<exists>i u rw. task = revokeTaskFor i u rw \<and> grantTaskFor i u rw \<in> set tasks \<and> reported reports ThirdPartyOrderStatusCancelled i u"
proof -
  obtain i u rw where "task = grantTaskFor i u rw \<or> (task = revokeTaskFor i u rw \<and>
      reported reports ThirdPartyOrderStatusCancelled i u \<and> grantTaskFor i u rw \<in> set tasks)"
    using assms(1,2) unfolding taskInv_def by blast
  then show ?thesis using assms(3) by auto
qed

section \<open>Money and rewards\<close>

text \<open>
  C3: In every execution of the payment service (creating orders, uploading receipts, scanning
  expired orders, pulling Google's notifications, in any order and with any failures of the
  database, the queue, the locks and Google), every reward task in the queue is for an order and
  a player for which Google has reported a completed purchase, and every order marked as
  purchased has its reward task in the queue.
\<close>

theorem granted_only_paid:
  assumes "google_api mf drv ords hist api purchases"
    and "payState (googleReports cast g purchases) (ords s) (hist s)"
    and "(pay_step cast api drv g ords hist)\<^sup>*\<^sup>* s t"
  shows "(\<forall>task \<in> set (hist t). qt_Type task = grantTaskType \<longrightarrow> (\<exists>i u rw token p info.
        task = grantTaskFor i u rw \<and> purchases token p \<and> googleOrderInfo cast g token p = Inr info \<and>
        tp_Status info = ThirdPartyOrderStatusPurchased \<and> tp_InternalOrderId info = i \<and> tp_Uid info = u)) \<and>
     (\<forall>r \<in> set (ords t). po_Status r = OrderStatusPurchased \<longrightarrow> grantOf r \<in> set (hist t))"
proof -
  have inv: "payInv (googleReports cast g purchases) (ords t) (hist t)"
    using google_api.pay_reachable [OF assms(1,3,2)] google_api.pay_progress_def [OF assms(1)] by (auto simp: payState_def)
  have "\<exists>i u rw token p info. task = grantTaskFor i u rw \<and> purchases token p \<and> googleOrderInfo cast g token p = Inr info \<and>
      tp_Status info = ThirdPartyOrderStatusPurchased \<and> tp_InternalOrderId info = i \<and> tp_Uid info = u"
    if task: "task \<in> set (hist t)" "qt_Type task = grantTaskType" for task
  proof -
    obtain i u rw where "task = grantTaskFor i u rw" "reported (googleReports cast g purchases) ThirdPartyOrderStatusPurchased i u"
      using taskInv_grant [OF _ task, of "googleReports cast g purchases"] inv unfolding payInv_def by blast
    then show ?thesis using reported_google by blast
  qed
  moreover have "\<forall>r \<in> set (ords t). po_Status r = OrderStatusPurchased \<longrightarrow> grantOf r \<in> set (hist t)"
    using inv by (simp add: payInv_def grantInv_def stateOf_iff)
  ultimately show ?thesis by blast
qed

theorem granted_only_paid_witness:
  "sh_orders paidShop = [paidOrder] \<and> grantOf paidOrder \<in> set (sh_tasks paidShop) \<and>
   (\<exists>token p info. planned shopPlan token p \<and> googleOrderInfo decimalCast shopChannel token p = Inr info \<and>
     tp_Status info = ThirdPartyOrderStatusPurchased \<and> tp_InternalOrderId info = 1 \<and> tp_Uid info = 7)"
proof -
  have o: "sh_orders paidShop = [paidOrder]" by (simp add: paidShop_eq(2))
  note c = granted_only_paid [OF shop_google_api [of False] shop_empty_state shop_run]
  have g: "grantOf paidOrder \<in> set (sh_tasks paidShop)" using c o order_facts by simp
  have "grantOf paidOrder = grantTaskFor 1 7 (po_Rewards paidOrder)" by (simp add: grantOf_eq order_facts)
  moreover have "\<exists>i u rw token p info. grantOf paidOrder = grantTaskFor i u rw \<and> planned shopPlan token p \<and>
      googleOrderInfo decimalCast shopChannel token p = Inr info \<and>
      tp_Status info = ThirdPartyOrderStatusPurchased \<and> tp_InternalOrderId info = i \<and> tp_Uid info = u"
    using c g by (simp add: grantOf_eq)
  ultimately show ?thesis
    using o g by (auto simp: grantTaskFor_def newGrantTask_def marshalTask_def)
qed



section \<open>The life of an order\<close>

text \<open>
  C7: Orders only move forward. In every execution, an order that exists keeps its player,
  product, channel, price and creation time; a credential or third-party order id it is bound to
  never changes; a refunded order stays refunded; and of two orders of one channel no two carry
  the same credential or the same third-party order.
\<close>

theorem order_lifecycle:
  assumes "google_api mf drv ords hist api purchases"
    and "payState (googleReports cast g purchases) (ords s) (hist s)"
    and "(pay_step cast api drv g ords hist)\<^sup>*\<^sup>* s t" and "r \<in> set (ords s)"
  shows "(\<exists>r' \<in> set (ords t). sameOrder r r' \<and> bindsOnce r r' \<and> order_step\<^sup>*\<^sup>* (stateOf r) (stateOf r') \<and>
        (stateOf r = Refunded \<longrightarrow> stateOf r' = Refunded)) \<and> uniq po_ID orderConflict (ords t)"
proof -
  have p: "google_api.pay_progress ords hist purchases cast g s t"
    using google_api.pay_reachable [OF assms(1,3,2)] .
  then have "ordersGrow (ords s) (ords t)" and good: "goodOrders (ords t)"
    by (simp_all add: google_api.pay_progress_def [OF assms(1)] payState_def payInv_def)
  then obtain r' where r': "r' \<in> set (ords t)" "evolves r r'" using ordersGrow_find assms(4) by blast
  have "stateOf r' = Refunded" if "stateOf r = Refunded"
  proof -
    have "order_step\<^sup>*\<^sup>* Refunded (stateOf r')" using r'(2) that by (simp add: evolves_def)
    then show ?thesis by (rule converse_rtranclpE) (auto simp: order_step_simps)
  qed
  with r' good show ?thesis by (auto simp: evolves_def goodOrders_def)
qed

theorem order_lifecycle_witness:
  "\<exists>r' \<in> set (sh_orders refundedShop). sameOrder paidOrder r' \<and> bindsOnce paidOrder r'"
proof -
  have st: "payState shopReports (sh_orders paidShop) (sh_tasks paidShop)"
    using shop.pay_reachable [OF shop_run shop_empty_state] by (simp add: shop.pay_progress_def)
  have run: "(pay_step decimalCast shopApi shop_drv shopChannel sh_orders sh_tasks)\<^sup>*\<^sup>* paidShop refundedShop"
    using shop_refund_steps by blast
  have "paidOrder \<in> set (sh_orders paidShop)" by (simp add: paidShop_eq(2))
  from order_lifecycle [OF shop_google_api [of False] st run this] show ?thesis by blast
qed

text \<open>
  C8: A player never has two open orders for the same product on the same channel, whatever
  requests, scans and notifications come in.
\<close>

theorem one_pending_order:
  assumes "google_api mf drv ords hist api purchases"
    and "payState (googleReports cast g purchases) (ords s) (hist s)"
    and "(pay_step cast api drv g ords hist)\<^sup>*\<^sup>* s t"
    and "a \<in> set (ords t)" "b \<in> set (ords t)" "pendingFor uid pt pid a" "pendingFor uid pt pid b"
  shows "a = b"
proof -
  have p: "google_api.pay_progress ords hist purchases cast g s t"
    using google_api.pay_reachable [OF assms(1,3,2)] .
  then have one: "onePending (ords t)" and good: "goodOrders (ords t)"
    by (simp_all add: google_api.pay_progress_def [OF assms(1)] payState_def payInv_def)
  have "po_ID a = po_ID b" using one assms(4-7) unfolding onePending_def pendingFor_def by metis
  then show ?thesis using goodOrders_same [OF good assms(5,4)] by simp
qed

theorem one_pending_order_witness:
  "{a. a \<in> set (sh_orders orderedShop) \<and> pendingFor 7 2 1 a} = {firstOrder}"
proof -
  have p: "pendingFor 7 2 1 firstOrder" by (simp add: pendingFor_def firstOrder_def stateOf_def order_status_defs)
  have run: "(pay_step decimalCast shopApi shop_drv shopChannel sh_orders sh_tasks)\<^sup>*\<^sup>* emptyShop orderedShop"
    using ordered_step by blast
  have "firstOrder \<in> set (sh_orders orderedShop)" by (simp add: orderedShop_eq)
  with p one_pending_order [OF shop_google_api [of False] shop_empty_state run _ _ _ p] show ?thesis by blast
qed

text \<open>
  Creating an order returns an open order of this player for this product and channel: the
  one that is already open, and then nothing is written, or, when there is none, one new row.
\<close>

theorem CreateOrder_reuses_pending:
  assumes "google_api mf drv ords hist api purchases"
    and "payState (googleReports cast g purchases) (ords s) (hist s)"
    and "CreateOrderWithoutLock drv [googleType \<mapsto> googleChannel cast api (od drv) g] products uid req s = (Inr rsp, t)"
  shows "\<exists>row \<in> set (ords t). po_ID row = rs_OrderId rsp \<and> pendingFor uid (cr_PaymentType req) (cr_ProductId req) row \<and>
     hist t = hist s \<and> (ords t = ords s \<or> ords t = ords s @ [row] \<and>
       \<not> (\<exists>x \<in> set (ords s). pendingFor uid (cr_PaymentType req) (cr_ProductId req) x))"
proof -
  have inv: "payInv (googleReports cast g purchases) (ords s) (hist s)" using assms(2) by (simp add: payState_def)
  have svc: "payment_service mf drv ords hist (googleReports cast g purchases) [googleType \<mapsto> googleChannel cast api (od drv) g]"
    using google_api.google_service [OF assms(1)] .
  from wpD_Inr [OF payment_service.wp_Create [OF svc inv] assms(3)] show ?thesis
    by (auto simp: payment_service.opened_def [OF svc] pendingFor_def)
qed

theorem CreateOrder_reuses_pending_witness:
  "\<exists>row \<in> set (sh_orders orderedShop). pendingFor 7 2 1 row \<and> sh_tasks orderedShop = []"
proof -
  let ?run = "CreateOrderWithoutLock shop_drv [googleType \<mapsto> googleChannel decimalCast shopApi (od shop_drv) shopChannel]
      shopProducts 7 \<lparr>cr_ProductId = 1, cr_PaymentType = 2\<rparr> emptyShop"
  obtain rsp where "?run = (Inr rsp, orderedShop)"
    using create_result by (auto simp: shopChannels_def shop_drv_def)
  from CreateOrder_reuses_pending [OF shop_google_api [of False] shop_empty_state this] show ?thesis
    by (auto simp: emptyShop_def)
qed

text \<open>
  C9: A receipt upload that succeeds has settled the order of this player: Google has reported a
  purchase for the credential that names this player and this order, the order is bound to
  exactly this credential and to the purchased product, and it is purchased or closed. A failed
  upload still leaves the invariant intact.
\<close>

theorem UploadReceipt_settles:
  assumes "google_api mf drv ords hist api purchases"
    and "payInv (googleReports cast g purchases) (ords s) (hist s)"
    and "UploadReceiptWithoutLock drv [googleType \<mapsto> googleChannel cast api (od drv) g] products uid req s = (res, t)"
  shows "payInv (googleReports cast g purchases) (ords t) (hist t) \<and> (res = Inr () \<longrightarrow>
     (\<exists>tp. \<exists>r \<in> set (ords t). googleReports cast g purchases (ur_Credential req) tp \<and> tp_Uid tp = uid \<and>
        tp_InternalOrderId tp = po_ID r \<and> tp_ProductId tp = po_ThirdPartyProductID r \<and> po_UID r = uid \<and>
        po_PaymentType r = ur_PaymentType req \<and> po_CredentialHash r = Some (sha256Hex (ur_Credential req)) \<and>
        po_Status r \<in> {OrderStatusPurchased, OrderStatusCancelled}))"
proof -
  note svc = google_api.google_service [OF assms(1), of cast g]
  note w = payment_service.wp_Upload [OF svc assms(2), of products uid req]
  show ?thesis
  proof (cases res)
    case (Inl e)
    with wpD_Inl [OF w] assms(3) show ?thesis by (simp add: payment_env.progress_def [OF payment_service.axioms(1) [OF svc]])
  next
    case (Inr x)
    with wpD_Inr [OF w] assms(3) have
      "payInv (googleReports cast g purchases) (ords t) (hist t)"
      "payment_service.receiptSettled ords (googleReports cast g purchases) uid (ur_PaymentType req) (ur_Credential req) t"
      by (auto simp: payment_env.progress_def [OF payment_service.axioms(1) [OF svc]])
    then show ?thesis unfolding payment_service.receiptSettled_def [OF svc] by (auto; metis)
  qed
qed

theorem UploadReceipt_settles_witness:
  "fst (uploadTok (orderedShop\<lparr>sh_phase := 1\<rparr>)) = Inr () \<and>
   (\<exists>r \<in> set (sh_orders paidShop). po_UID r = 7 \<and> po_CredentialHash r = Some (sha256Hex ''tok''))"
proof -
  have inv: "payInv shopReports (sh_orders (orderedShop\<lparr>sh_phase := 1\<rparr>)) (sh_tasks (orderedShop\<lparr>sh_phase := 1\<rparr>))"
    using shop.pay_step_progress [OF shop_empty_state ordered_step]
    by (simp add: shop.pay_progress_def payState_def)
  have run: "UploadReceiptWithoutLock shop_drv [googleType \<mapsto> googleChannel decimalCast shopApi (od shop_drv) shopChannel]
      shopProducts 7 \<lparr>ur_PaymentType = 2, ur_Credential = ''tok''\<rparr> (orderedShop\<lparr>sh_phase := 1\<rparr>) = (Inr (), paidShop)"
    using paidShop_eq(1) by (simp add: uploadTok_def shopChannels_def shop_drv_def)
  from UploadReceipt_settles [OF shop_google_api [of False] inv run] show ?thesis
    using paidShop_eq(1) by auto
qed


definition gemText :: string where
  "gemText = [CHR 0x7B, CHR 0x22] @ ''packageName'' @ [CHR 0x22, CHR '':'', CHR 0x22] @ ''com.game'' @ [CHR 0x22, CHR '','', CHR 0x22]
     @ ''oneTimeProductNotification'' @ [CHR 0x22, CHR '':'', CHR 0x7B, CHR 0x22] @ ''purchaseToken''
     @ [CHR 0x22, CHR '':'', CHR 0x22] @ ''tok'' @ [CHR 0x22, CHR 0x7D, CHR 0x7D]"

definition gemNotice :: PubsubMessage where
  "gemNotice = \<lparr>pm_AckId = ''a1'', pm_Data = EncodeToString (map (\<lambda>c. of_nat (of_char c)) gemText)\<rparr>"

definition gemNotification :: googleDeveloperNotification where
  "gemNotification = emptyNotification\<lparr>dn_PackageName := ''com.game'', dn_OneTimeProductNotification := Some ''tok''\<rparr>"

lemma gemNotice_decodes: "messageNotification gemNotice = Some gemNotification"
proof -
  have "unmarshalNotification gemText = Some gemNotification" by code_simp
  then show ?thesis
    by (simp add: messageNotification_def messageText_def gemNotice_def DecodeString_EncodeToString comp_def)
qed

lemma notice_handled: "handleMessage decimalCast shopApi shop_drv shopProducts shopChannel gemNotice paidShop = (Inr True, paidShop)"
proof -
  let ?ch = "googleChannel decimalCast shopApi shop_order_drv shopChannel"
  have s: "sh_orders paidShop = [paidOrder]" "mi_clock paidShop = timeUnix 10000" "sh_phase paidShop = 1"
    by (simp_all add: paidShop_eq(2) orderedShop_eq emptyShop_def)
  have q: "googleQueryOrder decimalCast shopApi shopChannel ''tok'' paidShop = (Inr (Some (gemOrder ThirdPartyOrderStatusPurchased)), paidShop)"
    using gem_query [of paidShop] s(3) by (simp add: googleStatus_def)
  have uid: "tp_Uid (gemOrder k) = 7" for k by (simp add: gemOrder_def)
  have p: "ProcessOrderWithoutLock shop_drv shopProducts ?ch paidOrder (gemOrder ThirdPartyOrderStatusPurchased) paidShop
      = (Inr OrderProcessPurchased, paidShop)"
    by (simp add: ProcessOrderWithoutLock_def order_facts gemOrder_def third_status_defs order_status_defs run_defs stepComplete_def
        googleChannel_def googleComplete_def shop_google_def)
  have od: "od shop_drv = shop_order_drv" by (simp add: shop_drv_def)
  have lock: "TryLockDefault shop_drv k = ok True" "UnlockLease shop_drv k = ok ()" for k by (simp_all add: shop_drv_def)
  have "processGoogleRTDNCredential decimalCast shopApi shop_drv shopProducts shopChannel ''tok'' paidShop = (Inr (), paidShop)"
    using q p bind_paid [OF s(1,2)]
    by (simp add: processGoogleRTDNCredential_def settleRTDNOrder_def run_defs uid od lock order_facts tp_ProductId_gem)
  then show ?thesis
    by (simp add: handleMessage_def gemNotice_decodes handleGoogleRTDN_def notificationToken_def gemNotification_def
        emptyNotification_def shopChannel_def run_defs)
qed


end
