(* ===== verification/PaymentTasks.thy ===== *)
theory PaymentTasks
  imports PaymentTheorems
begin

text \<open>
  The two payment tasks against the item service: what the queue's at-least-once delivery does to
  a player's bag, and two executions in which the order pipeline and the queue disagree.
\<close>

section \<open>The nonces of an order\<close>

lemma runTask_grant:
  assumes "po_ID r < 2 ^ 64" "po_UID r < 2 ^ 64" "po_Rewards r = Some (marshalRewards (Some rewards))" "list_all wfReward rewards"
  shows "runTask drv bag cfg (grantOf r) = mapErr TaskItems (svc_AddItems drv bag cfg (po_UID r) (grantNonce (po_ID r)) rewards)"
  using unmarshal_marshalTask [OF assms(1,2), of "po_Rewards r"] assms(3) unmarshal_marshalRewards [OF assms(4)]
  by (simp add: runTask_def grantOf_def newGrantTask_def processGrantTask_def taskRewards_def)

lemma runTask_revoke:
  assumes "po_ID r < 2 ^ 64" "po_UID r < 2 ^ 64" "po_Rewards r = Some (marshalRewards (Some rewards))" "list_all wfReward rewards"
  shows "runTask drv bag cfg (revokeOf r) = mapErr TaskItems
     (svc_RevokeItems drv bag (po_UID r) (grantNonce (po_ID r)) (revokeNonce (po_ID r)) rewards)"
  using unmarshal_marshalTask [OF assms(1,2), of "po_Rewards r"] assms(3) unmarshal_marshalRewards [OF assms(4)]
  by (simp add: runTask_def revokeOf_def newRevokeTask_def processRevokeTask_def taskRewards_def)

lemma nonce_length: "i < 2 ^ 64 \<Longrightarrow> length (grantNonce i) \<le> 128" "i < 2 ^ 64 \<Longrightarrow> length (revokeNonce i) \<le> 128"
  using length_decimal [of i 20] by (simp_all add: grantNonce_def revokeNonce_def)

section \<open>Delivery of the tasks\<close>

text \<open>An order whose snapshot a task can carry: identifiers of 64 bits and rewards Go can hold.\<close>

definition carries :: "PaymentOrder \<Rightarrow> Reward option list \<Rightarrow> bool" where
  "carries r rewards \<longleftrightarrow> po_ID r < 2 ^ 64 \<and> po_UID r < 2 ^ 64
     \<and> po_Rewards r = Some (marshalRewards (Some rewards)) \<and> list_all wfReward rewards"

lemma carriesD:
  assumes "carries r rewards"
  shows "po_ID r < 2 ^ 64" "po_UID r < 2 ^ 64" "po_Rewards r = Some (marshalRewards (Some rewards))" "list_all wfReward rewards"
  using assms by (simp_all add: carries_def)

lemma wp_grantTask:
  assumes "item_service mf drv com cur bag" "goodTables (com s)" "carries r rewards"
  shows "wp (runTask drv bag cfg (grantOf r)) (\<lambda>_ t. addedOnce cfg (po_UID r) (grantNonce (po_ID r)) rewards (com s) (com t))
      (\<lambda>_ t. (com t = com s \<or> granted cfg (po_UID r) (grantNonce (po_ID r)) rewards (com s) (com t))
         \<and> (mf \<or> \<not> list_all (validReward cfg) rewards)) s"
  unfolding runTask_grant [OF carriesD [OF assms(3)]] wp_mapErr
  by (rule wp_mono [OF item_service.wp_svc_AddItems [OF assms(1,2)]])
     (use nonce_length(1) [OF carriesD(1) [OF assms(3)]] in \<open>auto simp: addFailed_def\<close>)

lemma wpD_run: "wp m Q E s \<Longrightarrow> (\<exists>x t. m s = (Inr x, t) \<and> Q x t) \<or> (\<exists>e t. m s = (Inl e, t) \<and> E e t)"
  by (auto simp: wp_def split: prod.splits sum.splits)

text \<open>The order of the shop qualifies, and the shop starts with empty tables.\<close>

lemma shop_carries: "carries paidOrder [coins 100]"
  by (simp add: carries_def order_facts coins_def wfReward_def fits32_def fits64_def)

lemma shop_good: "goodTables (mi_com emptyShop)" "countsFit (tb_items (mi_com emptyShop))"
  by (simp_all add: goodTables_def goodRows_def uniq_def emptyShop_def countsFit_def bag_ok_def)

lemma shop_valid: "list_all (validReward coinConfig) [coins 100]"
  by code_simp

lemma shop_fresh: "\<not> hasNonce u n k (mi_com emptyShop)"
  by (simp add: hasNonce_def emptyShop_def)



text \<open>
  With a working database the reward task of an order succeeds, whatever the order: its
  nonce always fits, and valid rewards are granted by the first run.
\<close>

theorem grant_task_succeeds:
  assumes "item_service False drv com cur bag" and "goodTables (com s)"
    and "carries r rewards"
    and "list_all (validReward cfg) rewards"
  shows "\<exists>t. runTask drv bag cfg (grantOf r) s = (Inr (), t) \<and>
     (if hasNonce (po_UID r) (grantNonce (po_ID r)) OperationTypeGrant (com s) then com t = com s
      else granted cfg (po_UID r) (grantNonce (po_ID r)) rewards (com s) (com t))"
  using wpD_run [OF wp_grantTask [OF assms(1-3), of cfg]] assms(4) by (auto simp: addedOnce_def)

theorem grant_task_succeeds_witness:
  "\<exists>t. runTask mem_item_drv shop_bag coinConfig (grantOf paidOrder) emptyShop = (Inr (), t)
     \<and> granted coinConfig 7 (grantNonce 1) [coins 100] (mi_com emptyShop) (mi_com t)"
  using grant_task_succeeds [OF shop_item_service [of False] shop_good(1) shop_carries shop_valid]
  by (simp add: order_facts shop_fresh)

text \<open>
  A revoke task only takes back what its order granted: before the reward task of the order
  has run it fails and changes nothing, afterwards it takes the rewards back at most once.
\<close>

theorem revoke_task_once:
  assumes "item_service mf drv com cur bag" and "goodTables (com s)" and "countsFit (tb_items (com s))"
    and "carries r rewards"
    and "rewardsFit rewards"
    and "runTask drv bag cfg (revokeOf r) s = (res, t)"
  shows "(com t = com s \<or> revoked (po_UID r) (revokeNonce (po_ID r)) rewards (com s) (com t)) \<and>
     (com t \<noteq> com s \<longrightarrow> hasNonce (po_UID r) (grantNonce (po_ID r)) OperationTypeGrant (com s) \<and>
        \<not> hasNonce (po_UID r) (revokeNonce (po_ID r)) OperationTypeRevoke (com s)) \<and>
     (res = Inr () \<longrightarrow> hasNonce (po_UID r) (grantNonce (po_ID r)) OperationTypeGrant (com s) \<and>
        hasNonce (po_UID r) (revokeNonce (po_ID r)) OperationTypeRevoke (com t))"
proof -
  let ?G = "hasNonce (po_UID r) (grantNonce (po_ID r)) OperationTypeGrant (com s)"
  have r: "\<not> hasNonce (po_UID r) (revokeNonce (po_ID r)) OperationTypeRevoke (com s)
      \<and> hasNonce (po_UID r) (revokeNonce (po_ID r)) OperationTypeRevoke (com t)"
    if "revoked (po_UID r) (revokeNonce (po_ID r)) rewards (com s) (com t)" for t
    using that nonceAdded_hasNonce by (auto simp: revoked_def nonceAdded_def)
  have w: "wp (runTask drv bag cfg (revokeOf r))
      (\<lambda>_ t. revokedOnce (po_UID r) (grantNonce (po_ID r)) (revokeNonce (po_ID r)) rewards (com s) (com t))
      (\<lambda>_ t. com t = com s \<or> ?G \<and> revoked (po_UID r) (revokeNonce (po_ID r)) rewards (com s) (com t)) s"
    unfolding runTask_revoke [OF carriesD [OF assms(4)]] wp_mapErr
    by (rule wp_mono [OF item_service.wp_svc_RevokeItems [OF assms(1-3,5)]]) (auto simp: revokeFailed_def)
  show ?thesis
  proof (cases res)
    case (Inl e)
    with wpD_Inl [OF w] assms(6) r show ?thesis by auto
  next
    case (Inr x)
    with wpD_Inr [OF w] assms(6) r show ?thesis by (auto simp: revokedOnce_def split: if_splits)
  qed
qed

theorem revoke_task_once_witness:
  "mi_com (snd (runTask mem_item_drv shop_bag coinConfig (revokeOf paidOrder) emptyShop)) = mi_com emptyShop
     \<and> fst (runTask mem_item_drv shop_bag coinConfig (revokeOf paidOrder) emptyShop) \<noteq> Inr ()"
proof -
  have "rewardsFit [coins 100]" by (simp add: rewardsFit_def coins_def fits64_def)
  from revoke_task_once [OF shop_item_service [of False] shop_good shop_carries this, where cfg = coinConfig]
  show ?thesis by (simp add: shop_fresh prod_eq_iff)
qed

section \<open>Two executions in which orders and tasks disagree\<close>

text \<open>
  The pipeline queues the reward task before it marks the order as paid. In the interrupted shop
  the mark was lost (a crash, a database error): the order is still pending, its task is queued.
\<close>

definition interruptedShop :: shop where
  "interruptedShop = paidShop\<lparr>sh_orders := [boundOrder]\<rparr>"

lemma interrupted_facts:
  "sh_orders interruptedShop = [boundOrder]" "mi_clock interruptedShop = timeUnix 10000"
  "sh_tasks interruptedShop = [grantOf boundOrder]" "sh_phase interruptedShop = 1"
  by (simp_all add: interruptedShop_def paidShop_eq(2) orderedShop_eq emptyShop_def)



end
