(* ===== verification/TaskServer.thy ===== *)
theory TaskServer
  imports Shop
begin

text \<open>
  The task server, \<open>pkg/asynqx/registry.go\<close> and \<open>server.go\<close>: task types are registered with a decoder and a handler,
  \<open>Start\<close> hands all of them to an asynq worker, after which nothing can be registered any more.
  Asynq is a parameter: how its multiplexer finds a handler (locale \<open>asynq_mux\<close>), whether the worker
  starts, and its default retry delay. A panic is \<open>None\<close>. Shown: whatever else is registered, started
  and stopped, a running worker handles the payment tasks by the handlers of the payment service.
\<close>

section \<open>Registration\<close>

type_synonym 's task_handler = "QTask \<Rightarrow> ('s, task_error, unit) act"
type_synonym retry_delay = "int \<Rightarrow> task_error \<Rightarrow> QTask \<Rightarrow> duration"

record 's taskRegistryInfo =
  ti_process :: "'s task_handler"
  ti_retryDelayFunc :: "retry_delay option"

record 's worker =
  wk_mux :: "string \<rightharpoonup> 's task_handler"
  wk_queues :: "(string \<times> int) list"

record ('s, 'r) Server =
  sv_redisProvider :: "(unit \<Rightarrow> 'r option) option"
  sv_queues :: "(string \<times> int) list"
  sv_started :: bool
  sv_server :: "'s worker option"
  sv_tasks :: "string \<rightharpoonup> 's taskRegistryInfo"

definition NewServer :: "(unit \<Rightarrow> 'r option) option \<Rightarrow> (string \<times> int) list \<Rightarrow> ('s, 'r) Server" where
  "NewServer redisProvider queues = \<lparr>sv_redisProvider = redisProvider, sv_queues = queues, sv_started = False, sv_server = None,
     sv_tasks = (\<lambda>_. None)\<rparr>"

definition register :: "string \<Rightarrow> 's taskRegistryInfo \<Rightarrow> ('s, 'r) Server \<Rightarrow> ('s, 'r) Server option" where
  "register taskType info srv =
     (if sv_started srv then None
      else if sv_tasks srv taskType \<noteq> None then None
      else Some (srv\<lparr>sv_tasks := (sv_tasks srv)(taskType \<mapsto> info)\<rparr>))"

text \<open>
  \<open>decode\<close> unmarshals a payload into the registered type, \<open>taskName\<close> is what its \<open>TaskType\<close> returns. The
  server and the handler are not nil and the sample is a pointer at every call in the program.
\<close>

definition taskInfo ::
  "retry_delay \<Rightarrow> (json \<Rightarrow> 't option) \<Rightarrow> ('t \<Rightarrow> ('s, task_error, unit) act) \<Rightarrow> (int \<Rightarrow> task_error \<Rightarrow> 't \<Rightarrow> QTask \<Rightarrow> duration) option
     \<Rightarrow> 's taskRegistryInfo" where
  "taskInfo defaultDelay decode process retryDelayFunc = \<lparr>
     ti_process = (\<lambda>rawTask. case decode (qt_Payload rawTask) of None \<Rightarrow> fail SkipRetry | Some task \<Rightarrow> process task),
     ti_retryDelayFunc = map_option (\<lambda>f retryCount e rawTask. case decode (qt_Payload rawTask) of
         None \<Rightarrow> defaultDelay retryCount e rawTask
       | Some task \<Rightarrow> f retryCount e task rawTask) retryDelayFunc\<rparr>"

definition RegisterTaskType ::
  "retry_delay \<Rightarrow> string \<Rightarrow> (json \<Rightarrow> 't option) \<Rightarrow> ('t \<Rightarrow> ('s, task_error, unit) act)
     \<Rightarrow> (int \<Rightarrow> task_error \<Rightarrow> 't \<Rightarrow> QTask \<Rightarrow> duration) option \<Rightarrow> ('s, 'r) Server \<Rightarrow> ('s, 'r) Server option" where
  "RegisterTaskType defaultDelay taskName decode process retryDelayFunc srv =
     (if taskName = '''' then None else register taskName (taskInfo defaultDelay decode process retryDelayFunc) srv)"

section \<open>Start, retries, shutdown\<close>

datatype server_error = AlreadyStarted | NoRedisProvider | NoRedisClient | NoQueues | BadQueue string int | WorkerFailed

definition Start :: "('s worker \<Rightarrow> bool) \<Rightarrow> ('s, 'r) Server \<Rightarrow> (server_error + unit) \<times> ('s, 'r) Server" where
  "Start workerStarts srv =
     (if sv_started srv then (Inl AlreadyStarted, srv)
      else case sv_redisProvider srv of
        None \<Rightarrow> (Inl NoRedisProvider, srv)
      | Some provider \<Rightarrow>
          (case provider () of
             None \<Rightarrow> (Inl NoRedisClient, srv)
           | Some rdb \<Rightarrow>
               if sv_queues srv = [] then (Inl NoQueues, srv)
               else case find (\<lambda>(queue, weight). queue = '''' \<or> weight \<le> 0) (sv_queues srv) of
                 Some (queue, weight) \<Rightarrow> (Inl (BadQueue queue weight), srv)
               | None \<Rightarrow>
                   let worker = \<lparr>wk_mux = (\<lambda>t. map_option ti_process (sv_tasks srv t)), wk_queues = sv_queues srv\<rparr>
                   in if \<not> workerStarts worker then (Inl WorkerFailed, srv)
                      else (Inr (), srv\<lparr>sv_server := Some worker, sv_started := True\<rparr>)))"

definition retryDelay :: "retry_delay \<Rightarrow> ('s, 'r) Server \<Rightarrow> retry_delay" where
  "retryDelay defaultDelay srv retryCount e task =
     (case sv_tasks srv (qt_Type task) of
        None \<Rightarrow> defaultDelay retryCount e task
      | Some info \<Rightarrow> (case ti_retryDelayFunc info of
            None \<Rightarrow> defaultDelay retryCount e task
          | Some f \<Rightarrow> f retryCount e task))"

text \<open>The wait for the worker ends with it or with the context (\<open>finished\<close>); the worker is given up either way.\<close>

definition Shutdown :: "bool \<Rightarrow> ('s, 'r) Server \<Rightarrow> bool \<times> ('s, 'r) Server" where
  "Shutdown finished srv = (sv_server srv = None \<or> finished, srv\<lparr>sv_server := None\<rparr>)"

section \<open>The payment tasks\<close>

definition decodeGrant :: "json \<Rightarrow> GrantTask option" where
  "decodeGrant v = (case unmarshalTask v of Inl _ \<Rightarrow> None
     | Inr (orderId, uid, rewards) \<Rightarrow> Some \<lparr>gt_OrderId = orderId, gt_Uid = uid, gt_Rewards = rewards\<rparr>)"

definition decodeRevoke :: "json \<Rightarrow> RevokeTask option" where
  "decodeRevoke v = (case unmarshalTask v of Inl _ \<Rightarrow> None
     | Inr (orderId, uid, rewards) \<Rightarrow> Some \<lparr>rt_OrderId = orderId, rt_Uid = uid, rt_Rewards = rewards\<rparr>)"

definition grantInfo where
  "grantInfo defaultDelay drv bag cfg = taskInfo defaultDelay decodeGrant (processGrantTask drv bag cfg)
     (Some (\<lambda>n e _ rawTask. grantTaskRetryDelay (\<lambda>k. defaultDelay k e rawTask) n))"

definition revokeInfo where
  "revokeInfo defaultDelay drv bag = taskInfo defaultDelay decodeRevoke (processRevokeTask drv bag)
     (Some (\<lambda>n e _ rawTask. revokeTaskRetryDelay (\<lambda>k. defaultDelay k e rawTask) n))"

definition RegisterTasks ::
  "retry_delay \<Rightarrow> 's item_drv \<Rightarrow> 's bag_cache \<Rightarrow> (int \<rightharpoonup> ItemConfig) \<Rightarrow> ('s, 'r) Server \<Rightarrow> ('s, 'r) Server option" where
  "RegisterTasks defaultDelay drv bag cfg srv =
     Option.bind (RegisterTaskType defaultDelay grantTaskType decodeGrant (processGrantTask drv bag cfg)
         (Some (\<lambda>n e _ rawTask. grantTaskRetryDelay (\<lambda>k. defaultDelay k e rawTask) n)) srv)
       (RegisterTaskType defaultDelay revokeTaskType decodeRevoke (processRevokeTask drv bag)
         (Some (\<lambda>n e _ rawTask. revokeTaskRetryDelay (\<lambda>k. defaultDelay k e rawTask) n)))"

section \<open>Runs of the server\<close>

inductive server_step :: "('s, 'r) Server \<Rightarrow> ('s, 'r) Server \<Rightarrow> bool" where
  step_register: "register taskType info srv = Some srv' \<Longrightarrow> server_step srv srv'"
| step_start: "server_step srv (snd (Start workerStarts srv))"
| step_shutdown: "server_step srv (snd (Shutdown finished srv))"

inductive_cases server_stepE: "server_step srv srv'"

definition serves :: "(string \<rightharpoonup> 's taskRegistryInfo) \<Rightarrow> ('s, 'r) Server \<Rightarrow> bool" where
  "serves T srv \<longleftrightarrow> T \<subseteq>\<^sub>m sv_tasks srv \<and>
     (\<forall>wk. sv_server srv = Some wk \<longrightarrow> wk_mux wk = (\<lambda>t. map_option ti_process (sv_tasks srv t)) \<and> sv_started srv)"

lemma serves_task: "serves T srv \<Longrightarrow> T k = Some info \<Longrightarrow> sv_tasks srv k = Some info"
  unfolding serves_def map_le_def by (metis domI)

lemma serves_register: "register k info srv = Some srv' \<Longrightarrow> serves T srv \<Longrightarrow> serves T srv'"
  by (auto simp: register_def serves_def map_le_def split: if_splits) (metis domI option.distinct(1))

lemma serves_Start: "serves T srv \<Longrightarrow> serves T (snd (Start workerStarts srv))"
  by (auto simp: Start_def serves_def Let_def split: option.split)

lemma serves_step: "server_step srv srv' \<Longrightarrow> serves T srv \<Longrightarrow> serves T srv'"
  by (erule server_stepE) (simp_all add: serves_register serves_Start, simp add: Shutdown_def serves_def)

lemma serves_steps: "server_step\<^sup>*\<^sup>* srv srv' \<Longrightarrow> serves T srv \<Longrightarrow> serves T srv'"
  by (induction rule: rtranclp_induct) (auto dest: serves_step)

lemma RegisterTasks_serves:
  assumes "RegisterTasks defaultDelay drv bag cfg srv = Some srv'" and "sv_server srv = None"
  shows "serves [grantTaskType \<mapsto> grantInfo defaultDelay drv bag cfg, revokeTaskType \<mapsto> revokeInfo defaultDelay drv bag] srv'"
  using assms
  by (auto simp: RegisterTasks_def RegisterTaskType_def register_def serves_def grantInfo_def revokeInfo_def map_le_def
      bind_eq_Some_conv split: if_splits)

text \<open>What asynq promises: a task whose type is registered goes to the handler of this type.\<close>

locale asynq_mux =
  fixes serve :: "(string \<rightharpoonup> 's task_handler) \<Rightarrow> QTask \<Rightarrow> ('s, task_error, unit) act"
  assumes serve_exact: "mux (qt_Type task) = Some h \<Longrightarrow> serve mux task = h task"
begin

lemma serves_registered:
  assumes "serves T srv" "sv_server srv = Some wk" "T (qt_Type task) = Some info"
  shows "serve (wk_mux wk) task = ti_process info task"
proof -
  have "sv_tasks srv (qt_Type task) = Some info" using serves_task [OF assms(1,3)] .
  with assms(1,2) have "wk_mux wk (qt_Type task) = Some (ti_process info)" by (auto simp: serves_def)
  then show ?thesis by (rule serve_exact)
qed

end

definition exactMux :: "(string \<rightharpoonup> 's task_handler) \<Rightarrow> QTask \<Rightarrow> ('s, task_error, unit) act" where
  "exactMux mux task = (case mux (qt_Type task) of None \<Rightarrow> fail NoHandler | Some h \<Rightarrow> h task)"

lemma exact_asynq_mux: "asynq_mux exactMux"
  by standard (simp add: exactMux_def)

interpretation exact: asynq_mux exactMux
  by (rule exact_asynq_mux)

text \<open>How long a payment task waits for its next attempt: a payload that cannot be read has the default delay.\<close>

definition taskDelay :: "retry_delay \<Rightarrow> retry_delay" where
  "taskDelay defaultDelay retryCount e task = (case unmarshalTask (qt_Payload task) of
      Inl _ \<Rightarrow> defaultDelay retryCount e task
    | Inr _ \<Rightarrow> min (5 * Minute) (defaultDelay retryCount e task))"

lemma task_types_differ: "grantTaskType \<noteq> revokeTaskType"
  by (simp add: grantTaskType_def revokeTaskType_def)

lemma infos_runTask:
  "qt_Type task = grantTaskType \<Longrightarrow> ti_process (grantInfo defaultDelay drv bag cfg) task = runTask drv bag cfg task"
  "qt_Type task = revokeTaskType \<Longrightarrow> ti_process (revokeInfo defaultDelay drv bag) task = runTask drv bag cfg task"
  by (simp_all add: grantInfo_def revokeInfo_def taskInfo_def runTask_def decodeGrant_def decodeRevoke_def task_types_differ [symmetric]
      split: sum.split prod.split)

lemma infos_delay:
  fixes defaultDelay :: retry_delay and drv :: "'s item_drv"
  shows "\<exists>f. ti_retryDelayFunc (grantInfo defaultDelay drv bag cfg) = Some f \<and>
      f retryCount e task = taskDelay defaultDelay retryCount e task"
    and "\<exists>f. ti_retryDelayFunc (revokeInfo defaultDelay drv bag) = Some f \<and>
      f retryCount e task = taskDelay defaultDelay retryCount e task"
  by (simp_all add: grantInfo_def revokeInfo_def taskInfo_def grantTaskRetryDelay_def revokeTaskRetryDelay_def Let_def
      taskDelay_def decodeGrant_def decodeRevoke_def split: sum.split prod.split)

section \<open>Properties\<close>

text \<open>
  C30: The worker runs the payment tasks as the payment service means them. Once \<open>RegisterTasks\<close> has
  registered the two payment tasks on a new server, in every state that any registrations, starts
  and shutdowns lead to, a running worker handles a grant or revoke task exactly by \<open>runTask\<close>,
  the handler the delivery guarantees are proved for, and a failed payment task whose payload can be
  read is tried again after the default delay but after five minutes at the latest.
\<close>

theorem worker_runs_payment_tasks:
  assumes "asynq_mux serve"
    and "RegisterTasks defaultDelay drv bag cfg (NewServer redisProvider queues) = Some srv0"
    and "server_step\<^sup>*\<^sup>* srv0 srv" and "sv_server srv = Some wk"
    and "qt_Type task \<in> {grantTaskType, revokeTaskType}"
  shows "serve (wk_mux wk) task = runTask drv bag cfg task \<and>
    retryDelay defaultDelay srv retryCount e task = (case unmarshalTask (qt_Payload task) of
      Inl _ \<Rightarrow> defaultDelay retryCount e task
    | Inr _ \<Rightarrow> min (5 * Minute) (defaultDelay retryCount e task))"
proof -
  let ?T = "[grantTaskType \<mapsto> grantInfo defaultDelay drv bag cfg, revokeTaskType \<mapsto> revokeInfo defaultDelay drv bag]"
  have s: "serves ?T srv" using serves_steps [OF assms(3)] RegisterTasks_serves [OF assms(2)] by (simp add: NewServer_def)
  obtain info where info: "?T (qt_Type task) = Some info" using assms(5) by (auto simp: task_types_differ)
  have t: "sv_tasks srv (qt_Type task) = Some info" using serves_task [OF s info] .
  have "serve (wk_mux wk) task = runTask drv bag cfg task"
  proof (cases "qt_Type task = grantTaskType")
    case True
    with info have "info = grantInfo defaultDelay drv bag cfg" by (simp add: task_types_differ)
    with asynq_mux.serves_registered [OF assms(1) s assms(4) info] infos_runTask(1) [OF True] show ?thesis by simp
  next
    case False
    with assms(5) info have "qt_Type task = revokeTaskType" "info = revokeInfo defaultDelay drv bag" by simp_all
    with asynq_mux.serves_registered [OF assms(1) s assms(4) info] infos_runTask(2) show ?thesis by simp
  qed
  moreover have "info = grantInfo defaultDelay drv bag cfg \<or> info = revokeInfo defaultDelay drv bag"
    using info by (auto split: if_splits)
  then have "\<exists>f. ti_retryDelayFunc info = Some f \<and> f retryCount e task = taskDelay defaultDelay retryCount e task"
    using infos_delay by metis
  ultimately show ?thesis using t by (auto simp: retryDelay_def taskDelay_def)
qed

text \<open>A server that registers the payment tasks and one more, starts, and is given a grant task.\<close>

definition quarter :: retry_delay where
  "quarter n e task = 15 * Minute"

definition pingInfo :: "'s taskRegistryInfo" where
  "pingInfo = \<lparr>ti_process = (\<lambda>_. ok ()), ti_retryDelayFunc = None\<rparr>"

definition grantSeven :: QTask where
  "grantSeven = newGrantTask \<lparr>gt_OrderId = 1, gt_Uid = 7, gt_Rewards = None\<rparr>"

definition workerServer :: "(shop, unit) Server" where
  "workerServer = the (RegisterTasks quarter mem_item_drv shop_bag (\<lambda>_. None) (NewServer (Some (\<lambda>_. Some ())) [(''default'', 1)]))"

definition startedServer :: "(shop, unit) Server" where
  "startedServer = snd (Start (\<lambda>_. True) (the (register ''ping'' pingInfo workerServer)))"

definition shopServer :: "(shop, unit) Server" where
  "shopServer = NewServer (Some (\<lambda>_. Some ())) [(''default'', 1)]"

lemma worker_registers: "RegisterTasks quarter mem_item_drv shop_bag (\<lambda>_. None) shopServer = Some workerServer"
  by (simp add: workerServer_def shopServer_def RegisterTasks_def RegisterTaskType_def register_def NewServer_def task_types_differ
      task_types_differ [symmetric]) (simp add: grantTaskType_def revokeTaskType_def)

lemma workerServer_fields [simp]:
  "\<not> sv_started workerServer" "sv_redisProvider workerServer = Some (\<lambda>_. Some ())" "sv_queues workerServer = [(''default'', 1)]"
  "sv_tasks workerServer ''ping'' = None"
  by (simp_all add: workerServer_def RegisterTasks_def RegisterTaskType_def register_def NewServer_def grantTaskType_def revokeTaskType_def)

lemma ping_registers: "register ''ping'' pingInfo workerServer = Some (the (register ''ping'' pingInfo workerServer))"
  by (simp add: register_def)

lemma startedServer_run: "server_step\<^sup>*\<^sup>* workerServer startedServer"
  unfolding startedServer_def by (rule rtranclp_trans, rule r_into_rtranclp, rule step_register, rule ping_registers, rule r_into_rtranclp, rule step_start)

theorem worker_runs_payment_tasks_witness:
  "exactMux (wk_mux (the (sv_server startedServer))) grantSeven = runTask mem_item_drv shop_bag (\<lambda>_. None) grantSeven \<and>
   retryDelay quarter startedServer 3 SkipRetry grantSeven = 5 * Minute"
proof -
  have "sv_server startedServer = Some (the (sv_server startedServer))"
    by (simp add: startedServer_def Start_def Let_def register_def)
  moreover have "qt_Type grantSeven \<in> {grantTaskType, revokeTaskType}" by (simp add: grantSeven_def newGrantTask_def)
  ultimately have "exactMux (wk_mux (the (sv_server startedServer))) grantSeven = runTask mem_item_drv shop_bag (\<lambda>_. None) grantSeven \<and>
    retryDelay quarter startedServer 3 SkipRetry grantSeven = (case unmarshalTask (qt_Payload grantSeven) of
      Inl _ \<Rightarrow> quarter 3 SkipRetry grantSeven
    | Inr _ \<Rightarrow> min (5 * Minute) (quarter 3 SkipRetry grantSeven))"
    using worker_runs_payment_tasks [OF exact_asynq_mux worker_registers [unfolded shopServer_def] startedServer_run] by blast
  moreover have "unmarshalTask (qt_Payload grantSeven) = Inr (1, 7, Some JNull)"
    by (simp add: grantSeven_def newGrantTask_def unmarshal_marshalTask)
  ultimately show ?thesis by (simp add: quarter_def min_def Minute_def Second_def)
qed

end
