(* ===== verification/LoginStore.thy ===== *)
theory LoginStore
  imports Ent Stderr
begin

text \<open>
  The account store, \<open>app/Api/login/internal/store/store.go\<close>, with the parts of its generated ent
  package that it runs (\<open>ent/mutation.go\<close>, \<open>ent/account_create.go\<close>, \<open>ent/account_update.go\<close>,
  \<open>ent/identity_create.go\<close>, \<open>ent/identity/where.go\<close>, \<open>ent/account/where.go\<close>, \<open>ent/schema\<close>). An
  account is a player; an identity is one way to log in to it. The connection, the transaction
  and the clock are the parameter \<open>drv\<close>. Logging is left out.
\<close>

section \<open>Data\<close>

record Identity =
  li_AppID :: string
  li_OpenID :: string
  li_UnionID :: string

definition LoginTypeGuest :: int where "LoginTypeGuest = 1"
definition LoginTypeGoogle :: int where "LoginTypeGoogle = 2"
definition LoginTypeApple :: int where "LoginTypeApple = 3"
definition LoginTypeWeChat :: int where "LoginTypeWeChat = 4"
definition LoginTypeDebug :: int where "LoginTypeDebug = 100"

record Account =
  ac_ID :: uint64
  ac_IsDeleted :: bool
  ac_CreateAtUnix :: int
  ac_UpdateAtUnix :: int

record IdentityRow =
  id_ID :: uint64
  id_UID :: uint64
  id_LoginType :: int
  id_AppID :: string
  id_OpenID :: string
  id_UnionID :: "string option"
  id_CreateAtUnix :: int

text \<open>The two unique indexes of \<open>schema/identity.go\<close>.\<close>

definition identityConflict :: "IdentityRow \<Rightarrow> IdentityRow \<Rightarrow> bool" where
  "identityConflict a b \<longleftrightarrow>
     (id_LoginType a = id_LoginType b \<and> id_AppID a = id_AppID b \<and> id_OpenID a = id_OpenID b) \<or>
     (id_UID a = id_UID b \<and> id_LoginType a = id_LoginType b \<and> id_AppID a = id_AppID b)"

section \<open>The external services\<close>

record 's login_drv =
  BeginLogin :: "('s, sql_error, unit) act"
  CommitLogin :: "('s, sql_error, unit) act"
  RollbackLogin :: "('s, sql_error, unit) act"
  TxAccount :: "('s, Account, uint64) nodes"
  TxIdentity :: "('s, IdentityRow, uint64) nodes"
  DbAccount :: "('s, Account, uint64) nodes"
  DbIdentity :: "('s, IdentityRow, uint64) nodes"
  LoginClock :: "'s \<Rightarrow> gotime \<times> 's"

definition loginNow :: "'s login_drv \<Rightarrow> ('s, 'e, int) act" where
  "loginNow drv s = (case LoginClock drv s of (t, s') \<Rightarrow> (Inr (UnixSec t), s'))"

datatype login_error =
    LoginEnt ent_error
  | LoginTx
  | ErrAccountDeleted
  | ErrIdentityBoundOtherAccount
  | ErrLoginTypeAlreadyBound
  | ErrIdentityNotBound
  | ErrLastIdentity
  | AccountMissing uint64

text \<open>\<open>IsConstraintError\<close> looks through the wrapping of an error.\<close>

definition loginIsConstraint :: "login_error \<Rightarrow> bool" where
  "loginIsConstraint e = (case e of LoginEnt x \<Rightarrow> IsConstraintError x | _ \<Rightarrow> False)"

section \<open>Mutations and builders\<close>

record AccountMutation =
  am_is_deleted :: "bool option"
  am_create_at_unix :: "int option"
  am_update_at_unix :: "int option"
  am_addupdate_at_unix :: "int option"

definition newAccountMutation :: AccountMutation where
  "newAccountMutation = \<lparr>am_is_deleted = None, am_create_at_unix = None, am_update_at_unix = None,
     am_addupdate_at_unix = None\<rparr>"

definition SetIsDeleted :: "bool \<Rightarrow> AccountMutation \<Rightarrow> AccountMutation" where
  "SetIsDeleted v m = m\<lparr>am_is_deleted := Some v\<rparr>"

definition SetAccountCreateAtUnix :: "int \<Rightarrow> AccountMutation \<Rightarrow> AccountMutation" where
  "SetAccountCreateAtUnix v m = m\<lparr>am_create_at_unix := Some v\<rparr>"

definition SetAccountUpdateAtUnix :: "int \<Rightarrow> AccountMutation \<Rightarrow> AccountMutation" where
  "SetAccountUpdateAtUnix v m = m\<lparr>am_update_at_unix := Some v, am_addupdate_at_unix := None\<rparr>"

text \<open>The two times are read from the clock one after the other.\<close>

definition AccountCreate_defaults :: "int \<Rightarrow> int \<Rightarrow> AccountMutation \<Rightarrow> AccountMutation" where
  "AccountCreate_defaults createAt updateAt m =
     (let m1 = (if am_is_deleted m = None then SetIsDeleted False m else m);
          m2 = (if am_create_at_unix m1 = None then SetAccountCreateAtUnix createAt m1 else m1)
      in if am_update_at_unix m2 = None then SetAccountUpdateAtUnix updateAt m2 else m2)"

definition AccountCreate_check :: "AccountMutation \<Rightarrow> ent_error option" where
  "AccountCreate_check m =
     (if am_is_deleted m = None then Some (ValidationError ''is_deleted'')
      else if am_create_at_unix m = None then Some (ValidationError ''create_at_unix'')
      else if am_update_at_unix m = None then Some (ValidationError ''update_at_unix'')
      else None)"

definition AccountCreate_createSpec :: "AccountMutation \<Rightarrow> Account" where
  "AccountCreate_createSpec m = \<lparr>ac_ID = 0, ac_IsDeleted = getOr False (am_is_deleted m),
     ac_CreateAtUnix = getOr 0 (am_create_at_unix m), ac_UpdateAtUnix = getOr 0 (am_update_at_unix m)\<rparr>"

definition AccountCreate_sqlSave ::
  "('s, Account, uint64) nodes \<Rightarrow> AccountMutation \<Rightarrow> ('s, ent_error, Account) act" where
  "AccountCreate_sqlSave nd m =
     (case AccountCreate_check m of
        Some e \<Rightarrow> fail e
      | None \<Rightarrow> andThen (mapErr createErr (CreateNode nd (AccountCreate_createSpec m)))
          (\<lambda>i. ok ((AccountCreate_createSpec m)\<lparr>ac_ID := i\<rparr>)))"

definition AccountCreate_Save :: "'s login_drv \<Rightarrow> AccountMutation \<Rightarrow> ('s, ent_error, Account) act" where
  "AccountCreate_Save drv m =
     andThen (loginNow drv) (\<lambda>createAt. andThen (loginNow drv) (\<lambda>updateAt.
       AccountCreate_sqlSave (TxAccount drv) (AccountCreate_defaults createAt updateAt m)))"

definition AccountUpdate_defaults :: "int \<Rightarrow> AccountMutation \<Rightarrow> AccountMutation" where
  "AccountUpdate_defaults now m =
     (if am_update_at_unix m = None then SetAccountUpdateAtUnix now m else m)"

definition AccountUpdate_spec :: "AccountMutation \<Rightarrow> Account \<Rightarrow> Account" where
  "AccountUpdate_spec m r = r\<lparr>
     ac_IsDeleted := getOr (ac_IsDeleted r) (am_is_deleted m),
     ac_UpdateAtUnix := getOr (ac_UpdateAtUnix r) (am_update_at_unix m) + getOr 0 (am_addupdate_at_unix m)\<rparr>"

definition AccountUpdate_Save ::
  "'s login_drv \<Rightarrow> (Account \<Rightarrow> bool) list \<Rightarrow> AccountMutation \<Rightarrow> ('s, ent_error, nat) act" where
  "AccountUpdate_Save drv ps m =
     andThen (loginNow drv) (\<lambda>now. UpdateSave (TxAccount drv) ps (AccountUpdate_spec (AccountUpdate_defaults now m)))"

record IdentityMutation =
  im_uid :: "uint64 option"
  im_login_type :: "int option"
  im_app_id :: "string option"
  im_open_id :: "string option"
  im_union_id :: "string option"
  im_create_at_unix :: "int option"

definition newIdentityMutation :: IdentityMutation where
  "newIdentityMutation = \<lparr>im_uid = None, im_login_type = None, im_app_id = None, im_open_id = None,
     im_union_id = None, im_create_at_unix = None\<rparr>"

definition SetIdentityUID :: "uint64 \<Rightarrow> IdentityMutation \<Rightarrow> IdentityMutation" where
  "SetIdentityUID v m = m\<lparr>im_uid := Some v\<rparr>"

definition SetLoginType :: "int \<Rightarrow> IdentityMutation \<Rightarrow> IdentityMutation" where
  "SetLoginType v m = m\<lparr>im_login_type := Some v\<rparr>"

definition SetAppID :: "string \<Rightarrow> IdentityMutation \<Rightarrow> IdentityMutation" where
  "SetAppID v m = m\<lparr>im_app_id := Some v\<rparr>"

definition SetOpenID :: "string \<Rightarrow> IdentityMutation \<Rightarrow> IdentityMutation" where
  "SetOpenID v m = m\<lparr>im_open_id := Some v\<rparr>"

definition SetUnionID :: "string \<Rightarrow> IdentityMutation \<Rightarrow> IdentityMutation" where
  "SetUnionID v m = m\<lparr>im_union_id := Some v\<rparr>"

definition SetIdentityCreateAtUnix :: "int \<Rightarrow> IdentityMutation \<Rightarrow> IdentityMutation" where
  "SetIdentityCreateAtUnix v m = m\<lparr>im_create_at_unix := Some v\<rparr>"

definition IdentityCreate_defaults :: "int \<Rightarrow> IdentityMutation \<Rightarrow> IdentityMutation" where
  "IdentityCreate_defaults now m =
     (if im_create_at_unix m = None then SetIdentityCreateAtUnix now m else m)"

text \<open>\<open>MaxLen(255)\<close> of \<open>schema/identity.go\<close> counts bytes.\<close>

definition MaxLen255 :: "string \<Rightarrow> bool" where
  "MaxLen255 v \<longleftrightarrow> length v \<le> 255"

definition IdentityCreate_check :: "IdentityMutation \<Rightarrow> ent_error option" where
  "IdentityCreate_check m =
     (if im_uid m = None then Some (ValidationError ''uid'')
      else if im_login_type m = None then Some (ValidationError ''login_type'')
      else if im_app_id m = None \<or> \<not> MaxLen255 (getOr '''' (im_app_id m)) then Some (ValidationError ''app_id'')
      else if im_open_id m = None \<or> \<not> MaxLen255 (getOr '''' (im_open_id m)) then Some (ValidationError ''open_id'')
      else if \<not> MaxLen255 (getOr '''' (im_union_id m)) then Some (ValidationError ''union_id'')
      else if im_create_at_unix m = None then Some (ValidationError ''create_at_unix'')
      else None)"

definition IdentityCreate_createSpec :: "IdentityMutation \<Rightarrow> IdentityRow" where
  "IdentityCreate_createSpec m = \<lparr>id_ID = 0, id_UID = getOr 0 (im_uid m), id_LoginType = getOr 0 (im_login_type m),
     id_AppID = getOr '''' (im_app_id m), id_OpenID = getOr '''' (im_open_id m), id_UnionID = im_union_id m,
     id_CreateAtUnix = getOr 0 (im_create_at_unix m)\<rparr>"

definition IdentityCreate_sqlSave ::
  "('s, IdentityRow, uint64) nodes \<Rightarrow> IdentityMutation \<Rightarrow> ('s, ent_error, IdentityRow) act" where
  "IdentityCreate_sqlSave nd m =
     (case IdentityCreate_check m of
        Some e \<Rightarrow> fail e
      | None \<Rightarrow> andThen (mapErr createErr (CreateNode nd (IdentityCreate_createSpec m)))
          (\<lambda>i. ok ((IdentityCreate_createSpec m)\<lparr>id_ID := i\<rparr>)))"

definition IdentityCreate_Save :: "'s login_drv \<Rightarrow> IdentityMutation \<Rightarrow> ('s, ent_error, IdentityRow) act" where
  "IdentityCreate_Save drv m =
     andThen (loginNow drv) (\<lambda>now. IdentityCreate_sqlSave (TxIdentity drv) (IdentityCreate_defaults now m))"

section \<open>Predicates\<close>

definition AccountIDEQ :: "uint64 \<Rightarrow> Account \<Rightarrow> bool" where
  "AccountIDEQ v r \<longleftrightarrow> ac_ID r = v"

definition IsDeletedEQ :: "bool \<Rightarrow> Account \<Rightarrow> bool" where
  "IsDeletedEQ v r \<longleftrightarrow> ac_IsDeleted r = v"

definition IdentityUIDEQ :: "uint64 \<Rightarrow> IdentityRow \<Rightarrow> bool" where
  "IdentityUIDEQ v r \<longleftrightarrow> id_UID r = v"

definition LoginTypeEQ :: "int \<Rightarrow> IdentityRow \<Rightarrow> bool" where
  "LoginTypeEQ v r \<longleftrightarrow> id_LoginType r = v"

definition AppIDEQ :: "string \<Rightarrow> IdentityRow \<Rightarrow> bool" where
  "AppIDEQ v r \<longleftrightarrow> id_AppID r = v"

definition OpenIDEQ :: "string \<Rightarrow> IdentityRow \<Rightarrow> bool" where
  "OpenIDEQ v r \<longleftrightarrow> id_OpenID r = v"

section \<open>Store operations\<close>

text \<open>
  The operations that run in a transaction call \<open>rollback\<close> on every path but a successful
  commit; the error of the rollback is dropped.
\<close>

definition inLoginTx :: "'s login_drv \<Rightarrow> ('s, login_error, 'a) act \<Rightarrow> ('s, login_error, 'a) act" where
  "inLoginTx drv body = andThen (mapErr (\<lambda>_. LoginTx) (BeginLogin drv)) (\<lambda>_ s.
     case andThen body (\<lambda>x. andThen (mapErr (\<lambda>_. LoginTx) (CommitLogin drv)) (\<lambda>_. ok x)) s of
       (Inr x, t) \<Rightarrow> (Inr x, t)
     | (Inl e, t) \<Rightarrow> (Inl e, snd (RollbackLogin drv t)))"

definition FindLoginRecord ::
  "'s login_drv \<Rightarrow> int \<Rightarrow> string \<Rightarrow> string \<Rightarrow> ('s, login_error, uint64 option) act" where
  "FindLoginRecord drv loginType appID openID =
     andThen (attempt (Only (DbIdentity drv) (Where [LoginTypeEQ loginType, AppIDEQ appID, OpenIDEQ openID] Query)))
       (\<lambda>r. case r of
          Inl e \<Rightarrow> if IsNotFound e then ok None else fail (LoginEnt e)
        | Inr row \<Rightarrow> ok (Some (id_UID row)))"

definition lockActiveAccount :: "'s login_drv \<Rightarrow> uint64 \<Rightarrow> ('s, login_error, unit) act" where
  "lockActiveAccount drv uid =
     andThen (attempt (Only (TxAccount drv) (Where [AccountIDEQ uid] Query)))
       (\<lambda>r. case r of
          Inl e \<Rightarrow> if IsNotFound e then fail ErrAccountDeleted else fail (LoginEnt e)
        | Inr row \<Rightarrow> if ac_IsDeleted row then fail ErrAccountDeleted else ok ())"

definition checkAccount :: "'s login_drv \<Rightarrow> uint64 \<Rightarrow> ('s, login_error, unit) act" where
  "checkAccount drv uid =
     andThen (attempt (Only (DbAccount drv) (Where [AccountIDEQ uid] Query)))
       (\<lambda>r. case r of
          Inl e \<Rightarrow> if IsNotFound e then fail (AccountMissing uid) else fail (LoginEnt e)
        | Inr row \<Rightarrow> if ac_IsDeleted row then fail ErrAccountDeleted else ok ())"

text \<open>The builder that both creating an account and binding an identity fill in.\<close>

definition identityMutation :: "uint64 \<Rightarrow> int \<Rightarrow> Identity \<Rightarrow> IdentityMutation" where
  "identityMutation uid loginType ident =
     (let m = SetOpenID (li_OpenID ident) (SetAppID (li_AppID ident) (SetLoginType loginType
                (SetIdentityUID uid newIdentityMutation)))
      in if li_UnionID ident \<noteq> '''' then SetUnionID (li_UnionID ident) m else m)"

definition createAccount :: "'s login_drv \<Rightarrow> int \<Rightarrow> Identity \<Rightarrow> ('s, login_error, uint64) act" where
  "createAccount drv loginType ident = inLoginTx drv
     (andThen (mapErr LoginEnt (AccountCreate_Save drv newAccountMutation)) (\<lambda>acc.
      andThen (mapErr LoginEnt (IdentityCreate_Save drv (identityMutation (ac_ID acc) loginType ident))) (\<lambda>_.
      ok (ac_ID acc))))"

definition FindOrCreateAccount ::
  "'s login_drv \<Rightarrow> int \<Rightarrow> Identity \<Rightarrow> ('s, login_error, uint64 \<times> bool) act" where
  "FindOrCreateAccount drv loginType ident =
     andThen (FindLoginRecord drv loginType (li_AppID ident) (li_OpenID ident)) (\<lambda>found.
     case found of
       Some uid \<Rightarrow> andThen (checkAccount drv uid) (\<lambda>_. ok (uid, False))
     | None \<Rightarrow>
         andThen (attempt (createAccount drv loginType ident)) (\<lambda>created.
         case created of
           Inr uid \<Rightarrow> ok (uid, True)
         | Inl e \<Rightarrow>
             if \<not> loginIsConstraint e then fail e
             else andThen (FindLoginRecord drv loginType (li_AppID ident) (li_OpenID ident)) (\<lambda>found2.
               case found2 of
                 None \<Rightarrow> fail e
               | Some uid \<Rightarrow> andThen (checkAccount drv uid) (\<lambda>_. ok (uid, False)))))"

definition BindIdentity :: "'s login_drv \<Rightarrow> uint64 \<Rightarrow> int \<Rightarrow> Identity \<Rightarrow> ('s, login_error, unit) act" where
  "BindIdentity drv uid loginType ident = inLoginTx drv
     (andThen (lockActiveAccount drv uid) (\<lambda>_.
      andThen (attempt (Only (TxIdentity drv)
         (Where [LoginTypeEQ loginType, AppIDEQ (li_AppID ident), OpenIDEQ (li_OpenID ident)] Query))) (\<lambda>bound.
      case bound of
        Inr row \<Rightarrow> if id_UID row = uid then ok () else fail ErrIdentityBoundOtherAccount
      | Inl e \<Rightarrow>
          if \<not> IsNotFound e then fail (LoginEnt e)
          else andThen (mapErr LoginEnt (Exist (TxIdentity drv)
                 (Where [IdentityUIDEQ uid, LoginTypeEQ loginType, AppIDEQ (li_AppID ident)] Query))) (\<lambda>alreadyBound.
            if alreadyBound then fail ErrLoginTypeAlreadyBound
            else andThen (mapErr (\<lambda>x. if IsConstraintError x then ErrIdentityBoundOtherAccount else LoginEnt x)
                   (IdentityCreate_Save drv (identityMutation uid loginType ident))) (\<lambda>_. ok ())))))"

definition UnbindIdentity :: "'s login_drv \<Rightarrow> uint64 \<Rightarrow> int \<Rightarrow> Identity \<Rightarrow> ('s, login_error, unit) act" where
  "UnbindIdentity drv uid loginType ident = inLoginTx drv
     (andThen (lockActiveAccount drv uid) (\<lambda>_.
      andThen (attempt (Only (TxIdentity drv)
         (Where [LoginTypeEQ loginType, AppIDEQ (li_AppID ident), OpenIDEQ (li_OpenID ident)] Query))) (\<lambda>bound.
      case bound of
        Inl e \<Rightarrow> if IsNotFound e then fail ErrIdentityNotBound else fail (LoginEnt e)
      | Inr row \<Rightarrow>
          if id_UID row \<noteq> uid then fail ErrIdentityNotBound
          else andThen (mapErr LoginEnt (CountQ (TxIdentity drv) (Where [IdentityUIDEQ uid] Query))) (\<lambda>identityCount.
            if identityCount \<le> 1 then fail ErrLastIdentity
            else mapErr LoginEnt (DeleteOneExec (TxIdentity drv) (\<lambda>r. id_ID r = id_ID row))))))"

definition DeleteAccount :: "'s login_drv \<Rightarrow> uint64 \<Rightarrow> ('s, login_error, unit) act" where
  "DeleteAccount drv uid = inLoginTx drv
     (andThen (mapErr LoginEnt (AccountUpdate_Save drv [AccountIDEQ uid, IsDeletedEQ False]
         (SetIsDeleted True newAccountMutation))) (\<lambda>affected.
      if affected = 0 then fail ErrAccountDeleted
      else andThen (mapErr LoginEnt (DeleteExec (TxIdentity drv) [IdentityUIDEQ uid])) (\<lambda>_. ok ())))"

end
