(* ===== verification/LoginLaws.thy ===== *)
theory LoginLaws
  imports LoginStore
begin

text \<open>
  What the account store relies on. Several API nodes run against the same database, so between
  two transactions of this node the others may commit anything that \<open>elsewhere\<close> allows: they
  keep the consistency of the tables, never drop an account and never bring a deleted one back.
  The operations of the store keep the same promise, so any number of nodes can run together.
  Inside a transaction the committed content does not change: transactions of one account are
  serialised by the row lock of \<open>lockActiveAccount\<close> (\<open>FOR UPDATE\<close>), and a row that another
  transaction has inserted meanwhile shows up as a violation of a unique index, as if that
  transaction had committed before this one began.
\<close>

section \<open>Consistency\<close>

record login_tables =
  lt_accounts :: "Account list"
  lt_idents :: "IdentityRow list"

definition active :: "uint64 \<Rightarrow> login_tables \<Rightarrow> bool" where
  "active uid T \<longleftrightarrow> (\<exists>a \<in> set (lt_accounts T). ac_ID a = uid \<and> \<not> ac_IsDeleted a)"

definition loginInv :: "login_tables \<Rightarrow> bool" where
  "loginInv T \<longleftrightarrow> distinct (map ac_ID (lt_accounts T)) \<and> uniq id_ID identityConflict (lt_idents T)
     \<and> (\<forall>r \<in> set (lt_idents T). active (id_UID r) T)
     \<and> (\<forall>a \<in> set (lt_accounts T). \<not> ac_IsDeleted a \<longrightarrow> (\<exists>r \<in> set (lt_idents T). id_UID r = ac_ID a))"

definition accountsKept :: "login_tables \<Rightarrow> login_tables \<Rightarrow> bool" where
  "accountsKept T T' \<longleftrightarrow> (\<forall>a \<in> set (lt_accounts T). \<exists>b \<in> set (lt_accounts T').
     ac_ID b = ac_ID a \<and> (ac_IsDeleted a \<longrightarrow> ac_IsDeleted b))"

definition elsewhere :: "login_tables \<Rightarrow> login_tables \<Rightarrow> bool" where
  "elsewhere T T' \<longleftrightarrow> (loginInv T \<longrightarrow> loginInv T') \<and> accountsKept T T'"

lemma accountsKept_refl [simp]: "accountsKept T T"
  by (auto simp: accountsKept_def)

lemma elsewhere_refl [simp, intro]: "elsewhere T T"
  by (simp add: elsewhere_def)

lemma elsewhere_trans [trans]: "elsewhere S T \<Longrightarrow> elsewhere T U \<Longrightarrow> elsewhere S U"
  unfolding elsewhere_def accountsKept_def by fastforce

lemma elsewhere_inv: "elsewhere T T' \<Longrightarrow> loginInv T \<Longrightarrow> loginInv T'"
  by (simp add: elsewhere_def)

lemma at_most_one: "(\<And>a b bs. xs = a # b # bs \<Longrightarrow> False) \<Longrightarrow> length xs \<le> 1"
  by (cases xs; cases "tl xs") auto

lemma active_iff:
  assumes "loginInv T"
  shows "filter (matches [AccountIDEQ uid]) (lt_accounts T) = [a] \<Longrightarrow> active uid T \<longleftrightarrow> \<not> ac_IsDeleted a"
    and "filter (matches [AccountIDEQ uid]) (lt_accounts T) = [] \<Longrightarrow> \<not> active uid T"
    and "length (filter (matches [AccountIDEQ uid]) (lt_accounts T)) \<le> 1"
proof -
  let ?f = "filter (matches [AccountIDEQ uid]) (lt_accounts T)"
  have f: "set ?f = {a \<in> set (lt_accounts T). ac_ID a = uid}"
    by (auto simp: matches_def AccountIDEQ_def)
  show "?f = [a] \<Longrightarrow> active uid T \<longleftrightarrow> \<not> ac_IsDeleted a" "?f = [] \<Longrightarrow> \<not> active uid T"
    using f by (auto simp: active_def)
  have d: "distinct (map ac_ID ?f)"
    using assms by (simp add: loginInv_def distinct_map_filter)
  show "length ?f \<le> 1"
  proof (rule at_most_one)
    fix a b bs assume l: "?f = a # b # bs"
    then have "a \<in> set ?f" "b \<in> set ?f" by simp_all
    then have "ac_ID a = ac_ID b" unfolding f by simp
    with d l show False by simp
  qed
qed

section \<open>The directory of logins\<close>

text \<open>The abstract view of the tables: which identity belongs to which player, and who is active.\<close>

type_synonym login_key = "int \<times> string \<times> string"

record directory =
  dir_bound :: "login_key \<rightharpoonup> uint64"
  dir_active :: "uint64 set"

definition keyOf :: "IdentityRow \<Rightarrow> login_key" where
  "keyOf r = (id_LoginType r, id_AppID r, id_OpenID r)"

definition lookup :: "IdentityRow list \<Rightarrow> login_key \<rightharpoonup> uint64" where
  "lookup rows k = map_option id_UID (find (\<lambda>r. keyOf r = k) rows)"

definition dirOf :: "login_tables \<Rightarrow> directory" where
  "dirOf T = \<lparr>dir_bound = lookup (lt_idents T), dir_active = {uid. active uid T}\<rparr>"

lemma uniq_conflict:
  assumes "uniq id_ID identityConflict rows" "a \<in> set rows" "b \<in> set rows" "identityConflict a b"
  shows "a = b"
proof (rule ccontr)
  assume "a \<noteq> b"
  with assms(2,3) obtain i j where ij: "i < length rows" "j < length rows" "rows ! i = a" "rows ! j = b" "i \<noteq> j"
    by (metis in_set_conv_nth)
  have "identityConflict b a" using assms(4) by (auto simp: identityConflict_def)
  with ij assms(1,4) show False
    by (cases "i < j") (auto simp: uniq_def sorted_wrt_iff_nth_less)
qed

lemma lookup_None: "lookup rows k = None \<longleftrightarrow> (\<forall>r \<in> set rows. keyOf r \<noteq> k)"
  by (auto simp: lookup_def find_None_iff)

lemma lookup_Some:
  assumes "uniq id_ID identityConflict rows"
  shows "lookup rows k = Some u \<longleftrightarrow> (\<exists>r \<in> set rows. keyOf r = k \<and> id_UID r = u)"
proof
  assume "lookup rows k = Some u"
  then show "\<exists>r \<in> set rows. keyOf r = k \<and> id_UID r = u"
    by (auto simp: lookup_def find_Some_iff)
next
  assume "\<exists>r \<in> set rows. keyOf r = k \<and> id_UID r = u"
  then obtain r where r: "r \<in> set rows" "keyOf r = k" "id_UID r = u" by blast
  then obtain x where x: "find (\<lambda>r. keyOf r = k) rows = Some x"
    by (cases "find (\<lambda>r. keyOf r = k) rows") (auto simp: find_None_iff)
  then have "x \<in> set rows" "keyOf x = k" by (auto simp: find_Some_iff)
  with r uniq_conflict [OF assms, of x r] have "x = r" by (auto simp: identityConflict_def keyOf_def)
  with x r show "lookup rows k = Some u" by (simp add: lookup_def)
qed

lemma lookup_Some_mem: "lookup rows k = Some u \<Longrightarrow> \<exists>r \<in> set rows. keyOf r = k \<and> id_UID r = u"
  by (auto simp: lookup_def find_Some_iff)

lemma lookup_snoc: "lookup (rows @ [r]) k = (if lookup rows k = None \<and> keyOf r = k then Some (id_UID r) else lookup rows k)"
  by (induction rows) (auto simp: lookup_def)

lemma uniq_filter: "uniq id_ID identityConflict rows \<Longrightarrow> uniq id_ID identityConflict (filter P rows)"
  by (auto simp: uniq_def distinct_map_filter sorted_wrt_filter)

lemma lookup_filter:
  assumes "uniq id_ID identityConflict rows"
  shows "lookup (filter P rows) k = Some u \<longleftrightarrow> (\<exists>r \<in> set rows. P r \<and> keyOf r = k \<and> id_UID r = u)"
  by (auto simp: lookup_Some [OF uniq_filter [OF assms]])

text \<open>What a query by key finds.\<close>

abbreviation keyPreds :: "int \<Rightarrow> string \<Rightarrow> string \<Rightarrow> (IdentityRow \<Rightarrow> bool) list" where
  "keyPreds lt app oid \<equiv> [LoginTypeEQ lt, AppIDEQ app, OpenIDEQ oid]"

lemma matches_key: "matches (keyPreds lt app oid) r \<longleftrightarrow> keyOf r = (lt, app, oid)"
  by (auto simp: matches_def LoginTypeEQ_def AppIDEQ_def OpenIDEQ_def keyOf_def)

lemma key_query:
  assumes "uniq id_ID identityConflict rows"
  shows "filter (matches (keyPreds lt app oid)) rows = [r] \<Longrightarrow> r \<in> set rows \<and> keyOf r = (lt, app, oid)
      \<and> lookup rows (lt, app, oid) = Some (id_UID r)"
    and "filter (matches (keyPreds lt app oid)) rows = [] \<Longrightarrow> lookup rows (lt, app, oid) = None"
    and "length (filter (matches (keyPreds lt app oid)) rows) \<le> 1"
proof -
  let ?f = "filter (matches (keyPreds lt app oid)) rows"
  have f: "set ?f = {r \<in> set rows. keyOf r = (lt, app, oid)}" by (auto simp: matches_key)
  show "?f = [r] \<Longrightarrow> r \<in> set rows \<and> keyOf r = (lt, app, oid) \<and> lookup rows (lt, app, oid) = Some (id_UID r)"
  proof -
    assume "?f = [r]"
    with f have "r \<in> set rows" "keyOf r = (lt, app, oid)" by auto
    then show ?thesis using lookup_Some [OF assms] by blast
  qed
  show "?f = [] \<Longrightarrow> lookup rows (lt, app, oid) = None"
    using f by (auto simp: lookup_None)
  show "length ?f \<le> 1"
  proof (rule at_most_one)
    fix a b bs assume l: "?f = a # b # bs"
    then have "a \<in> set ?f" "b \<in> set ?f" by simp_all
    then have "identityConflict a b" unfolding f by (auto simp: identityConflict_def keyOf_def)
    with uniq_filter [OF assms, of "matches (keyPreds lt app oid)"] l show False by (simp add: uniq_def)
  qed
qed

section \<open>The laws of the database\<close>

definition setAccountID :: "uint64 \<Rightarrow> Account \<Rightarrow> Account" where
  "setAccountID i r = r\<lparr>ac_ID := i\<rparr>"

definition setIdentID :: "uint64 \<Rightarrow> IdentityRow \<Rightarrow> IdentityRow" where
  "setIdentID i r = r\<lparr>id_ID := i\<rparr>"

locale login_db =
  ac: node_table mf "TxAccount drv" "\<lambda>s. lt_accounts (cur s)"
        "\<lambda>s t. com t = com s \<and> lt_idents (cur t) = lt_idents (cur s)"
        "\<lambda>s t. com t = com s" ac_ID setAccountID noIndex +
  idt: node_table mf "TxIdentity drv" "\<lambda>s. lt_idents (cur s)"
        "\<lambda>s t. com t = com s \<and> lt_accounts (cur t) = lt_accounts (cur s)"
        "\<lambda>s t. com t = com s" id_ID setIdentID identityConflict
  for mf :: bool and drv :: "'s login_drv" and com cur :: "'s \<Rightarrow> login_tables" +
  assumes begin_law:
      "wp (BeginLogin drv) (\<lambda>_ t. elsewhere (com s) (com t) \<and> cur t = com t) (\<lambda>_ t. mf \<and> elsewhere (com s) (com t)) s"
    and commit_law:
      "wp (CommitLogin drv) (\<lambda>_ t. com t = cur s) (\<lambda>_ t. mf \<and> (com t = com s \<or> com t = cur s)) s"
    and rollback_law: "com (snd (RollbackLogin drv s)) = com s"
    and account_law:
      "wp (QueryNodes (DbAccount drv) qa) (\<lambda>rs t. elsewhere (com s) (com t) \<and> selects qa (lt_accounts (com t)) rs)
         (\<lambda>_ t. mf \<and> elsewhere (com s) (com t)) s"
    and identity_law:
      "wp (QueryNodes (DbIdentity drv) qi) (\<lambda>rs t. elsewhere (com s) (com t) \<and> selects qi (lt_idents (com t)) rs)
         (\<lambda>_ t. mf \<and> elsewhere (com s) (com t)) s"
    and clock_law: "LoginClock drv s = (now, s') \<Longrightarrow> com s' = com s \<and> cur s' = cur s"

text \<open>A query of a single row whose table other sessions may change before it is read.\<close>

lemma wp_Only_reads:
  assumes "wp (QueryNodes nd (Limit 2 q)) (\<lambda>rs t. F t \<and> selects (Limit 2 q) (rows t) rs) (\<lambda>_ t. G t) s"
    and "\<And>t. F t \<Longrightarrow> length (filter (matches (predicates q)) (rows t)) \<le> 1"
    and "\<And>r t. F t \<Longrightarrow> filter (matches (predicates q)) (rows t) = [r] \<Longrightarrow> Q r t"
    and "\<And>t. F t \<Longrightarrow> filter (matches (predicates q)) (rows t) = [] \<Longrightarrow> E NotFoundError t"
    and "\<And>t. G t \<Longrightarrow> E DriverError t"
  shows "wp (Only nd q) Q E s"
  unfolding Only_def All_def wp_simps
proof (rule wp_mono [OF assms(1)], goal_cases)
  case (1 rs t)
  consider "rs = []" | r where "rs = [r]" | a b bs where "rs = a # b # bs" by (metis list.exhaust)
  then show ?case
  proof cases
    case 1
    with \<open>F t \<and> _\<close> have "filter (matches (predicates q)) (rows t) = []"
      using selects_Limit_Nil [of 1 q "rows t"] by (simp add: numeral_2_eq_2)
    with 1 \<open>F t \<and> _\<close> assms(4) show ?thesis by (simp add: wp_simps)
  next
    case 2
    with \<open>F t \<and> _\<close> selects_Limit_single [of q "rows t" r] assms(3) [of t r] show ?thesis by (simp add: wp_simps)
  next
    case 3
    with \<open>F t \<and> _\<close> selects_Limit_many [of q "rows t" a b bs] assms(2) [of t] show ?thesis by simp
  qed
next
  case (2 e t)
  with assms(5) show ?case by simp
qed

lemma predicates_Where [simp]: "predicates (Where ps Query) = ps" "limit (Where ps Query) = None"
  by (simp_all add: Where_def Query_def)

text \<open>
  The outcome of a transaction. \<open>P\<close> relates the content it started from to what it commits, \<open>X\<close>
  says which errors its body may give; a failed begin or commit is reported as \<open>LoginTx\<close>, and a
  failed commit may have taken effect.
\<close>

definition txDone :: "(login_tables \<Rightarrow> login_tables \<Rightarrow> bool) \<Rightarrow> login_tables \<Rightarrow> login_tables \<Rightarrow> bool" where
  "txDone P S T' \<longleftrightarrow> (\<exists>T. elsewhere S T \<and> P T T')"

definition txFailed ::
  "bool \<Rightarrow> (login_tables \<Rightarrow> login_tables \<Rightarrow> bool) \<Rightarrow> (login_tables \<Rightarrow> bool) \<Rightarrow> login_tables \<Rightarrow> login_tables \<Rightarrow> bool" where
  "txFailed mf P X S T' \<longleftrightarrow> elsewhere S T' \<and> (mf \<or> X T') \<or> mf \<and> txDone P S T'"

context login_db
begin

lemma wp_loginNow:
  assumes "\<And>n t. com t = com s \<Longrightarrow> cur t = cur s \<Longrightarrow> Q n t"
  shows "wp (loginNow drv) Q E s"
  using assms clock_law [of s] by (auto simp: wp_def loginNow_def split: prod.splits)

lemma wp_inLoginTx:
  assumes "\<And>t. elsewhere (com s) (com t) \<Longrightarrow> cur t = com t \<Longrightarrow>
      wp body (\<lambda>x t'. com t' = com t \<and> P x (com t) (cur t')) (\<lambda>e t'. com t' = com t \<and> (mf \<or> X e (com t))) t"
  shows "wp (inLoginTx drv body) (\<lambda>x t. txDone (P x) (com s) (com t))
     (\<lambda>e t. txFailed mf (\<lambda>T T'. \<exists>x. P x T T') (X e) (com s) (com t)) s"
  unfolding inLoginTx_def wp_andThen wp_mapErr
proof (rule wp_mono [OF begin_law], goal_cases)
  case (1 u t)
  then have t: "elsewhere (com s) (com t)" "cur t = com t" by simp_all
  have "wp (andThen body (\<lambda>x. andThen (mapErr (\<lambda>_. LoginTx) (CommitLogin drv)) (\<lambda>_. ok x)))
      (\<lambda>x t. txDone (P x) (com s) (com t)) (\<lambda>e t. txFailed mf (\<lambda>T T'. \<exists>x. P x T T') (X e) (com s) (com t)) t"
    unfolding wp_simps
  proof (rule wp_mono [OF assms [OF t]], goal_cases)
    case (1 x t')
    then show ?case
      by (intro wp_mono [OF commit_law]) (use t in \<open>auto simp: txDone_def txFailed_def\<close>)
  next
    case (2 e t')
    with t show ?case by (auto simp: txFailed_def)
  qed
  then show ?case using rollback_law by (auto simp: wp_def split: prod.splits sum.splits)
next
  case (2 e t)
  then show ?case by (simp add: txFailed_def)
qed

lemma wp_FindLoginRecord:
  assumes inv: "loginInv (com s)"
    and "\<And>t. elsewhere (com s) (com t) \<Longrightarrow> Q (lookup (lt_idents (com t)) (lt, app, oid)) t"
    and "\<And>e t. mf \<Longrightarrow> elsewhere (com s) (com t) \<Longrightarrow> \<not> loginIsConstraint e \<Longrightarrow> E e t"
  shows "wp (FindLoginRecord drv lt app oid) Q E s"
  unfolding FindLoginRecord_def wp_simps
proof (rule wp_Only_reads [OF identity_law], goal_cases)
  case (1 t)
  have "uniq id_ID identityConflict (lt_idents (com t))" using elsewhere_inv [OF 1 inv] by (simp add: loginInv_def)
  then show ?case using key_query(3) by simp
next
  case (2 r t)
  have "uniq id_ID identityConflict (lt_idents (com t))" using elsewhere_inv [OF 2(1) inv] by (simp add: loginInv_def)
  with 2 have "lookup (lt_idents (com t)) (lt, app, oid) = Some (id_UID r)" using key_query(1) by simp
  with 2 assms(2) [of t] show ?case by (simp add: wp_simps)
next
  case (3 t)
  have "uniq id_ID identityConflict (lt_idents (com t))" using elsewhere_inv [OF 3(1) inv] by (simp add: loginInv_def)
  with 3 have "lookup (lt_idents (com t)) (lt, app, oid) = None" using key_query(2) by simp
  with 3 assms(2) [of t] show ?case by (simp add: wp_simps IsNotFound_def)
next
  case (4 t)
  with assms(3) show ?case by (simp add: wp_simps IsNotFound_def loginIsConstraint_def IsConstraintError_def)
qed

lemma wp_checkAccount:
  assumes inv: "loginInv (com s)"
    and "\<And>t. elsewhere (com s) (com t) \<Longrightarrow> active uid (com t) \<Longrightarrow> Q () t"
    and "\<And>e t. elsewhere (com s) (com t) \<Longrightarrow> (mf \<or> \<not> active uid (com t)) \<Longrightarrow> E e t"
  shows "wp (checkAccount drv uid) Q E s"
  unfolding checkAccount_def wp_simps
proof (rule wp_Only_reads [OF account_law], goal_cases)
  case (1 t)
  then show ?case using active_iff(3) [OF elsewhere_inv [OF 1 inv]] by simp
next
  case (2 r t)
  then show ?case using active_iff(1) [OF elsewhere_inv [OF 2(1) inv], of uid r] assms(2,3) by (simp add: wp_simps)
next
  case (3 t)
  then show ?case using active_iff(2) [OF elsewhere_inv [OF 3(1) inv]] assms(3) by (simp add: wp_simps IsNotFound_def)
next
  case (4 t)
  with assms(3) show ?case by (simp add: wp_simps IsNotFound_def)
qed

end

end
