(* ===== verification/LoginProps.thy ===== *)
theory LoginProps
  imports LoginLaws
begin

text \<open>
  The account store against its specification: an abstract directory of logins with the four
  operations register, bind, unbind and delete. Each store operation, run in its transaction,
  does to the tables exactly what the operation does to the directory they represent, errors
  included, and keeps the consistency of the tables.
\<close>

section \<open>The abstract operations\<close>

definition tooLong :: "Identity \<Rightarrow> string option" where
  "tooLong ident = (if \<not> MaxLen255 (li_AppID ident) then Some ''app_id''
     else if \<not> MaxLen255 (li_OpenID ident) then Some ''open_id''
     else if \<not> MaxLen255 (li_UnionID ident) then Some ''union_id'' else None)"

abbreviation identKey :: "int \<Rightarrow> Identity \<Rightarrow> login_key" where
  "identKey lt ident \<equiv> (lt, li_AppID ident, li_OpenID ident)"

definition registerSpec :: "uint64 \<Rightarrow> int \<Rightarrow> Identity \<Rightarrow> directory \<Rightarrow> directory" where
  "registerSpec uid lt ident D =
     \<lparr>dir_bound = (dir_bound D)(identKey lt ident \<mapsto> uid), dir_active = insert uid (dir_active D)\<rparr>"

definition bindSpec :: "uint64 \<Rightarrow> int \<Rightarrow> Identity \<Rightarrow> directory \<Rightarrow> login_error + directory" where
  "bindSpec uid lt ident D =
     (if uid \<notin> dir_active D then Inl ErrAccountDeleted
      else case dir_bound D (identKey lt ident) of
        Some u \<Rightarrow> if u = uid then Inr D else Inl ErrIdentityBoundOtherAccount
      | None \<Rightarrow>
          if \<exists>oid. dir_bound D (lt, li_AppID ident, oid) = Some uid then Inl ErrLoginTypeAlreadyBound
          else case tooLong ident of
            Some field \<Rightarrow> Inl (LoginEnt (ValidationError field))
          | None \<Rightarrow> Inr (D\<lparr>dir_bound := (dir_bound D)(identKey lt ident \<mapsto> uid)\<rparr>))"

definition unbindSpec :: "uint64 \<Rightarrow> int \<Rightarrow> Identity \<Rightarrow> directory \<Rightarrow> login_error + directory" where
  "unbindSpec uid lt ident D =
     (if uid \<notin> dir_active D then Inl ErrAccountDeleted
      else if dir_bound D (identKey lt ident) \<noteq> Some uid then Inl ErrIdentityNotBound
      else if \<forall>k. dir_bound D k = Some uid \<longrightarrow> k = identKey lt ident then Inl ErrLastIdentity
      else Inr (D\<lparr>dir_bound := (dir_bound D)(identKey lt ident := None)\<rparr>))"

definition deleteSpec :: "uint64 \<Rightarrow> directory \<Rightarrow> login_error + directory" where
  "deleteSpec uid D =
     (if uid \<notin> dir_active D then Inl ErrAccountDeleted
      else Inr \<lparr>dir_bound = (\<lambda>k. if dir_bound D k = Some uid then None else dir_bound D k),
                dir_active = dir_active D - {uid}\<rparr>)"

section \<open>Changes of the tables\<close>

text \<open>A row for a new identity, an account with its first identity, an identity removed, an account closed.\<close>

lemma dirOf_simps [simp]: "dir_bound (dirOf T) = lookup (lt_idents T)" "uid \<in> dir_active (dirOf T) \<longleftrightarrow> active uid T"
  by (simp_all add: dirOf_def)

lemma dirOf_eqI:
  assumes "lookup (lt_idents T) = dir_bound D" "\<And>u. active u T \<longleftrightarrow> u \<in> dir_active D"
  shows "dirOf T = D"
  using assms by (cases D) (auto simp: dirOf_def)

lemma loginInvD:
  assumes "loginInv T"
  shows "distinct (map ac_ID (lt_accounts T))" "uniq id_ID identityConflict (lt_idents T)"
    "\<And>r. r \<in> set (lt_idents T) \<Longrightarrow> active (id_UID r) T"
    "\<And>u. active u T \<Longrightarrow> \<exists>r \<in> set (lt_idents T). id_UID r = u"
  using assms by (auto simp: loginInv_def active_def)

lemma active_accounts: "lt_accounts T' = lt_accounts T \<Longrightarrow> active u T' \<longleftrightarrow> active u T"
  by (simp add: active_def)

lemma accountsKept_same: "lt_accounts T' = lt_accounts T \<Longrightarrow> accountsKept T T'"
  by (auto simp: accountsKept_def)

lemma loginInv_same_accounts:
  assumes "loginInv T" "lt_accounts T' = lt_accounts T" "uniq id_ID identityConflict (lt_idents T')"
    and "\<And>r. r \<in> set (lt_idents T') \<Longrightarrow> active (id_UID r) T"
    and "\<And>u. active u T \<Longrightarrow> \<exists>r \<in> set (lt_idents T'). id_UID r = u"
  shows "loginInv T'"
  using assms active_accounts [OF assms(2)] unfolding loginInv_def by (auto simp: active_def)

lemma bound_added:
  assumes inv: "loginInv T" and T': "lt_accounts T' = lt_accounts T" "lt_idents T' = lt_idents T @ [r]"
    and u: "uniq id_ID identityConflict (lt_idents T')" and act: "active (id_UID r) T"
  shows "loginInv T' \<and> accountsKept T T' \<and> dirOf T' = (dirOf T)\<lparr>dir_bound := (lookup (lt_idents T))(keyOf r \<mapsto> id_UID r)\<rparr>"
proof (intro conjI)
  show "loginInv T'"
    by (rule loginInv_same_accounts [OF inv T'(1) u]) (use T' act loginInvD(3,4) [OF inv] in auto)
  show "accountsKept T T'" using accountsKept_same [OF T'(1)] .
  have "lookup (lt_idents T) (keyOf r) = None"
  proof -
    have "\<not> identityConflict x r" if "x \<in> set (lt_idents T)" for x
      using u that T'(2) by (simp add: uniq_snoc)
    then show ?thesis by (auto simp: lookup_None keyOf_def identityConflict_def)
  qed
  then have "lookup (lt_idents T') = (lookup (lt_idents T))(keyOf r \<mapsto> id_UID r)"
    using T'(2) by (simp add: lookup_snoc fun_eq_iff)
  then show "dirOf T' = (dirOf T)\<lparr>dir_bound := (lookup (lt_idents T))(keyOf r \<mapsto> id_UID r)\<rparr>"
    using active_accounts [OF T'(1)] by (simp add: dirOf_def)
qed

lemma registered_tables:
  assumes inv: "loginInv T" and T': "lt_accounts T' = lt_accounts T @ [a]" "lt_idents T' = lt_idents T @ [r]"
    and u: "uniq id_ID identityConflict (lt_idents T')" and d: "distinct (map ac_ID (lt_accounts T'))"
    and a: "\<not> ac_IsDeleted a" "id_UID r = ac_ID a" and k: "keyOf r = identKey lt ident"
  shows "loginInv T' \<and> accountsKept T T' \<and> dirOf T' = registerSpec (ac_ID a) lt ident (dirOf T)
     \<and> lookup (lt_idents T) (identKey lt ident) = None \<and> ac_ID a \<notin> ac_ID ` set (lt_accounts T)"
proof (intro conjI)
  have act: "active v T' \<longleftrightarrow> active v T \<or> v = ac_ID a" for v
    using T'(1) a by (auto simp: active_def)
  show "loginInv T'"
    unfolding loginInv_def using T' u d a loginInvD [OF inv] act by (auto simp: active_def)
  show "accountsKept T T'" using T' by (auto simp: accountsKept_def)
  have "\<not> identityConflict x r" if "x \<in> set (lt_idents T)" for x
    using u that T'(2) by (simp add: uniq_snoc)
  with k show n: "lookup (lt_idents T) (identKey lt ident) = None"
    by (auto simp: lookup_None keyOf_def identityConflict_def)
  show "dirOf T' = registerSpec (ac_ID a) lt ident (dirOf T)"
    by (intro dirOf_eqI) (use T' n k a act in \<open>auto simp: registerSpec_def lookup_snoc fun_eq_iff\<close>)
  show "ac_ID a \<notin> ac_ID ` set (lt_accounts T)" using d T'(1) by auto
qed

lemma option_ext: "(\<And>u. x = Some u \<longleftrightarrow> y = Some u) \<Longrightarrow> x = y"
  by (cases x; cases y) auto

lemma unbound_tables:
  assumes inv: "loginInv T" and r: "r \<in> set (lt_idents T)"
    and T': "lt_accounts T' = lt_accounts T" "lt_idents T' = filter (\<lambda>x. id_ID x \<noteq> id_ID r) (lt_idents T)"
    and other: "x \<in> set (lt_idents T)" "id_UID x = id_UID r" "keyOf x \<noteq> keyOf r"
  shows "loginInv T' \<and> accountsKept T T' \<and> dirOf T' = (dirOf T)\<lparr>dir_bound := (lookup (lt_idents T))(keyOf r := None)\<rparr>"
proof (intro conjI)
  note u = loginInvD(2) [OF inv]
  have ids: "id_ID y = id_ID r \<longleftrightarrow> y = r" if "y \<in> set (lt_idents T)" for y
    using u that r by (auto simp: uniq_def distinct_map inj_on_def)
  have keys: "keyOf y = keyOf r \<longleftrightarrow> y = r" if "y \<in> set (lt_idents T)" for y
    using uniq_conflict [OF u that r] by (auto simp: identityConflict_def keyOf_def)
  have f: "set (lt_idents T') = set (lt_idents T) - {r}" using T'(2) ids by auto
  show "loginInv T'"
  proof (rule loginInv_same_accounts [OF inv T'(1)])
    show "uniq id_ID identityConflict (lt_idents T')" using T'(2) uniq_filter [OF u] by simp
    fix v assume "active v T"
    then obtain y where "y \<in> set (lt_idents T)" "id_UID y = v" using loginInvD(4) [OF inv] by blast
    with f other show "\<exists>y \<in> set (lt_idents T'). id_UID y = v" by (cases "y = r") auto
  qed (use f loginInvD(3) [OF inv] in auto)
  show "accountsKept T T'" using accountsKept_same [OF T'(1)] .
  have "lookup (lt_idents T') k = ((lookup (lt_idents T))(keyOf r := None)) k" for k
    by (rule option_ext) (use T'(2) lookup_filter [OF u] lookup_Some [OF u] ids keys in auto)
  then show "dirOf T' = (dirOf T)\<lparr>dir_bound := (lookup (lt_idents T))(keyOf r := None)\<rparr>"
    using active_accounts [OF T'(1)] by (simp add: dirOf_def fun_eq_iff)
qed

lemma deleted_tables:
  assumes inv: "loginInv T" and g: "\<And>a. ac_ID (g a) = ac_ID a" "\<And>a. ac_IsDeleted (g a)"
    and T': "lt_accounts T' = updated (\<lambda>a. ac_ID a = uid \<and> \<not> ac_IsDeleted a) g (lt_accounts T)"
      "lt_idents T' = filter (\<lambda>r. id_UID r \<noteq> uid) (lt_idents T)"
    and act: "active uid T"
  shows "loginInv T' \<and> accountsKept T T' \<and> deleteSpec uid (dirOf T) = Inr (dirOf T')"
proof (intro conjI)
  note u = loginInvD(2) [OF inv]
  have a': "active v T' \<longleftrightarrow> active v T \<and> v \<noteq> uid" for v
  proof -
    have "active v T' \<longleftrightarrow> (\<exists>a \<in> set (lt_accounts T). \<not> (ac_ID a = uid \<and> \<not> ac_IsDeleted a) \<and> ac_ID a = v \<and> \<not> ac_IsDeleted a)"
      unfolding active_def T'(1) updated_def using g by (auto split: if_splits)
    then show ?thesis by (auto simp: active_def)
  qed
  have "map ac_ID (lt_accounts T') = map ac_ID (lt_accounts T)"
    using T'(1) g by (simp add: updated_def)
  with loginInvD(1) [OF inv] have d: "distinct (map ac_ID (lt_accounts T'))" by simp
  have live: "\<exists>r \<in> set (lt_idents T'). id_UID r = ac_ID a" if "a \<in> set (lt_accounts T')" "\<not> ac_IsDeleted a" for a
  proof -
    have "active (ac_ID a) T'" using that by (auto simp: active_def)
    with a' have "active (ac_ID a) T" "ac_ID a \<noteq> uid" by simp_all
    with loginInvD(4) [OF inv] T'(2) show ?thesis by force
  qed
  show "loginInv T'"
    unfolding loginInv_def using d T'(2) uniq_filter [OF u] loginInvD(3) [OF inv] a' live by auto
  show "accountsKept T T'"
    unfolding accountsKept_def T'(1) updated_def
  proof
    fix a assume a: "a \<in> set (lt_accounts T)"
    let ?b = "if ac_ID a = uid \<and> \<not> ac_IsDeleted a then g a else a"
    have "?b \<in> set (map (\<lambda>r. if ac_ID r = uid \<and> \<not> ac_IsDeleted r then g r else r) (lt_accounts T))"
      using a by (auto simp del: if_image_distrib)
    moreover have "ac_ID ?b = ac_ID a \<and> (ac_IsDeleted a \<longrightarrow> ac_IsDeleted ?b)" using g by simp
    ultimately show "\<exists>b \<in> set (map (\<lambda>r. if ac_ID r = uid \<and> \<not> ac_IsDeleted r then g r else r) (lt_accounts T)).
        ac_ID b = ac_ID a \<and> (ac_IsDeleted a \<longrightarrow> ac_IsDeleted b)" by blast
  qed
  have "lookup (lt_idents T') k = Some v \<longleftrightarrow> v \<noteq> uid \<and> lookup (lt_idents T) k = Some v" for k v
    unfolding T'(2) lookup_filter [OF u] lookup_Some [OF u] by auto
  then have "lookup (lt_idents T') k = (if lookup (lt_idents T) k = Some uid then None else lookup (lt_idents T) k)" for k
    by (intro option_ext) auto
  then have "dirOf T' = \<lparr>dir_bound = (\<lambda>k. if lookup (lt_idents T) k = Some uid then None else lookup (lt_idents T) k),
                dir_active = dir_active (dirOf T) - {uid}\<rparr>"
    by (intro dirOf_eqI) (auto simp: a' fun_eq_iff)
  with act show "deleteSpec uid (dirOf T) = Inr (dirOf T')" by (simp add: deleteSpec_def cong: if_cong)
qed

section \<open>Steps inside a transaction\<close>

lemma check_ident: "IdentityCreate_check (IdentityCreate_defaults now (identityMutation uid lt ident)) = map_option ValidationError (tooLong ident)"
  by (simp add: IdentityCreate_check_def IdentityCreate_defaults_def identityMutation_def tooLong_def Let_def
      SetIdentityUID_def SetLoginType_def SetAppID_def SetOpenID_def SetUnionID_def SetIdentityCreateAtUnix_def
      newIdentityMutation_def MaxLen255_def)

lemma spec_ident:
  "id_UID (IdentityCreate_createSpec (IdentityCreate_defaults now (identityMutation uid lt ident))) = uid"
  "keyOf (IdentityCreate_createSpec (IdentityCreate_defaults now (identityMutation uid lt ident))) = identKey lt ident"
  by (simp_all add: IdentityCreate_createSpec_def IdentityCreate_defaults_def identityMutation_def Let_def keyOf_def
      SetIdentityUID_def SetLoginType_def SetAppID_def SetOpenID_def SetUnionID_def SetIdentityCreateAtUnix_def
      newIdentityMutation_def)

lemma setIdentID_simps [simp]: "id_UID (setIdentID i r) = id_UID r" "keyOf (setIdentID i r) = keyOf r"
  by (simp_all add: setIdentID_def keyOf_def)

context login_db
begin

lemma wp_IdentityCreate:
  assumes u: "uniq id_ID identityConflict (lt_idents (cur s))"
    and "\<And>r t. com t = com s \<Longrightarrow> lt_accounts (cur t) = lt_accounts (cur s) \<Longrightarrow> lt_idents (cur t) = lt_idents (cur s) @ [r] \<Longrightarrow>
      uniq id_ID identityConflict (lt_idents (cur t)) \<Longrightarrow> id_UID r = uid \<Longrightarrow> keyOf r = identKey lt ident \<Longrightarrow>
      tooLong ident = None \<Longrightarrow> Q r t"
    and "\<And>t. com t = com s \<Longrightarrow> tooLong ident = None \<Longrightarrow>
      \<exists>x \<in> set (lt_idents (cur s)). keyOf x = identKey lt ident \<or> id_UID x = uid \<and> id_LoginType x = lt \<and> id_AppID x = li_AppID ident \<Longrightarrow>
      E ConstraintError t"
    and "\<And>e t. com t = com s \<Longrightarrow> (case tooLong ident of Some f \<Rightarrow> e = ValidationError f | None \<Rightarrow> mf \<and> e \<noteq> ConstraintError) \<Longrightarrow> E e t"
  shows "wp (IdentityCreate_Save drv (identityMutation uid lt ident)) Q E s"
  unfolding IdentityCreate_Save_def wp_simps
proof (rule wp_loginNow, goal_cases)
  case (1 now t)
  let ?m = "IdentityCreate_defaults now (identityMutation uid lt ident)"
  show ?case
  proof (cases "tooLong ident")
    case (Some f)
    with 1 assms(4) show ?thesis by (simp add: IdentityCreate_sqlSave_def check_ident wp_simps)
  next
    case None
    have "wp (mapErr createErr (CreateNode (TxIdentity drv) (IdentityCreate_createSpec ?m)))
        (\<lambda>i. Q ((IdentityCreate_createSpec ?m)\<lparr>id_ID := i\<rparr>)) E t"
    proof (rule idt.wp_Create, goal_cases)
      case (2 i t')
      with 1 None assms(2) [of t' "setIdentID i (IdentityCreate_createSpec ?m)"] show ?case
        by (simp add: spec_ident) (simp add: setIdentID_def)
    next
      case (3 t')
      then obtain x where "x \<in> set (lt_idents (cur t))" "identityConflict x (IdentityCreate_createSpec ?m)" by blast
      then have "\<exists>x \<in> set (lt_idents (cur t)). keyOf x = identKey lt ident \<or> id_UID x = uid \<and> id_LoginType x = lt \<and> id_AppID x = li_AppID ident"
        using spec_ident [of now uid lt ident] by (auto simp: identityConflict_def keyOf_def)
      with 3 1 None assms(3) show ?case by simp
    qed (use 1 u None assms(4) in auto)
    with None show ?thesis by (simp add: IdentityCreate_sqlSave_def check_ident wp_simps)
  qed
qed

lemma wp_AccountCreate:
  assumes d: "distinct (map ac_ID (lt_accounts (cur s)))"
    and "\<And>a t. com t = com s \<Longrightarrow> lt_idents (cur t) = lt_idents (cur s) \<Longrightarrow> lt_accounts (cur t) = lt_accounts (cur s) @ [a] \<Longrightarrow>
      distinct (map ac_ID (lt_accounts (cur t))) \<Longrightarrow> \<not> ac_IsDeleted a \<Longrightarrow> Q a t"
    and "\<And>e t. com t = com s \<Longrightarrow> mf \<Longrightarrow> E e t"
  shows "wp (AccountCreate_Save drv newAccountMutation) Q E s"
  unfolding AccountCreate_Save_def wp_simps
proof (intro wp_loginNow, goal_cases)
  case (1 n1 t1 n2 t)
  let ?m = "AccountCreate_defaults n1 n2 newAccountMutation"
  have m: "AccountCreate_check ?m = None" "\<not> ac_IsDeleted (AccountCreate_createSpec ?m)"
    by (simp_all add: AccountCreate_check_def AccountCreate_createSpec_def AccountCreate_defaults_def newAccountMutation_def SetIsDeleted_def
        SetAccountCreateAtUnix_def SetAccountUpdateAtUnix_def)
  have "wp (mapErr createErr (CreateNode (TxAccount drv) (AccountCreate_createSpec ?m)))
      (\<lambda>i. Q ((AccountCreate_createSpec ?m)\<lparr>ac_ID := i\<rparr>)) E t"
  proof (rule ac.wp_Create, goal_cases)
    case (2 i t')
    with 1 m assms(2) [of t' "setAccountID i (AccountCreate_createSpec ?m)"] show ?case
      by (simp add: setAccountID_def)
  qed (use 1 d assms(3) in \<open>auto simp: noIndex_def\<close>)
  with m show ?case by (simp add: AccountCreate_sqlSave_def wp_simps)
qed

lemma wp_lockActive:
  assumes "loginInv (cur s)"
    and "\<And>t. com t = com s \<Longrightarrow> cur t = cur s \<Longrightarrow> active uid (cur s) \<Longrightarrow> Q () t"
    and "\<And>t. com t = com s \<Longrightarrow> \<not> active uid (cur s) \<Longrightarrow> E ErrAccountDeleted t"
    and "\<And>e t. com t = com s \<Longrightarrow> mf \<Longrightarrow> E e t"
  shows "wp (lockActiveAccount drv uid) Q E s"
  unfolding lockActiveAccount_def wp_simps
proof (rule ac.wp_Only, goal_cases)
  case (1 r t)
  moreover from 1 have "cur t = cur s" by (simp add: login_tables.equality)
  ultimately show ?case using active_iff(1) [OF assms(1), of uid r] assms(2,3) by (simp add: wp_simps)
next
  case (2 t)
  then show ?case using active_iff(2) [OF assms(1), of uid] assms(3) by (simp add: wp_simps IsNotFound_def)
next
  case (3 t)
  then show ?case using active_iff(3) [OF assms(1), of uid] by simp
next
  case (4 t)
  with assms(4) show ?case by (simp add: wp_simps IsNotFound_def)
qed

lemma wp_keyQuery:
  assumes u: "uniq id_ID identityConflict (lt_idents (cur s))"
    and "\<And>r t. com t = com s \<Longrightarrow> cur t = cur s \<Longrightarrow> r \<in> set (lt_idents (cur s)) \<Longrightarrow> keyOf r = (lt, app, oid) \<Longrightarrow>
      lookup (lt_idents (cur s)) (lt, app, oid) = Some (id_UID r) \<Longrightarrow> Q (Inr r) t"
    and "\<And>t. com t = com s \<Longrightarrow> cur t = cur s \<Longrightarrow> lookup (lt_idents (cur s)) (lt, app, oid) = None \<Longrightarrow> Q (Inl NotFoundError) t"
    and "\<And>t. com t = com s \<Longrightarrow> mf \<Longrightarrow> Q (Inl DriverError) t"
  shows "wp (attempt (Only (TxIdentity drv) (Where (keyPreds lt app oid) Query))) Q E s"
  unfolding wp_simps
proof (rule idt.wp_Only, goal_cases)
  case (1 r t)
  moreover from 1 have "cur t = cur s" by (simp add: login_tables.equality)
  ultimately show ?case using key_query(1) [OF u, of lt app oid r] assms(2) by simp
next
  case (2 t)
  moreover from 2 have "cur t = cur s" by (simp add: login_tables.equality)
  ultimately show ?case using key_query(2) [OF u, of lt app oid] assms(3) by simp
next
  case (3 t)
  then show ?case using key_query(3) [OF u, of lt app oid] by simp
next
  case (4 t)
  with assms(4) show ?case by simp
qed

end

text \<open>A player has one identity exactly when no other key leads to the player.\<close>

lemma mine_last:
  assumes u: "uniq id_ID identityConflict rows" and r: "r \<in> set rows" "id_UID r = uid" "keyOf r = k"
  shows "length (filter (matches [IdentityUIDEQ uid]) rows) \<le> 1 \<longleftrightarrow> (\<forall>k'. lookup rows k' = Some uid \<longrightarrow> k' = k)"
proof
  let ?mine = "filter (matches [IdentityUIDEQ uid]) rows"
  have mine: "set ?mine = {x \<in> set rows. id_UID x = uid}" by (auto simp: matches_def IdentityUIDEQ_def)
  assume "length ?mine \<le> 1"
  moreover have "r \<in> set ?mine" unfolding mine using r by simp
  ultimately have "?mine = [r]" by (cases ?mine) auto
  with mine have "x = r" if "x \<in> set rows" "id_UID x = uid" for x using that by auto
  with r(3) show "\<forall>k'. lookup rows k' = Some uid \<longrightarrow> k' = k" unfolding lookup_Some [OF u] by metis
next
  let ?mine = "filter (matches [IdentityUIDEQ uid]) rows"
  have mine: "set ?mine = {x \<in> set rows. id_UID x = uid}" by (auto simp: matches_def IdentityUIDEQ_def)
  assume one: "\<forall>k'. lookup rows k' = Some uid \<longrightarrow> k' = k"
  show "length ?mine \<le> 1"
  proof (rule at_most_one)
    fix a b bs assume l: "?mine = a # b # bs"
    then have "a \<in> set ?mine" "b \<in> set ?mine" by simp_all
    then have ab: "a \<in> set rows" "id_UID a = uid" "b \<in> set rows" "id_UID b = uid" unfolding mine by simp_all
    with one have "keyOf a = k" "keyOf b = k" unfolding lookup_Some [OF u] by blast+
    then have "identityConflict a b" by (auto simp: identityConflict_def keyOf_def)
    with uniq_filter [OF u, of "matches [IdentityUIDEQ uid]"] l show False by (simp add: uniq_def)
  qed
qed

section \<open>The operations refine the directory\<close>

text \<open>
  \<open>refines\<close> relates what an operation commits to its specification; the error it may give is the
  one the specification gives, for the content the transaction started from.
\<close>

definition refines :: "(directory \<Rightarrow> login_error + directory) \<Rightarrow> login_tables \<Rightarrow> login_tables \<Rightarrow> bool" where
  "refines spec T T' \<longleftrightarrow> elsewhere T T' \<and> spec (dirOf T) = Inr (dirOf T')"

definition rejects :: "(directory \<Rightarrow> login_error + directory) \<Rightarrow> login_error \<Rightarrow> login_tables \<Rightarrow> bool" where
  "rejects spec e T \<longleftrightarrow> spec (dirOf T) = Inl e"

definition registered :: "uint64 \<Rightarrow> int \<Rightarrow> Identity \<Rightarrow> login_tables \<Rightarrow> login_tables \<Rightarrow> bool" where
  "registered uid lt ident T T' \<longleftrightarrow> elsewhere T T' \<and> dirOf T' = registerSpec uid lt ident (dirOf T)
     \<and> lookup (lt_idents T) (identKey lt ident) = None \<and> uid \<notin> ac_ID ` set (lt_accounts T)"

definition registerFails :: "int \<Rightarrow> Identity \<Rightarrow> login_error \<Rightarrow> login_tables \<Rightarrow> bool" where
  "registerFails lt ident e T \<longleftrightarrow> (case tooLong ident of
       Some f \<Rightarrow> e = LoginEnt (ValidationError f)
     | None \<Rightarrow> e = LoginEnt ConstraintError \<and> lookup (lt_idents T) (identKey lt ident) \<noteq> None)"

lemma txDone_elsewhere: "txDone P S T \<Longrightarrow> (\<And>T T'. P T T' \<Longrightarrow> elsewhere T T') \<Longrightarrow> elsewhere S T"
  unfolding txDone_def using elsewhere_trans by blast

lemma txFailed_elsewhere: "txFailed mf P X S T \<Longrightarrow> (\<And>T T'. P T T' \<Longrightarrow> elsewhere T T') \<Longrightarrow> elsewhere S T"
  unfolding txFailed_def using txDone_elsewhere by blast

context login_db
begin

lemma wp_createAccount:
  assumes inv: "loginInv (com s)"
  shows "wp (createAccount drv lt ident) (\<lambda>uid t. txDone (registered uid lt ident) (com s) (com t))
     (\<lambda>e t. txFailed mf (\<lambda>T T'. \<exists>uid. registered uid lt ident T T') (registerFails lt ident e) (com s) (com t)) s"
  unfolding createAccount_def
proof (rule wp_inLoginTx, goal_cases)
  case (1 t)
  have I: "loginInv (com t)" using elsewhere_inv [OF 1(1) inv] .
  note D = loginInvD [OF I]
  show ?case
    unfolding wp_simps
  proof (rule wp_AccountCreate, goal_cases)
    case 1
    with D \<open>cur t = com t\<close> show ?case by simp
  next
    case (2 a t1)
    have fresh: "ac_ID a \<notin> ac_ID ` set (lt_accounts (com t))" using 2 \<open>cur t = com t\<close> by auto
    have nofresh: "id_UID x \<noteq> ac_ID a" if "x \<in> set (lt_idents (com t))" for x
      using D(3) [OF that] fresh unfolding active_def by (metis image_eqI)
    show ?case
    proof (rule wp_IdentityCreate, goal_cases)
      case 1
      with 2 D \<open>cur t = com t\<close> show ?case by simp
    next
      case (2 r t2)
      have "loginInv (cur t2) \<and> accountsKept (com t) (cur t2) \<and> dirOf (cur t2) = registerSpec (ac_ID a) lt ident (dirOf (com t))
         \<and> lookup (lt_idents (com t)) (identKey lt ident) = None \<and> ac_ID a \<notin> ac_ID ` set (lt_accounts (com t))"
        by (rule registered_tables [OF I, where a = a and r = r])
          (use 2 \<open>lt_idents (cur t1) = _\<close> \<open>lt_accounts (cur t1) = _\<close> \<open>distinct (map ac_ID (lt_accounts (cur t1)))\<close>
            \<open>\<not> ac_IsDeleted a\<close> \<open>cur t = com t\<close> in simp_all)
      with 2 \<open>com t1 = com t\<close> show ?case by (auto simp: registered_def elsewhere_def)
    next
      case (3 t2)
      then obtain x where x: "x \<in> set (lt_idents (cur t1))" "keyOf x = identKey lt ident \<or> id_UID x = ac_ID a" by blast
      with \<open>lt_idents (cur t1) = _\<close> \<open>cur t = com t\<close> nofresh have "x \<in> set (lt_idents (com t))" "keyOf x = identKey lt ident" by auto
      then have "lookup (lt_idents (com t)) (identKey lt ident) \<noteq> None" unfolding lookup_None by blast
      with 3 \<open>com t1 = com t\<close> show ?case by (simp add: registerFails_def)
    next
      case (4 e t2)
      with \<open>com t1 = com t\<close> show ?case by (auto simp: registerFails_def split: option.splits)
    qed
  qed simp
qed

lemma wp_BindIdentity:
  assumes inv: "loginInv (com s)"
  shows "wp (BindIdentity drv uid lt ident) (\<lambda>_ t. txDone (refines (bindSpec uid lt ident)) (com s) (com t))
     (\<lambda>e t. txFailed mf (refines (bindSpec uid lt ident)) (rejects (bindSpec uid lt ident) e) (com s) (com t)) s"
proof -
  have "wp (BindIdentity drv uid lt ident) (\<lambda>x t. txDone (refines (bindSpec uid lt ident)) (com s) (com t))
     (\<lambda>e t. txFailed mf (\<lambda>T T'. \<exists>x::unit. refines (bindSpec uid lt ident) T T') (rejects (bindSpec uid lt ident) e) (com s) (com t)) s"
    unfolding BindIdentity_def
  proof (rule wp_inLoginTx, goal_cases)
    case (1 t)
    have I: "loginInv (com t)" using elsewhere_inv [OF 1(1) inv] .
    note D = loginInvD [OF I]
    let ?k = "identKey lt ident"
    show ?case
      unfolding wp_andThen
    proof (intro wp_lockActive wp_keyQuery, goal_cases)
      case (3 t1 r t2)
      with \<open>cur t = com t\<close> show ?case by (auto simp: wp_simps refines_def rejects_def bindSpec_def)
    next
      case (4 t1 t2)
      have c: "com t2 = com t" "cur t2 = com t" "active uid (com t)" "lookup (lt_idents (com t)) ?k = None"
        using 4 \<open>cur t = com t\<close> by simp_all
      have ex: "(\<exists>x \<in> set (lt_idents (com t)). id_UID x = uid \<and> id_LoginType x = lt \<and> id_AppID x = li_AppID ident)
          \<longleftrightarrow> (\<exists>oid. lookup (lt_idents (com t)) (lt, li_AppID ident, oid) = Some uid)"
        unfolding lookup_Some [OF D(2)] by (auto simp: keyOf_def)
      show ?case
        unfolding sum.case wp_simps IsNotFound_def simp_thms if_False
      proof (rule idt.wp_Exist, goal_cases)
        case (1 b t3)
        have t3: "com t3 = com t" "cur t3 = com t" using 1 c by (simp_all add: login_tables.equality)
        have b: "b \<longleftrightarrow> (\<exists>oid. lookup (lt_idents (com t)) (lt, li_AppID ident, oid) = Some uid)"
          unfolding 1(3) c(2) using ex by (auto simp: matches_def IdentityUIDEQ_def LoginTypeEQ_def AppIDEQ_def)
        show ?case
        proof (cases b)
          case True
          then show ?thesis using b c t3 by (auto simp: wp_simps rejects_def bindSpec_def)
        next
          case False
          then have nb: "\<nexists>oid. lookup (lt_idents (com t)) (lt, li_AppID ident, oid) = Some uid" using b by simp
          have "wp (IdentityCreate_Save drv (identityMutation uid lt ident))
              (\<lambda>_ t'. com t' = com t \<and> refines (bindSpec uid lt ident) (com t) (cur t'))
              (\<lambda>e t'. com t' = com t \<and> (mf \<or> rejects (bindSpec uid lt ident)
                 (if IsConstraintError e then ErrIdentityBoundOtherAccount else LoginEnt e) (com t))) t3"
          proof (rule wp_IdentityCreate, goal_cases)
            case (2 r t4)
            have "loginInv (cur t4) \<and> accountsKept (com t) (cur t4)
                \<and> dirOf (cur t4) = (dirOf (com t))\<lparr>dir_bound := (lookup (lt_idents (com t)))(keyOf r \<mapsto> id_UID r)\<rparr>"
              by (rule bound_added [OF I]) (use 2 t3 c in simp_all)
            with 2 t3 c nb show ?case by (auto simp: refines_def elsewhere_def bindSpec_def)
          next
            case (3 t4)
            then show ?case using ex nb c t3 by (auto simp: lookup_None)
          next
            case (4 e t4)
            with c nb t3 show ?case by (auto simp: rejects_def bindSpec_def IsConstraintError_def split: option.splits)
          qed (use t3 D in simp_all)
          with False show ?thesis by (simp add: wp_simps)
        qed
      next
        case (2 t3)
        with c show ?case by simp
      qed
    qed (use I D \<open>cur t = com t\<close> in \<open>auto simp: wp_simps rejects_def bindSpec_def IsNotFound_def\<close>)
  qed
  then show ?thesis by simp
qed

end

context login_db
begin

lemma wp_UnbindIdentity:
  assumes inv: "loginInv (com s)"
  shows "wp (UnbindIdentity drv uid lt ident) (\<lambda>_ t. txDone (refines (unbindSpec uid lt ident)) (com s) (com t))
     (\<lambda>e t. txFailed mf (refines (unbindSpec uid lt ident)) (rejects (unbindSpec uid lt ident) e) (com s) (com t)) s"
proof -
  have "wp (UnbindIdentity drv uid lt ident) (\<lambda>x t. txDone (refines (unbindSpec uid lt ident)) (com s) (com t))
     (\<lambda>e t. txFailed mf (\<lambda>T T'. \<exists>x::unit. refines (unbindSpec uid lt ident) T T') (rejects (unbindSpec uid lt ident) e) (com s) (com t)) s"
    unfolding UnbindIdentity_def
  proof (rule wp_inLoginTx, goal_cases)
    case (1 t)
    have I: "loginInv (com t)" using elsewhere_inv [OF 1(1) inv] .
    note D = loginInvD [OF I]
    let ?k = "identKey lt ident"
    show ?case
      unfolding wp_andThen
    proof (intro wp_lockActive wp_keyQuery, goal_cases)
      case (3 t1 r t2)
      have c: "com t2 = com t" "cur t2 = com t" "active uid (com t)" "r \<in> set (lt_idents (com t))" "keyOf r = ?k"
          "lookup (lt_idents (com t)) ?k = Some (id_UID r)"
        using 3 \<open>cur t = com t\<close> by simp_all
      show ?case
      proof (cases "id_UID r = uid")
        case False
        with c show ?thesis by (simp add: wp_simps rejects_def unbindSpec_def)
      next
        case True
        let ?mine = "filter (matches [IdentityUIDEQ uid]) (lt_idents (com t))"
        have last: "length ?mine \<le> 1 \<longleftrightarrow> (\<forall>k. lookup (lt_idents (com t)) k = Some uid \<longrightarrow> k = ?k)"
          by (rule mine_last [OF D(2) c(4) True c(5)])
        show ?thesis
          unfolding sum.case wp_simps
          using True
        proof (simp, intro idt.wp_CountQ, goal_cases)
          case (2 t3)
          have t3: "com t3 = com t" "cur t3 = com t" using 2 c by (simp_all add: login_tables.equality)
          show ?case
          proof (cases "length ?mine \<le> 1")
            case le: True
            then have "\<forall>k. lookup (lt_idents (com t)) k = Some uid \<longrightarrow> k = ?k" using last by blast
            with c(3,6) True have "unbindSpec uid lt ident (dirOf (com t)) = Inl ErrLastIdentity"
              unfolding unbindSpec_def dirOf_simps by metis
            with le c t3 show ?thesis by (simp add: wp_simps rejects_def)
          next
            case gt: False
            then obtain k where "lookup (lt_idents (com t)) k = Some uid" "k \<noteq> ?k" using last by auto
            then obtain x where x: "x \<in> set (lt_idents (com t))" "id_UID x = uid" "keyOf x \<noteq> keyOf r"
              using c(5) lookup_Some_mem by metis
            have "wp (DeleteOneExec (TxIdentity drv) (\<lambda>y. id_ID y = id_ID r))
                (\<lambda>_ t'. com t' = com t \<and> refines (unbindSpec uid lt ident) (com t) (cur t'))
                (\<lambda>e t'. com t' = com t \<and> (mf \<or> rejects (unbindSpec uid lt ident) (LoginEnt e) (com t))) t3"
            proof (rule idt.wp_DeleteOne, goal_cases)
              case (1 t4)
              have "loginInv (cur t4) \<and> accountsKept (com t) (cur t4)
                  \<and> dirOf (cur t4) = (dirOf (com t))\<lparr>dir_bound := (lookup (lt_idents (com t)))(keyOf r := None)\<rparr>"
                by (rule unbound_tables [OF I c(4) _ _ x(1) _ x(3)]) (use 1 t3 x True in simp_all)
              moreover have "\<not> (\<forall>k. lookup (lt_idents (com t)) k = Some uid \<longrightarrow> k = ?k)" using gt last by blast
              ultimately show ?case using 1(1) t3(1) c(3,5,6) True
                by (simp only: refines_def elsewhere_def unbindSpec_def dirOf_simps not_not if_False simp_thms)
            next
              case (2 t4)
              with c(4) t3 show ?case by auto
            qed (use t3 in simp)
            with gt t3 c show ?thesis by (simp add: wp_simps)
          qed
        qed (use c in simp_all)
      qed
    qed (use I D \<open>cur t = com t\<close> in \<open>auto simp: wp_simps rejects_def unbindSpec_def IsNotFound_def\<close>)
  qed
  then show ?thesis by simp
qed

lemma wp_DeleteAccount:
  assumes inv: "loginInv (com s)"
  shows "wp (DeleteAccount drv uid) (\<lambda>_ t. txDone (refines (deleteSpec uid)) (com s) (com t))
     (\<lambda>e t. txFailed mf (refines (deleteSpec uid)) (rejects (deleteSpec uid) e) (com s) (com t)) s"
proof -
  have "wp (DeleteAccount drv uid) (\<lambda>x t. txDone (refines (deleteSpec uid)) (com s) (com t))
     (\<lambda>e t. txFailed mf (\<lambda>T T'. \<exists>x::unit. refines (deleteSpec uid) T T') (rejects (deleteSpec uid) e) (com s) (com t)) s"
    unfolding DeleteAccount_def AccountUpdate_Save_def
  proof (rule wp_inLoginTx, goal_cases)
    case (1 t)
    have I: "loginInv (com t)" using elsewhere_inv [OF 1(1) inv] .
    have m: "matches [AccountIDEQ uid, IsDeletedEQ False] = (\<lambda>a. ac_ID a = uid \<and> \<not> ac_IsDeleted a)"
      by (auto simp: fun_eq_iff matches_def AccountIDEQ_def IsDeletedEQ_def)
    show ?case
      unfolding wp_simps
    proof (intro wp_loginNow ac.wp_Update, goal_cases)
      case (1 now t1 n t2)
      let ?g = "AccountUpdate_spec (AccountUpdate_defaults now (SetIsDeleted True newAccountMutation))"
      have g: "ac_ID (?g a) = ac_ID a" "ac_IsDeleted (?g a)" for a
        by (simp_all add: AccountUpdate_spec_def AccountUpdate_defaults_def SetIsDeleted_def newAccountMutation_def SetAccountUpdateAtUnix_def)
      have c: "com t1 = com t" "cur t1 = com t" using 1 \<open>cur t = com t\<close> by simp_all
      have n: "n = 0 \<longleftrightarrow> \<not> active uid (com t)"
      proof -
        have "?g a \<noteq> a" if "\<not> ac_IsDeleted a" for a using g(2) [of a] that by auto
        then have "filter (\<lambda>r. matches [AccountIDEQ uid, IsDeletedEQ False] r \<and> ?g r \<noteq> r) (lt_accounts (com t))
            = filter (\<lambda>a. ac_ID a = uid \<and> \<not> ac_IsDeleted a) (lt_accounts (com t))"
          unfolding m by (intro filter_cong) auto
        with 1 c have "n = length (filter (\<lambda>a. ac_ID a = uid \<and> \<not> ac_IsDeleted a) (lt_accounts (com t)))"
          by (simp add: m)
        then show ?thesis by (auto simp: active_def filter_empty_conv)
      qed
      show ?case
      proof (cases "n = 0")
        case True
        with n 1 c show ?thesis by (simp add: wp_simps rejects_def deleteSpec_def)
      next
        case False
        have "wp (DeleteExec (TxIdentity drv) [IdentityUIDEQ uid])
            (\<lambda>_ t'. com t' = com t \<and> refines (deleteSpec uid) (com t) (cur t'))
            (\<lambda>e t'. com t' = com t \<and> (mf \<or> rejects (deleteSpec uid) (LoginEnt e) (com t))) t2"
        proof (rule idt.wp_Delete, goal_cases)
          case (1 t3)
          have "loginInv (cur t3) \<and> accountsKept (com t) (cur t3) \<and> deleteSpec uid (dirOf (com t)) = Inr (dirOf (cur t3))"
            by (rule deleted_tables [OF I, of ?g])
              (use 1 g c False n \<open>lt_accounts (cur t2) = _\<close> \<open>_ \<and> lt_idents (cur t2) = _\<close> in
                \<open>simp_all add: m matches_def IdentityUIDEQ_def\<close>)
          with 1 c \<open>com t2 = com t1 \<and> _\<close> show ?case by (simp add: refines_def elsewhere_def)
        qed (use c \<open>com t2 = com t1 \<and> _\<close> in simp)
        with False show ?thesis by (simp add: wp_simps)
      qed
    next
      case (2 now t1 t2)
      let ?g = "AccountUpdate_spec (AccountUpdate_defaults now (SetIsDeleted True newAccountMutation))"
      have "ac_ID (?g a) = ac_ID a" for a by (simp add: AccountUpdate_spec_def)
      then have "map ac_ID (updated p ?g xs) = map ac_ID xs" for p xs by (simp add: updated_def)
      with 2 \<open>cur t = com t\<close> loginInvD(1) [OF I] show ?case by simp
    qed simp
  qed
  then show ?thesis by simp
qed

end

section \<open>Finding or creating an account\<close>

text \<open>
  \<open>foundAt\<close>: at some moment of the run the identity led to the player; \<open>lostMeanwhile\<close>: another
  session unbound the identity or closed its account while this one was looking.
\<close>

definition foundAt :: "login_key \<Rightarrow> uint64 \<Rightarrow> login_tables \<Rightarrow> login_tables \<Rightarrow> bool" where
  "foundAt k uid S T' \<longleftrightarrow> (\<exists>T. elsewhere S T \<and> lookup (lt_idents T) k = Some uid \<and> elsewhere T T')"

definition lostMeanwhile :: "login_key \<Rightarrow> login_tables \<Rightarrow> login_tables \<Rightarrow> bool" where
  "lostMeanwhile k S T' \<longleftrightarrow> (\<exists>uid T. foundAt k uid S T \<and> lookup (lt_idents T) k \<noteq> Some uid \<and> elsewhere T T')"

lemma foundI: "elsewhere S T \<Longrightarrow> lookup (lt_idents T) k = Some uid \<Longrightarrow> elsewhere T T' \<Longrightarrow> foundAt k uid S T'"
  by (auto simp: foundAt_def)

lemma lost_inactive:
  assumes "loginInv S" "elsewhere S T" "lookup (lt_idents T) k = Some uid" "elsewhere T T'" "\<not> active uid T'"
  shows "lostMeanwhile k S T'"
proof -
  have "loginInv T'" using elsewhere_inv [OF assms(4)] elsewhere_inv [OF assms(2,1)] by blast
  then have "lookup (lt_idents T') k \<noteq> Some uid"
    using assms(5) lookup_Some_mem loginInvD(3) by fastforce
  then show ?thesis using foundI [OF assms(2-4)] elsewhere_refl [of T'] unfolding lostMeanwhile_def by blast
qed

definition loginOk :: "int \<Rightarrow> Identity \<Rightarrow> login_tables \<Rightarrow> uint64 \<times> bool \<Rightarrow> login_tables \<Rightarrow> bool" where
  "loginOk lt ident S r T' \<longleftrightarrow> elsewhere S T' \<and> active (fst r) T' \<and>
     (if snd r then txDone (registered (fst r) lt ident) S T' else foundAt (identKey lt ident) (fst r) S T')"

definition loginErr :: "bool \<Rightarrow> int \<Rightarrow> Identity \<Rightarrow> login_tables \<Rightarrow> login_tables \<Rightarrow> bool" where
  "loginErr mf lt ident S T' \<longleftrightarrow> elsewhere S T' \<and> (mf \<or> tooLong ident \<noteq> None \<or> lostMeanwhile (identKey lt ident) S T')"

lemma registered_active:
  assumes "registered uid lt ident T T'"
  shows "elsewhere T T'" "active uid T'"
proof -
  have "uid \<in> dir_active (dirOf T')" using assms by (simp add: registered_def registerSpec_def)
  then show "active uid T'" by (simp only: dirOf_simps)
  show "elsewhere T T'" using assms by (simp add: registered_def)
qed

lemma txDone_before: "elsewhere S T \<Longrightarrow> txDone P T T' \<Longrightarrow> txDone P S T'"
  unfolding txDone_def using elsewhere_trans by blast

context login_db
begin

lemma wp_hit:
  assumes "loginInv S" "elsewhere S (com s)" "lookup (lt_idents (com s)) (identKey lt ident) = Some uid"
  shows "wp (andThen (checkAccount drv uid) (\<lambda>_. ok (uid, False)))
     (\<lambda>r t. loginOk lt ident S r (com t)) (\<lambda>_ t. loginErr mf lt ident S (com t)) s"
  unfolding wp_simps
proof (rule wp_checkAccount, goal_cases)
  case 1
  show ?case using elsewhere_inv [OF assms(2,1)] .
next
  case (2 t)
  then show ?case using elsewhere_trans [OF assms(2) 2(1)] foundI [OF assms(2,3) 2(1)] by (simp add: loginOk_def)
next
  case (3 e t)
  then show ?case using elsewhere_trans [OF assms(2) 3(1)] lost_inactive [OF assms 3(1)] by (auto simp: loginErr_def)
qed

text \<open>After losing a race on the unique index the store looks again.\<close>

lemma wp_recover:
  assumes inv: "loginInv S" and s: "elsewhere S (com s)" and err: "mf \<or> registerFails lt ident e (com s)"
  shows "wp (andThen (FindLoginRecord drv lt (li_AppID ident) (li_OpenID ident)) (\<lambda>found.
       case found of None \<Rightarrow> fail e | Some uid \<Rightarrow> andThen (checkAccount drv uid) (\<lambda>_. ok (uid, False))))
     (\<lambda>r t. loginOk lt ident S r (com t)) (\<lambda>_ t. loginErr mf lt ident S (com t)) s"
  unfolding wp_andThen [of "FindLoginRecord _ _ _ _"]
proof (rule wp_FindLoginRecord [OF elsewhere_inv [OF s inv]], goal_cases)
  case (1 t)
  note t = elsewhere_trans [OF s 1]
  show ?case
  proof (cases "lookup (lt_idents (com t)) (identKey lt ident)")
    case (Some uid)
    then show ?thesis using wp_hit [OF inv t Some] by simp
  next
    case None
    have "mf \<or> tooLong ident \<noteq> None \<or> lostMeanwhile (identKey lt ident) S (com t)"
    proof (cases "mf \<or> tooLong ident \<noteq> None")
      case False
      with err obtain u where "lookup (lt_idents (com s)) (identKey lt ident) = Some u"
        by (auto simp: registerFails_def)
      from foundI [OF s this 1] None elsewhere_refl [of "com t"]
      show ?thesis unfolding lostMeanwhile_def by (metis option.distinct(1))
    qed blast
    with t None show ?thesis by (simp add: wp_simps loginErr_def)
  qed
next
  case (2 e' t)
  with elsewhere_trans [OF s] show ?case by (simp add: loginErr_def)
qed

lemma wp_FindOrCreateAccount:
  assumes inv: "loginInv (com s)"
  shows "wp (FindOrCreateAccount drv lt ident)
     (\<lambda>r t. loginOk lt ident (com s) r (com t)) (\<lambda>_ t. loginErr mf lt ident (com s) (com t)) s"
  unfolding FindOrCreateAccount_def wp_andThen [of "FindLoginRecord _ _ _ _"]
proof (rule wp_FindLoginRecord [OF inv], goal_cases)
  case (1 t)
  note t = 1
  show ?case
  proof (cases "lookup (lt_idents (com t)) (identKey lt ident)")
    case (Some uid)
    then show ?thesis using wp_hit [OF inv t Some] by simp
  next
    case None
    show ?thesis
      unfolding None option.case wp_andThen [of "attempt _"] wp_attempt sum.case
    proof (rule wp_mono [OF wp_createAccount [OF elsewhere_inv [OF t inv]]], goal_cases)
      case (1 uid t')
      then have "elsewhere (com t) (com t')" "active uid (com t')"
        using registered_active by (auto simp: txDone_def intro: elsewhere_trans)
      with 1 t show ?case by (auto simp: wp_simps loginOk_def intro: elsewhere_trans txDone_before)
    next
      case (2 e t')
      have "elsewhere (com t) (com t')" by (rule txFailed_elsewhere [OF 2]) (use registered_active in blast)
      with t have t': "elsewhere (com s) (com t')" by (rule elsewhere_trans)
      have err: "mf \<or> registerFails lt ident e (com t')" using 2 by (auto simp: txFailed_def)
      show ?case
      proof (cases "loginIsConstraint e")
        case True
        then show ?thesis using wp_recover [OF inv t' err] by simp
      next
        case False
        with err t' show ?thesis
          by (auto simp: wp_simps loginErr_def registerFails_def loginIsConstraint_def IsConstraintError_def split: option.splits)
      qed
    qed
  qed
qed (simp add: loginErr_def)

end

end
