(* ===== verification/LoginSpec.thy ===== *)
theory LoginSpec
  imports LoginProps
begin

text \<open>
  Executions of several API nodes on the account tables, an executable database in which other
  nodes commit between the statements of this one, and the properties of the store.
\<close>

section \<open>Executions\<close>

inductive login_step :: "'s login_drv \<Rightarrow> ('s \<Rightarrow> login_tables) \<Rightarrow> 's \<Rightarrow> 's \<Rightarrow> bool"
  for drv :: "'s login_drv" and com :: "'s \<Rightarrow> login_tables" where
  step_login: "login_step drv com s (snd (FindOrCreateAccount drv lt ident s))"
| step_bind: "login_step drv com s (snd (BindIdentity drv uid lt ident s))"
| step_unbind: "login_step drv com s (snd (UnbindIdentity drv uid lt ident s))"
| step_delete: "login_step drv com s (snd (DeleteAccount drv uid s))"
| step_elsewhere: "elsewhere (com s) (com t) \<Longrightarrow> login_step drv com s t"

inductive_cases login_stepE: "login_step drv com s t"

context login_db
begin

lemma login_step_elsewhere:
  assumes "login_step drv com s t" and inv: "loginInv (com s)"
  shows "elsewhere (com s) (com t)"
proof -
  have r: "refines spec T T' \<Longrightarrow> elsewhere T T'" for spec T T' by (simp add: refines_def)
  show ?thesis
    using assms(1)
  proof (rule login_stepE)
    fix lt ident assume "t = snd (FindOrCreateAccount drv lt ident s)"
    then show ?thesis
      using wp_final [OF wp_FindOrCreateAccount [OF inv, of lt ident], of "\<lambda>t. elsewhere (com s) (com t)"]
      by (auto simp: loginOk_def loginErr_def)
  next
    fix uid lt ident assume "t = snd (BindIdentity drv uid lt ident s)"
    then show ?thesis
      using wp_final [OF wp_BindIdentity [OF inv, of uid lt ident], of "\<lambda>t. elsewhere (com s) (com t)"]
        txDone_elsewhere txFailed_elsewhere r by blast
  next
    fix uid lt ident assume "t = snd (UnbindIdentity drv uid lt ident s)"
    then show ?thesis
      using wp_final [OF wp_UnbindIdentity [OF inv, of uid lt ident], of "\<lambda>t. elsewhere (com s) (com t)"]
        txDone_elsewhere txFailed_elsewhere r by blast
  next
    fix uid assume "t = snd (DeleteAccount drv uid s)"
    then show ?thesis
      using wp_final [OF wp_DeleteAccount [OF inv, of uid], of "\<lambda>t. elsewhere (com s) (com t)"]
        txDone_elsewhere txFailed_elsewhere r by blast
  qed
qed

lemma login_steps_elsewhere:
  assumes "(login_step drv com)\<^sup>*\<^sup>* s t" and "loginInv (com s)"
  shows "elsewhere (com s) (com t)"
  using assms(1)
proof (induction rule: rtranclp_induct)
  case (step t u)
  then show ?case using login_step_elsewhere elsewhere_inv [OF step.IH assms(2)] elsewhere_trans by blast
qed simp

end

section \<open>A database with other nodes\<close>

text \<open>
  \<open>ml_others\<close> is the list of contents that the other nodes commit, one before each transaction or
  read of this node; a content they could not have committed is skipped.
\<close>

record mem_login =
  ml_com :: login_tables
  ml_cur :: login_tables
  ml_others :: "login_tables list"
  ml_clock :: gotime

definition ml_meanwhile :: "mem_login \<Rightarrow> mem_login" where
  "ml_meanwhile s = (case ml_others s of [] \<Rightarrow> s
     | T # Ts \<Rightarrow> (if elsewhere (ml_com s) T then s\<lparr>ml_com := T, ml_others := Ts\<rparr> else s\<lparr>ml_others := Ts\<rparr>))"

definition ml_putAccounts :: "Account list \<Rightarrow> mem_login \<Rightarrow> mem_login" where
  "ml_putAccounts rows s = s\<lparr>ml_cur := (ml_cur s)\<lparr>lt_accounts := rows\<rparr>\<rparr>"

definition ml_putIdents :: "IdentityRow list \<Rightarrow> mem_login \<Rightarrow> mem_login" where
  "ml_putIdents rows s = s\<lparr>ml_cur := (ml_cur s)\<lparr>lt_idents := rows\<rparr>\<rparr>"

definition reads :: "(mem_login \<Rightarrow> 'r list) \<Rightarrow> ('r \<Rightarrow> 'id) \<Rightarrow> (mem_login, 'r, 'id) nodes" where
  "reads get key = (mem_nodes get (\<lambda>_ s. s) key (\<lambda>_ r. r) noIndex (\<lambda>_. undefined))
     \<lparr>QueryNodes := (\<lambda>q s. QueryNodes (mem_nodes get (\<lambda>_ s. s) key (\<lambda>_ r. r) noIndex (\<lambda>_. undefined)) q (ml_meanwhile s))\<rparr>"

definition mem_login_drv :: "mem_login login_drv" where
  "mem_login_drv = \<lparr>
     BeginLogin = (\<lambda>s. let t = ml_meanwhile s in (Inr (), t\<lparr>ml_cur := ml_com t\<rparr>)),
     CommitLogin = (\<lambda>s. (Inr (), s\<lparr>ml_com := ml_cur s\<rparr>)),
     RollbackLogin = (\<lambda>s. (Inr (), s\<lparr>ml_cur := ml_com s\<rparr>)),
     TxAccount = mem_nodes (\<lambda>s. lt_accounts (ml_cur s)) ml_putAccounts ac_ID setAccountID noIndex (freshNat ac_ID),
     TxIdentity = mem_nodes (\<lambda>s. lt_idents (ml_cur s)) ml_putIdents id_ID setIdentID identityConflict (freshNat id_ID),
     DbAccount = reads (\<lambda>s. lt_accounts (ml_com s)) ac_ID,
     DbIdentity = reads (\<lambda>s. lt_idents (ml_com s)) id_ID,
     LoginClock = (\<lambda>s. (ml_clock s, s))\<rparr>"

lemma ml_meanwhile_elsewhere: "elsewhere (ml_com s) (ml_com (ml_meanwhile s))"
  by (simp add: ml_meanwhile_def split: list.splits)

lemma reads_law:
  "wp (QueryNodes (reads get key) q) (\<lambda>rs t. t = ml_meanwhile s \<and> selects q (get t) rs) E s"
proof -
  have "selects q (get t) (let full = sort_key (order q) (filter (matches (predicates q)) (get t))
      in case limit q of None \<Rightarrow> full | Some n \<Rightarrow> take n full)" for t
    unfolding selects_def Let_def
    by (rule exI [of _ "sort_key (order q) (filter (matches (predicates q)) (get t))"]) simp
  then show ?thesis by (simp add: wp_def reads_def mem_nodes_def)
qed

lemma mem_login_db: "login_db mf mem_login_drv ml_com ml_cur"
proof (intro login_db.intro login_db_axioms.intro, goal_cases)
  case 1
  show ?case unfolding mem_login_drv_def
    by (simp, rule mem_node_table) (auto simp: ml_putAccounts_def setAccountID_def noIndex_def freshNat_fresh)
next
  case 2
  show ?case unfolding mem_login_drv_def
    by (simp, rule mem_node_table) (auto simp: ml_putIdents_def setIdentID_def identityConflict_def freshNat_fresh)
next
  case (6 qa s)
  show ?case unfolding mem_login_drv_def
    by (simp, rule wp_mono [OF reads_law]) (auto simp: ml_meanwhile_elsewhere)
next
  case (7 qi s)
  show ?case unfolding mem_login_drv_def
    by (simp, rule wp_mono [OF reads_law]) (auto simp: ml_meanwhile_elsewhere)
qed (auto simp: mem_login_drv_def wp_def Let_def ml_meanwhile_elsewhere)

interpretation mem_login: login_db False mem_login_drv ml_com ml_cur
  by (rule mem_login_db)

section \<open>Properties\<close>

definition noLogins :: login_tables where
  "noLogins = \<lparr>lt_accounts = [], lt_idents = []\<rparr>"

definition ada :: Identity where
  "ada = \<lparr>li_AppID = ''taoxi'', li_OpenID = ''ada'', li_UnionID = ''''\<rparr>"

definition adaRow :: IdentityRow where
  "adaRow = \<lparr>id_ID = 1, id_UID = 7, id_LoginType = 1, id_AppID = ''taoxi'', id_OpenID = ''ada'', id_UnionID = None, id_CreateAtUnix = 50\<rparr>"

definition adaLogins :: login_tables where
  "adaLogins = \<lparr>lt_accounts = [\<lparr>ac_ID = 7, ac_IsDeleted = False, ac_CreateAtUnix = 50, ac_UpdateAtUnix = 50\<rparr>], lt_idents = [adaRow]\<rparr>"

definition loginWorld :: "login_tables \<Rightarrow> login_tables list \<Rightarrow> mem_login" where
  "loginWorld T others = \<lparr>ml_com = T, ml_cur = T, ml_others = others, ml_clock = timeUnix 100\<rparr>"

lemma world_inv: "loginInv (ml_com (loginWorld noLogins others))" "loginInv (ml_com (loginWorld adaLogins others))"
  by (simp_all add: loginWorld_def noLogins_def adaLogins_def adaRow_def loginInv_def active_def uniq_def)

text \<open>
  C10: Whatever the API nodes do, in any order and with any database failures, every login
  identity belongs to exactly one active account, every active account keeps at least one way
  to log in, no account disappears and a deleted account stays deleted.
\<close>

theorem login_reachable:
  assumes "login_db mf drv com cur" and "loginInv (com s)" and "(login_step drv com)\<^sup>*\<^sup>* s t"
  shows "loginInv (com t) \<and> accountsKept (com s) (com t)"
  using login_db.login_steps_elsewhere [OF assms(1,3,2)] assms(2) by (simp add: elsewhere_def)

theorem login_reachable_witness:
  "loginInv (ml_com (snd (DeleteAccount mem_login_drv 7 (loginWorld adaLogins []))))"
proof -
  have "(login_step mem_login_drv ml_com)\<^sup>*\<^sup>* (loginWorld adaLogins []) (snd (DeleteAccount mem_login_drv 7 (loginWorld adaLogins [])))"
    by (rule r_into_rtranclp) (rule step_delete)
  from login_reachable [OF mem_login_db world_inv(2) this] show ?thesis by blast
qed





text \<open>
  Unbinding removes exactly the binding of this identity, and only when it belongs to this
  active player and is not the last one.
\<close>

theorem UnbindIdentity_refines:
  assumes "login_db False drv com cur" and "loginInv (com s)"
    and "UnbindIdentity drv uid lt ident s = (res, t)"
  shows "\<exists>T. elsewhere (com s) T \<and> (case res of
     Inr _ \<Rightarrow> unbindSpec uid lt ident (dirOf T) = Inr (dirOf (com t))
   | Inl e \<Rightarrow> unbindSpec uid lt ident (dirOf T) = Inl e \<and> com t = T)"
  using login_db.wp_UnbindIdentity [OF assms(1,2), of uid lt ident] assms(3)
  by (auto simp: wp_def txDone_def txFailed_def refines_def rejects_def split: sum.splits)

theorem UnbindIdentity_refines_witness:
  "unbindSpec 7 1 ada (dirOf adaLogins) = Inl ErrLastIdentity"
proof -
  let ?s = "loginWorld adaLogins []"
  have "UnbindIdentity mem_login_drv 7 1 ada ?s = (Inl ErrLastIdentity, ?s)" by code_simp
  from UnbindIdentity_refines [OF mem_login_db world_inv(2) this] show ?thesis by (simp add: loginWorld_def)
qed

text \<open>
  Deleting an account closes it and releases all its login identities in one step, so that
  they can register again; a second deletion is refused.
\<close>

theorem DeleteAccount_refines:
  assumes "login_db False drv com cur" and "loginInv (com s)"
    and "DeleteAccount drv uid s = (res, t)"
  shows "\<exists>T. elsewhere (com s) T \<and> (case res of
     Inr _ \<Rightarrow> deleteSpec uid (dirOf T) = Inr (dirOf (com t))
   | Inl e \<Rightarrow> deleteSpec uid (dirOf T) = Inl e \<and> com t = T)"
  using login_db.wp_DeleteAccount [OF assms(1,2), of uid] assms(3)
  by (auto simp: wp_def txDone_def txFailed_def refines_def rejects_def split: sum.splits)

theorem DeleteAccount_refines_witness:
  "\<exists>T. deleteSpec 7 (dirOf T) = Inr (dirOf (ml_com (snd (DeleteAccount mem_login_drv 7 (loginWorld adaLogins [])))))"
proof -
  have "fst (DeleteAccount mem_login_drv 7 (loginWorld adaLogins [])) = Inr ()" by code_simp
  with DeleteAccount_refines [OF mem_login_db world_inv(2) [of "[]"] prod.collapse [symmetric], where uid = 7]
  show ?thesis by auto
qed

end
