(* ===== verification/Jwt.thy ===== *)
theory Jwt
  imports Base64
begin

text \<open>
  Login tokens, \<open>pkg/jwt/auther.go\<close>. Signing and parsing are functions of the third-party package
  \<open>golang-jwt\<close> and Ed25519: the record \<open>jwt_lib\<close>, with the laws of locale \<open>signed_tokens\<close>. A
  \<open>NumericDate\<close> has second precision. The clock and the random bytes that the code reads are
  arguments; keys are byte lists.
\<close>

section \<open>strings.TrimSpace\<close>

text \<open>The UTF-8 encodings of the white space runes of package \<open>unicode\<close>.\<close>

definition spaceRunes :: "string list" where
  "spaceRunes = map (map (\<lambda>n. char_of (n :: nat)))
     ([[9], [10], [11], [12], [13], [32], [194, 133], [194, 160], [225, 154, 128]] @
      map (\<lambda>n. [226, 128, n]) [128, 129, 130, 131, 132, 133, 134, 135, 136, 137, 138, 168, 169, 175] @
      [[226, 129, 159], [227, 128, 128]])"

fun stripOne :: "string list \<Rightarrow> string \<Rightarrow> string option" where
  "stripOne [] s = None"
| "stripOne (p # ps) s = (if take (length p) s = p then Some (drop (length p) s) else stripOne ps s)"

lemma stripOne_shorter: "stripOne ps s = Some t \<Longrightarrow> [] \<notin> set ps \<Longrightarrow> length t < length s"
proof (induction ps)
  case (Cons p ps)
  show ?case
  proof (cases "take (length p) s = p")
    case True
    then have "length p \<le> length s" by (metis length_take min.cobounded1 min_def)
    with True Cons.prems show ?thesis by (cases s) auto
  next
    case False
    with Cons show ?thesis by simp
  qed
qed simp

function stripAll :: "string list \<Rightarrow> string \<Rightarrow> string" where
  "stripAll ps s = (case stripOne (filter (\<lambda>p. p \<noteq> []) ps) s of None \<Rightarrow> s | Some t \<Rightarrow> stripAll ps t)"
  by pat_completeness auto
termination
  by (relation "measure (\<lambda>(_, s). length s)") (auto dest!: stripOne_shorter)

declare stripAll.simps [simp del]

definition TrimSpace :: "string \<Rightarrow> string" where
  "TrimSpace s = rev (stripAll (map rev spaceRunes) (rev (stripAll spaceRunes s)))"

lemma stripOne_none: "(\<And>p. p \<in> set ps \<Longrightarrow> p \<noteq> [] \<and> hd p \<noteq> c) \<Longrightarrow> stripOne ps (c # s) = None"
proof (induction ps)
  case (Cons p ps)
  then have "p \<noteq> []" "hd p \<noteq> c" by simp_all
  then have "take (length p) (c # s) \<noteq> p" by (cases p) auto
  with Cons show ?case by simp
qed simp

lemma stripAll_none: "(\<And>p. p \<in> set ps \<Longrightarrow> p \<noteq> [] \<longrightarrow> hd p \<noteq> c) \<Longrightarrow> stripAll ps (c # s) = c # s"
  using stripOne_none [of "filter (\<lambda>p. p \<noteq> []) ps" c s] by (subst stripAll.simps) (auto split: option.splits)

definition isGraph :: "char \<Rightarrow> bool" where
  "isGraph c \<longleftrightarrow> (of_char c :: nat) \<in> {33..126}"

lemma space_no_graph:
  "p \<in> set spaceRunes \<Longrightarrow> p \<noteq> [] \<longrightarrow> \<not> isGraph (hd p)"
  "p \<in> set (map rev spaceRunes) \<Longrightarrow> p \<noteq> [] \<longrightarrow> \<not> isGraph (hd p)"
  by (auto simp: spaceRunes_def isGraph_def)

lemma TrimSpace_graph:
  assumes "s \<noteq> []" "\<forall>c \<in> set s. isGraph c"
  shows "TrimSpace s = s"
proof -
  have strip: "stripAll ps t = t" if "\<And>p. p \<in> set ps \<Longrightarrow> p \<noteq> [] \<longrightarrow> \<not> isGraph (hd p)" "t \<noteq> []" "isGraph (hd t)" for ps t
    using that stripAll_none [of ps "hd t" "tl t"] by fastforce
  have "isGraph (hd s)" "isGraph (hd (rev s))" using assms by (auto simp: hd_rev)
  with assms(1) strip [of spaceRunes s] strip [of "map rev spaceRunes" "rev s"] space_no_graph show ?thesis
    unfolding TrimSpace_def by (metis rev_is_Nil_conv rev_rev_ident)
qed

lemma TrimSpace_decimal [simp]: "TrimSpace (decimal n) = decimal n"
proof (rule TrimSpace_graph)
  show "\<forall>c \<in> set (decimal n). isGraph c"
  proof
    fix c assume "c \<in> set (decimal n)"
    then obtain d where "d < 10" "c = digit d" using decimal_ascii by blast
    then show "isGraph c" by (simp add: isGraph_def digit_def)
  qed
qed simp

section \<open>Claims and profiles\<close>

record Claims =
  jc_Issuer :: string
  jc_Audience :: "string list"
  jc_Subject :: string
  jc_ExpiresAt :: "int option"
  jc_NotBefore :: "int option"
  jc_IssuedAt :: "int option"
  jc_ID :: string

record profile =
  pf_audience :: string
  pf_typ :: string
  pf_ttl :: duration

definition tokenIssuer :: string where "tokenIssuer = ''taoxi-api''"
definition gateAudience :: string where "gateAudience = ''taoxi-gate''"
definition gateTokenType :: string where "gateTokenType = ''taoxi-login+jwt''"
definition gateTokenTTL :: duration where "gateTokenTTL = 60 * Second"
definition accessAudience :: string where "accessAudience = ''taoxi-api''"
definition accessTokenType :: string where "accessTokenType = ''taoxi-access+jwt''"
definition AccessTokenTTL :: duration where "AccessTokenTTL = 24 * Hour"
definition clockLeeway :: duration where "clockLeeway = 3 * Second"
definition maxTokenSize :: nat where "maxTokenSize = 4096"
definition maxClaimValueSize :: nat where "maxClaimValueSize = 128"

definition gateProfile :: profile where
  "gateProfile = \<lparr>pf_audience = gateAudience, pf_typ = gateTokenType, pf_ttl = gateTokenTTL\<rparr>"

definition accessProfile :: profile where
  "accessProfile = \<lparr>pf_audience = accessAudience, pf_typ = accessTokenType, pf_ttl = AccessTokenTTL\<rparr>"

definition PrivateKeySize :: nat where "PrivateKeySize = 64"
definition PublicKeySize :: nat where "PublicKeySize = 32"

datatype jwt_error = BadPrivateKey | BadPublicKey | BadUid | RandFailed | SignFailed | ErrInvalidToken
  | ErrPublicKeyNotInitialized | EmptyKey | NotBase64

section \<open>The library\<close>

text \<open>
  \<open>SignedString sk typ c\<close> is the EdDSA token with header field \<open>typ\<close> and the claims \<open>c\<close>.
  \<open>ParseWithClaims pk aud now tok\<close> parses with the options of \<open>verify\<close>: the method must be EdDSA, the
  issuer ours, the audience \<open>aud\<close>, an expiration is required and the leeway is \<open>clockLeeway\<close>. It
  returns the header field (when it is a string) and the claims of a valid token.
\<close>

record jwt_lib =
  SignedString :: "byte list \<Rightarrow> string \<Rightarrow> Claims \<Rightarrow> string option"
  ParseWithClaims :: "byte list \<Rightarrow> string \<Rightarrow> gotime \<Rightarrow> string \<Rightarrow> (string option \<times> Claims) option"

definition NewNumericDate :: "gotime \<Rightarrow> int" where
  "NewNumericDate t = t div Nanosecond_per_Second"

definition newTokenID :: "byte list option \<Rightarrow> jwt_error + string" where
  "newTokenID rnd = (case rnd of None \<Rightarrow> Inl RandFailed | Some bs \<Rightarrow> Inr (RawURLEncodeToString bs))"

definition newClaims :: "string \<Rightarrow> profile \<Rightarrow> string \<Rightarrow> gotime \<Rightarrow> Claims" where
  "newClaims uid p tokenID now = \<lparr>jc_Issuer = tokenIssuer, jc_Audience = [pf_audience p], jc_Subject = uid,
     jc_ExpiresAt = Some (NewNumericDate (now + pf_ttl p)), jc_NotBefore = Some (NewNumericDate now),
     jc_IssuedAt = Some (NewNumericDate now), jc_ID = tokenID\<rparr>"

definition generate :: "jwt_lib \<Rightarrow> byte list \<Rightarrow> string \<Rightarrow> profile \<Rightarrow> byte list option \<Rightarrow> gotime \<Rightarrow> jwt_error + string" where
  "generate lib privateKey uid0 p rnd now =
     (if length privateKey \<noteq> PrivateKeySize then Inl BadPrivateKey
      else let uid = TrimSpace uid0 in
        if uid = '''' \<or> maxClaimValueSize < length uid then Inl BadUid
        else case newTokenID rnd of
          Inl e \<Rightarrow> Inl e
        | Inr tokenID \<Rightarrow>
            (case SignedString lib privateKey (pf_typ p) (newClaims uid p tokenID now) of
               None \<Rightarrow> Inl SignFailed
             | Some tok \<Rightarrow> Inr tok))"

text \<open>\<open>Time.Sub\<close> saturates at the bounds of a duration.\<close>

definition subTime :: "int \<Rightarrow> int \<Rightarrow> duration" where
  "subTime a b = max (- (2 ^ 63)) (min (2 ^ 63 - 1) ((a - b) * Nanosecond_per_Second))"

definition validClaims :: "Claims \<Rightarrow> duration \<Rightarrow> bool" where
  "validClaims c maxTTL \<longleftrightarrow> jc_Subject c \<noteq> '''' \<and> jc_ID c \<noteq> '''' \<and>
     (case (jc_IssuedAt c, jc_NotBefore c, jc_ExpiresAt c) of
        (Some iat, Some _, Some exp) \<Rightarrow>
          length (jc_Subject c) \<le> maxClaimValueSize \<and> length (jc_ID c) \<le> maxClaimValueSize \<and>
          0 < subTime exp iat \<and> subTime exp iat \<le> maxTTL
      | _ \<Rightarrow> False)"

definition verify :: "jwt_lib \<Rightarrow> gotime \<Rightarrow> byte list \<Rightarrow> string \<Rightarrow> profile \<Rightarrow> jwt_error + string" where
  "verify lib now publicKey token p =
     (if length publicKey \<noteq> PublicKeySize \<or> length token = 0 \<or> maxTokenSize < length token then Inl ErrInvalidToken
      else case ParseWithClaims lib publicKey (pf_audience p) now token of
        None \<Rightarrow> Inl ErrInvalidToken
      | Some (typ, claims) \<Rightarrow>
          if typ = Some (pf_typ p) \<and> validClaims claims (pf_ttl p) then Inr (jc_Subject claims)
          else Inl ErrInvalidToken)"

definition auth :: "jwt_lib \<Rightarrow> gotime \<Rightarrow> byte list option \<Rightarrow> string \<Rightarrow> profile \<Rightarrow> jwt_error + string" where
  "auth lib now publicKeyValue token p =
     (case publicKeyValue of None \<Rightarrow> Inl ErrPublicKeyNotInitialized | Some pk \<Rightarrow> verify lib now pk token p)"

definition Generate :: "jwt_lib \<Rightarrow> byte list \<Rightarrow> string \<Rightarrow> byte list option \<Rightarrow> gotime \<Rightarrow> jwt_error + string" where
  "Generate lib privateKey uid rnd now = generate lib privateKey uid gateProfile rnd now"

definition Auth :: "jwt_lib \<Rightarrow> gotime \<Rightarrow> byte list option \<Rightarrow> string \<Rightarrow> jwt_error + string" where
  "Auth lib now publicKeyValue token = auth lib now publicKeyValue token gateProfile"

definition GenerateAccessToken :: "jwt_lib \<Rightarrow> byte list \<Rightarrow> string \<Rightarrow> byte list option \<Rightarrow> gotime \<Rightarrow> jwt_error + string" where
  "GenerateAccessToken lib privateKey uid rnd now = generate lib privateKey uid accessProfile rnd now"

definition AuthAccessToken :: "jwt_lib \<Rightarrow> gotime \<Rightarrow> byte list option \<Rightarrow> string \<Rightarrow> jwt_error + string" where
  "AuthAccessToken lib now publicKeyValue token = auth lib now publicKeyValue token accessProfile"

definition InitPublicKey :: "byte list \<Rightarrow> jwt_error + byte list option" where
  "InitPublicKey publicKey = (if length publicKey \<noteq> PublicKeySize then Inl BadPublicKey else Inr (Some publicKey))"

section \<open>Keys\<close>

fun firstDecoded :: "(string \<Rightarrow> byte list option) list \<Rightarrow> string \<Rightarrow> jwt_error + byte list" where
  "firstDecoded [] v = Inl NotBase64"
| "firstDecoded (d # ds) v = (case d v of Some bs \<Rightarrow> Inr bs | None \<Rightarrow> firstDecoded ds v)"

definition decodeKey :: "string \<Rightarrow> jwt_error + byte list" where
  "decodeKey value0 = (let value = TrimSpace value0 in
     if value = '''' then Inl EmptyKey
     else firstDecoded [DecodeString, RawDecodeString, URLDecodeString, RawURLDecodeString] value)"

definition ParsePrivateKey :: "string \<Rightarrow> jwt_error + byte list" where
  "ParsePrivateKey value = (case decodeKey value of
       Inl _ \<Rightarrow> Inl BadPrivateKey
     | Inr bs \<Rightarrow> if length bs \<noteq> PrivateKeySize then Inl BadPrivateKey else Inr bs)"

definition ParsePublicKey :: "string \<Rightarrow> jwt_error + byte list" where
  "ParsePublicKey value = (case decodeKey value of
       Inl _ \<Rightarrow> Inl BadPublicKey
     | Inr bs \<Rightarrow> if length bs \<noteq> PublicKeySize then Inl BadPublicKey else Inr bs)"

end
