(* ===== verification/JwtProps.thy ===== *)
theory JwtProps
  imports Jwt
begin

text \<open>
  What the tokens guarantee, over the laws of the token library: a token is accepted from the
  moment it is issued until its lifetime is over, only tokens signed with the private key are
  accepted, and a token of one kind is never accepted as the other kind. An executable library
  that keeps the laws closes the theory.
\<close>

section \<open>The laws of the library\<close>

definition acceptable :: "string \<Rightarrow> gotime \<Rightarrow> Claims \<Rightarrow> bool" where
  "acceptable aud now c \<longleftrightarrow> jc_Issuer c = tokenIssuer \<and> aud \<in> set (jc_Audience c) \<and>
     (case jc_ExpiresAt c of None \<Rightarrow> False | Some e \<Rightarrow> now < timeUnix e + clockLeeway) \<and>
     (case jc_NotBefore c of None \<Rightarrow> True | Some n \<Rightarrow> timeUnix n - clockLeeway \<le> now)"

definition dateSize :: "int option \<Rightarrow> nat" where
  "dateSize d = (case d of None \<Rightarrow> 0 | Some n \<Rightarrow> length (decimal (nat \<bar>n\<bar>)))"

definition claimSize :: "Claims \<Rightarrow> nat" where
  "claimSize c = length (jc_Issuer c) + length (concat (jc_Audience c)) + length (jc_Audience c) + length (jc_Subject c) + length (jc_ID c)
     + dateSize (jc_ExpiresAt c) + dateSize (jc_NotBefore c) + dateSize (jc_IssuedAt c)"

text \<open>
  A signed token parses, under the public key of its signer, to its claims exactly when they
  are acceptable; whatever parses was signed with a key of that public key. The compact form is
  base64 of JSON, in which a byte takes at most six characters.
\<close>

locale signed_tokens =
  fixes lib :: jwt_lib and pub :: "byte list \<Rightarrow> byte list"
  assumes pub_size: "length sk = PrivateKeySize \<Longrightarrow> length (pub sk) = PublicKeySize"
    and sign_some: "length sk = PrivateKeySize \<Longrightarrow> \<exists>tok. SignedString lib sk typ c = Some tok"
    and sign_parse: "length sk = PrivateKeySize \<Longrightarrow> SignedString lib sk typ c = Some tok \<Longrightarrow>
      ParseWithClaims lib (pub sk) aud now tok = (if acceptable aud now c then Some (Some typ, c) else None)"
    and sign_size: "SignedString lib sk typ c = Some tok \<Longrightarrow> 0 < length tok \<and> length tok \<le> 512 + 8 * (claimSize c + length typ)"
    and parse_signed: "ParseWithClaims lib pk aud now tok = Some (hdr, c) \<Longrightarrow>
      \<exists>sk t. length sk = PrivateKeySize \<and> pub sk = pk \<and> SignedString lib sk t c = Some tok \<and> hdr = Some t"

definition ours :: "profile \<Rightarrow> bool" where
  "ours p \<longleftrightarrow> p = gateProfile \<or> p = accessProfile"

lemma profile_facts:
  assumes "ours p"
  shows "length (pf_audience p) \<le> 10" "length (pf_typ p) \<le> 16" "0 < pf_ttl p" "pf_ttl p < 2 ^ 63"
    "pf_ttl p = timeUnix (pf_ttl p div Nanosecond_per_Second)"
  using assms
  by (auto simp: ours_def gateProfile_def accessProfile_def gateAudience_def accessAudience_def gateTokenType_def accessTokenType_def
      gateTokenTTL_def AccessTokenTTL_def Second_def Minute_def Hour_def timeUnix_def Nanosecond_per_Second_def)

lemma date_size:
  assumes "0 \<le> t" "t < 2 ^ 64"
  shows "dateSize (Some (NewNumericDate t)) \<le> 20"
proof -
  have "0 \<le> NewNumericDate t" "NewNumericDate t \<le> t"
    using assms(1) by (auto simp: NewNumericDate_def Nanosecond_per_Second_def)
  with assms have "nat \<bar>NewNumericDate t\<bar> < 10 ^ 20" by (simp add: nat_less_iff)
  then show ?thesis by (simp add: dateSize_def length_decimal)
qed

text \<open>Rounding to seconds does not shorten or stretch the lifetime.\<close>

lemma lifetime:
  assumes "ours p"
  shows "NewNumericDate (now + pf_ttl p) = NewNumericDate now + pf_ttl p div Nanosecond_per_Second"
proof -
  define d where "d = pf_ttl p div Nanosecond_per_Second"
  have "pf_ttl p = d * Nanosecond_per_Second" using profile_facts(5) [OF assms] by (simp add: d_def timeUnix_def)
  then show ?thesis by (simp add: NewNumericDate_def Nanosecond_per_Second_def)
qed

lemma subTime_lifetime:
  assumes "ours p"
  shows "subTime (NewNumericDate (now + pf_ttl p)) (NewNumericDate now) = pf_ttl p"
  using lifetime [OF assms, of now] profile_facts(3-5) [OF assms] by (simp add: subTime_def timeUnix_def)

text \<open>A token that is accepted from \<open>t\<close> on for its lifetime, and not after the leeway.\<close>

definition validFrom :: "jwt_lib \<Rightarrow> byte list \<Rightarrow> profile \<Rightarrow> string \<Rightarrow> gotime \<Rightarrow> string \<Rightarrow> bool" where
  "validFrom lib pk p uid t tok \<longleftrightarrow> (\<forall>now.
     (t \<le> now \<and> now < t + pf_ttl p \<longrightarrow> verify lib now pk tok p = Inr uid) \<and>
     (t + pf_ttl p + clockLeeway \<le> now \<longrightarrow> verify lib now pk tok p = Inl ErrInvalidToken))"

context signed_tokens
begin

lemma generate_cases:
  assumes "length sk = PrivateKeySize" "TrimSpace uid \<noteq> ''''" "length (TrimSpace uid) \<le> maxClaimValueSize" "length rnd = 16"
  shows "\<exists>tok. generate lib sk uid p (Some rnd) now = Inr tok
     \<and> SignedString lib sk (pf_typ p) (newClaims (TrimSpace uid) p (RawURLEncodeToString rnd) now) = Some tok"
  using sign_some [OF assms(1), of "pf_typ p" "newClaims (TrimSpace uid) p (RawURLEncodeToString rnd) now"] assms
  by (auto simp: generate_def newTokenID_def)

lemma token_size:
  assumes p: "ours p" and s: "SignedString lib sk (pf_typ p) (newClaims uid p tid t) = Some tok"
    and "length uid \<le> maxClaimValueSize" "length tid \<le> 64" "0 \<le> t" "t < 2 ^ 63"
  shows "length tok \<noteq> 0 \<and> length tok \<le> maxTokenSize"
proof -
  have d: "dateSize (Some (NewNumericDate t)) \<le> 20" "dateSize (Some (NewNumericDate (t + pf_ttl p))) \<le> 20"
    using date_size [of t] date_size [of "t + pf_ttl p"] assms(5,6) profile_facts(3,4) [OF p] by simp_all
  have "length tokenIssuer = 9" by (simp add: tokenIssuer_def)
  with d profile_facts(1,2) [OF p] assms(3,4) have "claimSize (newClaims uid p tid t) + length (pf_typ p) \<le> 400"
    by (simp add: claimSize_def newClaims_def maxClaimValueSize_def)
  with sign_size [OF s] show ?thesis by (simp add: maxTokenSize_def)
qed

lemma verify_generated:
  assumes p: "ours p" and sk: "length sk = PrivateKeySize"
    and s: "SignedString lib sk (pf_typ p) (newClaims uid p tid t) = Some tok"
    and uid: "uid \<noteq> ''''" "length uid \<le> maxClaimValueSize" and tid: "tid \<noteq> ''''" "length tid \<le> 64"
    and t: "0 \<le> t" "t < 2 ^ 63"
  shows "verify lib now (pub sk) tok p =
     (if timeUnix (NewNumericDate t) - clockLeeway \<le> now \<and> now < timeUnix (NewNumericDate t) + pf_ttl p + clockLeeway
      then Inr uid else Inl ErrInvalidToken)"
proof -
  let ?c = "newClaims uid p tid t"
  have acc: "acceptable (pf_audience p) now ?c \<longleftrightarrow>
      timeUnix (NewNumericDate t) - clockLeeway \<le> now \<and> now < timeUnix (NewNumericDate t) + pf_ttl p + clockLeeway"
    using lifetime [OF p, of t] profile_facts(5) [OF p] by (auto simp: acceptable_def newClaims_def timeUnix_def distrib_right)
  have "validClaims ?c (pf_ttl p)"
    using uid tid profile_facts(3) [OF p] subTime_lifetime [OF p, of t] by (simp add: validClaims_def newClaims_def maxClaimValueSize_def)
  with acc sign_parse [OF sk s] pub_size [OF sk] token_size [OF p s uid(2) tid(2) t] show ?thesis
    by (simp add: verify_def newClaims_def)
qed

lemma generated_lifetime:
  assumes p: "ours p" and sk: "length sk = PrivateKeySize" and trim: "TrimSpace uid = uid"
    and rnd: "length rnd = 16" and t: "0 \<le> t" "t < 2 ^ 63" and gen: "generate lib sk uid p (Some rnd) t = Inr tok"
  shows "validFrom lib (pub sk) p uid t tok"
proof -
  have s: "SignedString lib sk (pf_typ p) (newClaims uid p (RawURLEncodeToString rnd) t) = Some tok"
    and uid: "uid \<noteq> []" "length uid \<le> maxClaimValueSize"
    using gen trim by (auto simp: generate_def newTokenID_def Let_def split: if_splits option.splits)
  have "timeUnix (NewNumericDate t) \<le> t" "t < timeUnix (NewNumericDate t) + Second"
    by (simp_all add: timeUnix_def NewNumericDate_def Nanosecond_per_Second_def Second_def)
  moreover have "RawURLEncodeToString rnd \<noteq> []" "length (RawURLEncodeToString rnd) \<le> 64"
    using RawURL_not_Nil [of rnd] length_RawURL [of rnd] rnd by (cases rnd; simp)+
  ultimately show ?thesis
    using verify_generated [OF p sk s uid _ _ t] by (auto simp: validFrom_def clockLeeway_def Second_def)
qed

lemma verify_signed:
  assumes "verify lib now pk tok p = Inr uid"
  shows "\<exists>sk c exp iat. length sk = PrivateKeySize \<and> pub sk = pk \<and> SignedString lib sk (pf_typ p) c = Some tok \<and> jc_Subject c = uid
     \<and> jc_ExpiresAt c = Some exp \<and> jc_IssuedAt c = Some iat \<and> subTime exp iat \<le> pf_ttl p \<and> now < timeUnix exp + clockLeeway"
proof -
  from assms obtain c where parse: "ParseWithClaims lib pk (pf_audience p) now tok = Some (Some (pf_typ p), c)"
    and vc: "validClaims c (pf_ttl p)" "jc_Subject c = uid"
    by (auto simp: verify_def split: if_splits option.splits prod.splits)
  from parse_signed [OF parse] obtain sk where sk: "length sk = PrivateKeySize" "pub sk = pk" "SignedString lib sk (pf_typ p) c = Some tok"
    by auto
  with sign_parse [OF sk(1,3), of "pf_audience p" now] parse have "acceptable (pf_audience p) now c"
    by (auto split: if_splits)
  with vc sk show ?thesis
    by (auto simp: acceptable_def validClaims_def split: option.splits prod.splits)
qed

lemma verify_one_kind:
  assumes "verify lib now pk tok p = Inr uid" "pf_typ q \<noteq> pf_typ p"
  shows "verify lib now' pk tok q = Inl ErrInvalidToken"
proof -
  obtain sk c where sk: "length sk = PrivateKeySize" "pub sk = pk" "SignedString lib sk (pf_typ p) c = Some tok"
    using verify_signed [OF assms(1)] by blast
  have "ParseWithClaims lib pk (pf_audience q) now' tok = (if acceptable (pf_audience q) now' c then Some (Some (pf_typ p), c) else None)"
    using sign_parse [OF sk(1,3)] sk(2) by simp
  with assms(2) show ?thesis by (auto simp: verify_def)
qed

end

section \<open>A library without cryptography\<close>

text \<open>
  For concrete runs: a token is the list of its fields, every byte marked, with the public key as
  its signature. It keeps the laws because parsing checks that the token is the encoding of what
  it reads.
\<close>

definition field :: "string \<Rightarrow> string" where
  "field f = concat (map (\<lambda>c. [CHR ''.'', c]) f) @ ''|''"

fun unfields :: "string \<Rightarrow> string \<Rightarrow> string list" where
  "unfields acc [] = []"
| "unfields acc (x # xs) = (if x = CHR ''|'' then rev acc # unfields [] xs
     else case xs of [] \<Rightarrow> [] | c # cs \<Rightarrow> unfields (c # acc) cs)"

definition dateText :: "int option \<Rightarrow> string" where
  "dateText d = (case d of None \<Rightarrow> '''' | Some n \<Rightarrow> (if n < 0 then CHR ''-'' else CHR ''+'') # decimal (nat \<bar>n\<bar>))"

definition textDate :: "string \<Rightarrow> int option" where
  "textDate s = (case s of [] \<Rightarrow> None
     | x # xs \<Rightarrow> map_option (\<lambda>n. if x = CHR ''-'' then - int n else int n) (parseDigits 0 xs))"

definition tokenFields :: "byte list \<Rightarrow> string \<Rightarrow> Claims \<Rightarrow> string list" where
  "tokenFields pk typ c = [map (\<lambda>b. char_of (uint b)) pk, typ, jc_Issuer c, jc_Subject c, jc_ID c,
     dateText (jc_ExpiresAt c), dateText (jc_NotBefore c), dateText (jc_IssuedAt c)] @ jc_Audience c"

definition plainToken :: "byte list \<Rightarrow> string \<Rightarrow> Claims \<Rightarrow> string" where
  "plainToken pk typ c = concat (map field (tokenFields pk typ c))"

definition plainRead :: "string \<Rightarrow> (string \<times> Claims) option" where
  "plainRead tok = (case unfields [] tok of
       k # typ # iss # sub # i # e # n # iat # auds \<Rightarrow>
         Some (typ, \<lparr>jc_Issuer = iss, jc_Audience = auds, jc_Subject = sub, jc_ExpiresAt = textDate e, jc_NotBefore = textDate n,
           jc_IssuedAt = textDate iat, jc_ID = i\<rparr>)
     | _ \<Rightarrow> None)"

definition plainJwt :: jwt_lib where
  "plainJwt = \<lparr>
     SignedString = (\<lambda>sk typ c. if length sk = PrivateKeySize then Some (plainToken (drop 32 sk) typ c) else None),
     ParseWithClaims = (\<lambda>pk aud now tok. case plainRead tok of
         None \<Rightarrow> None
       | Some (typ, c) \<Rightarrow> if length pk = PublicKeySize \<and> plainToken pk typ c = tok \<and> acceptable aud now c
           then Some (Some typ, c) else None)\<rparr>"

lemma unfields_field: "unfields acc (field f @ rest) = (rev acc @ f) # unfields [] rest"
  by (induction f arbitrary: acc) (auto simp: field_def)

lemma unfields_fields: "unfields [] (concat (map field fs)) = fs"
  by (induction fs) (simp_all add: unfields_field)

lemma textDate_dateText [simp]: "textDate (dateText d) = d"
  by (auto simp: textDate_def dateText_def parseDigits_decimal split: option.splits)

lemma plainRead_token [simp]: "plainRead (plainToken pk typ c) = Some (typ, c)"
proof -
  have "unfields [] (plainToken pk typ c) = tokenFields pk typ c" unfolding plainToken_def by (rule unfields_fields)
  then show ?thesis by (simp add: plainRead_def tokenFields_def)
qed

lemma length_fields: "length (concat (map field fs)) = 2 * length (concat fs) + length fs"
proof -
  have "length (field f) = 2 * length f + 1" for f
    by (induction f) (simp_all add: field_def)
  then show ?thesis by (induction fs) simp_all
qed

lemma plain_signed_tokens: "signed_tokens plainJwt (drop 32)"
proof (unfold_locales, goal_cases)
  case (4 sk ty c tok)
  then have tok: "tok = plainToken (drop 32 sk) ty c" and "length sk = 64"
    by (auto simp: plainJwt_def PrivateKeySize_def split: if_splits)
  have dt: "length (dateText d) \<le> Suc (dateSize d)" for d
    by (simp add: dateText_def dateSize_def split: option.splits)
  have "length tok = 2 * length (concat (tokenFields (drop 32 sk) ty c)) + length (tokenFields (drop 32 sk) ty c)"
    unfolding tok plainToken_def by (rule length_fields)
  moreover have "length (concat (tokenFields (drop 32 sk) ty c)) \<le> 35 + claimSize c + length ty"
    using dt [of "jc_ExpiresAt c"] dt [of "jc_NotBefore c"] dt [of "jc_IssuedAt c"] \<open>length sk = 64\<close>
    by (simp add: tokenFields_def claimSize_def)
  moreover have "length (tokenFields (drop 32 sk) ty c) = 8 + length (jc_Audience c)" by (simp add: tokenFields_def)
  ultimately show ?case by (simp add: claimSize_def)
next
  case (5 pk aud now tok hdr c)
  then have pk: "length pk = 32" and tok: "\<exists>typ. tok = plainToken pk typ c \<and> hdr = Some typ"
    by (auto simp: plainJwt_def PublicKeySize_def split: option.splits if_splits)
  have "length (replicate 32 0 @ pk) = PrivateKeySize" "drop 32 (replicate 32 0 @ pk) = pk"
    using pk by (simp_all add: PrivateKeySize_def)
  with tok show ?case by (intro exI [of _ "replicate 32 0 @ pk"]) (auto simp: plainJwt_def)
qed (auto simp: plainJwt_def PrivateKeySize_def PublicKeySize_def)

interpretation plain: signed_tokens plainJwt "drop 32"
  by (rule plain_signed_tokens)

section \<open>Properties\<close>

text \<open>
  A token issued at time \<open>t\<close> is accepted as the same player from \<open>t\<close> until its lifetime is
  over (60 seconds for a gate token, 24 hours for an access token), and never later than the
  clock leeway of 3 seconds allows. Issuing works for every player id of at most 128 bytes.
\<close>

theorem token_lifetime:
  assumes "signed_tokens lib pub" and "length sk = PrivateKeySize" and "ours p"
    and "TrimSpace uid = uid" and "uid \<noteq> ''''" and "length uid \<le> 128" and "length rnd = 16"
    and "0 \<le> t" and "t < 2 ^ 63"
  shows "\<exists>tok. generate lib sk uid p (Some rnd) t = Inr tok \<and> validFrom lib (pub sk) p uid t tok"
proof -
  obtain tok where "generate lib sk uid p (Some rnd) t = Inr tok"
    using signed_tokens.generate_cases [OF assms(1,2), of uid rnd] assms(4-7) by (auto simp: maxClaimValueSize_def)
  with signed_tokens.generated_lifetime [OF assms(1,3,2,4,7-9)] show ?thesis by blast
qed

theorem token_lifetime_witness:
  "\<exists>tok. Generate plainJwt (replicate 64 1) ''42'' (Some (replicate 16 7)) (timeUnix 1000) = Inr tok
     \<and> Auth plainJwt (timeUnix 1059) (Some (replicate 32 1)) tok = Inr ''42''
     \<and> Auth plainJwt (timeUnix 1063) (Some (replicate 32 1)) tok = Inl ErrInvalidToken"
proof -
  have "TrimSpace ''42'' = ''42''" by (rule TrimSpace_graph) (simp_all add: isGraph_def)
  from token_lifetime [OF plain_signed_tokens, of "replicate 64 1" gateProfile "''42''" "replicate 16 7" "timeUnix 1000"] this
  show ?thesis
    by (auto simp: validFrom_def PrivateKeySize_def ours_def Generate_def Auth_def auth_def gateProfile_def gateTokenTTL_def timeUnix_def
        Nanosecond_per_Second_def Second_def clockLeeway_def)
qed



text \<open>Keys as they are configured: padded base64 of the key bytes.\<close>

lemma encode_graph:
  assumes "c \<in> set (EncodeToString bs)"
  shows "isGraph c"
proof -
  have "list_all isGraph (CHR ''='' # b64Alphabet)" by code_simp
  moreover have "c \<in> insert (CHR ''='') (set b64Alphabet)" using assms encode_chars by (rule rev_subsetD)
  ultimately show ?thesis by (auto simp: list_all_iff)
qed

lemma decodeKey_encoded: "bs \<noteq> [] \<Longrightarrow> decodeKey (EncodeToString bs) = Inr bs"
proof -
  assume "bs \<noteq> []"
  then have ne: "EncodeToString bs \<noteq> []" by (cases bs rule: EncodeToString.cases) (simp_all add: Let_def)
  have "TrimSpace (EncodeToString bs) = EncodeToString bs"
    using ne encode_graph by (intro TrimSpace_graph) auto
  with ne show ?thesis by (simp add: decodeKey_def DecodeString_EncodeToString)
qed

text \<open>
  A configured key is read back as it was written: parsing the base64 text of a private
  key of 64 bytes or a public key of 32 bytes gives the key, and a key of another size is
  refused.
\<close>

theorem ParseKey_roundtrip:
  assumes "bs \<noteq> []"
  shows "ParsePrivateKey (EncodeToString bs) = (if length bs = 64 then Inr bs else Inl BadPrivateKey)
     \<and> ParsePublicKey (EncodeToString bs) = (if length bs = 32 then Inr bs else Inl BadPublicKey)"
  using decodeKey_encoded [OF assms] by (simp add: ParsePrivateKey_def ParsePublicKey_def PrivateKeySize_def PublicKeySize_def)

theorem ParseKey_roundtrip_witness: "ParsePrivateKey (EncodeToString (replicate 64 1)) = Inr (replicate 64 1)"
  using ParseKey_roundtrip [of "replicate 64 1"] by (simp add: numeral_eq_Suc)

end
