(* ===== verification/LoginService.thy ===== *)
theory LoginService
  imports LoginSpec JwtProps
begin

text \<open>
  The login service, \<open>app/Api/login/internal/service\<close>: the provider interface with its guest and
  debug implementations, the manager that handles the login, bind, unbind and delete requests,
  and the start-up of \<open>app/Api/login/init.go\<close>. Random identifiers, random bytes, the clock and
  the conversions of package \<open>cast\<close> are parameters. Logging is left out.
\<close>

section \<open>Requests and responses\<close>

record LoginReq =
  lq_LoginType :: int
  lq_GuestID :: string
  lq_Code :: string
  lq_IdentityToken :: string
  lq_AccessToken :: string
  lq_Nonce :: string

record LoginRsp =
  lr_Uid :: uint64
  lr_OpenId :: string
  lr_IsRegister :: bool
  lr_GateToken :: string
  lr_AccessToken :: string

section \<open>Providers\<close>

record 's auth_env =
  ld :: "'s login_drv"
  NewUUID :: "'s \<Rightarrow> string \<times> 's"
  RandRead :: "'s \<Rightarrow> byte list option \<times> 's"
  WallClock :: "'s \<Rightarrow> gotime \<times> 's"
  ToUint64E :: "string \<Rightarrow> uint64 option"
  UidToString :: "uint64 \<Rightarrow> string"

datatype auth_error = ErrInvalidCredential | AuthStore login_error | NoGuestID | BadDebugToken

record 's LoginProvider =
  lp_Type :: int
  lp_Authenticate :: "LoginReq \<Rightarrow> ('s, auth_error, Identity) act"
  lp_FindOrCreateAccount :: "Identity \<Rightarrow> ('s, login_error, uint64 \<times> bool) act"
  lp_BindAccount :: "uint64 \<Rightarrow> Identity \<Rightarrow> ('s, login_error, unit) act"
  lp_UnbindAccount :: "uint64 \<Rightarrow> Identity \<Rightarrow> ('s, login_error, unit) act"

definition baseFindLoginRecord :: "'s login_drv \<Rightarrow> int \<Rightarrow> string \<Rightarrow> string \<Rightarrow> ('s, login_error, uint64 option) act" where
  "baseFindLoginRecord drv loginType appID openID = FindLoginRecord drv loginType appID openID"

text \<open>A provider embeds \<open>BaseLoginProvider\<close> and adds its own way to authenticate.\<close>

definition baseProvider :: "'s login_drv \<Rightarrow> int \<Rightarrow> (LoginReq \<Rightarrow> ('s, auth_error, Identity) act) \<Rightarrow> 's LoginProvider" where
  "baseProvider drv loginType authenticate = \<lparr>
     lp_Type = loginType,
     lp_Authenticate = authenticate,
     lp_FindOrCreateAccount = FindOrCreateAccount drv loginType,
     lp_BindAccount = (\<lambda>uid. BindIdentity drv uid loginType),
     lp_UnbindAccount = (\<lambda>uid. UnbindIdentity drv uid loginType)\<rparr>"

definition guestAppID :: string where "guestAppID = ''taoxi''"

definition newUUID :: "'s auth_env \<Rightarrow> ('s, 'e, string) act" where
  "newUUID env s = (case NewUUID env s of (u, t) \<Rightarrow> (Inr u, t))"

fun guestCandidate :: "'s auth_env \<Rightarrow> nat \<Rightarrow> ('s, auth_error, string) act" where
  "guestCandidate env 0 = ok ''''"
| "guestCandidate env (Suc n) =
     andThen (newUUID env) (\<lambda>u. let candidate = ''custom_'' @ u in
     andThen (mapErr AuthStore (baseFindLoginRecord (ld env) LoginTypeGuest guestAppID candidate)) (\<lambda>found.
       if found \<noteq> None then guestCandidate env n else ok candidate))"

definition guestAuthenticate :: "'s auth_env \<Rightarrow> LoginReq \<Rightarrow> ('s, auth_error, Identity) act" where
  "guestAuthenticate env req =
     andThen (if lq_GuestID req = '''' then guestCandidate env 10 else ok (lq_GuestID req)) (\<lambda>guestID.
       if guestID = '''' then fail NoGuestID
       else ok \<lparr>li_AppID = guestAppID, li_OpenID = guestID, li_UnionID = ''''\<rparr>)"

definition NewGuestLoginProvider :: "'s auth_env \<Rightarrow> 's LoginProvider" where
  "NewGuestLoginProvider env = baseProvider (ld env) LoginTypeGuest (guestAuthenticate env)"

definition debugAuthenticate :: "'s auth_env \<Rightarrow> LoginReq \<Rightarrow> ('s, auth_error, Identity) act" where
  "debugAuthenticate env req = (case ToUint64E env (lq_IdentityToken req) of
       None \<Rightarrow> fail BadDebugToken
     | Some _ \<Rightarrow> ok \<lparr>li_AppID = guestAppID, li_OpenID = lq_IdentityToken req, li_UnionID = ''''\<rparr>)"

definition NewDebugLoginProvider :: "'s auth_env \<Rightarrow> 's LoginProvider" where
  "NewDebugLoginProvider env = baseProvider (ld env) LoginTypeDebug (debugAuthenticate env)"

section \<open>The manager\<close>

record 's Manager =
  mg_providers :: "int \<rightharpoonup> 's LoginProvider"
  mg_store :: "'s login_drv"
  mg_privateKey :: "byte list"

text \<open>The constructor panics for a key of the wrong size.\<close>

definition NewManager :: "'s login_drv \<Rightarrow> byte list \<Rightarrow> 's Manager option" where
  "NewManager store privateKey =
     (if length privateKey \<noteq> PrivateKeySize then None
      else Some \<lparr>mg_providers = (\<lambda>_. None), mg_store = store, mg_privateKey = privateKey\<rparr>)"

definition Register :: "'s LoginProvider \<Rightarrow> 's Manager \<Rightarrow> 's Manager" where
  "Register provider m = m\<lparr>mg_providers := (mg_providers m)(lp_Type provider \<mapsto> provider)\<rparr>"

definition authError :: "message \<Rightarrow> auth_error \<Rightarrow> Error" where
  "authError msg e = (if e = ErrInvalidCredential then Unauthorized MsgBadCredential else InternalServerError msg)"

definition issue :: "'s auth_env \<Rightarrow> jwt_lib \<Rightarrow> byte list \<Rightarrow> string \<Rightarrow> profile \<Rightarrow> ('s, jwt_error, string) act" where
  "issue env lib privateKey uid p s =
     (case RandRead env s of (rnd, s1) \<Rightarrow> (case WallClock env s1 of (now, s2) \<Rightarrow>
        (generate lib privateKey uid p rnd now, s2)))"

definition managerLogin :: "'s auth_env \<Rightarrow> jwt_lib \<Rightarrow> 's Manager \<Rightarrow> LoginReq \<Rightarrow> ('s, Error, LoginRsp) act" where
  "managerLogin env lib m req =
     (case mg_providers m (lq_LoginType req) of
        None \<Rightarrow> fail (BadRequest MsgUnsupportedLogin)
      | Some provider \<Rightarrow>
          andThen (mapErr (authError MsgLoginFailed) (lp_Authenticate provider req)) (\<lambda>loginIdentity.
          andThen (mapErr (\<lambda>e. if e = ErrAccountDeleted then Forbidden MsgAccountDeleted else InternalServerError MsgLoginFailed)
             (lp_FindOrCreateAccount provider loginIdentity)) (\<lambda>(uid, registered).
          let uidValue = UidToString env uid in
          andThen (mapErr (\<lambda>_. InternalServerError MsgLoginFailed) (issue env lib (mg_privateKey m) uidValue gateProfile)) (\<lambda>gateToken.
          andThen (mapErr (\<lambda>_. InternalServerError MsgLoginFailed) (issue env lib (mg_privateKey m) uidValue accessProfile)) (\<lambda>accessToken.
          ok \<lparr>lr_Uid = uid, lr_OpenId = li_OpenID loginIdentity, lr_IsRegister = registered, lr_GateToken = gateToken,
              lr_AccessToken = accessToken\<rparr>)))))"

definition bindError :: "login_error \<Rightarrow> Error" where
  "bindError e = (case e of
       ErrAccountDeleted \<Rightarrow> Forbidden MsgAccountDeleted
     | ErrIdentityBoundOtherAccount \<Rightarrow> Forbidden MsgBoundElsewhere
     | ErrLoginTypeAlreadyBound \<Rightarrow> Forbidden MsgAlreadyBound
     | _ \<Rightarrow> InternalServerError MsgBindLoginFailed)"

definition managerBind :: "'s Manager \<Rightarrow> uint64 \<Rightarrow> LoginReq \<Rightarrow> ('s, Error, string) act" where
  "managerBind m uid req =
     (case mg_providers m (lq_LoginType req) of
        None \<Rightarrow> fail (BadRequest MsgUnsupportedLogin)
      | Some provider \<Rightarrow>
          andThen (mapErr (authError MsgBindLoginFailed) (lp_Authenticate provider req)) (\<lambda>loginIdentity.
          andThen (mapErr bindError (lp_BindAccount provider uid loginIdentity)) (\<lambda>_. ok (li_OpenID loginIdentity))))"

definition unbindError :: "login_error \<Rightarrow> Error" where
  "unbindError e = (case e of
       ErrAccountDeleted \<Rightarrow> Forbidden MsgAccountDeleted
     | ErrIdentityNotBound \<Rightarrow> NotFound MsgNotBound
     | ErrLastIdentity \<Rightarrow> Forbidden MsgLastIdentity
     | _ \<Rightarrow> InternalServerError MsgUnbindFailed)"

definition managerUnbind :: "'s Manager \<Rightarrow> uint64 \<Rightarrow> LoginReq \<Rightarrow> ('s, Error, unit) act" where
  "managerUnbind m uid req =
     (case mg_providers m (lq_LoginType req) of
        None \<Rightarrow> fail (BadRequest MsgUnsupportedLogin)
      | Some provider \<Rightarrow>
          andThen (mapErr (authError MsgUnbindFailed) (lp_Authenticate provider req)) (\<lambda>loginIdentity.
          mapErr unbindError (lp_UnbindAccount provider uid loginIdentity)))"

definition managerDeleteAccount :: "'s Manager \<Rightarrow> uint64 \<Rightarrow> ('s, Error, unit) act" where
  "managerDeleteAccount m uid =
     mapErr (\<lambda>e. if e = ErrAccountDeleted then Forbidden MsgAccountDeleted else InternalServerError MsgDeleteFailed)
       (DeleteAccount (mg_store m) uid)"

text \<open>
  Start-up: the key is parsed, the public half is installed for the checks of this process, and
  the two providers are registered. \<open>None\<close> is a panic.
\<close>

definition initLogin :: "'s auth_env \<Rightarrow> (byte list \<Rightarrow> byte list) \<Rightarrow> string \<Rightarrow> ('s Manager \<times> byte list option) option" where
  "initLogin env public keyText =
     (case ParsePrivateKey keyText of
        Inl _ \<Rightarrow> None
      | Inr privateKey \<Rightarrow>
          (case InitPublicKey (public privateKey) of
             Inl _ \<Rightarrow> None
           | Inr publicKeyValue \<Rightarrow>
               (case NewManager (ld env) privateKey of
                  None \<Rightarrow> None
                | Some m \<Rightarrow> Some (Register (NewDebugLoginProvider env) (Register (NewGuestLoginProvider env) m), publicKeyValue))))"

end
