(* ===== verification/LoginTheorems.thy ===== *)
theory LoginTheorems
  imports LoginService
begin

text \<open>
  The login service over the laws of the account database and of the token library, and an
  executable world in which both run.
\<close>

lemma initLogin_facts:
  assumes "initLogin env pub keyText = Some (m, pkv)"
  shows "mg_providers m = [LoginTypeGuest \<mapsto> NewGuestLoginProvider env, LoginTypeDebug \<mapsto> NewDebugLoginProvider env]"
    "length (mg_privateKey m) = PrivateKeySize" "pkv = Some (pub (mg_privateKey m))" "mg_store m = ld env"
proof -
  have t: "lp_Type (NewGuestLoginProvider env) = LoginTypeGuest" "lp_Type (NewDebugLoginProvider env) = LoginTypeDebug"
    by (simp_all add: NewGuestLoginProvider_def NewDebugLoginProvider_def baseProvider_def)
  from assms obtain sk where "length sk = PrivateKeySize" "pkv = Some (pub sk)"
    "m = Register (NewDebugLoginProvider env) (Register (NewGuestLoginProvider env) \<lparr>mg_providers = (\<lambda>_. None), mg_store = ld env, mg_privateKey = sk\<rparr>)"
    by (auto simp: initLogin_def InitPublicKey_def NewManager_def split: sum.splits if_splits)
  with t show "mg_providers m = [LoginTypeGuest \<mapsto> NewGuestLoginProvider env, LoginTypeDebug \<mapsto> NewDebugLoginProvider env]"
    "length (mg_privateKey m) = PrivateKeySize" "pkv = Some (pub (mg_privateKey m))" "mg_store m = ld env"
    by (simp_all add: Register_def)
qed

text \<open>The token was issued at some reading of the clock, and is good for this player from then on.\<close>

definition issued :: "(gotime \<Rightarrow> bool) \<Rightarrow> jwt_lib \<Rightarrow> byte list option \<Rightarrow> profile \<Rightarrow> uint64 \<Rightarrow> string \<Rightarrow> bool" where
  "issued reading lib pkv p uid tok \<longleftrightarrow>
     (\<exists>pk now. pkv = Some pk \<and> reading now \<and> validFrom lib pk p (decimal uid) now tok)"

locale login_service = login_db mf "ld env" com cur + signed_tokens lib pub
  for mf :: bool and env :: "'s auth_env" and lib :: jwt_lib and pub :: "byte list \<Rightarrow> byte list"
    and com cur :: "'s \<Rightarrow> login_tables" +
  assumes uuid_law: "com (snd (NewUUID env s)) = com s"
    and rand_law: "RandRead env s = (rnd, s') \<Longrightarrow> com s' = com s \<and> (case rnd of None \<Rightarrow> True | Some bs \<Rightarrow> length bs = 16)"
    and wall_law: "WallClock env s = (now, s'') \<Longrightarrow> com s'' = com s \<and> 0 \<le> now \<and> now < 2 ^ 63"
    and uid_law: "UidToString env uid = decimal uid"
begin

lemma wp_issue:
  assumes "ours p" "length sk = PrivateKeySize"
  shows "wp (issue env lib sk (decimal uid) p)
     (\<lambda>tok t. com t = com s \<and> (\<exists>u now. now = fst (WallClock env u) \<and> validFrom lib (pub sk) p (decimal uid) now tok))
     (\<lambda>_ t. com t = com s) s"
proof -
  obtain rnd s1 where r: "RandRead env s = (rnd, s1)" by (cases "RandRead env s")
  obtain now s2 where w: "WallClock env s1 = (now, s2)" by (cases "WallClock env s1")
  have c: "com s2 = com s" "0 \<le> now" "now < 2 ^ 63" using rand_law [OF r] wall_law [OF w] by simp_all
  show ?thesis
  proof (cases "generate lib sk (decimal uid) p rnd now")
    case (Inl e)
    with r w c show ?thesis by (simp add: wp_def issue_def)
  next
    case (Inr tok)
    then obtain bs where bs: "rnd = Some bs"
      by (auto simp: generate_def newTokenID_def Let_def split: if_splits option.splits)
    then have "length bs = 16" using rand_law [OF r] by simp
    with generated_lifetime [OF assms TrimSpace_decimal _ c(2,3)] Inr bs
    have "validFrom lib (pub sk) p (decimal uid) now tok" by blast
    with r w c Inr show ?thesis by (auto simp: wp_def issue_def intro!: exI [of _ s1])
  qed
qed

lemma wp_newUUID: "wp (newUUID env) Q E s = (case NewUUID env s of (u, t) \<Rightarrow> Q u t)"
  by (simp add: wp_def newUUID_def split: prod.splits)

lemma wp_guestCandidate:
  assumes "loginInv (com s)"
  shows "wp (guestCandidate env n) (\<lambda>_ t. elsewhere (com s) (com t)) (\<lambda>_ t. elsewhere (com s) (com t)) s"
  using assms
proof (induction n arbitrary: s)
  case (Suc n)
  obtain u s1 where u: "NewUUID env s = (u, s1)" by (cases "NewUUID env s")
  then have c: "com s1 = com s" using uuid_law [of s] by simp
  have "wp (FindLoginRecord (ld env) LoginTypeGuest guestAppID (''custom_'' @ u))
      (\<lambda>found. wp (if found \<noteq> None then guestCandidate env n else ok (''custom_'' @ u))
         (\<lambda>_ t. elsewhere (com s) (com t)) (\<lambda>_ t. elsewhere (com s) (com t)))
      (\<lambda>_ t. elsewhere (com s) (com t)) s1"
  proof (rule wp_FindLoginRecord, goal_cases)
    case (2 t)
    have "loginInv (com t)" using elsewhere_inv [OF 2] c Suc.prems by simp
    from Suc.IH [OF this] show ?case
      using 2 c by (auto simp: wp_simps elim!: wp_mono intro: elsewhere_trans)
  qed (use c Suc.prems in auto)
  with u show ?case
    unfolding guestCandidate.simps wp_andThen [of "newUUID env"] wp_newUUID Let_def baseFindLoginRecord_def
    by (simp add: wp_simps del: append.simps)
qed (simp add: wp_simps)

lemma wp_guestAuthenticate:
  assumes "loginInv (com s)"
  shows "wp (guestAuthenticate env req)
     (\<lambda>ident t. elsewhere (com s) (com t) \<and> (lq_GuestID req \<noteq> [] \<longrightarrow> com t = com s \<and> ident = \<lparr>li_AppID = guestAppID, li_OpenID = lq_GuestID req, li_UnionID = []\<rparr>))
     (\<lambda>_ t. elsewhere (com s) (com t) \<and> lq_GuestID req = []) s"
  unfolding guestAuthenticate_def wp_simps
  using wp_guestCandidate [OF assms, of 10]
  by (auto simp: wp_simps elim!: wp_mono split: if_splits)

lemma wp_debugAuthenticate:
  "wp (debugAuthenticate env req) (\<lambda>_ t. t = s) (\<lambda>_ t. t = s) s"
  by (simp add: debugAuthenticate_def wp_simps split: option.splits)


lemma wp_managerLogin:
  assumes inv: "loginInv (com s)" and m: "initLogin env pub keyText = Some (m, pkv)"
  shows "wp (managerLogin env lib m req)
     (\<lambda>rsp t. active (lr_Uid rsp) (com t) \<and> loginInv (com t) \<and> accountsKept (com s) (com t)
        \<and> issued (\<lambda>now. now \<in> range (\<lambda>u. fst (WallClock env u))) lib pkv gateProfile (lr_Uid rsp) (lr_GateToken rsp)
        \<and> issued (\<lambda>now. now \<in> range (\<lambda>u. fst (WallClock env u))) lib pkv accessProfile (lr_Uid rsp) (lr_AccessToken rsp))
     (\<lambda>_ t. elsewhere (com s) (com t)) s"
proof -
  note key = initLogin_facts(2,3) [OF m]
  have prov: "mg_providers m lt = Some pr \<Longrightarrow> (\<exists>a. pr = baseProvider (ld env) lt a
        \<and> (a = guestAuthenticate env \<or> a = debugAuthenticate env))" for lt pr
    unfolding initLogin_facts(1) [OF m]
    by (auto simp: NewDebugLoginProvider_def NewGuestLoginProvider_def split: if_splits)
  show ?thesis
  proof (cases "mg_providers m (lq_LoginType req)")
    case None
    then show ?thesis by (simp add: managerLogin_def wp_simps)
  next
    case (Some pr)
    then obtain a where pr: "pr = baseProvider (ld env) (lq_LoginType req) a"
      and a: "a = guestAuthenticate env \<or> a = debugAuthenticate env" using prov by blast
    have auth: "wp (a req) (\<lambda>_ t. elsewhere (com s) (com t)) (\<lambda>_ t. elsewhere (com s) (com t)) s"
      using a wp_guestAuthenticate [OF inv, of req] wp_debugAuthenticate [of req s] by (auto elim!: wp_mono)
    have tokens: "wp (issue env lib (mg_privateKey m) (decimal uid) p)
        (\<lambda>tok t. com t = com u \<and> issued (\<lambda>now. now \<in> range (\<lambda>u. fst (WallClock env u))) lib pkv p uid tok) (\<lambda>_ t. com t = com u) u"
      if "ours p" for p u uid
      by (rule wp_mono [OF wp_issue [OF that key(1)]]) (use key(2) in \<open>auto simp: issued_def\<close>)
    have o: "ours gateProfile" "ours accessProfile" by (simp_all add: ours_def)
    show ?thesis
      unfolding managerLogin_def Some option.case pr baseProvider_def LoginProvider.simps wp_andThen wp_mapErr uid_law Let_def
    proof (rule wp_mono [OF auth], goal_cases)
      case (1 ident t)
      have I: "loginInv (com t)" using elsewhere_inv [OF 1 inv] .
      show ?case
      proof (rule wp_mono [OF wp_FindOrCreateAccount [OF I]], goal_cases)
        case (1 r t1)
        then have e: "elsewhere (com s) (com t1)" and act: "active (fst r) (com t1)"
          using \<open>elsewhere (com s) (com t)\<close> by (auto simp: loginOk_def intro: elsewhere_trans)
        show ?case
          unfolding case_prod_beta wp_simps
        proof (rule wp_mono [OF tokens [OF o(1)]], goal_cases)
          case (1 gate t2)
          show ?case
            by (rule wp_mono [OF tokens [OF o(2)]])
              (use 1 e act elsewhere_inv [OF e inv] in \<open>auto simp: elsewhere_def\<close>)
        qed (use e in auto)
      next
        case (2 e t1)
        with \<open>elsewhere (com s) (com t)\<close> show ?case by (auto simp: loginErr_def intro: elsewhere_trans)
      qed
    qed auto
  qed
qed

end

context login_service
begin

lemma wp_managerBind_guest:
  assumes inv: "loginInv (com s)" and m: "initLogin env pub keyText = Some (m, pkv)"
    and req: "lq_LoginType req = LoginTypeGuest" "lq_GuestID req \<noteq> []"
  defines "ident \<equiv> \<lparr>li_AppID = guestAppID, li_OpenID = lq_GuestID req, li_UnionID = []\<rparr>"
  shows "wp (managerBind m uid req)
     (\<lambda>oid t. oid = lq_GuestID req \<and> txDone (refines (bindSpec uid LoginTypeGuest ident)) (com s) (com t))
     (\<lambda>e t. \<exists>e'. e = bindError e' \<and> txFailed mf (refines (bindSpec uid LoginTypeGuest ident)) (rejects (bindSpec uid LoginTypeGuest ident) e') (com s) (com t)) s"
proof -
  have "mg_providers m (lq_LoginType req) = Some (NewGuestLoginProvider env)"
    using initLogin_facts(1) [OF m] req by (simp add: LoginTypeGuest_def LoginTypeDebug_def)
  then show ?thesis
    unfolding managerBind_def NewGuestLoginProvider_def baseProvider_def wp_andThen wp_mapErr
  proof (simp add: wp_simps, intro wp_mono [OF wp_guestAuthenticate [OF inv]], goal_cases)
    case (1 i t)
    with req have t: "com t = com s" "i = ident" by (simp_all add: ident_def)
    have "loginInv (com t)" using inv t by simp
    from wp_BindIdentity [OF this, of uid LoginTypeGuest ident] show ?case
      using t by (auto simp: ident_def elim!: wp_mono)
  qed (use req in simp)
qed

end

section \<open>An executable service\<close>

definition memEnv :: "mem_login auth_env" where
  "memEnv = \<lparr>ld = mem_login_drv, NewUUID = (\<lambda>s. (''u'' @ decimal (length (lt_accounts (ml_com s))), s)),
     RandRead = (\<lambda>s. (Some (replicate 16 7), s)), WallClock = (\<lambda>s. (ml_clock s mod 2 ^ 63, s)),
     ToUint64E = ParseUint64, UidToString = decimal\<rparr>"

lemma mem_login_service: "login_service mf memEnv plainJwt (drop 32) ml_com ml_cur"
proof (intro login_service.intro login_service_axioms.intro plain_signed_tokens, goal_cases)
  case 1
  show ?case using mem_login_db by (simp add: memEnv_def)
qed (auto simp: memEnv_def)

interpretation mem_service: login_service False memEnv plainJwt "drop 32" ml_com ml_cur
  by (rule mem_login_service)

definition memManager :: "mem_login Manager" where
  "memManager = fst (the (initLogin memEnv (drop 32) (EncodeToString (replicate 64 1))))"

lemma memManager_init: "initLogin memEnv (drop 32) (EncodeToString (replicate 64 1)) = Some (memManager, Some (replicate 32 1))"
proof -
  have "decodeKey (EncodeToString (replicate 64 1)) = Inr (replicate 64 1)" by (rule decodeKey_encoded) simp
  then show ?thesis
    by (simp add: memManager_def initLogin_def ParsePrivateKey_def PrivateKeySize_def PublicKeySize_def InitPublicKey_def NewManager_def)
qed

lemma memManager_facts:
  "mg_providers memManager 1 = Some (NewGuestLoginProvider memEnv)" "mg_privateKey memManager = replicate 64 1"
  "ld memEnv = mem_login_drv" "UidToString memEnv = decimal"
proof -
  show "mg_providers memManager 1 = Some (NewGuestLoginProvider memEnv)"
    using initLogin_facts(1) [OF memManager_init] by (simp add: LoginTypeGuest_def LoginTypeDebug_def)
  have "decodeKey (EncodeToString (replicate 64 1)) = Inr (replicate 64 1)" by (rule decodeKey_encoded) simp
  then show "mg_privateKey memManager = replicate 64 1"
    by (simp add: memManager_def initLogin_def ParsePrivateKey_def PrivateKeySize_def PublicKeySize_def InitPublicKey_def NewManager_def Register_def)
qed (simp_all add: memEnv_def)

definition guestReq :: LoginReq where
  "guestReq = \<lparr>lq_LoginType = 1, lq_GuestID = ''ada'', lq_Code = [], lq_IdentityToken = [], lq_AccessToken = [], lq_Nonce = []\<rparr>"

section \<open>Properties\<close>

text \<open>
  C12: A successful login through the service as \<open>Init\<close> starts it returns an active player, and
  the two tokens it returns are accepted by the checks of this server as exactly this player,
  from the moment they were issued until their lifetime is over. The account tables stay
  consistent.
\<close>

theorem Login_correct:
  assumes "login_service mf env lib pub com cur" and "initLogin env pub keyText = Some (m, pkv)"
    and "loginInv (com s)" and "managerLogin env lib m req s = (Inr rsp, t)"
  shows "active (lr_Uid rsp) (com t) \<and> loginInv (com t) \<and> accountsKept (com s) (com t)
     \<and> (\<exists>now u. now = fst (WallClock env u) \<and>
          (\<forall>d. 0 \<le> d \<and> d < gateTokenTTL \<longrightarrow> Auth lib (now + d) pkv (lr_GateToken rsp) = Inr (decimal (lr_Uid rsp))))
     \<and> (\<exists>now u. now = fst (WallClock env u) \<and>
          (\<forall>d. 0 \<le> d \<and> d < AccessTokenTTL \<longrightarrow> AuthAccessToken lib (now + d) pkv (lr_AccessToken rsp) = Inr (decimal (lr_Uid rsp))))"
proof -
  note w = wpD_Inr [OF login_service.wp_managerLogin [OF assms(1,3,2)] assms(4)]
  have "\<exists>now u. now = fst (WallClock env u) \<and> (\<forall>d. 0 \<le> d \<and> d < pf_ttl p \<longrightarrow> auth lib (now + d) pkv tok p = Inr (decimal uid))"
    if "issued (\<lambda>now. now \<in> range (\<lambda>u. fst (WallClock env u))) lib pkv p uid tok" for p uid tok
  proof -
    from that obtain pk u where "pkv = Some pk" "validFrom lib pk p (decimal uid) (fst (WallClock env u)) tok"
      by (auto simp: issued_def)
    then show ?thesis by (intro exI [of _ "fst (WallClock env u)"] exI [of _ u]) (simp add: validFrom_def auth_def)
  qed
  from this [of gateProfile] this [of accessProfile] w show ?thesis
    by (auto simp: Auth_def AuthAccessToken_def gateProfile_def accessProfile_def)
qed

theorem Login_correct_witness:
  "\<exists>rsp t. managerLogin memEnv plainJwt memManager guestReq (loginWorld adaLogins []) = (Inr rsp, t) \<and> active (lr_Uid rsp) (ml_com t)"
proof -
  let ?s = "loginWorld adaLogins []"
  have f: "FindOrCreateAccount mem_login_drv 1 ada ?s = (Inr (7, False), ?s)" by code_simp
  have ada: "ada = \<lparr>li_AppID = guestAppID, li_OpenID = ''ada'', li_UnionID = []\<rparr>" by (simp add: ada_def guestAppID_def)
  have tok: "\<exists>tok. issue memEnv plainJwt (replicate 64 1) (decimal 7) p ?s = (Inr tok, ?s)" for p
    using plain.generate_cases [of "replicate 64 1" "decimal 7" "replicate 16 7" p] length_decimal [of 7 1]
    by (auto simp: issue_def memEnv_def PrivateKeySize_def maxClaimValueSize_def)
  have "\<exists>rsp. managerLogin memEnv plainJwt memManager guestReq ?s = (Inr rsp, ?s)"
    using tok [of gateProfile] tok [of accessProfile] f
    by (auto simp: managerLogin_def memManager_facts guestReq_def NewGuestLoginProvider_def baseProvider_def guestAuthenticate_def
        andThen_def mapErr_def ok_def ada [symmetric] Let_def LoginTypeGuest_def)
  then obtain rsp where r: "managerLogin memEnv plainJwt memManager guestReq ?s = (Inr rsp, ?s)" by blast
  from Login_correct [OF mem_login_service memManager_init world_inv(2) r] r show ?thesis by blast
qed

text \<open>
  What the bind request answers. Without database failures, binding a guest identity to a
  player does what the specification of the directory of logins says, for the content at the
  start of the transaction, and the answer is its outcome: 403 for a deleted account, an
  identity of another player or a second guest identity, 500 only for an id that is too long.
\<close>

theorem Bind_guest:
  assumes "login_service False env lib pub com cur" and "initLogin env pub keyText = Some (m, pkv)" and "loginInv (com s)"
    and "lq_LoginType req = LoginTypeGuest" and "lq_GuestID req \<noteq> []" and "managerBind m uid req s = (res, t)"
  defines "ident \<equiv> \<lparr>li_AppID = guestAppID, li_OpenID = lq_GuestID req, li_UnionID = []\<rparr>"
  shows "\<exists>T. elsewhere (com s) T \<and> (case res of
      Inr oid \<Rightarrow> oid = lq_GuestID req \<and> bindSpec uid LoginTypeGuest ident (dirOf T) = Inr (dirOf (com t))
    | Inl e \<Rightarrow> com t = T \<and> (\<exists>e'. bindSpec uid LoginTypeGuest ident (dirOf T) = Inl e' \<and> e = bindError e'
         \<and> (e_Code e = 500 \<longrightarrow> tooLong ident \<noteq> None)))"
proof -
  note w = login_service.wp_managerBind_guest [OF assms(1,3,2,4,5), of uid, folded ident_def]
  have code: "e_Code (bindError e') = 500 \<longrightarrow> tooLong ident \<noteq> None" if "bindSpec uid LoginTypeGuest ident D = Inl e'" for e' D
    using that by (auto simp: bindSpec_def bindError_def Forbidden_def NewError_def split: if_splits option.splits)
  show ?thesis
  proof (cases res)
    case (Inl e)
    with wpD_Inl [OF w] assms(6) obtain e' where "e = bindError e'"
      "txFailed False (refines (bindSpec uid LoginTypeGuest ident)) (rejects (bindSpec uid LoginTypeGuest ident) e') (com s) (com t)"
      by blast
    with Inl code show ?thesis by (auto simp: txFailed_def rejects_def)
  next
    case (Inr oid)
    with wpD_Inr [OF w] assms(6) show ?thesis by (auto simp: txDone_def refines_def)
  qed
qed

theorem Bind_guest_witness:
  "\<exists>e. fst (managerBind memManager 7 (guestReq\<lparr>lq_GuestID := ''bob''\<rparr>) (loginWorld adaLogins [])) = Inl e \<and> e = bindError ErrLoginTypeAlreadyBound
     \<and> bindSpec 7 LoginTypeGuest \<lparr>li_AppID = guestAppID, li_OpenID = ''bob'', li_UnionID = []\<rparr> (dirOf adaLogins) = Inl ErrLoginTypeAlreadyBound"
proof -
  let ?s = "loginWorld adaLogins []"
  let ?bob = "\<lparr>li_AppID = guestAppID, li_OpenID = ''bob'', li_UnionID = []\<rparr>"
  have b: "BindIdentity mem_login_drv 7 1 ?bob ?s = (Inl ErrLoginTypeAlreadyBound, ?s)" by code_simp
  then have r: "managerBind memManager 7 (guestReq\<lparr>lq_GuestID := ''bob''\<rparr>) ?s = (Inl (bindError ErrLoginTypeAlreadyBound), ?s)"
    by (simp add: managerBind_def memManager_facts guestReq_def NewGuestLoginProvider_def baseProvider_def guestAuthenticate_def
        andThen_def mapErr_def ok_def LoginTypeGuest_def)
  from Bind_guest [OF mem_login_service memManager_init world_inv(2) _ _ r]
  have "\<exists>e'. bindSpec 7 LoginTypeGuest ?bob (dirOf adaLogins) = Inl e' \<and> bindError ErrLoginTypeAlreadyBound = bindError e'"
    by (auto simp: guestReq_def LoginTypeGuest_def loginWorld_def)
  then obtain e' where e: "bindSpec 7 LoginTypeGuest ?bob (dirOf adaLogins) = Inl e'" "bindError ErrLoginTypeAlreadyBound = bindError e'" by blast
  then have "e' = ErrLoginTypeAlreadyBound"
    by (cases e') (simp_all add: bindError_def Forbidden_def InternalServerError_def NewError_def)
  with e r show ?thesis by simp
qed

end
