(* ===== verification/Offline.thy ===== *)
theory Offline
  imports GoStd
begin

text \<open>
  The catch-up of a player that was offline, \<open>internal/util/leave_cal.go\<close>: \<open>MinNextUpdate\<close> picks
  the next update of the systems of a player, and \<open>RunOffline\<close> replays the time that passed by
  calling an update function with the pieces between these updates. The update function changes
  the player, so it is a function on a state \<open>'s\<close>; a panic is an error value that carries the
  source its message names. A nil and an empty \<open>SourceCount\<close> are the same map. Shown: the loop ends for every
  update function, it plays exactly the time that passed, and when the answers of the update
  function come from \<open>MinNextUpdate\<close> it never panics and takes at most one update per tick.
\<close>

section \<open>Updates\<close>

definition NoUpdateDt :: duration where "NoUpdateDt = - 1"

record NextUpdate =
  nu_Source :: string
  nu_Dt :: duration

record OfflineResult =
  or_UpdateCount :: int
  or_SourceCount :: "string \<rightharpoonup> int"

definition UpdateAfter :: "string \<Rightarrow> duration \<Rightarrow> NextUpdate" where
  "UpdateAfter source dt = \<lparr>nu_Source = source, nu_Dt = dt\<rparr>"

definition earlier :: "NextUpdate \<Rightarrow> NextUpdate \<Rightarrow> NextUpdate" where
  "earlier u res =
     (if nu_Dt u < 0 then res
      else if nu_Dt res < 0 \<or> nu_Dt u < nu_Dt res then u else res)"

definition MinNextUpdate :: "duration \<Rightarrow> NextUpdate list \<Rightarrow> NextUpdate" where
  "MinNextUpdate tick updates =
     (let res = fold earlier updates \<lparr>nu_Source = '''', nu_Dt = NoUpdateDt\<rparr>
      in if 0 \<le> nu_Dt res \<and> nu_Dt res < tick then res\<lparr>nu_Dt := tick\<rparr> else res)"

section \<open>The loop\<close>

datatype offline_panic = ZeroUpdate string

type_synonym 's update_fn = "duration \<Rightarrow> 's \<Rightarrow> NextUpdate \<times> 's"

definition bump :: "string \<Rightarrow> (string \<rightharpoonup> int) \<Rightarrow> (string \<rightharpoonup> int)" where
  "bump k m = m(k \<mapsto> wrap64 ((case m k of None \<Rightarrow> 0 | Some n \<Rightarrow> n) + 1))"

definition offlineDelta :: "duration \<Rightarrow> NextUpdate \<Rightarrow> duration" where
  "offlineDelta remain nxt = (if 0 \<le> nu_Dt nxt \<and> nu_Dt nxt < remain then nu_Dt nxt else remain)"

definition countUpdate :: "duration \<Rightarrow> NextUpdate \<Rightarrow> OfflineResult \<Rightarrow> OfflineResult" where
  "countUpdate remain nxt res = res\<lparr>
     or_SourceCount := (if 0 \<le> nu_Dt nxt \<and> nu_Dt nxt \<le> remain then bump (nu_Source nxt) (or_SourceCount res)
                        else or_SourceCount res),
     or_UpdateCount := wrap64 (or_UpdateCount res + 1)\<rparr>"

lemma offlineDelta_bounds: "0 < remain \<Longrightarrow> 0 \<le> offlineDelta remain nxt \<and> offlineDelta remain nxt \<le> remain"
  by (simp add: offlineDelta_def)

text \<open>Every iteration that does not panic takes a positive piece off the remaining time.\<close>

function offlineLoop :: "'s update_fn \<Rightarrow> duration \<Rightarrow> NextUpdate \<Rightarrow> OfflineResult \<Rightarrow> ('s, offline_panic, OfflineResult) act" where
  "offlineLoop updateFunc remain nxt res s =
     (if remain \<le> 0 then (Inr res, s)
      else let delta = offlineDelta remain nxt in
        if delta = 0 then (Inl (ZeroUpdate (nu_Source nxt)), s)
        else let (nxt', s') = updateFunc delta s
             in offlineLoop updateFunc (remain - delta) nxt' (countUpdate remain nxt res) s')"
  by pat_completeness auto

termination
proof (relation "measure (\<lambda>(_, remain, _). nat remain)")
  fix updateFunc :: "'s update_fn" and remain delta nxt res s x nxt' s'
  assume "\<not> remain \<le> 0" "delta = offlineDelta remain nxt" "delta \<noteq> 0"
  with offlineDelta_bounds [of remain nxt]
  show "((updateFunc, remain - delta, nxt', countUpdate remain nxt res, s'), updateFunc, remain, nxt, res, s)
          \<in> measure (\<lambda>(_, remain, _). nat remain)" by simp
qed simp

declare offlineLoop.simps [simp del]

definition RunOffline :: "duration \<Rightarrow> 's update_fn \<Rightarrow> ('s, offline_panic, OfflineResult) act" where
  "RunOffline totalDuration updateFunc s =
     (if totalDuration \<le> 0 then (Inr \<lparr>or_UpdateCount = 0, or_SourceCount = Map.empty\<rparr>, s)
      else let (nxt, s') = updateFunc 0 s
           in offlineLoop updateFunc totalDuration nxt \<lparr>or_UpdateCount = 0, or_SourceCount = Map.empty\<rparr> s')"

section \<open>The next update\<close>

text \<open>The pending updates are the ones with a delay; a negative one means that there is none.\<close>

definition pendingDts :: "NextUpdate list \<Rightarrow> duration set" where
  "pendingDts us = {nu_Dt u |u. u \<in> set us \<and> 0 \<le> nu_Dt u}"

lemma pendingDts_Cons: "pendingDts (u # us) = (if nu_Dt u < 0 then pendingDts us else insert (nu_Dt u) (pendingDts us))"
  by (auto simp: pendingDts_def)

lemma finite_pendingDts: "finite (pendingDts us)"
  by (induction us) (simp_all add: pendingDts_Cons, simp add: pendingDts_def)

definition leastOf :: "duration \<Rightarrow> duration set \<Rightarrow> duration" where
  "leastOf d D = (if 0 \<le> d then Min (insert d D) else if D = {} then d else Min D)"

lemma fold_earlier: "nu_Dt (fold earlier us r) = leastOf (nu_Dt r) (pendingDts us)"
proof (induction us arbitrary: r)
  case Nil
  then show ?case by (simp add: leastOf_def pendingDts_def)
next
  case (Cons u us)
  have "\<forall>d \<in> pendingDts us. 0 \<le> d" by (auto simp: pendingDts_def)
  with Cons finite_pendingDts [of us] show ?case
    by (cases "pendingDts us = {}") (auto simp: pendingDts_Cons earlier_def leastOf_def min_def)
qed

lemma MinNextUpdate_Dt:
  "nu_Dt (MinNextUpdate tick us) = (if pendingDts us = {} then - 1 else max tick (Min (pendingDts us)))"
proof -
  have "pendingDts us \<noteq> {} \<Longrightarrow> 0 \<le> Min (pendingDts us)"
    using Min_in [OF finite_pendingDts, of us] by (auto simp: pendingDts_def)
  then show ?thesis
    by (simp add: MinNextUpdate_def Let_def fold_earlier NoUpdateDt_def leastOf_def max_def)
qed

section \<open>Correctness of the loop\<close>

definition played :: "'s update_fn \<Rightarrow> duration list \<Rightarrow> 's \<Rightarrow> 's" where
  "played updateFunc ds s = fold (\<lambda>d t. snd (updateFunc d t)) ds s"

text \<open>
  \<open>ticked tick ds\<close>: the pieces are positive and every one but the last is at least \<open>tick\<close> long.
\<close>

fun ticked :: "duration \<Rightarrow> duration list \<Rightarrow> bool" where
  "ticked tick [] \<longleftrightarrow> True"
| "ticked tick [d] \<longleftrightarrow> 0 < d"
| "ticked tick (d # ds) \<longleftrightarrow> tick \<le> d \<and> ticked tick ds"

lemma ticked_pos: "0 < tick \<Longrightarrow> ticked tick ds \<Longrightarrow> ds \<noteq> [] \<Longrightarrow> 0 < sum_list ds"
  by (induction tick ds rule: ticked.induct) auto

lemma ticked_count: "0 < tick \<Longrightarrow> ticked tick ds \<Longrightarrow> ds \<noteq> [] \<Longrightarrow> tick * (int (length ds) - 1) < sum_list ds"
  by (induction tick ds rule: ticked.induct) (auto simp: algebra_simps)

lemma ticked_Cons: "ticked tick ds \<Longrightarrow> 0 < d \<Longrightarrow> (ds \<noteq> [] \<Longrightarrow> tick \<le> d) \<Longrightarrow> ticked tick (d # ds)"
  by (cases ds) auto

definition ticking :: "duration \<Rightarrow> 's update_fn \<Rightarrow> bool" where
  "ticking tick updateFunc \<longleftrightarrow> (\<forall>d s. nu_Dt (fst (updateFunc d s)) < 0 \<or> tick \<le> nu_Dt (fst (updateFunc d s)))"

lemma ticking_MinNextUpdate:
  assumes "\<And>d s. fst (updateFunc d s) \<in> range (MinNextUpdate tick)"
  shows "ticking tick updateFunc"
proof -
  have "nu_Dt (MinNextUpdate tick us) < 0 \<or> tick \<le> nu_Dt (MinNextUpdate tick us)" for us
    by (simp add: MinNextUpdate_Dt)
  with assms show ?thesis unfolding ticking_def by (metis rangeE)
qed

lemma played_Cons: "played updateFunc (d # ds) s = played updateFunc ds (snd (updateFunc d s))"
  by (simp add: played_def)

lemma offlineLoop_correct:
  assumes "0 < tick" and "ticking tick updateFunc" and "nu_Dt nxt < 0 \<or> tick \<le> nu_Dt nxt" and "0 \<le> remain"
    and "fits64 (or_UpdateCount res)"
  shows "\<exists>ds res'. ticked tick ds \<and> sum_list ds = remain \<and> offlineLoop updateFunc remain nxt res s = (Inr res', played updateFunc ds s)
     \<and> or_UpdateCount res' = wrap64 (or_UpdateCount res + int (length ds))"
  using assms(2-5)
proof (induction updateFunc remain nxt res s rule: offlineLoop.induct [case_names loop])
  case (loop updateFunc remain nxt res s)
  show ?case
  proof (cases "remain = 0")
    case True
    with loop.prems(4) show ?thesis by (intro exI [of _ "[]"]) (simp add: offlineLoop.simps [of _ _ _ _ s] played_def)
  next
    case False
    let ?d = "offlineDelta remain nxt" and ?c = "countUpdate remain nxt res"
    obtain nxt' s' where u: "updateFunc ?d s = (nxt', s')" by fastforce
    have d: "0 < ?d" "?d \<le> remain" "?d < remain \<Longrightarrow> tick \<le> ?d"
      using False loop.prems(2,3) \<open>0 < tick\<close> by (auto simp: offlineDelta_def split: if_splits)
    have n: "nu_Dt nxt' < 0 \<or> tick \<le> nu_Dt nxt'"
      using loop.prems(1) u by (metis fst_conv ticking_def)
    have "\<not> remain \<le> 0" "?d \<noteq> 0" using False loop.prems(3) d(1) by simp_all
    from loop.IH [OF this(1) refl this(2) u [symmetric] refl loop.prems(1) n] d(2)
    obtain ds res' where ih: "ticked tick ds" "sum_list ds = remain - ?d"
        "offlineLoop updateFunc (remain - ?d) nxt' ?c s' = (Inr res', played updateFunc ds s')"
        "or_UpdateCount res' = wrap64 (or_UpdateCount ?c + int (length ds))"
      by (auto simp: countUpdate_def)
    have "ds \<noteq> [] \<Longrightarrow> ?d < remain" using ticked_pos [OF \<open>0 < tick\<close> ih(1)] ih(2) by simp
    then have "ticked tick (?d # ds)" using ih(1) d by (intro ticked_Cons) auto
    moreover have "offlineLoop updateFunc remain nxt res s = (Inr res', played updateFunc (?d # ds) s)"
      using \<open>\<not> remain \<le> 0\<close> d(1) ih(3) u by (simp add: offlineLoop.simps [of _ remain] Let_def played_Cons)
    moreover have "or_UpdateCount res' = wrap64 (or_UpdateCount res + int (length (?d # ds)))"
      using ih(4) by (simp add: countUpdate_def algebra_simps)
    ultimately show ?thesis using ih(2) by (intro exI [of _ "?d # ds"] exI [of _ res']) simp
  qed
qed

lemma RunOffline_run:
  assumes "0 < tick" and "\<And>d s. fst (updateFunc d s) \<in> range (MinNextUpdate tick)"
    and "0 < away" and "away < 2 ^ 63"
  shows "\<exists>ds res. RunOffline away updateFunc s = (Inr res, played updateFunc (0 # ds) s)
     \<and> ticked tick ds \<and> sum_list ds = away
     \<and> or_UpdateCount res = int (length ds) \<and> tick * (or_UpdateCount res - 1) < away"
proof -
  let ?r = "\<lparr>or_UpdateCount = 0, or_SourceCount = Map.empty\<rparr>"
  note t = ticking_MinNextUpdate [of updateFunc tick, OF assms(2)]
  obtain nxt s' where u: "updateFunc 0 s = (nxt, s')" by fastforce
  with t have "nu_Dt nxt < 0 \<or> tick \<le> nu_Dt nxt" by (metis fst_conv ticking_def)
  from offlineLoop_correct [OF assms(1) t this, of away ?r s'] assms(3)
  obtain ds res where r: "ticked tick ds" "sum_list ds = away" "or_UpdateCount res = wrap64 (int (length ds))"
      "offlineLoop updateFunc away nxt ?r s' = (Inr res, played updateFunc ds s')"
    by (auto simp: fits64_def)
  have ne: "ds \<noteq> []" using r(2) assms(3) by auto
  have c: "tick * (int (length ds) - 1) < away" using ticked_count [OF assms(1) r(1) ne] r(2) by simp
  have "int (length ds) - 1 \<le> tick * (int (length ds) - 1)"
    using assms(1) ne by (simp add: mult_le_cancel_right1 Suc_le_eq)
  with c assms(4) have "or_UpdateCount res = int (length ds)" by (simp add: r(3) fits64_def)
  with r c assms(3) u show ?thesis
    by (intro exI [of _ ds] exI [of _ res]) (simp add: RunOffline_def played_Cons)
qed

section \<open>Properties\<close>

text \<open>
  C24: Catching up always ends. Whatever the update function does to the player, as long as its
  answers come from \<open>MinNextUpdate\<close> with a positive tick, the replay of the time the player was
  away returns without a panic: the player is updated once with 0 and then with positive pieces
  that add up to exactly this time, every one but the last at least a tick long, and
  \<open>UpdateCount\<close> is their number, so there are fewer than one more than the ticks in that time.
\<close>

theorem RunOffline_total:
  assumes "0 < tick" and "\<And>d s. fst (updateFunc d s) \<in> range (MinNextUpdate tick)"
    and "0 < away" and "away < 2 ^ 63"
  shows "\<exists>ds res. RunOffline away updateFunc s = (Inr res, played updateFunc (0 # ds) s)
     \<and> ticked tick ds \<and> sum_list ds = away
     \<and> or_UpdateCount res = int (length ds) \<and> tick * (or_UpdateCount res - 1) < away"
  by (rule RunOffline_run [OF assms])

text \<open>A player with one system that fires whenever the clock is a multiple of 300.\<close>

definition regen :: "int update_fn" where
  "regen d t = (MinNextUpdate 200 [UpdateAfter ''regen'' (300 - (t + d) mod 300), UpdateAfter ''idle'' (- 1)], t + d)"

theorem RunOffline_total_witness:
  "\<exists>ds. sum_list ds = 1000 \<and> length ds = 4 \<and> ticked 200 ds \<and> snd (RunOffline 1000 regen 0) = played regen (0 # ds) 0"
proof -
  have c: "map_sum id or_UpdateCount (fst (RunOffline 1000 regen 0)) = Inr 4" by code_simp
  have "fst (regen d s) \<in> range (MinNextUpdate 200)" for d s by (simp add: regen_def)
  from RunOffline_total [of 200 regen 1000 0, OF _ this] obtain ds res where
    "RunOffline 1000 regen 0 = (Inr res, played regen (0 # ds) 0)" "ticked 200 ds" "sum_list ds = 1000"
    "or_UpdateCount res = int (length ds)" by auto
  with c show ?thesis by (intro exI [of _ ds]) simp
qed

end
