(* ===== verification/PlayerLog.thy ===== *)
theory PlayerLog
  imports GoStd
begin

text \<open>
  The player data and its log: the generated \<open>pb/player/actor\<close> message with its change-tracking
  state, and \<open>internal/diff_manager/diff.go\<close>, which keeps a message in a Redis list that starts
  with a full snapshot and goes on with deltas. The encoding of deltas and frames is the
  package \<open>nova/diff\<close> outside the repository: \<open>diff_lib\<close> has its functions, the type \<open>'b\<close> stands for
  the byte strings it reads and writes and locale \<open>diff_codec\<close> for what it promises. The loops
  over a delta and over a frame ask the library for the next entry until it has no more, so
  they are partial: not returning is \<open>None\<close>.
\<close>

section \<open>The player message and its state\<close>

record PlayerMsg =
  pm_Uid :: uint64
  pm_LastOfflineTime :: int

datatype diff_error = ErrInvalidData | BadFrame | BadMessage | RedisFailed

datatype diff_op = OperationSetVarint | OtherOperation nat

record ('b, 'wr, 'rd, 'pl, 'sr) diff_lib =
  MarkDirty :: "64 word \<Rightarrow> 64 word \<Rightarrow> bool \<times> 64 word"
  HasDirty :: "64 word \<Rightarrow> 64 word \<Rightarrow> bool"
  AnyDirty :: "64 word \<Rightarrow> bool"
  DiffClearDirty :: "64 word \<Rightarrow> 64 word"
  WriterUint64 :: "nat \<Rightarrow> uint64 \<Rightarrow> 'wr \<Rightarrow> 'wr"
  WriterInt64 :: "nat \<Rightarrow> int \<Rightarrow> 'wr \<Rightarrow> 'wr"
  NewReader :: "'b \<Rightarrow> 'rd"
  ReaderNext :: "'rd \<Rightarrow> (diff_error + (nat \<times> diff_op \<times> 'pl) option) \<times> 'rd"
  DecodeUint64 :: "'pl \<Rightarrow> uint64"
  DecodeInt64 :: "'pl \<Rightarrow> int"
  NewSyncReader :: "'b \<Rightarrow> diff_error + 'sr"
  FullData :: "'sr \<Rightarrow> 'b"
  BaseVersion :: "'sr \<Rightarrow> uint64"
  NextDiff :: "'sr \<Rightarrow> (diff_error + (uint64 \<times> 'b) option) \<times> 'sr"
  WriteFullFrame :: "uint64 \<Rightarrow> 'b \<Rightarrow> 'b"

text \<open>
  \<open>WriteFullFrame\<close> is a new sync writer with one \<open>WriteFull\<close> and its \<open>Data\<close>. The state has no parent
  in this program, so \<open>markParent\<close> is always nil.
\<close>

definition playerStateDirtyUidMask :: "64 word" where "playerStateDirtyUidMask = 1"
definition playerStateDirtyLastOfflineTimeMask :: "64 word" where "playerStateDirtyLastOfflineTimeMask = 2"

record PlayerState =
  ps_value :: PlayerMsg
  ps_dirty :: "64 word"

definition NewPlayerState :: "PlayerMsg \<Rightarrow> PlayerState" where
  "NewPlayerState v = \<lparr>ps_value = v, ps_dirty = 0\<rparr>"

definition IsDirty :: "('b, 'wr, 'rd, 'pl, 'sr) diff_lib \<Rightarrow> PlayerState \<Rightarrow> bool" where
  "IsDirty lib st = AnyDirty lib (ps_dirty st)"

definition GetUid :: "PlayerState \<Rightarrow> uint64" where
  "GetUid st = pm_Uid (ps_value st)"

definition SetUid :: "('b, 'wr, 'rd, 'pl, 'sr) diff_lib \<Rightarrow> uint64 \<Rightarrow> PlayerState \<Rightarrow> PlayerState" where
  "SetUid lib v st =
     (if pm_Uid (ps_value st) = v then st
      else st\<lparr>ps_value := (ps_value st)\<lparr>pm_Uid := v\<rparr>,
              ps_dirty := snd (MarkDirty lib (ps_dirty st) playerStateDirtyUidMask)\<rparr>)"

definition GetLastOfflineTime :: "PlayerState \<Rightarrow> int" where
  "GetLastOfflineTime st = pm_LastOfflineTime (ps_value st)"

definition SetLastOfflineTime :: "('b, 'wr, 'rd, 'pl, 'sr) diff_lib \<Rightarrow> int \<Rightarrow> PlayerState \<Rightarrow> PlayerState" where
  "SetLastOfflineTime lib v st =
     (if pm_LastOfflineTime (ps_value st) = v then st
      else st\<lparr>ps_value := (ps_value st)\<lparr>pm_LastOfflineTime := v\<rparr>,
              ps_dirty := snd (MarkDirty lib (ps_dirty st) playerStateDirtyLastOfflineTimeMask)\<rparr>)"

definition WriteDiff :: "('b, 'wr, 'rd, 'pl, 'sr) diff_lib \<Rightarrow> PlayerState \<Rightarrow> 'wr \<Rightarrow> 'wr" where
  "WriteDiff lib st w =
     (let w1 = (if HasDirty lib (ps_dirty st) playerStateDirtyUidMask
                then WriterUint64 lib 1 (pm_Uid (ps_value st)) w else w)
      in if HasDirty lib (ps_dirty st) playerStateDirtyLastOfflineTimeMask
         then WriterInt64 lib 2 (pm_LastOfflineTime (ps_value st)) w1 else w1)"

definition ClearDirty :: "('b, 'wr, 'rd, 'pl, 'sr) diff_lib \<Rightarrow> PlayerState \<Rightarrow> PlayerState" where
  "ClearDirty lib st = st\<lparr>ps_dirty := DiffClearDirty lib (ps_dirty st)\<rparr>"

section \<open>Applying a delta\<close>

text \<open>One entry of a delta; entries with a number that is not known are skipped.\<close>

definition applyField :: "('b, 'wr, 'rd, 'pl, 'sr) diff_lib \<Rightarrow> nat \<Rightarrow> diff_op \<Rightarrow> 'pl \<Rightarrow> PlayerMsg \<Rightarrow> diff_error + PlayerMsg" where
  "applyField lib fieldNumber operation payload v =
     (if fieldNumber = 1 then
        (if operation \<noteq> OperationSetVarint then Inl ErrInvalidData else Inr (v\<lparr>pm_Uid := DecodeUint64 lib payload\<rparr>))
      else if fieldNumber = 2 then
        (if operation \<noteq> OperationSetVarint then Inl ErrInvalidData
         else Inr (v\<lparr>pm_LastOfflineTime := DecodeInt64 lib payload\<rparr>))
      else Inr v)"

partial_function (option) applyFields ::
  "('b, 'wr, 'rd, 'pl, 'sr) diff_lib \<Rightarrow> 'rd \<Rightarrow> PlayerMsg \<Rightarrow> (diff_error + PlayerMsg) option" where
  "applyFields lib r v = (case ReaderNext lib r of
       (Inl e, _) \<Rightarrow> Some (Inl e)
     | (Inr None, _) \<Rightarrow> Some (Inr v)
     | (Inr (Some (fieldNumber, operation, payload)), r') \<Rightarrow>
         (case applyField lib fieldNumber operation payload v of
            Inl e \<Rightarrow> Some (Inl e)
          | Inr v' \<Rightarrow> applyFields lib r' v'))"

definition ApplyPlayerDiff :: "('b, 'wr, 'rd, 'pl, 'sr) diff_lib \<Rightarrow> PlayerMsg \<Rightarrow> 'b \<Rightarrow> (diff_error + PlayerMsg) option" where
  "ApplyPlayerDiff lib v data = applyFields lib (NewReader lib data) v"

section \<open>The log of a message\<close>

text \<open>
  The log manager is generic in the message \<open>'m\<close>. Its Redis client runs the commands of one list;
  \<open>TxPipelined\<close> runs its commands as one transaction. \<open>Unmarshal\<close> replaces the message.
\<close>

datatype 'b pipe_cmd = PipeDel string | PipeRPush string 'b

record ('s, 'b) redis_lists =
  LRange :: "string \<Rightarrow> ('s, diff_error, 'b list) act"
  LLen :: "string \<Rightarrow> ('s, diff_error, int) act"
  RPush :: "string \<Rightarrow> 'b \<Rightarrow> ('s, diff_error, unit) act"
  TxPipelined :: "'b pipe_cmd list \<Rightarrow> ('s, diff_error, unit) act"

record ('s, 'b, 'm) DiffManager =
  dm_redis :: "('s, 'b) redis_lists"
  dm_key :: string
  dm_compactCount :: int
  dm_applyDiff :: "'m \<Rightarrow> 'b \<Rightarrow> (diff_error + 'm) option"
  dm_unmarshal :: "'b \<Rightarrow> diff_error + 'm"

partial_function (option) applyFrame ::
  "('b, 'wr, 'rd, 'pl, 'sr) diff_lib \<Rightarrow> ('m \<Rightarrow> 'b \<Rightarrow> (diff_error + 'm) option) \<Rightarrow> 'sr \<Rightarrow> 'm \<Rightarrow> uint64
     \<Rightarrow> (diff_error + 'm \<times> uint64) option" where
  "applyFrame lib app r v version = (case NextDiff lib r of
       (Inl e, _) \<Rightarrow> Some (Inl e)
     | (Inr None, _) \<Rightarrow> Some (Inr (v, version))
     | (Inr (Some (ver, data)), r') \<Rightarrow>
         Option.bind (app v data) (\<lambda>a. case a of
            Inl e \<Rightarrow> Some (Inl e)
          | Inr v' \<Rightarrow> applyFrame lib app r' v' ver))"

fun applyLog ::
  "('b, 'wr, 'rd, 'pl, 'sr) diff_lib \<Rightarrow> ('m \<Rightarrow> 'b \<Rightarrow> (diff_error + 'm) option) \<Rightarrow> 'b list \<Rightarrow> 'm \<Rightarrow> uint64
     \<Rightarrow> (diff_error + 'm \<times> uint64) option" where
  "applyLog lib app [] v version = Some (Inr (v, version))"
| "applyLog lib app (data # rest) v version =
     (case NewSyncReader lib data of
        Inl e \<Rightarrow> Some (Inl e)
      | Inr r \<Rightarrow> Option.bind (applyFrame lib app r v version) (\<lambda>a. case a of
          Inl e \<Rightarrow> Some (Inl e)
        | Inr (v', version') \<Rightarrow> applyLog lib app rest v' version'))"

definition replay ::
  "('b, 'wr, 'rd, 'pl, 'sr) diff_lib \<Rightarrow> ('s, 'b, 'm) DiffManager \<Rightarrow> 'b list \<Rightarrow> 'm \<Rightarrow> (diff_error + 'm \<times> uint64) option" where
  "replay lib m xs v = (case xs of
       [] \<Rightarrow> Some (Inr (v, 0))
     | full # rest \<Rightarrow>
         (case NewSyncReader lib full of
            Inl e \<Rightarrow> Some (Inl e)
          | Inr r \<Rightarrow> (case dm_unmarshal m (FullData lib r) of
              Inl e \<Rightarrow> Some (Inl e)
            | Inr v' \<Rightarrow> applyLog lib (dm_applyDiff m) rest v' (BaseVersion lib r))))"

definition Load ::
  "('b, 'wr, 'rd, 'pl, 'sr) diff_lib \<Rightarrow> ('s, 'b, 'm) DiffManager \<Rightarrow> 'm \<Rightarrow> 's \<Rightarrow> ((diff_error + 'm \<times> uint64) \<times> 's) option" where
  "Load lib m v s = (case LRange (dm_redis m) (dm_key m) s of
       (Inl e, t) \<Rightarrow> Some (Inl e, t)
     | (Inr xs, t) \<Rightarrow> map_option (\<lambda>r. (r, t)) (replay lib m xs v))"

definition Save ::
  "('b, 'wr, 'rd, 'pl, 'sr) diff_lib \<Rightarrow> ('s, 'b, 'm) DiffManager \<Rightarrow> 'b \<Rightarrow> (unit \<Rightarrow> uint64 \<times> 'b) \<Rightarrow> ('s, diff_error, unit) act" where
  "Save lib m data buildSnapshot =
     andThen (LLen (dm_redis m) (dm_key m)) (\<lambda>count.
       if 0 < count \<and> count < dm_compactCount m then RPush (dm_redis m) (dm_key m) data
       else case buildSnapshot () of (version, snapshot) \<Rightarrow>
         TxPipelined (dm_redis m) [PipeDel (dm_key m), PipeRPush (dm_key m) (WriteFullFrame lib version snapshot)])"

section \<open>What the log relies on\<close>

text \<open>
  The codec: marking sets exactly one bit, a reader returns the entries of the writer in order,
  a full frame returns what was written. \<open>content\<close>, \<open>pending\<close> and \<open>deltas\<close> name the entries of a
  writer, of a reader and of the rest of a frame.
\<close>

locale diff_codec =
  fixes lib :: "('b, 'wr, 'rd, 'pl, 'sr) diff_lib"
    and newWriter :: 'wr and writerData :: "'wr \<Rightarrow> 'b"
    and content :: "'wr \<Rightarrow> (nat \<times> 'pl) list"
    and pending :: "'rd \<Rightarrow> (nat \<times> diff_op \<times> 'pl) list"
    and deltas :: "'sr \<Rightarrow> (uint64 \<times> 'b) list"
  assumes clean: "\<not> HasDirty lib 0 bits"
    and marked: "i < 64 \<Longrightarrow> j < 64 \<Longrightarrow>
      HasDirty lib (snd (MarkDirty lib bits (push_bit i 1))) (push_bit j 1) \<longleftrightarrow> i = j \<or> HasDirty lib bits (push_bit j 1)"
    and content_new: "content newWriter = []"
    and content_Uint64: "x < 2 ^ 64 \<Longrightarrow> \<exists>p. content (WriterUint64 lib n x w) = content w @ [(n, p)] \<and> DecodeUint64 lib p = x"
    and content_Int64: "fits64 y \<Longrightarrow> \<exists>p. content (WriterInt64 lib n y w) = content w @ [(n, p)] \<and> DecodeInt64 lib p = y"
    and pending_new: "pending (NewReader lib (writerData w)) = map (\<lambda>(n, p). (n, OperationSetVarint, p)) (content w)"
    and next_none: "pending r = [] \<Longrightarrow> fst (ReaderNext lib r) = Inr None"
    and next_some: "pending r = e # es \<Longrightarrow> \<exists>r'. ReaderNext lib r = (Inr (Some e), r') \<and> pending r' = es"
    and full_frame: "\<exists>g. NewSyncReader lib (WriteFullFrame lib ver b) = Inr g \<and> FullData lib g = b \<and> BaseVersion lib g = ver"
    and delta_none: "deltas f = [] \<Longrightarrow> fst (NextDiff lib f) = Inr None"
    and delta_some: "deltas f = d # ds \<Longrightarrow> \<exists>f'. NextDiff lib f = (Inr (Some d), f') \<and> deltas f' = ds"
begin

fun applyAll :: "(nat \<times> diff_op \<times> 'pl) list \<Rightarrow> PlayerMsg \<Rightarrow> diff_error + PlayerMsg" where
  "applyAll [] v = Inr v"
| "applyAll ((n, oper, p) # fs) v = (case applyField lib n oper p v of Inl e \<Rightarrow> Inl e | Inr v' \<Rightarrow> applyAll fs v')"

lemma applyFields_pending: "applyFields lib r v = Some (applyAll (pending r) v)"
proof (induction "pending r" arbitrary: r v)
  case Nil
  from next_none [OF Nil [symmetric]] show ?case
    by (cases "ReaderNext lib r") (simp add: applyFields.simps [of lib r] Nil [symmetric])
next
  case (Cons f fs)
  obtain n oper p where f: "f = (n, oper, p)" by (cases f) auto
  from next_some [OF Cons(2) [symmetric]] obtain r' where r': "ReaderNext lib r = (Inr (Some f), r')" "pending r' = fs" by blast
  with Cons(1) [of r'] Cons(2) [symmetric] f show ?case
    by (simp add: applyFields.simps [of lib r] split: sum.split)
qed

text \<open>Every field that differs from the saved message is marked.\<close>

definition tracked :: "PlayerMsg \<Rightarrow> PlayerState \<Rightarrow> bool" where
  "tracked v st \<longleftrightarrow>
     (pm_Uid (ps_value st) \<noteq> pm_Uid v \<longrightarrow> HasDirty lib (ps_dirty st) playerStateDirtyUidMask) \<and>
     (pm_LastOfflineTime (ps_value st) \<noteq> pm_LastOfflineTime v \<longrightarrow> HasDirty lib (ps_dirty st) playerStateDirtyLastOfflineTimeMask)"

lemma mask_marked:
  "HasDirty lib (snd (MarkDirty lib w playerStateDirtyUidMask)) playerStateDirtyUidMask"
  "HasDirty lib (snd (MarkDirty lib w playerStateDirtyLastOfflineTimeMask)) playerStateDirtyLastOfflineTimeMask"
  "HasDirty lib w playerStateDirtyLastOfflineTimeMask \<Longrightarrow> HasDirty lib (snd (MarkDirty lib w playerStateDirtyUidMask)) playerStateDirtyLastOfflineTimeMask"
  "HasDirty lib w playerStateDirtyUidMask \<Longrightarrow> HasDirty lib (snd (MarkDirty lib w playerStateDirtyLastOfflineTimeMask)) playerStateDirtyUidMask"
  using marked [of 0 0 w] marked [of 1 1 w] marked [of 0 1 w] marked [of 1 0 w]
  by (simp_all add: playerStateDirtyUidMask_def playerStateDirtyLastOfflineTimeMask_def)

lemma tracked_new: "tracked v (NewPlayerState v)"
  by (simp add: tracked_def NewPlayerState_def)

lemma tracked_SetUid: "tracked v st \<Longrightarrow> tracked v (SetUid lib x st)"
  by (auto simp: tracked_def SetUid_def mask_marked)

lemma tracked_SetLastOfflineTime: "tracked v st \<Longrightarrow> tracked v (SetLastOfflineTime lib x st)"
  by (auto simp: tracked_def SetLastOfflineTime_def mask_marked)

lemma apply_WriteDiff:
  assumes "tracked v st" and "pm_Uid (ps_value st) < 2 ^ 64" and "fits64 (pm_LastOfflineTime (ps_value st))"
  shows "ApplyPlayerDiff lib v (writerData (WriteDiff lib st newWriter)) = Some (Inr (ps_value st))"
proof -
  let ?u = "HasDirty lib (ps_dirty st) playerStateDirtyUidMask"
  let ?w = "if ?u then WriterUint64 lib 1 (pm_Uid (ps_value st)) newWriter else newWriter"
  from content_Uint64 [OF assms(2), of 1 newWriter] obtain p where
    p: "content (WriterUint64 lib 1 (pm_Uid (ps_value st)) newWriter) = [(1, p)]" "DecodeUint64 lib p = pm_Uid (ps_value st)"
    by (auto simp: content_new)
  from content_Int64 [OF assms(3), of 2 ?w] obtain q where
    q: "content (WriterInt64 lib 2 (pm_LastOfflineTime (ps_value st)) ?w) = content ?w @ [(2, q)]"
       "DecodeInt64 lib q = pm_LastOfflineTime (ps_value st)" by auto
  have "applyAll (map (\<lambda>(n, p). (n, OperationSetVarint, p)) (content (WriteDiff lib st newWriter))) v = Inr (ps_value st)"
    using assms(1) p q by (auto simp: WriteDiff_def Let_def content_new applyField_def tracked_def)
  then show ?thesis by (simp add: ApplyPlayerDiff_def applyFields_pending pending_new)
qed

lemma applyFrame_one:
  assumes "deltas f = [(ver, b)]" and "app v b = Some (Inr v')"
  shows "applyFrame lib app f v n = Some (Inr (v', ver))"
proof -
  from delta_some [OF assms(1)] obtain f' where f': "NextDiff lib f = (Inr (Some (ver, b)), f')" "deltas f' = []" by blast
  from delta_none [OF f'(2)] have "applyFrame lib app f' v' ver = Some (Inr (v', ver))"
    by (cases "NextDiff lib f'") (simp add: applyFrame.simps [of lib app f'])
  with f' assms(2) show ?thesis by (simp add: applyFrame.simps [of lib app f])
qed

end

lemma applyLog_snoc:
  assumes "applyLog lib app xs v n = Some (Inr (v', n'))"
  shows "applyLog lib app (xs @ [x]) v n = applyLog lib app [x] v' n'"
  using assms
proof (induction xs arbitrary: v n)
  case (Cons y ys)
  then obtain r where r: "NewSyncReader lib y = Inr r" by (cases "NewSyncReader lib y") auto
  with Cons.prems obtain z where z: "applyFrame lib app r v n = Some z" by (cases "applyFrame lib app r v n") auto
  with r Cons.prems obtain a b where "z = Inr (a, b)" "applyLog lib app ys a b = Some (Inr (v', n'))"
    by (cases z) auto
  with r z Cons.IH [of a b] show ?case by (simp del: applyLog.simps(2) add: applyLog.simps(2) [of _ _ y])
qed simp

lemma replay_snoc:
  assumes "replay lib m xs v0 = Some (Inr (v, n))" and "xs \<noteq> []"
  shows "replay lib m (xs @ [x]) v1 = applyLog lib (dm_applyDiff m) [x] v n"
  using assms applyLog_snoc [of lib "dm_applyDiff m"]
  by (cases xs) (auto simp: replay_def split: sum.splits simp del: applyLog.simps(2))

text \<open>
  The Redis client: reads do not change the lists; a command that fails may or may not have been
  run, a transaction is run as a whole or not at all. Commands only fail when \<open>mf\<close> holds.
\<close>

fun runPipe :: "'b pipe_cmd \<Rightarrow> (string \<Rightarrow> 'b list) \<Rightarrow> (string \<Rightarrow> 'b list)" where
  "runPipe (PipeDel k) L = L(k := [])"
| "runPipe (PipeRPush k x) L = L(k := L k @ [x])"

text \<open>The list a save leaves: one more delta, or a new snapshot.\<close>

definition saved :: "('s, 'b, 'm) DiffManager \<Rightarrow> ('b, 'wr, 'rd, 'pl, 'sr) diff_lib \<Rightarrow> 'b \<Rightarrow> uint64 \<times> 'b \<Rightarrow> (string \<Rightarrow> 'b list) \<Rightarrow> (string \<Rightarrow> 'b list)" where
  "saved m lib data snap L =
     (if L (dm_key m) \<noteq> [] \<and> int (length (L (dm_key m))) < dm_compactCount m
      then L(dm_key m := L (dm_key m) @ [data])
      else L(dm_key m := [WriteFullFrame lib (fst snap) (snd snap)]))"

locale list_store =
  fixes mf :: bool and rl :: "('s, 'b) redis_lists" and entries :: "'s \<Rightarrow> string \<Rightarrow> 'b list"
  assumes LRange_law: "wp (LRange rl k) (\<lambda>xs t. xs = entries s k \<and> entries t = entries s) (\<lambda>_ t. mf \<and> entries t = entries s) s"
    and LLen_law: "wp (LLen rl k) (\<lambda>n t. n = int (length (entries s k)) \<and> entries t = entries s) (\<lambda>_ t. mf \<and> entries t = entries s) s"
    and RPush_law: "wp (RPush rl k x) (\<lambda>_ t. entries t = runPipe (PipeRPush k x) (entries s))
        (\<lambda>_ t. mf \<and> entries t \<in> {entries s, runPipe (PipeRPush k x) (entries s)}) s"
    and TxPipelined_law: "wp (TxPipelined rl cmds) (\<lambda>_ t. entries t = fold runPipe cmds (entries s))
        (\<lambda>_ t. mf \<and> entries t \<in> {entries s, fold runPipe cmds (entries s)}) s"
begin

lemma Load_replay:
  assumes "dm_redis m = rl" and "replay lib m (entries s (dm_key m)) v = Some r"
  shows "\<exists>r' t. Load lib m v s = Some (r', t) \<and> (r' = r \<or> mf \<and> isl r')"
  using LRange_law [of "dm_key m" s] assms by (auto simp: Load_def wp_def split: sum.splits prod.splits)

lemma wp_Save:
  assumes "dm_redis m = rl"
  shows "wp (Save lib m data build) (\<lambda>_ t. entries t = saved m lib data (build ()) (entries s))
     (\<lambda>_ t. mf \<and> entries t \<in> {entries s, saved m lib data (build ()) (entries s)}) s"
proof -
  let ?push = "RPush rl (dm_key m) data"
  let ?tx = "TxPipelined rl [PipeDel (dm_key m), PipeRPush (dm_key m) (WriteFullFrame lib (fst (build ())) (snd (build ())))]"
  have body: "Save lib m data build = andThen (LLen rl (dm_key m)) (\<lambda>n. if 0 < n \<and> n < dm_compactCount m then ?push else ?tx)"
    unfolding Save_def assms case_prod_beta by (rule refl)
  show ?thesis unfolding body wp_simps
  proof (rule wp_mono [OF LLen_law [of "dm_key m" s]], goal_cases)
    case (1 n t)
    note push = RPush_law [of "dm_key m" data t] and tx = TxPipelined_law [of "[PipeDel (dm_key m), PipeRPush (dm_key m) (WriteFullFrame lib (fst (build ())) (snd (build ())))]" t]
    show ?case
    proof (cases "0 < n \<and> n < dm_compactCount m")
      case True
      with 1 have "saved m lib data (build ()) (entries s) = runPipe (PipeRPush (dm_key m) data) (entries t)" by (auto simp: saved_def)
      with True 1 push show ?thesis by simp
    next
      case False
      with 1 have "saved m lib data (build ()) (entries s) =
          fold runPipe [PipeDel (dm_key m), PipeRPush (dm_key m) (WriteFullFrame lib (fst (build ())) (snd (build ())))] (entries t)"
        by (auto simp: saved_def)
      with False 1 tx show ?thesis by auto
    qed
  qed simp
qed

end

text \<open>The setters of the state, as the steps between two saves.\<close>

datatype player_change = ChangeUid uint64 | ChangeLastOfflineTime int

fun change :: "('b, 'wr, 'rd, 'pl, 'sr) diff_lib \<Rightarrow> player_change \<Rightarrow> PlayerState \<Rightarrow> PlayerState" where
  "change lib (ChangeUid x) = SetUid lib x"
| "change lib (ChangeLastOfflineTime x) = SetLastOfflineTime lib x"

fun changeFits :: "player_change \<Rightarrow> bool" where
  "changeFits (ChangeUid x) \<longleftrightarrow> x < 2 ^ 64"
| "changeFits (ChangeLastOfflineTime x) \<longleftrightarrow> fits64 x"

definition msgFits :: "PlayerMsg \<Rightarrow> bool" where
  "msgFits v \<longleftrightarrow> pm_Uid v < 2 ^ 64 \<and> fits64 (pm_LastOfflineTime v)"

lemma change_fits: "list_all changeFits cs \<Longrightarrow> msgFits (ps_value st) \<Longrightarrow> msgFits (ps_value (fold (change lib) cs st))"
proof (induction cs arbitrary: st)
  case (Cons c cs)
  then show ?case by (cases c) (simp_all add: msgFits_def SetUid_def SetLastOfflineTime_def)
qed simp

text \<open>A frame with one delta, as a save sends it.\<close>

definition carries ::
  "('b, 'wr, 'rd, 'pl, 'sr) diff_lib \<Rightarrow> ('sr \<Rightarrow> (uint64 \<times> 'b) list) \<Rightarrow> 'b \<Rightarrow> uint64 \<Rightarrow> 'b \<Rightarrow> bool" where
  "carries lib deltas frame ver delta \<longleftrightarrow> (\<exists>f. NewSyncReader lib frame = Inr f \<and> deltas f = [(ver, delta)])"

context diff_codec
begin

lemma tracked_changes: "tracked v st \<Longrightarrow> tracked v (fold (change lib) cs st)"
proof (induction cs arbitrary: st)
  case (Cons c cs)
  then show ?case by (cases c) (simp_all add: tracked_SetUid tracked_SetLastOfflineTime)
qed simp

lemma replay_pushed:
  assumes "replay lib m xs v0 = Some (Inr (v, n))" and "xs \<noteq> []"
    and "carries lib deltas frame ver delta" and "dm_applyDiff m v delta = Some (Inr v')"
  shows "replay lib m (xs @ [frame]) v1 = Some (Inr (v', ver))"
  using assms(3) applyFrame_one [of _ _ _ "dm_applyDiff m" v v'] assms(4) by (auto simp: replay_snoc [OF assms(1,2)] carries_def)

lemma replay_compacted:
  assumes "dm_unmarshal m snap = Inr v"
  shows "replay lib m [WriteFullFrame lib ver snap] v0 = Some (Inr (v, ver))"
  using full_frame [of ver snap] assms by (auto simp: replay_def)

end

end
