(* ===== verification/PlayerActor.thy ===== *)
theory PlayerActor
  imports Offline PlayerLog
begin

text \<open>
  The player actor, \<open>app/Player/player/player.go\<close> with the loading of \<open>app/Player/service/actor.go\<close>:
  a player is mounted on its stored state, catches up with the time it was away when the actor
  starts, advances its logic time with every update and stores when it stopped. The actor runtime
  of nova is left out; its calls are the operations below. The clock is a parameter: \<open>clock\<close> reads
  it from the rest \<open>'w\<close> of the world. Shown: a saved player is loaded as it was, from any mix of
  snapshots and deltas, and a restarted player has caught up with the clock.
\<close>

section \<open>The actor\<close>

definition Millisecond :: duration where "Millisecond = 1000000"

definition UpdateTick :: duration where "UpdateTick = 200 * Millisecond"

definition UnixMilli :: "gotime \<Rightarrow> int" where
  "UnixMilli t = t div Millisecond"

definition timeUnixMilli :: "int \<Rightarrow> gotime" where
  "timeUnixMilli ms = ms * Millisecond"

text \<open>\<open>Time.Sub\<close> saturates at the bounds of a duration.\<close>

definition timeSub :: "gotime \<Rightarrow> gotime \<Rightarrow> duration" where
  "timeSub a b = max (- (2 ^ 63)) (min (2 ^ 63 - 1) (a - b))"

record Player =
  pl_state :: "PlayerState option"
  pl_logicTime :: gotime
  pl_needUnload :: bool

definition NewPlayer :: Player where
  "NewPlayer = \<lparr>pl_state = None, pl_logicTime = zeroTime, pl_needUnload = False\<rparr>"

definition Mount :: "PlayerState \<Rightarrow> Player \<Rightarrow> Player" where
  "Mount st p = p\<lparr>pl_state := Some st\<rparr>"

definition playerUpdate :: "Player update_fn" where
  "playerUpdate delta p = (MinNextUpdate UpdateTick [], p\<lparr>pl_logicTime := pl_logicTime p + delta\<rparr>)"

text \<open>A nil state is dereferenced by every operation that reads it.\<close>

datatype player_panic = NilState | OfflinePanic offline_panic

type_synonym 'w clock = "'w \<Rightarrow> gotime \<times> 'w"

definition Recover :: "'w clock \<Rightarrow> (Player \<times> 'w, player_panic, unit) act" where
  "Recover clock = (\<lambda>(p, w). case pl_state p of
       None \<Rightarrow> (Inl NilState, p, w)
     | Some st \<Rightarrow>
         if GetLastOfflineTime st = 0 then (case clock w of (now, w') \<Rightarrow> (Inr (), p\<lparr>pl_logicTime := now\<rparr>, w'))
         else (Inr (), p\<lparr>pl_logicTime := timeUnixMilli (GetLastOfflineTime st)\<rparr>, w))"

definition RequestUnload :: "Player \<Rightarrow> Player" where
  "RequestUnload p = p\<lparr>pl_needUnload := True\<rparr>"

text \<open>The start and the end of the catch-up are read from the clock for the log line.\<close>

definition catchUp :: "'w clock \<Rightarrow> (Player \<times> 'w, player_panic, unit) act" where
  "catchUp clock = (\<lambda>(p, w).
     let (now, w1) = clock w; offlineDuration = timeSub now (pl_logicTime p); (start, w2) = clock w1
     in case RunOffline offlineDuration playerUpdate p of
          (Inl e, p') \<Rightarrow> (Inl (OfflinePanic e), p', w2)
        | (Inr res, p') \<Rightarrow> (Inr (), p', snd (clock w2)))"

definition OnStart :: "'w clock \<Rightarrow> (Player \<times> 'w, player_panic, unit) act" where
  "OnStart clock = andThen (Recover clock) (\<lambda>_ (p, w).
     case pl_state p of
       None \<Rightarrow> (Inl NilState, p, w)
     | Some st \<Rightarrow> if GetLastOfflineTime st \<noteq> 0 then catchUp clock (p, w) else (Inr (), p, w))"

text \<open>Returns the time until the next update and whether the actor asks to be unloaded.\<close>

definition OnUpdate :: "duration \<Rightarrow> Player \<Rightarrow> (duration \<times> bool) \<times> Player" where
  "OnUpdate delta p = (case playerUpdate delta p of (nxt, p') \<Rightarrow> ((nu_Dt nxt, pl_needUnload p'), p'))"

definition OnStop :: "('b, 'wr, 'rd, 'pl, 'sr) diff_lib \<Rightarrow> 'w clock \<Rightarrow> (Player \<times> 'w, player_panic, unit) act" where
  "OnStop lib clock = (\<lambda>(p, w). case clock w of (now, w') \<Rightarrow>
     (let p1 = p\<lparr>pl_logicTime := now\<rparr> in case pl_state p1 of
        None \<Rightarrow> (Inl NilState, p1, w')
      | Some st \<Rightarrow> (Inr (), p1\<lparr>pl_state := Some (SetLastOfflineTime lib (UnixMilli now) st)\<rparr>, w')))"

definition GetState :: "Player \<Rightarrow> player_panic + uint64 \<times> int" where
  "GetState p = (case pl_state p of None \<Rightarrow> Inl NilState | Some st \<Rightarrow> Inr (GetUid st, GetLastOfflineTime st))"

section \<open>Loading\<close>

definition playerDiffCount :: int where "playerDiffCount = 32"

definition Diffs :: "uint64 \<Rightarrow> string" where
  "Diffs uid = ''player:{'' @ decimal uid @ ''}:diffs''"

definition playerStorage ::
  "('b, 'wr, 'rd, 'pl, 'sr) diff_lib \<Rightarrow> ('s, 'b) redis_lists \<Rightarrow> ('b \<Rightarrow> diff_error + PlayerMsg) \<Rightarrow> uint64 \<Rightarrow> ('s, 'b, PlayerMsg) DiffManager" where
  "playerStorage lib rl unmarshal uid = \<lparr>dm_redis = rl, dm_key = Diffs uid, dm_compactCount = playerDiffCount,
     dm_applyDiff = ApplyPlayerDiff lib, dm_unmarshal = unmarshal\<rparr>"

text \<open>\<open>toUint64\<close> is \<open>cast.ToUint64\<close>, applied to the key of the actor.\<close>

definition loadPlayerActor ::
  "('b, 'wr, 'rd, 'pl, 'sr) diff_lib \<Rightarrow> ('s, 'b) redis_lists \<Rightarrow> ('b \<Rightarrow> diff_error + PlayerMsg) \<Rightarrow> (string \<Rightarrow> uint64) \<Rightarrow> string \<Rightarrow> 's
     \<Rightarrow> ((diff_error + Player) \<times> 's) option" where
  "loadPlayerActor lib rl unmarshal toUint64 key s =
     (let uid = toUint64 key in
      map_option (\<lambda>(r, t). (map_sum id (\<lambda>(v, _). Mount (NewPlayerState v) NewPlayer) r, t))
        (Load lib (playerStorage lib rl unmarshal uid) \<lparr>pm_Uid = uid, pm_LastOfflineTime = 0\<rparr> s))"

section \<open>The catch-up of a player\<close>

lemma played_player: "played playerUpdate ds p = p\<lparr>pl_logicTime := pl_logicTime p + sum_list ds\<rparr>"
  by (induction ds arbitrary: p) (simp_all add: played_Cons, simp_all add: played_def playerUpdate_def)

lemma RunOffline_player:
  assumes "d < 2 ^ 63"
  shows "\<exists>res. RunOffline d playerUpdate p = (Inr res, p\<lparr>pl_logicTime := pl_logicTime p + max 0 d\<rparr>)"
proof (cases "0 < d")
  case True
  have "fst (playerUpdate d s) \<in> range (MinNextUpdate UpdateTick)" for d s by (simp add: playerUpdate_def)
  from RunOffline_run [of UpdateTick playerUpdate d p, OF _ this True assms] obtain ds res where
    "RunOffline d playerUpdate p = (Inr res, played playerUpdate (0 # ds) p)" "sum_list ds = d"
    by (auto simp: UpdateTick_def Millisecond_def)
  with True show ?thesis by (simp add: played_player)
qed (simp add: RunOffline_def)

lemma OnStart_catches_up:
  assumes "pl_state p = Some st" and "GetLastOfflineTime st \<noteq> 0"
    and "fst (clock w) - timeUnixMilli (GetLastOfflineTime st) < 2 ^ 63"
    and "- (2 ^ 63) \<le> fst (clock w) - timeUnixMilli (GetLastOfflineTime st)"
  shows "\<exists>w'. OnStart clock (p, w) =
     (Inr (), p\<lparr>pl_logicTime := max (fst (clock w)) (timeUnixMilli (GetLastOfflineTime st))\<rparr>, w')"
proof -
  let ?p = "p\<lparr>pl_logicTime := timeUnixMilli (GetLastOfflineTime st)\<rparr>"
  let ?d = "fst (clock w) - timeUnixMilli (GetLastOfflineTime st)"
  have "timeSub (fst (clock w)) (pl_logicTime ?p) = ?d" using assms(3,4) by (simp add: timeSub_def)
  moreover obtain res where "RunOffline ?d playerUpdate ?p = (Inr res, ?p\<lparr>pl_logicTime := pl_logicTime ?p + max 0 ?d\<rparr>)"
    using RunOffline_player [OF assms(3), of ?p] by blast
  moreover have "pl_logicTime ?p + max 0 ?d = max (fst (clock w)) (timeUnixMilli (GetLastOfflineTime st))"
    by (simp add: max_def)
  ultimately show ?thesis using assms(1,2)
    by (simp add: OnStart_def andThen_def Recover_def catchUp_def case_prod_beta Let_def)
qed

section \<open>Saving and loading\<close>

context diff_codec
begin

lemma replay_saved:
  assumes "replay lib m (L (dm_key m)) v0 = Some (Inr (v, n))" and "dm_applyDiff m = ApplyPlayerDiff lib"
    and "msgFits v" "list_all changeFits cs" and st: "st = fold (change lib) cs (NewPlayerState v)"
    and "carries lib deltas frame n' (writerData (WriteDiff lib st newWriter))" and "dm_unmarshal m snap = Inr (ps_value st)"
  shows "replay lib m (saved m lib frame (n', snap) L (dm_key m)) v0 = Some (Inr (ps_value st, n'))"
proof -
  have "tracked v st" unfolding st by (intro tracked_changes tracked_new)
  moreover have "msgFits (ps_value st)" unfolding st using assms(3,4) by (intro change_fits) (simp_all add: NewPlayerState_def)
  ultimately have "dm_applyDiff m v (writerData (WriteDiff lib st newWriter)) = Some (Inr (ps_value st))"
    unfolding assms(2) by (intro apply_WriteDiff) (simp_all add: msgFits_def)
  with assms replay_compacted [OF assms(7)] show ?thesis
    by (auto simp: saved_def intro: replay_pushed)
qed

end

section \<open>An executable store\<close>

text \<open>Byte strings are the values they encode; a frame is its own reader.\<close>

datatype blob = Snap PlayerMsg | Delta "(nat \<times> int) list" | FullFrame uint64 blob | DeltaFrame "(uint64 \<times> blob) list"

fun blobDeltas :: "blob \<Rightarrow> (uint64 \<times> blob) list" where
  "blobDeltas (DeltaFrame ds) = ds"
| "blobDeltas _ = []"

fun blobFields :: "blob \<Rightarrow> (nat \<times> int) list" where
  "blobFields (Delta fs) = fs"
| "blobFields _ = []"

fun blobSnap :: "blob \<Rightarrow> diff_error + PlayerMsg" where
  "blobSnap (Snap v) = Inr v"
| "blobSnap _ = Inl BadMessage"

definition plainLib :: "(blob, (nat \<times> int) list, (nat \<times> int) list, int, blob) diff_lib" where
  "plainLib = \<lparr>
     MarkDirty = (\<lambda>w b. (and w b = 0, or w b)),
     HasDirty = (\<lambda>w b. and w b \<noteq> 0),
     AnyDirty = (\<lambda>w. w \<noteq> 0),
     DiffClearDirty = (\<lambda>w. 0),
     WriterUint64 = (\<lambda>n x w. w @ [(n, int x)]),
     WriterInt64 = (\<lambda>n y w. w @ [(n, y)]),
     NewReader = blobFields,
     ReaderNext = (\<lambda>r. case r of [] \<Rightarrow> (Inr None, []) | (n, p) # r' \<Rightarrow> (Inr (Some (n, OperationSetVarint, p)), r')),
     DecodeUint64 = nat,
     DecodeInt64 = (\<lambda>y. y),
     NewSyncReader = (\<lambda>b. case b of FullFrame _ _ \<Rightarrow> Inr b | DeltaFrame _ \<Rightarrow> Inr b | _ \<Rightarrow> Inl BadFrame),
     FullData = (\<lambda>f. case f of FullFrame _ b \<Rightarrow> b | _ \<Rightarrow> f),
     BaseVersion = (\<lambda>f. case f of FullFrame v _ \<Rightarrow> v | _ \<Rightarrow> 0),
     NextDiff = (\<lambda>f. case blobDeltas f of [] \<Rightarrow> (Inr None, f) | d # ds \<Rightarrow> (Inr (Some d), DeltaFrame ds)),
     WriteFullFrame = FullFrame\<rparr>"

lemma plain_codec: "diff_codec plainLib [] Delta id (map (\<lambda>(n, p). (n, OperationSetVarint, p))) blobDeltas"
proof (standard, goal_cases)
  case (2 i j bits)
  have key: "HasDirty plainLib x (push_bit j 1) \<longleftrightarrow> bit x j" for x j
    by (simp only: plainLib_def diff_lib.simps bit_iff_and_push_bit_not_eq_0)
  have "snd (MarkDirty plainLib x b) = or x b" for x b by (simp add: plainLib_def)
  then have "HasDirty plainLib (snd (MarkDirty plainLib bits (push_bit i 1))) (push_bit j 1) \<longleftrightarrow> bit bits j \<or> bit (push_bit i 1 :: 64 word) j"
    by (simp only: key bit_or_iff)
  also have "bit (push_bit i 1 :: 64 word) j \<longleftrightarrow> i = j" using 2 by (auto simp: bit_simps)
  finally show ?case unfolding key by blast
next
  case (8 r e es)
  then obtain n p r' where "r = (n, p) # r'" by (cases r) auto
  with 8 show ?case by (simp add: plainLib_def)
qed (auto simp: plainLib_def split: list.splits)

interpretation plain: diff_codec plainLib "[]" Delta id "map (\<lambda>(n, p). (n, OperationSetVarint, p))" blobDeltas
  by (rule plain_codec)

definition memLists :: "(string \<Rightarrow> blob list, blob) redis_lists" where
  "memLists = \<lparr>
     LRange = (\<lambda>k L. (Inr (L k), L)),
     LLen = (\<lambda>k L. (Inr (int (length (L k))), L)),
     RPush = (\<lambda>k x L. (Inr (), runPipe (PipeRPush k x) L)),
     TxPipelined = (\<lambda>cmds L. (Inr (), fold runPipe cmds L))\<rparr>"

lemma mem_lists: "list_store False memLists id"
  by standard (simp_all add: memLists_def wp_def)

interpretation mem: list_store False memLists id
  by (rule mem_lists)

section \<open>Properties\<close>

text \<open>
  C23: What is saved is what is loaded. When the log of a player holds its message, any changes are
  made through the setters of its state and a save sends the marked fields as a delta (or, for an
  empty or full log, a snapshot), then loading the log afterwards gives exactly the changed
  message and the new version. If the save reports an error the log holds the old or the new
  message, nothing else. The log never has more than 32 entries.
\<close>

theorem Save_then_Load:
  assumes "diff_codec lib newWriter writerData content pending deltas" and "list_store mf rl entries"
    and "m = playerStorage lib rl unmarshal uid"
    and "replay lib m (entries s (Diffs uid)) v0 = Some (Inr (v, n))" and "msgFits v" and "list_all changeFits cs"
    and "st = fold (change lib) cs (NewPlayerState v)"
    and "carries lib deltas frame n' (writerData (WriteDiff lib st newWriter))" and "unmarshal snap = Inr (ps_value st)"
    and "length (entries s (Diffs uid)) \<le> 32"
    and "Save lib m frame (\<lambda>_. (n', snap)) s = (res, t)"
  shows "(\<exists>r u. Load lib m v0 t = Some (r, u) \<and>
       (r = Inr (ps_value st, n') \<or> isl res \<and> mf \<and> r = Inr (v, n) \<or> isl r \<and> mf)) \<and> length (entries t (Diffs uid)) \<le> 32"
proof -
  have sel: "dm_redis m = rl" "dm_key m = Diffs uid" "dm_applyDiff m = ApplyPlayerDiff lib" "dm_unmarshal m = unmarshal"
      "dm_compactCount m = 32"
    by (simp_all add: assms(3) playerStorage_def playerDiffCount_def)
  let ?S = "saved m lib frame (n', snap) (entries s)"
  have new: "replay lib m (?S (Diffs uid)) v0 = Some (Inr (ps_value st, n'))"
    using diff_codec.replay_saved [OF assms(1), of m "entries s" v0 v n cs st frame n' snap] assms(4-9) by (simp add: sel)
  have len: "length (?S (Diffs uid)) \<le> 32" by (simp add: saved_def sel)
  have save: "entries t = ?S \<or> isl res \<and> mf \<and> entries t = entries s"
    using list_store.wp_Save [OF assms(2) sel(1), of lib frame "\<lambda>_. (n', snap)" s] assms(11)
    by (auto simp: wp_def split: sum.splits)
  note load = list_store.Load_replay [OF assms(2) sel(1), of lib t v0, unfolded sel(2)]
  from save show ?thesis
  proof
    assume "entries t = ?S"
    with load new len show ?thesis by metis
  next
    assume "isl res \<and> mf \<and> entries t = entries s"
    with load assms(4,10) show ?thesis by metis
  qed
qed

text \<open>A log with a snapshot of a player that has never been offline, and the save when it stops.\<close>

definition onlineLog :: "string \<Rightarrow> blob list" where
  "onlineLog = (\<lambda>_. [])(Diffs 7 := [FullFrame 4 (Snap \<lparr>pm_Uid = 7, pm_LastOfflineTime = 0\<rparr>)])"

theorem Save_then_Load_witness:
  "\<exists>u. Load plainLib (playerStorage plainLib memLists blobSnap 7) \<lparr>pm_Uid = 7, pm_LastOfflineTime = 0\<rparr>
     (snd (Save plainLib (playerStorage plainLib memLists blobSnap 7) (DeltaFrame [(5, Delta [(2, 1234)])])
        (\<lambda>_. (5, Snap \<lparr>pm_Uid = 7, pm_LastOfflineTime = 1234\<rparr>)) onlineLog))
     = Some (Inr (\<lparr>pm_Uid = 7, pm_LastOfflineTime = 1234\<rparr>, 5), u)"
proof -
  let ?m = "playerStorage plainLib memLists blobSnap 7" and ?v = "\<lparr>pm_Uid = 7, pm_LastOfflineTime = 0\<rparr>"
  let ?st = "fold (change plainLib) [ChangeLastOfflineTime 1234] (NewPlayerState ?v)"
  have a: "replay plainLib ?m (id onlineLog (Diffs 7)) ?v = Some (Inr (?v, 4))"
    by (simp add: replay_def onlineLog_def plainLib_def playerStorage_def)
  have len: "length (onlineLog (Diffs 7)) = 1" by (simp add: onlineLog_def)
  have st: "?st = \<lparr>ps_value = \<lparr>pm_Uid = 7, pm_LastOfflineTime = 1234\<rparr>, ps_dirty = 2\<rparr>"
    by (simp add: NewPlayerState_def SetLastOfflineTime_def plainLib_def playerStateDirtyLastOfflineTimeMask_def)
  have c: "carries plainLib blobDeltas (DeltaFrame [(5, Delta [(2, 1234)])]) 5 (Delta (WriteDiff plainLib ?st []))"
    unfolding carries_def st by (simp add: WriteDiff_def plainLib_def playerStateDirtyUidMask_def playerStateDirtyLastOfflineTimeMask_def)
  from Save_then_Load [OF plain_codec mem_lists refl a _ _ refl c, of "Snap \<lparr>pm_Uid = 7, pm_LastOfflineTime = 1234\<rparr>", OF _ _ _ _ prod.collapse [symmetric]]
  show ?thesis unfolding st by (simp add: msgFits_def fits64_def len)
qed

text \<open>
  A player that is started again has caught up. If an actor stops at some time and the player is
  started later on the state it left, the start succeeds and the logic time is exactly the time
  of the start, however the clock is read in between.
\<close>

theorem restart_catches_up:
  assumes "pl_state p = Some st" and "OnStop lib clock (p, w) = (res, p1, w1)" and "pl_state p1 = Some st1"
    and "UnixMilli (fst (clock w)) \<noteq> 0" and "fst (clock w) \<le> fst (clock w2)" and "fst (clock w2) < fst (clock w) + 2 ^ 62"
  shows "res = Inr () \<and> (\<exists>p2 w3. OnStart clock (Mount (NewPlayerState (ps_value st1)) NewPlayer, w2) = (Inr (), p2, w3)
     \<and> pl_logicTime p2 = fst (clock w2) \<and> pl_state p2 = Some (NewPlayerState (ps_value st1)))"
proof -
  let ?p = "Mount (NewPlayerState (ps_value st1)) NewPlayer" and ?t = "timeUnixMilli (UnixMilli (fst (clock w)))"
  have r: "res = Inr ()" "st1 = SetLastOfflineTime lib (UnixMilli (fst (clock w))) st"
    using assms(1-3) by (auto simp: OnStop_def Let_def split: prod.splits)
  have last: "GetLastOfflineTime (NewPlayerState (ps_value st1)) = UnixMilli (fst (clock w))"
    by (simp add: r(2) GetLastOfflineTime_def NewPlayerState_def SetLastOfflineTime_def)
  have "?t \<le> fst (clock w)" "fst (clock w) < ?t + Millisecond"
    unfolding timeUnixMilli_def UnixMilli_def Millisecond_def by presburger+
  then have "?t \<le> fst (clock w2)" "fst (clock w2) - ?t < 2 ^ 63" using assms(5,6) by (simp_all add: Millisecond_def)
  with OnStart_catches_up [of ?p "NewPlayerState (ps_value st1)" clock w2] assms(4) r(1) show ?thesis
    by (auto simp: last Mount_def max_def)
qed

theorem restart_catches_up_witness:
  "\<exists>p2 w3. OnStart (\<lambda>t. (t, t + 5)) (Mount (NewPlayerState \<lparr>pm_Uid = 7, pm_LastOfflineTime = 3\<rparr>) NewPlayer, 9999999)
     = (Inr (), p2, w3) \<and> pl_logicTime p2 = 9999999"
proof -
  let ?p = "Mount (NewPlayerState \<lparr>pm_Uid = 7, pm_LastOfflineTime = 0\<rparr>) NewPlayer"
  let ?st = "\<lparr>ps_value = \<lparr>pm_Uid = 7, pm_LastOfflineTime = 3\<rparr>, ps_dirty = 2\<rparr>"
  have stop: "OnStop plainLib (\<lambda>t. (t, t + 5)) (?p, 3500000) = (Inr (), ?p\<lparr>pl_logicTime := 3500000, pl_state := Some ?st\<rparr>, 3500005)"
    by (simp add: OnStop_def Mount_def NewPlayer_def NewPlayerState_def SetLastOfflineTime_def UnixMilli_def Millisecond_def plainLib_def
        playerStateDirtyLastOfflineTimeMask_def)
  have s: "pl_state ?p = Some (NewPlayerState \<lparr>pm_Uid = 7, pm_LastOfflineTime = 0\<rparr>)" by (simp add: Mount_def)
  from restart_catches_up [OF s stop, of ?st 9999999] show ?thesis
    by (auto simp: UnixMilli_def Millisecond_def)
qed

end
