(* ===== verification/MessageRouter.thy ===== *)
theory MessageRouter
  imports PlayerActor
begin

text \<open>
  The message router, \<open>pkg/message_router/router.go\<close>, and the handlers that the player server registers with it
  (\<open>app/Player/router\<close>, \<open>app/Player/rpc\<close>). Request and response messages come from pools shared by all goroutines
  of a route and go back reset. The protobuf library and \<open>sync.Pool\<close> are the records \<open>proto\<close> and \<open>pool\<close>; the locale
  \<open>message_pool\<close> states what they promise, other goroutines included. Shown: a handler never sees what an
  earlier request left in a message.
\<close>

section \<open>Messages and pools\<close>

datatype route_error = WireError string | HandlerError string | HandlerPanic | ReplyError string

record 'm proto =
  pb_new :: 'm
  pb_Unmarshal :: "string \<Rightarrow> 'm \<Rightarrow> string option \<times> 'm"
  pb_Marshal :: "'m \<Rightarrow> string + string"
  pb_Reset :: "'m \<Rightarrow> 'm"

record ('p, 'm) pool =
  PoolGet :: "'p \<Rightarrow> 'm option \<times> 'p"
  PoolPut :: "'m \<Rightarrow> 'p \<Rightarrow> 'p"

type_synonym ('p, 'm) message_pool_of = "'m proto \<times> ('p, 'm) pool"

text \<open>\<open>Get\<close> of a pool with a \<open>New\<close> function.\<close>

definition poolGet :: "('p, 'm) message_pool_of \<Rightarrow> 'p \<Rightarrow> 'm \<times> 'p" where
  "poolGet pl p = (case PoolGet (snd pl) p of (Some m, p') \<Rightarrow> (m, p') | (None, p') \<Rightarrow> (pb_new (fst pl), p'))"

definition release :: "('p, 'm) message_pool_of \<Rightarrow> 'm \<Rightarrow> 'p \<Rightarrow> 'p" where
  "release pl message p = PoolPut (snd pl) (pb_Reset (fst pl) message) p"

text \<open>A handler may change both messages and the world behind it; deferred calls run after a panic, too.\<close>

datatype handler_end = Returned | Failed string | Panicked

type_synonym ('u, 'req, 'rsp) handler = "'req \<Rightarrow> 'rsp \<Rightarrow> 'u \<Rightarrow> handler_end \<times> 'req \<times> 'rsp \<times> 'u"

record 'u node_ctx =
  ctx_Body :: "string"
  ctx_NeedReply :: bool
  ctx_Reply :: "string \<Rightarrow> 'u \<Rightarrow> string option \<times> 'u"

definition answerCtx :: "'u node_ctx \<Rightarrow> 'rsp proto \<Rightarrow> 'rsp \<Rightarrow> 'u \<Rightarrow> (route_error + unit) \<times> 'u" where
  "answerCtx ctx pb rsp u =
     (if \<not> ctx_NeedReply ctx then (Inr (), u)
      else case pb_Marshal pb rsp of
        Inl e \<Rightarrow> (Inl (WireError e), u)
      | Inr body \<Rightarrow> (case ctx_Reply ctx body u of
            (Some e, u') \<Rightarrow> (Inl (ReplyError e), u')
          | (None, u') \<Rightarrow> (Inr (), u')))"

definition handle ::
  "'u node_ctx \<Rightarrow> ('p, 'req) message_pool_of \<Rightarrow> ('p, 'rsp) message_pool_of \<Rightarrow> ('u, 'req, 'rsp) handler
     \<Rightarrow> 'p \<times> 'u \<Rightarrow> (route_error + unit) \<times> 'p \<times> 'u" where
  "handle ctx reqPool rspPool handler s =
     (let (p, u) = s; (req, p1) = poolGet reqPool p in
      case pb_Unmarshal (fst reqPool) (ctx_Body ctx) req of
        (Some e, req') \<Rightarrow> (Inl (WireError e), release reqPool req' p1, u)
      | (None, req') \<Rightarrow>
          let (rsp, p2) = poolGet rspPool p1 in
          case handler req' rsp u of
            (ended, req'', rsp', u') \<Rightarrow>
              (case (case ended of
                       Failed e \<Rightarrow> (Inl (HandlerError e), u')
                     | Panicked \<Rightarrow> (Inl HandlerPanic, u')
                     | Returned \<Rightarrow> answerCtx ctx (fst rspPool) rsp' u') of
                 (r, u'') \<Rightarrow> (r, release reqPool req'' (release rspPool rsp' p2), u'')))"

definition rpcHandle ::
  "('p, 'req) message_pool_of \<Rightarrow> ('p, 'rsp) message_pool_of \<Rightarrow> ('u, 'req, 'rsp) handler
     \<Rightarrow> string \<Rightarrow> 'p \<times> 'u \<Rightarrow> (route_error + string) \<times> 'p \<times> 'u" where
  "rpcHandle reqPool rspPool handler body s =
     (let (p, u) = s; (req, p1) = poolGet reqPool p in
      case pb_Unmarshal (fst reqPool) body req of
        (Some e, req') \<Rightarrow> (Inl (WireError e), release reqPool req' p1, u)
      | (None, req') \<Rightarrow>
          let (rsp, p2) = poolGet rspPool p1 in
          case handler req' rsp u of
            (ended, req'', rsp', u') \<Rightarrow>
              ((case ended of
                  Failed e \<Rightarrow> Inl (HandlerError e)
                | Panicked \<Rightarrow> Inl HandlerPanic
                | Returned \<Rightarrow> (case pb_Marshal (fst rspPool) rsp' of Inl e \<Rightarrow> Inl (WireError e) | Inr b \<Rightarrow> Inr b)),
               release reqPool req'' (release rspPool rsp' p2), u'))"

section \<open>Registration\<close>

text \<open>
  The routers of nova are parameters: \<open>routerHandle\<close> adds a handler under a route. A panic is \<open>None\<close>. The actor
  a route group hands to the handler is part of the world \<open>'u\<close> here.
\<close>

definition Reg ::
  "(nat \<Rightarrow> ('u node_ctx \<Rightarrow> 'p \<times> 'u \<Rightarrow> (route_error + unit) \<times> 'p \<times> 'u) \<Rightarrow> 'router \<Rightarrow> string + 'router)
     \<Rightarrow> ('p, 'req) message_pool_of \<Rightarrow> ('p, 'rsp) message_pool_of \<Rightarrow> nat \<Rightarrow> ('u node_ctx \<Rightarrow> ('u, 'req, 'rsp) handler) \<Rightarrow> 'router \<Rightarrow> 'router option" where
  "Reg routerHandle reqPool rspPool route handler router =
     (case routerHandle route (\<lambda>ctx. handle ctx reqPool rspPool (handler ctx)) router of Inl _ \<Rightarrow> None | Inr r \<Rightarrow> Some r)"

definition RegActor ::
  "(nat \<Rightarrow> ('a \<Rightarrow> 'pid \<Rightarrow> 'u node_ctx \<Rightarrow> 'p \<times> 'u \<Rightarrow> (route_error + unit) \<times> 'p \<times> 'u) \<Rightarrow> 'router \<Rightarrow> 'router)
     \<Rightarrow> ('p, 'req) message_pool_of \<Rightarrow> ('p, 'rsp) message_pool_of \<Rightarrow> nat \<Rightarrow> ('a \<Rightarrow> 'pid \<Rightarrow> 'u node_ctx \<Rightarrow> ('u, 'req, 'rsp) handler) \<Rightarrow> 'router \<Rightarrow> 'router" where
  "RegActor groupHandle reqPool rspPool route handler router =
     groupHandle route (\<lambda>actorValue pid ctx. handle ctx reqPool rspPool (handler actorValue pid ctx)) router"

definition RegActorRPC ::
  "(nat \<Rightarrow> ('a \<Rightarrow> 'pid \<Rightarrow> 'ctx \<Rightarrow> string \<Rightarrow> 'p \<times> 'u \<Rightarrow> (route_error + string) \<times> 'p \<times> 'u) \<Rightarrow> 'router \<Rightarrow> 'router)
     \<Rightarrow> ('p, 'req) message_pool_of \<Rightarrow> ('p, 'rsp) message_pool_of \<Rightarrow> nat \<Rightarrow> ('a \<Rightarrow> 'pid \<Rightarrow> 'ctx \<Rightarrow> ('u, 'req, 'rsp) handler) \<Rightarrow> 'router \<Rightarrow> 'router" where
  "RegActorRPC groupHandle reqPool rspPool route handler router =
     groupHandle route (\<lambda>actorValue pid ctx body. rpcHandle reqPool rspPool (handler actorValue pid ctx) body) router"

section \<open>The handlers of the player server\<close>

record HiReq = hi_Name :: string
record HiRsp = hi_Msg :: string

definition hi :: "'u node_ctx \<Rightarrow> ('u, HiReq, HiRsp) handler" where
  "hi ctx req rsp u = (Returned, req, rsp\<lparr>hi_Msg := ''hi '' @ hi_Name req\<rparr>, u)"

text \<open>The messages of \<open>LoadPlayer\<close> and \<open>Offload\<close> have no fields, nor has the request of \<open>GetState\<close>.\<close>

definition loadPlayer :: "'a \<Rightarrow> 'pid \<Rightarrow> 'u node_ctx \<Rightarrow> ('u, unit, unit) handler" where
  "loadPlayer current pid ctx req rsp u = (Returned, req, rsp, u)"

text \<open>The current actor is the world of the handlers below.\<close>

definition offload :: "'pid \<Rightarrow> Player node_ctx \<Rightarrow> (Player, unit, unit) handler" where
  "offload pid ctx req rsp current = (Returned, req, rsp, RequestUnload current)"

record GetStateRsp =
  gs_Uid :: uint64
  gs_LastOfflineTime :: int

definition getState :: "'pid \<Rightarrow> 'ctx \<Rightarrow> (Player, unit, GetStateRsp) handler" where
  "getState pid ctx req rsp current = (case GetState current of
      Inl _ \<Rightarrow> (Panicked, req, rsp, current)
    | Inr (uid, lastOfflineTime) \<Rightarrow>
        (Returned, req, rsp\<lparr>gs_Uid := uid, gs_LastOfflineTime := lastOfflineTime\<rparr>, current))"

section \<open>What the library promises\<close>

text \<open>
  \<open>pooled p\<close> are the messages that a pool may hand out. A \<open>Get\<close> hands out one of them or none; they are gone at any
  time, and other goroutines that share the pool put back messages they have reset.
\<close>

locale message_pool =
  fixes pb :: "'m proto" and pl :: "('p, 'm) pool" and pooled :: "'p \<Rightarrow> 'm set"
  assumes reset_law: "pb_Reset pb m = pb_new pb"
    and get_law: "PoolGet pl p = (r, p') \<Longrightarrow> set_option r \<subseteq> pooled p \<and> pooled p' \<subseteq> insert (pb_new pb) (pooled p)"
    and put_law: "pooled (PoolPut pl m'' q) \<subseteq> insert m'' (insert (pb_new pb) (pooled q))"
begin

definition clean :: "'p \<Rightarrow> bool" where
  "clean p \<longleftrightarrow> pooled p \<subseteq> {pb_new pb}"

lemma poolGet_clean: "clean p \<Longrightarrow> poolGet (pb, pl) p = (m, p') \<Longrightarrow> m = pb_new pb \<and> clean p'"
  using get_law [of p] by (fastforce simp: poolGet_def clean_def split: prod.splits option.splits)

lemma release_clean: "clean p \<Longrightarrow> clean (release (pb, pl) m p)"
  using put_law [of "pb_new pb" p] by (auto simp: release_def clean_def reset_law)

end

section \<open>Handling with new messages\<close>

definition handleFresh ::
  "'u node_ctx \<Rightarrow> 'req proto \<Rightarrow> 'rsp proto \<Rightarrow> ('u, 'req, 'rsp) handler \<Rightarrow> 'u \<Rightarrow> (route_error + unit) \<times> 'u" where
  "handleFresh ctx reqPb rspPb handler u =
     (case pb_Unmarshal reqPb (ctx_Body ctx) (pb_new reqPb) of
        (Some e, _) \<Rightarrow> (Inl (WireError e), u)
      | (None, req) \<Rightarrow> (case handler req (pb_new rspPb) u of
            (Failed e, _, _, u') \<Rightarrow> (Inl (HandlerError e), u')
          | (Panicked, _, _, u') \<Rightarrow> (Inl HandlerPanic, u')
          | (Returned, _, rsp, u') \<Rightarrow> answerCtx ctx rspPb rsp u'))"

definition rpcFresh ::
  "'req proto \<Rightarrow> 'rsp proto \<Rightarrow> ('u, 'req, 'rsp) handler \<Rightarrow> string \<Rightarrow> 'u \<Rightarrow> (route_error + string) \<times> 'u" where
  "rpcFresh reqPb rspPb handler body u =
     (case pb_Unmarshal reqPb body (pb_new reqPb) of
        (Some e, _) \<Rightarrow> (Inl (WireError e), u)
      | (None, req) \<Rightarrow> (case handler req (pb_new rspPb) u of
            (Failed e, _, _, u') \<Rightarrow> (Inl (HandlerError e), u')
          | (Panicked, _, _, u') \<Rightarrow> (Inl HandlerPanic, u')
          | (Returned, _, rsp, u') \<Rightarrow> ((case pb_Marshal rspPb rsp of Inl e \<Rightarrow> Inl (WireError e) | Inr b \<Rightarrow> Inr b), u')))"

locale route_pools = req: message_pool reqPb reqPl reqPooled + rsp: message_pool rspPb rspPl rspPooled
  for reqPb :: "'req proto" and reqPl :: "('p, 'req) pool" and reqPooled :: "'p \<Rightarrow> 'req set"
    and rspPb :: "'rsp proto" and rspPl :: "('p, 'rsp) pool" and rspPooled :: "'p \<Rightarrow> 'rsp set" +
  assumes req_frame: "PoolGet reqPl p1 = (r1, p1') \<Longrightarrow> rspPooled p1' \<subseteq> insert (pb_new rspPb) (rspPooled p1)"
      "rspPooled (PoolPut reqPl m1 q1) \<subseteq> insert (pb_new rspPb) (rspPooled q1)"
    and rsp_frame: "PoolGet rspPl p2 = (r2, p2') \<Longrightarrow> reqPooled p2' \<subseteq> insert (pb_new reqPb) (reqPooled p2)"
      "reqPooled (PoolPut rspPl m2 q2) \<subseteq> insert (pb_new reqPb) (reqPooled q2)"
begin

definition cleanPools :: "'p \<Rightarrow> bool" where
  "cleanPools p \<longleftrightarrow> reqPooled p \<subseteq> {pb_new reqPb} \<and> rspPooled p \<subseteq> {pb_new rspPb}"

lemma reqGet_clean: "cleanPools p \<Longrightarrow> poolGet (reqPb, reqPl) p = (m, p') \<Longrightarrow> m = pb_new reqPb \<and> cleanPools p'"
  using req.poolGet_clean [of p m p'] req_frame(1) [of p]
  by (fastforce simp: cleanPools_def req.clean_def poolGet_def split: prod.splits option.splits)

lemma rspGet_clean: "cleanPools p \<Longrightarrow> poolGet (rspPb, rspPl) p = (m, p') \<Longrightarrow> m = pb_new rspPb \<and> cleanPools p'"
  using rsp.poolGet_clean [of p m p'] rsp_frame(1) [of p]
  by (fastforce simp: cleanPools_def rsp.clean_def poolGet_def split: prod.splits option.splits)

lemma releases_clean:
  "cleanPools p \<Longrightarrow> cleanPools (release (reqPb, reqPl) m p)"
  "cleanPools p \<Longrightarrow> cleanPools (release (rspPb, rspPl) m' p)"
  using req.release_clean [of p m] rsp.release_clean [of p m'] req_frame(2) rsp_frame(2)
  by (force simp: cleanPools_def req.clean_def rsp.clean_def release_def)+

lemma handle_fresh:
  assumes "cleanPools p"
  shows "case handle ctx (reqPb, reqPl) (rspPb, rspPl) handler (p, u) of
    (r, p', u') \<Rightarrow> (r, u') = handleFresh ctx reqPb rspPb handler u \<and> cleanPools p'"
proof -
  obtain m p1 where g1: "poolGet (reqPb, reqPl) p = (m, p1)" by fastforce
  obtain m2 p2 where g2: "poolGet (rspPb, rspPl) p1 = (m2, p2)" by fastforce
  have "m = pb_new reqPb" "cleanPools p1" "m2 = pb_new rspPb" "cleanPools p2"
    using reqGet_clean [OF assms g1] rspGet_clean [OF _ g2] by auto
  then show ?thesis
    by (auto simp: handle_def handleFresh_def g1 g2 Let_def releases_clean split: prod.splits option.splits handler_end.splits)
qed

lemma rpcHandle_fresh:
  assumes "cleanPools p"
  shows "case rpcHandle (reqPb, reqPl) (rspPb, rspPl) handler body (p, u) of
    (r, p', u') \<Rightarrow> (r, u') = rpcFresh reqPb rspPb handler body u \<and> cleanPools p'"
proof -
  obtain m p1 where g1: "poolGet (reqPb, reqPl) p = (m, p1)" by fastforce
  obtain m2 p2 where g2: "poolGet (rspPb, rspPl) p1 = (m2, p2)" by fastforce
  have "m = pb_new reqPb" "cleanPools p1" "m2 = pb_new rspPb" "cleanPools p2"
    using reqGet_clean [OF assms g1] rspGet_clean [OF _ g2] by auto
  then show ?thesis
    by (auto simp: rpcHandle_def rpcFresh_def g1 g2 Let_def releases_clean split: prod.splits option.splits handler_end.splits)
qed

end

section \<open>Pools as stacks\<close>

definition reqStack :: "('req list \<times> 'rsp list, 'req) pool" where
  "reqStack = \<lparr>PoolGet = (\<lambda>(ms, ns). case ms of [] \<Rightarrow> (None, (ms, ns)) | m # ms' \<Rightarrow> (Some m, (ms', ns))),
     PoolPut = (\<lambda>m (ms, ns). (m # ms, ns))\<rparr>"

definition rspStack :: "('req list \<times> 'rsp list, 'rsp) pool" where
  "rspStack = \<lparr>PoolGet = (\<lambda>(ms, ns). case ns of [] \<Rightarrow> (None, (ms, ns)) | n # ns' \<Rightarrow> (Some n, (ms, ns'))),
     PoolPut = (\<lambda>n (ms, ns). (ms, n # ns))\<rparr>"

definition textProto :: "'m \<Rightarrow> (string \<Rightarrow> 'm) \<Rightarrow> ('m \<Rightarrow> string) \<Rightarrow> 'm proto" where
  "textProto z dec enc = \<lparr>pb_new = z, pb_Unmarshal = (\<lambda>b m. if b = '''' then (Some ''EOF'', m) else (None, dec b)),
     pb_Marshal = (\<lambda>m. Inr (enc m)), pb_Reset = (\<lambda>_. z)\<rparr>"

lemma stack_route_pools:
  "route_pools (textProto z dec enc) reqStack (\<lambda>(ms, ns). set ms) (textProto z' dec' enc') rspStack (\<lambda>(ms, ns). set ns)"
  by unfold_locales (auto simp: reqStack_def rspStack_def textProto_def split: list.splits)

definition hiReqProto :: "HiReq proto" where
  "hiReqProto = textProto \<lparr>hi_Name = ''''\<rparr> (\<lambda>b. \<lparr>hi_Name = b\<rparr>) hi_Name"

definition hiRspProto :: "HiRsp proto" where
  "hiRspProto = textProto \<lparr>hi_Msg = ''''\<rparr> (\<lambda>b. \<lparr>hi_Msg = b\<rparr>) hi_Msg"

lemma hi_route_pools: "route_pools hiReqProto reqStack (\<lambda>(ms, ns). set ms) hiRspProto rspStack (\<lambda>(ms, ns). set ns)"
  unfolding hiReqProto_def hiRspProto_def by (rule stack_route_pools)

interpretation hiPools: route_pools hiReqProto reqStack "\<lambda>(ms, ns). set ms" hiRspProto rspStack "\<lambda>(ms, ns). set ns"
  by (rule hi_route_pools)

section \<open>Properties\<close>

fun serveAll ::
  "('p, 'req) message_pool_of \<Rightarrow> ('p, 'rsp) message_pool_of \<Rightarrow> ('u node_ctx \<times> ('u, 'req, 'rsp) handler) list
     \<Rightarrow> 'p \<times> 'u \<Rightarrow> (route_error + unit) list \<times> 'u" where
  "serveAll reqPool rspPool [] (p, u) = ([], u)"
| "serveAll reqPool rspPool ((ctx, handler) # reqs) (p, u) =
     (case handle ctx reqPool rspPool handler (p, u) of
        (r, p', u') \<Rightarrow> (case serveAll reqPool rspPool reqs (p', u') of (rs, u'') \<Rightarrow> (r # rs, u'')))"

fun freshAll ::
  "'req proto \<Rightarrow> 'rsp proto \<Rightarrow> ('u node_ctx \<times> ('u, 'req, 'rsp) handler) list \<Rightarrow> 'u \<Rightarrow> (route_error + unit) list \<times> 'u" where
  "freshAll reqPb rspPb [] u = ([], u)"
| "freshAll reqPb rspPb ((ctx, handler) # reqs) u =
     (case handleFresh ctx reqPb rspPb handler u of
        (r, u') \<Rightarrow> (case freshAll reqPb rspPb reqs u' of (rs, u'') \<Rightarrow> (r # rs, u'')))"

context route_pools
begin

lemma serveAll_fresh:
  "cleanPools p \<Longrightarrow> serveAll (reqPb, reqPl) (rspPb, rspPl) reqs (p, u) = freshAll reqPb rspPb reqs u"
proof (induction reqs arbitrary: p u)
  case (Cons x reqs)
  obtain ctx handler where x: "x = (ctx, handler)" by fastforce
  obtain r p' u' where h: "handle ctx (reqPb, reqPl) (rspPb, rspPl) handler (p, u) = (r, p', u')"
    by (metis prod_cases3)
  from handle_fresh [OF Cons.prems, of ctx handler u] h
  have "handleFresh ctx reqPb rspPb handler u = (r, u')" "cleanPools p'" by simp_all
  with Cons.IH h x show ?case by simp
qed simp

end

text \<open>
  C31: Requests of a route do not see each other. Whatever handlers leave in the request and response
  messages they get from the shared pools, and whether they return, fail or panic, every
  request of a sequence is answered, and changes the world, as if its messages were new.
\<close>

theorem pools_leave_no_trace:
  assumes "route_pools reqPb reqPl reqPooled rspPb rspPl rspPooled"
    and "reqPooled p \<subseteq> {pb_new reqPb}" and "rspPooled p \<subseteq> {pb_new rspPb}"
  shows "serveAll (reqPb, reqPl) (rspPb, rspPl) reqs (p, u) = freshAll reqPb rspPb reqs u"
  by (rule route_pools.serveAll_fresh [OF assms(1)]) (simp add: route_pools.cleanPools_def [OF assms(1)] assms(2,3))

text \<open>The world is the replies sent. The second handler leaves its response as it is.\<close>

definition sayCtx :: "string \<Rightarrow> string list node_ctx" where
  "sayCtx body = \<lparr>ctx_Body = body, ctx_NeedReply = True, ctx_Reply = (\<lambda>b u. (None, u @ [b]))\<rparr>"

definition silent :: "(string list, HiReq, HiRsp) handler" where
  "silent req rsp u = (Returned, req, rsp, u)"

definition twoRequests :: "(string list node_ctx \<times> (string list, HiReq, HiRsp) handler) list" where
  "twoRequests = [(sayCtx ''Ann'', hi (sayCtx ''Ann'')), (sayCtx ''Bob'', silent)]"

theorem pools_leave_no_trace_witness:
  "serveAll (hiReqProto, reqStack) (hiRspProto, rspStack) twoRequests (([], []), []) = ([Inr (), Inr ()], [''hi Ann'', ''''])"
proof -
  have "serveAll (hiReqProto, reqStack) (hiRspProto, rspStack) twoRequests (([], []), []) = freshAll hiReqProto hiRspProto twoRequests []"
    by (rule pools_leave_no_trace [OF hi_route_pools]) simp_all
  then show ?thesis
    by (simp add: twoRequests_def sayCtx_def silent_def hi_def handleFresh_def answerCtx_def hiReqProto_def hiRspProto_def textProto_def)
qed

end
