(* ===== verification/Sha1.thy ===== *)
theory Sha1
  imports Sha256 Base64
begin

unbundle bit_operations_syntax

text \<open>
  SHA-1 and HMAC as in Go's \<open>crypto/sha1\<close> and \<open>crypto/hmac\<close>, and \<open>encoding/hex\<close>, which the check of
  the request signature uses. Byte strings are lists of bytes.
\<close>

definition rotl :: "nat \<Rightarrow> w32 \<Rightarrow> w32" where
  "rotl n x = (push_bit n x) OR (drop_bit (32 - n) x)"

definition sha1Init :: "w32 list" where
  "sha1Init = [0x67452301, 0xEFCDAB89, 0x98BADCFE, 0x10325476, 0xC3D2E1F0]"

text \<open>The schedule is extended from the front: \<open>ws\<close> holds the words in reverse order.\<close>

definition sha1Extend :: "w32 list \<Rightarrow> w32 list" where
  "sha1Extend ws = rotl 1 (ws ! 2 XOR ws ! 7 XOR ws ! 13 XOR ws ! 15) # ws"

definition sha1Schedule :: "w32 list \<Rightarrow> w32 list" where
  "sha1Schedule block = rev ((sha1Extend ^^ 64) (rev block))"

definition sha1F :: "nat \<Rightarrow> w32 \<Rightarrow> w32 \<Rightarrow> w32 \<Rightarrow> w32" where
  "sha1F i b c d =
     (if i < 20 then (b AND c) OR (NOT b AND d)
      else if i < 40 then b XOR c XOR d
      else if i < 60 then ((b OR c) AND d) OR (b AND c)
      else b XOR c XOR d)"

definition sha1K :: "nat \<Rightarrow> w32" where
  "sha1K i = (if i < 20 then 0x5A827999 else if i < 40 then 0x6ED9EBA1 else if i < 60 then 0x8F1BBCDC else 0xCA62C1D6)"

fun sha1Round :: "w32 list \<Rightarrow> nat \<times> w32 \<Rightarrow> w32 list" where
  "sha1Round [a, b, c, d, e] (i, w) = [rotl 5 a + sha1F i b c d + e + w + sha1K i, a, rotl 30 b, c, d]"
| "sha1Round s _ = s"

definition sha1Block :: "w32 list \<Rightarrow> w32 list \<Rightarrow> w32 list" where
  "sha1Block st block = map2 (+) st (foldl sha1Round st (zip [0..<80] (sha1Schedule block)))"

definition sha1Sum :: "byte list \<Rightarrow> byte list" where
  "sha1Sum bs = concat (map (\<lambda>w. map byteOf (bigEndian 4 (uint w)))
     (foldl sha1Block sha1Init
       (map (\<lambda>c. map bytesWord (chunks 4 c)) (chunks 64 (shaPad (map uint bs))))))"

definition hmacSha1 :: "byte list \<Rightarrow> byte list \<Rightarrow> byte list" where
  "hmacSha1 key msg =
     (let k = (if 64 < length key then sha1Sum key else key);
          block = k @ replicate (64 - length k) 0
      in sha1Sum (map (\<lambda>b. b XOR 0x5C) block @ sha1Sum (map (\<lambda>b. b XOR 0x36) block @ msg)))"

section \<open>Hexadecimal text\<close>

definition hexEncode :: "byte list \<Rightarrow> string" where
  "hexEncode bs = hexBytes (map uint bs)"

definition hexValue :: "char \<Rightarrow> int option" where
  "hexValue c =
     (let n = of_char c :: int in
      if 48 \<le> n \<and> n \<le> 57 then Some (n - 48)
      else if 97 \<le> n \<and> n \<le> 102 then Some (n - 87)
      else if 65 \<le> n \<and> n \<le> 70 then Some (n - 55)
      else None)"

text \<open>\<open>hex.DecodeString\<close> returns the bytes before the first error.\<close>

fun hexDecode :: "string \<Rightarrow> byte list" where
  "hexDecode (p # q # rest) =
     (case (hexValue p, hexValue q) of
        (Some x, Some y) \<Rightarrow> byteOf (16 * x + y) # hexDecode rest
      | _ \<Rightarrow> [])"
| "hexDecode _ = []"

definition bytesOf :: "string \<Rightarrow> byte list" where
  "bytesOf str = map (\<lambda>c. of_char c) str"

lemma hexValue_hexDigit: "0 \<le> d \<Longrightarrow> d < 16 \<Longrightarrow> hexValue (hexDigit d) = Some d"
proof -
  have "\<forall>d \<in> set (map int [0..<16]). hexValue (hexDigit d) = Some d" by code_simp
  moreover assume "0 \<le> d" "d < 16"
  then have "d \<in> set (map int [0..<16])" by (auto simp: image_iff intro: bexI [of _ "nat d"])
  ultimately show ?thesis by blast
qed

lemma hexDecode_hexEncode [simp]: "hexDecode (hexEncode bs) = bs"
proof (induction bs)
  case (Cons b bs)
  have "0 \<le> uint b div 16" "uint b div 16 < 16" using byte_bound [of b] unsigned_greater_eq [of b] by (auto simp: pos_imp_zdiv_nonneg_iff)
  then have "hexValue (hexDigit (uint b div 16)) = Some (uint b div 16)" "hexValue (hexDigit (uint b mod 16)) = Some (uint b mod 16)"
    by (simp_all add: hexValue_hexDigit)
  with Cons show ?case by (simp add: hexEncode_def hexBytes_def byteOf_def)
qed (simp add: hexEncode_def hexBytes_def)

end
