(* ===== verification/Middleware.thy ===== *)
theory Middleware
  imports Sha1 Jwt Stderr
begin

text \<open>
  The HTTP middleware under \<open>pkg/middleware\<close> and \<open>pkg/xhttp\<close>: the extraction of the client header,
  the check of the request signature, the rate limit, the lock per player, and the adapter that
  authenticates the player and runs a business handler. Gin, the request it parses, the caches
  of go-cache and the Redis lock are parameters, the record \<open>http_env\<close>, over a world \<open>'c\<close> that holds
  the context of the request. A middleware gets the rest of its chain as an argument: each of
  these functions either aborts or calls \<open>c.Next()\<close> last (\<open>LockUser\<close> releases its lock after it).
  Logging, the context value of a header and \<open>errors\<close> text are left out.
\<close>

section \<open>The header\<close>

definition AllInForm :: int where "AllInForm = 0"
definition HeaderFromHeaderAndBodyFromBody :: int where "HeaderFromHeaderAndBodyFromBody = 1"

definition ValidFormat :: "int \<Rightarrow> bool" where
  "ValidFormat f \<longleftrightarrow> f = AllInForm \<or> f = HeaderFromHeaderAndBodyFromBody"

text \<open>\<open>toInt\<close> is \<open>cast.ToInt\<close>; \<open>None\<close> is \<open>ErrInvalidRequestFormat\<close>.\<close>

definition ParseRequestFormat :: "(string \<Rightarrow> int) \<Rightarrow> string \<Rightarrow> int option" where
  "ParseRequestFormat toInt v =
     (if v = '''' then Some AllInForm
      else let format = toInt v in if \<not> ValidFormat format then None else Some format)"

record RawHeader =
  rh_Token :: string
  rh_Lang :: string
  rh_Nonce :: string
  rh_Sign :: string
  rh_DistinctID :: string
  rh_AppVersion :: string
  rh_Platform :: string
  rh_DeviceID :: string
  rh_AppChannel :: string
  rh_AppPlatform :: string
  rh_DeviceOS :: int
  rh_IP :: string

record Header = RawHeader +
  h_Uid :: uint64
  h_Body :: string
  h_RequestFormat :: int

definition NewHeader :: Header where
  "NewHeader = \<lparr>rh_Token = '''', rh_Lang = '''', rh_Nonce = '''', rh_Sign = '''', rh_DistinctID = '''', rh_AppVersion = '''',
     rh_Platform = '''', rh_DeviceID = '''', rh_AppChannel = '''', rh_AppPlatform = '''', rh_DeviceOS = 0, rh_IP = '''',
     h_Uid = 0, h_Body = '''', h_RequestFormat = 0\<rparr>"

section \<open>Responses\<close>

text \<open>The \<open>result\<close> of a response: nil, a text, or the response of a business handler.\<close>

datatype 'd reply_data = NilData | TextData string | RspData "'d option"

record 'd Response =
  rs_code :: int
  rs_msg :: message
  rs_result :: "'d reply_data"

datatype body_error = MaxBytesError | ReadError

record ('c, 'd, 'l) http_env =
  ginGet :: "'c \<Rightarrow> Header option"
  ginSet :: "Header \<Rightarrow> 'c \<Rightarrow> 'c"
  ginJSON :: "int \<Rightarrow> 'd Response \<Rightarrow> 'c \<Rightarrow> 'c"
  ginAbort :: "'c \<Rightarrow> 'c"
  ginGetHeader :: "string \<Rightarrow> 'c \<Rightarrow> string"
  ginClientIP :: "'c \<Rightarrow> string"
  ginReadBody :: "int \<Rightarrow> 'c \<Rightarrow> (body_error + string) \<times> 'c"
  ginSetBody :: "string \<Rightarrow> 'c \<Rightarrow> 'c"
  ginBindHeader :: "Header \<Rightarrow> 'c \<Rightarrow> (string + Header) \<times> 'c"
  ginBindForm :: "Header \<Rightarrow> 'c \<Rightarrow> (string + Header) \<times> 'c"
  castToInt :: "string \<Rightarrow> int"
  httpNow :: "'c \<Rightarrow> gotime \<times> 'c"
  nonceAdd :: "string \<Rightarrow> duration \<Rightarrow> 'c \<Rightarrow> bool \<times> 'c"
  ccGet :: "string \<Rightarrow> 'c \<Rightarrow> int option \<times> 'c"
  ccIncrement :: "string \<Rightarrow> int \<Rightarrow> 'c \<Rightarrow> bool \<times> 'c"
  ccSet :: "string \<Rightarrow> int \<Rightarrow> duration \<Rightarrow> 'c \<Rightarrow> 'c"
  lockTry :: "string \<Rightarrow> 'c \<Rightarrow> (unit + 'l option) \<times> 'c"
  lockRelease :: "'l \<Rightarrow> 'c \<Rightarrow> 'c"

definition httpOk :: "('c, 'd, 'l) http_env \<Rightarrow> 'd reply_data \<Rightarrow> 'c \<Rightarrow> 'c" where
  "httpOk env data = ginJSON env 200 \<lparr>rs_code = 200, rs_msg = MsgOk, rs_result = data\<rparr>"

definition httpFail :: "('c, 'd, 'l) http_env \<Rightarrow> int \<Rightarrow> message \<Rightarrow> 'd reply_data \<Rightarrow> 'c \<Rightarrow> 'c" where
  "httpFail env code msg data = ginJSON env 200 \<lparr>rs_code = code, rs_msg = msg, rs_result = data\<rparr>"

definition refuse :: "('c, 'd, 'l) http_env \<Rightarrow> int \<Rightarrow> message \<Rightarrow> 'd reply_data \<Rightarrow> 'c \<Rightarrow> 'c" where
  "refuse env code msg data c = ginAbort env (httpFail env code msg data c)"

section \<open>Extraction of the header\<close>

definition maxClientRequestBodyBytes :: int where "maxClientRequestBodyBytes = 1048576"

definition ClientExtract :: "('c, 'd, 'l) http_env \<Rightarrow> ('c \<Rightarrow> 'c) \<Rightarrow> 'c \<Rightarrow> 'c" where
  "ClientExtract env nxt c =
     (case ginReadBody env maxClientRequestBodyBytes c of
        (Inl e, c1) \<Rightarrow> refuse env 400 (if e = MaxBytesError then MsgBodyTooLarge else MsgParseRequest) NilData c1
      | (Inr body, c1) \<Rightarrow>
          let c2 = ginSetBody env body c1 in
          case ParseRequestFormat (castToInt env) (ginGetHeader env ''format'' c2) of
            None \<Rightarrow> refuse env 400 MsgBadFormat NilData c2
          | Some format \<Rightarrow>
              let bound = (if format = HeaderFromHeaderAndBodyFromBody
                           then (case ginBindHeader env NewHeader c2 of
                                   (Inl e, c3) \<Rightarrow> (Inl (MsgParseHeader, e), c3)
                                 | (Inr h, c3) \<Rightarrow> (Inr (h\<lparr>h_Body := body\<rparr>), c3))
                           else (case ginBindForm env NewHeader c2 of
                                   (Inl e, c3) \<Rightarrow> (Inl (MsgParseParams, e), c3)
                                 | (Inr h, c3) \<Rightarrow> (Inr h, c3)))
              in case bound of
                   (Inl (msg, e), c3) \<Rightarrow> refuse env 400 msg (TextData e) c3
                 | (Inr request, c3) \<Rightarrow>
                     nxt (ginSet env (request\<lparr>rh_IP := ginClientIP env c3, h_RequestFormat := format\<rparr>) (ginSetBody env body c3)))"

section \<open>The signature of a request\<close>

definition SignKey :: string where "SignKey = ''Rjxj4rBKoXHeQZeeScHBT7fnYI6n4Ij8''"

definition Hmac :: "string \<Rightarrow> string \<Rightarrow> string" where
  "Hmac key data = hexEncode (hmacSha1 (bytesOf key) (bytesOf data))"

text \<open>A nonce is remembered for five minutes; the empty nonce is always accepted.\<close>

definition checkNonceValid :: "('c, 'd, 'l) http_env \<Rightarrow> string \<Rightarrow> 'c \<Rightarrow> bool \<times> 'c" where
  "checkNonceValid env nonce c = (if nonce = '''' then (True, c) else nonceAdd env nonce (5 * Minute) c)"

definition signParam :: "Header \<Rightarrow> string \<Rightarrow> string" where
  "signParam h param =
     (if param = ''token'' then rh_Token h else if param = ''lang'' then rh_Lang h
      else if param = ''nonce'' then rh_Nonce h else '''')"

definition signText :: "Header \<Rightarrow> string" where
  "signText h =
     concat (map (\<lambda>(i, param). (if 0 < (i::nat) then ''&'' else '''') @ param @ ''='' @ signParam h param)
       (enumerate 0 [''token'', ''lang'', ''nonce'']))
     @ ''&body='' @ EncodeToString (bytesOf (h_Body h))"

definition CheckClientSign :: "('c, 'd, 'l) http_env \<Rightarrow> ('c \<Rightarrow> 'c) \<Rightarrow> 'c \<Rightarrow> 'c" where
  "CheckClientSign env nxt c =
     (case ginGet env c of
        None \<Rightarrow> refuse env 400 MsgNoHeader NilData c
      | Some header \<Rightarrow>
          if h_RequestFormat header = HeaderFromHeaderAndBodyFromBody then nxt c
          else if length (rh_Sign header) = 0 then refuse env 403 MsgNoSign NilData c
          else case checkNonceValid env (rh_Nonce header) c of
            (False, c1) \<Rightarrow> refuse env 400 MsgReplayed NilData c1
          | (True, c1) \<Rightarrow>
              let hexString = hexDecode (Hmac SignKey (signText header));
                  base64String = EncodeToString hexString
              in if base64String \<noteq> rh_Sign header then refuse env 400 MsgBadSign NilData c1 else nxt c1)"

section \<open>Rate limit and lock\<close>

definition Limiter :: "('c, 'd, 'l) http_env \<Rightarrow> string \<Rightarrow> int \<Rightarrow> int \<Rightarrow> ('c \<Rightarrow> 'c) \<Rightarrow> 'c \<Rightarrow> 'c" where
  "Limiter env limitType lim sec nxt c =
     (case ginGet env c of
        None \<Rightarrow> refuse env 400 MsgBadParams (TextData '''') c
      | Some request \<Rightarrow>
          let target = (if length (rh_DeviceID request) = 0 then ginClientIP env c else rh_DeviceID request);
              key = limitType @ ''.'' @ target
          in case ccGet env key c of
               (Some count, c1) \<Rightarrow>
                 if lim \<le> count then refuse env 429 MsgTooFrequent (TextData '''') c1
                 else (case ccIncrement env key 1 c1 of
                     (False, c2) \<Rightarrow> refuse env 429 MsgTooFrequent (TextData '''') c2
                   | (True, c2) \<Rightarrow> nxt c2)
             | (None, c1) \<Rightarrow> nxt (ccSet env key 1 (wrap64 (Second * sec)) c1))"

definition LockUser :: "('c, 'd, 'l) http_env \<Rightarrow> (uint64 \<Rightarrow> string) \<Rightarrow> ('c \<Rightarrow> 'c) \<Rightarrow> 'c \<Rightarrow> 'c" where
  "LockUser env keyFn nxt c =
     (case ginGet env c of
        None \<Rightarrow> refuse env 400 MsgBadParams (TextData '''') c
      | Some request \<Rightarrow>
          (case lockTry env (keyFn (h_Uid request)) c of
             (Inl _, c1) \<Rightarrow> refuse env 500 MsgSystem (TextData '''') c1
           | (Inr None, c1) \<Rightarrow> refuse env 429 MsgTooFrequent (TextData '''') c1
           | (Inr (Some lease), c1) \<Rightarrow> lockRelease env lease (nxt c1)))"

section \<open>Business handlers\<close>

text \<open>A handler gets the header and the bound request and returns a response, an error or both.\<close>

type_synonym ('c, 'req, 'd) StdFunc = "Header \<Rightarrow> 'req \<Rightarrow> 'c \<Rightarrow> ('d option \<times> Error option) \<times> 'c"

definition answer :: "('c, 'd, 'l) http_env \<Rightarrow> ('d option \<times> Error option) \<times> 'c \<Rightarrow> 'c" where
  "answer env r = (case r of
       ((rsp, Some e), c) \<Rightarrow> httpFail env (e_Code e) (e_Msg e) (RspData rsp) c
     | ((rsp, None), c) \<Rightarrow> httpOk env (RspData rsp) c)"

text \<open>\<open>bind\<close> is \<open>c.ShouldBind\<close> for the request type of the handler.\<close>

definition bindAndRun ::
  "('c, 'd, 'l) http_env \<Rightarrow> ('c \<Rightarrow> 'req option \<times> 'c) \<Rightarrow> ('req \<Rightarrow> 'c \<Rightarrow> ('d option \<times> Error option) \<times> 'c) \<Rightarrow> 'c \<Rightarrow> 'c" where
  "bindAndRun env bind run c = (case bind c of
       (None, c1) \<Rightarrow> refuse env 400 MsgParseRequest NilData c1
     | (Some req, c1) \<Rightarrow> answer env (run req c1))"

definition stdHandler ::
  "('c, 'd, 'l) http_env \<Rightarrow> jwt_lib \<Rightarrow> byte list option \<Rightarrow> ('c \<Rightarrow> 'req option \<times> 'c) \<Rightarrow> ('c, 'req, 'd) StdFunc \<Rightarrow> bool \<Rightarrow> 'c \<Rightarrow> 'c" where
  "stdHandler env lib pkv bind handler checkUID c =
     (case ginGet env c of
        None \<Rightarrow> refuse env 400 MsgNoHeader NilData c
      | Some header \<Rightarrow>
          if checkUID then
            (case httpNow env c of (now, c1) \<Rightarrow>
              (case AuthAccessToken lib now pkv (rh_Token header) of
                 Inl _ \<Rightarrow> refuse env 401 MsgTokenInvalid NilData c1
               | Inr uidValue \<Rightarrow>
                   (case ParseUint64 uidValue of
                      None \<Rightarrow> refuse env 401 MsgTokenUid NilData c1
                    | Some uid \<Rightarrow>
                        if uid = 0 then refuse env 401 MsgTokenUid NilData c1
                        else let header1 = header\<lparr>h_Uid := uid\<rparr>
                             in bindAndRun env bind (handler header1) (ginSet env header1 c1))))
          else bindAndRun env bind (handler header) c)"

definition UidHandler where
  "UidHandler env lib pkv bind handler = stdHandler env lib pkv bind handler True"

definition NoUidHandler where
  "NoUidHandler env lib pkv bind handler = stdHandler env lib pkv bind handler False"

definition NoHeadHandler ::
  "('c, 'd, 'l) http_env \<Rightarrow> ('c \<Rightarrow> 'req option \<times> 'c) \<Rightarrow> ('req \<Rightarrow> 'c \<Rightarrow> ('d option \<times> Error option) \<times> 'c) \<Rightarrow> 'c \<Rightarrow> 'c" where
  "NoHeadHandler env bind handler = bindAndRun env bind handler"

section \<open>The form in the access log\<close>

text \<open>
  \<open>strings.ToLower\<close>, as far as ASCII results go: apart from the capital letters only the dotted
  capital I (bytes C4 B0) and the Kelvin sign (bytes E2 84 AA) have an ASCII letter as their lower case. The keys
  below are compared with ASCII texts only.
\<close>

definition lowerChar :: "char \<Rightarrow> char" where
  "lowerChar c = (let n = of_char c :: nat in if 65 \<le> n \<and> n \<le> 90 then char_of (n + 32) else c)"

fun ToLower :: "string \<Rightarrow> string" where
  "ToLower [] = []"
| "ToLower (c # cs) =
     (if c = CHR 0xC4 \<and> take 1 cs = [CHR 0xB0] then CHR ''i'' # ToLower (drop 1 cs)
      else if c = CHR 0xE2 \<and> take 2 cs = [CHR 0x84, CHR 0xAA] then CHR ''k'' # ToLower (drop 2 cs)
      else lowerChar c # ToLower cs)"

fun hasPrefix :: "string \<Rightarrow> string \<Rightarrow> bool" where
  "hasPrefix [] _ = True"
| "hasPrefix (x # xs) (y # ys) = (x = y \<and> hasPrefix xs ys)"
| "hasPrefix (x # xs) [] = False"

fun containsStr :: "string \<Rightarrow> string \<Rightarrow> bool" where
  "containsStr [] sub = (sub = [])"
| "containsStr (c # cs) sub = (hasPrefix sub (c # cs) \<or> containsStr cs sub)"

definition sensitive :: "string \<Rightarrow> bool" where
  "sensitive key =
     (let lowerKey = ToLower key in
      containsStr lowerKey ''token'' \<or> containsStr lowerKey ''secret'' \<or> containsStr lowerKey ''password''
      \<or> lowerKey = ''code'' \<or> lowerKey = ''guest_id'')"

definition redactForm :: "(string \<rightharpoonup> string list) \<Rightarrow> (string \<rightharpoonup> string list)" where
  "redactForm form = (\<lambda>key. map_option (\<lambda>vals. if sensitive key then [''[REDACTED]''] else vals) (form key))"

end
