(* ===== verification/MiddlewareProps.thy ===== *)
theory MiddlewareProps
  imports Middleware JwtProps
begin

text \<open>
  What the middleware guarantees: the player a business handler sees is the one its access token
  was signed for, the signature check is HMAC-SHA-1 of the canonical text of the request, and a
  rate limit lets at most its number of requests through in a window. Locale \<open>http_cache\<close> states
  what the rate limit relies on.
\<close>

section \<open>Authentication\<close>

definition provenBy :: "jwt_lib \<Rightarrow> (byte list \<Rightarrow> byte list) \<Rightarrow> byte list \<Rightarrow> string \<Rightarrow> uint64 \<Rightarrow> bool" where
  "provenBy lib pub pk tok uid \<longleftrightarrow> 0 < uid \<and>
     (\<exists>sk cl. length sk = PrivateKeySize \<and> pub sk = pk \<and> SignedString lib sk accessTokenType cl = Some tok
        \<and> ParseUint64 (jc_Subject cl) = Some uid)"

definition refused :: "('c, 'd, 'l) http_env \<Rightarrow> int set \<Rightarrow> 'c \<Rightarrow> bool" where
  "refused env codes c \<longleftrightarrow> (\<exists>code msg data c'. code \<in> codes \<and> c = refuse env code msg data c')"

lemma bindAndRun_cases:
  obtains "refused env {400} (bindAndRun env bind run c)"
  | req c1 where "bind c = (Some req, c1)" "bindAndRun env bind run c = answer env (run req c1)"
proof (cases "bind c")
  case (Pair r c1)
  then show ?thesis by (cases r) (use that in \<open>force simp: bindAndRun_def refused_def\<close>)+
qed

context signed_tokens
begin

lemma UidHandler_proven:
  obtains "refused env {400, 401} (UidHandler env lib (Some pk) bind handler c)"
  | h uid req c1 where "ginGet env c = Some h" "provenBy lib pub pk (rh_Token h) uid"
      "UidHandler env lib (Some pk) bind handler c = answer env (handler (h\<lparr>h_Uid := uid\<rparr>) req c1)"
proof -
  let ?R = "UidHandler env lib (Some pk) bind handler c"
  consider (no) "refused env {400, 401} ?R"
    | (yes) h now c1 v uid where "ginGet env c = Some h" "httpNow env c = (now, c1)" "AuthAccessToken lib now (Some pk) (rh_Token h) = Inr v"
        "ParseUint64 v = Some uid" "uid \<noteq> 0"
        "?R = bindAndRun env bind (handler (h\<lparr>h_Uid := uid\<rparr>)) (ginSet env (h\<lparr>h_Uid := uid\<rparr>) c1)"
  proof (cases "ginGet env c")
    case (Some h)
    obtain now c1 where n: "httpNow env c = (now, c1)" by fastforce
    show ?thesis
    proof (cases "AuthAccessToken lib now (Some pk) (rh_Token h)")
      case (Inr v)
      then show ?thesis using Some n that
        by (cases "ParseUint64 v") (force simp: UidHandler_def stdHandler_def refused_def Let_def split: if_splits)+
    qed (use Some n that in \<open>force simp: UidHandler_def stdHandler_def refused_def\<close>)
  qed (use that in \<open>force simp: UidHandler_def stdHandler_def refused_def\<close>)
  then show thesis
  proof cases
    case no
    then show ?thesis by (rule that(1))
  next
    case yes
    from yes(3) have "verify lib now pk (rh_Token h) accessProfile = Inr v" by (simp add: AuthAccessToken_def auth_def)
    from verify_signed [OF this] yes(4,5) have p: "provenBy lib pub pk (rh_Token h) uid"
      by (auto simp: provenBy_def accessProfile_def)
    show ?thesis
      by (rule bindAndRun_cases [of env bind "handler (h\<lparr>h_Uid := uid\<rparr>)" "ginSet env (h\<lparr>h_Uid := uid\<rparr>) c1"])
        (use yes(1,6) p that in \<open>auto simp: refused_def\<close>)
  qed
qed

lemma UidHandler_issued:
  assumes "length sk = PrivateKeySize" and "0 < uid" "uid < 2 ^ 64" and "length rnd = 16" and "0 \<le> t" "t < 2 ^ 63"
    and "GenerateAccessToken lib sk (decimal uid) (Some rnd) t = Inr (rh_Token h)"
    and "ginGet env c = Some h" and "httpNow env c = (now, c1)" and "t \<le> now" "now < t + AccessTokenTTL"
    and "bind (ginSet env (h\<lparr>h_Uid := uid\<rparr>) c1) = (Some req, c2)"
  shows "UidHandler env lib (Some (pub sk)) bind handler c = answer env (handler (h\<lparr>h_Uid := uid\<rparr>) req c2)"
proof -
  have "validFrom lib (pub sk) accessProfile (decimal uid) t (rh_Token h)"
    using generated_lifetime [of accessProfile sk "decimal uid" rnd t] assms(1,4-7) by (simp add: ours_def GenerateAccessToken_def)
  with assms(10,11) have "AuthAccessToken lib now (Some (pub sk)) (rh_Token h) = Inr (decimal uid)"
    by (simp add: validFrom_def AuthAccessToken_def auth_def accessProfile_def)
  with assms(2,3,8,9,12) show ?thesis by (simp add: UidHandler_def stdHandler_def bindAndRun_def Let_def)
qed

end

section \<open>The signature\<close>

definition canonical :: "Header \<Rightarrow> string" where
  "canonical h = ''token='' @ rh_Token h @ ''&lang='' @ rh_Lang h @ ''&nonce='' @ rh_Nonce h
     @ ''&body='' @ EncodeToString (bytesOf (h_Body h))"

definition signature :: "Header \<Rightarrow> string" where
  "signature h = EncodeToString (hmacSha1 (bytesOf SignKey) (bytesOf (canonical h)))"

lemma signText_canonical: "signText h = canonical h"
  by (simp add: signText_def signParam_def canonical_def)

lemma signature_hex: "EncodeToString (hexDecode (Hmac SignKey (signText h))) = signature h"
  by (simp add: Hmac_def signature_def signText_canonical)

section \<open>The rate limit\<close>

text \<open>The key a request is counted under: the device, or the address when there is none.\<close>

definition limitKey :: "('c, 'd, 'l) http_env \<Rightarrow> string \<Rightarrow> 'c \<Rightarrow> string option" where
  "limitKey env limitType c = map_option (\<lambda>h. limitType @ ''.'' @
     (if length (rh_DeviceID h) = 0 then ginClientIP env c else rh_DeviceID h)) (ginGet env c)"

definition liveAt :: "(int \<times> gotime) option \<Rightarrow> gotime \<Rightarrow> int option" where
  "liveAt e now = (case e of Some (n, expiry) \<Rightarrow> if now \<le> expiry then Some n else None | None \<Rightarrow> None)"

text \<open>
  go-cache: \<open>entry c\<close> are the counters with their expiry, \<open>time c\<close> is the clock, which every call may
  advance. \<open>passed c\<close> counts the requests that got through so far.
\<close>

locale rate_cache =
  fixes env :: "('c, 'd, 'l) http_env" and entry :: "'c \<Rightarrow> string \<rightharpoonup> int \<times> gotime" and time :: "'c \<Rightarrow> gotime"
    and passed :: "'c \<Rightarrow> nat"
  assumes get_law: "ccGet env k c = (r, c') \<Longrightarrow>
      time c \<le> time c' \<and> passed c' = passed c \<and> entry c' = entry c \<and> r = liveAt (entry c k) (time c')"
    and inc_law: "ccIncrement env k d c = (b, c') \<Longrightarrow> time c \<le> time c' \<and> passed c' = passed c \<and>
      (b \<longleftrightarrow> liveAt (entry c k) (time c') \<noteq> None) \<and>
      entry c' = (if b then (entry c)(k := map_option (apfst ((+) d)) (entry c k)) else entry c)"
    and set_law: "0 < ttl \<Longrightarrow> c' = ccSet env k v ttl c \<Longrightarrow>
      time c \<le> time c' \<and> passed c' = passed c \<and> entry c' = (entry c)(k \<mapsto> (v, time c' + ttl))"
    and json_law: "entry (ginJSON env st rsp c) = entry c \<and> passed (ginJSON env st rsp c) = passed c \<and> time c \<le> time (ginJSON env st rsp c)"
    and abort_law: "entry (ginAbort env c) = entry c \<and> passed (ginAbort env c) = passed c \<and> time c \<le> time (ginAbort env c)"
begin

definition quiet :: "('c \<Rightarrow> 'c) \<Rightarrow> nat \<Rightarrow> bool" where
  "quiet f n \<longleftrightarrow> (\<forall>c. entry (f c) = entry c \<and> passed (f c) = passed c + n \<and> time c \<le> time (f c))"

lemma refuse_quiet: "quiet (refuse env code msg data) 0"
  using json_law abort_law by (auto simp: quiet_def refuse_def httpFail_def) (meson order_trans)

text \<open>What one request does to its counter while the window that began at \<open>t0\<close> lasts.\<close>

definition counted :: "int \<Rightarrow> gotime \<Rightarrow> duration \<Rightarrow> nat \<Rightarrow> string \<Rightarrow> 'c \<Rightarrow> bool" where
  "counted lim t0 ttl p0 k c \<longleftrightarrow> t0 \<le> time c \<and>
     (case entry c k of
        None \<Rightarrow> passed c = p0
      | Some (n, e) \<Rightarrow> t0 + ttl \<le> e \<and> p0 \<le> passed c \<and> n = int (passed c - p0) \<and> 1 \<le> n \<and> n \<le> max 1 lim)"

lemma counted_quiet: "quiet f 0 \<Longrightarrow> counted lim t0 ttl p0 k c \<Longrightarrow> counted lim t0 ttl p0 k (f c)"
proof -
  assume "quiet f 0" and c: "counted lim t0 ttl p0 k c"
  then have "entry (f c) = entry c" "passed (f c) = passed c" "time c \<le> time (f c)" by (simp_all add: quiet_def)
  with c show ?thesis by (auto simp: counted_def split: option.split)
qed

lemma Limiter_time:
  assumes "quiet nxt 1" "0 < wrap64 (Second * sec)"
  shows "time c \<le> time (Limiter env ty lim sec nxt c)"
proof -
  have r: "time d \<le> time (refuse env code msg data d)" for code msg data d using refuse_quiet by (simp add: quiet_def)
  have n: "time d \<le> time (nxt d)" for d using assms(1) by (simp add: quiet_def)
  show ?thesis
  proof (cases "limitKey env ty c")
    case None
    with r [of c] show ?thesis by (simp add: Limiter_def limitKey_def)
  next
    case (Some k)
    obtain x c1 where g: "ccGet env k c = (x, c1)" by fastforce
    obtain b c2 where i: "ccIncrement env k 1 c1 = (b, c2)" by fastforce
    have "time c \<le> time c1" "time c1 \<le> time c2" "time c1 \<le> time (ccSet env k 1 (wrap64 (Second * sec)) c1)"
      using get_law [OF g] inc_law [OF i] set_law [OF assms(2), of _ k 1 c1] by simp_all
    then have "time c \<le> time (nxt c2)" "time c \<le> time (nxt (ccSet env k 1 (wrap64 (Second * sec)) c1))"
        "time c \<le> time (refuse env 429 MsgTooFrequent (TextData []) c1)" "time c \<le> time (refuse env 429 MsgTooFrequent (TextData []) c2)"
      using r n by (meson order_trans)+
    with Some g i show ?thesis by (auto simp: Limiter_def limitKey_def Let_def split: option.split bool.split)
  qed
qed

lemma Limiter_counted:
  assumes nxt: "quiet nxt 1" and ttl: "wrap64 (Second * sec) = ttl" "0 < ttl" and key: "limitKey env ty c = Some k"
    and inv: "counted lim t0 ttl p0 k c" and window: "time (Limiter env ty lim sec nxt c) \<le> t0 + ttl"
  shows "counted lim t0 ttl p0 k (Limiter env ty lim sec nxt c)"
proof -
  obtain r c1 where g: "ccGet env k c = (r, c1)" by fastforce
  from get_law [OF this] have c1: "time c \<le> time c1" "passed c1 = passed c" "entry c1 = entry c" "r = liveAt (entry c k) (time c1)"
    by simp_all
  have body: "Limiter env ty lim sec nxt c = (case r of
       Some n \<Rightarrow> if lim \<le> n then refuse env 429 MsgTooFrequent (TextData []) c1
         else (case ccIncrement env k 1 c1 of (False, c2) \<Rightarrow> refuse env 429 MsgTooFrequent (TextData []) c2 | (True, c2) \<Rightarrow> nxt c2)
     | None \<Rightarrow> nxt (ccSet env k 1 ttl c1))"
    using key g ttl(1) by (auto simp: Limiter_def limitKey_def Let_def)
  have inv1: "counted lim t0 ttl p0 k c1" using inv c1 by (auto simp: counted_def split: option.splits)
  have refuse: "counted lim t0 ttl p0 k d \<Longrightarrow> counted lim t0 ttl p0 k (refuse env code msg data d)" for d code msg data
    using counted_quiet [OF refuse_quiet] .
  have nxtD: "entry (nxt d) = entry d" "passed (nxt d) = Suc (passed d)" "time d \<le> time (nxt d)" for d
    using nxt by (simp_all add: quiet_def)
  have refuseD: "time d \<le> time (refuse env code msg data d)" for d code msg data using refuse_quiet by (simp add: quiet_def)
  show ?thesis
  proof (cases r)
    case None
    define d where "d = ccSet env k 1 ttl c1"
    from set_law [OF ttl(2) this] have d: "time c1 \<le> time d" "passed d = passed c" "entry d = (entry c)(k \<mapsto> (1, time d + ttl))"
      using c1 by simp_all
    from None body have b: "Limiter env ty lim sec nxt c = nxt d" by (simp add: d_def)
    have "time c1 \<le> t0 + ttl" using window b nxtD(3) [of d] d(1) by simp
    with None c1(4) inv have "entry c k = None" by (auto simp: counted_def liveAt_def split: option.splits)
    with inv have "passed c = p0" "t0 \<le> time c" by (simp_all add: counted_def)
    with b d nxtD [of d] c1(1) show ?thesis by (simp add: counted_def)
  next
    case (Some n)
    then obtain e where e: "entry c k = Some (n, e)" using c1(4) by (auto simp: liveAt_def split: option.splits if_splits)
    show ?thesis
    proof (cases "lim \<le> n")
      case True
      with Some body refuse [OF inv1] show ?thesis by simp
    next
      case False
      obtain b c2 where i: "ccIncrement env k 1 c1 = (b, c2)" by fastforce
      from inc_law [OF this] have c2: "time c1 \<le> time c2" "passed c2 = passed c"
          "entry c2 = (if b then (entry c)(k \<mapsto> (n + 1, e)) else entry c)"
        using c1 e by (auto simp: add.commute)
      show ?thesis
      proof (cases b)
        case True
        with Some False body i have "Limiter env ty lim sec nxt c = nxt c2" by simp
        with True inv e c2 c1(1) nxtD [of c2] False show ?thesis by (auto simp: counted_def)
      next
        case False
        with c2 inv c1(1) have "counted lim t0 ttl p0 k c2" by (auto simp: counted_def split: option.splits)
        with False Some \<open>\<not> lim \<le> n\<close> body i refuse show ?thesis by simp
      qed
    qed
  qed
qed

end

context rate_cache
begin

lemma Limiter_run:
  assumes nxt: "quiet nxt 1" and ttl: "wrap64 (Second * sec) = ttl" "0 < ttl"
    and arr: "\<forall>a \<in> set arrivals. quiet a 0 \<and> (\<forall>c. limitKey env ty (a c) = Some k)"
    and inv: "counted lim t0 ttl p0 k c"
    and window: "time (fold (\<lambda>a c. Limiter env ty lim sec nxt (a c)) arrivals c) \<le> t0 + ttl"
  shows "counted lim t0 ttl p0 k (fold (\<lambda>a c. Limiter env ty lim sec nxt (a c)) arrivals c)"
  using arr inv window
proof (induction arrivals arbitrary: c)
  case (Cons a arrivals)
  let ?c = "Limiter env ty lim sec nxt (a c)"
  have a: "counted lim t0 ttl p0 k (a c)" using Cons.prems(1,2) counted_quiet [of a] by simp
  have mono: "time d \<le> time (fold (\<lambda>a c. Limiter env ty lim sec nxt (a c)) as d)" if "\<forall>a \<in> set as. quiet a 0" for as d
    using that
  proof (induction as arbitrary: d)
    case (Cons b as)
    have "time d \<le> time (b d)" using Cons.prems by (simp add: quiet_def)
    also have "\<dots> \<le> time (Limiter env ty lim sec nxt (b d))" using Limiter_time [OF nxt] ttl by simp
    also have "\<dots> \<le> time (fold (\<lambda>a c. Limiter env ty lim sec nxt (a c)) as (Limiter env ty lim sec nxt (b d)))"
      using Cons by simp
    finally show ?case by simp
  qed simp
  have "time ?c \<le> t0 + ttl" using mono [of arrivals ?c] Cons.prems(1,3) by simp
  with Limiter_counted [OF nxt ttl _ a] Cons.prems(1) have "counted lim t0 ttl p0 k ?c" by simp
  with Cons show ?case by simp
qed simp

end

section \<open>The header along a chain\<close>

text \<open>
  \<open>ginGet\<close> returns what \<open>ginSet\<close> stored; binding a header leaves the fields that are tagged \<open>-\<close>, among
  them the player; \<open>tried c\<close> are the lock keys that were tried so far.
\<close>

locale header_ctx =
  fixes env :: "('c, 'd, 'l) http_env" and tried :: "'c \<Rightarrow> string list"
  assumes get_set: "ginGet env (ginSet env h c) = Some h"
    and bind_header: "ginBindHeader env h c = (Inr h', c') \<Longrightarrow> h_Uid h' = h_Uid h"
    and bind_form: "ginBindForm env h c = (Inr h', c') \<Longrightarrow> h_Uid h' = h_Uid h"
    and header_kept: "ginGet env (snd (nonceAdd env k d c)) = ginGet env c" "ginGet env (snd (ccGet env k c)) = ginGet env c"
      "ginGet env (snd (ccIncrement env k n c)) = ginGet env c" "ginGet env (ccSet env k n d c) = ginGet env c"
    and tried_lock: "tried (snd (lockTry env k c)) = tried c @ [k]"
    and tried_kept: "tried (ginSet env h c) = tried c" "tried (ginJSON env st rsp c) = tried c" "tried (ginAbort env c) = tried c"
      "tried (ginSetBody env b c) = tried c" "tried (snd (ginReadBody env lim c)) = tried c" "tried (snd (ginBindHeader env h c)) = tried c"
      "tried (snd (ginBindForm env h c)) = tried c" "tried (snd (httpNow env c)) = tried c" "tried (snd (nonceAdd env k d c)) = tried c"
      "tried (snd (ccGet env k c)) = tried c" "tried (snd (ccIncrement env k n c)) = tried c" "tried (ccSet env k n d c) = tried c"
      "tried (lockRelease env l c) = tried c"
begin

lemma tried_pair:
  "ginReadBody env lim c = (x, c') \<Longrightarrow> tried c' = tried c"
  "ginBindHeader env h c = (y, c') \<Longrightarrow> tried c' = tried c"
  "ginBindForm env h c = (y, c') \<Longrightarrow> tried c' = tried c"
  "httpNow env c = (t, c') \<Longrightarrow> tried c' = tried c"
  "nonceAdd env k d c = (b, c') \<Longrightarrow> tried c' = tried c"
  "ccGet env k c = (v, c') \<Longrightarrow> tried c' = tried c"
  "ccIncrement env k n c = (b, c') \<Longrightarrow> tried c' = tried c"
  "lockTry env k c = (lk, c') \<Longrightarrow> tried c' = tried c @ [k]"
  by (metis tried_kept tried_lock snd_conv)+

lemma header_pair:
  "nonceAdd env k d c = (b, c') \<Longrightarrow> ginGet env c' = ginGet env c"
  "ccGet env k c = (v, c') \<Longrightarrow> ginGet env c' = ginGet env c"
  "ccIncrement env k n c = (b, c') \<Longrightarrow> ginGet env c' = ginGet env c"
  by (metis header_kept snd_conv)+

lemma tried_refuse [simp]: "tried (refuse env code msg data c) = tried c"
  by (simp add: refuse_def httpFail_def tried_kept)

lemma tried_answer [simp]: "tried (answer env r) = tried (snd r)"
  by (simp add: answer_def httpFail_def httpOk_def tried_kept split: prod.split option.split)

text \<open>
  \<open>locksOnly K P f\<close>: started in a context whose header, if any, has the property \<open>P\<close>, the chain \<open>f\<close> tries
  locks with keys of \<open>K\<close> only.
\<close>

definition grew :: "string set \<Rightarrow> 'c \<Rightarrow> 'c \<Rightarrow> bool" where
  "grew K c d \<longleftrightarrow> set (tried d) \<subseteq> set (tried c) \<union> K"

definition locksOnly :: "string set \<Rightarrow> (Header \<Rightarrow> bool) \<Rightarrow> ('c \<Rightarrow> 'c) \<Rightarrow> bool" where
  "locksOnly K P f \<longleftrightarrow> (\<forall>c. pred_option P (ginGet env c) \<longrightarrow> grew K c (f c))"

lemma grew_same: "tried d = tried c \<Longrightarrow> grew K c d"
  by (simp add: grew_def)

lemma grew_refuse: "tried d = tried c \<Longrightarrow> grew K c (refuse env code msg data d)"
  by (simp add: grew_def)

lemma grew_nxt:
  assumes "locksOnly K P nxt" "pred_option P (ginGet env d)" "tried d = tried c"
  shows "grew K c (nxt d)"
  using assms unfolding locksOnly_def grew_def by metis

lemma locksOnly_CheckClientSign:
  assumes "locksOnly K P nxt"
  shows "locksOnly K P (CheckClientSign env nxt)"
  unfolding locksOnly_def CheckClientSign_def checkNonceValid_def Let_def
  by (auto intro!: grew_refuse grew_nxt [OF assms] simp: tried_pair header_pair split: option.split prod.split bool.split)

lemma locksOnly_Limiter:
  assumes "locksOnly K P nxt"
  shows "locksOnly K P (Limiter env ty lim sec nxt)"
  unfolding locksOnly_def Limiter_def Let_def
  by (auto intro!: grew_refuse grew_nxt [OF assms] simp: tried_kept header_kept tried_pair header_pair split: option.split prod.split bool.split)

lemma locksOnly_LockUser:
  assumes "locksOnly K (\<lambda>_. True) nxt"
  shows "locksOnly (insert (keyFn 0) K) (\<lambda>h. h_Uid h = 0) (LockUser env keyFn nxt)"
proof -
  have "grew (insert (keyFn 0) K) c (LockUser env keyFn nxt c)" if "ginGet env c = Some h" "h_Uid h = 0" for c h
  proof -
    obtain r c1 where l: "lockTry env (keyFn 0) c = (r, c1)" by fastforce
    have "grew K c1 (nxt c1)" using grew_nxt [OF assms, of c1 c1] by (simp add: pred_option_def)
    with l that show ?thesis
      by (auto simp: LockUser_def grew_def tried_kept tried_pair split: sum.split option.split)
  qed
  then show ?thesis
    by (auto simp: locksOnly_def LockUser_def grew_same split: option.split)
qed

lemma locksOnly_ClientExtract:
  assumes "locksOnly K (\<lambda>h. h_Uid h = 0) nxt"
  shows "locksOnly K (\<lambda>_. True) (ClientExtract env nxt)"
proof -
  have new: "h_Uid NewHeader = 0" by (simp add: NewHeader_def)
  have stored: "grew K c (nxt (ginSet env (h\<lparr>rh_IP := ip, h_RequestFormat := f\<rparr>) (ginSetBody env b d)))"
    if "h_Uid h = 0" "tried d = tried c" for h ip f b c d
    using grew_nxt [OF assms, of "ginSet env (h\<lparr>rh_IP := ip, h_RequestFormat := f\<rparr>) (ginSetBody env b d)" c] that
    by (simp add: get_set tried_kept)
  show ?thesis
    unfolding locksOnly_def ClientExtract_def Let_def
    by (auto intro!: grew_refuse stored dest: bind_header bind_form simp: tried_kept tried_pair new split: option.split prod.split sum.split)
qed

lemma locksOnly_UidHandler:
  assumes "\<And>h req c. tried (snd (handler h req c)) = tried c" and "\<And>c. tried (snd (bind c)) = tried c"
  shows "locksOnly {} P (UidHandler env lib pkv bind handler)"
proof -
  have b: "bind c = (x, c') \<Longrightarrow> tried c' = tried c" for c x c' using assms(2) [of c] by simp
  then have "tried (bindAndRun env bind (handler h) c) = tried c" for h c
    by (auto simp: bindAndRun_def assms(1) split: prod.split option.split)
  then show ?thesis unfolding locksOnly_def UidHandler_def stdHandler_def Let_def
    by (auto intro!: grew_same simp: tried_kept tried_pair split: option.split prod.split sum.split)
qed

end

end
