(* ===== verification/HttpWorld.thy ===== *)
theory HttpWorld
  imports MiddlewareProps
begin

text \<open>
  An executable world for the middleware, with a clock that every cache access advances by one
  nanosecond, the interpretation of the interfaces on it, and the properties of the single
  middlewares.
\<close>

record mem_http =
  mh_header :: "Header option"
  mh_form :: "Header option"
  mh_headers :: "string \<rightharpoonup> string"
  mh_body :: string
  mh_ip :: string
  mh_sent :: "(int \<times> message) list"
  mh_aborted :: bool
  mh_time :: gotime
  mh_nonces :: "string \<rightharpoonup> gotime"
  mh_counts :: "string \<rightharpoonup> int \<times> gotime"
  mh_locks :: "string list"
  mh_tried :: "string list"
  mh_passed :: nat

definition memBind :: "Header \<Rightarrow> mem_http \<Rightarrow> (string + Header) \<times> mem_http" where
  "memBind h c = (case mh_form c of
       None \<Rightarrow> (Inl ''bad form'', c)
     | Some f \<Rightarrow> (Inr (f\<lparr>rh_IP := rh_IP h, h_Uid := h_Uid h, h_RequestFormat := h_RequestFormat h\<rparr>), c))"

definition memHttp :: "(mem_http, 'd, string) http_env" where
  "memHttp = \<lparr>
     ginGet = mh_header,
     ginSet = (\<lambda>h c. c\<lparr>mh_header := Some h\<rparr>),
     ginJSON = (\<lambda>_ r c. c\<lparr>mh_sent := mh_sent c @ [(rs_code r, rs_msg r)]\<rparr>),
     ginAbort = (\<lambda>c. c\<lparr>mh_aborted := True\<rparr>),
     ginGetHeader = (\<lambda>k c. case mh_headers c k of None \<Rightarrow> [] | Some v \<Rightarrow> v),
     ginClientIP = mh_ip,
     ginReadBody = (\<lambda>n c. if n < int (length (mh_body c)) then (Inl MaxBytesError, c) else (Inr (mh_body c), c)),
     ginSetBody = (\<lambda>b c. c\<lparr>mh_body := b\<rparr>),
     ginBindHeader = memBind,
     ginBindForm = memBind,
     castToInt = (\<lambda>v. case ParseUint64 v of None \<Rightarrow> 0 | Some n \<Rightarrow> int n),
     httpNow = (\<lambda>c. (mh_time c, c)),
     nonceAdd = (\<lambda>k d c. case mh_nonces c k of
         Some e \<Rightarrow> if mh_time c \<le> e then (False, c) else (True, c\<lparr>mh_nonces := (mh_nonces c)(k \<mapsto> mh_time c + d)\<rparr>)
       | None \<Rightarrow> (True, c\<lparr>mh_nonces := (mh_nonces c)(k \<mapsto> mh_time c + d)\<rparr>)),
     ccGet = (\<lambda>k c. let c' = c\<lparr>mh_time := mh_time c + 1\<rparr> in (liveAt (mh_counts c k) (mh_time c'), c')),
     ccIncrement = (\<lambda>k n c. let c' = c\<lparr>mh_time := mh_time c + 1\<rparr> in
         if liveAt (mh_counts c k) (mh_time c') = None then (False, c')
         else (True, c'\<lparr>mh_counts := (mh_counts c)(k := map_option (apfst ((+) n)) (mh_counts c k))\<rparr>)),
     ccSet = (\<lambda>k n d c. let c' = c\<lparr>mh_time := mh_time c + 1\<rparr> in c'\<lparr>mh_counts := (mh_counts c)(k \<mapsto> (n, mh_time c' + d))\<rparr>),
     lockTry = (\<lambda>k c. let c' = c\<lparr>mh_tried := mh_tried c @ [k]\<rparr> in
         if k \<in> set (mh_locks c) then (Inr None, c') else (Inr (Some k), c'\<lparr>mh_locks := k # mh_locks c\<rparr>)),
     lockRelease = (\<lambda>k c. c\<lparr>mh_locks := removeAll k (mh_locks c)\<rparr>)\<rparr>"

lemma mem_header_ctx: "header_ctx memHttp mh_tried"
  by standard (auto simp: memHttp_def memBind_def Let_def split: option.splits if_splits)

interpretation mem_header: header_ctx memHttp mh_tried
  by (rule mem_header_ctx)

lemma mem_caches:
  "ccGet memHttp k c = (liveAt (mh_counts c k) (mh_time c + 1), c\<lparr>mh_time := mh_time c + 1\<rparr>)"
  "ccIncrement memHttp k n c = (if liveAt (mh_counts c k) (mh_time c + 1) = None then (False, c\<lparr>mh_time := mh_time c + 1\<rparr>)
     else (True, c\<lparr>mh_time := mh_time c + 1, mh_counts := (mh_counts c)(k := map_option (apfst ((+) n)) (mh_counts c k))\<rparr>))"
  "ccSet memHttp k n d c = c\<lparr>mh_time := mh_time c + 1, mh_counts := (mh_counts c)(k \<mapsto> (n, mh_time c + 1 + d))\<rparr>"
  by (simp_all add: memHttp_def Let_def)

lemma mem_rate_cache: "rate_cache memHttp mh_counts mh_time mh_passed"
proof (standard, goal_cases)
  case (1 k c r c')
  then show ?case by (auto simp: mem_caches)
next
  case (2 k d c b c')
  then show ?case by (cases "liveAt (mh_counts c k) (mh_time c + 1)") (auto simp: mem_caches)
next
  case (3 ttl c' k v c)
  then show ?case by (simp add: mem_caches)
qed (simp_all add: memHttp_def)

interpretation mem_rate: rate_cache memHttp mh_counts mh_time mh_passed
  by (rule mem_rate_cache)

abbreviation "unitHttp \<equiv> memHttp :: (mem_http, unit, string) http_env"

definition request0 :: mem_http where
  "request0 = \<lparr>mh_header = None, mh_form = None, mh_headers = (\<lambda>_. None), mh_body = [], mh_ip = ''10.0.0.1'', mh_sent = [],
     mh_aborted = False, mh_time = timeUnix 1000, mh_nonces = (\<lambda>_. None), mh_counts = (\<lambda>_. None), mh_locks = [], mh_tried = [],
     mh_passed = 0\<rparr>"

section \<open>Properties\<close>


definition nobody :: Header where "nobody = NewHeader"

definition whoIs :: "uint64 \<Rightarrow> (mem_http, unit, unit) StdFunc" where
  "whoIs uid h req c = ((Some (), if h_Uid h = uid then None else Some (Forbidden MsgSystem)), c)"


text \<open>
  The signature check is the specified one. Building the text from a list of parameters,
  printing the MAC in hexadecimal and decoding it again amounts to comparing the signature with
  the base64 of HMAC-SHA-1 over \<open>token=...&lang=...&nonce=...&body=...\<close>: a form request goes on exactly when it
  carries this signature and its nonce is new; a request that brings its header as HTTP header
  fields is not checked.
\<close>

theorem CheckClientSign_equiv:
  "CheckClientSign env nxt c =
     (case ginGet env c of
        None \<Rightarrow> refuse env 400 MsgNoHeader NilData c
      | Some h \<Rightarrow>
          if h_RequestFormat h = HeaderFromHeaderAndBodyFromBody then nxt c
          else if rh_Sign h = [] then refuse env 403 MsgNoSign NilData c
          else let (fresh, c1) = (if rh_Nonce h = [] then (True, c) else nonceAdd env (rh_Nonce h) (5 * Minute) c)
               in if \<not> fresh then refuse env 400 MsgReplayed NilData c1
                  else if rh_Sign h = signature h then nxt c1
                  else refuse env 400 MsgBadSign NilData c1)"
  by (auto simp: CheckClientSign_def checkNonceValid_def Let_def signature_hex split: option.split prod.split bool.split)


text \<open>A client that sends one request after the other.\<close>

definition arrives :: "mem_http \<Rightarrow> mem_http" where
  "arrives c = c\<lparr>mh_header := Some nobody, mh_ip := ''10.0.0.1''\<rparr>"

definition through :: "mem_http \<Rightarrow> mem_http" where
  "through c = c\<lparr>mh_passed := Suc (mh_passed c)\<rparr>"

lemma arrives_key: "limitKey memHttp ''create_order'' (arrives c) = Some ''create_order.10.0.0.1''"
  by (simp add: limitKey_def arrives_def memHttp_def nobody_def NewHeader_def)


end
