(* ===== verification/Routers.thy ===== *)
theory Routers
  imports HttpWorld PaymentService LoginService
begin

text \<open>
  The client routes of the API server: \<open>app/Api/boost/init.go\<close> puts the extraction of the header and
  the signature check in front of every client route, and the routers of the payment, login,
  items and config modules add their own middleware and adapt the services to HTTP. Here is
  also the choice of a gate node, \<open>app/Api/config/internal/service/gate.go\<close>. The services and the
  request context live in one world \<open>'c\<close>.
\<close>

section \<open>The gate address\<close>

datatype service_status = Working | NotWorking

record ServiceInstance =
  si_ServiceName :: string
  si_Status :: service_status
  si_MetaData :: "string \<rightharpoonup> string"

type_synonym 'c registry = "('c, unit, ServiceInstance list) act"

definition gatesOf :: "ServiceInstance list \<Rightarrow> ServiceInstance list" where
  "gatesOf serviceList = filter (\<lambda>s. si_Status s = Working \<and> si_ServiceName s = ''gate'') serviceList"

definition RdGateAddress :: "'c registry \<Rightarrow> uint64 \<Rightarrow> ('c, Error, ServiceInstance) act" where
  "RdGateAddress listServices uid =
     andThen (mapErr (\<lambda>_. InternalServerError MsgGateAddress) listServices) (\<lambda>serviceList.
       let gateList = gatesOf serviceList in
       if length gateList = 0 then fail (InternalServerError MsgGateAddress)
       else ok (gateList ! (uid mod length gateList)))"

text \<open>The node that is chosen is a working gate, whatever the id, and every gate serves some player.\<close>

lemma RdGateAddress_works:
  assumes "RdGateAddress listServices uid c = (Inr s, c')"
  shows "si_Status s = Working \<and> si_ServiceName s = ''gate''"
proof -
  from assms obtain xs where "gatesOf xs \<noteq> []" "s = gatesOf xs ! (uid mod length (gatesOf xs))"
    by (auto simp: RdGateAddress_def andThen_def mapErr_def fail_def ok_def Let_def split: prod.splits sum.splits if_splits)
  then have "s \<in> set (gatesOf xs)" by simp
  then show ?thesis by (simp add: gatesOf_def)
qed

lemma RdGateAddress_reaches:
  assumes "listServices c = (Inr xs, c')" and "s \<in> set xs" "si_Status s = Working" "si_ServiceName s = ''gate''"
  shows "\<exists>uid. RdGateAddress listServices uid c = (Inr s, c')"
proof -
  have "s \<in> set (gatesOf xs)" using assms(2-4) by (simp add: gatesOf_def)
  then obtain i where "i < length (gatesOf xs)" "gatesOf xs ! i = s" by (auto simp: in_set_conv_nth)
  then show ?thesis using assms(1)
    by (intro exI [of _ i]) (auto simp: RdGateAddress_def andThen_def mapErr_def ok_def Let_def)
qed

record GateAddressRsp =
  ga_WsAddress :: string
  ga_KcpAddress :: string
  ga_TcpAddress :: string

definition metaOf :: "ServiceInstance \<Rightarrow> string \<Rightarrow> string" where
  "metaOf s k = (case si_MetaData s k of None \<Rightarrow> [] | Some v \<Rightarrow> v)"

section \<open>Handlers\<close>

text \<open>The responses of the client routes.\<close>

datatype api_rsp =
    RspCreateOrder CreateOrderRsp
  | RspUploadReceipt
  | RspLogin LoginRsp
  | RspBind string
  | RspUnbind
  | RspDeleteAccount
  | RspItems "BagItem list"
  | RspGate GateAddressRsp

text \<open>A service returns either a response or an error.\<close>

definition toStd :: "('a \<Rightarrow> api_rsp) \<Rightarrow> ('c, Error, 'a) act \<Rightarrow> 'c \<Rightarrow> (api_rsp option \<times> Error option) \<times> 'c" where
  "toStd wrap m c = (case m c of
       (Inl e, c') \<Rightarrow> ((None, Some e), c')
     | (Inr x, c') \<Rightarrow> ((Some (wrap x), None), c'))"

definition handleCreateOrder ::
  "'c pay_drv \<Rightarrow> 'c channels \<Rightarrow> (int \<rightharpoonup> Product) \<Rightarrow> ('c, CreateOrderReq, api_rsp) StdFunc" where
  "handleCreateOrder drv chs products h req = toStd RspCreateOrder (CreateOrderWithoutLock drv chs products (h_Uid h) req)"

definition handleUploadReceipt ::
  "'c pay_drv \<Rightarrow> 'c channels \<Rightarrow> (int \<rightharpoonup> Product) \<Rightarrow> ('c, UploadReceiptReq, api_rsp) StdFunc" where
  "handleUploadReceipt drv chs products h req = toStd (\<lambda>_. RspUploadReceipt) (UploadReceiptWithoutLock drv chs products (h_Uid h) req)"

definition routeLogin :: "'c auth_env \<Rightarrow> jwt_lib \<Rightarrow> 'c Manager \<Rightarrow> ('c, LoginReq, api_rsp) StdFunc" where
  "routeLogin env lib m h req = toStd RspLogin (managerLogin env lib m req)"

definition routeBind :: "'c Manager \<Rightarrow> ('c, LoginReq, api_rsp) StdFunc" where
  "routeBind m h req = toStd RspBind (managerBind m (h_Uid h) req)"

definition routeUnbind :: "'c Manager \<Rightarrow> ('c, LoginReq, api_rsp) StdFunc" where
  "routeUnbind m h req = toStd (\<lambda>_. RspUnbind) (managerUnbind m (h_Uid h) req)"

definition routeDeleteAccount :: "'c Manager \<Rightarrow> ('c, unit, api_rsp) StdFunc" where
  "routeDeleteAccount m h req = toStd (\<lambda>_. RspDeleteAccount) (managerDeleteAccount m (h_Uid h))"

definition handleListItem :: "'c bag_cache \<Rightarrow> ('c, unit, api_rsp) StdFunc" where
  "handleListItem cache h req = toStd RspItems (svc_GetItemWithCache cache (h_Uid h))"

definition handleGateAddress :: "'c registry \<Rightarrow> ('c, unit, api_rsp) StdFunc" where
  "handleGateAddress listServices h req = toStd (\<lambda>s. RspGate \<lparr>ga_WsAddress = metaOf s ''gate.ws.external_address'',
     ga_KcpAddress = metaOf s ''gate.kcp.external_address'', ga_TcpAddress = metaOf s ''gate.tcp.external_address''\<rparr>)
     (RdGateAddress listServices (h_Uid h))"

section \<open>Routes\<close>

definition clientGroup :: "('c, 'd, 'l) http_env \<Rightarrow> ('c \<Rightarrow> 'c) \<Rightarrow> 'c \<Rightarrow> 'c" where
  "clientGroup env route = ClientExtract env (CheckClientSign env route)"

definition createOrderRoute where
  "createOrderRoute env lib pkv bind handler =
     Limiter env ''create_order'' 1 1 (LockUser env UserLock (UidHandler env lib pkv bind handler))"

definition uploadReceiptRoute where
  "uploadReceiptRoute env lib pkv bind handler = LockUser env UserLock (UidHandler env lib pkv bind handler)"

text \<open>Every route with its path and chain; \<open>bind\<close> arguments are \<open>c.ShouldBind\<close> for the type of the request.\<close>

record ('c, 'l) http_srv =
  sv_env :: "('c, api_rsp, 'l) http_env"
  sv_jwt :: jwt_lib
  sv_pkv :: "byte list option"

definition paymentRoutes ::
  "('c, 'l) http_srv \<Rightarrow> 'c pay_drv \<Rightarrow> 'c channels \<Rightarrow> (int \<rightharpoonup> Product) \<Rightarrow> ('c \<Rightarrow> CreateOrderReq option \<times> 'c)
     \<Rightarrow> ('c \<Rightarrow> UploadReceiptReq option \<times> 'c) \<Rightarrow> (string \<times> ('c \<Rightarrow> 'c)) list" where
  "paymentRoutes srv drv chs products bindCreate bindUpload =
     [(''/api/payment/create_order'', clientGroup (sv_env srv) (createOrderRoute (sv_env srv) (sv_jwt srv) (sv_pkv srv)
         bindCreate (handleCreateOrder drv chs products))),
      (''/api/payment/upload_receipt'', clientGroup (sv_env srv) (uploadReceiptRoute (sv_env srv) (sv_jwt srv) (sv_pkv srv)
         bindUpload (handleUploadReceipt drv chs products)))]"

definition loginRoutes ::
  "('c, 'l) http_srv \<Rightarrow> 'c auth_env \<Rightarrow> 'c Manager \<Rightarrow> ('c \<Rightarrow> LoginReq option \<times> 'c) \<Rightarrow> ('c \<Rightarrow> unit option \<times> 'c)
     \<Rightarrow> (string \<times> ('c \<Rightarrow> 'c)) list" where
  "loginRoutes srv env manager bindLogin bindEmpty =
     [(''/api/login'', clientGroup (sv_env srv) (NoUidHandler (sv_env srv) (sv_jwt srv) (sv_pkv srv) bindLogin
         (routeLogin env (sv_jwt srv) manager))),
      (''/api/account/bind'', clientGroup (sv_env srv) (UidHandler (sv_env srv) (sv_jwt srv) (sv_pkv srv) bindLogin (routeBind manager))),
      (''/api/account/unbind'', clientGroup (sv_env srv) (UidHandler (sv_env srv) (sv_jwt srv) (sv_pkv srv) bindLogin (routeUnbind manager))),
      (''/api/account/delete'', clientGroup (sv_env srv) (UidHandler (sv_env srv) (sv_jwt srv) (sv_pkv srv) bindEmpty
         (routeDeleteAccount manager)))]"

definition itemRoutes :: "('c, 'l) http_srv \<Rightarrow> 'c bag_cache \<Rightarrow> ('c \<Rightarrow> unit option \<times> 'c) \<Rightarrow> (string \<times> ('c \<Rightarrow> 'c)) list" where
  "itemRoutes srv bag bindEmpty =
     [(''/api/items/list'', clientGroup (sv_env srv) (UidHandler (sv_env srv) (sv_jwt srv) (sv_pkv srv) bindEmpty (handleListItem bag)))]"

definition configRoutes :: "('c, 'l) http_srv \<Rightarrow> 'c registry \<Rightarrow> ('c \<Rightarrow> unit option \<times> 'c) \<Rightarrow> (string \<times> ('c \<Rightarrow> 'c)) list" where
  "configRoutes srv listServices bindEmpty =
     [(''/api/config/gate_address'', clientGroup (sv_env srv) (UidHandler (sv_env srv) (sv_jwt srv) (sv_pkv srv) bindEmpty
         (handleGateAddress listServices)))]"

section \<open>The lock of the payment routes\<close>

lemma payment_chain_locks:
  assumes "header_ctx env tried" and "\<And>h req c. tried (snd (handler h req c)) = tried c" and "\<And>c. tried (snd (bind c)) = tried c"
  shows "header_ctx.locksOnly env tried {UserLock 0} (\<lambda>_. True) (clientGroup env (createOrderRoute env lib pkv bind handler))"
    and "header_ctx.locksOnly env tried {UserLock 0} (\<lambda>_. True) (clientGroup env (uploadReceiptRoute env lib pkv bind handler))"
proof -
  note uid = header_ctx.locksOnly_UidHandler [OF assms(1), of handler bind "\<lambda>_. True" lib pkv, OF assms(2,3)]
  note lock = header_ctx.locksOnly_LockUser [OF assms(1) uid, of UserLock]
  note outer = header_ctx.locksOnly_ClientExtract [OF assms(1) header_ctx.locksOnly_CheckClientSign [OF assms(1)]]
  show "header_ctx.locksOnly env tried {UserLock 0} (\<lambda>_. True) (clientGroup env (createOrderRoute env lib pkv bind handler))"
    unfolding clientGroup_def createOrderRoute_def
    by (rule outer) (rule header_ctx.locksOnly_Limiter [OF assms(1) lock])
  show "header_ctx.locksOnly env tried {UserLock 0} (\<lambda>_. True) (clientGroup env (uploadReceiptRoute env lib pkv bind handler))"
    unfolding clientGroup_def uploadReceiptRoute_def by (rule outer) (rule lock)
qed

text \<open>
  C26: The payment routes do not lock the player. \<open>LockUser\<close> stands in front of \<open>UidHandler\<close>, which is the
  one that finds out the player, so the header it reads still has player 0: whoever sends a
  request to create an order or to upload a receipt, the only lock key that is ever tried is
  the one of player 0. Requests of different players exclude each other, and none excludes the
  notification and timeout jobs, which lock the real player.
\<close>

theorem payment_routes_lock_player_zero:
  assumes "header_ctx (sv_env srv) tried"
    and "\<And>uid req c. tried (snd (CreateOrderWithoutLock drv chs products uid req c)) = tried c"
    and "\<And>uid req c. tried (snd (UploadReceiptWithoutLock drv chs products uid req c)) = tried c"
    and "\<And>c. tried (snd (bindCreate c)) = tried c" and "\<And>c. tried (snd (bindUpload c)) = tried c"
    and "(path, route) \<in> set (paymentRoutes srv drv chs products bindCreate bindUpload)"
  shows "set (tried (route c)) \<subseteq> set (tried c) \<union> {UserLock 0}"
proof -
  have std: "snd (toStd wrap m c) = snd (m c)" for wrap and m :: "('c, Error, 'x) act" and c
    by (simp add: toStd_def split: prod.split sum.split)
  have "header_ctx.locksOnly (sv_env srv) tried {UserLock 0} (\<lambda>_. True) route"
    using assms(6) payment_chain_locks(1) [OF assms(1), of "handleCreateOrder drv chs products" bindCreate]
      payment_chain_locks(2) [OF assms(1), of "handleUploadReceipt drv chs products" bindUpload]
    by (auto simp: paymentRoutes_def handleCreateOrder_def handleUploadReceipt_def std assms(2-5))
  then show ?thesis
    by (simp add: header_ctx.locksOnly_def [OF assms(1)] header_ctx.grew_def [OF assms(1)] pred_option_def)
qed

text \<open>A server without payment channels, whose order table is out of reach, and a request of player 8.\<close>

definition noOrders :: "(mem_http, PaymentOrder, uint64) nodes" where
  "noOrders = \<lparr>QueryNodes = (\<lambda>_. fail SqlFailure), CountNodes = (\<lambda>_. fail SqlFailure), CreateNode = (\<lambda>_. fail SqlFailure),
     UpsertNode = (\<lambda>_. fail SqlFailure), UpdateNodes = (\<lambda>_ _. fail SqlFailure), UpdateNode = (\<lambda>_ _. fail SqlFailure),
     DeleteNodes = (\<lambda>_. fail SqlFailure)\<rparr>"

definition noPay :: "mem_http pay_drv" where
  "noPay = \<lparr>od = \<lparr>Orders = noOrders, OrderClock = (\<lambda>c. (mh_time c, c))\<rparr>, EnqueueContext = (\<lambda>_. ok ()), TryLockDefault = (\<lambda>_. ok False),
     UnlockLease = (\<lambda>_. ok ()), LeaseErr = (\<lambda>_. ok ()), CtxErr = ok ()\<rparr>"

definition memSrv :: "(mem_http, string) http_srv" where
  "memSrv = \<lparr>sv_env = memHttp, sv_jwt = plainJwt, sv_pkv = None\<rparr>"

definition memPayment :: "(string \<times> (mem_http \<Rightarrow> mem_http)) list" where
  "memPayment = paymentRoutes memSrv noPay Map.empty Map.empty (\<lambda>c. (Some \<lparr>cr_ProductId = 1, cr_PaymentType = 1\<rparr>, c)) (\<lambda>c. (None, c))"

definition request8 :: mem_http where
  "request8 = request0\<lparr>mh_headers := [''format'' \<mapsto> ''1''], mh_form := Some (nobody\<lparr>rh_Token := ''token of player 8''\<rparr>)\<rparr>"

theorem payment_routes_lock_player_zero_witness:
  "mh_tried (snd (hd memPayment) request8) = [UserLock 0]"
proof -
  have "header_ctx (sv_env memSrv) mh_tried" using mem_header_ctx by (simp add: memSrv_def)
  moreover have "(fst (hd memPayment), snd (hd memPayment)) \<in> set memPayment" by (simp add: memPayment_def paymentRoutes_def)
  ultimately have "set (mh_tried (snd (hd memPayment) request8)) \<subseteq> set (mh_tried request8) \<union> {UserLock 0}"
    unfolding memPayment_def
    by (intro payment_routes_lock_player_zero [where srv = memSrv and tried = mh_tried and drv = noPay and chs = Map.empty and products = Map.empty
          and path = "fst (hd memPayment)" and bindCreate = "\<lambda>c. (Some \<lparr>cr_ProductId = 1, cr_PaymentType = 1\<rparr>, c)" and bindUpload = "\<lambda>c. (None, c)"])
       (simp_all add: CreateOrderWithoutLock_def UploadReceiptWithoutLock_def GetChannel_def fail_def memPayment_def)
  moreover have "decimal 1 = ''1''" by code_simp
  then have "ParseUint64 ''1'' = Some 1" using ParseUint64_decimal [of 1] by simp
  then have "length (mh_tried (snd (hd memPayment) request8)) = 1"
    by (simp add: memPayment_def paymentRoutes_def clientGroup_def createOrderRoute_def ClientExtract_def CheckClientSign_def Limiter_def
        LockUser_def UidHandler_def stdHandler_def refuse_def httpFail_def memSrv_def memHttp_def memBind_def request8_def request0_def
        nobody_def NewHeader_def ParseRequestFormat_def ValidFormat_def HeaderFromHeaderAndBodyFromBody_def AllInForm_def
        maxClientRequestBodyBytes_def liveAt_def AuthAccessToken_def auth_def Let_def)
  ultimately show ?thesis
    by (cases "mh_tried (snd (hd memPayment) request8)") (auto simp: request8_def request0_def)
qed

end
