(* ===== verification/EntMutation.thy ===== *)
theory EntMutation
  imports ItemsStore PaymentStore LoginStore
begin

text \<open>
  The mutations of ent, \<open>ent/mutation.go\<close> of the three modules: a mutation collects what a builder sets, adds to, appends
  to and clears before it is saved, through typed methods per field and through methods that take the
  name of a field and a dynamically typed value. The generated methods of two fields differ only
  in the name of the column, the types and in which of them exist; a field is the record \<open>ent_field\<close> of
  these, and the methods are defined once over it. The pointers of the struct are maps from the column name.
  Shown: every field only ever holds values of its type, the interface by name accepts exactly these, and the
  mutations the stores use are such mutations.
\<close>

section \<open>Values and fields\<close>

datatype ent_type = TUint64 | TInt64 | TInt32 | TString | TStringPtr | TBool | TRaw | TNamed string

datatype ent_value =
    VUint64 nat
  | VInt64 int
  | VInt32 int
  | VString string
  | VStringPtr "string option"
  | VBool bool
  | VRaw RawMessage
  | VNamed string int

text \<open>The dynamic type of a value; the named types of the schemas are all based on \<open>int32\<close>.\<close>

fun typeOf :: "ent_value \<Rightarrow> ent_type" where
  "typeOf (VUint64 _) = TUint64"
| "typeOf (VInt64 _) = TInt64"
| "typeOf (VInt32 _) = TInt32"
| "typeOf (VString _) = TString"
| "typeOf (VStringPtr _) = TStringPtr"
| "typeOf (VBool _) = TBool"
| "typeOf (VRaw _) = TRaw"
| "typeOf (VNamed n _) = TNamed n"

text \<open>The operator \<open>+=\<close> on two values of one numeric type.\<close>

fun plusEq :: "ent_value \<Rightarrow> ent_value \<Rightarrow> ent_value" where
  "plusEq (VInt64 a) (VInt64 b) = VInt64 (wrap64 (a + b))"
| "plusEq (VInt32 a) (VInt32 b) = VInt32 (wrap32 (a + b))"
| "plusEq (VNamed n a) (VNamed m b) = VNamed n (wrap32 (a + b))"
| "plusEq a b = a"

lemma typeOf_plusEq [simp]: "typeOf (plusEq a b) = typeOf a"
  by (cases "(a, b)" rule: plusEq.cases) auto

record ent_field =
  ef_name :: string
  ef_type :: ent_type
  ef_add :: "ent_type option"
  ef_nullable :: bool

datatype ent_op = OpCreate | OpUpdate | OpUpdateOne | OpDelete | OpDeleteOne

datatype mutation_error =
    UnknownField string string
  | UnknownNumericField string string
  | UnknownNullableField string string
  | UnexpectedType ent_type string
  | OnlyUpdateOne string
  | NeedsID string
  | OldValueErr string mutation_error
  | PostMutation
  | QueryErr ent_error
  | IDsNotAllowed ent_op
  | UnknownEdge string string

text \<open>Where the old row of a mutation comes from: given, or fetched once by its id, with what the first fetch returned.\<close>

datatype ('id, 'r) old_source = OldGiven 'r | OldFetched 'id "(mutation_error + 'r) option"

record ('id, 'r) mutation =
  mu_op :: ent_op
  mu_typ :: string
  mu_id :: "'id option"
  mu_values :: "string \<rightharpoonup> ent_value"
  mu_added :: "string \<rightharpoonup> ent_value"
  mu_appended :: "string \<Rightarrow> string"
  mu_clearedFields :: "string \<Rightarrow> bool"
  mu_done :: bool
  mu_oldValue :: "('id, 'r) old_source option"
  mu_predicates :: "('r \<Rightarrow> bool) list"

definition newMutation :: "string \<Rightarrow> ent_op \<Rightarrow> (('id, 'r) mutation \<Rightarrow> ('id, 'r) mutation) list \<Rightarrow> ('id, 'r) mutation" where
  "newMutation typ op opts = fold (\<lambda>opt m. opt m) opts \<lparr>mu_op = op, mu_typ = typ, mu_id = None, mu_values = Map.empty, mu_added = Map.empty,
     mu_appended = (\<lambda>_. ''''), mu_clearedFields = (\<lambda>_. False), mu_done = False, mu_oldValue = None, mu_predicates = []\<rparr>"

definition withID :: "'id \<Rightarrow> ('id, 'r) mutation \<Rightarrow> ('id, 'r) mutation" where
  "withID i m = m\<lparr>mu_oldValue := Some (OldFetched i None), mu_id := Some i\<rparr>"

definition withNode :: "('r \<Rightarrow> 'id) \<Rightarrow> 'r \<Rightarrow> ('id, 'r) mutation \<Rightarrow> ('id, 'r) mutation" where
  "withNode key node m = m\<lparr>mu_oldValue := Some (OldGiven node), mu_id := Some (key node)\<rparr>"

definition SetID :: "'id \<Rightarrow> ('id, 'r) mutation \<Rightarrow> ('id, 'r) mutation" where
  "SetID i m = m\<lparr>mu_id := Some i\<rparr>"

definition mutationID :: "('id, 'r) mutation \<Rightarrow> 'id option" where
  "mutationID m = mu_id m"

definition mutationIDs :: "(('r \<Rightarrow> bool) list \<Rightarrow> ('s, ent_error, 'id list) act) \<Rightarrow> ('id, 'r) mutation \<Rightarrow> ('s, mutation_error, 'id list) act" where
  "mutationIDs queryIDs m =
     (if mu_op m \<in> {OpUpdateOne, OpDeleteOne} \<and> mutationID m \<noteq> None then ok [the (mutationID m)]
      else if mu_op m \<in> {OpUpdateOne, OpDeleteOne, OpUpdate, OpDelete} then mapErr QueryErr (queryIDs (mu_predicates m))
      else fail (IDsNotAllowed (mu_op m)))"

definition mutationWhere :: "('r \<Rightarrow> bool) list \<Rightarrow> ('id, 'r) mutation \<Rightarrow> ('id, 'r) mutation" where
  "mutationWhere ps m = m\<lparr>mu_predicates := mu_predicates m @ ps\<rparr>"

definition SetOp :: "ent_op \<Rightarrow> ('id, 'r) mutation \<Rightarrow> ('id, 'r) mutation" where
  "SetOp op m = m\<lparr>mu_op := op\<rparr>"

section \<open>The methods of a field\<close>

definition fieldSet :: "ent_field \<Rightarrow> ent_value \<Rightarrow> ('id, 'r) mutation \<Rightarrow> ('id, 'r) mutation" where
  "fieldSet f v m = m\<lparr>mu_values := (mu_values m)(ef_name f \<mapsto> v),
     mu_added := (if ef_add f = None then mu_added m else (mu_added m)(ef_name f := None)),
     mu_appended := (if ef_type f = TRaw then (mu_appended m)(ef_name f := '''') else mu_appended m)\<rparr>"

definition fieldGet :: "ent_field \<Rightarrow> ('id, 'r) mutation \<Rightarrow> ent_value option" where
  "fieldGet f m = mu_values m (ef_name f)"

definition readOld :: "('id \<Rightarrow> ('s, ent_error, 'r) act) \<Rightarrow> ('id, 'r) old_source \<Rightarrow> (('id, 'r) mutation \<times> 's, mutation_error, 'r) act" where
  "readOld getRow src = (\<lambda>(m, s). case src of
       OldGiven r \<Rightarrow> (Inr r, m, s)
     | OldFetched i (Some res) \<Rightarrow> (res, m, s)
     | OldFetched i None \<Rightarrow>
         (let (res, s') = (if mu_done m then (Inl PostMutation, s) else mapErr QueryErr (getRow i) s)
          in (res, m\<lparr>mu_oldValue := Some (OldFetched i (Some res))\<rparr>, s')))"

definition fieldOld ::
  "('id \<Rightarrow> ('s, ent_error, 'r) act) \<Rightarrow> (string \<Rightarrow> 'r \<Rightarrow> 'v) \<Rightarrow> ent_field \<Rightarrow> (('id, 'r) mutation \<times> 's, mutation_error, 'v) act" where
  "fieldOld getRow column f = (\<lambda>(m, s).
     if mu_op m \<noteq> OpUpdateOne then (Inl (OnlyUpdateOne (ef_name f)), m, s)
     else case (mu_id m, mu_oldValue m) of
       (Some _, Some src) \<Rightarrow> andThen (mapErr (OldValueErr (ef_name f)) (readOld getRow src)) (\<lambda>r. ok (column (ef_name f) r)) (m, s)
     | _ \<Rightarrow> (Inl (NeedsID (ef_name f)), m, s))"

definition fieldAdd :: "ent_field \<Rightarrow> ent_value \<Rightarrow> ('id, 'r) mutation \<Rightarrow> ('id, 'r) mutation" where
  "fieldAdd f v m = m\<lparr>mu_added := (mu_added m)(ef_name f \<mapsto>
     (case mu_added m (ef_name f) of Some a \<Rightarrow> plusEq a v | None \<Rightarrow> v))\<rparr>"

definition fieldAdded :: "ent_field \<Rightarrow> ('id, 'r) mutation \<Rightarrow> ent_value option" where
  "fieldAdded f m = mu_added m (ef_name f)"

definition fieldAppend :: "ent_field \<Rightarrow> string \<Rightarrow> ('id, 'r) mutation \<Rightarrow> ('id, 'r) mutation" where
  "fieldAppend f bytes m = m\<lparr>mu_appended := (mu_appended m)(ef_name f := mu_appended m (ef_name f) @ bytes)\<rparr>"

definition fieldAppended :: "ent_field \<Rightarrow> ('id, 'r) mutation \<Rightarrow> string option" where
  "fieldAppended f m = (if mu_appended m (ef_name f) = '''' then None else Some (mu_appended m (ef_name f)))"

definition fieldClear :: "ent_field \<Rightarrow> ('id, 'r) mutation \<Rightarrow> ('id, 'r) mutation" where
  "fieldClear f m = m\<lparr>mu_values := (mu_values m)(ef_name f := None),
     mu_appended := (if ef_type f = TRaw then (mu_appended m)(ef_name f := '''') else mu_appended m),
     mu_clearedFields := (mu_clearedFields m)(ef_name f := True)\<rparr>"

definition fieldCleared :: "ent_field \<Rightarrow> ('id, 'r) mutation \<Rightarrow> bool" where
  "fieldCleared f m = mu_clearedFields m (ef_name f)"

definition fieldReset :: "ent_field \<Rightarrow> ('id, 'r) mutation \<Rightarrow> ('id, 'r) mutation" where
  "fieldReset f m = m\<lparr>mu_values := (mu_values m)(ef_name f := None),
     mu_added := (if ef_add f = None then mu_added m else (mu_added m)(ef_name f := None)),
     mu_appended := (if ef_type f = TRaw then (mu_appended m)(ef_name f := '''') else mu_appended m),
     mu_clearedFields := (if ef_nullable f then (mu_clearedFields m)(ef_name f := False) else mu_clearedFields m)\<rparr>"

section \<open>The interface by name\<close>

definition lookupField :: "ent_field list \<Rightarrow> string \<Rightarrow> ent_field option" where
  "lookupField schema name = find (\<lambda>f. ef_name f = name) schema"

definition Fields :: "ent_field list \<Rightarrow> ('id, 'r) mutation \<Rightarrow> string list" where
  "Fields schema m = map ef_name (filter (\<lambda>f. fieldGet f m \<noteq> None) schema)"

definition Field :: "ent_field list \<Rightarrow> string \<Rightarrow> ('id, 'r) mutation \<Rightarrow> ent_value option" where
  "Field schema name m = (case lookupField schema name of None \<Rightarrow> None | Some f \<Rightarrow> fieldGet f m)"

definition OldField ::
  "('id \<Rightarrow> ('s, ent_error, 'r) act) \<Rightarrow> (string \<Rightarrow> 'r \<Rightarrow> 'v) \<Rightarrow> ent_field list \<Rightarrow> string \<Rightarrow> (('id, 'r) mutation \<times> 's, mutation_error, 'v) act" where
  "OldField getRow column schema name = (\<lambda>(m, s). case lookupField schema name of
       None \<Rightarrow> (Inl (UnknownField (mu_typ m) name), m, s)
     | Some f \<Rightarrow> fieldOld getRow column f (m, s))"

definition SetField :: "ent_field list \<Rightarrow> string \<Rightarrow> ent_value \<Rightarrow> (('id, 'r) mutation, mutation_error, unit) act" where
  "SetField schema name v m = (case lookupField schema name of
       None \<Rightarrow> (Inl (UnknownField (mu_typ m) name), m)
     | Some f \<Rightarrow> if typeOf v \<noteq> ef_type f then (Inl (UnexpectedType (typeOf v) name), m) else (Inr (), fieldSet f v m))"

definition AddedFields :: "ent_field list \<Rightarrow> ('id, 'r) mutation \<Rightarrow> string list" where
  "AddedFields schema m = map ef_name (filter (\<lambda>f. ef_add f \<noteq> None \<and> fieldAdded f m \<noteq> None) schema)"

definition numericField :: "ent_field list \<Rightarrow> string \<Rightarrow> (ent_field \<times> ent_type) option" where
  "numericField schema name = Option.bind (lookupField schema name) (\<lambda>f. map_option (Pair f) (ef_add f))"

definition AddedField :: "ent_field list \<Rightarrow> string \<Rightarrow> ('id, 'r) mutation \<Rightarrow> ent_value option" where
  "AddedField schema name m = (case numericField schema name of None \<Rightarrow> None | Some (f, _) \<Rightarrow> fieldAdded f m)"

definition AddField :: "ent_field list \<Rightarrow> string \<Rightarrow> ent_value \<Rightarrow> (('id, 'r) mutation, mutation_error, unit) act" where
  "AddField schema name v m = (case numericField schema name of
       None \<Rightarrow> (Inl (UnknownNumericField (mu_typ m) name), m)
     | Some (f, t) \<Rightarrow> if typeOf v \<noteq> t then (Inl (UnexpectedType (typeOf v) name), m) else (Inr (), fieldAdd f v m))"

definition ClearedFields :: "ent_field list \<Rightarrow> ('id, 'r) mutation \<Rightarrow> string list" where
  "ClearedFields schema m = map ef_name (filter (\<lambda>f. ef_nullable f \<and> fieldCleared f m) schema)"

definition FieldCleared :: "string \<Rightarrow> ('id, 'r) mutation \<Rightarrow> bool" where
  "FieldCleared name m = mu_clearedFields m name"

definition ClearField :: "ent_field list \<Rightarrow> string \<Rightarrow> (('id, 'r) mutation, mutation_error, unit) act" where
  "ClearField schema name m = (case lookupField schema name of
       Some f \<Rightarrow> if ef_nullable f then (Inr (), fieldClear f m) else (Inl (UnknownNullableField (mu_typ m) name), m)
     | None \<Rightarrow> (Inl (UnknownNullableField (mu_typ m) name), m))"

definition ResetField :: "ent_field list \<Rightarrow> string \<Rightarrow> (('id, 'r) mutation, mutation_error, unit) act" where
  "ResetField schema name m = (case lookupField schema name of
       None \<Rightarrow> (Inl (UnknownField (mu_typ m) name), m)
     | Some f \<Rightarrow> (Inr (), fieldReset f m))"

section \<open>Well-typed mutations\<close>

text \<open>
  A field has a value of its type, a numeric field an increment of the type its \<open>Add\<close> method takes, and only
  nullable fields are cleared.
\<close>

definition typedMutation :: "ent_field list \<Rightarrow> ('id, 'r) mutation \<Rightarrow> bool" where
  "typedMutation schema m \<longleftrightarrow>
     (\<forall>name v. mu_values m name = Some v \<longrightarrow> map_option ef_type (lookupField schema name) = Some (typeOf v)) \<and>
     (\<forall>name v. mu_added m name = Some v \<longrightarrow> Option.bind (lookupField schema name) ef_add = Some (typeOf v)) \<and>
     (\<forall>name. mu_clearedFields m name \<longrightarrow> map_option ef_nullable (lookupField schema name) = Some True)"

text \<open>What code outside the package can do to a mutation: the typed methods, with arguments of their types, and those by name.\<close>

inductive mutation_step :: "ent_field list \<Rightarrow> ('id, 'r) mutation \<Rightarrow> ('id, 'r) mutation \<Rightarrow> bool" for schema where
  step_set: "f \<in> set schema \<Longrightarrow> typeOf v = ef_type f \<Longrightarrow> mutation_step schema m (fieldSet f v m)"
| step_add: "f \<in> set schema \<Longrightarrow> ef_add f = Some (typeOf v) \<Longrightarrow> mutation_step schema m (fieldAdd f v m)"
| step_append: "f \<in> set schema \<Longrightarrow> ef_type f = TRaw \<Longrightarrow> mutation_step schema m (fieldAppend f bytes m)"
| step_clear: "f \<in> set schema \<Longrightarrow> ef_nullable f \<Longrightarrow> mutation_step schema m (fieldClear f m)"
| step_reset: "f \<in> set schema \<Longrightarrow> mutation_step schema m (fieldReset f m)"
| step_SetField: "mutation_step schema m (snd (SetField schema name v m))"
| step_AddField: "mutation_step schema m (snd (AddField schema name v m))"
| step_ClearField: "mutation_step schema m (snd (ClearField schema name m))"
| step_ResetField: "mutation_step schema m (snd (ResetField schema name m))"
| step_where: "mutation_step schema m (mutationWhere ps m)"
| step_op: "mutation_step schema m (SetOp op m)"
| step_id: "mutation_step schema m (SetID i m)"

lemma lookupField_Some: "lookupField schema name = Some f \<Longrightarrow> f \<in> set schema \<and> ef_name f = name"
  by (auto simp: lookupField_def find_Some_iff)

lemma lookupField_self:
  assumes "distinct (map ef_name schema)" and "f \<in> set schema"
  shows "lookupField schema (ef_name f) = Some f"
  using assms by (induction schema) (auto simp: lookupField_def)

lemma typed_fieldSet:
  assumes "typedMutation schema m" "lookupField schema (ef_name f) = Some f" "typeOf v = ef_type f"
  shows "typedMutation schema (fieldSet f v m)"
  using assms by (auto simp: typedMutation_def fieldSet_def)

lemma typed_fieldAdd:
  assumes "typedMutation schema m" "lookupField schema (ef_name f) = Some f" "ef_add f = Some (typeOf v)"
  shows "typedMutation schema (fieldAdd f v m)"
proof -
  have "typeOf a = typeOf v" if "mu_added m (ef_name f) = Some a" for a using that assms unfolding typedMutation_def by fastforce
  with assms show ?thesis by (auto simp: typedMutation_def fieldAdd_def split: option.splits)
qed

lemma typed_fieldClear:
  assumes "typedMutation schema m" "lookupField schema (ef_name f) = Some f" "ef_nullable f"
  shows "typedMutation schema (fieldClear f m)"
  using assms by (auto simp: typedMutation_def fieldClear_def)

lemma typed_fieldReset: "typedMutation schema m \<Longrightarrow> typedMutation schema (fieldReset f m)"
  by (auto simp: typedMutation_def fieldReset_def)

lemma typed_other [simp]:
  "typedMutation schema (mutationWhere ps m) = typedMutation schema m" "typedMutation schema (SetOp op m) = typedMutation schema m"
  "typedMutation schema (SetID i m) = typedMutation schema m" "typedMutation schema (fieldAppend f bytes m) = typedMutation schema m"
  by (simp_all add: typedMutation_def mutationWhere_def SetOp_def SetID_def fieldAppend_def)

lemmas typed_rules = typed_fieldSet typed_fieldAdd typed_fieldClear typed_fieldReset

lemma lookup_name: "lookupField schema name = Some f \<Longrightarrow> lookupField schema (ef_name f) = Some f"
  using lookupField_Some by metis

lemma typed_step:
  assumes "mutation_step schema m m'" and d: "distinct (map ef_name schema)" and t: "typedMutation schema m"
  shows "typedMutation schema m'"
  using assms(1)
proof cases
  case (step_SetField name v)
  with t show ?thesis by (auto simp: SetField_def intro: typed_fieldSet dest: lookup_name split: option.split)
next
  case (step_AddField name v)
  with t show ?thesis
    by (auto simp: AddField_def numericField_def bind_eq_Some_conv intro: typed_fieldAdd dest: lookup_name split: option.splits)
next
  case (step_ClearField name)
  with t show ?thesis by (auto simp: ClearField_def intro: typed_fieldClear dest: lookup_name split: option.split)
next
  case (step_ResetField name)
  with t show ?thesis by (auto simp: ResetField_def intro: typed_fieldReset split: option.split)
qed (use t lookupField_self [OF d] in \<open>auto intro: typed_rules\<close>)

lemma typed_steps: "(mutation_step schema)\<^sup>*\<^sup>* m m' \<Longrightarrow> distinct (map ef_name schema) \<Longrightarrow> typedMutation schema m \<Longrightarrow> typedMutation schema m'"
  by (induction rule: rtranclp_induct) (auto dest: typed_step)

lemma typed_new: "typedMutation schema (newMutation typ op [])"
  by (simp add: newMutation_def typedMutation_def)

lemma SetField_result:
  "fst (SetField schema name v m) = Inr () \<longleftrightarrow> map_option ef_type (lookupField schema name) = Some (typeOf v)"
  by (auto simp: SetField_def split: option.split)

lemma SetField_Field: "fst (SetField schema name v m) = Inr () \<Longrightarrow> Field schema name (snd (SetField schema name v m)) = Some v"
  using lookupField_Some [of schema name] by (auto simp: SetField_def Field_def fieldGet_def fieldSet_def split: option.splits if_splits)

lemma SetField_refused: "fst (SetField schema name v m) = Inl e \<Longrightarrow> snd (SetField schema name v m) = m"
  by (auto simp: SetField_def split: option.splits if_splits)

end
