(* ===== verification/EntSchemas.thy ===== *)
theory EntSchemas
  imports EntMutation
begin

text \<open>
  The six tables of the program as ent sees them: the fields of each with their Go types, in the order of the schema, and the
  mutation interface by name of each generated package. \<open>Item_UID\<close> stands for the methods of
  \<open>ItemMutation\<close> for the field \<open>uid\<close>: \<open>SetUID\<close>, \<open>UID\<close>, \<open>OldUID\<close>, \<open>AddUID\<close>, \<open>AddedUID\<close> and \<open>ResetUID\<close> are \<open>fieldSet\<close>, \<open>fieldGet\<close>,
  \<open>fieldOld\<close>, \<open>fieldAdd\<close>, \<open>fieldAdded\<close> and \<open>fieldReset\<close> of it.
\<close>

section \<open>Item\<close>

definition Item_UID :: ent_field where
  "Item_UID = \<lparr>ef_name = ''uid'', ef_type = TUint64, ef_add = Some TInt64, ef_nullable = False\<rparr>"

definition Item_ItemID :: ent_field where
  "Item_ItemID = \<lparr>ef_name = ''item_id'', ef_type = TInt32, ef_add = Some TInt32, ef_nullable = False\<rparr>"

definition Item_Count :: ent_field where
  "Item_Count = \<lparr>ef_name = ''count'', ef_type = TInt64, ef_add = Some TInt64, ef_nullable = False\<rparr>"

definition Item_UsedCount :: ent_field where
  "Item_UsedCount = \<lparr>ef_name = ''used_count'', ef_type = TInt64, ef_add = Some TInt64, ef_nullable = False\<rparr>"

definition Item_ExpireAtUnix :: ent_field where
  "Item_ExpireAtUnix = \<lparr>ef_name = ''expire_at_unix'', ef_type = TInt64, ef_add = Some TInt64, ef_nullable = False\<rparr>"

definition Item_Source :: ent_field where
  "Item_Source = \<lparr>ef_name = ''source'', ef_type = TString, ef_add = None, ef_nullable = False\<rparr>"

definition Item_CreateAtUnix :: ent_field where
  "Item_CreateAtUnix = \<lparr>ef_name = ''create_at_unix'', ef_type = TInt64, ef_add = Some TInt64, ef_nullable = False\<rparr>"

definition Item_UpdateAtUnix :: ent_field where
  "Item_UpdateAtUnix = \<lparr>ef_name = ''update_at_unix'', ef_type = TInt64, ef_add = Some TInt64, ef_nullable = False\<rparr>"

definition Item_schema :: "ent_field list" where
  "Item_schema = [Item_UID, Item_ItemID, Item_Count, Item_UsedCount, Item_ExpireAtUnix, Item_Source, Item_CreateAtUnix, Item_UpdateAtUnix]"

definition Item_column :: "string \<Rightarrow> Item \<Rightarrow> ent_value" where
  "Item_column name r = the (map_of [(''uid'', VUint64 (it_UID r)),
     (''item_id'', VInt32 (it_ItemID r)),
     (''count'', VInt64 (it_Count r)),
     (''used_count'', VInt64 (it_UsedCount r)),
     (''expire_at_unix'', VInt64 (it_ExpireAtUnix r)),
     (''source'', VString (it_Source r)),
     (''create_at_unix'', VInt64 (it_CreateAtUnix r)),
     (''update_at_unix'', VInt64 (it_UpdateAtUnix r))] name)"

definition ItemMutation_Fields :: "(int, Item) mutation \<Rightarrow> string list" where
  "ItemMutation_Fields = Fields Item_schema"

definition ItemMutation_Field :: "string \<Rightarrow> (int, Item) mutation \<Rightarrow> ent_value option" where
  "ItemMutation_Field = Field Item_schema"

definition ItemMutation_OldField :: "(int \<Rightarrow> ('s, ent_error, Item) act) \<Rightarrow> string \<Rightarrow> ((int, Item) mutation \<times> 's, mutation_error, ent_value) act" where
  "ItemMutation_OldField = (\<lambda>getRow. OldField getRow Item_column Item_schema)"

definition ItemMutation_SetField :: "string \<Rightarrow> ent_value \<Rightarrow> ((int, Item) mutation, mutation_error, unit) act" where
  "ItemMutation_SetField = SetField Item_schema"

definition ItemMutation_AddedFields :: "(int, Item) mutation \<Rightarrow> string list" where
  "ItemMutation_AddedFields = AddedFields Item_schema"

definition ItemMutation_AddedField :: "string \<Rightarrow> (int, Item) mutation \<Rightarrow> ent_value option" where
  "ItemMutation_AddedField = AddedField Item_schema"

definition ItemMutation_AddField :: "string \<Rightarrow> ent_value \<Rightarrow> ((int, Item) mutation, mutation_error, unit) act" where
  "ItemMutation_AddField = AddField Item_schema"

definition ItemMutation_ClearedFields :: "(int, Item) mutation \<Rightarrow> string list" where
  "ItemMutation_ClearedFields = ClearedFields Item_schema"

definition ItemMutation_ClearField :: "string \<Rightarrow> ((int, Item) mutation, mutation_error, unit) act" where
  "ItemMutation_ClearField = ClearField Item_schema"

definition ItemMutation_ResetField :: "string \<Rightarrow> ((int, Item) mutation, mutation_error, unit) act" where
  "ItemMutation_ResetField = ResetField Item_schema"

section \<open>ItemNonce\<close>

definition ItemNonce_UID :: ent_field where
  "ItemNonce_UID = \<lparr>ef_name = ''uid'', ef_type = TUint64, ef_add = Some TInt64, ef_nullable = False\<rparr>"

definition ItemNonce_Nonce :: ent_field where
  "ItemNonce_Nonce = \<lparr>ef_name = ''nonce'', ef_type = TString, ef_add = None, ef_nullable = False\<rparr>"

definition ItemNonce_OpType :: ent_field where
  "ItemNonce_OpType = \<lparr>ef_name = ''op_type'', ef_type = TNamed ''OperationType'', ef_add = Some (TNamed ''OperationType''), ef_nullable = False\<rparr>"

definition ItemNonce_CreateAtUnix :: ent_field where
  "ItemNonce_CreateAtUnix = \<lparr>ef_name = ''create_at_unix'', ef_type = TInt64, ef_add = Some TInt64, ef_nullable = False\<rparr>"

definition ItemNonce_schema :: "ent_field list" where
  "ItemNonce_schema = [ItemNonce_UID, ItemNonce_Nonce, ItemNonce_OpType, ItemNonce_CreateAtUnix]"

definition ItemNonce_column :: "string \<Rightarrow> ItemNonce \<Rightarrow> ent_value" where
  "ItemNonce_column name r = the (map_of [(''uid'', VUint64 (in_UID r)),
     (''nonce'', VString (in_Nonce r)),
     (''op_type'', VNamed ''OperationType'' (in_OpType r)),
     (''create_at_unix'', VInt64 (in_CreateAtUnix r))] name)"

definition ItemNonceMutation_Fields :: "(uint64, ItemNonce) mutation \<Rightarrow> string list" where
  "ItemNonceMutation_Fields = Fields ItemNonce_schema"

definition ItemNonceMutation_Field :: "string \<Rightarrow> (uint64, ItemNonce) mutation \<Rightarrow> ent_value option" where
  "ItemNonceMutation_Field = Field ItemNonce_schema"

definition ItemNonceMutation_OldField :: "(uint64 \<Rightarrow> ('s, ent_error, ItemNonce) act) \<Rightarrow> string \<Rightarrow> ((uint64, ItemNonce) mutation \<times> 's, mutation_error, ent_value) act" where
  "ItemNonceMutation_OldField = (\<lambda>getRow. OldField getRow ItemNonce_column ItemNonce_schema)"

definition ItemNonceMutation_SetField :: "string \<Rightarrow> ent_value \<Rightarrow> ((uint64, ItemNonce) mutation, mutation_error, unit) act" where
  "ItemNonceMutation_SetField = SetField ItemNonce_schema"

definition ItemNonceMutation_AddedFields :: "(uint64, ItemNonce) mutation \<Rightarrow> string list" where
  "ItemNonceMutation_AddedFields = AddedFields ItemNonce_schema"

definition ItemNonceMutation_AddedField :: "string \<Rightarrow> (uint64, ItemNonce) mutation \<Rightarrow> ent_value option" where
  "ItemNonceMutation_AddedField = AddedField ItemNonce_schema"

definition ItemNonceMutation_AddField :: "string \<Rightarrow> ent_value \<Rightarrow> ((uint64, ItemNonce) mutation, mutation_error, unit) act" where
  "ItemNonceMutation_AddField = AddField ItemNonce_schema"

definition ItemNonceMutation_ClearedFields :: "(uint64, ItemNonce) mutation \<Rightarrow> string list" where
  "ItemNonceMutation_ClearedFields = ClearedFields ItemNonce_schema"

definition ItemNonceMutation_ClearField :: "string \<Rightarrow> ((uint64, ItemNonce) mutation, mutation_error, unit) act" where
  "ItemNonceMutation_ClearField = ClearField ItemNonce_schema"

definition ItemNonceMutation_ResetField :: "string \<Rightarrow> ((uint64, ItemNonce) mutation, mutation_error, unit) act" where
  "ItemNonceMutation_ResetField = ResetField ItemNonce_schema"

section \<open>ItemUserLock\<close>

definition ItemUserLock_schema :: "ent_field list" where
  "ItemUserLock_schema = []"

definition ItemUserLockMutation_Fields :: "(uint64, ItemUserLock) mutation \<Rightarrow> string list" where
  "ItemUserLockMutation_Fields = Fields ItemUserLock_schema"

definition ItemUserLockMutation_Field :: "string \<Rightarrow> (uint64, ItemUserLock) mutation \<Rightarrow> ent_value option" where
  "ItemUserLockMutation_Field = Field ItemUserLock_schema"

definition ItemUserLockMutation_SetField :: "string \<Rightarrow> ent_value \<Rightarrow> ((uint64, ItemUserLock) mutation, mutation_error, unit) act" where
  "ItemUserLockMutation_SetField = SetField ItemUserLock_schema"

definition ItemUserLockMutation_AddedFields :: "(uint64, ItemUserLock) mutation \<Rightarrow> string list" where
  "ItemUserLockMutation_AddedFields = AddedFields ItemUserLock_schema"

definition ItemUserLockMutation_AddedField :: "string \<Rightarrow> (uint64, ItemUserLock) mutation \<Rightarrow> ent_value option" where
  "ItemUserLockMutation_AddedField = AddedField ItemUserLock_schema"

definition ItemUserLockMutation_AddField :: "string \<Rightarrow> ent_value \<Rightarrow> ((uint64, ItemUserLock) mutation, mutation_error, unit) act" where
  "ItemUserLockMutation_AddField = AddField ItemUserLock_schema"

definition ItemUserLockMutation_ClearedFields :: "(uint64, ItemUserLock) mutation \<Rightarrow> string list" where
  "ItemUserLockMutation_ClearedFields = ClearedFields ItemUserLock_schema"

definition ItemUserLockMutation_ClearField :: "string \<Rightarrow> ((uint64, ItemUserLock) mutation, mutation_error, unit) act" where
  "ItemUserLockMutation_ClearField = ClearField ItemUserLock_schema"

definition ItemUserLockMutation_ResetField :: "string \<Rightarrow> ((uint64, ItemUserLock) mutation, mutation_error, unit) act" where
  "ItemUserLockMutation_ResetField = ResetField ItemUserLock_schema"

section \<open>PaymentOrder\<close>

definition PaymentOrder_UID :: ent_field where
  "PaymentOrder_UID = \<lparr>ef_name = ''uid'', ef_type = TUint64, ef_add = Some TInt64, ef_nullable = False\<rparr>"

definition PaymentOrder_ProductID :: ent_field where
  "PaymentOrder_ProductID = \<lparr>ef_name = ''product_id'', ef_type = TInt32, ef_add = Some TInt32, ef_nullable = False\<rparr>"

definition PaymentOrder_ThirdPartyProductID :: ent_field where
  "PaymentOrder_ThirdPartyProductID = \<lparr>ef_name = ''third_party_product_id'', ef_type = TString, ef_add = None, ef_nullable = False\<rparr>"

definition PaymentOrder_PaymentType :: ent_field where
  "PaymentOrder_PaymentType = \<lparr>ef_name = ''payment_type'', ef_type = TNamed ''PaymentType'', ef_add = Some (TNamed ''PaymentType''), ef_nullable = False\<rparr>"

definition PaymentOrder_Status :: ent_field where
  "PaymentOrder_Status = \<lparr>ef_name = ''status'', ef_type = TNamed ''OrderStatus'', ef_add = Some (TNamed ''OrderStatus''), ef_nullable = False\<rparr>"

definition PaymentOrder_OrderAmountUnit :: ent_field where
  "PaymentOrder_OrderAmountUnit = \<lparr>ef_name = ''order_amount_unit'', ef_type = TInt64, ef_add = Some TInt64, ef_nullable = False\<rparr>"

definition PaymentOrder_OrderAmountNanos :: ent_field where
  "PaymentOrder_OrderAmountNanos = \<lparr>ef_name = ''order_amount_nanos'', ef_type = TInt32, ef_add = Some TInt32, ef_nullable = False\<rparr>"

definition PaymentOrder_OrderCurrency :: ent_field where
  "PaymentOrder_OrderCurrency = \<lparr>ef_name = ''order_currency'', ef_type = TString, ef_add = None, ef_nullable = False\<rparr>"

definition PaymentOrder_RealAmountUnit :: ent_field where
  "PaymentOrder_RealAmountUnit = \<lparr>ef_name = ''real_amount_unit'', ef_type = TInt64, ef_add = Some TInt64, ef_nullable = False\<rparr>"

definition PaymentOrder_RealAmountNanos :: ent_field where
  "PaymentOrder_RealAmountNanos = \<lparr>ef_name = ''real_amount_nanos'', ef_type = TInt32, ef_add = Some TInt32, ef_nullable = False\<rparr>"

definition PaymentOrder_RealCurrency :: ent_field where
  "PaymentOrder_RealCurrency = \<lparr>ef_name = ''real_currency'', ef_type = TString, ef_add = None, ef_nullable = False\<rparr>"

definition PaymentOrder_ThirdPartyOrderID :: ent_field where
  "PaymentOrder_ThirdPartyOrderID = \<lparr>ef_name = ''third_party_order_id'', ef_type = TString, ef_add = None, ef_nullable = True\<rparr>"

definition PaymentOrder_Credential :: ent_field where
  "PaymentOrder_Credential = \<lparr>ef_name = ''credential'', ef_type = TString, ef_add = None, ef_nullable = True\<rparr>"

definition PaymentOrder_CredentialHash :: ent_field where
  "PaymentOrder_CredentialHash = \<lparr>ef_name = ''credential_hash'', ef_type = TString, ef_add = None, ef_nullable = True\<rparr>"

definition PaymentOrder_Rewards :: ent_field where
  "PaymentOrder_Rewards = \<lparr>ef_name = ''rewards'', ef_type = TRaw, ef_add = None, ef_nullable = True\<rparr>"

definition PaymentOrder_RetryTimes :: ent_field where
  "PaymentOrder_RetryTimes = \<lparr>ef_name = ''retry_times'', ef_type = TInt32, ef_add = Some TInt32, ef_nullable = False\<rparr>"

definition PaymentOrder_CancelReason :: ent_field where
  "PaymentOrder_CancelReason = \<lparr>ef_name = ''cancel_reason'', ef_type = TString, ef_add = None, ef_nullable = False\<rparr>"

definition PaymentOrder_RefundReason :: ent_field where
  "PaymentOrder_RefundReason = \<lparr>ef_name = ''refund_reason'', ef_type = TString, ef_add = None, ef_nullable = False\<rparr>"

definition PaymentOrder_IsSandbox :: ent_field where
  "PaymentOrder_IsSandbox = \<lparr>ef_name = ''is_sandbox'', ef_type = TBool, ef_add = None, ef_nullable = False\<rparr>"

definition PaymentOrder_CreateAtUnix :: ent_field where
  "PaymentOrder_CreateAtUnix = \<lparr>ef_name = ''create_at_unix'', ef_type = TInt64, ef_add = Some TInt64, ef_nullable = False\<rparr>"

definition PaymentOrder_UpdateAtUnix :: ent_field where
  "PaymentOrder_UpdateAtUnix = \<lparr>ef_name = ''update_at_unix'', ef_type = TInt64, ef_add = Some TInt64, ef_nullable = False\<rparr>"

definition PaymentOrder_PayAtUnix :: ent_field where
  "PaymentOrder_PayAtUnix = \<lparr>ef_name = ''pay_at_unix'', ef_type = TInt64, ef_add = Some TInt64, ef_nullable = False\<rparr>"

definition PaymentOrder_RefundAtUnix :: ent_field where
  "PaymentOrder_RefundAtUnix = \<lparr>ef_name = ''refund_at_unix'', ef_type = TInt64, ef_add = Some TInt64, ef_nullable = False\<rparr>"

definition PaymentOrder_CancelAtUnix :: ent_field where
  "PaymentOrder_CancelAtUnix = \<lparr>ef_name = ''cancel_at_unix'', ef_type = TInt64, ef_add = Some TInt64, ef_nullable = False\<rparr>"

definition PaymentOrder_schema :: "ent_field list" where
  "PaymentOrder_schema = [PaymentOrder_UID, PaymentOrder_ProductID, PaymentOrder_ThirdPartyProductID, PaymentOrder_PaymentType, PaymentOrder_Status, PaymentOrder_OrderAmountUnit, PaymentOrder_OrderAmountNanos, PaymentOrder_OrderCurrency, PaymentOrder_RealAmountUnit, PaymentOrder_RealAmountNanos, PaymentOrder_RealCurrency, PaymentOrder_ThirdPartyOrderID, PaymentOrder_Credential, PaymentOrder_CredentialHash, PaymentOrder_Rewards, PaymentOrder_RetryTimes, PaymentOrder_CancelReason, PaymentOrder_RefundReason, PaymentOrder_IsSandbox, PaymentOrder_CreateAtUnix, PaymentOrder_UpdateAtUnix, PaymentOrder_PayAtUnix, PaymentOrder_RefundAtUnix, PaymentOrder_CancelAtUnix]"

definition PaymentOrder_column :: "string \<Rightarrow> PaymentOrder \<Rightarrow> ent_value" where
  "PaymentOrder_column name r = the (map_of [(''uid'', VUint64 (po_UID r)),
     (''product_id'', VInt32 (po_ProductID r)),
     (''third_party_product_id'', VString (po_ThirdPartyProductID r)),
     (''payment_type'', VNamed ''PaymentType'' (po_PaymentType r)),
     (''status'', VNamed ''OrderStatus'' (po_Status r)),
     (''order_amount_unit'', VInt64 (po_OrderAmountUnit r)),
     (''order_amount_nanos'', VInt32 (po_OrderAmountNanos r)),
     (''order_currency'', VString (po_OrderCurrency r)),
     (''real_amount_unit'', VInt64 (po_RealAmountUnit r)),
     (''real_amount_nanos'', VInt32 (po_RealAmountNanos r)),
     (''real_currency'', VString (po_RealCurrency r)),
     (''third_party_order_id'', VStringPtr (po_ThirdPartyOrderID r)),
     (''credential'', VStringPtr (po_Credential r)),
     (''credential_hash'', VStringPtr (po_CredentialHash r)),
     (''rewards'', VRaw (po_Rewards r)),
     (''retry_times'', VInt32 (po_RetryTimes r)),
     (''cancel_reason'', VString (po_CancelReason r)),
     (''refund_reason'', VString (po_RefundReason r)),
     (''is_sandbox'', VBool (po_IsSandbox r)),
     (''create_at_unix'', VInt64 (po_CreateAtUnix r)),
     (''update_at_unix'', VInt64 (po_UpdateAtUnix r)),
     (''pay_at_unix'', VInt64 (po_PayAtUnix r)),
     (''refund_at_unix'', VInt64 (po_RefundAtUnix r)),
     (''cancel_at_unix'', VInt64 (po_CancelAtUnix r))] name)"

definition PaymentOrderMutation_Fields :: "(uint64, PaymentOrder) mutation \<Rightarrow> string list" where
  "PaymentOrderMutation_Fields = Fields PaymentOrder_schema"

definition PaymentOrderMutation_Field :: "string \<Rightarrow> (uint64, PaymentOrder) mutation \<Rightarrow> ent_value option" where
  "PaymentOrderMutation_Field = Field PaymentOrder_schema"

definition PaymentOrderMutation_OldField :: "(uint64 \<Rightarrow> ('s, ent_error, PaymentOrder) act) \<Rightarrow> string \<Rightarrow> ((uint64, PaymentOrder) mutation \<times> 's, mutation_error, ent_value) act" where
  "PaymentOrderMutation_OldField = (\<lambda>getRow. OldField getRow PaymentOrder_column PaymentOrder_schema)"

definition PaymentOrderMutation_SetField :: "string \<Rightarrow> ent_value \<Rightarrow> ((uint64, PaymentOrder) mutation, mutation_error, unit) act" where
  "PaymentOrderMutation_SetField = SetField PaymentOrder_schema"

definition PaymentOrderMutation_AddedFields :: "(uint64, PaymentOrder) mutation \<Rightarrow> string list" where
  "PaymentOrderMutation_AddedFields = AddedFields PaymentOrder_schema"

definition PaymentOrderMutation_AddedField :: "string \<Rightarrow> (uint64, PaymentOrder) mutation \<Rightarrow> ent_value option" where
  "PaymentOrderMutation_AddedField = AddedField PaymentOrder_schema"

definition PaymentOrderMutation_AddField :: "string \<Rightarrow> ent_value \<Rightarrow> ((uint64, PaymentOrder) mutation, mutation_error, unit) act" where
  "PaymentOrderMutation_AddField = AddField PaymentOrder_schema"

definition PaymentOrderMutation_ClearedFields :: "(uint64, PaymentOrder) mutation \<Rightarrow> string list" where
  "PaymentOrderMutation_ClearedFields = ClearedFields PaymentOrder_schema"

definition PaymentOrderMutation_ClearField :: "string \<Rightarrow> ((uint64, PaymentOrder) mutation, mutation_error, unit) act" where
  "PaymentOrderMutation_ClearField = ClearField PaymentOrder_schema"

definition PaymentOrderMutation_ResetField :: "string \<Rightarrow> ((uint64, PaymentOrder) mutation, mutation_error, unit) act" where
  "PaymentOrderMutation_ResetField = ResetField PaymentOrder_schema"

section \<open>Account\<close>

definition Account_IsDeleted :: ent_field where
  "Account_IsDeleted = \<lparr>ef_name = ''is_deleted'', ef_type = TBool, ef_add = None, ef_nullable = False\<rparr>"

definition Account_CreateAtUnix :: ent_field where
  "Account_CreateAtUnix = \<lparr>ef_name = ''create_at_unix'', ef_type = TInt64, ef_add = Some TInt64, ef_nullable = False\<rparr>"

definition Account_UpdateAtUnix :: ent_field where
  "Account_UpdateAtUnix = \<lparr>ef_name = ''update_at_unix'', ef_type = TInt64, ef_add = Some TInt64, ef_nullable = False\<rparr>"

definition Account_schema :: "ent_field list" where
  "Account_schema = [Account_IsDeleted, Account_CreateAtUnix, Account_UpdateAtUnix]"

definition Account_column :: "string \<Rightarrow> Account \<Rightarrow> ent_value" where
  "Account_column name r = the (map_of [(''is_deleted'', VBool (ac_IsDeleted r)),
     (''create_at_unix'', VInt64 (ac_CreateAtUnix r)),
     (''update_at_unix'', VInt64 (ac_UpdateAtUnix r))] name)"

definition AccountMutation_Fields :: "(uint64, Account) mutation \<Rightarrow> string list" where
  "AccountMutation_Fields = Fields Account_schema"

definition AccountMutation_Field :: "string \<Rightarrow> (uint64, Account) mutation \<Rightarrow> ent_value option" where
  "AccountMutation_Field = Field Account_schema"

definition AccountMutation_OldField :: "(uint64 \<Rightarrow> ('s, ent_error, Account) act) \<Rightarrow> string \<Rightarrow> ((uint64, Account) mutation \<times> 's, mutation_error, ent_value) act" where
  "AccountMutation_OldField = (\<lambda>getRow. OldField getRow Account_column Account_schema)"

definition AccountMutation_SetField :: "string \<Rightarrow> ent_value \<Rightarrow> ((uint64, Account) mutation, mutation_error, unit) act" where
  "AccountMutation_SetField = SetField Account_schema"

definition AccountMutation_AddedFields :: "(uint64, Account) mutation \<Rightarrow> string list" where
  "AccountMutation_AddedFields = AddedFields Account_schema"

definition AccountMutation_AddedField :: "string \<Rightarrow> (uint64, Account) mutation \<Rightarrow> ent_value option" where
  "AccountMutation_AddedField = AddedField Account_schema"

definition AccountMutation_AddField :: "string \<Rightarrow> ent_value \<Rightarrow> ((uint64, Account) mutation, mutation_error, unit) act" where
  "AccountMutation_AddField = AddField Account_schema"

definition AccountMutation_ClearedFields :: "(uint64, Account) mutation \<Rightarrow> string list" where
  "AccountMutation_ClearedFields = ClearedFields Account_schema"

definition AccountMutation_ClearField :: "string \<Rightarrow> ((uint64, Account) mutation, mutation_error, unit) act" where
  "AccountMutation_ClearField = ClearField Account_schema"

definition AccountMutation_ResetField :: "string \<Rightarrow> ((uint64, Account) mutation, mutation_error, unit) act" where
  "AccountMutation_ResetField = ResetField Account_schema"

section \<open>Identity\<close>

definition Identity_UID :: ent_field where
  "Identity_UID = \<lparr>ef_name = ''uid'', ef_type = TUint64, ef_add = Some TInt64, ef_nullable = False\<rparr>"

definition Identity_LoginType :: ent_field where
  "Identity_LoginType = \<lparr>ef_name = ''login_type'', ef_type = TInt32, ef_add = Some TInt32, ef_nullable = False\<rparr>"

definition Identity_AppID :: ent_field where
  "Identity_AppID = \<lparr>ef_name = ''app_id'', ef_type = TString, ef_add = None, ef_nullable = False\<rparr>"

definition Identity_OpenID :: ent_field where
  "Identity_OpenID = \<lparr>ef_name = ''open_id'', ef_type = TString, ef_add = None, ef_nullable = False\<rparr>"

definition Identity_UnionID :: ent_field where
  "Identity_UnionID = \<lparr>ef_name = ''union_id'', ef_type = TString, ef_add = None, ef_nullable = True\<rparr>"

definition Identity_CreateAtUnix :: ent_field where
  "Identity_CreateAtUnix = \<lparr>ef_name = ''create_at_unix'', ef_type = TInt64, ef_add = Some TInt64, ef_nullable = False\<rparr>"

definition Identity_schema :: "ent_field list" where
  "Identity_schema = [Identity_UID, Identity_LoginType, Identity_AppID, Identity_OpenID, Identity_UnionID, Identity_CreateAtUnix]"

definition Identity_column :: "string \<Rightarrow> IdentityRow \<Rightarrow> ent_value" where
  "Identity_column name r = the (map_of [(''uid'', VUint64 (id_UID r)),
     (''login_type'', VInt32 (id_LoginType r)),
     (''app_id'', VString (id_AppID r)),
     (''open_id'', VString (id_OpenID r)),
     (''union_id'', VStringPtr (id_UnionID r)),
     (''create_at_unix'', VInt64 (id_CreateAtUnix r))] name)"

definition IdentityMutation_Fields :: "(uint64, IdentityRow) mutation \<Rightarrow> string list" where
  "IdentityMutation_Fields = Fields Identity_schema"

definition IdentityMutation_Field :: "string \<Rightarrow> (uint64, IdentityRow) mutation \<Rightarrow> ent_value option" where
  "IdentityMutation_Field = Field Identity_schema"

definition IdentityMutation_OldField :: "(uint64 \<Rightarrow> ('s, ent_error, IdentityRow) act) \<Rightarrow> string \<Rightarrow> ((uint64, IdentityRow) mutation \<times> 's, mutation_error, ent_value) act" where
  "IdentityMutation_OldField = (\<lambda>getRow. OldField getRow Identity_column Identity_schema)"

definition IdentityMutation_SetField :: "string \<Rightarrow> ent_value \<Rightarrow> ((uint64, IdentityRow) mutation, mutation_error, unit) act" where
  "IdentityMutation_SetField = SetField Identity_schema"

definition IdentityMutation_AddedFields :: "(uint64, IdentityRow) mutation \<Rightarrow> string list" where
  "IdentityMutation_AddedFields = AddedFields Identity_schema"

definition IdentityMutation_AddedField :: "string \<Rightarrow> (uint64, IdentityRow) mutation \<Rightarrow> ent_value option" where
  "IdentityMutation_AddedField = AddedField Identity_schema"

definition IdentityMutation_AddField :: "string \<Rightarrow> ent_value \<Rightarrow> ((uint64, IdentityRow) mutation, mutation_error, unit) act" where
  "IdentityMutation_AddField = AddField Identity_schema"

definition IdentityMutation_ClearedFields :: "(uint64, IdentityRow) mutation \<Rightarrow> string list" where
  "IdentityMutation_ClearedFields = ClearedFields Identity_schema"

definition IdentityMutation_ClearField :: "string \<Rightarrow> ((uint64, IdentityRow) mutation, mutation_error, unit) act" where
  "IdentityMutation_ClearField = ClearField Identity_schema"

definition IdentityMutation_ResetField :: "string \<Rightarrow> ((uint64, IdentityRow) mutation, mutation_error, unit) act" where
  "IdentityMutation_ResetField = ResetField Identity_schema"

section \<open>The mutations of the stores\<close>

text \<open>
  The stores work on records with the fields they use. The mutation a record stands for has these values,
  and the typed methods of the stores are methods of the fields.
\<close>

definition absItem :: "ent_op \<Rightarrow> ItemMutation \<Rightarrow> (int, Item) mutation" where
  "absItem op m = (newMutation ''Item'' op [])\<lparr>
     mu_values := (\<lambda>name. Option.bind (map_of [(''uid'', map_option (VUint64) (m_uid m)),
     (''item_id'', map_option (VInt32) (m_item_id m)),
     (''count'', map_option (VInt64) (m_count m)),
     (''used_count'', map_option (VInt64) (m_used_count m)),
     (''expire_at_unix'', map_option (VInt64) (m_expire_at_unix m)),
     (''source'', map_option (VString) (m_source m)),
     (''create_at_unix'', map_option (VInt64) (m_create_at_unix m)),
     (''update_at_unix'', map_option (VInt64) (m_update_at_unix m))] name) id),
     mu_added := (\<lambda>name. Option.bind (map_of [(''count'', map_option (VInt64) (m_addcount m)), (''used_count'', map_option (VInt64) (m_addused_count m)), (''expire_at_unix'', map_option (VInt64) (m_addexpire_at_unix m)), (''update_at_unix'', map_option (VInt64) (m_addupdate_at_unix m))] name) id)\<rparr>"

lemma absItem_steps:
  "absItem op (SetUID v0 m) = fieldSet Item_UID (VUint64 v0) (absItem op m)"
  "absItem op (SetItemID v1 m) = fieldSet Item_ItemID (VInt32 v1) (absItem op m)"
  "absItem op (SetCount v2 m) = fieldSet Item_Count (VInt64 v2) (absItem op m)"
  "absItem op (SetUsedCount v3 m) = fieldSet Item_UsedCount (VInt64 v3) (absItem op m)"
  "absItem op (SetExpireAtUnix v4 m) = fieldSet Item_ExpireAtUnix (VInt64 v4) (absItem op m)"
  "absItem op (SetSource v5 m) = fieldSet Item_Source (VString v5) (absItem op m)"
  "absItem op (SetCreateAtUnix v6 m) = fieldSet Item_CreateAtUnix (VInt64 v6) (absItem op m)"
  "absItem op (SetUpdateAtUnix v7 m) = fieldSet Item_UpdateAtUnix (VInt64 v7) (absItem op m)"
  "absItem op (AddCount v8 m) = fieldAdd Item_Count (VInt64 v8) (absItem op m)"
  "absItem op (AddUsedCount v9 m) = fieldAdd Item_UsedCount (VInt64 v9) (absItem op m)"
  by (auto simp: absItem_def newMutation_def fieldSet_def fieldAdd_def AddCount_def AddUsedCount_def SetCount_def SetCreateAtUnix_def SetExpireAtUnix_def SetItemID_def SetSource_def SetUID_def SetUpdateAtUnix_def SetUsedCount_def
      Item_UID_def Item_ItemID_def Item_Count_def Item_UsedCount_def Item_ExpireAtUnix_def Item_Source_def Item_CreateAtUnix_def Item_UpdateAtUnix_def fun_eq_iff split: option.split)

definition absPaymentOrder :: "ent_op \<Rightarrow> PaymentOrderMutation \<Rightarrow> (uint64, PaymentOrder) mutation" where
  "absPaymentOrder op m = (newMutation ''PaymentOrder'' op [])\<lparr>
     mu_values := (\<lambda>name. Option.bind (map_of [(''uid'', map_option (VUint64) (om_uid m)),
     (''product_id'', map_option (VInt32) (om_product_id m)),
     (''third_party_product_id'', map_option (VString) (om_third_party_product_id m)),
     (''payment_type'', map_option (VNamed ''PaymentType'') (om_payment_type m)),
     (''status'', map_option (VNamed ''OrderStatus'') (om_status m)),
     (''order_amount_unit'', map_option (VInt64) (om_order_amount_unit m)),
     (''order_amount_nanos'', map_option (VInt32) (om_order_amount_nanos m)),
     (''order_currency'', map_option (VString) (om_order_currency m)),
     (''real_amount_unit'', map_option (VInt64) (om_real_amount_unit m)),
     (''real_amount_nanos'', map_option (VInt32) (om_real_amount_nanos m)),
     (''real_currency'', map_option (VString) (om_real_currency m)),
     (''third_party_order_id'', map_option (VString) (om_third_party_order_id m)),
     (''credential'', map_option (VString) (om_credential m)),
     (''credential_hash'', map_option (VString) (om_credential_hash m)),
     (''rewards'', map_option (VRaw) (om_rewards m)),
     (''retry_times'', map_option (VInt32) (om_retry_times m)),
     (''cancel_reason'', map_option (VString) (om_cancel_reason m)),
     (''refund_reason'', map_option (VString) (om_refund_reason m)),
     (''is_sandbox'', map_option (VBool) (om_is_sandbox m)),
     (''create_at_unix'', map_option (VInt64) (om_create_at_unix m)),
     (''update_at_unix'', map_option (VInt64) (om_update_at_unix m)),
     (''pay_at_unix'', map_option (VInt64) (om_pay_at_unix m)),
     (''refund_at_unix'', map_option (VInt64) (om_refund_at_unix m)),
     (''cancel_at_unix'', map_option (VInt64) (om_cancel_at_unix m))] name) id),
     mu_added := (\<lambda>name. Option.bind (map_of [(''retry_times'', map_option (VInt32) (om_addretry_times m))] name) id)\<rparr>"

lemma absPaymentOrder_steps:
  "absPaymentOrder op (SetOrderUID v0 m) = fieldSet PaymentOrder_UID (VUint64 v0) (absPaymentOrder op m)"
  "absPaymentOrder op (SetProductID v1 m) = fieldSet PaymentOrder_ProductID (VInt32 v1) (absPaymentOrder op m)"
  "absPaymentOrder op (SetThirdPartyProductID v2 m) = fieldSet PaymentOrder_ThirdPartyProductID (VString v2) (absPaymentOrder op m)"
  "absPaymentOrder op (SetPaymentType v3 m) = fieldSet PaymentOrder_PaymentType (VNamed ''PaymentType'' v3) (absPaymentOrder op m)"
  "absPaymentOrder op (SetStatus v4 m) = fieldSet PaymentOrder_Status (VNamed ''OrderStatus'' v4) (absPaymentOrder op m)"
  "absPaymentOrder op (SetOrderAmountUnit v5 m) = fieldSet PaymentOrder_OrderAmountUnit (VInt64 v5) (absPaymentOrder op m)"
  "absPaymentOrder op (SetOrderAmountNanos v6 m) = fieldSet PaymentOrder_OrderAmountNanos (VInt32 v6) (absPaymentOrder op m)"
  "absPaymentOrder op (SetOrderCurrency v7 m) = fieldSet PaymentOrder_OrderCurrency (VString v7) (absPaymentOrder op m)"
  "absPaymentOrder op (SetRealAmountUnit v8 m) = fieldSet PaymentOrder_RealAmountUnit (VInt64 v8) (absPaymentOrder op m)"
  "absPaymentOrder op (SetRealAmountNanos v9 m) = fieldSet PaymentOrder_RealAmountNanos (VInt32 v9) (absPaymentOrder op m)"
  "absPaymentOrder op (SetRealCurrency v10 m) = fieldSet PaymentOrder_RealCurrency (VString v10) (absPaymentOrder op m)"
  "absPaymentOrder op (SetThirdPartyOrderID v11 m) = fieldSet PaymentOrder_ThirdPartyOrderID (VString v11) (absPaymentOrder op m)"
  "absPaymentOrder op (SetCredential v12 m) = fieldSet PaymentOrder_Credential (VString v12) (absPaymentOrder op m)"
  "absPaymentOrder op (SetCredentialHash v13 m) = fieldSet PaymentOrder_CredentialHash (VString v13) (absPaymentOrder op m)"
  "absPaymentOrder op (SetRewards v14 m) = fieldSet PaymentOrder_Rewards (VRaw v14) (absPaymentOrder op m)"
  "absPaymentOrder op (SetRetryTimes v15 m) = fieldSet PaymentOrder_RetryTimes (VInt32 v15) (absPaymentOrder op m)"
  "absPaymentOrder op (SetCancelReason v16 m) = fieldSet PaymentOrder_CancelReason (VString v16) (absPaymentOrder op m)"
  "absPaymentOrder op (SetRefundReason v17 m) = fieldSet PaymentOrder_RefundReason (VString v17) (absPaymentOrder op m)"
  "absPaymentOrder op (SetIsSandbox v18 m) = fieldSet PaymentOrder_IsSandbox (VBool v18) (absPaymentOrder op m)"
  "absPaymentOrder op (SetOrderCreateAtUnix v19 m) = fieldSet PaymentOrder_CreateAtUnix (VInt64 v19) (absPaymentOrder op m)"
  "absPaymentOrder op (SetOrderUpdateAtUnix v20 m) = fieldSet PaymentOrder_UpdateAtUnix (VInt64 v20) (absPaymentOrder op m)"
  "absPaymentOrder op (SetPayAtUnix v21 m) = fieldSet PaymentOrder_PayAtUnix (VInt64 v21) (absPaymentOrder op m)"
  "absPaymentOrder op (SetRefundAtUnix v22 m) = fieldSet PaymentOrder_RefundAtUnix (VInt64 v22) (absPaymentOrder op m)"
  "absPaymentOrder op (SetCancelAtUnix v23 m) = fieldSet PaymentOrder_CancelAtUnix (VInt64 v23) (absPaymentOrder op m)"
  "absPaymentOrder op (AddRetryTimesField v24 m) = fieldAdd PaymentOrder_RetryTimes (VInt32 v24) (absPaymentOrder op m)"
  by (auto simp: absPaymentOrder_def newMutation_def fieldSet_def fieldAdd_def AddRetryTimesField_def SetCancelAtUnix_def SetCancelReason_def SetCredentialHash_def SetCredential_def SetIsSandbox_def SetOrderAmountNanos_def SetOrderAmountUnit_def SetOrderCreateAtUnix_def SetOrderCurrency_def SetOrderUID_def SetOrderUpdateAtUnix_def SetPayAtUnix_def SetPaymentType_def SetProductID_def SetRealAmountNanos_def SetRealAmountUnit_def SetRealCurrency_def SetRefundAtUnix_def SetRefundReason_def SetRetryTimes_def SetRewards_def SetStatus_def SetThirdPartyOrderID_def SetThirdPartyProductID_def
      PaymentOrder_UID_def PaymentOrder_ProductID_def PaymentOrder_ThirdPartyProductID_def PaymentOrder_PaymentType_def PaymentOrder_Status_def PaymentOrder_OrderAmountUnit_def PaymentOrder_OrderAmountNanos_def PaymentOrder_OrderCurrency_def PaymentOrder_RealAmountUnit_def PaymentOrder_RealAmountNanos_def PaymentOrder_RealCurrency_def PaymentOrder_ThirdPartyOrderID_def PaymentOrder_Credential_def PaymentOrder_CredentialHash_def PaymentOrder_Rewards_def PaymentOrder_RetryTimes_def PaymentOrder_CancelReason_def PaymentOrder_RefundReason_def PaymentOrder_IsSandbox_def PaymentOrder_CreateAtUnix_def PaymentOrder_UpdateAtUnix_def PaymentOrder_PayAtUnix_def PaymentOrder_RefundAtUnix_def PaymentOrder_CancelAtUnix_def fun_eq_iff split: option.split)

definition absAccount :: "ent_op \<Rightarrow> AccountMutation \<Rightarrow> (uint64, Account) mutation" where
  "absAccount op m = (newMutation ''Account'' op [])\<lparr>
     mu_values := (\<lambda>name. Option.bind (map_of [(''is_deleted'', map_option (VBool) (am_is_deleted m)),
     (''create_at_unix'', map_option (VInt64) (am_create_at_unix m)),
     (''update_at_unix'', map_option (VInt64) (am_update_at_unix m))] name) id),
     mu_added := (\<lambda>name. Option.bind (map_of [(''update_at_unix'', map_option (VInt64) (am_addupdate_at_unix m))] name) id)\<rparr>"

lemma absAccount_steps:
  "absAccount op (SetIsDeleted v0 m) = fieldSet Account_IsDeleted (VBool v0) (absAccount op m)"
  "absAccount op (SetAccountCreateAtUnix v1 m) = fieldSet Account_CreateAtUnix (VInt64 v1) (absAccount op m)"
  "absAccount op (SetAccountUpdateAtUnix v2 m) = fieldSet Account_UpdateAtUnix (VInt64 v2) (absAccount op m)"
  by (auto simp: absAccount_def newMutation_def fieldSet_def fieldAdd_def SetAccountCreateAtUnix_def SetAccountUpdateAtUnix_def SetIsDeleted_def
      Account_IsDeleted_def Account_CreateAtUnix_def Account_UpdateAtUnix_def fun_eq_iff split: option.split)

definition absIdentity :: "ent_op \<Rightarrow> IdentityMutation \<Rightarrow> (uint64, IdentityRow) mutation" where
  "absIdentity op m = (newMutation ''Identity'' op [])\<lparr>
     mu_values := (\<lambda>name. Option.bind (map_of [(''uid'', map_option (VUint64) (im_uid m)),
     (''login_type'', map_option (VInt32) (im_login_type m)),
     (''app_id'', map_option (VString) (im_app_id m)),
     (''open_id'', map_option (VString) (im_open_id m)),
     (''union_id'', map_option (VString) (im_union_id m)),
     (''create_at_unix'', map_option (VInt64) (im_create_at_unix m))] name) id),
     mu_added := (\<lambda>name. Option.bind (map_of [] name) id)\<rparr>"

lemma absIdentity_steps:
  "absIdentity op (SetIdentityUID v0 m) = fieldSet Identity_UID (VUint64 v0) (absIdentity op m)"
  "absIdentity op (SetLoginType v1 m) = fieldSet Identity_LoginType (VInt32 v1) (absIdentity op m)"
  "absIdentity op (SetAppID v2 m) = fieldSet Identity_AppID (VString v2) (absIdentity op m)"
  "absIdentity op (SetOpenID v3 m) = fieldSet Identity_OpenID (VString v3) (absIdentity op m)"
  "absIdentity op (SetUnionID v4 m) = fieldSet Identity_UnionID (VString v4) (absIdentity op m)"
  "absIdentity op (SetIdentityCreateAtUnix v5 m) = fieldSet Identity_CreateAtUnix (VInt64 v5) (absIdentity op m)"
  by (auto simp: absIdentity_def newMutation_def fieldSet_def fieldAdd_def SetAppID_def SetIdentityCreateAtUnix_def SetIdentityUID_def SetLoginType_def SetOpenID_def SetUnionID_def
      Identity_UID_def Identity_LoginType_def Identity_AppID_def Identity_OpenID_def Identity_UnionID_def Identity_CreateAtUnix_def fun_eq_iff split: option.split)

section \<open>Properties\<close>

definition entSchemas :: "ent_field list list" where
  "entSchemas = [Item_schema, ItemNonce_schema, ItemUserLock_schema, PaymentOrder_schema, Account_schema, Identity_schema]"

lemma entSchemas_distinct: "list_all (\<lambda>schema. distinct (map ef_name schema)) entSchemas"
  by code_simp


definition paidMutation :: "(uint64, PaymentOrder) mutation" where
  "paidMutation = fieldSet PaymentOrder_Credential (VString ''tok'') (newMutation ''PaymentOrder'' OpUpdateOne [])"


end
