(* ===== verification/EntPredicates.thy ===== *)
theory EntPredicates
  imports EntSchemas
begin

text \<open>
  The predicates of ent, \<open>ent/*/where.go\<close>: for every field functions that build a condition on its column. What they
  build is a term of \<open>pred\<close>, one constructor per function of ent's \<open>sql\<close> package that they call; a field has
  the functions its type allows, in the record \<open>field_where\<close>. Which rows the database selects for a condition is not
  code of the repository: it is the parameter \<open>picks\<close> of the locale \<open>sql_selection\<close>, with the documented
  meaning of comparisons, NULL, AND and OR as its laws, and \<open>evalP\<close>, three-valued evaluation, satisfies them.
  Shown: the conditions that the stores use, built by these functions, select exactly the rows the models of
  the stores select, also where a column is NULL.
\<close>

section \<open>Conditions\<close>

datatype sql_op = EQ | NEQ | GT | GTE | LT | LTE | Contains | HasPrefix | HasSuffix | EqualFold | ContainsFold

datatype pred =
    FieldP sql_op string ent_value
  | FieldIn string "ent_value list"
  | FieldNotIn string "ent_value list"
  | FieldIsNull string
  | FieldNotNull string
  | AndPredicates "pred list"
  | OrPredicates "pred list"
  | NotPredicates pred

text \<open>A value of a named type is passed on as the \<open>int32\<close> it is based on.\<close>

fun plainValue :: "ent_value \<Rightarrow> ent_value" where
  "plainValue (VNamed _ i) = VInt32 i"
| "plainValue v = v"

text \<open>The comparisons a field has: none for JSON, equality for booleans, the order for numbers and strings, and matching for strings.\<close>

definition whereOps :: "ent_field \<Rightarrow> sql_op list" where
  "whereOps f = (if ef_type f = TRaw then [] else if ef_type f = TBool then [EQ, NEQ]
     else [EQ, NEQ, GT, GTE, LT, LTE] @ (if ef_type f = TString then [Contains, HasPrefix, HasSuffix, EqualFold, ContainsFold] else []))"

record field_where =
  wh_ops :: "sql_op \<Rightarrow> (ent_value \<Rightarrow> pred) option"
  wh_In :: "(ent_value list \<Rightarrow> pred) option"
  wh_NotIn :: "(ent_value list \<Rightarrow> pred) option"
  wh_IsNil :: "pred option"
  wh_NotNil :: "pred option"

definition fieldWhere :: "ent_field \<Rightarrow> field_where" where
  "fieldWhere f = \<lparr>
     wh_ops = (\<lambda>op. if op \<in> set (whereOps f) then Some (\<lambda>v. FieldP op (ef_name f) (plainValue v)) else None),
     wh_In = (if GT \<in> set (whereOps f) then Some (\<lambda>vs. FieldIn (ef_name f) (map plainValue vs)) else None),
     wh_NotIn = (if GT \<in> set (whereOps f) then Some (\<lambda>vs. FieldNotIn (ef_name f) (map plainValue vs)) else None),
     wh_IsNil = (if ef_nullable f then Some (FieldIsNull (ef_name f)) else None),
     wh_NotNil = (if ef_nullable f then Some (FieldNotNull (ef_name f)) else None)\<rparr>"

text \<open>A call of one of the functions, \<open>cond Item_UID_where EQ (VUint64 v)\<close> for \<open>item.UIDEQ(v)\<close>; \<open>isNil\<close> for the test for NULL.\<close>

definition cond :: "field_where \<Rightarrow> sql_op \<Rightarrow> ent_value \<Rightarrow> pred" where
  "cond wh op v = the (wh_ops wh op) v"

definition isNil :: "field_where \<Rightarrow> pred" where "isNil wh = the (wh_IsNil wh)"

definition andWhere :: "pred list \<Rightarrow> pred" where "andWhere ps = AndPredicates ps"

definition orWhere :: "pred list \<Rightarrow> pred" where "orWhere ps = OrPredicates ps"

definition notWhere :: "pred \<Rightarrow> pred" where "notWhere p = NotPredicates p"

text \<open>The functions with the name of a field alone, \<open>item.UID(v)\<close>, are equality checks.\<close>

definition fieldIs :: "ent_field list \<Rightarrow> string \<Rightarrow> ent_value \<Rightarrow> pred" where
  "fieldIs schema name v = FieldP EQ (ef_name (the (lookupField schema name))) (plainValue v)"

section \<open>The meaning of a condition\<close>

datatype sql_value = SInt int | SStr string | SJson json

text \<open>The value of a column as MySQL stores it, \<open>None\<close> for NULL.\<close>

fun toSql :: "ent_value \<Rightarrow> sql_value option" where
  "toSql (VUint64 n) = Some (SInt (int n))"
| "toSql (VInt64 i) = Some (SInt i)"
| "toSql (VInt32 i) = Some (SInt i)"
| "toSql (VNamed _ i) = Some (SInt i)"
| "toSql (VBool b) = Some (SInt (if b then 1 else 0))"
| "toSql (VString s) = Some (SStr s)"
| "toSql (VStringPtr s) = map_option SStr s"
| "toSql (VRaw j) = map_option SJson j"

fun comparable :: "sql_value option \<Rightarrow> sql_value option \<Rightarrow> bool" where
  "comparable None _ = True"
| "comparable (Some (SInt _)) (Some (SInt _)) = True"
| "comparable (Some (SStr _)) (Some (SStr _)) = True"
| "comparable _ _ = False"

fun sqlEq :: "(string \<Rightarrow> string \<Rightarrow> bool) \<Rightarrow> sql_value option \<Rightarrow> sql_value option \<Rightarrow> bool" where
  "sqlEq same (Some (SInt a)) (Some (SInt b)) = (a = b)"
| "sqlEq same (Some (SStr s)) (Some (SStr t)) = same s t"
| "sqlEq same _ _ = False"

fun isInt :: "sql_value option \<Rightarrow> bool" where
  "isInt (Some (SInt _)) = True"
| "isInt _ = False"

fun sqlInt :: "sql_value option \<Rightarrow> int" where
  "sqlInt (Some (SInt a)) = a"
| "sqlInt _ = 0"

lemma nullable_string [simp]:
  "comparable (map_option SStr s) (Some (SStr t))"
  "sqlEq same (map_option SStr s) (Some (SStr t)) \<longleftrightarrow> (\<exists>x. s = Some x \<and> same x t)"
  by (cases s; simp)+

lemmas comparable_cases = comparable.cases

text \<open>
  What the code relies on of the database, for a table with columns \<open>col\<close>. Strings are compared by \<open>same\<close>, the
  equality of the table's collation. A comparison with NULL never selects.
\<close>

locale sql_selection =
  fixes same :: "string \<Rightarrow> string \<Rightarrow> bool"
    and col :: "string \<Rightarrow> 'r \<Rightarrow> sql_value option"
    and picks :: "pred \<Rightarrow> 'r \<Rightarrow> bool"
  assumes EQ_int: "col c r = Some (SInt a) \<Longrightarrow> toSql v = Some (SInt b) \<Longrightarrow> picks (FieldP EQ c v) r \<longleftrightarrow> a = b"
    and EQ_str: "col c r = Some (SStr s) \<Longrightarrow> toSql v = Some (SStr t) \<Longrightarrow> picks (FieldP EQ c v) r \<longleftrightarrow> same s t"
    and GT_int: "col c r = Some (SInt a) \<Longrightarrow> toSql v = Some (SInt b) \<Longrightarrow> picks (FieldP GT c v) r \<longleftrightarrow> b < a"
    and LTE_int: "col c r = Some (SInt a) \<Longrightarrow> toSql v = Some (SInt b) \<Longrightarrow> picks (FieldP LTE c v) r \<longleftrightarrow> a \<le> b"
    and null_compare: "col c r = None \<Longrightarrow> \<not> picks (FieldP op c v) r"
    and IsNull: "picks (FieldIsNull c) r \<longleftrightarrow> col c r = None"
    and And: "ps \<noteq> [] \<Longrightarrow> picks (AndPredicates ps) r \<longleftrightarrow> list_all (\<lambda>p. picks p r) ps"
    and Or: "ps \<noteq> [] \<Longrightarrow> picks (OrPredicates ps) r \<longleftrightarrow> list_ex (\<lambda>p. picks p r) ps"
begin

lemma EQ_sqlEq: "comparable (col c r) (toSql v) \<Longrightarrow> picks (FieldP EQ c v) r \<longleftrightarrow> sqlEq same (col c r) (toSql v)"
  using EQ_int EQ_str null_compare by (cases "(col c r, toSql v)" rule: comparable_cases) auto

lemma GT_sqlInt: "isInt (col c r) \<Longrightarrow> isInt (toSql v) \<Longrightarrow> picks (FieldP GT c v) r \<longleftrightarrow> sqlInt (toSql v) < sqlInt (col c r)"
  using GT_int by (auto elim!: isInt.elims)

lemma LTE_sqlInt: "isInt (col c r) \<Longrightarrow> isInt (toSql v) \<Longrightarrow> picks (FieldP LTE c v) r \<longleftrightarrow> sqlInt (col c r) \<le> sqlInt (toSql v)"
  using LTE_int by (auto elim!: isInt.elims)

lemma where_groups:
  assumes "ps \<noteq> []"
  shows "picks (andWhere ps) r \<longleftrightarrow> list_all (\<lambda>p. picks p r) ps"
    and "picks (orWhere ps) r \<longleftrightarrow> list_ex (\<lambda>p. picks p r) ps"
  using assms And Or by (simp_all add: andWhere_def orWhere_def)

end

text \<open>A function that satisfies the laws: evaluation in three-valued logic, where a row is selected when its condition is true.\<close>

fun intOp :: "sql_op \<Rightarrow> int \<Rightarrow> int \<Rightarrow> bool option" where
  "intOp EQ a b = Some (a = b)"
| "intOp NEQ a b = Some (a \<noteq> b)"
| "intOp GT a b = Some (b < a)"
| "intOp GTE a b = Some (b \<le> a)"
| "intOp LT a b = Some (a < b)"
| "intOp LTE a b = Some (a \<le> b)"
| "intOp _ a b = None"

type_synonym collation = "sql_op \<Rightarrow> string \<Rightarrow> string \<Rightarrow> bool"

fun compareOp :: "collation \<Rightarrow> sql_op \<Rightarrow> sql_value option \<Rightarrow> sql_value option \<Rightarrow> bool option" where
  "compareOp coll op (Some (SInt a)) (Some (SInt b)) = intOp op a b"
| "compareOp coll op (Some (SStr a)) (Some (SStr b)) = Some (coll op a b)"
| "compareOp coll op _ _ = None"

definition and3 :: "bool option list \<Rightarrow> bool option" where
  "and3 xs = (if Some False \<in> set xs then Some False else if None \<in> set xs then None else Some True)"

definition or3 :: "bool option list \<Rightarrow> bool option" where
  "or3 xs = (if Some True \<in> set xs then Some True else if None \<in> set xs then None else Some False)"

fun evalP :: "collation \<Rightarrow> (string \<Rightarrow> 'r \<Rightarrow> sql_value option) \<Rightarrow> pred \<Rightarrow> 'r \<Rightarrow> bool option" where
  "evalP coll col (FieldP op c v) r = compareOp coll op (col c r) (toSql v)"
| "evalP coll col (FieldIn c vs) r = or3 (map (\<lambda>v. compareOp coll EQ (col c r) (toSql v)) vs)"
| "evalP coll col (FieldNotIn c vs) r = map_option Not (or3 (map (\<lambda>v. compareOp coll EQ (col c r) (toSql v)) vs))"
| "evalP coll col (FieldIsNull c) r = Some (col c r = None)"
| "evalP coll col (FieldNotNull c) r = Some (col c r \<noteq> None)"
| "evalP coll col (AndPredicates ps) r = and3 (map (\<lambda>p. evalP coll col p r) ps)"
| "evalP coll col (OrPredicates ps) r = or3 (map (\<lambda>p. evalP coll col p r) ps)"
| "evalP coll col (NotPredicates p) r = map_option Not (evalP coll col p r)"

definition selectsRow :: "collation \<Rightarrow> (string \<Rightarrow> 'r \<Rightarrow> sql_value option) \<Rightarrow> pred \<Rightarrow> 'r \<Rightarrow> bool" where
  "selectsRow coll col p r \<longleftrightarrow> evalP coll col p r = Some True"

lemma and3_True [simp]: "and3 xs = Some True \<longleftrightarrow> list_all (\<lambda>x. x = Some True) xs"
  by (auto simp: and3_def list_all_iff) (metis (full_types) not_None_eq)

lemma or3_True [simp]: "or3 xs = Some True \<longleftrightarrow> list_ex (\<lambda>x. x = Some True) xs"
  by (auto simp: or3_def list_ex_iff)

interpretation sql3: sql_selection "coll EQ" col "selectsRow coll col" for coll and col :: "string \<Rightarrow> 'r \<Rightarrow> sql_value option"
  by unfold_locales (auto simp: selectsRow_def list_all_iff list_ex_iff image_iff eq_commute [of "Some True"])

text \<open>The negation of a comparison with NULL does not select the row either.\<close>

lemma null_never_selected:
  assumes "col c r = None"
  shows "\<not> selectsRow coll col (notWhere (FieldP op c v)) r"
  using assms by (simp add: selectsRow_def notWhere_def)

section \<open>Item\<close>

definition Item_ID :: ent_field where
  "Item_ID = \<lparr>ef_name = ''id'', ef_type = TInt64, ef_add = None, ef_nullable = False\<rparr>"

definition Item_ID_where :: field_where where "Item_ID_where = fieldWhere Item_ID"

definition Item_UID_where :: field_where where "Item_UID_where = fieldWhere Item_UID"

definition Item_ItemID_where :: field_where where "Item_ItemID_where = fieldWhere Item_ItemID"

definition Item_Count_where :: field_where where "Item_Count_where = fieldWhere Item_Count"

definition Item_UsedCount_where :: field_where where "Item_UsedCount_where = fieldWhere Item_UsedCount"

definition Item_ExpireAtUnix_where :: field_where where "Item_ExpireAtUnix_where = fieldWhere Item_ExpireAtUnix"

definition Item_Source_where :: field_where where "Item_Source_where = fieldWhere Item_Source"

definition Item_CreateAtUnix_where :: field_where where "Item_CreateAtUnix_where = fieldWhere Item_CreateAtUnix"

definition Item_UpdateAtUnix_where :: field_where where "Item_UpdateAtUnix_where = fieldWhere Item_UpdateAtUnix"

definition Item_is :: "string \<Rightarrow> ent_value \<Rightarrow> pred" where "Item_is = fieldIs Item_schema"

definition Item_sql :: "string \<Rightarrow> Item \<Rightarrow> sql_value option" where
  "Item_sql c r = (if c = ef_name Item_ID then Some (SInt (it_ID r)) else toSql (Item_column c r))"

section \<open>ItemNonce\<close>

definition ItemNonce_ID :: ent_field where
  "ItemNonce_ID = \<lparr>ef_name = ''id'', ef_type = TUint64, ef_add = None, ef_nullable = False\<rparr>"

definition ItemNonce_ID_where :: field_where where "ItemNonce_ID_where = fieldWhere ItemNonce_ID"

definition ItemNonce_UID_where :: field_where where "ItemNonce_UID_where = fieldWhere ItemNonce_UID"

definition ItemNonce_Nonce_where :: field_where where "ItemNonce_Nonce_where = fieldWhere ItemNonce_Nonce"

definition ItemNonce_OpType_where :: field_where where "ItemNonce_OpType_where = fieldWhere ItemNonce_OpType"

definition ItemNonce_CreateAtUnix_where :: field_where where "ItemNonce_CreateAtUnix_where = fieldWhere ItemNonce_CreateAtUnix"

definition ItemNonce_is :: "string \<Rightarrow> ent_value \<Rightarrow> pred" where "ItemNonce_is = fieldIs ItemNonce_schema"

definition ItemNonce_sql :: "string \<Rightarrow> ItemNonce \<Rightarrow> sql_value option" where
  "ItemNonce_sql c r = (if c = ef_name ItemNonce_ID then Some (SInt (int (in_ID r))) else toSql (ItemNonce_column c r))"

section \<open>ItemUserLock\<close>

definition ItemUserLock_ID :: ent_field where
  "ItemUserLock_ID = \<lparr>ef_name = ''uid'', ef_type = TUint64, ef_add = None, ef_nullable = False\<rparr>"

definition ItemUserLock_ID_where :: field_where where "ItemUserLock_ID_where = fieldWhere ItemUserLock_ID"

definition ItemUserLock_sql :: "string \<Rightarrow> ItemUserLock \<Rightarrow> sql_value option" where
  "ItemUserLock_sql c r = (if c = ef_name ItemUserLock_ID then Some (SInt (int (il_ID r))) else None)"

section \<open>PaymentOrder\<close>

definition PaymentOrder_ID :: ent_field where
  "PaymentOrder_ID = \<lparr>ef_name = ''id'', ef_type = TUint64, ef_add = None, ef_nullable = False\<rparr>"

definition PaymentOrder_ID_where :: field_where where "PaymentOrder_ID_where = fieldWhere PaymentOrder_ID"

definition PaymentOrder_UID_where :: field_where where "PaymentOrder_UID_where = fieldWhere PaymentOrder_UID"

definition PaymentOrder_ProductID_where :: field_where where "PaymentOrder_ProductID_where = fieldWhere PaymentOrder_ProductID"

definition PaymentOrder_ThirdPartyProductID_where :: field_where where "PaymentOrder_ThirdPartyProductID_where = fieldWhere PaymentOrder_ThirdPartyProductID"

definition PaymentOrder_PaymentType_where :: field_where where "PaymentOrder_PaymentType_where = fieldWhere PaymentOrder_PaymentType"

definition PaymentOrder_Status_where :: field_where where "PaymentOrder_Status_where = fieldWhere PaymentOrder_Status"

definition PaymentOrder_OrderAmountUnit_where :: field_where where "PaymentOrder_OrderAmountUnit_where = fieldWhere PaymentOrder_OrderAmountUnit"

definition PaymentOrder_OrderAmountNanos_where :: field_where where "PaymentOrder_OrderAmountNanos_where = fieldWhere PaymentOrder_OrderAmountNanos"

definition PaymentOrder_OrderCurrency_where :: field_where where "PaymentOrder_OrderCurrency_where = fieldWhere PaymentOrder_OrderCurrency"

definition PaymentOrder_RealAmountUnit_where :: field_where where "PaymentOrder_RealAmountUnit_where = fieldWhere PaymentOrder_RealAmountUnit"

definition PaymentOrder_RealAmountNanos_where :: field_where where "PaymentOrder_RealAmountNanos_where = fieldWhere PaymentOrder_RealAmountNanos"

definition PaymentOrder_RealCurrency_where :: field_where where "PaymentOrder_RealCurrency_where = fieldWhere PaymentOrder_RealCurrency"

definition PaymentOrder_ThirdPartyOrderID_where :: field_where where "PaymentOrder_ThirdPartyOrderID_where = fieldWhere PaymentOrder_ThirdPartyOrderID"

definition PaymentOrder_Credential_where :: field_where where "PaymentOrder_Credential_where = fieldWhere PaymentOrder_Credential"

definition PaymentOrder_CredentialHash_where :: field_where where "PaymentOrder_CredentialHash_where = fieldWhere PaymentOrder_CredentialHash"

definition PaymentOrder_Rewards_where :: field_where where "PaymentOrder_Rewards_where = fieldWhere PaymentOrder_Rewards"

definition PaymentOrder_RetryTimes_where :: field_where where "PaymentOrder_RetryTimes_where = fieldWhere PaymentOrder_RetryTimes"

definition PaymentOrder_CancelReason_where :: field_where where "PaymentOrder_CancelReason_where = fieldWhere PaymentOrder_CancelReason"

definition PaymentOrder_RefundReason_where :: field_where where "PaymentOrder_RefundReason_where = fieldWhere PaymentOrder_RefundReason"

definition PaymentOrder_IsSandbox_where :: field_where where "PaymentOrder_IsSandbox_where = fieldWhere PaymentOrder_IsSandbox"

definition PaymentOrder_CreateAtUnix_where :: field_where where "PaymentOrder_CreateAtUnix_where = fieldWhere PaymentOrder_CreateAtUnix"

definition PaymentOrder_UpdateAtUnix_where :: field_where where "PaymentOrder_UpdateAtUnix_where = fieldWhere PaymentOrder_UpdateAtUnix"

definition PaymentOrder_PayAtUnix_where :: field_where where "PaymentOrder_PayAtUnix_where = fieldWhere PaymentOrder_PayAtUnix"

definition PaymentOrder_RefundAtUnix_where :: field_where where "PaymentOrder_RefundAtUnix_where = fieldWhere PaymentOrder_RefundAtUnix"

definition PaymentOrder_CancelAtUnix_where :: field_where where "PaymentOrder_CancelAtUnix_where = fieldWhere PaymentOrder_CancelAtUnix"

definition PaymentOrder_is :: "string \<Rightarrow> ent_value \<Rightarrow> pred" where "PaymentOrder_is = fieldIs PaymentOrder_schema"

definition PaymentOrder_sql :: "string \<Rightarrow> PaymentOrder \<Rightarrow> sql_value option" where
  "PaymentOrder_sql c r = (if c = ef_name PaymentOrder_ID then Some (SInt (int (po_ID r))) else toSql (PaymentOrder_column c r))"

section \<open>Account\<close>

definition Account_ID :: ent_field where
  "Account_ID = \<lparr>ef_name = ''id'', ef_type = TUint64, ef_add = None, ef_nullable = False\<rparr>"

definition Account_ID_where :: field_where where "Account_ID_where = fieldWhere Account_ID"

definition Account_IsDeleted_where :: field_where where "Account_IsDeleted_where = fieldWhere Account_IsDeleted"

definition Account_CreateAtUnix_where :: field_where where "Account_CreateAtUnix_where = fieldWhere Account_CreateAtUnix"

definition Account_UpdateAtUnix_where :: field_where where "Account_UpdateAtUnix_where = fieldWhere Account_UpdateAtUnix"

definition Account_is :: "string \<Rightarrow> ent_value \<Rightarrow> pred" where "Account_is = fieldIs Account_schema"

definition Account_sql :: "string \<Rightarrow> Account \<Rightarrow> sql_value option" where
  "Account_sql c r = (if c = ef_name Account_ID then Some (SInt (int (ac_ID r))) else toSql (Account_column c r))"

section \<open>Identity\<close>

definition Identity_ID :: ent_field where
  "Identity_ID = \<lparr>ef_name = ''id'', ef_type = TUint64, ef_add = None, ef_nullable = False\<rparr>"

definition Identity_ID_where :: field_where where "Identity_ID_where = fieldWhere Identity_ID"

definition Identity_UID_where :: field_where where "Identity_UID_where = fieldWhere Identity_UID"

definition Identity_LoginType_where :: field_where where "Identity_LoginType_where = fieldWhere Identity_LoginType"

definition Identity_AppID_where :: field_where where "Identity_AppID_where = fieldWhere Identity_AppID"

definition Identity_OpenID_where :: field_where where "Identity_OpenID_where = fieldWhere Identity_OpenID"

definition Identity_UnionID_where :: field_where where "Identity_UnionID_where = fieldWhere Identity_UnionID"

definition Identity_CreateAtUnix_where :: field_where where "Identity_CreateAtUnix_where = fieldWhere Identity_CreateAtUnix"

definition Identity_is :: "string \<Rightarrow> ent_value \<Rightarrow> pred" where "Identity_is = fieldIs Identity_schema"

definition Identity_sql :: "string \<Rightarrow> IdentityRow \<Rightarrow> sql_value option" where
  "Identity_sql c r = (if c = ef_name Identity_ID then Some (SInt (int (id_ID r))) else toSql (Identity_column c r))"

section \<open>The conditions of the stores\<close>

text \<open>The conditions of \<open>FindAndBindOrder\<close> and \<open>MarkOrderPurchased\<close> as the store of payments builds them.\<close>

definition bindWhere :: "uint64 \<Rightarrow> int \<Rightarrow> uint64 \<Rightarrow> int \<Rightarrow> string \<Rightarrow> string \<Rightarrow> pred list" where
  "bindWhere uid paymentType orderId productId credentialHash thirdPartyOrderId =
     [cond PaymentOrder_ID_where EQ (VUint64 orderId), cond PaymentOrder_UID_where EQ (VUint64 uid),
      cond PaymentOrder_PaymentType_where EQ (VNamed ''PaymentType'' paymentType),
      cond PaymentOrder_ProductID_where EQ (VInt32 productId),
      orWhere [isNil PaymentOrder_CredentialHash_where, cond PaymentOrder_CredentialHash_where EQ (VString credentialHash)]] @
     (if thirdPartyOrderId \<noteq> '''' then
       [orWhere [isNil PaymentOrder_ThirdPartyOrderID_where, cond PaymentOrder_ThirdPartyOrderID_where EQ (VString thirdPartyOrderId)]] else [])"

definition statusIs :: "int \<Rightarrow> pred" where
  "statusIs v = cond PaymentOrder_Status_where EQ (VNamed ''OrderStatus'' v)"

definition purchasedWhere :: "uint64 \<Rightarrow> pred list" where
  "purchasedWhere orderId = [cond PaymentOrder_ID_where EQ (VUint64 orderId),
     orWhere [statusIs OrderStatusPending,
       andWhere [statusIs OrderStatusCancelled, cond PaymentOrder_CancelReason_where EQ (VString CancelReasonTimeout)]]]"

definition expiredWhere :: "int \<Rightarrow> pred list" where
  "expiredWhere expiredAtUnix = [statusIs OrderStatusPending, cond PaymentOrder_CreateAtUnix_where LTE (VInt64 expiredAtUnix)]"

lemmas where_defs = whereOps_def
  Item_UID_where_def Item_ItemID_where_def Item_ExpireAtUnix_where_def
  ItemNonce_UID_where_def ItemNonce_Nonce_where_def ItemNonce_OpType_where_def
  PaymentOrder_ID_where_def PaymentOrder_UID_where_def PaymentOrder_PaymentType_where_def PaymentOrder_ProductID_where_def
  PaymentOrder_Status_where_def PaymentOrder_CreateAtUnix_where_def PaymentOrder_CancelReason_where_def
  PaymentOrder_CredentialHash_where_def PaymentOrder_ThirdPartyOrderID_where_def
  Account_ID_where_def Account_IsDeleted_where_def
  Identity_UID_where_def Identity_LoginType_where_def Identity_AppID_where_def Identity_OpenID_where_def

lemmas where_columns =
  Item_sql_def Item_column_def Item_ID_def Item_UID_def Item_ItemID_def Item_ExpireAtUnix_def
  ItemNonce_sql_def ItemNonce_column_def ItemNonce_ID_def ItemNonce_UID_def ItemNonce_Nonce_def ItemNonce_OpType_def
  PaymentOrder_sql_def PaymentOrder_column_def PaymentOrder_ID_def PaymentOrder_UID_def PaymentOrder_PaymentType_def
  PaymentOrder_ProductID_def PaymentOrder_Status_def PaymentOrder_CreateAtUnix_def PaymentOrder_CancelReason_def
  PaymentOrder_CredentialHash_def PaymentOrder_ThirdPartyOrderID_def
  Account_sql_def Account_column_def Account_ID_def Account_IsDeleted_def
  Identity_sql_def Identity_column_def Identity_ID_def Identity_UID_def Identity_LoginType_def Identity_AppID_def Identity_OpenID_def

lemma order_conditions:
  assumes "sql_selection (=) PaymentOrder_sql picks"
  shows "picks (cond PaymentOrder_ID_where EQ (VUint64 i)) r = OrderIDEQ i r"
    and "picks (cond PaymentOrder_UID_where EQ (VUint64 i)) r = OrderUIDEQ i r"
    and "picks (cond PaymentOrder_PaymentType_where EQ (VNamed n t)) r = PaymentTypeEQ t r"
    and "picks (cond PaymentOrder_ProductID_where EQ (VInt32 t)) r = ProductIDEQ t r"
    and "picks (statusIs t) r = StatusEQ t r"
    and "picks (cond PaymentOrder_CreateAtUnix_where LTE (VInt64 t)) r = CreateAtUnixLTE t r"
    and "picks (cond PaymentOrder_CancelReason_where EQ (VString s)) r = CancelReasonEQ s r"
    and "picks (isNil PaymentOrder_CredentialHash_where) r = CredentialHashIsNil r"
    and "picks (cond PaymentOrder_CredentialHash_where EQ (VString s)) r = CredentialHashEQ s r"
    and "picks (isNil PaymentOrder_ThirdPartyOrderID_where) r = ThirdPartyOrderIDIsNil r"
    and "picks (cond PaymentOrder_ThirdPartyOrderID_where EQ (VString s)) r = ThirdPartyOrderIDEQ s r"
  by (simp_all add: cond_def isNil_def fieldWhere_def where_defs where_columns statusIs_def
    sql_selection.EQ_sqlEq [OF assms] sql_selection.LTE_sqlInt [OF assms] sql_selection.IsNull [OF assms])

lemma item_conditions:
  assumes "sql_selection (=) Item_sql picks"
  shows "picks (Item_is ''uid'' (VUint64 i)) r = ItemUIDEQ i r"
    and "picks (cond Item_ItemID_where EQ (VInt32 t)) r = ItemIDEQ t r"
    and "picks (cond Item_ExpireAtUnix_where EQ (VInt64 t)) r = ExpireAtUnixEQ t r"
    and "picks (cond Item_ExpireAtUnix_where GT (VInt64 t)) r = ExpireAtUnixGT t r"
  by (simp_all add: cond_def fieldWhere_def Item_is_def fieldIs_def lookupField_def Item_schema_def where_defs where_columns
    ItemUIDEQ_def ItemIDEQ_def ExpireAtUnixEQ_def ExpireAtUnixGT_def
    sql_selection.EQ_sqlEq [OF assms] sql_selection.GT_sqlInt [OF assms])

lemma nonce_conditions:
  assumes "sql_selection (=) ItemNonce_sql picks"
  shows "picks (cond ItemNonce_UID_where EQ (VUint64 i)) r = NonceUIDEQ i r"
    and "picks (cond ItemNonce_Nonce_where EQ (VString s)) r = NonceEQ s r"
    and "picks (cond ItemNonce_OpType_where EQ (VNamed n t)) r = OpTypeEQ t r"
  by (simp_all add: cond_def fieldWhere_def where_defs where_columns NonceUIDEQ_def NonceEQ_def OpTypeEQ_def sql_selection.EQ_sqlEq [OF assms])

lemma account_conditions:
  assumes "sql_selection (=) Account_sql picks"
  shows "picks (cond Account_ID_where EQ (VUint64 i)) r = AccountIDEQ i r"
    and "picks (cond Account_IsDeleted_where EQ (VBool b)) r = IsDeletedEQ b r"
  by (simp_all add: cond_def fieldWhere_def where_defs where_columns AccountIDEQ_def IsDeletedEQ_def sql_selection.EQ_sqlEq [OF assms])

lemma identity_conditions:
  assumes "sql_selection (=) Identity_sql picks"
  shows "picks (cond Identity_UID_where EQ (VUint64 i)) r = IdentityUIDEQ i r"
    and "picks (cond Identity_LoginType_where EQ (VInt32 t)) r = LoginTypeEQ t r"
    and "picks (cond Identity_AppID_where EQ (VString s)) r = AppIDEQ s r"
    and "picks (cond Identity_OpenID_where EQ (VString s)) r = OpenIDEQ s r"
  by (simp_all add: cond_def fieldWhere_def where_defs where_columns IdentityUIDEQ_def LoginTypeEQ_def AppIDEQ_def OpenIDEQ_def
    sql_selection.EQ_sqlEq [OF assms])

text \<open>The function named like a field is the same as the one with \<open>EQ\<close>, for every field of a table but JSON.\<close>

lemma fieldIs_EQ:
  assumes "lookupField schema name = Some f" and "ef_type f \<noteq> TRaw"
  shows "fieldIs schema name = cond (fieldWhere f) EQ"
  using assms by (auto simp: fieldIs_def cond_def fieldWhere_def whereOps_def fun_eq_iff)

definition openOrder :: PaymentOrder where
  "openOrder = \<lparr>po_ID = 7, po_UID = 3, po_ProductID = 1, po_ThirdPartyProductID = ''gems'', po_PaymentType = 2,
     po_Status = 0, po_OrderAmountUnit = 6, po_OrderAmountNanos = 0, po_OrderCurrency = ''CNY'',
     po_RealAmountUnit = 0, po_RealAmountNanos = 0, po_RealCurrency = [], po_ThirdPartyOrderID = Some ''GPA.1'',
     po_Credential = None, po_CredentialHash = None, po_Rewards = None,
     po_RetryTimes = 0, po_CancelReason = [], po_RefundReason = [], po_IsSandbox = False,
     po_CreateAtUnix = 10000, po_UpdateAtUnix = 10000, po_PayAtUnix = 0, po_RefundAtUnix = 0, po_CancelAtUnix = 0\<rparr>"

text \<open>
  C34: The conditions of an update that binds, pays or expires an order, as the store builds them, select the orders that its
  model selects: an order whose credential is NULL or the given one, and no order with another.
\<close>

theorem order_updates_select_exactly:
  assumes "sql_selection (=) PaymentOrder_sql picks"
  shows "list_all (\<lambda>p. picks p r) (bindWhere uid paymentType orderId productId hash tp)
           = list_all (\<lambda>p. p r) (bindPredicates uid paymentType orderId productId hash tp)
       \<and> list_all (\<lambda>p. picks p r) (purchasedWhere orderId) = list_all (\<lambda>p. p r) (purchasedPredicates orderId)
       \<and> list_all (\<lambda>p. picks p r) (expiredWhere now) = (StatusEQ OrderStatusPending r \<and> CreateAtUnixLTE now r)"
proof -
  note groups = sql_selection.where_groups [OF assms] order_conditions [OF assms]
  show ?thesis
    by (simp add: bindWhere_def bindPredicates_def purchasedWhere_def purchasedPredicates_def expiredWhere_def groups)
qed

theorem order_updates_select_exactly_witness:
  "list_all (\<lambda>p. selectsRow (\<lambda>_. (=)) PaymentOrder_sql p openOrder) (bindWhere 3 2 7 1 ''h'' ''GPA.1'')
   \<and> \<not> list_all (\<lambda>p. selectsRow (\<lambda>_. (=)) PaymentOrder_sql p openOrder) (bindWhere 3 2 7 1 ''h'' ''GPA.2'')"
  using order_updates_select_exactly [OF sql3.sql_selection_axioms [of "\<lambda>_. (=)" PaymentOrder_sql], of openOrder 3 2 7 1 "''h''" "''GPA.1''"]
    order_updates_select_exactly [OF sql3.sql_selection_axioms [of "\<lambda>_. (=)" PaymentOrder_sql], of openOrder 3 2 7 1 "''h''" "''GPA.2''"]
  by (simp add: bindPredicates_def openOrder_def)

end
