(* ===== verification/EntScan.thy ===== *)
theory EntScan
  imports EntPredicates
begin

text \<open>
  How a row becomes an entity: \<open>scanValues\<close> chooses what each column is scanned into, \<open>database/sql\<close> scans, and \<open>assignValues\<close>
  sets the fields, \<open>ent/item.go\<close> and its siblings for the six tables. An integer column of any type
  goes through \<open>sql.NullInt64\<close>; values of columns that no field has are left out. A JSON column holds a valid document, so it is kept as one. Shown: a row
  comes back as it was stored, and exactly the ids below \<open>2 ^ 63\<close> can be read at all.
\<close>

section \<open>Scanning\<close>

datatype scan_dest = DInt64 | DString | DBool | DBytes | DUnknown

datatype scan_value =
    NullInt64 "int option"
  | NullString "string option"
  | NullBool "bool option"
  | ScanBytes RawMessage
  | UnknownType "sql_value option"

datatype scan_error = MismatchNumber nat nat | UnexpectedScan string | ScanRange string

text \<open>\<open>rows.Scan\<close> of a value of a column's own type; a number outside \<open>int64\<close> is an error of the conversion.\<close>

definition scanInto :: "string \<Rightarrow> scan_dest \<Rightarrow> sql_value option \<Rightarrow> scan_error + scan_value" where
  "scanInto c d v =
     (case d of
        DInt64 \<Rightarrow> (case v of None \<Rightarrow> Inr (NullInt64 None)
                  | Some (SInt i) \<Rightarrow> if fits64 i then Inr (NullInt64 (Some i)) else Inl (ScanRange c)
                  | _ \<Rightarrow> Inl (UnexpectedScan c))
      | DString \<Rightarrow> (case v of None \<Rightarrow> Inr (NullString None) | Some (SStr s) \<Rightarrow> Inr (NullString (Some s)) | _ \<Rightarrow> Inl (UnexpectedScan c))
      | DBool \<Rightarrow> (case v of None \<Rightarrow> Inr (NullBool None)
                 | Some (SInt i) \<Rightarrow> if i = 0 then Inr (NullBool (Some False)) else if i = 1 then Inr (NullBool (Some True)) else Inl (ScanRange c)
                 | _ \<Rightarrow> Inl (UnexpectedScan c))
      | DBytes \<Rightarrow> (case v of None \<Rightarrow> Inr (ScanBytes None) | Some (SJson j) \<Rightarrow> Inr (ScanBytes (Some j)) | _ \<Rightarrow> Inl (UnexpectedScan c))
      | DUnknown \<Rightarrow> Inr (UnknownType v))"

fun scanAll :: "(string \<Rightarrow> scan_dest) \<Rightarrow> (string \<Rightarrow> sql_value option) \<Rightarrow> string list \<Rightarrow> scan_error + scan_value list" where
  "scanAll dest col [] = Inr []"
| "scanAll dest col (c # cs) =
     (case scanInto c (dest c) (col c) of
        Inl e \<Rightarrow> Inl e
      | Inr v \<Rightarrow> (case scanAll dest col cs of Inl e \<Rightarrow> Inl e | Inr vs \<Rightarrow> Inr (v # vs)))"

text \<open>The type assertions of \<open>assignValues\<close>.\<close>

definition intCol :: "string \<Rightarrow> scan_value \<Rightarrow> (int option \<Rightarrow> 'r) \<Rightarrow> scan_error + 'r" where
  "intCol c v upd = (case v of NullInt64 x \<Rightarrow> Inr (upd x) | _ \<Rightarrow> Inl (UnexpectedScan c))"

definition stringCol :: "string \<Rightarrow> scan_value \<Rightarrow> (string option \<Rightarrow> 'r) \<Rightarrow> scan_error + 'r" where
  "stringCol c v upd = (case v of NullString x \<Rightarrow> Inr (upd x) | _ \<Rightarrow> Inl (UnexpectedScan c))"

definition boolCol :: "string \<Rightarrow> scan_value \<Rightarrow> (bool option \<Rightarrow> 'r) \<Rightarrow> scan_error + 'r" where
  "boolCol c v upd = (case v of NullBool x \<Rightarrow> Inr (upd x) | _ \<Rightarrow> Inl (UnexpectedScan c))"

definition rawCol :: "string \<Rightarrow> scan_value \<Rightarrow> (RawMessage \<Rightarrow> 'r) \<Rightarrow> scan_error + 'r" where
  "rawCol c v upd = (case v of ScanBytes x \<Rightarrow> Inr (upd x) | _ \<Rightarrow> Inl (UnexpectedScan c))"

fun assignLoop :: "(string \<Rightarrow> scan_value \<Rightarrow> 'r \<Rightarrow> scan_error + 'r) \<Rightarrow> string list \<Rightarrow> scan_value list \<Rightarrow> 'r \<Rightarrow> scan_error + 'r" where
  "assignLoop assign (c # cs) (v # vs) r = (case assign c v r of Inl e \<Rightarrow> Inl e | Inr r' \<Rightarrow> assignLoop assign cs vs r')"
| "assignLoop assign _ _ r = Inr r"

definition assignValues :: "(string \<Rightarrow> scan_value \<Rightarrow> 'r \<Rightarrow> scan_error + 'r) \<Rightarrow> string list \<Rightarrow> scan_value list \<Rightarrow> 'r \<Rightarrow> scan_error + 'r" where
  "assignValues assign columns values r =
     (if length values < length columns then Inl (MismatchNumber (length values) (length columns)) else assignLoop assign columns values r)"

text \<open>A row that is read: scanned column by column and assigned to a new entity.\<close>

definition loadRow ::
  "(string \<Rightarrow> scan_dest) \<Rightarrow> (string \<Rightarrow> scan_value \<Rightarrow> 'r \<Rightarrow> scan_error + 'r) \<Rightarrow> 'r \<Rightarrow> (string \<Rightarrow> 'r \<Rightarrow> sql_value option) \<Rightarrow> string list
     \<Rightarrow> 'r \<Rightarrow> scan_error + 'r" where
  "loadRow dest assign zero col columns r =
     (case scanAll dest (\<lambda>c. col c r) columns of Inl e \<Rightarrow> Inl e | Inr vs \<Rightarrow> assignValues assign columns vs zero)"

definition toUint64 :: "int \<Rightarrow> uint64" where "toUint64 i = nat (i mod 2 ^ 64)"

definition fitsId :: "uint64 \<Rightarrow> bool" where "fitsId i \<longleftrightarrow> i < 2 ^ 63"

lemma fitsId_fits [simp]: "fits64 (int i) \<longleftrightarrow> fitsId i"
  by (simp add: fits64_def fitsId_def)

lemma fits32_fits64 [simp]: "fits32 i \<Longrightarrow> fits64 i"
  by (simp add: fits32_def fits64_def)

lemma toUint64_int [simp]: "fitsId i \<Longrightarrow> toUint64 (int i) = i"
  by (simp add: toUint64_def fitsId_def nat_mod_distrib nat_power_eq)

text \<open>One column after the other.\<close>

definition loadStep where
  "loadStep dest assign col c r x = (case scanInto c (dest c) (col c r) of Inl e \<Rightarrow> Inl e | Inr v \<Rightarrow> assign c v x)"

fun loadSteps where
  "loadSteps dest assign col r [] x = Inr x"
| "loadSteps dest assign col r (c # cs) x = (case loadStep dest assign col c r x of Inl e \<Rightarrow> Inl e | Inr y \<Rightarrow> loadSteps dest assign col r cs y)"

lemma scanAll_length: "scanAll dest col cs = Inr vs \<Longrightarrow> length vs = length cs"
  by (induction cs arbitrary: vs) (auto split: sum.splits)

lemma loadSteps_assign:
  assumes "loadSteps dest assign col r cs x = Inr y"
  shows "\<exists>vs. scanAll dest (\<lambda>c. col c r) cs = Inr vs \<and> assignLoop assign cs vs x = Inr y"
  using assms by (induction cs arbitrary: x) (auto simp: loadStep_def split: sum.splits)

lemma loadSteps_loadRow:
  assumes "loadSteps dest assign col r columns zero = Inr y"
  shows "loadRow dest assign zero col columns r = Inr y"
proof -
  from loadSteps_assign [OF assms] obtain vs where vs: "scanAll dest (\<lambda>c. col c r) columns = Inr vs" "assignLoop assign columns vs zero = Inr y"
    by blast
  with scanAll_length [OF vs(1)] show ?thesis by (simp add: loadRow_def assignValues_def)
qed

section \<open>Item\<close>

definition Item_dest :: "string \<Rightarrow> scan_dest" where
  "Item_dest c = getOr DUnknown (map_of [(''id'', DInt64),
     (''uid'', DInt64),
     (''item_id'', DInt64),
     (''count'', DInt64),
     (''used_count'', DInt64),
     (''expire_at_unix'', DInt64),
     (''source'', DString),
     (''create_at_unix'', DInt64),
     (''update_at_unix'', DInt64)] c)"

definition Item_assign :: "string \<Rightarrow> scan_value \<Rightarrow> Item \<Rightarrow> scan_error + Item" where
  "Item_assign c v r =
    (if c = ''id'' then intCol c v (\<lambda>x. r\<lparr>it_ID := getOr 0 x\<rparr>)
     else if c = ''uid'' then intCol c v (\<lambda>x. case x of None \<Rightarrow> r | Some i \<Rightarrow> r\<lparr>it_UID := toUint64 i\<rparr>)
     else if c = ''item_id'' then intCol c v (\<lambda>x. case x of None \<Rightarrow> r | Some i \<Rightarrow> r\<lparr>it_ItemID := wrap32 i\<rparr>)
     else if c = ''count'' then intCol c v (\<lambda>x. case x of None \<Rightarrow> r | Some i \<Rightarrow> r\<lparr>it_Count := i\<rparr>)
     else if c = ''used_count'' then intCol c v (\<lambda>x. case x of None \<Rightarrow> r | Some i \<Rightarrow> r\<lparr>it_UsedCount := i\<rparr>)
     else if c = ''expire_at_unix'' then intCol c v (\<lambda>x. case x of None \<Rightarrow> r | Some i \<Rightarrow> r\<lparr>it_ExpireAtUnix := i\<rparr>)
     else if c = ''source'' then stringCol c v (\<lambda>x. case x of None \<Rightarrow> r | Some t \<Rightarrow> r\<lparr>it_Source := t\<rparr>)
     else if c = ''create_at_unix'' then intCol c v (\<lambda>x. case x of None \<Rightarrow> r | Some i \<Rightarrow> r\<lparr>it_CreateAtUnix := i\<rparr>)
     else if c = ''update_at_unix'' then intCol c v (\<lambda>x. case x of None \<Rightarrow> r | Some i \<Rightarrow> r\<lparr>it_UpdateAtUnix := i\<rparr>)
     else Inr r)"

definition Item_zero :: Item where
  "Item_zero = \<lparr>it_ID = 0, it_UID = 0, it_ItemID = 0, it_Count = 0, it_UsedCount = 0, it_ExpireAtUnix = 0, it_Source = '''', it_CreateAtUnix = 0, it_UpdateAtUnix = 0\<rparr>"

definition Item_fits :: "Item \<Rightarrow> bool" where
  "Item_fits r \<longleftrightarrow> fits64 (it_ID r) \<and> fitsId (it_UID r) \<and> fits32 (it_ItemID r) \<and> fits64 (it_Count r) \<and> fits64 (it_UsedCount r) \<and> fits64 (it_ExpireAtUnix r) \<and> fits64 (it_CreateAtUnix r) \<and> fits64 (it_UpdateAtUnix r)"

definition Item_columns :: "string list" where
  "Item_columns = ef_name Item_ID # map ef_name Item_schema"

section \<open>ItemNonce\<close>

definition ItemNonce_dest :: "string \<Rightarrow> scan_dest" where
  "ItemNonce_dest c = getOr DUnknown (map_of [(''id'', DInt64),
     (''uid'', DInt64),
     (''nonce'', DString),
     (''op_type'', DInt64),
     (''create_at_unix'', DInt64)] c)"

definition ItemNonce_assign :: "string \<Rightarrow> scan_value \<Rightarrow> ItemNonce \<Rightarrow> scan_error + ItemNonce" where
  "ItemNonce_assign c v r =
    (if c = ''id'' then intCol c v (\<lambda>x. r\<lparr>in_ID := toUint64 (getOr 0 x)\<rparr>)
     else if c = ''uid'' then intCol c v (\<lambda>x. case x of None \<Rightarrow> r | Some i \<Rightarrow> r\<lparr>in_UID := toUint64 i\<rparr>)
     else if c = ''nonce'' then stringCol c v (\<lambda>x. case x of None \<Rightarrow> r | Some t \<Rightarrow> r\<lparr>in_Nonce := t\<rparr>)
     else if c = ''op_type'' then intCol c v (\<lambda>x. case x of None \<Rightarrow> r | Some i \<Rightarrow> r\<lparr>in_OpType := wrap32 i\<rparr>)
     else if c = ''create_at_unix'' then intCol c v (\<lambda>x. case x of None \<Rightarrow> r | Some i \<Rightarrow> r\<lparr>in_CreateAtUnix := i\<rparr>)
     else Inr r)"

definition ItemNonce_zero :: ItemNonce where
  "ItemNonce_zero = \<lparr>in_ID = 0, in_UID = 0, in_Nonce = '''', in_OpType = 0, in_CreateAtUnix = 0\<rparr>"

definition ItemNonce_fits :: "ItemNonce \<Rightarrow> bool" where
  "ItemNonce_fits r \<longleftrightarrow> fitsId (in_ID r) \<and> fitsId (in_UID r) \<and> fits32 (in_OpType r) \<and> fits64 (in_CreateAtUnix r)"

definition ItemNonce_columns :: "string list" where
  "ItemNonce_columns = ef_name ItemNonce_ID # map ef_name ItemNonce_schema"

section \<open>ItemUserLock\<close>

definition ItemUserLock_dest :: "string \<Rightarrow> scan_dest" where
  "ItemUserLock_dest c = getOr DUnknown (map_of [(''uid'', DInt64)] c)"

definition ItemUserLock_assign :: "string \<Rightarrow> scan_value \<Rightarrow> ItemUserLock \<Rightarrow> scan_error + ItemUserLock" where
  "ItemUserLock_assign c v r =
    (if c = ''uid'' then intCol c v (\<lambda>x. r\<lparr>il_ID := toUint64 (getOr 0 x)\<rparr>)
     else Inr r)"

definition ItemUserLock_zero :: ItemUserLock where
  "ItemUserLock_zero = \<lparr>il_ID = 0\<rparr>"

definition ItemUserLock_fits :: "ItemUserLock \<Rightarrow> bool" where
  "ItemUserLock_fits r \<longleftrightarrow> fitsId (il_ID r)"

definition ItemUserLock_columns :: "string list" where
  "ItemUserLock_columns = ef_name ItemUserLock_ID # map ef_name ItemUserLock_schema"

section \<open>PaymentOrder\<close>

definition PaymentOrder_dest :: "string \<Rightarrow> scan_dest" where
  "PaymentOrder_dest c = getOr DUnknown (map_of [(''id'', DInt64),
     (''uid'', DInt64),
     (''product_id'', DInt64),
     (''third_party_product_id'', DString),
     (''payment_type'', DInt64),
     (''status'', DInt64),
     (''order_amount_unit'', DInt64),
     (''order_amount_nanos'', DInt64),
     (''order_currency'', DString),
     (''real_amount_unit'', DInt64),
     (''real_amount_nanos'', DInt64),
     (''real_currency'', DString),
     (''third_party_order_id'', DString),
     (''credential'', DString),
     (''credential_hash'', DString),
     (''rewards'', DBytes),
     (''retry_times'', DInt64),
     (''cancel_reason'', DString),
     (''refund_reason'', DString),
     (''is_sandbox'', DBool),
     (''create_at_unix'', DInt64),
     (''update_at_unix'', DInt64),
     (''pay_at_unix'', DInt64),
     (''refund_at_unix'', DInt64),
     (''cancel_at_unix'', DInt64)] c)"

definition PaymentOrder_assign :: "string \<Rightarrow> scan_value \<Rightarrow> PaymentOrder \<Rightarrow> scan_error + PaymentOrder" where
  "PaymentOrder_assign c v r =
    (if c = ''id'' then intCol c v (\<lambda>x. r\<lparr>po_ID := toUint64 (getOr 0 x)\<rparr>)
     else if c = ''uid'' then intCol c v (\<lambda>x. case x of None \<Rightarrow> r | Some i \<Rightarrow> r\<lparr>po_UID := toUint64 i\<rparr>)
     else if c = ''product_id'' then intCol c v (\<lambda>x. case x of None \<Rightarrow> r | Some i \<Rightarrow> r\<lparr>po_ProductID := wrap32 i\<rparr>)
     else if c = ''third_party_product_id'' then stringCol c v (\<lambda>x. case x of None \<Rightarrow> r | Some t \<Rightarrow> r\<lparr>po_ThirdPartyProductID := t\<rparr>)
     else if c = ''payment_type'' then intCol c v (\<lambda>x. case x of None \<Rightarrow> r | Some i \<Rightarrow> r\<lparr>po_PaymentType := wrap32 i\<rparr>)
     else if c = ''status'' then intCol c v (\<lambda>x. case x of None \<Rightarrow> r | Some i \<Rightarrow> r\<lparr>po_Status := wrap32 i\<rparr>)
     else if c = ''order_amount_unit'' then intCol c v (\<lambda>x. case x of None \<Rightarrow> r | Some i \<Rightarrow> r\<lparr>po_OrderAmountUnit := i\<rparr>)
     else if c = ''order_amount_nanos'' then intCol c v (\<lambda>x. case x of None \<Rightarrow> r | Some i \<Rightarrow> r\<lparr>po_OrderAmountNanos := wrap32 i\<rparr>)
     else if c = ''order_currency'' then stringCol c v (\<lambda>x. case x of None \<Rightarrow> r | Some t \<Rightarrow> r\<lparr>po_OrderCurrency := t\<rparr>)
     else if c = ''real_amount_unit'' then intCol c v (\<lambda>x. case x of None \<Rightarrow> r | Some i \<Rightarrow> r\<lparr>po_RealAmountUnit := i\<rparr>)
     else if c = ''real_amount_nanos'' then intCol c v (\<lambda>x. case x of None \<Rightarrow> r | Some i \<Rightarrow> r\<lparr>po_RealAmountNanos := wrap32 i\<rparr>)
     else if c = ''real_currency'' then stringCol c v (\<lambda>x. case x of None \<Rightarrow> r | Some t \<Rightarrow> r\<lparr>po_RealCurrency := t\<rparr>)
     else if c = ''third_party_order_id'' then stringCol c v (\<lambda>x. case x of None \<Rightarrow> r | Some t \<Rightarrow> r\<lparr>po_ThirdPartyOrderID := Some t\<rparr>)
     else if c = ''credential'' then stringCol c v (\<lambda>x. case x of None \<Rightarrow> r | Some t \<Rightarrow> r\<lparr>po_Credential := Some t\<rparr>)
     else if c = ''credential_hash'' then stringCol c v (\<lambda>x. case x of None \<Rightarrow> r | Some t \<Rightarrow> r\<lparr>po_CredentialHash := Some t\<rparr>)
     else if c = ''rewards'' then rawCol c v (\<lambda>x. case x of None \<Rightarrow> r | Some j \<Rightarrow> r\<lparr>po_Rewards := Some j\<rparr>)
     else if c = ''retry_times'' then intCol c v (\<lambda>x. case x of None \<Rightarrow> r | Some i \<Rightarrow> r\<lparr>po_RetryTimes := wrap32 i\<rparr>)
     else if c = ''cancel_reason'' then stringCol c v (\<lambda>x. case x of None \<Rightarrow> r | Some t \<Rightarrow> r\<lparr>po_CancelReason := t\<rparr>)
     else if c = ''refund_reason'' then stringCol c v (\<lambda>x. case x of None \<Rightarrow> r | Some t \<Rightarrow> r\<lparr>po_RefundReason := t\<rparr>)
     else if c = ''is_sandbox'' then boolCol c v (\<lambda>x. case x of None \<Rightarrow> r | Some b \<Rightarrow> r\<lparr>po_IsSandbox := b\<rparr>)
     else if c = ''create_at_unix'' then intCol c v (\<lambda>x. case x of None \<Rightarrow> r | Some i \<Rightarrow> r\<lparr>po_CreateAtUnix := i\<rparr>)
     else if c = ''update_at_unix'' then intCol c v (\<lambda>x. case x of None \<Rightarrow> r | Some i \<Rightarrow> r\<lparr>po_UpdateAtUnix := i\<rparr>)
     else if c = ''pay_at_unix'' then intCol c v (\<lambda>x. case x of None \<Rightarrow> r | Some i \<Rightarrow> r\<lparr>po_PayAtUnix := i\<rparr>)
     else if c = ''refund_at_unix'' then intCol c v (\<lambda>x. case x of None \<Rightarrow> r | Some i \<Rightarrow> r\<lparr>po_RefundAtUnix := i\<rparr>)
     else if c = ''cancel_at_unix'' then intCol c v (\<lambda>x. case x of None \<Rightarrow> r | Some i \<Rightarrow> r\<lparr>po_CancelAtUnix := i\<rparr>)
     else Inr r)"

definition PaymentOrder_zero :: PaymentOrder where
  "PaymentOrder_zero = \<lparr>po_ID = 0, po_UID = 0, po_ProductID = 0, po_ThirdPartyProductID = '''', po_PaymentType = 0, po_Status = 0, po_OrderAmountUnit = 0, po_OrderAmountNanos = 0, po_OrderCurrency = '''', po_RealAmountUnit = 0, po_RealAmountNanos = 0, po_RealCurrency = '''', po_ThirdPartyOrderID = None, po_Credential = None, po_CredentialHash = None, po_Rewards = None, po_RetryTimes = 0, po_CancelReason = '''', po_RefundReason = '''', po_IsSandbox = False, po_CreateAtUnix = 0, po_UpdateAtUnix = 0, po_PayAtUnix = 0, po_RefundAtUnix = 0, po_CancelAtUnix = 0\<rparr>"

definition PaymentOrder_fits :: "PaymentOrder \<Rightarrow> bool" where
  "PaymentOrder_fits r \<longleftrightarrow> fitsId (po_ID r) \<and> fitsId (po_UID r) \<and> fits32 (po_ProductID r) \<and> fits32 (po_PaymentType r) \<and> fits32 (po_Status r) \<and> fits64 (po_OrderAmountUnit r) \<and> fits32 (po_OrderAmountNanos r) \<and> fits64 (po_RealAmountUnit r) \<and> fits32 (po_RealAmountNanos r) \<and> fits32 (po_RetryTimes r) \<and> fits64 (po_CreateAtUnix r) \<and> fits64 (po_UpdateAtUnix r) \<and> fits64 (po_PayAtUnix r) \<and> fits64 (po_RefundAtUnix r) \<and> fits64 (po_CancelAtUnix r)"

definition PaymentOrder_columns :: "string list" where
  "PaymentOrder_columns = ef_name PaymentOrder_ID # map ef_name PaymentOrder_schema"

section \<open>Account\<close>

definition Account_dest :: "string \<Rightarrow> scan_dest" where
  "Account_dest c = getOr DUnknown (map_of [(''id'', DInt64),
     (''is_deleted'', DBool),
     (''create_at_unix'', DInt64),
     (''update_at_unix'', DInt64)] c)"

definition Account_assign :: "string \<Rightarrow> scan_value \<Rightarrow> Account \<Rightarrow> scan_error + Account" where
  "Account_assign c v r =
    (if c = ''id'' then intCol c v (\<lambda>x. r\<lparr>ac_ID := toUint64 (getOr 0 x)\<rparr>)
     else if c = ''is_deleted'' then boolCol c v (\<lambda>x. case x of None \<Rightarrow> r | Some b \<Rightarrow> r\<lparr>ac_IsDeleted := b\<rparr>)
     else if c = ''create_at_unix'' then intCol c v (\<lambda>x. case x of None \<Rightarrow> r | Some i \<Rightarrow> r\<lparr>ac_CreateAtUnix := i\<rparr>)
     else if c = ''update_at_unix'' then intCol c v (\<lambda>x. case x of None \<Rightarrow> r | Some i \<Rightarrow> r\<lparr>ac_UpdateAtUnix := i\<rparr>)
     else Inr r)"

definition Account_zero :: Account where
  "Account_zero = \<lparr>ac_ID = 0, ac_IsDeleted = False, ac_CreateAtUnix = 0, ac_UpdateAtUnix = 0\<rparr>"

definition Account_fits :: "Account \<Rightarrow> bool" where
  "Account_fits r \<longleftrightarrow> fitsId (ac_ID r) \<and> fits64 (ac_CreateAtUnix r) \<and> fits64 (ac_UpdateAtUnix r)"

definition Account_columns :: "string list" where
  "Account_columns = ef_name Account_ID # map ef_name Account_schema"

section \<open>Identity\<close>

definition Identity_dest :: "string \<Rightarrow> scan_dest" where
  "Identity_dest c = getOr DUnknown (map_of [(''id'', DInt64),
     (''uid'', DInt64),
     (''login_type'', DInt64),
     (''app_id'', DString),
     (''open_id'', DString),
     (''union_id'', DString),
     (''create_at_unix'', DInt64)] c)"

definition Identity_assign :: "string \<Rightarrow> scan_value \<Rightarrow> IdentityRow \<Rightarrow> scan_error + IdentityRow" where
  "Identity_assign c v r =
    (if c = ''id'' then intCol c v (\<lambda>x. r\<lparr>id_ID := toUint64 (getOr 0 x)\<rparr>)
     else if c = ''uid'' then intCol c v (\<lambda>x. case x of None \<Rightarrow> r | Some i \<Rightarrow> r\<lparr>id_UID := toUint64 i\<rparr>)
     else if c = ''login_type'' then intCol c v (\<lambda>x. case x of None \<Rightarrow> r | Some i \<Rightarrow> r\<lparr>id_LoginType := wrap32 i\<rparr>)
     else if c = ''app_id'' then stringCol c v (\<lambda>x. case x of None \<Rightarrow> r | Some t \<Rightarrow> r\<lparr>id_AppID := t\<rparr>)
     else if c = ''open_id'' then stringCol c v (\<lambda>x. case x of None \<Rightarrow> r | Some t \<Rightarrow> r\<lparr>id_OpenID := t\<rparr>)
     else if c = ''union_id'' then stringCol c v (\<lambda>x. case x of None \<Rightarrow> r | Some t \<Rightarrow> r\<lparr>id_UnionID := Some t\<rparr>)
     else if c = ''create_at_unix'' then intCol c v (\<lambda>x. case x of None \<Rightarrow> r | Some i \<Rightarrow> r\<lparr>id_CreateAtUnix := i\<rparr>)
     else Inr r)"

definition Identity_zero :: IdentityRow where
  "Identity_zero = \<lparr>id_ID = 0, id_UID = 0, id_LoginType = 0, id_AppID = '''', id_OpenID = '''', id_UnionID = None, id_CreateAtUnix = 0\<rparr>"

definition Identity_fits :: "IdentityRow \<Rightarrow> bool" where
  "Identity_fits r \<longleftrightarrow> fitsId (id_ID r) \<and> fitsId (id_UID r) \<and> fits32 (id_LoginType r) \<and> fits64 (id_CreateAtUnix r)"

definition Identity_columns :: "string list" where
  "Identity_columns = ef_name Identity_ID # map ef_name Identity_schema"

section \<open>Round trips\<close>

lemmas scan_simps = loadStep_def scanInto_def intCol_def stringCol_def boolCol_def rawCol_def

lemma Item_load:
  assumes "Item_fits r"
  shows "loadRow Item_dest Item_assign Item_zero Item_sql Item_columns r = Inr r"
  using assms
  by (intro loadSteps_loadRow) (auto simp: Item_columns_def Item_schema_def Item_sql_def Item_column_def Item_ID_def
      Item_UID_def Item_ItemID_def Item_Count_def Item_UsedCount_def Item_ExpireAtUnix_def Item_Source_def
      Item_CreateAtUnix_def Item_UpdateAtUnix_def
      Item_dest_def Item_assign_def Item_zero_def Item_fits_def scan_simps split: option.splits)

lemma ItemNonce_load:
  assumes "ItemNonce_fits r"
  shows "loadRow ItemNonce_dest ItemNonce_assign ItemNonce_zero ItemNonce_sql ItemNonce_columns r = Inr r"
  using assms
  by (intro loadSteps_loadRow) (auto simp: ItemNonce_columns_def ItemNonce_schema_def ItemNonce_sql_def ItemNonce_column_def ItemNonce_ID_def
      ItemNonce_UID_def ItemNonce_Nonce_def ItemNonce_OpType_def ItemNonce_CreateAtUnix_def
      ItemNonce_dest_def ItemNonce_assign_def ItemNonce_zero_def ItemNonce_fits_def scan_simps split: option.splits)

lemma ItemUserLock_load:
  assumes "ItemUserLock_fits r"
  shows "loadRow ItemUserLock_dest ItemUserLock_assign ItemUserLock_zero ItemUserLock_sql ItemUserLock_columns r = Inr r"
  using assms
  by (intro loadSteps_loadRow) (auto simp: ItemUserLock_columns_def ItemUserLock_schema_def ItemUserLock_sql_def ItemUserLock_ID_def
     
      ItemUserLock_dest_def ItemUserLock_assign_def ItemUserLock_zero_def ItemUserLock_fits_def scan_simps split: option.splits)

text \<open>What each column of an order does to the entity.\<close>

lemma order_steps1:
  assumes "PaymentOrder_fits r"
  shows "loadStep PaymentOrder_dest PaymentOrder_assign PaymentOrder_sql ''id'' r x = Inr (x\<lparr>po_ID := po_ID r\<rparr>)"
    and "loadStep PaymentOrder_dest PaymentOrder_assign PaymentOrder_sql ''uid'' r x = Inr (x\<lparr>po_UID := po_UID r\<rparr>)"
    and "loadStep PaymentOrder_dest PaymentOrder_assign PaymentOrder_sql ''product_id'' r x = Inr (x\<lparr>po_ProductID := po_ProductID r\<rparr>)"
    and "loadStep PaymentOrder_dest PaymentOrder_assign PaymentOrder_sql ''third_party_product_id'' r x = Inr (x\<lparr>po_ThirdPartyProductID := po_ThirdPartyProductID r\<rparr>)"
    and "loadStep PaymentOrder_dest PaymentOrder_assign PaymentOrder_sql ''payment_type'' r x = Inr (x\<lparr>po_PaymentType := po_PaymentType r\<rparr>)"
    and "loadStep PaymentOrder_dest PaymentOrder_assign PaymentOrder_sql ''status'' r x = Inr (x\<lparr>po_Status := po_Status r\<rparr>)"
  using assms by (simp_all add: PaymentOrder_dest_def PaymentOrder_assign_def PaymentOrder_sql_def PaymentOrder_column_def PaymentOrder_ID_def
      PaymentOrder_fits_def scan_simps)

lemma order_steps2:
  assumes "PaymentOrder_fits r"
  shows "loadStep PaymentOrder_dest PaymentOrder_assign PaymentOrder_sql ''order_amount_unit'' r x = Inr (x\<lparr>po_OrderAmountUnit := po_OrderAmountUnit r\<rparr>)"
    and "loadStep PaymentOrder_dest PaymentOrder_assign PaymentOrder_sql ''order_amount_nanos'' r x = Inr (x\<lparr>po_OrderAmountNanos := po_OrderAmountNanos r\<rparr>)"
    and "loadStep PaymentOrder_dest PaymentOrder_assign PaymentOrder_sql ''order_currency'' r x = Inr (x\<lparr>po_OrderCurrency := po_OrderCurrency r\<rparr>)"
    and "loadStep PaymentOrder_dest PaymentOrder_assign PaymentOrder_sql ''real_amount_unit'' r x = Inr (x\<lparr>po_RealAmountUnit := po_RealAmountUnit r\<rparr>)"
    and "loadStep PaymentOrder_dest PaymentOrder_assign PaymentOrder_sql ''real_amount_nanos'' r x = Inr (x\<lparr>po_RealAmountNanos := po_RealAmountNanos r\<rparr>)"
    and "loadStep PaymentOrder_dest PaymentOrder_assign PaymentOrder_sql ''real_currency'' r x = Inr (x\<lparr>po_RealCurrency := po_RealCurrency r\<rparr>)"
  using assms by (simp_all add: PaymentOrder_dest_def PaymentOrder_assign_def PaymentOrder_sql_def PaymentOrder_column_def PaymentOrder_ID_def
      PaymentOrder_fits_def scan_simps)

lemma order_steps3:
  assumes "PaymentOrder_fits r"
  shows "loadStep PaymentOrder_dest PaymentOrder_assign PaymentOrder_sql ''retry_times'' r x = Inr (x\<lparr>po_RetryTimes := po_RetryTimes r\<rparr>)"
    and "loadStep PaymentOrder_dest PaymentOrder_assign PaymentOrder_sql ''cancel_reason'' r x = Inr (x\<lparr>po_CancelReason := po_CancelReason r\<rparr>)"
    and "loadStep PaymentOrder_dest PaymentOrder_assign PaymentOrder_sql ''refund_reason'' r x = Inr (x\<lparr>po_RefundReason := po_RefundReason r\<rparr>)"
    and "loadStep PaymentOrder_dest PaymentOrder_assign PaymentOrder_sql ''is_sandbox'' r x = Inr (x\<lparr>po_IsSandbox := po_IsSandbox r\<rparr>)"
    and "loadStep PaymentOrder_dest PaymentOrder_assign PaymentOrder_sql ''create_at_unix'' r x = Inr (x\<lparr>po_CreateAtUnix := po_CreateAtUnix r\<rparr>)"
    and "loadStep PaymentOrder_dest PaymentOrder_assign PaymentOrder_sql ''update_at_unix'' r x = Inr (x\<lparr>po_UpdateAtUnix := po_UpdateAtUnix r\<rparr>)"
  using assms by (simp_all add: PaymentOrder_dest_def PaymentOrder_assign_def PaymentOrder_sql_def PaymentOrder_column_def PaymentOrder_ID_def
      PaymentOrder_fits_def scan_simps)

lemma order_steps4:
  assumes "PaymentOrder_fits r"
  shows "loadStep PaymentOrder_dest PaymentOrder_assign PaymentOrder_sql ''pay_at_unix'' r x = Inr (x\<lparr>po_PayAtUnix := po_PayAtUnix r\<rparr>)"
    and "loadStep PaymentOrder_dest PaymentOrder_assign PaymentOrder_sql ''refund_at_unix'' r x = Inr (x\<lparr>po_RefundAtUnix := po_RefundAtUnix r\<rparr>)"
    and "loadStep PaymentOrder_dest PaymentOrder_assign PaymentOrder_sql ''cancel_at_unix'' r x = Inr (x\<lparr>po_CancelAtUnix := po_CancelAtUnix r\<rparr>)"
  using assms by (simp_all add: PaymentOrder_dest_def PaymentOrder_assign_def PaymentOrder_sql_def PaymentOrder_column_def PaymentOrder_ID_def
      PaymentOrder_fits_def scan_simps)

lemma order_steps_nullable:
  shows "po_ThirdPartyOrderID x = None \<Longrightarrow> loadStep PaymentOrder_dest PaymentOrder_assign PaymentOrder_sql ''third_party_order_id'' r x = Inr (x\<lparr>po_ThirdPartyOrderID := po_ThirdPartyOrderID r\<rparr>)"
    and "po_Credential x = None \<Longrightarrow> loadStep PaymentOrder_dest PaymentOrder_assign PaymentOrder_sql ''credential'' r x = Inr (x\<lparr>po_Credential := po_Credential r\<rparr>)"
    and "po_CredentialHash x = None \<Longrightarrow> loadStep PaymentOrder_dest PaymentOrder_assign PaymentOrder_sql ''credential_hash'' r x = Inr (x\<lparr>po_CredentialHash := po_CredentialHash r\<rparr>)"
    and "po_Rewards x = None \<Longrightarrow> loadStep PaymentOrder_dest PaymentOrder_assign PaymentOrder_sql ''rewards'' r x = Inr (x\<lparr>po_Rewards := po_Rewards r\<rparr>)"
  by (auto simp: PaymentOrder_dest_def PaymentOrder_assign_def PaymentOrder_sql_def PaymentOrder_column_def PaymentOrder_ID_def
      scan_simps split: option.splits)

lemma PaymentOrder_columns_eq: "PaymentOrder_columns = [''id'', ''uid'', ''product_id'', ''third_party_product_id'', ''payment_type'', ''status'', ''order_amount_unit'', ''order_amount_nanos'', ''order_currency'', ''real_amount_unit'', ''real_amount_nanos'', ''real_currency'', ''third_party_order_id'', ''credential'', ''credential_hash'', ''rewards'', ''retry_times'', ''cancel_reason'', ''refund_reason'', ''is_sandbox'', ''create_at_unix'', ''update_at_unix'', ''pay_at_unix'', ''refund_at_unix'', ''cancel_at_unix'']"
  by (simp add: PaymentOrder_columns_def PaymentOrder_schema_def PaymentOrder_ID_def
      PaymentOrder_UID_def PaymentOrder_ProductID_def PaymentOrder_ThirdPartyProductID_def PaymentOrder_PaymentType_def
      PaymentOrder_Status_def PaymentOrder_OrderAmountUnit_def PaymentOrder_OrderAmountNanos_def
      PaymentOrder_OrderCurrency_def PaymentOrder_RealAmountUnit_def PaymentOrder_RealAmountNanos_def
      PaymentOrder_RealCurrency_def PaymentOrder_ThirdPartyOrderID_def PaymentOrder_Credential_def
      PaymentOrder_CredentialHash_def PaymentOrder_Rewards_def PaymentOrder_RetryTimes_def PaymentOrder_CancelReason_def
      PaymentOrder_RefundReason_def PaymentOrder_IsSandbox_def PaymentOrder_CreateAtUnix_def
      PaymentOrder_UpdateAtUnix_def PaymentOrder_PayAtUnix_def PaymentOrder_RefundAtUnix_def
      PaymentOrder_CancelAtUnix_def)

lemma PaymentOrder_load:
  assumes "PaymentOrder_fits r"
  shows "loadRow PaymentOrder_dest PaymentOrder_assign PaymentOrder_zero PaymentOrder_sql PaymentOrder_columns r = Inr r"
  unfolding PaymentOrder_columns_eq
  by (rule loadSteps_loadRow) (simp add: order_steps1 [OF assms] order_steps2 [OF assms] order_steps3 [OF assms] order_steps4 [OF assms] order_steps_nullable PaymentOrder_zero_def)

lemma Account_load:
  assumes "Account_fits r"
  shows "loadRow Account_dest Account_assign Account_zero Account_sql Account_columns r = Inr r"
  using assms
  by (intro loadSteps_loadRow) (auto simp: Account_columns_def Account_schema_def Account_sql_def Account_column_def Account_ID_def
      Account_IsDeleted_def Account_CreateAtUnix_def Account_UpdateAtUnix_def
      Account_dest_def Account_assign_def Account_zero_def Account_fits_def scan_simps split: option.splits)

lemma Identity_load:
  assumes "Identity_fits r"
  shows "loadRow Identity_dest Identity_assign Identity_zero Identity_sql Identity_columns r = Inr r"
  using assms
  by (intro loadSteps_loadRow) (auto simp: Identity_columns_def Identity_schema_def Identity_sql_def Identity_column_def Identity_ID_def
      Identity_UID_def Identity_LoginType_def Identity_AppID_def Identity_OpenID_def Identity_UnionID_def
      Identity_CreateAtUnix_def
      Identity_dest_def Identity_assign_def Identity_zero_def Identity_fits_def scan_simps split: option.splits)

lemma scanAll_fails: "c \<in> set cs \<Longrightarrow> scanInto c (dest c) (col c) = Inl e \<Longrightarrow> \<exists>e'. scanAll dest col cs = Inl e'"
  by (induction cs) (auto split: sum.splits)

lemma loadRow_fails:
  assumes "c \<in> set columns" and "scanInto c (dest c) (col c r) = Inl e"
  shows "\<exists>e'. loadRow dest assign zero col columns r = Inl e'"
  using scanAll_fails [of c columns dest "\<lambda>c. col c r" e] assms by (auto simp: loadRow_def)

lemma big_id_fails:
  assumes "\<not> fitsId i" and "col c r = Some (SInt (int i))" and "dest c = DInt64" and "c \<in> set columns"
  shows "\<exists>e. loadRow dest assign zero col columns r = Inl e"
  using assms by (intro loadRow_fails [of c]) (auto simp: scanInto_def)

text \<open>
  C37: Rows come back as they were stored. For each of the six tables a row whose numbers fit the types of their fields
  is read into the entity it was stored from, NULLs included; an order, an item or an identity of a player id of \<open>2 ^ 63\<close> or
  more, which the columns can store, cannot be read.
\<close>

theorem rows_scan_back:
  "(Item_fits i \<longrightarrow> loadRow Item_dest Item_assign Item_zero Item_sql Item_columns i = Inr i)
   \<and> (ItemNonce_fits n \<longrightarrow> loadRow ItemNonce_dest ItemNonce_assign ItemNonce_zero ItemNonce_sql ItemNonce_columns n = Inr n)
   \<and> (ItemUserLock_fits l \<longrightarrow> loadRow ItemUserLock_dest ItemUserLock_assign ItemUserLock_zero ItemUserLock_sql ItemUserLock_columns l = Inr l)
   \<and> (PaymentOrder_fits p \<longrightarrow> loadRow PaymentOrder_dest PaymentOrder_assign PaymentOrder_zero PaymentOrder_sql PaymentOrder_columns p = Inr p)
   \<and> (Account_fits a \<longrightarrow> loadRow Account_dest Account_assign Account_zero Account_sql Account_columns a = Inr a)
   \<and> (Identity_fits d \<longrightarrow> loadRow Identity_dest Identity_assign Identity_zero Identity_sql Identity_columns d = Inr d)
   \<and> (2 ^ 63 \<le> it_UID i \<longrightarrow> (\<exists>e. loadRow Item_dest Item_assign Item_zero Item_sql Item_columns i = Inl e))
   \<and> (2 ^ 63 \<le> po_UID p \<longrightarrow> (\<exists>e. loadRow PaymentOrder_dest PaymentOrder_assign PaymentOrder_zero PaymentOrder_sql PaymentOrder_columns p = Inl e))
   \<and> (2 ^ 63 \<le> id_UID d \<longrightarrow> (\<exists>e. loadRow Identity_dest Identity_assign Identity_zero Identity_sql Identity_columns d = Inl e))"
proof -
  have "\<exists>e. loadRow Item_dest Item_assign Item_zero Item_sql Item_columns i = Inl e" if "2 ^ 63 \<le> it_UID i"
    by (rule big_id_fails [of "it_UID i" _ "''uid''"])
       (use that in \<open>simp_all add: fitsId_def Item_sql_def Item_column_def Item_ID_def Item_dest_def Item_columns_def Item_schema_def Item_UID_def\<close>)
  moreover have "\<exists>e. loadRow PaymentOrder_dest PaymentOrder_assign PaymentOrder_zero PaymentOrder_sql PaymentOrder_columns p = Inl e"
    if "2 ^ 63 \<le> po_UID p"
    by (rule big_id_fails [of "po_UID p" _ "''uid''"])
       (use that in \<open>simp_all add: fitsId_def PaymentOrder_sql_def PaymentOrder_column_def PaymentOrder_ID_def PaymentOrder_dest_def PaymentOrder_columns_eq\<close>)
  moreover have "\<exists>e. loadRow Identity_dest Identity_assign Identity_zero Identity_sql Identity_columns d = Inl e" if "2 ^ 63 \<le> id_UID d"
    by (rule big_id_fails [of "id_UID d" _ "''uid''"])
       (use that in \<open>simp_all add: fitsId_def Identity_sql_def Identity_column_def Identity_ID_def Identity_dest_def Identity_columns_def
          Identity_schema_def Identity_UID_def\<close>)
  ultimately show ?thesis
    using Item_load [of i] ItemNonce_load [of n] ItemUserLock_load [of l] PaymentOrder_load [of p] Account_load [of a] Identity_load [of d]
    by blast
qed

theorem rows_scan_back_witness:
  "loadRow PaymentOrder_dest PaymentOrder_assign PaymentOrder_zero PaymentOrder_sql PaymentOrder_columns openOrder = Inr openOrder
   \<and> (\<exists>e. loadRow PaymentOrder_dest PaymentOrder_assign PaymentOrder_zero PaymentOrder_sql PaymentOrder_columns (openOrder\<lparr>po_UID := 2 ^ 63\<rparr>) = Inl e)"
proof -
  have "PaymentOrder_fits openOrder" by (simp add: PaymentOrder_fits_def openOrder_def fitsId_def fits32_def fits64_def)
  moreover have "2 ^ 63 \<le> po_UID (openOrder\<lparr>po_UID := 2 ^ 63\<rparr>)" by simp
  ultimately show ?thesis
    using rows_scan_back [of Item_zero ItemNonce_zero ItemUserLock_zero openOrder Account_zero Identity_zero]
      rows_scan_back [of Item_zero ItemNonce_zero ItemUserLock_zero "openOrder\<lparr>po_UID := 2 ^ 63\<rparr>" Account_zero Identity_zero] by blast
qed

end
