(* ===== verification/EntBuilders.thy ===== *)
theory EntBuilders
  imports EntScan
begin

text \<open>
  The builders of ent, \<open>ent/*_create.go\<close> and \<open>ent/*_update.go\<close>: a builder fills a mutation through methods per field. Which methods a
  field has and what they call of the mutation is the record \<open>setters\<close>; the definition \<open>ItemUpdate_Count\<close> stands for the methods
  \<open>SetCount\<close>, \<open>SetNillableCount\<close> and \<open>AddCount\<close> of \<open>ItemUpdate\<close>, and so on for every field of every builder. Shown: what a
  sequence of calls on a field does to the stored value is what the calls do one after the other.
\<close>

section \<open>The methods of a field\<close>

record ('id, 'r) setters =
  st_Set :: "ent_value \<Rightarrow> ('id, 'r) mutation \<Rightarrow> ('id, 'r) mutation"
  st_SetNillable :: "(ent_value option \<Rightarrow> ('id, 'r) mutation \<Rightarrow> ('id, 'r) mutation) option"
  st_Add :: "(ent_value \<Rightarrow> ('id, 'r) mutation \<Rightarrow> ('id, 'r) mutation) option"
  st_Append :: "(string \<Rightarrow> ('id, 'r) mutation \<Rightarrow> ('id, 'r) mutation) option"
  st_Clear :: "(('id, 'r) mutation \<Rightarrow> ('id, 'r) mutation) option"

definition ifGiven :: "(ent_value \<Rightarrow> 'm \<Rightarrow> 'm) \<Rightarrow> ent_value option \<Rightarrow> 'm \<Rightarrow> 'm" where
  "ifGiven g v m = (case v of None \<Rightarrow> m | Some x \<Rightarrow> g x m)"

text \<open>A setter of a create builder sets; \<open>hasNillable\<close> says whether there is one for a pointer.\<close>

definition createSetters :: "ent_field \<Rightarrow> bool \<Rightarrow> ('id, 'r) setters" where
  "createSetters f hasNillable = \<lparr>st_Set = fieldSet f,
     st_SetNillable = (if hasNillable then Some (ifGiven (fieldSet f)) else None), st_Add = None, st_Append = None, st_Clear = None\<rparr>"

text \<open>A setter of an update builder resets a number first, which drops what was added to it.\<close>

definition updateSet :: "ent_field \<Rightarrow> ent_value \<Rightarrow> ('id, 'r) mutation \<Rightarrow> ('id, 'r) mutation" where
  "updateSet f v m = fieldSet f v (if ef_add f \<noteq> None then fieldReset f m else m)"

definition updateSetters :: "ent_field \<Rightarrow> bool \<Rightarrow> ('id, 'r) setters" where
  "updateSetters f hasNillable = \<lparr>st_Set = updateSet f,
     st_SetNillable = (if hasNillable then Some (ifGiven (updateSet f)) else None),
     st_Add = (if ef_add f \<noteq> None then Some (fieldAdd f) else None),
     st_Append = (if ef_type f = TRaw then Some (fieldAppend f) else None),
     st_Clear = (if ef_nullable f then Some (fieldClear f) else None)\<rparr>"

section \<open>ItemCreate\<close>

definition ItemCreate_UID :: "(int, Item) setters" where "ItemCreate_UID = createSetters Item_UID False"

definition ItemCreate_ItemID :: "(int, Item) setters" where "ItemCreate_ItemID = createSetters Item_ItemID False"

definition ItemCreate_Count :: "(int, Item) setters" where "ItemCreate_Count = createSetters Item_Count False"

definition ItemCreate_UsedCount :: "(int, Item) setters" where "ItemCreate_UsedCount = createSetters Item_UsedCount True"

definition ItemCreate_ExpireAtUnix :: "(int, Item) setters" where "ItemCreate_ExpireAtUnix = createSetters Item_ExpireAtUnix True"

definition ItemCreate_Source :: "(int, Item) setters" where "ItemCreate_Source = createSetters Item_Source True"

definition ItemCreate_CreateAtUnix :: "(int, Item) setters" where "ItemCreate_CreateAtUnix = createSetters Item_CreateAtUnix True"

definition ItemCreate_UpdateAtUnix :: "(int, Item) setters" where "ItemCreate_UpdateAtUnix = createSetters Item_UpdateAtUnix True"

section \<open>ItemUpdate\<close>

definition ItemUpdate_Count :: "(int, Item) setters" where "ItemUpdate_Count = updateSetters Item_Count True"

definition ItemUpdate_UsedCount :: "(int, Item) setters" where "ItemUpdate_UsedCount = updateSetters Item_UsedCount True"

definition ItemUpdate_ExpireAtUnix :: "(int, Item) setters" where "ItemUpdate_ExpireAtUnix = updateSetters Item_ExpireAtUnix True"

definition ItemUpdate_UpdateAtUnix :: "(int, Item) setters" where "ItemUpdate_UpdateAtUnix = updateSetters Item_UpdateAtUnix False"

section \<open>ItemUpdateOne\<close>

definition ItemUpdateOne_Count :: "(int, Item) setters" where "ItemUpdateOne_Count = updateSetters Item_Count True"

definition ItemUpdateOne_UsedCount :: "(int, Item) setters" where "ItemUpdateOne_UsedCount = updateSetters Item_UsedCount True"

definition ItemUpdateOne_ExpireAtUnix :: "(int, Item) setters" where "ItemUpdateOne_ExpireAtUnix = updateSetters Item_ExpireAtUnix True"

definition ItemUpdateOne_UpdateAtUnix :: "(int, Item) setters" where "ItemUpdateOne_UpdateAtUnix = updateSetters Item_UpdateAtUnix False"

section \<open>ItemNonceCreate\<close>

definition ItemNonceCreate_UID :: "(uint64, ItemNonce) setters" where "ItemNonceCreate_UID = createSetters ItemNonce_UID False"

definition ItemNonceCreate_Nonce :: "(uint64, ItemNonce) setters" where "ItemNonceCreate_Nonce = createSetters ItemNonce_Nonce False"

definition ItemNonceCreate_OpType :: "(uint64, ItemNonce) setters" where "ItemNonceCreate_OpType = createSetters ItemNonce_OpType False"

definition ItemNonceCreate_CreateAtUnix :: "(uint64, ItemNonce) setters" where "ItemNonceCreate_CreateAtUnix = createSetters ItemNonce_CreateAtUnix True"

section \<open>PaymentOrderCreate\<close>

definition PaymentOrderCreate_UID :: "(uint64, PaymentOrder) setters" where "PaymentOrderCreate_UID = createSetters PaymentOrder_UID False"

definition PaymentOrderCreate_ProductID :: "(uint64, PaymentOrder) setters" where "PaymentOrderCreate_ProductID = createSetters PaymentOrder_ProductID False"

definition PaymentOrderCreate_ThirdPartyProductID :: "(uint64, PaymentOrder) setters" where "PaymentOrderCreate_ThirdPartyProductID = createSetters PaymentOrder_ThirdPartyProductID False"

definition PaymentOrderCreate_PaymentType :: "(uint64, PaymentOrder) setters" where "PaymentOrderCreate_PaymentType = createSetters PaymentOrder_PaymentType False"

definition PaymentOrderCreate_Status :: "(uint64, PaymentOrder) setters" where "PaymentOrderCreate_Status = createSetters PaymentOrder_Status True"

definition PaymentOrderCreate_OrderAmountUnit :: "(uint64, PaymentOrder) setters" where "PaymentOrderCreate_OrderAmountUnit = createSetters PaymentOrder_OrderAmountUnit False"

definition PaymentOrderCreate_OrderAmountNanos :: "(uint64, PaymentOrder) setters" where "PaymentOrderCreate_OrderAmountNanos = createSetters PaymentOrder_OrderAmountNanos False"

definition PaymentOrderCreate_OrderCurrency :: "(uint64, PaymentOrder) setters" where "PaymentOrderCreate_OrderCurrency = createSetters PaymentOrder_OrderCurrency False"

definition PaymentOrderCreate_RealAmountUnit :: "(uint64, PaymentOrder) setters" where "PaymentOrderCreate_RealAmountUnit = createSetters PaymentOrder_RealAmountUnit True"

definition PaymentOrderCreate_RealAmountNanos :: "(uint64, PaymentOrder) setters" where "PaymentOrderCreate_RealAmountNanos = createSetters PaymentOrder_RealAmountNanos True"

definition PaymentOrderCreate_RealCurrency :: "(uint64, PaymentOrder) setters" where "PaymentOrderCreate_RealCurrency = createSetters PaymentOrder_RealCurrency True"

definition PaymentOrderCreate_ThirdPartyOrderID :: "(uint64, PaymentOrder) setters" where "PaymentOrderCreate_ThirdPartyOrderID = createSetters PaymentOrder_ThirdPartyOrderID True"

definition PaymentOrderCreate_Credential :: "(uint64, PaymentOrder) setters" where "PaymentOrderCreate_Credential = createSetters PaymentOrder_Credential True"

definition PaymentOrderCreate_CredentialHash :: "(uint64, PaymentOrder) setters" where "PaymentOrderCreate_CredentialHash = createSetters PaymentOrder_CredentialHash True"

definition PaymentOrderCreate_Rewards :: "(uint64, PaymentOrder) setters" where "PaymentOrderCreate_Rewards = createSetters PaymentOrder_Rewards False"

definition PaymentOrderCreate_RetryTimes :: "(uint64, PaymentOrder) setters" where "PaymentOrderCreate_RetryTimes = createSetters PaymentOrder_RetryTimes True"

definition PaymentOrderCreate_CancelReason :: "(uint64, PaymentOrder) setters" where "PaymentOrderCreate_CancelReason = createSetters PaymentOrder_CancelReason True"

definition PaymentOrderCreate_RefundReason :: "(uint64, PaymentOrder) setters" where "PaymentOrderCreate_RefundReason = createSetters PaymentOrder_RefundReason True"

definition PaymentOrderCreate_IsSandbox :: "(uint64, PaymentOrder) setters" where "PaymentOrderCreate_IsSandbox = createSetters PaymentOrder_IsSandbox True"

definition PaymentOrderCreate_CreateAtUnix :: "(uint64, PaymentOrder) setters" where "PaymentOrderCreate_CreateAtUnix = createSetters PaymentOrder_CreateAtUnix True"

definition PaymentOrderCreate_UpdateAtUnix :: "(uint64, PaymentOrder) setters" where "PaymentOrderCreate_UpdateAtUnix = createSetters PaymentOrder_UpdateAtUnix True"

definition PaymentOrderCreate_PayAtUnix :: "(uint64, PaymentOrder) setters" where "PaymentOrderCreate_PayAtUnix = createSetters PaymentOrder_PayAtUnix True"

definition PaymentOrderCreate_RefundAtUnix :: "(uint64, PaymentOrder) setters" where "PaymentOrderCreate_RefundAtUnix = createSetters PaymentOrder_RefundAtUnix True"

definition PaymentOrderCreate_CancelAtUnix :: "(uint64, PaymentOrder) setters" where "PaymentOrderCreate_CancelAtUnix = createSetters PaymentOrder_CancelAtUnix True"

section \<open>PaymentOrderUpdate\<close>

definition PaymentOrderUpdate_Status :: "(uint64, PaymentOrder) setters" where "PaymentOrderUpdate_Status = updateSetters PaymentOrder_Status True"

definition PaymentOrderUpdate_RealAmountUnit :: "(uint64, PaymentOrder) setters" where "PaymentOrderUpdate_RealAmountUnit = updateSetters PaymentOrder_RealAmountUnit True"

definition PaymentOrderUpdate_RealAmountNanos :: "(uint64, PaymentOrder) setters" where "PaymentOrderUpdate_RealAmountNanos = updateSetters PaymentOrder_RealAmountNanos True"

definition PaymentOrderUpdate_RealCurrency :: "(uint64, PaymentOrder) setters" where "PaymentOrderUpdate_RealCurrency = updateSetters PaymentOrder_RealCurrency True"

definition PaymentOrderUpdate_ThirdPartyOrderID :: "(uint64, PaymentOrder) setters" where "PaymentOrderUpdate_ThirdPartyOrderID = updateSetters PaymentOrder_ThirdPartyOrderID True"

definition PaymentOrderUpdate_Credential :: "(uint64, PaymentOrder) setters" where "PaymentOrderUpdate_Credential = updateSetters PaymentOrder_Credential True"

definition PaymentOrderUpdate_CredentialHash :: "(uint64, PaymentOrder) setters" where "PaymentOrderUpdate_CredentialHash = updateSetters PaymentOrder_CredentialHash True"

definition PaymentOrderUpdate_Rewards :: "(uint64, PaymentOrder) setters" where "PaymentOrderUpdate_Rewards = updateSetters PaymentOrder_Rewards False"

definition PaymentOrderUpdate_RetryTimes :: "(uint64, PaymentOrder) setters" where "PaymentOrderUpdate_RetryTimes = updateSetters PaymentOrder_RetryTimes True"

definition PaymentOrderUpdate_CancelReason :: "(uint64, PaymentOrder) setters" where "PaymentOrderUpdate_CancelReason = updateSetters PaymentOrder_CancelReason True"

definition PaymentOrderUpdate_RefundReason :: "(uint64, PaymentOrder) setters" where "PaymentOrderUpdate_RefundReason = updateSetters PaymentOrder_RefundReason True"

definition PaymentOrderUpdate_IsSandbox :: "(uint64, PaymentOrder) setters" where "PaymentOrderUpdate_IsSandbox = updateSetters PaymentOrder_IsSandbox True"

definition PaymentOrderUpdate_UpdateAtUnix :: "(uint64, PaymentOrder) setters" where "PaymentOrderUpdate_UpdateAtUnix = updateSetters PaymentOrder_UpdateAtUnix False"

definition PaymentOrderUpdate_PayAtUnix :: "(uint64, PaymentOrder) setters" where "PaymentOrderUpdate_PayAtUnix = updateSetters PaymentOrder_PayAtUnix True"

definition PaymentOrderUpdate_RefundAtUnix :: "(uint64, PaymentOrder) setters" where "PaymentOrderUpdate_RefundAtUnix = updateSetters PaymentOrder_RefundAtUnix True"

definition PaymentOrderUpdate_CancelAtUnix :: "(uint64, PaymentOrder) setters" where "PaymentOrderUpdate_CancelAtUnix = updateSetters PaymentOrder_CancelAtUnix True"

section \<open>PaymentOrderUpdateOne\<close>

definition PaymentOrderUpdateOne_Status :: "(uint64, PaymentOrder) setters" where "PaymentOrderUpdateOne_Status = updateSetters PaymentOrder_Status True"

definition PaymentOrderUpdateOne_RealAmountUnit :: "(uint64, PaymentOrder) setters" where "PaymentOrderUpdateOne_RealAmountUnit = updateSetters PaymentOrder_RealAmountUnit True"

definition PaymentOrderUpdateOne_RealAmountNanos :: "(uint64, PaymentOrder) setters" where "PaymentOrderUpdateOne_RealAmountNanos = updateSetters PaymentOrder_RealAmountNanos True"

definition PaymentOrderUpdateOne_RealCurrency :: "(uint64, PaymentOrder) setters" where "PaymentOrderUpdateOne_RealCurrency = updateSetters PaymentOrder_RealCurrency True"

definition PaymentOrderUpdateOne_ThirdPartyOrderID :: "(uint64, PaymentOrder) setters" where "PaymentOrderUpdateOne_ThirdPartyOrderID = updateSetters PaymentOrder_ThirdPartyOrderID True"

definition PaymentOrderUpdateOne_Credential :: "(uint64, PaymentOrder) setters" where "PaymentOrderUpdateOne_Credential = updateSetters PaymentOrder_Credential True"

definition PaymentOrderUpdateOne_CredentialHash :: "(uint64, PaymentOrder) setters" where "PaymentOrderUpdateOne_CredentialHash = updateSetters PaymentOrder_CredentialHash True"

definition PaymentOrderUpdateOne_Rewards :: "(uint64, PaymentOrder) setters" where "PaymentOrderUpdateOne_Rewards = updateSetters PaymentOrder_Rewards False"

definition PaymentOrderUpdateOne_RetryTimes :: "(uint64, PaymentOrder) setters" where "PaymentOrderUpdateOne_RetryTimes = updateSetters PaymentOrder_RetryTimes True"

definition PaymentOrderUpdateOne_CancelReason :: "(uint64, PaymentOrder) setters" where "PaymentOrderUpdateOne_CancelReason = updateSetters PaymentOrder_CancelReason True"

definition PaymentOrderUpdateOne_RefundReason :: "(uint64, PaymentOrder) setters" where "PaymentOrderUpdateOne_RefundReason = updateSetters PaymentOrder_RefundReason True"

definition PaymentOrderUpdateOne_IsSandbox :: "(uint64, PaymentOrder) setters" where "PaymentOrderUpdateOne_IsSandbox = updateSetters PaymentOrder_IsSandbox True"

definition PaymentOrderUpdateOne_UpdateAtUnix :: "(uint64, PaymentOrder) setters" where "PaymentOrderUpdateOne_UpdateAtUnix = updateSetters PaymentOrder_UpdateAtUnix False"

definition PaymentOrderUpdateOne_PayAtUnix :: "(uint64, PaymentOrder) setters" where "PaymentOrderUpdateOne_PayAtUnix = updateSetters PaymentOrder_PayAtUnix True"

definition PaymentOrderUpdateOne_RefundAtUnix :: "(uint64, PaymentOrder) setters" where "PaymentOrderUpdateOne_RefundAtUnix = updateSetters PaymentOrder_RefundAtUnix True"

definition PaymentOrderUpdateOne_CancelAtUnix :: "(uint64, PaymentOrder) setters" where "PaymentOrderUpdateOne_CancelAtUnix = updateSetters PaymentOrder_CancelAtUnix True"

section \<open>AccountCreate\<close>

definition AccountCreate_IsDeleted :: "(uint64, Account) setters" where "AccountCreate_IsDeleted = createSetters Account_IsDeleted True"

definition AccountCreate_CreateAtUnix :: "(uint64, Account) setters" where "AccountCreate_CreateAtUnix = createSetters Account_CreateAtUnix True"

definition AccountCreate_UpdateAtUnix :: "(uint64, Account) setters" where "AccountCreate_UpdateAtUnix = createSetters Account_UpdateAtUnix True"

section \<open>AccountUpdate\<close>

definition AccountUpdate_IsDeleted :: "(uint64, Account) setters" where "AccountUpdate_IsDeleted = updateSetters Account_IsDeleted True"

definition AccountUpdate_UpdateAtUnix :: "(uint64, Account) setters" where "AccountUpdate_UpdateAtUnix = updateSetters Account_UpdateAtUnix False"

section \<open>AccountUpdateOne\<close>

definition AccountUpdateOne_IsDeleted :: "(uint64, Account) setters" where "AccountUpdateOne_IsDeleted = updateSetters Account_IsDeleted True"

definition AccountUpdateOne_UpdateAtUnix :: "(uint64, Account) setters" where "AccountUpdateOne_UpdateAtUnix = updateSetters Account_UpdateAtUnix False"

section \<open>IdentityCreate\<close>

definition IdentityCreate_UID :: "(uint64, IdentityRow) setters" where "IdentityCreate_UID = createSetters Identity_UID False"

definition IdentityCreate_LoginType :: "(uint64, IdentityRow) setters" where "IdentityCreate_LoginType = createSetters Identity_LoginType False"

definition IdentityCreate_AppID :: "(uint64, IdentityRow) setters" where "IdentityCreate_AppID = createSetters Identity_AppID False"

definition IdentityCreate_OpenID :: "(uint64, IdentityRow) setters" where "IdentityCreate_OpenID = createSetters Identity_OpenID False"

definition IdentityCreate_UnionID :: "(uint64, IdentityRow) setters" where "IdentityCreate_UnionID = createSetters Identity_UnionID True"

definition IdentityCreate_CreateAtUnix :: "(uint64, IdentityRow) setters" where "IdentityCreate_CreateAtUnix = createSetters Identity_CreateAtUnix True"

definition Item_updates :: "(ent_field \<times> (int, Item) setters) list" where
  "Item_updates = [(Item_Count, ItemUpdate_Count),
     (Item_UsedCount, ItemUpdate_UsedCount),
     (Item_ExpireAtUnix, ItemUpdate_ExpireAtUnix),
     (Item_UpdateAtUnix, ItemUpdate_UpdateAtUnix),
     (Item_Count, ItemUpdateOne_Count),
     (Item_UsedCount, ItemUpdateOne_UsedCount),
     (Item_ExpireAtUnix, ItemUpdateOne_ExpireAtUnix),
     (Item_UpdateAtUnix, ItemUpdateOne_UpdateAtUnix)]"

definition PaymentOrder_updates :: "(ent_field \<times> (uint64, PaymentOrder) setters) list" where
  "PaymentOrder_updates = [(PaymentOrder_Status, PaymentOrderUpdate_Status),
     (PaymentOrder_RealAmountUnit, PaymentOrderUpdate_RealAmountUnit),
     (PaymentOrder_RealAmountNanos, PaymentOrderUpdate_RealAmountNanos),
     (PaymentOrder_RealCurrency, PaymentOrderUpdate_RealCurrency),
     (PaymentOrder_ThirdPartyOrderID, PaymentOrderUpdate_ThirdPartyOrderID),
     (PaymentOrder_Credential, PaymentOrderUpdate_Credential),
     (PaymentOrder_CredentialHash, PaymentOrderUpdate_CredentialHash),
     (PaymentOrder_Rewards, PaymentOrderUpdate_Rewards),
     (PaymentOrder_RetryTimes, PaymentOrderUpdate_RetryTimes),
     (PaymentOrder_CancelReason, PaymentOrderUpdate_CancelReason),
     (PaymentOrder_RefundReason, PaymentOrderUpdate_RefundReason),
     (PaymentOrder_IsSandbox, PaymentOrderUpdate_IsSandbox),
     (PaymentOrder_UpdateAtUnix, PaymentOrderUpdate_UpdateAtUnix),
     (PaymentOrder_PayAtUnix, PaymentOrderUpdate_PayAtUnix),
     (PaymentOrder_RefundAtUnix, PaymentOrderUpdate_RefundAtUnix),
     (PaymentOrder_CancelAtUnix, PaymentOrderUpdate_CancelAtUnix),
     (PaymentOrder_Status, PaymentOrderUpdateOne_Status),
     (PaymentOrder_RealAmountUnit, PaymentOrderUpdateOne_RealAmountUnit),
     (PaymentOrder_RealAmountNanos, PaymentOrderUpdateOne_RealAmountNanos),
     (PaymentOrder_RealCurrency, PaymentOrderUpdateOne_RealCurrency),
     (PaymentOrder_ThirdPartyOrderID, PaymentOrderUpdateOne_ThirdPartyOrderID),
     (PaymentOrder_Credential, PaymentOrderUpdateOne_Credential),
     (PaymentOrder_CredentialHash, PaymentOrderUpdateOne_CredentialHash),
     (PaymentOrder_Rewards, PaymentOrderUpdateOne_Rewards),
     (PaymentOrder_RetryTimes, PaymentOrderUpdateOne_RetryTimes),
     (PaymentOrder_CancelReason, PaymentOrderUpdateOne_CancelReason),
     (PaymentOrder_RefundReason, PaymentOrderUpdateOne_RefundReason),
     (PaymentOrder_IsSandbox, PaymentOrderUpdateOne_IsSandbox),
     (PaymentOrder_UpdateAtUnix, PaymentOrderUpdateOne_UpdateAtUnix),
     (PaymentOrder_PayAtUnix, PaymentOrderUpdateOne_PayAtUnix),
     (PaymentOrder_RefundAtUnix, PaymentOrderUpdateOne_RefundAtUnix),
     (PaymentOrder_CancelAtUnix, PaymentOrderUpdateOne_CancelAtUnix)]"

definition Account_updates :: "(ent_field \<times> (uint64, Account) setters) list" where
  "Account_updates = [(Account_IsDeleted, AccountUpdate_IsDeleted),
     (Account_UpdateAtUnix, AccountUpdate_UpdateAtUnix),
     (Account_IsDeleted, AccountUpdateOne_IsDeleted),
     (Account_UpdateAtUnix, AccountUpdateOne_UpdateAtUnix)]"

section \<open>Calls one after the other\<close>

datatype field_call = CSet ent_value | CSetNillable "ent_value option" | CAdd ent_value | CClear

text \<open>The methods a call needs; \<open>None\<close> when the builder has no such method.\<close>

fun runCall :: "('id, 'r) setters \<Rightarrow> field_call \<Rightarrow> ('id, 'r) mutation \<Rightarrow> ('id, 'r) mutation option" where
  "runCall st (CSet v) m = Some (st_Set st v m)"
| "runCall st (CSetNillable v) m = map_option (\<lambda>g. g v m) (st_SetNillable st)"
| "runCall st (CAdd v) m = map_option (\<lambda>g. g v m) (st_Add st)"
| "runCall st CClear m = map_option (\<lambda>g. g m) (st_Clear st)"

fun runCalls :: "('id, 'r) setters \<Rightarrow> field_call list \<Rightarrow> ('id, 'r) mutation \<Rightarrow> ('id, 'r) mutation option" where
  "runCalls st [] m = Some m"
| "runCalls st (c # cs) m = Option.bind (runCall st c m) (runCalls st cs)"

text \<open>
  What a saved mutation does to the value \<open>x\<close> of a column, \<open>None\<close> for NULL: set or cleared, then added to; the reference is
  what the calls say in their order.
\<close>

definition fieldEffect :: "ent_field \<Rightarrow> ('id, 'r) mutation \<Rightarrow> ent_value option \<Rightarrow> ent_value option" where
  "fieldEffect f m x =
     (let y = (case fieldGet f m of Some v \<Rightarrow> Some v | None \<Rightarrow> if fieldCleared f m then None else x)
      in case fieldAdded f m of None \<Rightarrow> y | Some d \<Rightarrow> map_option (\<lambda>z. plusEq z d) y)"

fun applyCall :: "field_call \<Rightarrow> ent_value option \<Rightarrow> ent_value option" where
  "applyCall (CSet v) x = Some v"
| "applyCall (CSetNillable None) x = x"
| "applyCall (CSetNillable (Some v)) x = Some v"
| "applyCall (CAdd d) x = map_option (\<lambda>z. plusEq z d) x"
| "applyCall CClear x = None"

text \<open>Go's types: the argument of a call has the type of the field.\<close>

fun callFits :: "ent_field \<Rightarrow> field_call \<Rightarrow> bool" where
  "callFits f (CSet v) = (typeOf v = ef_type f)"
| "callFits f (CSetNillable v) = (case v of None \<Rightarrow> True | Some x \<Rightarrow> typeOf x = ef_type f)"
| "callFits f (CAdd v) = (typeOf v = ef_type f)"
| "callFits f CClear = True"

definition counts :: "ent_field \<Rightarrow> bool" where
  "counts f \<longleftrightarrow> ef_add f = Some (ef_type f) \<and> \<not> ef_nullable f"

definition plain :: "ent_field \<Rightarrow> bool" where "plain f \<longleftrightarrow> ef_add f = None"

lemma wrap32_nested [simp]: "wrap32 (a + wrap32 b) = wrap32 (a + b)" "wrap32 (wrap32 b + a) = wrap32 (b + a)"
proof -
  have "(a + ((b + 2147483648) mod 4294967296 - 2147483648) + 2147483648) mod 4294967296 = (a + (b + 2147483648) mod 4294967296) mod 4294967296"
    by simp
  also have "\<dots> = (a + (b + 2147483648)) mod 4294967296" by (rule mod_add_right_eq)
  finally show "wrap32 (a + wrap32 b) = wrap32 (a + b)" by (simp add: wrap32_def add.assoc)
  then show "wrap32 (wrap32 b + a) = wrap32 (b + a)" by (simp add: add.commute)
qed

lemma plusEq_assoc: "typeOf a = typeOf b \<Longrightarrow> typeOf b = typeOf c \<Longrightarrow> plusEq a (plusEq b c) = plusEq (plusEq a b) c"
  by (cases a; cases b; cases c) (simp_all add: add.assoc)

text \<open>A mutation in the middle of a sequence of calls: sums have the type of the field, and only numbers have sums.\<close>

definition callInv :: "ent_field \<Rightarrow> ('id, 'r) mutation \<Rightarrow> bool" where
  "callInv f m \<longleftrightarrow> (case fieldAdded f m of None \<Rightarrow> True | Some d \<Rightarrow> counts f \<and> typeOf d = ef_type f)
     \<and> (case fieldGet f m of None \<Rightarrow> True | Some v \<Rightarrow> typeOf v = ef_type f)
     \<and> (fieldCleared f m \<longrightarrow> \<not> counts f)"

lemmas field_defs = fieldSet_def fieldGet_def fieldAdd_def fieldAdded_def fieldClear_def fieldCleared_def fieldReset_def

lemma updateSet_effect:
  assumes "counts f \<or> plain f" and "callInv f m" and "typeOf v = ef_type f"
  shows "callInv f (updateSet f v m) \<and> fieldEffect f (updateSet f v m) x = Some v"
  using assms by (auto simp: callInv_def fieldEffect_def updateSet_def counts_def plain_def field_defs split: option.splits)

lemma add_effect:
  assumes "counts f" and "callInv f m" and "typeOf d = ef_type f" and "\<And>v. x = Some v \<Longrightarrow> typeOf v = ef_type f"
  shows "callInv f (fieldAdd f d m) \<and> fieldEffect f (fieldAdd f d m) x = map_option (\<lambda>z. plusEq z d) (fieldEffect f m x)"
  using assms by (cases x) (auto simp: callInv_def fieldEffect_def counts_def field_defs plusEq_assoc split: option.splits)

lemma clear_effect:
  assumes "plain f" and "callInv f m"
  shows "callInv f (fieldClear f m) \<and> fieldEffect f (fieldClear f m) x = None"
  using assms by (auto simp: callInv_def fieldEffect_def plain_def counts_def field_defs split: option.splits)

lemma runCall_effect:
  assumes "counts f \<or> plain f" and "callInv f m" and "callFits f c" and "\<And>v. x = Some v \<Longrightarrow> typeOf v = ef_type f"
    and "runCall (updateSetters f nil) c m = Some m'"
  shows "callInv f m' \<and> fieldEffect f m' x = applyCall c (fieldEffect f m x)"
proof (cases c)
  case (CSet v)
  with assms updateSet_effect [OF assms(1,2), of v x] show ?thesis by (auto simp: updateSetters_def)
next
  case (CSetNillable v)
  with assms updateSet_effect [OF assms(1,2), of "the v" x] show ?thesis
    by (cases v) (auto simp: updateSetters_def ifGiven_def split: if_splits)
next
  case (CAdd d)
  with assms add_effect [of f m d x] show ?thesis by (auto simp: updateSetters_def plain_def split: if_splits)
next
  case CClear
  with assms clear_effect [of f m x] show ?thesis by (auto simp: updateSetters_def counts_def split: if_splits)
qed

lemma runCalls_effect:
  assumes "counts f \<or> plain f" and "\<And>v. x = Some v \<Longrightarrow> typeOf v = ef_type f"
    and "list_all (callFits f) cs" and "callInv f m" and "runCalls (updateSetters f nil) cs m = Some m'"
  shows "fieldEffect f m' x = fold applyCall cs (fieldEffect f m x)"
  using assms(3-5)
proof (induction cs arbitrary: m)
  case (Cons c cs)
  then obtain m1 where m1: "runCall (updateSetters f nil) c m = Some m1" "runCalls (updateSetters f nil) cs m1 = Some m'"
    by (auto split: bind_splits)
  from runCall_effect [OF assms(1) Cons.prems(2) _ assms(2) m1(1)] Cons.prems(1) have "callInv f m1" "fieldEffect f m1 x = applyCall c (fieldEffect f m x)"
    by auto
  with Cons.IH [OF _ _ m1(2)] Cons.prems(1) show ?case by simp
qed simp

lemma new_effect: "callInv f (newMutation ty op [])" "fieldEffect f (newMutation ty op []) x = x"
  by (simp_all add: callInv_def fieldEffect_def newMutation_def field_defs)

lemmas update_field_defs = counts_def plain_def
  Item_Count_def Item_UsedCount_def Item_ExpireAtUnix_def Item_UpdateAtUnix_def Account_IsDeleted_def Account_UpdateAtUnix_def
  PaymentOrder_Status_def PaymentOrder_RealAmountUnit_def PaymentOrder_RealAmountNanos_def PaymentOrder_RealCurrency_def
  PaymentOrder_ThirdPartyOrderID_def PaymentOrder_Credential_def PaymentOrder_CredentialHash_def PaymentOrder_Rewards_def
  PaymentOrder_RetryTimes_def PaymentOrder_CancelReason_def PaymentOrder_RefundReason_def PaymentOrder_IsSandbox_def
  PaymentOrder_UpdateAtUnix_def PaymentOrder_PayAtUnix_def PaymentOrder_RefundAtUnix_def PaymentOrder_CancelAtUnix_def

text \<open>Every field of an update builder is a number that can be added to and is not NULL, or has no sums.\<close>

definition sums :: "(ent_field \<times> ('id, 'r) setters) list \<Rightarrow> bool" where
  "sums xs \<longleftrightarrow> (\<forall>(f, st) \<in> set xs. (counts f \<or> plain f) \<and> (\<exists>nil. st = updateSetters f nil))"

lemma sums_simps [simp]: "sums []" "sums ((f, st) # xs) \<longleftrightarrow> (counts f \<or> plain f) \<and> (\<exists>nil. st = updateSetters f nil) \<and> sums xs"
  by (auto simp: sums_def)

lemma item_updates_sums: "sums Item_updates"
  unfolding Item_updates_def sums_simps
      ItemUpdate_Count_def ItemUpdate_UsedCount_def ItemUpdate_ExpireAtUnix_def ItemUpdate_UpdateAtUnix_def
      ItemUpdateOne_Count_def ItemUpdateOne_UsedCount_def ItemUpdateOne_ExpireAtUnix_def ItemUpdateOne_UpdateAtUnix_def
  by (intro conjI exI) (rule refl | simp add: update_field_defs)+

lemma order_updates_sums: "sums PaymentOrder_updates"
  unfolding PaymentOrder_updates_def sums_simps
      PaymentOrderUpdate_Status_def PaymentOrderUpdate_RealAmountUnit_def PaymentOrderUpdate_RealAmountNanos_def
      PaymentOrderUpdate_RealCurrency_def PaymentOrderUpdate_ThirdPartyOrderID_def PaymentOrderUpdate_Credential_def
      PaymentOrderUpdate_CredentialHash_def PaymentOrderUpdate_Rewards_def PaymentOrderUpdate_RetryTimes_def
      PaymentOrderUpdate_CancelReason_def PaymentOrderUpdate_RefundReason_def PaymentOrderUpdate_IsSandbox_def
      PaymentOrderUpdate_UpdateAtUnix_def PaymentOrderUpdate_PayAtUnix_def PaymentOrderUpdate_RefundAtUnix_def
      PaymentOrderUpdate_CancelAtUnix_def PaymentOrderUpdateOne_Status_def PaymentOrderUpdateOne_RealAmountUnit_def
      PaymentOrderUpdateOne_RealAmountNanos_def PaymentOrderUpdateOne_RealCurrency_def
      PaymentOrderUpdateOne_ThirdPartyOrderID_def PaymentOrderUpdateOne_Credential_def
      PaymentOrderUpdateOne_CredentialHash_def PaymentOrderUpdateOne_Rewards_def PaymentOrderUpdateOne_RetryTimes_def
      PaymentOrderUpdateOne_CancelReason_def PaymentOrderUpdateOne_RefundReason_def PaymentOrderUpdateOne_IsSandbox_def
      PaymentOrderUpdateOne_UpdateAtUnix_def PaymentOrderUpdateOne_PayAtUnix_def PaymentOrderUpdateOne_RefundAtUnix_def
      PaymentOrderUpdateOne_CancelAtUnix_def
  by (intro conjI exI) (rule refl | simp add: update_field_defs)+

lemma account_updates_sums: "sums Account_updates"
  unfolding Account_updates_def sums_simps
      AccountUpdate_IsDeleted_def AccountUpdate_UpdateAtUnix_def AccountUpdateOne_IsDeleted_def
      AccountUpdateOne_UpdateAtUnix_def
  by (intro conjI exI) (rule refl | simp add: update_field_defs)+

lemma sums_effect:
  assumes "sums xs" and "(f, st) \<in> set xs" and "list_all (callFits f) cs" and "\<And>v. x = Some v \<Longrightarrow> typeOf v = ef_type f"
    and "runCalls st cs (newMutation ty op []) = Some m"
  shows "fieldEffect f m x = fold applyCall cs x"
proof -
  from assms(1,2) obtain nil where "counts f \<or> plain f" "st = updateSetters f nil" by (auto simp: sums_def)
  with runCalls_effect [OF _ assms(4,3) new_effect(1), where nil = nil and ty1 = ty and op1 = op and m' = m] assms(5) show ?thesis by (simp add: new_effect(2))
qed

text \<open>
  Builder calls take effect in their order. For every field of every update builder of items, orders and accounts, a sequence
  of calls of \<open>Set\<close>, \<open>SetNillable\<close>, \<open>Add\<close> and \<open>Clear\<close> does to the stored value what the calls do one after the other, with
  sums that wrap as in Go: a later set drops earlier sums, sums are added to an earlier set.
\<close>

theorem builder_calls_in_order:
  assumes "list_all (callFits f) cs" and "\<And>v. x = Some v \<Longrightarrow> typeOf v = ef_type f"
  shows "((f, si) \<in> set Item_updates \<and> runCalls si cs (newMutation ''Item'' op []) = Some mi \<longrightarrow> fieldEffect f mi x = fold applyCall cs x)
    \<and> ((f, so) \<in> set PaymentOrder_updates \<and> runCalls so cs (newMutation ''PaymentOrder'' op []) = Some mo \<longrightarrow> fieldEffect f mo x = fold applyCall cs x)
    \<and> ((f, sa) \<in> set Account_updates \<and> runCalls sa cs (newMutation ''Account'' op []) = Some ma \<longrightarrow> fieldEffect f ma x = fold applyCall cs x)"
  using sums_effect [OF item_updates_sums _ assms] sums_effect [OF order_updates_sums _ assms] sums_effect [OF account_updates_sums _ assms]
  by blast

text \<open>Retries that are added, set and added again.\<close>

definition retryCalls :: "field_call list" where
  "retryCalls = [CAdd (VInt32 5), CSet (VInt32 2147483647), CAdd (VInt32 1), CAdd (VInt32 1)]"

theorem builder_calls_in_order_witness:
  "\<exists>m. runCalls PaymentOrderUpdate_RetryTimes retryCalls (newMutation ''PaymentOrder'' OpUpdate []) = Some m
     \<and> fieldEffect PaymentOrder_RetryTimes m (Some (VInt32 3)) = Some (VInt32 (- 2147483647))"
proof -
  obtain m where m: "runCalls PaymentOrderUpdate_RetryTimes retryCalls (newMutation ''PaymentOrder'' OpUpdate []) = Some m"
    by (simp add: retryCalls_def PaymentOrderUpdate_RetryTimes_def updateSetters_def PaymentOrder_RetryTimes_def)
  have "(PaymentOrder_RetryTimes, PaymentOrderUpdate_RetryTimes) \<in> set PaymentOrder_updates" by (simp add: PaymentOrder_updates_def)
  moreover have "list_all (callFits PaymentOrder_RetryTimes) retryCalls" by (simp add: retryCalls_def PaymentOrder_RetryTimes_def)
  ultimately have "fieldEffect PaymentOrder_RetryTimes m (Some (VInt32 3)) = fold applyCall retryCalls (Some (VInt32 3))"
    using builder_calls_in_order [of PaymentOrder_RetryTimes retryCalls "Some (VInt32 3)" _ OpUpdate _ PaymentOrderUpdate_RetryTimes m] m
    by (simp add: PaymentOrder_RetryTimes_def)
  with m show ?thesis by (simp add: retryCalls_def wrap32_def)
qed

end
