(* ===== verification/EntQuery.thy ===== *)
theory EntQuery
  imports EntBuilders
begin

text \<open>
  The queries of ent as they are generated, \<open>ent/*_query.go\<close>: a builder collects predicates, order, limits and columns, becomes a
  specification for \<open>sqlgraph.QueryNodes\<close> or a selector, and the rows that come back are scanned and assigned. The six files are the
  same up to the table, which is the record \<open>ent_table\<close>; \<open>ItemQuery_find\<close> and its siblings are the methods of one file.
  \<open>sqlgraph\<close> and the driver are the record \<open>query_drv\<close>. An interceptor is nil or a traverser, whose \<open>Intercept\<close> is the
  identity; the repository registers none. No table has edges, so a query has no path. A runner works on the builder
  itself: what it leaves there is the query that it passes on. Shown: on a driver that answers with the rows its conditions
  select, the queries of the stores do what the operations of theory Ent say, on which the stores are modelled.
\<close>

section \<open>Tables, queries and specifications\<close>

record ('r, 'id) ent_table =
  tb_Table :: string
  tb_Columns :: "string list"
  tb_FieldID :: string
  tb_scanValues :: "string \<Rightarrow> scan_dest"
  tb_assign :: "string \<Rightarrow> scan_value \<Rightarrow> 'r \<Rightarrow> scan_error + 'r"
  tb_zero :: 'r
  tb_scanID :: "sql_value option \<Rightarrow> 'id option"
  tb_zeroID :: 'id

text \<open>Ids are scanned into \<open>int64\<close> or \<open>uint64\<close> directly.\<close>

definition scanInt64 :: "sql_value option \<Rightarrow> int option" where
  "scanInt64 v = (case v of Some (SInt i) \<Rightarrow> if fits64 i then Some i else None | _ \<Rightarrow> None)"

definition scanUint64 :: "sql_value option \<Rightarrow> uint64 option" where
  "scanUint64 v = (case v of Some (SInt i) \<Rightarrow> if 0 \<le> i \<and> i < 2 ^ 64 then Some (nat i) else None | _ \<Rightarrow> None)"

datatype modifier = ForUpdateMod "string list" | ForShareMod "string list"

datatype dialect = MySQL | Postgres | SQLite

text \<open>What can be passed to \<open>Order\<close>: \<open>ent.Asc\<close>, \<open>ent.Desc\<close>, the \<open>By\<close> functions of a table and an expression of SQL.\<close>

datatype order_term = TermBy string bool | TermExpr string

datatype order_option = OrderAsc "string list" | OrderDesc "string list" | OrderTerm order_term

record entquery =
  eq_Limit :: "int option"
  eq_Offset :: "int option"
  eq_Unique :: "bool option"
  eq_Fields :: "string list"
  eq_order :: "order_option list"
  eq_predicates :: "pred list"
  eq_modifiers :: "modifier list"

definition newQuery :: entquery where
  "newQuery = \<lparr>eq_Limit = None, eq_Offset = None, eq_Unique = None, eq_Fields = [], eq_order = [], eq_predicates = [], eq_modifiers = []\<rparr>"

record query_spec =
  qs_Table :: string
  qs_Columns :: "string list"
  qs_ID :: string
  qs_Unique :: bool
  qs_Predicate :: "pred list"
  qs_Limit :: int
  qs_Offset :: int
  qs_Order :: "order_option list"
  qs_Modifiers :: "modifier list"

datatype sel_term = SelColumn string | SelFn string sel_term | SelStar | SelAs sel_term string | SelEmpty

record selector =
  sl_Table :: string
  sl_Columns :: "sel_term list"
  sl_Distinct :: bool
  sl_modifiers :: "modifier list"
  sl_predicates :: "pred list"
  sl_order :: "order_term list"
  sl_Offset :: "int option"
  sl_Limit :: "int option"
  sl_GroupBy :: "string list"
  sl_errors :: "string list"

type_synonym sql_row = "string \<Rightarrow> sql_value option"

record 's query_drv =
  drv_Dialect :: dialect
  drv_QueryNodes :: "query_spec \<Rightarrow> ('s, sql_error, sql_row list) act"
  drv_CountNodes :: "query_spec \<Rightarrow> ('s, sql_error, nat) act"
  drv_Query :: "selector \<Rightarrow> ('s, sql_error, sql_row list) act"

datatype query_error =
    QNotFound
  | QNotSingular
  | QInvalidField string
  | QNoInterceptor
  | QTraverse
  | QSelector "string list"
  | QSql sql_error
  | QScan scan_error
  | QScanSlice
  | QExistErr query_error
  | QManyFields
  | QManyResults nat

fun QIsNotFound :: "query_error \<Rightarrow> bool" where
  "QIsNotFound QNotFound = True"
| "QIsNotFound (QExistErr e) = QIsNotFound e"
| "QIsNotFound _ = False"

datatype query_panic = QPanic query_error

section \<open>Building\<close>

definition qWhere :: "pred list \<Rightarrow> entquery \<Rightarrow> entquery" where
  "qWhere ps q = q\<lparr>eq_predicates := eq_predicates q @ ps\<rparr>"

definition qLimit :: "int \<Rightarrow> entquery \<Rightarrow> entquery" where "qLimit n q = q\<lparr>eq_Limit := Some n\<rparr>"

definition qOffset :: "int \<Rightarrow> entquery \<Rightarrow> entquery" where "qOffset n q = q\<lparr>eq_Offset := Some n\<rparr>"

definition qUnique :: "bool \<Rightarrow> entquery \<Rightarrow> entquery" where "qUnique b q = q\<lparr>eq_Unique := Some b\<rparr>"

definition qOrder :: "order_option list \<Rightarrow> entquery \<Rightarrow> entquery" where "qOrder os q = q\<lparr>eq_order := eq_order q @ os\<rparr>"

definition qSelect :: "string list \<Rightarrow> entquery \<Rightarrow> entquery" where "qSelect fs q = q\<lparr>eq_Fields := eq_Fields q @ fs\<rparr>"

definition qGroupBy :: "string \<Rightarrow> string list \<Rightarrow> entquery \<Rightarrow> entquery" where "qGroupBy f fs q = q\<lparr>eq_Fields := f # fs\<rparr>"

definition lockRows :: "dialect \<Rightarrow> modifier \<Rightarrow> entquery \<Rightarrow> entquery" where
  "lockRows d mo q = (let q1 = (if d = Postgres then qUnique False q else q) in q1\<lparr>eq_modifiers := eq_modifiers q1 @ [mo]\<rparr>)"

definition qForUpdate :: "dialect \<Rightarrow> string list \<Rightarrow> entquery \<Rightarrow> entquery" where "qForUpdate d opts = lockRows d (ForUpdateMod opts)"

definition qForShare :: "dialect \<Rightarrow> string list \<Rightarrow> entquery \<Rightarrow> entquery" where "qForShare d opts = lockRows d (ForShareMod opts)"

text \<open>A clone has copies of the slices but not of the modifiers.\<close>

definition qClone :: "entquery \<Rightarrow> entquery" where "qClone q = q\<lparr>eq_modifiers := []\<rparr>"

section \<open>Order\<close>

definition addError :: "string \<Rightarrow> selector \<Rightarrow> selector" where "addError e s = s\<lparr>sl_errors := sl_errors s @ [e]\<rparr>"

definition addTerm :: "order_term \<Rightarrow> selector \<Rightarrow> selector" where "addTerm t s = s\<lparr>sl_order := sl_order s @ [t]\<rparr>"

text \<open>\<open>ent.Asc\<close> and \<open>ent.Desc\<close> check the column, note an error and add the term all the same.\<close>

fun applyOrder :: "(string \<Rightarrow> string \<Rightarrow> bool) \<Rightarrow> bool \<Rightarrow> string list \<Rightarrow> selector \<Rightarrow> selector" where
  "applyOrder check desc [] s = s"
| "applyOrder check desc (f # fs) s =
     applyOrder check desc fs (addTerm (TermBy f desc) (if check (sl_Table s) f then s else addError f s))"

fun applyOption :: "(string \<Rightarrow> string \<Rightarrow> bool) \<Rightarrow> order_option \<Rightarrow> selector \<Rightarrow> selector" where
  "applyOption check (OrderAsc fs) s = applyOrder check False fs s"
| "applyOption check (OrderDesc fs) s = applyOrder check True fs s"
| "applyOption check (OrderTerm t) s = addTerm t s"

section \<open>Running\<close>

type_synonym interceptor = "(entquery \<Rightarrow> entquery option) option"

fun traverseInters :: "interceptor list \<Rightarrow> entquery \<Rightarrow> query_error + entquery" where
  "traverseInters [] q = Inr q"
| "traverseInters (None # is) q = Inl QNoInterceptor"
| "traverseInters (Some t # is) q = (case t q of None \<Rightarrow> Inl QTraverse | Some q' \<Rightarrow> traverseInters is q')"

fun checkFields :: "(string \<Rightarrow> bool) \<Rightarrow> string list \<Rightarrow> query_error option" where
  "checkFields valid [] = None"
| "checkFields valid (f # fs) = (if \<not> valid f then Some (QInvalidField f) else checkFields valid fs)"

definition ValidColumn :: "('r, 'id) ent_table \<Rightarrow> string \<Rightarrow> bool" where
  "ValidColumn tb c \<longleftrightarrow> list_ex (\<lambda>x. c = x) (tb_Columns tb)"

definition prepareQuery :: "('r, 'id) ent_table \<Rightarrow> interceptor list \<Rightarrow> entquery \<Rightarrow> query_error + entquery" where
  "prepareQuery tb inters q = (case traverseInters inters q of
       Inl e \<Rightarrow> Inl e
     | Inr q1 \<Rightarrow> (case checkFields (ValidColumn tb) (eq_Fields q1) of None \<Rightarrow> Inr q1 | Some e \<Rightarrow> Inl e))"

definition querySpec :: "('r, 'id) ent_table \<Rightarrow> entquery \<Rightarrow> query_spec" where
  "querySpec tb q = \<lparr>qs_Table = tb_Table tb,
     qs_Columns = (if eq_Fields q \<noteq> [] then tb_FieldID tb # filter (\<lambda>f. f \<noteq> tb_FieldID tb) (eq_Fields q) else tb_Columns tb),
     qs_ID = tb_FieldID tb, qs_Unique = getOr False (eq_Unique q), qs_Predicate = eq_predicates q,
     qs_Limit = getOr 0 (eq_Limit q), qs_Offset = getOr 0 (eq_Offset q), qs_Order = eq_order q, qs_Modifiers = []\<rparr>"

text \<open>The rows that come back, each scanned into a new entity.\<close>

fun assignRows :: "('r, 'id) ent_table \<Rightarrow> string list \<Rightarrow> sql_row list \<Rightarrow> scan_error + 'r list" where
  "assignRows tb columns [] = Inr []"
| "assignRows tb columns (v # vs) =
     (case scanAll (tb_scanValues tb) v columns of
        Inl e \<Rightarrow> Inl e
      | Inr values \<Rightarrow> (case assignValues (tb_assign tb) columns values (tb_zero tb) of
          Inl e \<Rightarrow> Inl e
        | Inr r \<Rightarrow> (case assignRows tb columns vs of Inl e \<Rightarrow> Inl e | Inr rs \<Rightarrow> Inr (r # rs))))"

definition ofSum :: "('e \<Rightarrow> 'f) \<Rightarrow> 'e + 'a \<Rightarrow> ('s, 'f, 'a) act" where
  "ofSum g r = (case r of Inl e \<Rightarrow> fail (g e) | Inr x \<Rightarrow> ok x)"

definition sqlAll :: "('r, 'id) ent_table \<Rightarrow> 's query_drv \<Rightarrow> entquery \<Rightarrow> ('s, query_error, 'r list) act" where
  "sqlAll tb drv q =
     (let spec = (querySpec tb q)\<lparr>qs_Modifiers := eq_modifiers q\<rparr>
      in andThen (mapErr QSql (drv_QueryNodes drv spec)) (\<lambda>vs. ofSum QScan (assignRows tb (qs_Columns spec) vs)))"

definition sqlCount :: "('r, 'id) ent_table \<Rightarrow> 's query_drv \<Rightarrow> entquery \<Rightarrow> ('s, query_error, nat) act" where
  "sqlCount tb drv q =
     (let spec0 = querySpec tb q;
          spec = spec0\<lparr>qs_Modifiers := eq_modifiers q, qs_Columns := eq_Fields q,
            qs_Unique := (if eq_Fields q \<noteq> [] then getOr False (eq_Unique q) else qs_Unique spec0)\<rparr>
      in mapErr QSql (drv_CountNodes drv spec))"

definition sqlQuery :: "('r, 'id) ent_table \<Rightarrow> entquery \<Rightarrow> selector" where
  "sqlQuery tb q = fold (applyOption (\<lambda>_. ValidColumn tb)) (eq_order q) \<lparr>sl_Table = tb_Table tb, sl_Columns = map SelColumn (if eq_Fields q = [] then tb_Columns tb else eq_Fields q),
     sl_Distinct = getOr False (eq_Unique q), sl_modifiers = eq_modifiers q, sl_predicates = eq_predicates q, sl_order = [],
     sl_Offset = eq_Offset q,
     sl_Limit = (case eq_Limit q of Some n \<Rightarrow> Some n | None \<Rightarrow> if eq_Offset q \<noteq> None then Some 2147483647 else None),
     sl_GroupBy = [], sl_errors = []\<rparr>"

definition prepared where
  "prepared tb inters q run = andThen (ofSum id (prepareQuery tb inters q)) run"

definition qAll :: "('r, 'id) ent_table \<Rightarrow> 's query_drv \<Rightarrow> interceptor list \<Rightarrow> entquery \<Rightarrow> ('s, query_error, 'r list) act" where
  "qAll tb drv inters q = prepared tb inters q (sqlAll tb drv)"

definition qCount :: "('r, 'id) ent_table \<Rightarrow> 's query_drv \<Rightarrow> interceptor list \<Rightarrow> entquery \<Rightarrow> ('s, query_error, nat) act" where
  "qCount tb drv inters q = prepared tb inters q (sqlCount tb drv)"

section \<open>Aggregates and the scan of columns\<close>

text \<open>An aggregate function renders a term on the selector, or adds an error to it.\<close>

type_synonym aggregate = "selector \<Rightarrow> sel_term \<times> selector"

definition aggregateFn :: "(string \<Rightarrow> string \<Rightarrow> bool) \<Rightarrow> string \<Rightarrow> string \<Rightarrow> aggregate" where
  "aggregateFn validColumn fn f s = (if validColumn (sl_Table s) f then (SelFn fn (SelColumn f), s) else (SelEmpty, addError f s))"

definition aggregateCount :: aggregate where "aggregateCount s = (SelFn ''COUNT'' SelStar, s)"

definition aggregateAs :: "aggregate \<Rightarrow> string \<Rightarrow> aggregate" where
  "aggregateAs fn end s = (case fn s of (t, s') \<Rightarrow> (SelAs t end, s'))"

fun applyFns :: "aggregate list \<Rightarrow> selector \<Rightarrow> sel_term list \<times> selector" where
  "applyFns [] s = ([], s)"
| "applyFns (fn # fns) s = (case fn s of (t, s1) \<Rightarrow> (case applyFns fns s1 of (ts, s2) \<Rightarrow> (t # ts, s2)))"

text \<open>\<open>sql.ScanSlice\<close> reads the rows into a slice of the caller's type.\<close>

definition runSelector ::
  "'s query_drv \<Rightarrow> (sel_term list \<Rightarrow> sql_row list \<Rightarrow> 'v option) \<Rightarrow> selector \<Rightarrow> ('s, query_error, 'v) act" where
  "runSelector drv scan sel = andThen (mapErr QSql (drv_Query drv sel)) (\<lambda>vs.
     case scan (sl_Columns sel) vs of None \<Rightarrow> fail QScanSlice | Some x \<Rightarrow> ok x)"

definition selectSqlScan where
  "selectSqlScan tb drv fns scan q =
     (case applyFns fns (sqlQuery tb q) of (aggregation, sel) \<Rightarrow>
        runSelector drv scan (sel\<lparr>sl_Columns :=
          (if eq_Fields q = [] \<and> aggregation \<noteq> [] then aggregation
           else if eq_Fields q \<noteq> [] \<and> aggregation \<noteq> [] then sl_Columns sel @ aggregation else sl_Columns sel)\<rparr>))"

definition groupSqlScan where
  "groupSqlScan tb drv fns scan q =
     (case applyFns fns ((sqlQuery tb q)\<lparr>sl_Columns := []\<rparr>) of (aggregation, sel) \<Rightarrow>
        let sel1 = (if sl_Columns sel = [] then sel\<lparr>sl_Columns := map SelColumn (eq_Fields q) @ aggregation\<rparr> else sel);
            sel2 = sel1\<lparr>sl_GroupBy := eq_Fields q\<rparr>
        in if sl_errors sel2 \<noteq> [] then fail (QSelector (sl_errors sel2)) else runSelector drv scan sel2)"

definition selectScan where
  "selectScan tb drv inters fns scan q = prepared tb inters q (selectSqlScan tb drv fns scan)"

definition groupScan where
  "groupScan tb drv inters fns scan q = prepared tb inters q (groupSqlScan tb drv fns scan)"

text \<open>\<open>Select(FieldID).Scan\<close> reads the one column into a slice of ids.\<close>

fun scanSlice :: "(sql_value option \<Rightarrow> 'id option) \<Rightarrow> sel_term list \<Rightarrow> sql_row list \<Rightarrow> 'id list option" where
  "scanSlice scan [SelColumn c] [] = Some []"
| "scanSlice scan [SelColumn c] (v # vs) = (case (scan (v c), scanSlice scan [SelColumn c] vs) of (Some i, Some is) \<Rightarrow> Some (i # is) | _ \<Rightarrow> None)"
| "scanSlice scan _ _ = None"

definition qIDs :: "('r, 'id) ent_table \<Rightarrow> 's query_drv \<Rightarrow> interceptor list \<Rightarrow> entquery \<Rightarrow> ('s, query_error, 'id list) act" where
  "qIDs tb drv inters q = selectScan tb drv inters [] (scanSlice (tb_scanID tb)) (qSelect [tb_FieldID tb] q)"

section \<open>One entity or none\<close>

definition pickFirst :: "'a list \<Rightarrow> ('s, query_error, 'a) act" where
  "pickFirst xs = (case xs of [] \<Rightarrow> fail QNotFound | x # _ \<Rightarrow> ok x)"

definition pickOnly :: "'a list \<Rightarrow> ('s, query_error, 'a) act" where
  "pickOnly xs = (case xs of [x] \<Rightarrow> ok x | [] \<Rightarrow> fail QNotFound | _ \<Rightarrow> fail QNotSingular)"

definition qFirst where "qFirst tb drv inters q = andThen (qAll tb drv inters (qLimit 1 q)) pickFirst"

definition qFirstID where "qFirstID tb drv inters q = andThen (qIDs tb drv inters (qLimit 1 q)) pickFirst"

definition qOnly where "qOnly tb drv inters q = andThen (qAll tb drv inters (qLimit 2 q)) pickOnly"

definition qOnlyID where "qOnlyID tb drv inters q = andThen (qIDs tb drv inters (qLimit 2 q)) pickOnly"

definition qExist :: "('r, 'id) ent_table \<Rightarrow> 's query_drv \<Rightarrow> interceptor list \<Rightarrow> entquery \<Rightarrow> ('s, query_error, bool) act" where
  "qExist tb drv inters q = andThen (attempt (qFirstID tb drv inters q)) (\<lambda>r. case r of
       Inl e \<Rightarrow> if QIsNotFound e then ok False else fail (QExistErr e)
     | Inr _ \<Rightarrow> ok True)"

text \<open>The methods that panic; \<open>FirstX\<close> and \<open>FirstIDX\<close> return nil and 0 when nothing was found.\<close>

definition orPanic :: "('s, query_error, 'a) act \<Rightarrow> ('s, query_panic, 'a) act" where "orPanic m = mapErr QPanic m"

definition orZero :: "'b \<Rightarrow> ('a \<Rightarrow> 'b) \<Rightarrow> ('s, query_error, 'a) act \<Rightarrow> ('s, query_panic, 'b) act" where
  "orZero z g m = andThen (attempt m) (\<lambda>r. case r of Inl e \<Rightarrow> if QIsNotFound e then ok z else fail (QPanic e) | Inr x \<Rightarrow> ok (g x))"

section \<open>The methods of one file\<close>

record query_build =
  qb_Where :: "pred list \<Rightarrow> entquery \<Rightarrow> entquery"
  qb_Limit :: "int \<Rightarrow> entquery \<Rightarrow> entquery"
  qb_Offset :: "int \<Rightarrow> entquery \<Rightarrow> entquery"
  qb_Unique :: "bool \<Rightarrow> entquery \<Rightarrow> entquery"
  qb_Order :: "order_option list \<Rightarrow> entquery \<Rightarrow> entquery"

record ('s, 'r, 'id) query_find =
  qf_First :: "interceptor list \<Rightarrow> entquery \<Rightarrow> ('s, query_error, 'r) act"
  qf_FirstX :: "interceptor list \<Rightarrow> entquery \<Rightarrow> ('s, query_panic, 'r option) act"
  qf_FirstID :: "interceptor list \<Rightarrow> entquery \<Rightarrow> ('s, query_error, 'id) act"
  qf_FirstIDX :: "interceptor list \<Rightarrow> entquery \<Rightarrow> ('s, query_panic, 'id) act"
  qf_Only :: "interceptor list \<Rightarrow> entquery \<Rightarrow> ('s, query_error, 'r) act"
  qf_OnlyX :: "interceptor list \<Rightarrow> entquery \<Rightarrow> ('s, query_panic, 'r) act"
  qf_OnlyID :: "interceptor list \<Rightarrow> entquery \<Rightarrow> ('s, query_error, 'id) act"
  qf_OnlyIDX :: "interceptor list \<Rightarrow> entquery \<Rightarrow> ('s, query_panic, 'id) act"

record ('s, 'r, 'id) query_run =
  qr_All :: "interceptor list \<Rightarrow> entquery \<Rightarrow> ('s, query_error, 'r list) act"
  qr_AllX :: "interceptor list \<Rightarrow> entquery \<Rightarrow> ('s, query_panic, 'r list) act"
  qr_IDs :: "interceptor list \<Rightarrow> entquery \<Rightarrow> ('s, query_error, 'id list) act"
  qr_IDsX :: "interceptor list \<Rightarrow> entquery \<Rightarrow> ('s, query_panic, 'id list) act"
  qr_Count :: "interceptor list \<Rightarrow> entquery \<Rightarrow> ('s, query_error, nat) act"
  qr_CountX :: "interceptor list \<Rightarrow> entquery \<Rightarrow> ('s, query_panic, nat) act"
  qr_Exist :: "interceptor list \<Rightarrow> entquery \<Rightarrow> ('s, query_error, bool) act"
  qr_ExistX :: "interceptor list \<Rightarrow> entquery \<Rightarrow> ('s, query_panic, bool) act"

record ('s, 'r) query_sql =
  qq_prepareQuery :: "interceptor list \<Rightarrow> entquery \<Rightarrow> query_error + entquery"
  qq_sqlAll :: "entquery \<Rightarrow> ('s, query_error, 'r list) act"
  qq_sqlCount :: "entquery \<Rightarrow> ('s, query_error, nat) act"
  qq_querySpec :: "entquery \<Rightarrow> query_spec"
  qq_sqlQuery :: "entquery \<Rightarrow> selector"

record query_locks =
  ql_ForUpdate :: "dialect \<Rightarrow> string list \<Rightarrow> entquery \<Rightarrow> entquery"
  ql_ForShare :: "dialect \<Rightarrow> string list \<Rightarrow> entquery \<Rightarrow> entquery"

record query_columns =
  qc_Clone :: "entquery \<Rightarrow> entquery"
  qc_GroupBy :: "string \<Rightarrow> string list \<Rightarrow> entquery \<Rightarrow> entquery"
  qc_Select :: "string list \<Rightarrow> entquery \<Rightarrow> entquery"
  qc_Aggregate :: "aggregate list \<Rightarrow> entquery \<Rightarrow> entquery \<times> aggregate list"

record ('s, 'v) query_scans =
  qs_GroupAggregate :: "aggregate list \<Rightarrow> aggregate list \<Rightarrow> aggregate list"
  qs_GroupScan :: "interceptor list \<Rightarrow> aggregate list \<Rightarrow> (sel_term list \<Rightarrow> sql_row list \<Rightarrow> 'v option) \<Rightarrow> entquery \<Rightarrow> ('s, query_error, 'v) act"
  qs_SelectAggregate :: "aggregate list \<Rightarrow> aggregate list \<Rightarrow> aggregate list"
  qs_SelectScan :: "interceptor list \<Rightarrow> aggregate list \<Rightarrow> (sel_term list \<Rightarrow> sql_row list \<Rightarrow> 'v option) \<Rightarrow> entquery \<Rightarrow> ('s, query_error, 'v) act"

definition queryBuild :: query_build where
  "queryBuild = \<lparr>qb_Where = qWhere, qb_Limit = qLimit, qb_Offset = qOffset, qb_Unique = qUnique, qb_Order = qOrder\<rparr>"

definition queryFind :: "('r, 'id) ent_table \<Rightarrow> 's query_drv \<Rightarrow> ('s, 'r, 'id) query_find" where
  "queryFind tb drv = \<lparr>qf_First = qFirst tb drv, qf_FirstX = (\<lambda>is q. orZero None Some (qFirst tb drv is q)),
     qf_FirstID = qFirstID tb drv, qf_FirstIDX = (\<lambda>is q. orZero (tb_zeroID tb) id (qFirstID tb drv is q)),
     qf_Only = qOnly tb drv, qf_OnlyX = (\<lambda>is q. orPanic (qOnly tb drv is q)),
     qf_OnlyID = qOnlyID tb drv, qf_OnlyIDX = (\<lambda>is q. orPanic (qOnlyID tb drv is q))\<rparr>"

definition queryRun :: "('r, 'id) ent_table \<Rightarrow> 's query_drv \<Rightarrow> ('s, 'r, 'id) query_run" where
  "queryRun tb drv = \<lparr>qr_All = qAll tb drv, qr_AllX = (\<lambda>is q. orPanic (qAll tb drv is q)),
     qr_IDs = qIDs tb drv, qr_IDsX = (\<lambda>is q. orPanic (qIDs tb drv is q)),
     qr_Count = qCount tb drv, qr_CountX = (\<lambda>is q. orPanic (qCount tb drv is q)),
     qr_Exist = qExist tb drv, qr_ExistX = (\<lambda>is q. orPanic (qExist tb drv is q))\<rparr>"

definition querySql :: "('r, 'id) ent_table \<Rightarrow> 's query_drv \<Rightarrow> ('s, 'r) query_sql" where
  "querySql tb drv = \<lparr>qq_prepareQuery = prepareQuery tb, qq_sqlAll = sqlAll tb drv, qq_sqlCount = sqlCount tb drv,
     qq_querySpec = querySpec tb, qq_sqlQuery = sqlQuery tb\<rparr>"

definition queryLocks :: query_locks where "queryLocks = \<lparr>ql_ForUpdate = qForUpdate, ql_ForShare = qForShare\<rparr>"

definition queryColumns :: query_columns where
  "queryColumns = \<lparr>qc_Clone = qClone, qc_GroupBy = qGroupBy, qc_Select = qSelect, qc_Aggregate = (\<lambda>fns q. (qSelect [] q, fns))\<rparr>"

definition queryScans :: "('r, 'id) ent_table \<Rightarrow> 's query_drv \<Rightarrow> ('s, 'v) query_scans" where
  "queryScans tb drv = \<lparr>qs_GroupAggregate = (\<lambda>fns old. old @ fns), qs_GroupScan = groupScan tb drv,
     qs_SelectAggregate = (\<lambda>fns old. old @ fns), qs_SelectScan = selectScan tb drv\<rparr>"

section \<open>The selector of ent.go\<close>

text \<open>The \<open>By\<close> functions, one for each of \<open>fs\<close>; the option \<open>sql.OrderDesc\<close> is the flag.\<close>

definition orderBy :: "ent_field list \<Rightarrow> string \<Rightarrow> bool \<Rightarrow> order_option option" where
  "orderBy fs name desc = map_option (\<lambda>f. OrderTerm (TermBy (ef_name f) desc)) (lookupField fs name)"

record ent_aggregates =
  ag_As :: "aggregate \<Rightarrow> string \<Rightarrow> aggregate"
  ag_Count :: aggregate
  ag_Max :: "string \<Rightarrow> aggregate"
  ag_Mean :: "string \<Rightarrow> aggregate"
  ag_Min :: "string \<Rightarrow> aggregate"
  ag_Sum :: "string \<Rightarrow> aggregate"

definition entAggregates :: "(string \<Rightarrow> string \<Rightarrow> bool) \<Rightarrow> ent_aggregates" where
  "entAggregates check = \<lparr>ag_As = aggregateAs, ag_Count = aggregateCount, ag_Max = aggregateFn check ''MAX'', ag_Mean = aggregateFn check ''AVG'',
     ag_Min = aggregateFn check ''MIN'', ag_Sum = aggregateFn check ''SUM''\<rparr>"

text \<open>The methods of a selector for one type of values; \<open>scan\<close> is the scan of the builder into a slice of that type.\<close>

record ('s, 'v) select_one =
  so_Many :: "('s, query_error, 'v list) act"
  so_ManyX :: "('s, query_panic, 'v list) act"
  so_One :: "('s, query_error, 'v) act"
  so_OneX :: "('s, query_panic, 'v) act"

definition selectMany :: "('s, query_error, 'v list) act \<Rightarrow> string list \<Rightarrow> ('s, query_error, 'v list) act" where
  "selectMany scan flds = (if 1 < length flds then fail QManyFields else scan)"

definition exactlyOne :: "'v list \<Rightarrow> ('s, query_error, 'v) act" where
  "exactlyOne vs = (case vs of [v] \<Rightarrow> ok v | [] \<Rightarrow> fail QNotFound | _ \<Rightarrow> fail (QManyResults (length vs)))"

definition selectOne :: "('s, query_error, 'v list) act \<Rightarrow> string list \<Rightarrow> ('s, 'v) select_one" where
  "selectOne scan flds = \<lparr>so_Many = selectMany scan flds, so_ManyX = orPanic (selectMany scan flds),
     so_One = andThen (selectMany scan flds) exactlyOne, so_OneX = orPanic (andThen (selectMany scan flds) exactlyOne)\<rparr>"

section \<open>Item\<close>

definition Item_table :: "(Item, int) ent_table" where
  "Item_table = \<lparr>tb_Table = ''items'', tb_Columns = Item_columns, tb_FieldID = ef_name Item_ID, tb_scanValues = Item_dest, tb_assign = Item_assign,
     tb_zero = Item_zero, tb_scanID = scanInt64, tb_zeroID = 0\<rparr>"

definition ItemQuery_build :: "query_build" where "ItemQuery_build = queryBuild"

definition ItemQuery_find :: "'s query_drv \<Rightarrow> ('s, Item, int) query_find" where "ItemQuery_find drv = queryFind Item_table drv"

definition ItemQuery_run :: "'s query_drv \<Rightarrow> ('s, Item, int) query_run" where "ItemQuery_run drv = queryRun Item_table drv"

definition ItemQuery_columns :: "query_columns" where "ItemQuery_columns = queryColumns"

definition ItemQuery_sql :: "'s query_drv \<Rightarrow> ('s, Item) query_sql" where "ItemQuery_sql drv = querySql Item_table drv"

definition ItemQuery_locks :: "query_locks" where "ItemQuery_locks = queryLocks"

definition ItemQuery_scans :: "'s query_drv \<Rightarrow> ('s, 'v) query_scans" where "ItemQuery_scans drv = queryScans Item_table drv"

definition Item_By :: "string \<Rightarrow> bool \<Rightarrow> order_option option" where
  "Item_By = orderBy (Item_ID # filter (\<lambda>f. ef_type f \<noteq> TRaw) Item_schema)"

section \<open>ItemNonce\<close>

definition ItemNonce_table :: "(ItemNonce, uint64) ent_table" where
  "ItemNonce_table = \<lparr>tb_Table = ''item_nonces'', tb_Columns = ItemNonce_columns, tb_FieldID = ef_name ItemNonce_ID, tb_scanValues = ItemNonce_dest, tb_assign = ItemNonce_assign,
     tb_zero = ItemNonce_zero, tb_scanID = scanUint64, tb_zeroID = 0\<rparr>"

definition ItemNonceQuery_build :: "query_build" where "ItemNonceQuery_build = queryBuild"

definition ItemNonceQuery_find :: "'s query_drv \<Rightarrow> ('s, ItemNonce, uint64) query_find" where "ItemNonceQuery_find drv = queryFind ItemNonce_table drv"

definition ItemNonceQuery_run :: "'s query_drv \<Rightarrow> ('s, ItemNonce, uint64) query_run" where "ItemNonceQuery_run drv = queryRun ItemNonce_table drv"

definition ItemNonceQuery_columns :: "query_columns" where "ItemNonceQuery_columns = queryColumns"

definition ItemNonceQuery_sql :: "'s query_drv \<Rightarrow> ('s, ItemNonce) query_sql" where "ItemNonceQuery_sql drv = querySql ItemNonce_table drv"

definition ItemNonceQuery_locks :: "query_locks" where "ItemNonceQuery_locks = queryLocks"

definition ItemNonceQuery_scans :: "'s query_drv \<Rightarrow> ('s, 'v) query_scans" where "ItemNonceQuery_scans drv = queryScans ItemNonce_table drv"

definition ItemNonce_By :: "string \<Rightarrow> bool \<Rightarrow> order_option option" where
  "ItemNonce_By = orderBy (ItemNonce_ID # filter (\<lambda>f. ef_type f \<noteq> TRaw) ItemNonce_schema)"

section \<open>ItemUserLock\<close>

definition ItemUserLock_table :: "(ItemUserLock, uint64) ent_table" where
  "ItemUserLock_table = \<lparr>tb_Table = ''item_user_locks'', tb_Columns = ItemUserLock_columns, tb_FieldID = ef_name ItemUserLock_ID, tb_scanValues = ItemUserLock_dest, tb_assign = ItemUserLock_assign,
     tb_zero = ItemUserLock_zero, tb_scanID = scanUint64, tb_zeroID = 0\<rparr>"

definition ItemUserLockQuery_build :: "query_build" where "ItemUserLockQuery_build = queryBuild"

definition ItemUserLockQuery_find :: "'s query_drv \<Rightarrow> ('s, ItemUserLock, uint64) query_find" where "ItemUserLockQuery_find drv = queryFind ItemUserLock_table drv"

definition ItemUserLockQuery_run :: "'s query_drv \<Rightarrow> ('s, ItemUserLock, uint64) query_run" where "ItemUserLockQuery_run drv = queryRun ItemUserLock_table drv"

definition ItemUserLockQuery_columns :: "query_columns" where "ItemUserLockQuery_columns = queryColumns"

definition ItemUserLockQuery_sql :: "'s query_drv \<Rightarrow> ('s, ItemUserLock) query_sql" where "ItemUserLockQuery_sql drv = querySql ItemUserLock_table drv"

definition ItemUserLockQuery_locks :: "query_locks" where "ItemUserLockQuery_locks = queryLocks"

definition ItemUserLockQuery_scans :: "'s query_drv \<Rightarrow> ('s, 'v) query_scans" where "ItemUserLockQuery_scans drv = queryScans ItemUserLock_table drv"

definition ItemUserLock_By :: "string \<Rightarrow> bool \<Rightarrow> order_option option" where
  "ItemUserLock_By = orderBy (ItemUserLock_ID # filter (\<lambda>f. ef_type f \<noteq> TRaw) ItemUserLock_schema)"

section \<open>PaymentOrder\<close>

definition PaymentOrder_table :: "(PaymentOrder, uint64) ent_table" where
  "PaymentOrder_table = \<lparr>tb_Table = ''payment_orders'', tb_Columns = PaymentOrder_columns, tb_FieldID = ef_name PaymentOrder_ID, tb_scanValues = PaymentOrder_dest, tb_assign = PaymentOrder_assign,
     tb_zero = PaymentOrder_zero, tb_scanID = scanUint64, tb_zeroID = 0\<rparr>"

definition PaymentOrderQuery_build :: "query_build" where "PaymentOrderQuery_build = queryBuild"

definition PaymentOrderQuery_find :: "'s query_drv \<Rightarrow> ('s, PaymentOrder, uint64) query_find" where "PaymentOrderQuery_find drv = queryFind PaymentOrder_table drv"

definition PaymentOrderQuery_run :: "'s query_drv \<Rightarrow> ('s, PaymentOrder, uint64) query_run" where "PaymentOrderQuery_run drv = queryRun PaymentOrder_table drv"

definition PaymentOrderQuery_columns :: "query_columns" where "PaymentOrderQuery_columns = queryColumns"

definition PaymentOrderQuery_sql :: "'s query_drv \<Rightarrow> ('s, PaymentOrder) query_sql" where "PaymentOrderQuery_sql drv = querySql PaymentOrder_table drv"

definition PaymentOrderQuery_locks :: "query_locks" where "PaymentOrderQuery_locks = queryLocks"

definition PaymentOrderQuery_scans :: "'s query_drv \<Rightarrow> ('s, 'v) query_scans" where "PaymentOrderQuery_scans drv = queryScans PaymentOrder_table drv"

definition PaymentOrder_By :: "string \<Rightarrow> bool \<Rightarrow> order_option option" where
  "PaymentOrder_By = orderBy (PaymentOrder_ID # filter (\<lambda>f. ef_type f \<noteq> TRaw) PaymentOrder_schema)"

section \<open>Account\<close>

definition Account_table :: "(Account, uint64) ent_table" where
  "Account_table = \<lparr>tb_Table = ''account'', tb_Columns = Account_columns, tb_FieldID = ef_name Account_ID, tb_scanValues = Account_dest, tb_assign = Account_assign,
     tb_zero = Account_zero, tb_scanID = scanUint64, tb_zeroID = 0\<rparr>"

definition AccountQuery_build :: "query_build" where "AccountQuery_build = queryBuild"

definition AccountQuery_find :: "'s query_drv \<Rightarrow> ('s, Account, uint64) query_find" where "AccountQuery_find drv = queryFind Account_table drv"

definition AccountQuery_run :: "'s query_drv \<Rightarrow> ('s, Account, uint64) query_run" where "AccountQuery_run drv = queryRun Account_table drv"

definition AccountQuery_columns :: "query_columns" where "AccountQuery_columns = queryColumns"

definition AccountQuery_sql :: "'s query_drv \<Rightarrow> ('s, Account) query_sql" where "AccountQuery_sql drv = querySql Account_table drv"

definition AccountQuery_locks :: "query_locks" where "AccountQuery_locks = queryLocks"

definition AccountQuery_scans :: "'s query_drv \<Rightarrow> ('s, 'v) query_scans" where "AccountQuery_scans drv = queryScans Account_table drv"

definition Account_By :: "string \<Rightarrow> bool \<Rightarrow> order_option option" where
  "Account_By = orderBy (Account_ID # filter (\<lambda>f. ef_type f \<noteq> TRaw) Account_schema)"

section \<open>Identity\<close>

definition Identity_table :: "(IdentityRow, uint64) ent_table" where
  "Identity_table = \<lparr>tb_Table = ''identity'', tb_Columns = Identity_columns, tb_FieldID = ef_name Identity_ID, tb_scanValues = Identity_dest, tb_assign = Identity_assign,
     tb_zero = Identity_zero, tb_scanID = scanUint64, tb_zeroID = 0\<rparr>"

definition IdentityQuery_build :: "query_build" where "IdentityQuery_build = queryBuild"

definition IdentityQuery_find :: "'s query_drv \<Rightarrow> ('s, IdentityRow, uint64) query_find" where "IdentityQuery_find drv = queryFind Identity_table drv"

definition IdentityQuery_run :: "'s query_drv \<Rightarrow> ('s, IdentityRow, uint64) query_run" where "IdentityQuery_run drv = queryRun Identity_table drv"

definition IdentityQuery_columns :: "query_columns" where "IdentityQuery_columns = queryColumns"

definition IdentityQuery_sql :: "'s query_drv \<Rightarrow> ('s, IdentityRow) query_sql" where "IdentityQuery_sql drv = querySql Identity_table drv"

definition IdentityQuery_locks :: "query_locks" where "IdentityQuery_locks = queryLocks"

definition IdentityQuery_scans :: "'s query_drv \<Rightarrow> ('s, 'v) query_scans" where "IdentityQuery_scans drv = queryScans Identity_table drv"

definition Identity_By :: "string \<Rightarrow> bool \<Rightarrow> order_option option" where
  "Identity_By = orderBy (Identity_ID # filter (\<lambda>f. ef_type f \<noteq> TRaw) Identity_schema)"

section \<open>The selectors of items\<close>

definition items_checkColumn :: "((string \<times> (string \<Rightarrow> bool)) list \<Rightarrow> string \<Rightarrow> string \<Rightarrow> bool) \<Rightarrow> string \<Rightarrow> string \<Rightarrow> bool" where
  "items_checkColumn newColumnCheck = newColumnCheck [(tb_Table Item_table, ValidColumn Item_table), (tb_Table ItemNonce_table, ValidColumn ItemNonce_table), (tb_Table ItemUserLock_table, ValidColumn ItemUserLock_table)]"

definition items_aggregates :: "((string \<times> (string \<Rightarrow> bool)) list \<Rightarrow> string \<Rightarrow> string \<Rightarrow> bool) \<Rightarrow> ent_aggregates" where
  "items_aggregates newColumnCheck = entAggregates (items_checkColumn newColumnCheck)"

definition items_order :: "((string \<times> (string \<Rightarrow> bool)) list \<Rightarrow> string \<Rightarrow> string \<Rightarrow> bool) \<Rightarrow> bool \<Rightarrow> string list \<Rightarrow> selector \<Rightarrow> selector" where
  "items_order newColumnCheck = applyOrder (items_checkColumn newColumnCheck)"

definition items_Strings :: "('s, query_error, 'v list) act \<Rightarrow> string list \<Rightarrow> ('s, 'v) select_one" where "items_Strings = selectOne"

definition items_Ints :: "('s, query_error, 'v list) act \<Rightarrow> string list \<Rightarrow> ('s, 'v) select_one" where "items_Ints = selectOne"

definition items_Float64s :: "('s, query_error, 'v list) act \<Rightarrow> string list \<Rightarrow> ('s, 'v) select_one" where "items_Float64s = selectOne"

definition items_Bools :: "('s, query_error, 'v list) act \<Rightarrow> string list \<Rightarrow> ('s, 'v) select_one" where "items_Bools = selectOne"

section \<open>The selectors of payment\<close>

definition payment_checkColumn :: "((string \<times> (string \<Rightarrow> bool)) list \<Rightarrow> string \<Rightarrow> string \<Rightarrow> bool) \<Rightarrow> string \<Rightarrow> string \<Rightarrow> bool" where
  "payment_checkColumn newColumnCheck = newColumnCheck [(tb_Table PaymentOrder_table, ValidColumn PaymentOrder_table)]"

definition payment_aggregates :: "((string \<times> (string \<Rightarrow> bool)) list \<Rightarrow> string \<Rightarrow> string \<Rightarrow> bool) \<Rightarrow> ent_aggregates" where
  "payment_aggregates newColumnCheck = entAggregates (payment_checkColumn newColumnCheck)"

definition payment_order :: "((string \<times> (string \<Rightarrow> bool)) list \<Rightarrow> string \<Rightarrow> string \<Rightarrow> bool) \<Rightarrow> bool \<Rightarrow> string list \<Rightarrow> selector \<Rightarrow> selector" where
  "payment_order newColumnCheck = applyOrder (payment_checkColumn newColumnCheck)"

definition payment_Strings :: "('s, query_error, 'v list) act \<Rightarrow> string list \<Rightarrow> ('s, 'v) select_one" where "payment_Strings = selectOne"

definition payment_Ints :: "('s, query_error, 'v list) act \<Rightarrow> string list \<Rightarrow> ('s, 'v) select_one" where "payment_Ints = selectOne"

definition payment_Float64s :: "('s, query_error, 'v list) act \<Rightarrow> string list \<Rightarrow> ('s, 'v) select_one" where "payment_Float64s = selectOne"

definition payment_Bools :: "('s, query_error, 'v list) act \<Rightarrow> string list \<Rightarrow> ('s, 'v) select_one" where "payment_Bools = selectOne"

section \<open>The selectors of login\<close>

definition login_checkColumn :: "((string \<times> (string \<Rightarrow> bool)) list \<Rightarrow> string \<Rightarrow> string \<Rightarrow> bool) \<Rightarrow> string \<Rightarrow> string \<Rightarrow> bool" where
  "login_checkColumn newColumnCheck = newColumnCheck [(tb_Table Account_table, ValidColumn Account_table), (tb_Table Identity_table, ValidColumn Identity_table)]"

definition login_aggregates :: "((string \<times> (string \<Rightarrow> bool)) list \<Rightarrow> string \<Rightarrow> string \<Rightarrow> bool) \<Rightarrow> ent_aggregates" where
  "login_aggregates newColumnCheck = entAggregates (login_checkColumn newColumnCheck)"

definition login_order :: "((string \<times> (string \<Rightarrow> bool)) list \<Rightarrow> string \<Rightarrow> string \<Rightarrow> bool) \<Rightarrow> bool \<Rightarrow> string list \<Rightarrow> selector \<Rightarrow> selector" where
  "login_order newColumnCheck = applyOrder (login_checkColumn newColumnCheck)"

definition login_Strings :: "('s, query_error, 'v list) act \<Rightarrow> string list \<Rightarrow> ('s, 'v) select_one" where "login_Strings = selectOne"

definition login_Ints :: "('s, query_error, 'v list) act \<Rightarrow> string list \<Rightarrow> ('s, 'v) select_one" where "login_Ints = selectOne"

definition login_Float64s :: "('s, query_error, 'v list) act \<Rightarrow> string list \<Rightarrow> ('s, 'v) select_one" where "login_Float64s = selectOne"

definition login_Bools :: "('s, query_error, 'v list) act \<Rightarrow> string list \<Rightarrow> ('s, 'v) select_one" where "login_Bools = selectOne"

section \<open>What a query asks for\<close>

fun optionTerms :: "order_option \<Rightarrow> order_term list" where
  "optionTerms (OrderAsc fs) = map (\<lambda>f. TermBy f False) fs"
| "optionTerms (OrderDesc fs) = map (\<lambda>f. TermBy f True) fs"
| "optionTerms (OrderTerm t) = [t]"

definition orderTerms :: "order_option list \<Rightarrow> order_term list" where
  "orderTerms os = concat (map optionTerms os)"

text \<open>The sort key of one term, for a column that is a number; \<open>expr\<close> gives the keys of expressions.\<close>

fun orderKey :: "(string \<Rightarrow> 'r \<Rightarrow> sql_value option) \<Rightarrow> (string \<Rightarrow> 'r \<Rightarrow> int \<times> int) \<Rightarrow> order_term list \<Rightarrow> 'r \<Rightarrow> int \<times> int" where
  "orderKey col expr [TermBy c desc] r = (if desc then - sqlInt (col c r) else sqlInt (col c r), 0)"
| "orderKey col expr [TermExpr e] r = expr e r"
| "orderKey col expr _ r = (0, 0)"

fun plainTerms :: "(string \<Rightarrow> 'r \<Rightarrow> sql_value option) \<Rightarrow> order_term list \<Rightarrow> bool" where
  "plainTerms col [] = True"
| "plainTerms col [TermBy c _] = (\<forall>r. isInt (col c r))"
| "plainTerms col [TermExpr _] = True"
| "plainTerms col _ = False"

text \<open>\<open>sqlgraph\<close> reads a limit of 0 as none.\<close>

definition specQuery where
  "specQuery col picks expr spec = \<lparr>predicates = map picks (qs_Predicate spec), order = orderKey col expr (orderTerms (qs_Order spec)),
     limit = (if qs_Limit spec = 0 then None else Some (nat (qs_Limit spec)))\<rparr>"

definition selectorQuery where
  "selectorQuery col picks expr sel = \<lparr>predicates = map picks (sl_predicates sel), order = orderKey col expr (sl_order sel),
     limit = map_option nat (sl_Limit sel)\<rparr>"

definition rowOf :: "(string \<Rightarrow> 'r \<Rightarrow> sql_value option) \<Rightarrow> 'r \<Rightarrow> sql_row" where "rowOf col r = (\<lambda>c. col c r)"

definition rowsOf :: "(string \<Rightarrow> 'r \<Rightarrow> sql_value option) \<Rightarrow> ('s, 'e, 'r list) act \<Rightarrow> ('s, 'e, sql_row list) act" where
  "rowsOf col m = andThen m (\<lambda>rs. ok (map (rowOf col) rs))"

text \<open>The queries the stores build, without columns, offset or duplicates removed.\<close>

definition plainQuery :: "(string \<Rightarrow> 'r \<Rightarrow> sql_value option) \<Rightarrow> entquery \<Rightarrow> bool" where
  "plainQuery col q \<longleftrightarrow> eq_Fields q = [] \<and> eq_Offset q = None \<and> eq_Unique q = None \<and> plainTerms col (orderTerms (eq_order q))"

definition limited :: "entquery \<Rightarrow> bool" where
  "limited q \<longleftrightarrow> (case eq_Limit q of None \<Rightarrow> True | Some n \<Rightarrow> 0 < n)"

definition asksFor where
  "asksFor col picks expr q = \<lparr>predicates = map picks (eq_predicates q), order = orderKey col expr (orderTerms (eq_order q)),
     limit = map_option nat (eq_Limit q)\<rparr>"

fun entErr :: "query_error \<Rightarrow> ent_error" where
  "entErr QNotFound = NotFoundError"
| "entErr QNotSingular = NotSingularError"
| "entErr (QInvalidField f) = ValidationError f"
| "entErr (QExistErr e) = entErr e"
| "entErr _ = DriverError"

text \<open>The rows that a query can return fit the types of their fields.\<close>

definition fitting :: "('s, 'r, 'id) nodes \<Rightarrow> ('r \<Rightarrow> bool) \<Rightarrow> 's \<Rightarrow> bool" where
  "fitting nd fits s \<longleftrightarrow> (\<forall>q rs t. QueryNodes nd q s = (Inr rs, t) \<longrightarrow> list_all fits rs)"

lemma applyOrder_fields [simp]:
  "sl_order (applyOrder check desc fs s) = sl_order s @ map (\<lambda>f. TermBy f desc) fs"
  "sl_Table (applyOrder check desc fs s) = sl_Table s" "sl_Columns (applyOrder check desc fs s) = sl_Columns s"
  "sl_Distinct (applyOrder check desc fs s) = sl_Distinct s" "sl_predicates (applyOrder check desc fs s) = sl_predicates s"
  "sl_Offset (applyOrder check desc fs s) = sl_Offset s" "sl_Limit (applyOrder check desc fs s) = sl_Limit s"
  "sl_GroupBy (applyOrder check desc fs s) = sl_GroupBy s"
  by (induction check desc fs s rule: applyOrder.induct) (simp_all add: addTerm_def addError_def)

lemma applyOption_fields [simp]:
  "sl_order (applyOption check x s) = sl_order s @ optionTerms x"
  "sl_Table (applyOption check x s) = sl_Table s" "sl_Columns (applyOption check x s) = sl_Columns s"
  "sl_Distinct (applyOption check x s) = sl_Distinct s" "sl_predicates (applyOption check x s) = sl_predicates s"
  "sl_Offset (applyOption check x s) = sl_Offset s" "sl_Limit (applyOption check x s) = sl_Limit s"
  "sl_GroupBy (applyOption check x s) = sl_GroupBy s"
  by (cases x; simp add: addTerm_def)+

lemma fold_option_fields [simp]:
  "sl_order (fold (applyOption check) os s) = sl_order s @ orderTerms os"
  "sl_Table (fold (applyOption check) os s) = sl_Table s" "sl_Columns (fold (applyOption check) os s) = sl_Columns s"
  "sl_Distinct (fold (applyOption check) os s) = sl_Distinct s" "sl_predicates (fold (applyOption check) os s) = sl_predicates s"
  "sl_Offset (fold (applyOption check) os s) = sl_Offset s" "sl_Limit (fold (applyOption check) os s) = sl_Limit s"
  "sl_GroupBy (fold (applyOption check) os s) = sl_GroupBy s"
  by (induction os arbitrary: s) (simp_all add: orderTerms_def)

lemma mapErr_andThen: "mapErr g (andThen m f) s = andThen (mapErr g m) (\<lambda>x. mapErr g (f x)) s"
  by (auto simp: mapErr_def andThen_def split: prod.splits sum.splits)

lemma andThen_cong: "m s = m' s \<Longrightarrow> (\<And>x t. m' s = (Inr x, t) \<Longrightarrow> f x t = f' x t) \<Longrightarrow> andThen m f s = andThen m' f' s"
  by (auto simp: andThen_def split: prod.splits sum.splits)

lemma asksFor_Limit: "0 \<le> n \<Longrightarrow> asksFor col picks expr (qLimit n q) = Limit (nat n) (asksFor col picks expr q)"
  by (simp add: asksFor_def qLimit_def Limit_def)

lemma plain_Limit [simp]: "plainQuery col (qLimit n q) = plainQuery col q" "limited (qLimit n q) = (0 < n)"
  by (simp_all add: plainQuery_def limited_def qLimit_def)

section \<open>The driver\<close>

text \<open>
  What the generated queries rely on, for one table: rows that fit are read back, and \<open>sqlgraph\<close> and the driver answer a
  specification or a selector with the columns of the rows that \<open>nd\<close>, the table of theory Ent, gives for it.
\<close>

locale query_backend = sql_selection same col picks
  for same :: "string \<Rightarrow> string \<Rightarrow> bool" and col :: "string \<Rightarrow> 'r \<Rightarrow> sql_value option" and picks :: "pred \<Rightarrow> 'r \<Rightarrow> bool" +
  fixes tb :: "('r, 'id) ent_table"
    and fits :: "'r \<Rightarrow> bool"
    and expr :: "string \<Rightarrow> 'r \<Rightarrow> int \<times> int"
    and nd :: "('s, 'r, 'id) nodes"
    and drv :: "'s query_drv"
  assumes load: "fits r \<Longrightarrow> loadRow (tb_scanValues tb) (tb_assign tb) (tb_zero tb) col (tb_Columns tb) r = Inr r"
    and scan_id: "fits r \<Longrightarrow> tb_scanID tb (col (tb_FieldID tb) r) \<noteq> None"
    and id_column: "ValidColumn tb (tb_FieldID tb)"
    and query_law: "qs_Table spec = tb_Table tb \<Longrightarrow> \<not> qs_Unique spec \<Longrightarrow> qs_Offset spec = 0 \<Longrightarrow> 0 \<le> qs_Limit spec \<Longrightarrow>
      plainTerms col (orderTerms (qs_Order spec)) \<Longrightarrow> drv_QueryNodes drv spec = rowsOf col (QueryNodes nd (specQuery col picks expr spec))"
    and count_law: "qs_Table spec = tb_Table tb \<Longrightarrow> \<not> qs_Unique spec \<Longrightarrow> qs_Offset spec = 0 \<Longrightarrow> qs_Limit spec = 0 \<Longrightarrow>
      plainTerms col (orderTerms (qs_Order spec)) \<Longrightarrow> drv_CountNodes drv spec = CountNodes nd (specQuery col picks expr spec)"
    and select_law: "sl_Table sel = tb_Table tb \<Longrightarrow> \<not> sl_Distinct sel \<Longrightarrow> sl_Offset sel = None \<Longrightarrow> sl_GroupBy sel = [] \<Longrightarrow>
      plainTerms col (sl_order sel) \<Longrightarrow> drv_Query drv sel = rowsOf col (QueryNodes nd (selectorQuery col picks expr sel))"
begin

lemma assignRows_rowOf:
  "list_all fits rs \<Longrightarrow> assignRows tb (tb_Columns tb) (map (rowOf col) rs) = Inr rs"
proof (induction rs)
  case (Cons r rs)
  then have "loadRow (tb_scanValues tb) (tb_assign tb) (tb_zero tb) col (tb_Columns tb) r = Inr r" by (simp add: load)
  with Cons show ?case by (auto simp: loadRow_def rowOf_def split: sum.splits)
qed simp

lemma scanSlice_rowOf:
  "list_all fits rs \<Longrightarrow> \<exists>is. scanSlice (tb_scanID tb) [SelColumn (tb_FieldID tb)] (map (rowOf col) rs) = Some is \<and> length is = length rs"
proof (induction rs)
  case (Cons r rs)
  then have "tb_scanID tb (col (tb_FieldID tb) r) \<noteq> None" by (simp add: scan_id)
  with Cons show ?case by (auto simp: rowOf_def)
qed simp

lemma All_refines:
  assumes "plainQuery col q" and "limited q" and "fitting nd fits s"
  shows "mapErr entErr (qAll tb drv [] q) s = All nd (asksFor col picks expr q) s"
proof -
  let ?spec = "(querySpec tb q)\<lparr>qs_Modifiers := eq_modifiers q\<rparr>"
  have spec: "specQuery col picks expr ?spec = asksFor col picks expr q"
    using assms(2) by (auto simp: specQuery_def asksFor_def querySpec_def limited_def split: option.splits)
  have "drv_QueryNodes drv ?spec = rowsOf col (QueryNodes nd (asksFor col picks expr q))"
    unfolding spec [symmetric] using assms(1,2) by (intro query_law) (auto simp: querySpec_def plainQuery_def limited_def split: option.splits)
  moreover have "assignRows tb (tb_Columns tb) (map (rowOf col) rs) = Inr rs"
    if "QueryNodes nd (asksFor col picks expr q) s = (Inr rs, t)" for rs t
    using that assms(3) by (intro assignRows_rowOf) (auto simp: fitting_def)
  ultimately show ?thesis
    using assms(1)
    by (cases "QueryNodes nd (asksFor col picks expr q) s"; cases "fst (QueryNodes nd (asksFor col picks expr q) s)")
       (simp_all add: qAll_def prepared_def prepareQuery_def plainQuery_def sqlAll_def Let_def querySpec_def All_def rowsOf_def
         mapErr_def andThen_def ok_def fail_def ofSum_def)
qed

lemma First_refines:
  assumes "plainQuery col q" and "fitting nd fits s"
  shows "mapErr entErr (qFirst tb drv [] q) s = First nd (asksFor col picks expr q) s"
  unfolding qFirst_def First_def mapErr_andThen
  using All_refines [of "qLimit 1 q" s] assms
  by (intro andThen_cong) (simp_all add: asksFor_Limit pickFirst_def mapErr_def ok_def fail_def split: list.splits)

lemma Only_refines:
  assumes "plainQuery col q" and "fitting nd fits s"
  shows "mapErr entErr (qOnly tb drv [] q) s = Only nd (asksFor col picks expr q) s"
  unfolding qOnly_def Only_def mapErr_andThen
  using All_refines [of "qLimit 2 q" s] assms
  by (intro andThen_cong) (simp_all add: asksFor_Limit pickOnly_def mapErr_def ok_def fail_def split: list.splits)

lemma Count_refines:
  assumes "plainQuery col q" and "eq_Limit q = None"
  shows "mapErr entErr (qCount tb drv [] q) s = CountQ nd (asksFor col picks expr q) s"
proof -
  let ?spec = "(querySpec tb q)\<lparr>qs_Modifiers := eq_modifiers q, qs_Columns := eq_Fields q, qs_Unique := False\<rparr>"
  have spec: "specQuery col picks expr ?spec = asksFor col picks expr q"
    using assms(2) by (simp add: specQuery_def asksFor_def querySpec_def)
  have "drv_CountNodes drv ?spec = CountNodes nd (asksFor col picks expr q)"
    unfolding spec [symmetric] using assms by (intro count_law) (auto simp: querySpec_def plainQuery_def)
  then show ?thesis
    using assms(1)
    by (cases "CountNodes nd (asksFor col picks expr q) s")
       (auto simp: qCount_def prepared_def prepareQuery_def plainQuery_def sqlCount_def Let_def CountQ_def querySpec_def
         mapErr_def andThen_def ok_def ofSum_def split: sum.splits)
qed

lemma IDs_one:
  assumes "plainQuery col q" and "fitting nd fits s"
  shows "case qFirstID tb drv [] q s of
      (Inl e, t) \<Rightarrow> First nd (asksFor col picks expr q) s = (Inl (entErr e), t) \<and> (QIsNotFound e \<longleftrightarrow> IsNotFound (entErr e))
    | (Inr i, t) \<Rightarrow> \<exists>r. First nd (asksFor col picks expr q) s = (Inr r, t)"
proof -
  let ?q = "qSelect [tb_FieldID tb] (qLimit 1 q)" and ?a = "Limit 1 (asksFor col picks expr q)"
  let ?sel = "sqlQuery tb ?q"
  have fields: "sl_Columns ?sel = [SelColumn (tb_FieldID tb)]" "eq_Fields ?q = [tb_FieldID tb]"
    using assms(1) by (simp_all add: sqlQuery_def plainQuery_def qSelect_def qLimit_def)
  have "selectorQuery col picks expr ?sel = ?a"
    by (simp add: selectorQuery_def sqlQuery_def qSelect_def qLimit_def Limit_def asksFor_def)
  moreover have "drv_Query drv ?sel = rowsOf col (QueryNodes nd (selectorQuery col picks expr ?sel))"
    using assms(1) by (intro select_law) (auto simp: sqlQuery_def qSelect_def qLimit_def plainQuery_def)
  ultimately have drv: "drv_Query drv ?sel = rowsOf col (QueryNodes nd ?a)" by simp
  show ?thesis
  proof (cases "QueryNodes nd ?a s")
    case (Pair res t)
    show ?thesis
    proof (cases res)
      case (Inl e)
      with Pair drv fields id_column show ?thesis
        by (simp add: qFirstID_def qIDs_def selectScan_def selectSqlScan_def runSelector_def prepared_def prepareQuery_def First_def All_def
          rowsOf_def mapErr_def andThen_def ok_def fail_def ofSum_def IsNotFound_def)
    next
      case (Inr rs)
      with Pair assms(2) have "list_all fits rs" by (auto simp: fitting_def)
      from scanSlice_rowOf [OF this] obtain ids where "scanSlice (tb_scanID tb) [SelColumn (tb_FieldID tb)] (map (rowOf col) rs) = Some ids"
        and "length ids = length rs" by blast
      with Pair Inr drv fields id_column show ?thesis
        by (cases rs; cases ids) (simp_all add: qFirstID_def qIDs_def selectScan_def selectSqlScan_def runSelector_def prepared_def prepareQuery_def
          First_def All_def rowsOf_def mapErr_def andThen_def ok_def fail_def ofSum_def IsNotFound_def pickFirst_def)
    qed
  qed
qed

lemma Exist_refines:
  assumes "plainQuery col q" and "fitting nd fits s"
  shows "mapErr entErr (qExist tb drv [] q) s = Exist nd (asksFor col picks expr q) s"
  using IDs_one [OF assms]
  by (auto simp: qExist_def Exist_def mapErr_def andThen_def attempt_def ok_def fail_def split: prod.splits sum.splits)

end

section \<open>Rows of a table\<close>

text \<open>The driver that answers with the columns of the rows of a table.\<close>

definition rowDriver ::
  "(string \<Rightarrow> 'r \<Rightarrow> sql_value option) \<Rightarrow> (pred \<Rightarrow> 'r \<Rightarrow> bool) \<Rightarrow> (string \<Rightarrow> 'r \<Rightarrow> int \<times> int) \<Rightarrow> ('s, 'r, 'id) nodes \<Rightarrow> 's query_drv" where
  "rowDriver col picks expr nd = \<lparr>drv_Dialect = MySQL,
     drv_QueryNodes = (\<lambda>spec. rowsOf col (QueryNodes nd (specQuery col picks expr spec))),
     drv_CountNodes = (\<lambda>spec. CountNodes nd (specQuery col picks expr spec)),
     drv_Query = (\<lambda>sel. rowsOf col (QueryNodes nd (selectorQuery col picks expr sel)))\<rparr>"

lemma rowDriver_backend:
  assumes "\<And>r. fits r \<Longrightarrow> loadRow (tb_scanValues tb) (tb_assign tb) (tb_zero tb) col (tb_Columns tb) r = Inr r"
    and "\<And>r. fits r \<Longrightarrow> tb_scanID tb (col (tb_FieldID tb) r) \<noteq> None"
    and "ValidColumn tb (tb_FieldID tb)"
  shows "query_backend (coll EQ) col (selectsRow coll col) tb fits expr nd (rowDriver col (selectsRow coll col) expr nd)"
  using assms by unfold_locales (simp_all add: rowDriver_def)

lemma fits_scan [simp]: "fits64 i \<Longrightarrow> scanInt64 (Some (SInt i)) = Some i" "fitsId n \<Longrightarrow> scanUint64 (Some (SInt (int n))) = Some n"
  by (simp_all add: scanInt64_def scanUint64_def fitsId_def)

interpretation item_rows: query_backend "coll EQ" Item_sql "selectsRow coll Item_sql" Item_table Item_fits expr nd
    "rowDriver Item_sql (selectsRow coll Item_sql) expr nd" for coll expr nd
  by (rule rowDriver_backend) (simp_all add: Item_table_def Item_load, simp_all add: Item_sql_def Item_fits_def Item_columns_def ValidColumn_def)

interpretation nonce_rows: query_backend "coll EQ" ItemNonce_sql "selectsRow coll ItemNonce_sql" ItemNonce_table ItemNonce_fits expr nd
    "rowDriver ItemNonce_sql (selectsRow coll ItemNonce_sql) expr nd" for coll expr nd
  by (rule rowDriver_backend) (simp_all add: ItemNonce_table_def ItemNonce_load, simp_all add: ItemNonce_sql_def ItemNonce_fits_def ItemNonce_columns_def ValidColumn_def)

interpretation lock_rows: query_backend "coll EQ" ItemUserLock_sql "selectsRow coll ItemUserLock_sql" ItemUserLock_table ItemUserLock_fits expr nd
    "rowDriver ItemUserLock_sql (selectsRow coll ItemUserLock_sql) expr nd" for coll expr nd
  by (rule rowDriver_backend) (simp_all add: ItemUserLock_table_def ItemUserLock_load, simp_all add: ItemUserLock_sql_def ItemUserLock_fits_def ItemUserLock_columns_def ValidColumn_def)

interpretation order_rows: query_backend "coll EQ" PaymentOrder_sql "selectsRow coll PaymentOrder_sql" PaymentOrder_table PaymentOrder_fits expr nd
    "rowDriver PaymentOrder_sql (selectsRow coll PaymentOrder_sql) expr nd" for coll expr nd
  by (rule rowDriver_backend) (simp_all add: PaymentOrder_table_def PaymentOrder_load, simp_all add: PaymentOrder_sql_def PaymentOrder_fits_def PaymentOrder_columns_def ValidColumn_def)

interpretation account_rows: query_backend "coll EQ" Account_sql "selectsRow coll Account_sql" Account_table Account_fits expr nd
    "rowDriver Account_sql (selectsRow coll Account_sql) expr nd" for coll expr nd
  by (rule rowDriver_backend) (simp_all add: Account_table_def Account_load, simp_all add: Account_sql_def Account_fits_def Account_columns_def ValidColumn_def)

interpretation identity_rows: query_backend "coll EQ" Identity_sql "selectsRow coll Identity_sql" Identity_table Identity_fits expr nd
    "rowDriver Identity_sql (selectsRow coll Identity_sql) expr nd" for coll expr nd
  by (rule rowDriver_backend) (simp_all add: Identity_table_def Identity_load, simp_all add: Identity_sql_def Identity_fits_def Identity_columns_def ValidColumn_def)

section \<open>The queries of the stores\<close>

definition pendingQuery :: "uint64 \<Rightarrow> int \<Rightarrow> int \<Rightarrow> entquery" where
  "pendingQuery uid paymentType productId = qOrder [OrderDesc [''id'']] (qWhere [cond PaymentOrder_UID_where EQ (VUint64 uid),
     cond PaymentOrder_PaymentType_where EQ (VNamed ''PaymentType'' paymentType), cond PaymentOrder_ProductID_where EQ (VInt32 productId),
     statusIs OrderStatusPending] newQuery)"

definition expiredQuery :: "int \<Rightarrow> int \<Rightarrow> entquery" where
  "expiredQuery expiredAtUnix lim = qLimit lim (qOrder [OrderAsc [''id'']] (qWhere (expiredWhere expiredAtUnix) newQuery))"

definition expireExpr :: string where
  "expireExpr = ''(`expire_at_unix` = 0) ASC, `expire_at_unix` ASC''"

definition unexpiredQuery :: "uint64 \<Rightarrow> int \<Rightarrow> int \<Rightarrow> entquery" where
  "unexpiredQuery uid itemTypeId now = qOrder [OrderTerm (TermExpr expireExpr)] (qWhere [Item_is ''uid'' (VUint64 uid),
     cond Item_ItemID_where EQ (VInt32 itemTypeId), cond Item_ExpireAtUnix_where GT (VInt64 now)] newQuery)"

definition lockedAccountQuery :: "dialect \<Rightarrow> uint64 \<Rightarrow> entquery" where
  "lockedAccountQuery d uid = qForUpdate d [] (qWhere [cond Account_ID_where EQ (VUint64 uid)] newQuery)"

lemmas build_defs = qWhere_def qOrder_def qLimit_def newQuery_def plainQuery_def orderTerms_def asksFor_def Where_def Query_def Order_def Limit_def

lemma order_queries:
  assumes "sql_selection (=) PaymentOrder_sql picks"
  shows "plainQuery PaymentOrder_sql (pendingQuery uid pt pid)"
    and "asksFor PaymentOrder_sql picks expr (pendingQuery uid pt pid)
       = Order DescID (Where [OrderUIDEQ uid, PaymentTypeEQ pt, ProductIDEQ pid, StatusEQ OrderStatusPending] Query)"
    and "plainQuery PaymentOrder_sql (expiredQuery now lim)"
    and "0 \<le> lim \<Longrightarrow> asksFor PaymentOrder_sql picks expr (expiredQuery now lim)
       = Limit (nat lim) (Order AscID (Where [StatusEQ OrderStatusPending, CreateAtUnixLTE now] Query))"
  using order_conditions [OF assms]
  by (auto simp: pendingQuery_def expiredQuery_def expiredWhere_def build_defs fun_eq_iff DescID_def AscID_def PaymentOrder_sql_def PaymentOrder_ID_def)

lemma item_queries:
  assumes "sql_selection (=) Item_sql picks" and "expr expireExpr = expireOrder"
  shows "plainQuery Item_sql (unexpiredQuery uid t now)"
    and "asksFor Item_sql picks expr (unexpiredQuery uid t now)
       = Order expireOrder (Where [ItemUIDEQ uid, ItemIDEQ t, ExpireAtUnixGT now] Query)"
  using item_conditions [OF assms(1)] assms(2) by (auto simp: unexpiredQuery_def build_defs fun_eq_iff)

lemma account_queries:
  assumes "sql_selection (=) Account_sql picks"
  shows "plainQuery Account_sql (lockedAccountQuery MySQL uid)"
    and "asksFor Account_sql picks expr (lockedAccountQuery MySQL uid) = Where [AccountIDEQ uid] Query"
  using account_conditions [OF assms] by (auto simp: lockedAccountQuery_def qForUpdate_def lockRows_def build_defs fun_eq_iff)

text \<open>
  C35: The queries of the stores do what their models say. On a driver that answers with the columns of the rows its
  conditions select, the generated \<open>First\<close>, \<open>All\<close> and \<open>Only\<close> of the queries that the stores build for a pending order, expired
  orders, unexpired items and a locked account return the same entities, leave the same state and fail with the same class of error as the operations the stores
  are modelled on, and so do \<open>Exist\<close>, which asks for an id only, and \<open>Count\<close>.
\<close>

theorem store_queries_refine:
  assumes o: "query_backend (=) PaymentOrder_sql opicks PaymentOrder_table PaymentOrder_fits oexpr ond odrv" and fo: "fitting ond PaymentOrder_fits s"
    and i: "query_backend (=) Item_sql ipicks Item_table Item_fits iexpr ind idrv" and fi: "fitting ind Item_fits u" and e: "iexpr expireExpr = expireOrder"
    and a: "query_backend (=) Account_sql apicks Account_table Account_fits aexpr andd adrv" and fa: "fitting andd Account_fits v"
    and lim: "0 < lim"
  shows "mapErr entErr (qf_First (PaymentOrderQuery_find odrv) [] (pendingQuery uid pt pid)) s
       = First ond (Order DescID (Where [OrderUIDEQ uid, PaymentTypeEQ pt, ProductIDEQ pid, StatusEQ OrderStatusPending] Query)) s
    \<and> mapErr entErr (qr_All (PaymentOrderQuery_run odrv) [] (expiredQuery now lim)) s
       = All ond (Limit (nat lim) (Order AscID (Where [StatusEQ OrderStatusPending, CreateAtUnixLTE now] Query))) s
    \<and> mapErr entErr (qr_All (ItemQuery_run idrv) [] (unexpiredQuery uid t now)) u
       = All ind (Order expireOrder (Where [ItemUIDEQ uid, ItemIDEQ t, ExpireAtUnixGT now] Query)) u
    \<and> mapErr entErr (qf_Only (AccountQuery_find adrv) [] (lockedAccountQuery MySQL uid)) v = Only andd (Where [AccountIDEQ uid] Query) v
    \<and> mapErr entErr (qr_Exist (AccountQuery_run adrv) [] (lockedAccountQuery MySQL uid)) v = Exist andd (Where [AccountIDEQ uid] Query) v
    \<and> mapErr entErr (qr_Count (AccountQuery_run adrv) [] (lockedAccountQuery MySQL uid)) v = CountQ andd (Where [AccountIDEQ uid] Query) v"
proof -
  note oq = order_queries [OF query_backend.axioms(1) [OF o]]
    and iq = item_queries [of _ iexpr, OF query_backend.axioms(1) [OF i] e]
    and aq = account_queries [OF query_backend.axioms(1) [OF a]]
  have l: "limited (expiredQuery now lim)" "limited (unexpiredQuery uid t now)" "eq_Limit (lockedAccountQuery MySQL uid) = None"
    using lim by (simp_all add: limited_def expiredQuery_def unexpiredQuery_def lockedAccountQuery_def qForUpdate_def lockRows_def build_defs)
  show ?thesis
    using query_backend.First_refines [OF o oq(1) fo, of uid pt pid] query_backend.All_refines [OF o oq(3) l(1) fo]
      query_backend.All_refines [OF i iq(1) l(2) fi] query_backend.Only_refines [OF a aq(1) fa] query_backend.Exist_refines [OF a aq(1) fa]
      query_backend.Count_refines [OF a aq(1) l(3)] lim
    by (simp add: oq iq aq PaymentOrderQuery_find_def PaymentOrderQuery_run_def ItemQuery_run_def AccountQuery_find_def AccountQuery_run_def
      queryFind_def queryRun_def)
qed

text \<open>Two orders of a player that wait for payment, one of them sent back.\<close>

definition twoOrders :: "PaymentOrder list" where "twoOrders = [openOrder, openOrder\<lparr>po_ID := 9\<rparr>]"

definition listNodes :: "('r \<Rightarrow> 'id) \<Rightarrow> ('id \<Rightarrow> 'r \<Rightarrow> 'r) \<Rightarrow> ('r list \<Rightarrow> 'id) \<Rightarrow> ('r list, 'r, 'id) nodes" where
  "listNodes key setkey fresh = mem_nodes id (\<lambda>xs _. xs) key setkey noIndex fresh"

definition orderNodes :: "(PaymentOrder list, PaymentOrder, uint64) nodes" where
  "orderNodes = listNodes po_ID setOrderID (freshNat po_ID)"

definition itemNodes :: "(Item list, Item, int) nodes" where
  "itemNodes = listNodes it_ID (\<lambda>i r. r\<lparr>it_ID := i\<rparr>) (\<lambda>rs. int (length rs))"

definition accountNodes :: "(Account list, Account, uint64) nodes" where
  "accountNodes = listNodes ac_ID (\<lambda>i r. r\<lparr>ac_ID := i\<rparr>) (freshNat ac_ID)"

definition noExpr :: "string \<Rightarrow> 'r \<Rightarrow> int \<times> int" where "noExpr _ _ = (0, 0)"

definition plainEq :: collation where "plainEq = (\<lambda>_. (=))"

lemma fitting_listNodes: "list_all fits xs \<Longrightarrow> fitting (listNodes key setkey fresh) fits xs"
  by (auto simp: fitting_def listNodes_def mem_nodes_def Let_def list_all_iff split: option.splits dest: in_set_takeD)

lemma First_twoOrders:
  "fst (First orderNodes (Order DescID (Where [OrderUIDEQ 3, PaymentTypeEQ 2, ProductIDEQ 1, StatusEQ OrderStatusPending] Query)) twoOrders)
     = Inr (openOrder\<lparr>po_ID := 9\<rparr>)"
  by (simp add: First_def All_def orderNodes_def listNodes_def mem_nodes_def twoOrders_def openOrder_def andThen_def mapErr_def ok_def
    Where_def Query_def Order_def Limit_def matches_def OrderUIDEQ_def PaymentTypeEQ_def ProductIDEQ_def StatusEQ_def OrderStatusPending_def DescID_def)

theorem store_queries_refine_witness:
  "fst (mapErr entErr (qf_First (PaymentOrderQuery_find (rowDriver PaymentOrder_sql (selectsRow plainEq PaymentOrder_sql) noExpr orderNodes)) []
     (pendingQuery 3 2 1)) twoOrders) = Inr (openOrder\<lparr>po_ID := 9\<rparr>)"
proof -
  have f: "fitting orderNodes PaymentOrder_fits twoOrders" "fitting itemNodes Item_fits []" "fitting accountNodes Account_fits []"
    unfolding orderNodes_def itemNodes_def accountNodes_def
    by (rule fitting_listNodes; simp add: twoOrders_def PaymentOrder_fits_def openOrder_def fitsId_def fits32_def fits64_def)+
  have b: "query_backend (=) PaymentOrder_sql (selectsRow plainEq PaymentOrder_sql) PaymentOrder_table PaymentOrder_fits noExpr orderNodes
      (rowDriver PaymentOrder_sql (selectsRow plainEq PaymentOrder_sql) noExpr orderNodes)"
    "query_backend (=) Item_sql (selectsRow plainEq Item_sql) Item_table Item_fits (\<lambda>_. expireOrder) itemNodes
      (rowDriver Item_sql (selectsRow plainEq Item_sql) (\<lambda>_. expireOrder) itemNodes)"
    "query_backend (=) Account_sql (selectsRow plainEq Account_sql) Account_table Account_fits noExpr accountNodes
      (rowDriver Account_sql (selectsRow plainEq Account_sql) noExpr accountNodes)"
    using order_rows.query_backend_axioms [of plainEq] item_rows.query_backend_axioms [of plainEq] account_rows.query_backend_axioms [of plainEq]
    by (simp_all add: plainEq_def)
  from store_queries_refine [OF b(1) f(1) b(2) f(2) refl b(3) f(3), of 1 3 2 1] First_twoOrders show ?thesis by simp
qed

end
