(* ===== verification/EntClient.thy ===== *)
theory EntClient
  imports EntQuery
begin

text \<open>
  The clients of ent, \<open>ent/client.go\<close>, with what their builders run through: the hooks of \<open>ent/hook/hook.go\<close> and \<open>withHooks\<close>, the
  transactions of \<open>ent/tx.go\<close> and the delete builders of \<open>ent/*_delete.go\<close>. An operation of a builder changes its mutation,
  so it is an action on the mutation and the world. A value that a hook
  returns is \<open>None\<close> when it has another type than the builder expects. The files of the three modules are the same up to
  their tables. Shown: hooks of a chain run in the order of the chain, like hooks that are registered one by one; a rejected operation
  reaches nothing behind it; \<open>Get\<close> and the deletions are the operations of theory Ent; a transaction cannot be nested,
  unless through a debug client.
\<close>

section \<open>Hooks\<close>

datatype 'e hook_error =
    ExecError 'e
  | UninitializedHook
  | UnexpectedNode
  | UnexpectedMutation string
  | OpNotAllowed "ent_op list"

type_synonym ('s, 'e, 'id, 'r, 'v) mutator = "('id, 'r) mutation \<Rightarrow> (('id, 'r) mutation \<times> 's, 'e hook_error, 'v option) act"

type_synonym ('s, 'e, 'id, 'r, 'v) ent_hook = "('s, 'e, 'id, 'r, 'v) mutator \<Rightarrow> ('s, 'e, 'id, 'r, 'v) mutator"

type_synonym ('id, 'r) condition = "('id, 'r) mutation \<Rightarrow> bool"

text \<open>The adapter of a function on the mutations of one type, named \<open>expected\<close>.\<close>

definition mutateFunc :: "string \<Rightarrow> ('s, 'e, 'id, 'r, 'v) mutator \<Rightarrow> ('s, 'e, 'id, 'r, 'v) mutator" where
  "mutateFunc expected f m = (if mu_typ m = expected then f m else fail (UnexpectedMutation (mu_typ m)))"

definition condAnd :: "('id, 'r) condition \<Rightarrow> ('id, 'r) condition \<Rightarrow> ('id, 'r) condition list \<Rightarrow> ('id, 'r) condition" where
  "condAnd first second rest m = (if \<not> first m \<or> \<not> second m then False else list_all (\<lambda>c. c m) rest)"

definition condOr :: "('id, 'r) condition \<Rightarrow> ('id, 'r) condition \<Rightarrow> ('id, 'r) condition list \<Rightarrow> ('id, 'r) condition" where
  "condOr first second rest m = (if first m \<or> second m then True else list_ex (\<lambda>c. c m) rest)"

definition condNot :: "('id, 'r) condition \<Rightarrow> ('id, 'r) condition" where "condNot c m = (\<not> c m)"

text \<open>An argument \<open>ent.OpCreate | ent.OpUpdate\<close> is the list of the two.\<close>

definition HasOp :: "ent_op list \<Rightarrow> ('id, 'r) condition" where "HasOp ops m = (mu_op m \<in> set ops)"

definition HasAddedFields :: "ent_field list \<Rightarrow> string \<Rightarrow> string list \<Rightarrow> ('id, 'r) condition" where
  "HasAddedFields schema name names m = list_all (\<lambda>n. AddedField schema n m \<noteq> None) (name # names)"

definition HasClearedFields :: "string \<Rightarrow> string list \<Rightarrow> ('id, 'r) condition" where
  "HasClearedFields name names m = list_all (\<lambda>n. FieldCleared n m) (name # names)"

definition HasFields :: "ent_field list \<Rightarrow> string \<Rightarrow> string list \<Rightarrow> ('id, 'r) condition" where
  "HasFields schema name names m = list_all (\<lambda>n. Field schema n m \<noteq> None) (name # names)"

definition hookIf :: "('s, 'e, 'id, 'r, 'v) ent_hook \<Rightarrow> ('id, 'r) condition \<Rightarrow> ('s, 'e, 'id, 'r, 'v) ent_hook" where
  "hookIf hk c nxt m = (if c m then hk nxt m else nxt m)"

definition hookOn :: "('s, 'e, 'id, 'r, 'v) ent_hook \<Rightarrow> ent_op list \<Rightarrow> ('s, 'e, 'id, 'r, 'v) ent_hook" where "hookOn hk ops = hookIf hk (HasOp ops)"

definition hookUnless :: "('s, 'e, 'id, 'r, 'v) ent_hook \<Rightarrow> ent_op list \<Rightarrow> ('s, 'e, 'id, 'r, 'v) ent_hook" where
  "hookUnless hk ops = hookIf hk (condNot (HasOp ops))"

definition FixedError :: "'e hook_error \<Rightarrow> ('s, 'e, 'id, 'r, 'v) ent_hook" where "FixedError err nxt m = fail err"

definition Reject :: "ent_op list \<Rightarrow> ('s, 'e, 'id, 'r, 'v) ent_hook" where "Reject ops = hookOn (FixedError (OpNotAllowed ops)) ops"

type_synonym ('s, 'e, 'id, 'r, 'v) hook_chain = "('s, 'e, 'id, 'r, 'v) ent_hook list"

definition chainHook :: "('s, 'e, 'id, 'r, 'v) hook_chain \<Rightarrow> ('s, 'e, 'id, 'r, 'v) ent_hook" where
  "chainHook hooks mut = foldr (\<lambda>hk mu. hk mu) hooks mut"

definition chainAppend :: "('s, 'e, 'id, 'r, 'v) ent_hook list \<Rightarrow> ('s, 'e, 'id, 'r, 'v) hook_chain \<Rightarrow> ('s, 'e, 'id, 'r, 'v) hook_chain" where
  "chainAppend hooks chain = chain @ hooks"

definition chainExtend :: "('s, 'e, 'id, 'r, 'v) hook_chain \<Rightarrow> ('s, 'e, 'id, 'r, 'v) hook_chain \<Rightarrow> ('s, 'e, 'id, 'r, 'v) hook_chain" where
  "chainExtend chain2 chain = chainAppend chain2 chain"

text \<open>\<open>withHooks\<close>: the operation behind the hooks of a client; \<open>None\<close> is a nil hook.\<close>

fun wrapHooks :: "('s, 'e, 'id, 'r, 'v) ent_hook option list \<Rightarrow> ('s, 'e, 'id, 'r, 'v) mutator \<Rightarrow> ('s, 'e, 'id, 'r, 'v) mutator option" where
  "wrapHooks [] mut = Some mut"
| "wrapHooks (hk # hks) mut = (case wrapHooks hks mut of None \<Rightarrow> None | Some inner \<Rightarrow> map_option (\<lambda>f. f inner) hk)"

definition baseMutator :: "(('id, 'r) mutation \<times> 's, 'e, 'v) act \<Rightarrow> ('s, 'e, 'id, 'r, 'v) mutator" where
  "baseMutator exec m' = (\<lambda>(m, s). andThen (mapErr ExecError exec) (\<lambda>v. ok (Some v)) (m', s))"

definition withHooks ::
  "(('id, 'r) mutation \<times> 's, 'e, 'v) act \<Rightarrow> ('s, 'e, 'id, 'r, 'v) ent_hook option list \<Rightarrow> (('id, 'r) mutation \<times> 's, 'e hook_error, 'v) act" where
  "withHooks exec hooks = (\<lambda>(m, s).
     if hooks = [] then mapErr ExecError exec (m, s)
     else case wrapHooks hooks (baseMutator exec) of
       None \<Rightarrow> (Inl UninitializedHook, m, s)
     | Some mut \<Rightarrow> andThen (mut m) (\<lambda>v. case v of None \<Rightarrow> fail UnexpectedNode | Some x \<Rightarrow> ok x) (m, s))"

section \<open>Transactions\<close>

type_synonym ('s, 'e) committer = "('s, 'e, unit) act"

record ('s, 'e) txDriver =
  td_Commit :: "('s, 'e) committer"
  td_Rollback :: "('s, 'e) committer"
  td_onCommit :: "(('s, 'e) committer \<Rightarrow> ('s, 'e) committer) list"
  td_onRollback :: "(('s, 'e) committer \<Rightarrow> ('s, 'e) committer) list"

definition newTx :: "('s, 'e) committer \<Rightarrow> ('s, 'e) committer \<Rightarrow> ('s, 'e) txDriver" where
  "newTx c r = \<lparr>td_Commit = c, td_Rollback = r, td_onCommit = [], td_onRollback = []\<rparr>"

definition txCommit :: "('s, 'e) txDriver \<Rightarrow> ('s, 'e) committer" where
  "txCommit d = foldr (\<lambda>hk fn. hk fn) (td_onCommit d) (td_Commit d)"

definition onCommit :: "(('s, 'e) committer \<Rightarrow> ('s, 'e) committer) \<Rightarrow> ('s, 'e) txDriver \<Rightarrow> ('s, 'e) txDriver" where
  "onCommit f d = d\<lparr>td_onCommit := td_onCommit d @ [f]\<rparr>"

definition txRollback :: "('s, 'e) txDriver \<Rightarrow> ('s, 'e) committer" where
  "txRollback d = foldr (\<lambda>hk fn. hk fn) (td_onRollback d) (td_Rollback d)"

definition onRollback :: "(('s, 'e) committer \<Rightarrow> ('s, 'e) committer) \<Rightarrow> ('s, 'e) txDriver \<Rightarrow> ('s, 'e) txDriver" where
  "onRollback f d = d\<lparr>td_onRollback := td_onRollback d @ [f]\<rparr>"

text \<open>What the builders see of a transaction as a driver: its commit, rollback and close do nothing.\<close>

record ('s, 'e) inner_tx =
  in_Commit :: "('s, 'e) committer"
  in_Rollback :: "('s, 'e) committer"
  in_Close :: "('s, 'e) committer"

definition innerTx :: "('s, 'e) inner_tx" where "innerTx = \<lparr>in_Commit = ok (), in_Rollback = ok (), in_Close = ok ()\<rparr>"

record ('s, 'e) tx_methods =
  tx_Commit :: "('s, 'e) txDriver \<Rightarrow> ('s, 'e) committer"
  tx_OnCommit :: "(('s, 'e) committer \<Rightarrow> ('s, 'e) committer) \<Rightarrow> ('s, 'e) txDriver \<Rightarrow> ('s, 'e) txDriver"
  tx_Rollback :: "('s, 'e) txDriver \<Rightarrow> ('s, 'e) committer"
  tx_OnRollback :: "(('s, 'e) committer \<Rightarrow> ('s, 'e) committer) \<Rightarrow> ('s, 'e) txDriver \<Rightarrow> ('s, 'e) txDriver"

definition txMethods :: "('s, 'e) tx_methods" where
  "txMethods = \<lparr>tx_Commit = txCommit, tx_OnCommit = onCommit, tx_Rollback = txRollback, tx_OnRollback = onRollback\<rparr>"

section \<open>Clients\<close>

datatype ('d, 't) ent_driver = PlainDriver 'd | DebugDriver "('d, 't) ent_driver" string | TxDriver 't "('d, 't) ent_driver"

record ('d, 't) ent_config =
  cfg_driver :: "('d, 't) ent_driver option"
  cfg_debug :: bool
  cfg_log :: string

datatype ('d, 't) client_option = OptDebug | OptLog string | OptDriver "('d, 't) ent_driver"

datatype client_error = UnsupportedDriver string | OpenError sql_error | ErrTxStarted | StartingTx sql_error | NilDriver

fun configure :: "('d, 't) client_option \<Rightarrow> ('d, 't) ent_config \<Rightarrow> ('d, 't) ent_config" where
  "configure OptDebug c = c\<lparr>cfg_debug := True\<rparr>"
| "configure (OptLog fn) c = c\<lparr>cfg_log := fn\<rparr>"
| "configure (OptDriver d) c = c\<lparr>cfg_driver := Some d\<rparr>"

definition newConfig :: "('d, 't) client_option list \<Rightarrow> ('d, 't) ent_config" where
  "newConfig opts =
     (let c = fold configure opts \<lparr>cfg_driver = None, cfg_debug = False, cfg_log = ''log.Println''\<rparr>
      in if cfg_debug c then c\<lparr>cfg_driver := map_option (\<lambda>d. DebugDriver d (cfg_log c)) (cfg_driver c)\<rparr> else c)"

definition openClient ::
  "(string \<Rightarrow> string \<Rightarrow> ('s, sql_error, 'd) act) \<Rightarrow> string \<Rightarrow> string \<Rightarrow> ('d, 't) client_option list \<Rightarrow> ('s, client_error, ('d, 't) ent_config) act" where
  "openClient sqlOpen driverName dsn opts =
     (if driverName \<in> {''mysql'', ''postgres'', ''sqlite3''}
      then andThen (mapErr OpenError (sqlOpen driverName dsn)) (\<lambda>d. ok (newConfig (opts @ [OptDriver (PlainDriver d)])))
      else fail (UnsupportedDriver driverName))"

fun isTxDriver :: "('d, 't) ent_driver \<Rightarrow> bool" where
  "isTxDriver (TxDriver _ _) = True"
| "isTxDriver _ = False"

text \<open>\<open>Tx\<close> and \<open>BeginTx\<close> differ in how the driver starts the transaction, \<open>begin\<close>.\<close>

definition clientTx ::
  "(('d, 't) ent_driver \<Rightarrow> ('s, sql_error, 't) act) \<Rightarrow> ('d, 't) ent_config \<Rightarrow> ('s, client_error, ('d, 't) ent_config) act" where
  "clientTx start c = (case cfg_driver c of
       None \<Rightarrow> fail NilDriver
     | Some d \<Rightarrow> if isTxDriver d then fail ErrTxStarted
         else andThen (mapErr StartingTx (start d)) (\<lambda>t. ok (c\<lparr>cfg_driver := Some (TxDriver t d)\<rparr>)))"

definition debugClient :: "('d, 't) ent_config \<Rightarrow> ('d, 't) ent_config" where
  "debugClient c = (if cfg_debug c then c else c\<lparr>cfg_driver := map_option (\<lambda>d. DebugDriver d (cfg_log c)) (cfg_driver c)\<rparr>)"

record ('s, 'd, 't) client_methods =
  cm_New :: "('d, 't) client_option list \<Rightarrow> ('d, 't) ent_config"
  cm_Open :: "(string \<Rightarrow> string \<Rightarrow> ('s, sql_error, 'd) act) \<Rightarrow> string \<Rightarrow> string \<Rightarrow> ('d, 't) client_option list \<Rightarrow> ('s, client_error, ('d, 't) ent_config) act"
  cm_Tx :: "(('d, 't) ent_driver \<Rightarrow> ('s, sql_error, 't) act) \<Rightarrow> ('d, 't) ent_config \<Rightarrow> ('s, client_error, ('d, 't) ent_config) act"
  cm_Debug :: "('d, 't) ent_config \<Rightarrow> ('d, 't) ent_config"

definition clientMethods :: "('s, 'd, 't) client_methods" where
  "clientMethods = \<lparr>cm_New = newConfig, cm_Open = openClient, cm_Tx = clientTx, cm_Debug = debugClient\<rparr>"

text \<open>The hooks of a client, which its builders get when they are created.\<close>

definition clientUse :: "'hook list \<Rightarrow> 'hook list \<Rightarrow> 'hook list" where "clientUse new hooks = hooks @ new"

text \<open>The mutations that the builders of one table start with; \<open>key\<close> is the id of an entity. A bulk builder is
  the mutations of its builders, or the error it was made with; \<open>MapCreateBulk\<close> is given the length of its slice,
  or nothing when its argument is no slice.\<close>

datatype bulk_error = NeedSlice

record ('id, 'r) client_build =
  cb_Create :: "('id, 'r) mutation"
  cb_CreateBulk :: "('id, 'r) mutation list \<Rightarrow> bulk_error + ('id, 'r) mutation list"
  cb_MapCreateBulk :: "nat option \<Rightarrow> (nat \<Rightarrow> ('id, 'r) mutation \<Rightarrow> ('id, 'r) mutation) \<Rightarrow> bulk_error + ('id, 'r) mutation list"
  cb_Update :: "('id, 'r) mutation"
  cb_UpdateOne :: "'r \<Rightarrow> ('id, 'r) mutation"
  cb_UpdateOneID :: "'id \<Rightarrow> ('id, 'r) mutation"
  cb_Delete :: "('id, 'r) mutation"
  cb_DeleteOne :: "'r \<Rightarrow> ('id, 'r) mutation"
  cb_DeleteOneID :: "'id \<Rightarrow> ('id, 'r) mutation"

definition deleteOneMutation :: "string \<Rightarrow> ('r \<Rightarrow> 'id) \<Rightarrow> 'id \<Rightarrow> ('id, 'r) mutation" where
  "deleteOneMutation typ key i =
     (mutationWhere [\<lambda>r. key r = i] (newMutation typ OpDelete []))\<lparr>mu_id := Some i, mu_op := OpDeleteOne\<rparr>"

definition clientBuild :: "string \<Rightarrow> ('r \<Rightarrow> 'id) \<Rightarrow> ('id, 'r) client_build" where
  "clientBuild typ key = \<lparr>
     cb_Create = newMutation typ OpCreate [], cb_CreateBulk = Inr,
     cb_MapCreateBulk = (\<lambda>slice setFunc. case slice of None \<Rightarrow> Inl NeedSlice
       | Some n \<Rightarrow> Inr (map (\<lambda>i. setFunc i (newMutation typ OpCreate [])) [0..<n])),
     cb_Update = newMutation typ OpUpdate [], cb_UpdateOne = (\<lambda>r. newMutation typ OpUpdateOne [withNode key r]),
     cb_UpdateOneID = (\<lambda>i. newMutation typ OpUpdateOne [withID i]), cb_Delete = newMutation typ OpDelete [],
     cb_DeleteOne = (\<lambda>r. deleteOneMutation typ key (key r)), cb_DeleteOneID = deleteOneMutation typ key\<rparr>"

text \<open>The queries of a client; \<open>isID\<close> is the condition on the id column.\<close>

record ('s, 'r, 'id) client_query =
  cq_Query :: entquery
  cq_Get :: "interceptor list \<Rightarrow> 'id \<Rightarrow> ('s, query_error, 'r) act"
  cq_GetX :: "interceptor list \<Rightarrow> 'id \<Rightarrow> ('s, query_panic, 'r) act"

definition clientGet :: "('r, 'id) ent_table \<Rightarrow> ('id \<Rightarrow> pred) \<Rightarrow> 's query_drv \<Rightarrow> interceptor list \<Rightarrow> 'id \<Rightarrow> ('s, query_error, 'r) act" where
  "clientGet tb isID drv inters i = qOnly tb drv inters (qWhere [isID i] newQuery)"

definition clientQuery :: "('r, 'id) ent_table \<Rightarrow> ('id \<Rightarrow> pred) \<Rightarrow> 's query_drv \<Rightarrow> ('s, 'r, 'id) client_query" where
  "clientQuery tb isID drv = \<lparr>cq_Query = newQuery, cq_Get = clientGet tb isID drv, cq_GetX = (\<lambda>is i. orPanic (clientGet tb isID drv is i))\<rparr>"

text \<open>\<open>mutate\<close> runs a mutation through the builder of its operation.\<close>

record ('s, 'e, 'id, 'r) ent_saves =
  sv_create :: "(('id, 'r) mutation \<times> 's, 'e, 'r) act"
  sv_update :: "(('id, 'r) mutation \<times> 's, 'e, nat) act"
  sv_updateOne :: "(('id, 'r) mutation \<times> 's, 'e, 'r) act"
  sv_delete :: "(('id, 'r) mutation \<times> 's, 'e, nat) act"

datatype 'r mutate_value = MutatedNode 'r | MutatedCount nat

definition clientMutate :: "('s, 'e, 'id, 'r) ent_saves \<Rightarrow> (('id, 'r) mutation \<times> 's, 'e, 'r mutate_value) act" where
  "clientMutate sv = (\<lambda>(m, s). (case mu_op m of
       OpCreate \<Rightarrow> andThen (sv_create sv) (\<lambda>r. ok (MutatedNode r))
     | OpUpdate \<Rightarrow> andThen (sv_update sv) (\<lambda>n. ok (MutatedCount n))
     | OpUpdateOne \<Rightarrow> andThen (sv_updateOne sv) (\<lambda>r. ok (MutatedNode r))
     | OpDelete \<Rightarrow> andThen (sv_delete sv) (\<lambda>n. ok (MutatedCount n))
     | OpDeleteOne \<Rightarrow> andThen (sv_delete sv) (\<lambda>n. ok (MutatedCount n))) (m, s))"

section \<open>Deletions\<close>

datatype 'e hook_panic = HookPanic "'e hook_error"

definition deleteSqlExec :: "('s, 'r, 'id) nodes \<Rightarrow> (('id, 'r) mutation \<times> 's, ent_error, nat) act" where
  "deleteSqlExec nd = (\<lambda>(m, s). case mapErr createErr (DeleteNodes nd (mu_predicates m)) s of
       (res, t) \<Rightarrow> (res, m\<lparr>mu_done := True\<rparr>, t))"

definition deleteWhere :: "('r \<Rightarrow> bool) list \<Rightarrow> ('id, 'r) mutation \<Rightarrow> ('id, 'r) mutation" where "deleteWhere ps m = mutationWhere ps m"

definition deleteExec where "deleteExec nd hooks = withHooks (deleteSqlExec nd) hooks"

definition deleteOneExec where
  "deleteOneExec nd hooks = andThen (deleteExec nd hooks) (\<lambda>n. if n = 0 then fail (ExecError NotFoundError) else ok ())"

definition orHookPanic :: "('s, 'e hook_error, 'a) act \<Rightarrow> ('s, 'e hook_panic, 'a) act" where "orHookPanic m = mapErr HookPanic m"

record ('s, 'id, 'r) delete_methods =
  dl_Where :: "('r \<Rightarrow> bool) list \<Rightarrow> ('id, 'r) mutation \<Rightarrow> ('id, 'r) mutation"
  dl_Exec :: "('s, ent_error, 'id, 'r, nat) ent_hook option list \<Rightarrow> (('id, 'r) mutation \<times> 's, ent_error hook_error, nat) act"
  dl_ExecX :: "('s, ent_error, 'id, 'r, nat) ent_hook option list \<Rightarrow> (('id, 'r) mutation \<times> 's, ent_error hook_panic, nat) act"
  dl_sqlExec :: "(('id, 'r) mutation \<times> 's, ent_error, nat) act"
  dl_OneWhere :: "('r \<Rightarrow> bool) list \<Rightarrow> ('id, 'r) mutation \<Rightarrow> ('id, 'r) mutation"
  dl_OneExec :: "('s, ent_error, 'id, 'r, nat) ent_hook option list \<Rightarrow> (('id, 'r) mutation \<times> 's, ent_error hook_error, unit) act"
  dl_OneExecX :: "('s, ent_error, 'id, 'r, nat) ent_hook option list \<Rightarrow> (('id, 'r) mutation \<times> 's, ent_error hook_panic, unit) act"

definition deleteMethods :: "('s, 'r, 'id) nodes \<Rightarrow> ('s, 'id, 'r) delete_methods" where
  "deleteMethods nd = \<lparr>dl_Where = deleteWhere, dl_Exec = deleteExec nd, dl_ExecX = (\<lambda>hooks. orHookPanic (deleteExec nd hooks)),
     dl_sqlExec = deleteSqlExec nd, dl_OneWhere = deleteWhere, dl_OneExec = deleteOneExec nd,
     dl_OneExecX = (\<lambda>hooks. orHookPanic (deleteOneExec nd hooks))\<rparr>"

section \<open>The methods of the modules\<close>

record ('id, 'r) hook_conditions =
  hc_And :: "('id, 'r) condition \<Rightarrow> ('id, 'r) condition \<Rightarrow> ('id, 'r) condition list \<Rightarrow> ('id, 'r) condition"
  hc_Or :: "('id, 'r) condition \<Rightarrow> ('id, 'r) condition \<Rightarrow> ('id, 'r) condition list \<Rightarrow> ('id, 'r) condition"
  hc_Not :: "('id, 'r) condition \<Rightarrow> ('id, 'r) condition"
  hc_HasOp :: "ent_op list \<Rightarrow> ('id, 'r) condition"
  hc_HasAddedFields :: "string \<Rightarrow> string list \<Rightarrow> ('id, 'r) condition"
  hc_HasClearedFields :: "string \<Rightarrow> string list \<Rightarrow> ('id, 'r) condition"
  hc_HasFields :: "string \<Rightarrow> string list \<Rightarrow> ('id, 'r) condition"

definition hookConditions :: "ent_field list \<Rightarrow> ('id, 'r) hook_conditions" where
  "hookConditions schema = \<lparr>hc_And = condAnd, hc_Or = condOr, hc_Not = condNot, hc_HasOp = HasOp,
     hc_HasAddedFields = HasAddedFields schema, hc_HasClearedFields = HasClearedFields, hc_HasFields = HasFields schema\<rparr>"

record ('s, 'e, 'id, 'r, 'v) hook_methods =
  hm_If :: "('s, 'e, 'id, 'r, 'v) ent_hook \<Rightarrow> ('id, 'r) condition \<Rightarrow> ('s, 'e, 'id, 'r, 'v) ent_hook"
  hm_On :: "('s, 'e, 'id, 'r, 'v) ent_hook \<Rightarrow> ent_op list \<Rightarrow> ('s, 'e, 'id, 'r, 'v) ent_hook"
  hm_Unless :: "('s, 'e, 'id, 'r, 'v) ent_hook \<Rightarrow> ent_op list \<Rightarrow> ('s, 'e, 'id, 'r, 'v) ent_hook"
  hm_FixedError :: "'e hook_error \<Rightarrow> ('s, 'e, 'id, 'r, 'v) ent_hook"
  hm_Reject :: "ent_op list \<Rightarrow> ('s, 'e, 'id, 'r, 'v) ent_hook"
  hm_Hook :: "('s, 'e, 'id, 'r, 'v) hook_chain \<Rightarrow> ('s, 'e, 'id, 'r, 'v) ent_hook"
  hm_Append :: "('s, 'e, 'id, 'r, 'v) ent_hook list \<Rightarrow> ('s, 'e, 'id, 'r, 'v) hook_chain \<Rightarrow> ('s, 'e, 'id, 'r, 'v) hook_chain"
  hm_Extend :: "('s, 'e, 'id, 'r, 'v) hook_chain \<Rightarrow> ('s, 'e, 'id, 'r, 'v) hook_chain \<Rightarrow> ('s, 'e, 'id, 'r, 'v) hook_chain"

definition hookMethods :: "('s, 'e, 'id, 'r, 'v) hook_methods" where
  "hookMethods = \<lparr>hm_If = hookIf, hm_On = hookOn, hm_Unless = hookUnless, hm_FixedError = FixedError, hm_Reject = Reject,
     hm_Hook = chainHook, hm_Append = chainAppend, hm_Extend = chainExtend\<rparr>"

section \<open>The client of Item\<close>

definition ItemClient_build :: "(int, Item) client_build" where "ItemClient_build = clientBuild ''Item'' it_ID"

definition ItemClient_query :: "'s query_drv \<Rightarrow> ('s, Item, int) client_query" where
  "ItemClient_query = clientQuery Item_table (\<lambda>i. cond Item_ID_where EQ (VInt64 i))"

definition ItemClient_mutate :: "('s, 'e, int, Item) ent_saves \<Rightarrow> ((int, Item) mutation \<times> 's, 'e, Item mutate_value) act" where "ItemClient_mutate = clientMutate"

definition ItemClient_use :: "('s, 'e, int, Item, 'v) ent_hook list \<Rightarrow> ('s, 'e, int, Item, 'v) ent_hook list \<Rightarrow> ('s, 'e, int, Item, 'v) ent_hook list" where "ItemClient_use = clientUse"

definition ItemDelete_methods :: "('s, Item, int) nodes \<Rightarrow> ('s, int, Item) delete_methods" where "ItemDelete_methods = deleteMethods"

definition ItemFunc_Mutate :: "('s, 'e, int, Item, 'v) mutator \<Rightarrow> ('s, 'e, int, Item, 'v) mutator" where "ItemFunc_Mutate = mutateFunc ''Item''"

section \<open>The client of ItemNonce\<close>

definition ItemNonceClient_build :: "(uint64, ItemNonce) client_build" where "ItemNonceClient_build = clientBuild ''ItemNonce'' in_ID"

definition ItemNonceClient_query :: "'s query_drv \<Rightarrow> ('s, ItemNonce, uint64) client_query" where
  "ItemNonceClient_query = clientQuery ItemNonce_table (\<lambda>i. cond ItemNonce_ID_where EQ (VUint64 i))"

definition ItemNonceClient_mutate :: "('s, 'e, uint64, ItemNonce) ent_saves \<Rightarrow> ((uint64, ItemNonce) mutation \<times> 's, 'e, ItemNonce mutate_value) act" where "ItemNonceClient_mutate = clientMutate"

definition ItemNonceClient_use :: "('s, 'e, uint64, ItemNonce, 'v) ent_hook list \<Rightarrow> ('s, 'e, uint64, ItemNonce, 'v) ent_hook list \<Rightarrow> ('s, 'e, uint64, ItemNonce, 'v) ent_hook list" where "ItemNonceClient_use = clientUse"

definition ItemNonceDelete_methods :: "('s, ItemNonce, uint64) nodes \<Rightarrow> ('s, uint64, ItemNonce) delete_methods" where "ItemNonceDelete_methods = deleteMethods"

definition ItemNonceFunc_Mutate :: "('s, 'e, uint64, ItemNonce, 'v) mutator \<Rightarrow> ('s, 'e, uint64, ItemNonce, 'v) mutator" where "ItemNonceFunc_Mutate = mutateFunc ''ItemNonce''"

section \<open>The client of ItemUserLock\<close>

definition ItemUserLockClient_build :: "(uint64, ItemUserLock) client_build" where "ItemUserLockClient_build = clientBuild ''ItemUserLock'' il_ID"

definition ItemUserLockClient_query :: "'s query_drv \<Rightarrow> ('s, ItemUserLock, uint64) client_query" where
  "ItemUserLockClient_query = clientQuery ItemUserLock_table (\<lambda>i. cond ItemUserLock_ID_where EQ (VUint64 i))"

definition ItemUserLockClient_mutate :: "('s, 'e, uint64, ItemUserLock) ent_saves \<Rightarrow> ((uint64, ItemUserLock) mutation \<times> 's, 'e, ItemUserLock mutate_value) act" where "ItemUserLockClient_mutate = clientMutate"

definition ItemUserLockClient_use :: "('s, 'e, uint64, ItemUserLock, 'v) ent_hook list \<Rightarrow> ('s, 'e, uint64, ItemUserLock, 'v) ent_hook list \<Rightarrow> ('s, 'e, uint64, ItemUserLock, 'v) ent_hook list" where "ItemUserLockClient_use = clientUse"

definition ItemUserLockDelete_methods :: "('s, ItemUserLock, uint64) nodes \<Rightarrow> ('s, uint64, ItemUserLock) delete_methods" where "ItemUserLockDelete_methods = deleteMethods"

definition ItemUserLockFunc_Mutate :: "('s, 'e, uint64, ItemUserLock, 'v) mutator \<Rightarrow> ('s, 'e, uint64, ItemUserLock, 'v) mutator" where "ItemUserLockFunc_Mutate = mutateFunc ''ItemUserLock''"

section \<open>The client of PaymentOrder\<close>

definition PaymentOrderClient_build :: "(uint64, PaymentOrder) client_build" where "PaymentOrderClient_build = clientBuild ''PaymentOrder'' po_ID"

definition PaymentOrderClient_query :: "'s query_drv \<Rightarrow> ('s, PaymentOrder, uint64) client_query" where
  "PaymentOrderClient_query = clientQuery PaymentOrder_table (\<lambda>i. cond PaymentOrder_ID_where EQ (VUint64 i))"

definition PaymentOrderClient_mutate :: "('s, 'e, uint64, PaymentOrder) ent_saves \<Rightarrow> ((uint64, PaymentOrder) mutation \<times> 's, 'e, PaymentOrder mutate_value) act" where "PaymentOrderClient_mutate = clientMutate"

definition PaymentOrderClient_use :: "('s, 'e, uint64, PaymentOrder, 'v) ent_hook list \<Rightarrow> ('s, 'e, uint64, PaymentOrder, 'v) ent_hook list \<Rightarrow> ('s, 'e, uint64, PaymentOrder, 'v) ent_hook list" where "PaymentOrderClient_use = clientUse"

definition PaymentOrderDelete_methods :: "('s, PaymentOrder, uint64) nodes \<Rightarrow> ('s, uint64, PaymentOrder) delete_methods" where "PaymentOrderDelete_methods = deleteMethods"

definition PaymentOrderFunc_Mutate :: "('s, 'e, uint64, PaymentOrder, 'v) mutator \<Rightarrow> ('s, 'e, uint64, PaymentOrder, 'v) mutator" where "PaymentOrderFunc_Mutate = mutateFunc ''PaymentOrder''"

section \<open>The client of Account\<close>

definition AccountClient_build :: "(uint64, Account) client_build" where "AccountClient_build = clientBuild ''Account'' ac_ID"

definition AccountClient_query :: "'s query_drv \<Rightarrow> ('s, Account, uint64) client_query" where
  "AccountClient_query = clientQuery Account_table (\<lambda>i. cond Account_ID_where EQ (VUint64 i))"

definition AccountClient_mutate :: "('s, 'e, uint64, Account) ent_saves \<Rightarrow> ((uint64, Account) mutation \<times> 's, 'e, Account mutate_value) act" where "AccountClient_mutate = clientMutate"

definition AccountClient_use :: "('s, 'e, uint64, Account, 'v) ent_hook list \<Rightarrow> ('s, 'e, uint64, Account, 'v) ent_hook list \<Rightarrow> ('s, 'e, uint64, Account, 'v) ent_hook list" where "AccountClient_use = clientUse"

definition AccountDelete_methods :: "('s, Account, uint64) nodes \<Rightarrow> ('s, uint64, Account) delete_methods" where "AccountDelete_methods = deleteMethods"

definition AccountFunc_Mutate :: "('s, 'e, uint64, Account, 'v) mutator \<Rightarrow> ('s, 'e, uint64, Account, 'v) mutator" where "AccountFunc_Mutate = mutateFunc ''Account''"

section \<open>The client of Identity\<close>

definition IdentityClient_build :: "(uint64, IdentityRow) client_build" where "IdentityClient_build = clientBuild ''Identity'' id_ID"

definition IdentityClient_query :: "'s query_drv \<Rightarrow> ('s, IdentityRow, uint64) client_query" where
  "IdentityClient_query = clientQuery Identity_table (\<lambda>i. cond Identity_ID_where EQ (VUint64 i))"

definition IdentityClient_mutate :: "('s, 'e, uint64, IdentityRow) ent_saves \<Rightarrow> ((uint64, IdentityRow) mutation \<times> 's, 'e, IdentityRow mutate_value) act" where "IdentityClient_mutate = clientMutate"

definition IdentityClient_use :: "('s, 'e, uint64, IdentityRow, 'v) ent_hook list \<Rightarrow> ('s, 'e, uint64, IdentityRow, 'v) ent_hook list \<Rightarrow> ('s, 'e, uint64, IdentityRow, 'v) ent_hook list" where "IdentityClient_use = clientUse"

definition IdentityDelete_methods :: "('s, IdentityRow, uint64) nodes \<Rightarrow> ('s, uint64, IdentityRow) delete_methods" where "IdentityDelete_methods = deleteMethods"

definition IdentityFunc_Mutate :: "('s, 'e, uint64, IdentityRow, 'v) mutator \<Rightarrow> ('s, 'e, uint64, IdentityRow, 'v) mutator" where "IdentityFunc_Mutate = mutateFunc ''Identity''"

section \<open>The files of items\<close>

definition items_conditions :: "ent_field list \<Rightarrow> ('id, 'r) hook_conditions" where "items_conditions = hookConditions"

definition items_hooks :: "('s, 'e, 'id, 'r, 'v) hook_methods" where "items_hooks = hookMethods"

definition items_tx :: "('s, 'e) tx_methods" where "items_tx = txMethods"

definition items_innerTx :: "('s, 'e) inner_tx" where "items_innerTx = innerTx"

definition items_client :: "('s, 'd, 't) client_methods" where "items_client = clientMethods"

section \<open>The files of payment\<close>

definition payment_conditions :: "ent_field list \<Rightarrow> ('id, 'r) hook_conditions" where "payment_conditions = hookConditions"

definition payment_hooks :: "('s, 'e, 'id, 'r, 'v) hook_methods" where "payment_hooks = hookMethods"

definition payment_tx :: "('s, 'e) tx_methods" where "payment_tx = txMethods"

definition payment_innerTx :: "('s, 'e) inner_tx" where "payment_innerTx = innerTx"

definition payment_client :: "('s, 'd, 't) client_methods" where "payment_client = clientMethods"

section \<open>The files of login\<close>

definition login_conditions :: "ent_field list \<Rightarrow> ('id, 'r) hook_conditions" where "login_conditions = hookConditions"

definition login_hooks :: "('s, 'e, 'id, 'r, 'v) hook_methods" where "login_hooks = hookMethods"

definition login_tx :: "('s, 'e) tx_methods" where "login_tx = txMethods"

definition login_innerTx :: "('s, 'e) inner_tx" where "login_innerTx = innerTx"

definition login_client :: "('s, 'd, 't) client_methods" where "login_client = clientMethods"

section \<open>Properties\<close>

lemma wrapHooks_chain: "wrapHooks (map Some hs) mut = Some (chainHook hs mut)"
  by (induction hs) (simp_all add: chainHook_def)

lemma wrapHooks_nil: "None \<in> set hooks \<Longrightarrow> wrapHooks hooks mut = None"
  by (induction hooks) (auto split: option.split)

text \<open>A chain as one hook is the same as its hooks one by one, and a chain that was extended runs the first chain outside of the second.\<close>

theorem chain_as_hooks:
  assumes "hs \<noteq> []"
  shows "withHooks exec (map Some hs) = withHooks exec [Some (chainHook hs)]"
    and "chainHook (chainExtend chain2 hs) mut = chainHook hs (chainHook chain2 mut)"
  using assms by (simp_all add: withHooks_def wrapHooks_chain fun_eq_iff chainExtend_def chainAppend_def) (simp add: chainHook_def)

text \<open>Nothing is executed behind a nil hook, and nothing behind a hook that rejects the operation.\<close>

theorem hooks_stop:
  shows "None \<in> set hooks \<Longrightarrow> withHooks exec hooks (m, s) = (Inl UninitializedHook, m, s)"
    and "mu_op m \<in> set ops \<Longrightarrow> withHooks exec (map Some (Reject ops # hs)) (m, s) = (Inl (OpNotAllowed ops), m, s)"
    and "mu_op m \<notin> set ops \<Longrightarrow> hs \<noteq> [] \<Longrightarrow> withHooks exec (map Some (Reject ops # hs)) (m, s) = withHooks exec (map Some hs) (m, s)"
proof -
  show "None \<in> set hooks \<Longrightarrow> withHooks exec hooks (m, s) = (Inl UninitializedHook, m, s)"
    by (auto simp: withHooks_def wrapHooks_nil)
  have chain: "chainHook (Reject ops # hs) mut m = (if mu_op m \<in> set ops then fail (OpNotAllowed ops) else chainHook hs mut m)" for mut
    by (simp add: chainHook_def Reject_def hookOn_def hookIf_def HasOp_def FixedError_def)
  show "mu_op m \<in> set ops \<Longrightarrow> withHooks exec (map Some (Reject ops # hs)) (m, s) = (Inl (OpNotAllowed ops), m, s)"
    unfolding withHooks_def wrapHooks_chain by (simp add: chain andThen_def fail_def)
  show "mu_op m \<notin> set ops \<Longrightarrow> hs \<noteq> [] \<Longrightarrow> withHooks exec (map Some (Reject ops # hs)) (m, s) = withHooks exec (map Some hs) (m, s)"
    unfolding withHooks_def wrapHooks_chain by (simp add: chain andThen_def)
qed

text \<open>A deletion without hooks is that of theory Ent; it marks its mutation as done, whether it succeeds or not.\<close>

definition onWorld :: "('m \<times> 's, 'e, 'a) act \<Rightarrow> 'm \<Rightarrow> ('s, 'e, 'a) act" where
  "onWorld act m s = (case act (m, s) of (res, _, t) \<Rightarrow> (res, t))"

theorem delete_refines:
  "onWorld (dl_Exec (deleteMethods nd) []) m = mapErr ExecError (DeleteExec nd (mu_predicates m))"
  "onWorld (dl_OneExec (deleteMethods nd) []) (deleteOneMutation typ key i) = mapErr ExecError (DeleteOneExec nd (\<lambda>r. key r = i))"
  "mu_done (fst (snd (dl_Exec (deleteMethods nd) [] (m, s))))"
  by (auto simp: onWorld_def deleteMethods_def deleteExec_def deleteOneExec_def withHooks_def deleteSqlExec_def DeleteExec_def DeleteOneExec_def
      deleteOneMutation_def mutationWhere_def newMutation_def mapErr_def andThen_def ok_def fail_def fun_eq_iff split: prod.splits sum.splits)

text \<open>\<open>Get\<close> of an order is the query that the payment store is modelled on.\<close>

theorem Get_refines:
  assumes "query_backend (=) PaymentOrder_sql picks PaymentOrder_table PaymentOrder_fits expr nd drv" and "fitting nd PaymentOrder_fits s"
  shows "mapErr entErr (cq_Get (PaymentOrderClient_query drv) [] i) s = Only nd (Where [OrderIDEQ i] Query) s"
proof -
  note c = order_conditions [OF query_backend.axioms(1) [OF assms(1)]]
  let ?q = "qWhere [cond PaymentOrder_ID_where EQ (VUint64 i)] newQuery"
  have "plainQuery PaymentOrder_sql ?q" by (simp add: build_defs)
  moreover have "asksFor PaymentOrder_sql picks expr ?q = Where [OrderIDEQ i] Query" using c by (auto simp: build_defs fun_eq_iff)
  ultimately show ?thesis
    using query_backend.Only_refines [OF assms(1) _ assms(2), of ?q]
    by (simp add: PaymentOrderClient_query_def clientQuery_def clientGet_def)
qed

text \<open>A transaction is not started inside another, unless the client of the transaction was turned into a debug client.\<close>

theorem no_nested_tx:
  assumes "clientTx start c s = (Inr c', t)"
  shows "clientTx start' c' u = (Inl ErrTxStarted, u)"
    and "\<not> cfg_debug c' \<Longrightarrow> start' (the (cfg_driver (debugClient c'))) u = (Inr x, v) \<Longrightarrow> \<exists>c''. clientTx start' (debugClient c') u = (Inr c'', v)"
  using assms
  by (auto simp: clientTx_def debugClient_def andThen_def mapErr_def ok_def fail_def split: option.splits if_splits prod.splits sum.splits)

text \<open>The hooks of a commit run in the order they were added, each around the later ones; the commit of a builder inside a transaction does nothing.\<close>

theorem commit_hooks:
  "txCommit (onCommit f (newTx c r)) = f c"
  "txCommit (onCommit g (onCommit f (newTx c r))) = f (g c)"
  "txRollback (onCommit f d) = txRollback d"
  "in_Commit innerTx s = (Inr (), s)"
  by (simp_all add: txCommit_def onCommit_def newTx_def txRollback_def innerTx_def ok_def)

end
