(* ===== verification/EntSave.thy ===== *)
theory EntSave
  imports EntClient
begin

text \<open>
  The saves of ent, \<open>ent/*_create.go\<close> and \<open>ent/*_update.go\<close>: defaults, checks, the statement that a builder hands to \<open>sqlgraph\<close>, and
  what it does with the answer; the \<open>OnConflict\<close> builders of the item tables and the creation of many entities at once.
  The functions of the packages \<open>sqlgraph\<close> and \<open>sql\<close> are the record \<open>save_drv\<close>; the files of two tables differ in the record
  \<open>ent_saver\<close> of their fields, defaults and checks. Shown, in the locale \<open>save_backend\<close>: the saves of the tables are the operations that the stores
  are modelled on, the upsert of a lock row among them; many entities are created by one statement or not at all; an upsert with
  new values leaves the immutable columns alone.
\<close>

section \<open>Statements\<close>

text \<open>
  The dynamic value of \<open>spec.ID.Value\<close>: nothing, an id of the type of the table, or the \<open>int64\<close> of \<open>LastInsertId\<close>.
\<close>

datatype 'id spec_value = NilID | OwnID 'id | Int64ID int

text \<open>The columns of \<open>ON DUPLICATE KEY UPDATE\<close>: a \<open>sql.UpdateSet\<close> is the list of the calls made on it.\<close>

datatype update_op = SetTo string ent_value | AddTo string ent_value | SetExcluded string | SetIgnore string

type_synonym update_set = "update_op list"

text \<open>Options of \<open>ON CONFLICT\<close>. The function of \<open>ResolveWith\<close> is called when the statement is written, and reads the builder then: \<open>'m\<close>.\<close>

datatype 'm conflict_option =
    ConflictColumns "string list"
  | ResolveWithNewValues
  | ResolveWithIgnore
  | DoNothing
  | ResolveWith "'m \<Rightarrow> update_set \<Rightarrow> update_set"

fun atMutation :: "'m \<Rightarrow> 'm conflict_option \<Rightarrow> unit conflict_option" where
  "atMutation m (ConflictColumns cols) = ConflictColumns cols"
| "atMutation m ResolveWithNewValues = ResolveWithNewValues"
| "atMutation m ResolveWithIgnore = ResolveWithIgnore"
| "atMutation m DoNothing = DoNothing"
| "atMutation m (ResolveWith g) = ResolveWith (\<lambda>_. g m)"

record 'id create_spec =
  cs_table :: string
  cs_id :: "'id spec_value"
  cs_fields :: "(string \<times> ent_value) list"
  cs_onConflict :: "unit conflict_option list"

record ('id, 'r) update_spec =
  us_table :: string
  us_columns :: "string list"
  us_id :: "'id option"
  us_predicate :: "('r \<Rightarrow> bool) list"
  us_set :: "(string \<times> ent_value) list"
  us_add :: "(string \<times> ent_value) list"
  us_append :: "(string \<times> string) list"
  us_clear :: "string list"

text \<open>\<open>CreateNode\<close> and \<open>BatchCreate\<close> return what is in \<open>ID.Value\<close> of their specs afterwards.\<close>

record ('s, 'id, 'r) save_drv =
  sd_CreateNode :: "'id create_spec \<Rightarrow> ('s, sql_error, 'id spec_value) act"
  sd_BatchCreate :: "'id create_spec list \<Rightarrow> unit conflict_option list \<Rightarrow> ('s, sql_error, 'id spec_value list) act"
  sd_UpdateNodes :: "('id, 'r) update_spec \<Rightarrow> ('s, sql_error, nat) act"
  sd_UpdateNode :: "('id, 'r) update_spec \<Rightarrow> ('s, sql_error, 'r) act"

section \<open>What differs between the tables\<close>

datatype default = DefaultValue ent_value | DefaultNow

datatype check = Required | Valid "ent_value \<Rightarrow> bool"

record ('id, 'r) ent_saver =
  sa_typ :: string
  sa_table :: string
  sa_idColumn :: string
  sa_columns :: "string list"
  sa_zero :: 'id
  sa_key :: "'r \<Rightarrow> 'id"
  sa_setKey :: "'id \<Rightarrow> 'r \<Rightarrow> 'r"
  sa_sameId :: "'id spec_value \<Rightarrow> 'id \<Rightarrow> bool"
  sa_assertId :: "'id spec_value \<Rightarrow> 'id option"
  sa_node :: "'id \<Rightarrow> (string \<Rightarrow> ent_value option) \<Rightarrow> 'r"
  sa_createFields :: "ent_field list"
  sa_createDefaults :: "(ent_field \<times> default) list"
  sa_createChecks :: "(ent_field \<times> check) list"
  sa_updateDefaults :: "(ent_field \<times> default) list"
  sa_updateChecks :: "(ent_field \<times> check) list"
  sa_set :: "ent_field list"
  sa_add :: "ent_field list"
  sa_append :: "ent_field list"
  sa_clear :: "ent_field list"

text \<open>
  The id of a node after \<open>CreateNode\<close>: the comparison \<open>spec.ID.Value != node.ID\<close> of an interface with a number, and the assertion
  \<open>spec.ID.Value.(int64)\<close>, which panics on a value of another type. For a table with \<open>int64\<close> ids, ids of the table and of the database are of one type.
\<close>

fun sameInt64 :: "int spec_value \<Rightarrow> int \<Rightarrow> bool" where
  "sameInt64 (OwnID i) j = (i = j)"
| "sameInt64 (Int64ID i) j = (i = j)"
| "sameInt64 NilID j = False"

fun assertInt64 :: "int spec_value \<Rightarrow> int option" where
  "assertInt64 (OwnID i) = Some i"
| "assertInt64 (Int64ID i) = Some i"
| "assertInt64 NilID = None"

fun sameUint64 :: "uint64 spec_value \<Rightarrow> uint64 \<Rightarrow> bool" where
  "sameUint64 (OwnID i) j = (i = j)"
| "sameUint64 (Int64ID i) j = False"
| "sameUint64 NilID j = False"

fun assertUint64 :: "uint64 spec_value \<Rightarrow> uint64 option" where
  "assertUint64 (Int64ID i) = Some (toUint64 i)"
| "assertUint64 (OwnID i) = None"
| "assertUint64 NilID = None"

text \<open>The fields of a node, with Go's zero value where nothing was set.\<close>

definition uintOf :: "ent_value option \<Rightarrow> uint64" where "uintOf v = (case v of Some (VUint64 n) \<Rightarrow> n | _ \<Rightarrow> 0)"

definition intOf :: "ent_value option \<Rightarrow> int" where
  "intOf v = (case v of Some (VInt64 i) \<Rightarrow> i | Some (VInt32 i) \<Rightarrow> i | Some (VNamed _ i) \<Rightarrow> i | _ \<Rightarrow> 0)"

definition strOf :: "ent_value option \<Rightarrow> string" where "strOf v = (case v of Some (VString t) \<Rightarrow> t | _ \<Rightarrow> '''')"

definition ptrOf :: "ent_value option \<Rightarrow> string option" where "ptrOf v = (case v of Some (VString t) \<Rightarrow> Some t | _ \<Rightarrow> None)"

definition boolOf :: "ent_value option \<Rightarrow> bool" where "boolOf v = (case v of Some (VBool b) \<Rightarrow> b | _ \<Rightarrow> False)"

definition rawOf :: "ent_value option \<Rightarrow> RawMessage" where "rawOf v = (case v of Some (VRaw x) \<Rightarrow> x | _ \<Rightarrow> None)"

lemmas node_values = uintOf_def intOf_def strOf_def ptrOf_def boolOf_def rawOf_def

section \<open>Defaults and checks\<close>

fun setDefaults :: "('s \<Rightarrow> int \<times> 's) \<Rightarrow> (ent_field \<times> default) list \<Rightarrow> ('id, 'r) mutation \<times> 's \<Rightarrow> ('id, 'r) mutation \<times> 's" where
  "setDefaults clk [] (m, s) = (m, s)"
| "setDefaults clk ((f, d) # ds) (m, s) =
     (if fieldGet f m \<noteq> None then setDefaults clk ds (m, s)
      else case d of
        DefaultValue v \<Rightarrow> setDefaults clk ds (fieldSet f v m, s)
      | DefaultNow \<Rightarrow> (case clk s of (now, t) \<Rightarrow> setDefaults clk ds (fieldSet f (VInt64 now) m, t)))"

fun runChecks :: "(ent_field \<times> check) list \<Rightarrow> ('id, 'r) mutation \<Rightarrow> ent_error option" where
  "runChecks [] m = None"
| "runChecks ((f, Required) # cs) m = (if fieldGet f m = None then Some (ValidationError (ef_name f)) else runChecks cs m)"
| "runChecks ((f, Valid p) # cs) m =
     (case fieldGet f m of
        Some v \<Rightarrow> if p v then runChecks cs m else Some (ValidationError (ef_name f))
      | None \<Rightarrow> runChecks cs m)"

section \<open>Creating\<close>

datatype save_error = SaveFailed ent_error | TypeAssertion | NilHook

definition setFields :: "ent_field list \<Rightarrow> (ent_field \<Rightarrow> 'v option) \<Rightarrow> (string \<times> 'v) list" where
  "setFields fs get = List.map_filter (\<lambda>f. map_option (Pair (ef_name f)) (get f)) fs"

definition createSpec ::
  "('id, 'r) ent_saver \<Rightarrow> ('id, 'r) mutation conflict_option list \<Rightarrow> ('id, 'r) mutation \<Rightarrow> 'r \<times> 'id create_spec" where
  "createSpec sa conflict m =
     (sa_node sa (getOr (sa_zero sa) (mu_id m)) (\<lambda>name. if name \<in> ef_name ` set (sa_createFields sa) then mu_values m name else None),
      \<lparr>cs_table = sa_table sa, cs_id = (case mu_id m of None \<Rightarrow> NilID | Some i \<Rightarrow> OwnID i),
       cs_fields = setFields (sa_createFields sa) (\<lambda>f. fieldGet f m), cs_onConflict = map (atMutation m) conflict\<rparr>)"

definition createSqlSave ::
  "('id, 'r) ent_saver \<Rightarrow> ('s, 'id, 'r) save_drv \<Rightarrow> ('id, 'r) mutation conflict_option list \<Rightarrow> (('id, 'r) mutation \<times> 's, save_error, 'r) act" where
  "createSqlSave sa sd conflict = (\<lambda>(m, s).
     case runChecks (sa_createChecks sa) m of
       Some e \<Rightarrow> (Inl (SaveFailed e), m, s)
     | None \<Rightarrow> (let (node, spec) = createSpec sa conflict m in
         case sd_CreateNode sd spec s of
           (Inl e, t) \<Rightarrow> (Inl (SaveFailed (createErr e)), m, t)
         | (Inr v, t) \<Rightarrow>
             (case (if sa_sameId sa v (sa_key sa node) then Some node else map_option (\<lambda>i. sa_setKey sa i node) (sa_assertId sa v)) of
                None \<Rightarrow> (Inl TypeAssertion, m, t)
              | Some n \<Rightarrow> (Inr n, m\<lparr>mu_id := Some (sa_key sa n), mu_done := True\<rparr>, t))))"

definition createSave where
  "createSave sa sd clk conflict hooks = (\<lambda>ms. withHooks (createSqlSave sa sd conflict) hooks (setDefaults clk (sa_createDefaults sa) ms))"

definition noValue :: "('s, 'e, 'a) act \<Rightarrow> ('s, 'e, unit) act" where "noValue act = andThen act (\<lambda>_. ok ())"

record ('s, 'id, 'r) create_methods =
  cr_Save :: "('s, save_error, 'id, 'r, 'r) ent_hook option list \<Rightarrow> (('id, 'r) mutation \<times> 's, save_error hook_error, 'r) act"
  cr_SaveX :: "('s, save_error, 'id, 'r, 'r) ent_hook option list \<Rightarrow> (('id, 'r) mutation \<times> 's, save_error hook_panic, 'r) act"
  cr_Exec :: "('s, save_error, 'id, 'r, 'r) ent_hook option list \<Rightarrow> (('id, 'r) mutation \<times> 's, save_error hook_error, unit) act"
  cr_ExecX :: "('s, save_error, 'id, 'r, 'r) ent_hook option list \<Rightarrow> (('id, 'r) mutation \<times> 's, save_error hook_panic, unit) act"

definition createMethods ::
  "('id, 'r) ent_saver \<Rightarrow> ('s, 'id, 'r) save_drv \<Rightarrow> ('s \<Rightarrow> int \<times> 's) \<Rightarrow> ('id, 'r) mutation conflict_option list \<Rightarrow> ('s, 'id, 'r) create_methods" where
  "createMethods sa sd clk conflict = \<lparr>cr_Save = createSave sa sd clk conflict,
     cr_SaveX = (\<lambda>hooks. orHookPanic (createSave sa sd clk conflict hooks)),
     cr_Exec = (\<lambda>hooks. noValue (createSave sa sd clk conflict hooks)),
     cr_ExecX = (\<lambda>hooks. orHookPanic (noValue (createSave sa sd clk conflict hooks)))\<rparr>"

section \<open>Updating\<close>

definition updateSpec :: "('id, 'r) ent_saver \<Rightarrow> 'id option \<Rightarrow> string list \<Rightarrow> ('id, 'r) mutation \<Rightarrow> ('id, 'r) update_spec" where
  "updateSpec sa i columns m = \<lparr>us_table = sa_table sa, us_columns = columns, us_id = i, us_predicate = mu_predicates m,
     us_set = setFields (sa_set sa) (\<lambda>f. fieldGet f m), us_add = setFields (sa_add sa) (\<lambda>f. fieldAdded f m),
     us_append = setFields (sa_append sa) (\<lambda>f. fieldAppended f m),
     us_clear = map ef_name (filter (\<lambda>f. fieldCleared f m) (sa_clear sa))\<rparr>"

definition finishUpdate :: "('id, 'r) mutation \<Rightarrow> (sql_error + 'a) \<times> 's \<Rightarrow> (save_error + 'a) \<times> ('id, 'r) mutation \<times> 's" where
  "finishUpdate m res = (case res of
       (Inl e, t) \<Rightarrow> (Inl (SaveFailed (sqlErr e)), m, t)
     | (Inr x, t) \<Rightarrow> (Inr x, m\<lparr>mu_done := True\<rparr>, t))"

definition updateSqlSave :: "('id, 'r) ent_saver \<Rightarrow> ('s, 'id, 'r) save_drv \<Rightarrow> (('id, 'r) mutation \<times> 's, save_error, nat) act" where
  "updateSqlSave sa sd = (\<lambda>(m, s).
     case runChecks (sa_updateChecks sa) m of
       Some e \<Rightarrow> (Inl (SaveFailed e), m, s)
     | None \<Rightarrow> finishUpdate m (sd_UpdateNodes sd (updateSpec sa None (sa_columns sa) m) s))"

text \<open>The columns that \<open>UpdateOne\<close> returns: all of them, or those of \<open>Select\<close> after the id.\<close>

definition selectColumns :: "('id, 'r) ent_saver \<Rightarrow> string list \<Rightarrow> ent_error + string list" where
  "selectColumns sa sel =
     (if sel = [] then Inr (sa_columns sa)
      else case find (\<lambda>f. f \<notin> set (sa_columns sa)) sel of
        Some f \<Rightarrow> Inl (ValidationError f)
      | None \<Rightarrow> Inr (sa_idColumn sa # filter (\<lambda>f. f \<noteq> sa_idColumn sa) sel))"

definition updateOneSqlSave ::
  "('id, 'r) ent_saver \<Rightarrow> ('s, 'id, 'r) save_drv \<Rightarrow> string list \<Rightarrow> (('id, 'r) mutation \<times> 's, save_error, 'r) act" where
  "updateOneSqlSave sa sd sel = (\<lambda>(m, s).
     case runChecks (sa_updateChecks sa) m of
       Some e \<Rightarrow> (Inl (SaveFailed e), m, s)
     | None \<Rightarrow> (case mu_id m of
         None \<Rightarrow> (Inl (SaveFailed (ValidationError ''id'')), m, s)
       | Some i \<Rightarrow> (case selectColumns sa sel of
           Inl e \<Rightarrow> (Inl (SaveFailed e), m, s)
         | Inr columns \<Rightarrow> finishUpdate m (sd_UpdateNode sd (updateSpec sa (Some i) columns m) s))))"

definition updateSave where
  "updateSave sa sqlSave clk hooks = (\<lambda>ms. withHooks sqlSave hooks (setDefaults clk (sa_updateDefaults sa) ms))"

record ('s, 'id, 'r, 'v) update_methods =
  up_Where :: "('r \<Rightarrow> bool) list \<Rightarrow> ('id, 'r) mutation \<Rightarrow> ('id, 'r) mutation"
  up_Save :: "('s, save_error, 'id, 'r, 'v) ent_hook option list \<Rightarrow> (('id, 'r) mutation \<times> 's, save_error hook_error, 'v) act"
  up_SaveX :: "('s, save_error, 'id, 'r, 'v) ent_hook option list \<Rightarrow> (('id, 'r) mutation \<times> 's, save_error hook_panic, 'v) act"
  up_Exec :: "('s, save_error, 'id, 'r, 'v) ent_hook option list \<Rightarrow> (('id, 'r) mutation \<times> 's, save_error hook_error, unit) act"
  up_ExecX :: "('s, save_error, 'id, 'r, 'v) ent_hook option list \<Rightarrow> (('id, 'r) mutation \<times> 's, save_error hook_panic, unit) act"

definition updateMethods ::
  "('id, 'r) ent_saver \<Rightarrow> (('id, 'r) mutation \<times> 's, save_error, 'v) act \<Rightarrow> ('s \<Rightarrow> int \<times> 's) \<Rightarrow> ('s, 'id, 'r, 'v) update_methods" where
  "updateMethods sa sqlSave clk = \<lparr>up_Where = mutationWhere, up_Save = updateSave sa sqlSave clk,
     up_SaveX = (\<lambda>hooks. orHookPanic (updateSave sa sqlSave clk hooks)),
     up_Exec = (\<lambda>hooks. noValue (updateSave sa sqlSave clk hooks)),
     up_ExecX = (\<lambda>hooks. orHookPanic (noValue (updateSave sa sqlSave clk hooks)))\<rparr>"

text \<open>\<open>Select(field, fields...)\<close> replaces the columns that were selected before.\<close>

definition updateOneSelect :: "string \<Rightarrow> string list \<Rightarrow> string list \<Rightarrow> string list" where
  "updateOneSelect name names old = name # names"

section \<open>Upserts\<close>

text \<open>The methods of \<open>ItemUpsert\<close> for a field.\<close>

record upsert_setters =
  us_Set :: "ent_value \<Rightarrow> update_set \<Rightarrow> update_set"
  us_Update :: "update_set \<Rightarrow> update_set"
  us_Add :: "(ent_value \<Rightarrow> update_set \<Rightarrow> update_set) option"

definition upsertSetters :: "ent_field \<Rightarrow> upsert_setters" where
  "upsertSetters f = \<lparr>us_Set = (\<lambda>v u. u @ [SetTo (ef_name f) v]), us_Update = (\<lambda>u. u @ [SetExcluded (ef_name f)]),
     us_Add = (if ef_add f \<noteq> None then Some (\<lambda>v u. u @ [AddTo (ef_name f) v]) else None)\<rparr>"

record 'm on_conflict =
  oc_OnConflict :: "'m conflict_option list \<Rightarrow> 'm conflict_option list \<Rightarrow> 'm conflict_option list"
  oc_OnConflictColumns :: "string list \<Rightarrow> 'm conflict_option list \<Rightarrow> 'm conflict_option list"
  oc_UpdateNewValues :: "'m conflict_option list \<Rightarrow> 'm conflict_option list"
  oc_Ignore :: "'m conflict_option list \<Rightarrow> 'm conflict_option list"
  oc_DoNothing :: "'m conflict_option list \<Rightarrow> 'm conflict_option list"
  oc_Update :: "(update_set \<Rightarrow> update_set) \<Rightarrow> 'm conflict_option list \<Rightarrow> 'm conflict_option list"

definition onConflict :: "('m \<Rightarrow> update_set \<Rightarrow> update_set) \<Rightarrow> 'm on_conflict" where
  "onConflict keep = \<lparr>oc_OnConflict = (\<lambda>opts old. opts), oc_OnConflictColumns = (\<lambda>cols old. old @ [ConflictColumns cols]),
     oc_UpdateNewValues = (\<lambda>old. old @ [ResolveWithNewValues, ResolveWith keep]), oc_Ignore = (\<lambda>old. old @ [ResolveWithIgnore]),
     oc_DoNothing = (\<lambda>old. old @ [DoNothing]), oc_Update = (\<lambda>set old. old @ [ResolveWith (\<lambda>_. set)])\<rparr>"

text \<open>The methods of the same names of \<open>ItemUpsertOne\<close> and \<open>ItemUpsertBulk\<close> call \<open>Update\<close> with them.\<close>

record 'm upsert_calls =
  uc_Set :: "ent_value \<Rightarrow> 'm conflict_option list \<Rightarrow> 'm conflict_option list"
  uc_Add :: "(ent_value \<Rightarrow> 'm conflict_option list \<Rightarrow> 'm conflict_option list) option"
  uc_Update :: "'m conflict_option list \<Rightarrow> 'm conflict_option list"

definition upsertCalls :: "'m on_conflict \<Rightarrow> upsert_setters \<Rightarrow> 'm upsert_calls" where
  "upsertCalls oc st = \<lparr>uc_Set = (\<lambda>v. oc_Update oc (us_Set st v)), uc_Add = map_option (\<lambda>add v. oc_Update oc (add v)) (us_Add st),
     uc_Update = oc_Update oc (us_Update st)\<rparr>"

text \<open>The function of \<open>UpdateNewValues\<close>: the id and the fields that an update cannot set stay as they are, where the builder has set them.\<close>

definition keepImmutable :: "string \<Rightarrow> ent_field list \<Rightarrow> ('id, 'r) mutation \<Rightarrow> update_set \<Rightarrow> update_set" where
  "keepImmutable idColumn immutable m u =
     u @ (if mu_id m \<noteq> None then [SetIgnore idColumn] else []) @ map (SetIgnore \<circ> ef_name) (filter (\<lambda>f. fieldGet f m \<noteq> None) immutable)"

definition keepAllImmutable :: "string \<Rightarrow> ent_field list \<Rightarrow> ('id, 'r) mutation list \<Rightarrow> update_set \<Rightarrow> update_set" where
  "keepAllImmutable idColumn immutable ms u = fold (keepImmutable idColumn immutable) ms u"

datatype upsert_error = MissingOptions | CreateError "save_error hook_error" | BulkBuilderError bulk_error | ConflictOnBuilder nat

datatype upsert_panic = UpsertPanic upsert_error

record ('s, 'id, 'r) upsert_methods =
  un_Exec :: "('s, save_error, 'id, 'r, 'r) ent_hook option list \<Rightarrow> ('id, 'r) mutation conflict_option list \<Rightarrow> (('id, 'r) mutation \<times> 's, upsert_error, unit) act"
  un_ExecX :: "('s, save_error, 'id, 'r, 'r) ent_hook option list \<Rightarrow> ('id, 'r) mutation conflict_option list \<Rightarrow> (('id, 'r) mutation \<times> 's, upsert_panic, unit) act"
  un_ID :: "('s, save_error, 'id, 'r, 'r) ent_hook option list \<Rightarrow> ('id, 'r) mutation conflict_option list \<Rightarrow> (('id, 'r) mutation \<times> 's, upsert_error, 'id) act"
  un_IDX :: "('s, save_error, 'id, 'r, 'r) ent_hook option list \<Rightarrow> ('id, 'r) mutation conflict_option list \<Rightarrow> (('id, 'r) mutation \<times> 's, upsert_panic, 'id) act"

definition upsertID where
  "upsertID sa sd clk hooks conflict = andThen (mapErr CreateError (createSave sa sd clk conflict hooks)) (\<lambda>n. ok (sa_key sa n))"

definition upsertMethods :: "('id, 'r) ent_saver \<Rightarrow> ('s, 'id, 'r) save_drv \<Rightarrow> ('s \<Rightarrow> int \<times> 's) \<Rightarrow> ('s, 'id, 'r) upsert_methods" where
  "upsertMethods sa sd clk = \<lparr>
     un_Exec = (\<lambda>hooks conflict. if conflict = [] then fail MissingOptions else mapErr CreateError (noValue (createSave sa sd clk conflict hooks))),
     un_ExecX = (\<lambda>hooks conflict. mapErr (UpsertPanic \<circ> CreateError) (noValue (createSave sa sd clk conflict hooks))),
     un_ID = upsertID sa sd clk, un_IDX = (\<lambda>hooks conflict. mapErr UpsertPanic (upsertID sa sd clk hooks conflict))\<rparr>"

section \<open>Creating many\<close>

text \<open>
  A bulk builder keeps for each of its builders the mutation, and, when it is saved, the node and the statement. The mutator of a builder fills in
  its own node and statement and then calls the next one; the last one runs the statements. The options of the bulk builder go with them, those of
  single builders do not count; in the modules payment and login there are none.
\<close>

record ('id, 'r) bulk =
  bk_mutations :: "('id, 'r) mutation list"
  bk_nodes :: "'r option list"
  bk_specs :: "'id create_spec option list"

type_synonym ('s, 'id, 'r) bulk_hook = "(('id, 'r) bulk \<times> 's, save_error, 'id, 'r, 'r) ent_hook option"

definition batchCreate ::
  "('s, 'id, 'r) save_drv \<Rightarrow> ('id, 'r) mutation list conflict_option list \<Rightarrow> (('id, 'r) bulk \<times> 's, save_error hook_error, unit) act" where
  "batchCreate sd conflict = (\<lambda>(b, s).
     case sd_BatchCreate sd (List.map_filter id (bk_specs b)) (map (atMutation (bk_mutations b)) conflict) s of
       (Inl e, t) \<Rightarrow> (Inl (ExecError (SaveFailed (createErr e))), b, t)
     | (Inr vs, t) \<Rightarrow> (Inr (), b\<lparr>bk_specs := map2 (\<lambda>sp v. map_option (\<lambda>x. x\<lparr>cs_id := v\<rparr>) sp) (bk_specs b) vs\<rparr>, t))"

text \<open>What a mutator does once the statements have run: the id that was found, if the node has none yet.\<close>

definition bulkId :: "('id, 'r) ent_saver \<Rightarrow> 'r \<Rightarrow> 'id spec_value \<Rightarrow> 'r option" where
  "bulkId sa node v =
     (if v \<noteq> NilID \<and> sa_key sa node = sa_zero sa then map_option (\<lambda>i. sa_setKey sa i node) (sa_assertId sa v) else Some node)"

definition bulkBase ::
  "('id, 'r) ent_saver \<Rightarrow> nat \<Rightarrow> (('id, 'r) bulk \<times> 's, save_error hook_error, unit) act \<Rightarrow> (('id, 'r) bulk \<times> 's, save_error, 'id, 'r, 'r) mutator" where
  "bulkBase sa i nxt m' = (\<lambda>(m, b, s).
     if mu_typ m' \<noteq> sa_typ sa then (Inl (UnexpectedMutation (mu_typ m')), m, b, s)
     else case runChecks (sa_createChecks sa) m of
       Some e \<Rightarrow> (Inl (ExecError (SaveFailed e)), m, b, s)
     | None \<Rightarrow>
        (let (node, spec) = createSpec sa [] m'
         in case nxt (b\<lparr>bk_mutations := (bk_mutations b)[i := m'], bk_nodes := (bk_nodes b)[i := Some node], bk_specs := (bk_specs b)[i := Some spec]\<rparr>, s) of
           (Inl e, b', t) \<Rightarrow> (Inl e, m', b', t)
         | (Inr _, b', t) \<Rightarrow>
             (case bulkId sa node (case bk_specs b' ! i of Some sp \<Rightarrow> cs_id sp | None \<Rightarrow> NilID) of
                None \<Rightarrow> (Inl (ExecError TypeAssertion), m', b', t)
              | Some n \<Rightarrow> (Inr (Some n), m'\<lparr>mu_id := Some (sa_key sa n), mu_done := True\<rparr>, b'\<lparr>bk_nodes := (bk_nodes b')[i := Some n]\<rparr>, t))))"

fun bulkStep ::
  "('id, 'r) ent_saver \<Rightarrow> ('s, 'id, 'r) save_drv \<Rightarrow> ('id, 'r) mutation list conflict_option list \<Rightarrow> nat \<Rightarrow> ('s, 'id, 'r) bulk_hook list list
     \<Rightarrow> (('id, 'r) bulk \<times> 's, save_error hook_error, unit) act" where
  "bulkStep sa sd conflict i [] = batchCreate sd conflict"
| "bulkStep sa sd conflict i (hooks # rest) = (\<lambda>(b, s).
     let m = bk_mutations b ! i in
     case wrapHooks hooks (bulkBase sa i (bulkStep sa sd conflict (Suc i) rest)) of
       None \<Rightarrow> (Inl (ExecError NilHook), b, s)
     | Some mut \<Rightarrow>
        (case mut m (m, b, s) of (res, m', b', t) \<Rightarrow>
           (map_sum id (\<lambda>_. ()) res, b'\<lparr>bk_mutations := (bk_mutations b')[i := m']\<rparr>, t)))"

text \<open>The loop over the builders: their defaults, and their hooks put around their mutators, where a nil hook panics.\<close>

fun prepareBulk ::
  "('id, 'r) ent_saver \<Rightarrow> ('s \<Rightarrow> int \<times> 's) \<Rightarrow> ('s, 'id, 'r) bulk_hook list list \<Rightarrow> ('id, 'r) mutation list \<Rightarrow> ('s, save_error hook_error, ('id, 'r) mutation list) act" where
  "prepareBulk sa clk (hooks # rest) (m # ms) s =
     (case setDefaults clk (sa_createDefaults sa) (m, s) of (m', t) \<Rightarrow>
        if None \<in> set hooks then (Inl (ExecError NilHook), t)
        else andThen (prepareBulk sa clk rest ms) (\<lambda>ms'. ok (m' # ms')) t)"
| "prepareBulk sa clk _ _ s = (Inr [], s)"

text \<open>A bulk builder is the mutations of its builders, or the error it was made with; \<open>hooks\<close> are those of its builders, one list each.\<close>

definition bulkSave ::
  "('id, 'r) ent_saver \<Rightarrow> ('s, 'id, 'r) save_drv \<Rightarrow> ('s \<Rightarrow> int \<times> 's) \<Rightarrow> ('id, 'r) mutation list conflict_option list \<Rightarrow> ('s, 'id, 'r) bulk_hook list list
     \<Rightarrow> bulk_error + ('id, 'r) mutation list \<Rightarrow> ('s, upsert_error, 'r option list) act" where
  "bulkSave sa sd clk conflict hooks builders = (case builders of
       Inl e \<Rightarrow> fail (BulkBuilderError e)
     | Inr ms \<Rightarrow> andThen (mapErr CreateError (prepareBulk sa clk hooks ms)) (\<lambda>ms' s.
         if ms' = [] then (Inr [], s)
         else case bulkStep sa sd conflict 0 hooks (\<lparr>bk_mutations = ms', bk_nodes = map (\<lambda>_. None) ms', bk_specs = map (\<lambda>_. None) ms'\<rparr>, s) of
           (Inl e, _, t) \<Rightarrow> (Inl (CreateError e), t)
         | (Inr _, b, t) \<Rightarrow> (Inr (bk_nodes b), t)))"

record ('s, 'id, 'r) bulk_methods =
  bm_Save :: "('id, 'r) mutation list conflict_option list \<Rightarrow> ('s, 'id, 'r) bulk_hook list list \<Rightarrow> bulk_error + ('id, 'r) mutation list \<Rightarrow> ('s, upsert_error, 'r option list) act"
  bm_SaveX :: "('id, 'r) mutation list conflict_option list \<Rightarrow> ('s, 'id, 'r) bulk_hook list list \<Rightarrow> bulk_error + ('id, 'r) mutation list \<Rightarrow> ('s, upsert_panic, 'r option list) act"
  bm_Exec :: "('id, 'r) mutation list conflict_option list \<Rightarrow> ('s, 'id, 'r) bulk_hook list list \<Rightarrow> bulk_error + ('id, 'r) mutation list \<Rightarrow> ('s, upsert_error, unit) act"
  bm_ExecX :: "('id, 'r) mutation list conflict_option list \<Rightarrow> ('s, 'id, 'r) bulk_hook list list \<Rightarrow> bulk_error + ('id, 'r) mutation list \<Rightarrow> ('s, upsert_panic, unit) act"

definition bulkMethods :: "('id, 'r) ent_saver \<Rightarrow> ('s, 'id, 'r) save_drv \<Rightarrow> ('s \<Rightarrow> int \<times> 's) \<Rightarrow> ('s, 'id, 'r) bulk_methods" where
  "bulkMethods sa sd clk = \<lparr>bm_Save = bulkSave sa sd clk,
     bm_SaveX = (\<lambda>conflict hooks bs. mapErr UpsertPanic (bulkSave sa sd clk conflict hooks bs)),
     bm_Exec = (\<lambda>conflict hooks bs. noValue (bulkSave sa sd clk conflict hooks bs)),
     bm_ExecX = (\<lambda>conflict hooks bs. mapErr UpsertPanic (noValue (bulkSave sa sd clk conflict hooks bs)))\<rparr>"

text \<open>
  The bulk upsert: \<open>own\<close> says of each builder whether an \<open>OnConflict\<close> was set on it, which belongs on the bulk builder; \<open>ExecX\<close> does not ask.
\<close>

definition upsertBulkExec where
  "upsertBulkExec sa sd clk own conflict hooks bs = (case bs of
       Inl e \<Rightarrow> fail (BulkBuilderError e)
     | Inr _ \<Rightarrow> (case find (\<lambda>i. own ! i) [0..<length own] of
         Some i \<Rightarrow> fail (ConflictOnBuilder i)
       | None \<Rightarrow> if conflict = [] then fail MissingOptions else noValue (bulkSave sa sd clk conflict hooks bs)))"

record ('s, 'id, 'r) upsert_bulk_methods =
  ub_Exec :: "bool list \<Rightarrow> ('id, 'r) mutation list conflict_option list \<Rightarrow> ('s, 'id, 'r) bulk_hook list list \<Rightarrow> bulk_error + ('id, 'r) mutation list \<Rightarrow> ('s, upsert_error, unit) act"
  ub_ExecX :: "('id, 'r) mutation list conflict_option list \<Rightarrow> ('s, 'id, 'r) bulk_hook list list \<Rightarrow> bulk_error + ('id, 'r) mutation list \<Rightarrow> ('s, upsert_panic, unit) act"

definition upsertBulkMethods :: "('id, 'r) ent_saver \<Rightarrow> ('s, 'id, 'r) save_drv \<Rightarrow> ('s \<Rightarrow> int \<times> 's) \<Rightarrow> ('s, 'id, 'r) upsert_bulk_methods" where
  "upsertBulkMethods sa sd clk = \<lparr>ub_Exec = upsertBulkExec sa sd clk,
     ub_ExecX = (\<lambda>conflict hooks bs. mapErr UpsertPanic (noValue (bulkSave sa sd clk conflict hooks bs)))\<rparr>"

section \<open>The saves of Item\<close>

definition Item_createDefaults :: "(ent_field \<times> default) list" where
  "Item_createDefaults = [(Item_UsedCount, DefaultValue (VInt64 0)), (Item_ExpireAtUnix, DefaultValue (VInt64 0)), (Item_Source, DefaultValue (VString '''')), (Item_CreateAtUnix, DefaultNow), (Item_UpdateAtUnix, DefaultNow)]"

definition Item_createChecks :: "(ent_field \<times> check) list" where
  "Item_createChecks = [(Item_UID, Required), (Item_ItemID, Required), (Item_Count, Required), (Item_Count, Valid (\<lambda>v. CountValidator (intOf (Some v)))), (Item_UsedCount, Required), (Item_UsedCount, Valid (\<lambda>v. UsedCountValidator (intOf (Some v)))), (Item_ExpireAtUnix, Required), (Item_Source, Required), (Item_Source, Valid (\<lambda>v. SourceValidator (strOf (Some v)))), (Item_CreateAtUnix, Required), (Item_UpdateAtUnix, Required)]"

definition Item_node :: "int \<Rightarrow> (string \<Rightarrow> ent_value option) \<Rightarrow> Item" where
  "Item_node i get = \<lparr>it_ID = i,
     it_UID = uintOf (get ''uid''),
     it_ItemID = intOf (get ''item_id''),
     it_Count = intOf (get ''count''),
     it_UsedCount = intOf (get ''used_count''),
     it_ExpireAtUnix = intOf (get ''expire_at_unix''),
     it_Source = strOf (get ''source''),
     it_CreateAtUnix = intOf (get ''create_at_unix''),
     it_UpdateAtUnix = intOf (get ''update_at_unix'')\<rparr>"

definition Item_createFields :: "ent_field list" where "Item_createFields = [Item_UID, Item_ItemID, Item_Count, Item_UsedCount, Item_ExpireAtUnix, Item_Source, Item_CreateAtUnix, Item_UpdateAtUnix]"

definition Item_updateDefaults :: "(ent_field \<times> default) list" where "Item_updateDefaults = [(Item_UpdateAtUnix, DefaultNow)]"

definition Item_updateChecks :: "(ent_field \<times> check) list" where
  "Item_updateChecks = [(Item_Count, Valid (\<lambda>v. CountValidator (intOf (Some v)))), (Item_UsedCount, Valid (\<lambda>v. UsedCountValidator (intOf (Some v))))]"

definition Item_saver :: "(int, Item) ent_saver" where
  "Item_saver = \<lparr>sa_typ = ''Item'', sa_table = ''items'', sa_idColumn = ''id'', sa_columns = Item_columns, sa_zero = 0, sa_key = it_ID,
     sa_setKey = (\<lambda>i r. r\<lparr>it_ID := i\<rparr>), sa_sameId = sameInt64, sa_assertId = assertInt64, sa_node = Item_node,
     sa_createFields = Item_createFields, sa_createDefaults = Item_createDefaults, sa_createChecks = Item_createChecks,
     sa_updateDefaults = Item_updateDefaults, sa_updateChecks = Item_updateChecks,
     sa_set = [Item_Count, Item_UsedCount, Item_ExpireAtUnix, Item_UpdateAtUnix], sa_add = [Item_Count, Item_UsedCount, Item_ExpireAtUnix, Item_UpdateAtUnix],
     sa_append = [], sa_clear = []\<rparr>"

definition ItemCreate_methods :: "('s, int, Item) save_drv \<Rightarrow> ('s \<Rightarrow> int \<times> 's) \<Rightarrow> (int, Item) mutation conflict_option list \<Rightarrow> ('s, int, Item) create_methods" where
  "ItemCreate_methods = createMethods Item_saver"

definition Item_createSave :: "('s, int, Item) save_drv \<Rightarrow> (int, Item) mutation conflict_option list \<Rightarrow> ((int, Item) mutation \<times> 's, save_error, Item) act" where
  "Item_createSave = createSqlSave Item_saver"

definition Item_updateSave :: "('s, int, Item) save_drv \<Rightarrow> ((int, Item) mutation \<times> 's, save_error, nat) act" where "Item_updateSave = updateSqlSave Item_saver"

definition Item_updateOneSave :: "('s, int, Item) save_drv \<Rightarrow> string list \<Rightarrow> ((int, Item) mutation \<times> 's, save_error, Item) act" where "Item_updateOneSave = updateOneSqlSave Item_saver"

definition ItemUpdate_methods :: "('s, int, Item) save_drv \<Rightarrow> ('s \<Rightarrow> int \<times> 's) \<Rightarrow> ('s, int, Item, nat) update_methods" where
  "ItemUpdate_methods sd clk = updateMethods Item_saver (Item_updateSave sd) clk"

definition ItemUpdateOne_methods :: "('s, int, Item) save_drv \<Rightarrow> string list \<Rightarrow> ('s \<Rightarrow> int \<times> 's) \<Rightarrow> ('s, int, Item, Item) update_methods" where
  "ItemUpdateOne_methods sd sel clk = updateMethods Item_saver (Item_updateOneSave sd sel) clk"

definition Item_immutable :: "ent_field list" where "Item_immutable = [Item_UID, Item_ItemID, Item_Source, Item_CreateAtUnix]"

definition ItemUpsert_Count :: upsert_setters where "ItemUpsert_Count = upsertSetters Item_Count"

definition ItemUpsert_UsedCount :: upsert_setters where "ItemUpsert_UsedCount = upsertSetters Item_UsedCount"

definition ItemUpsert_ExpireAtUnix :: upsert_setters where "ItemUpsert_ExpireAtUnix = upsertSetters Item_ExpireAtUnix"

definition ItemUpsert_UpdateAtUnix :: upsert_setters where "ItemUpsert_UpdateAtUnix = upsertSetters Item_UpdateAtUnix"

definition ItemUpsertOne_options :: "(int, Item) mutation on_conflict" where
  "ItemUpsertOne_options = onConflict (keepImmutable ''id'' Item_immutable)"

definition ItemUpsertOne_Count :: "(int, Item) mutation upsert_calls" where
  "ItemUpsertOne_Count = upsertCalls ItemUpsertOne_options ItemUpsert_Count"

definition ItemUpsertOne_UsedCount :: "(int, Item) mutation upsert_calls" where
  "ItemUpsertOne_UsedCount = upsertCalls ItemUpsertOne_options ItemUpsert_UsedCount"

definition ItemUpsertOne_ExpireAtUnix :: "(int, Item) mutation upsert_calls" where
  "ItemUpsertOne_ExpireAtUnix = upsertCalls ItemUpsertOne_options ItemUpsert_ExpireAtUnix"

definition ItemUpsertOne_UpdateAtUnix :: "(int, Item) mutation upsert_calls" where
  "ItemUpsertOne_UpdateAtUnix = upsertCalls ItemUpsertOne_options ItemUpsert_UpdateAtUnix"

definition ItemCreate_OnConflict :: "(int, Item) mutation conflict_option list \<Rightarrow> (int, Item) mutation conflict_option list \<Rightarrow> (int, Item) mutation conflict_option list" where
  "ItemCreate_OnConflict = oc_OnConflict ItemUpsertOne_options"

definition ItemCreate_OnConflictColumns :: "string list \<Rightarrow> (int, Item) mutation conflict_option list \<Rightarrow> (int, Item) mutation conflict_option list" where
  "ItemCreate_OnConflictColumns = oc_OnConflictColumns ItemUpsertOne_options"

definition ItemUpsertBulk_options :: "(int, Item) mutation list on_conflict" where
  "ItemUpsertBulk_options = onConflict (keepAllImmutable ''id'' Item_immutable)"

definition ItemUpsertBulk_Count :: "(int, Item) mutation list upsert_calls" where
  "ItemUpsertBulk_Count = upsertCalls ItemUpsertBulk_options ItemUpsert_Count"

definition ItemUpsertBulk_UsedCount :: "(int, Item) mutation list upsert_calls" where
  "ItemUpsertBulk_UsedCount = upsertCalls ItemUpsertBulk_options ItemUpsert_UsedCount"

definition ItemUpsertBulk_ExpireAtUnix :: "(int, Item) mutation list upsert_calls" where
  "ItemUpsertBulk_ExpireAtUnix = upsertCalls ItemUpsertBulk_options ItemUpsert_ExpireAtUnix"

definition ItemUpsertBulk_UpdateAtUnix :: "(int, Item) mutation list upsert_calls" where
  "ItemUpsertBulk_UpdateAtUnix = upsertCalls ItemUpsertBulk_options ItemUpsert_UpdateAtUnix"

definition ItemCreateBulk_OnConflict :: "(int, Item) mutation list conflict_option list \<Rightarrow> (int, Item) mutation list conflict_option list \<Rightarrow> (int, Item) mutation list conflict_option list" where
  "ItemCreateBulk_OnConflict = oc_OnConflict ItemUpsertBulk_options"

definition ItemCreateBulk_OnConflictColumns :: "string list \<Rightarrow> (int, Item) mutation list conflict_option list \<Rightarrow> (int, Item) mutation list conflict_option list" where
  "ItemCreateBulk_OnConflictColumns = oc_OnConflictColumns ItemUpsertBulk_options"

definition ItemUpsertOne_methods :: "('s, int, Item) save_drv \<Rightarrow> ('s \<Rightarrow> int \<times> 's) \<Rightarrow> ('s, int, Item) upsert_methods" where "ItemUpsertOne_methods = upsertMethods Item_saver"

definition ItemUpsertBulk_methods :: "('s, int, Item) save_drv \<Rightarrow> ('s \<Rightarrow> int \<times> 's) \<Rightarrow> ('s, int, Item) upsert_bulk_methods" where "ItemUpsertBulk_methods = upsertBulkMethods Item_saver"

definition ItemCreateBulk_methods :: "('s, int, Item) save_drv \<Rightarrow> ('s \<Rightarrow> int \<times> 's) \<Rightarrow> ('s, int, Item) bulk_methods" where "ItemCreateBulk_methods = bulkMethods Item_saver"

section \<open>The saves of ItemNonce\<close>

definition ItemNonce_createDefaults :: "(ent_field \<times> default) list" where
  "ItemNonce_createDefaults = [(ItemNonce_CreateAtUnix, DefaultNow)]"

definition ItemNonce_createChecks :: "(ent_field \<times> check) list" where
  "ItemNonce_createChecks = [(ItemNonce_UID, Required), (ItemNonce_Nonce, Required), (ItemNonce_Nonce, Valid (\<lambda>v. NonceValidator (strOf (Some v)))), (ItemNonce_OpType, Required), (ItemNonce_CreateAtUnix, Required)]"

definition ItemNonce_node :: "uint64 \<Rightarrow> (string \<Rightarrow> ent_value option) \<Rightarrow> ItemNonce" where
  "ItemNonce_node i get = \<lparr>in_ID = i,
     in_UID = uintOf (get ''uid''),
     in_Nonce = strOf (get ''nonce''),
     in_OpType = intOf (get ''op_type''),
     in_CreateAtUnix = intOf (get ''create_at_unix'')\<rparr>"

definition ItemNonce_createFields :: "ent_field list" where "ItemNonce_createFields = [ItemNonce_UID, ItemNonce_Nonce, ItemNonce_OpType, ItemNonce_CreateAtUnix]"

definition ItemNonce_saver :: "(uint64, ItemNonce) ent_saver" where
  "ItemNonce_saver = \<lparr>sa_typ = ''ItemNonce'', sa_table = ''item_nonces'', sa_idColumn = ''id'', sa_columns = ItemNonce_columns, sa_zero = 0, sa_key = in_ID,
     sa_setKey = (\<lambda>i r. r\<lparr>in_ID := i\<rparr>), sa_sameId = sameUint64, sa_assertId = assertUint64, sa_node = ItemNonce_node,
     sa_createFields = ItemNonce_createFields, sa_createDefaults = ItemNonce_createDefaults, sa_createChecks = ItemNonce_createChecks,
     sa_updateDefaults = [], sa_updateChecks = [],
     sa_set = [], sa_add = [],
     sa_append = [], sa_clear = []\<rparr>"

definition ItemNonceCreate_methods :: "('s, uint64, ItemNonce) save_drv \<Rightarrow> ('s \<Rightarrow> int \<times> 's) \<Rightarrow> (uint64, ItemNonce) mutation conflict_option list \<Rightarrow> ('s, uint64, ItemNonce) create_methods" where
  "ItemNonceCreate_methods = createMethods ItemNonce_saver"

definition ItemNonce_createSave :: "('s, uint64, ItemNonce) save_drv \<Rightarrow> (uint64, ItemNonce) mutation conflict_option list \<Rightarrow> ((uint64, ItemNonce) mutation \<times> 's, save_error, ItemNonce) act" where
  "ItemNonce_createSave = createSqlSave ItemNonce_saver"

definition ItemNonce_updateSave :: "('s, uint64, ItemNonce) save_drv \<Rightarrow> ((uint64, ItemNonce) mutation \<times> 's, save_error, nat) act" where "ItemNonce_updateSave = updateSqlSave ItemNonce_saver"

definition ItemNonce_updateOneSave :: "('s, uint64, ItemNonce) save_drv \<Rightarrow> string list \<Rightarrow> ((uint64, ItemNonce) mutation \<times> 's, save_error, ItemNonce) act" where "ItemNonce_updateOneSave = updateOneSqlSave ItemNonce_saver"

definition ItemNonceUpdate_methods :: "('s, uint64, ItemNonce) save_drv \<Rightarrow> ('s \<Rightarrow> int \<times> 's) \<Rightarrow> ('s, uint64, ItemNonce, nat) update_methods" where
  "ItemNonceUpdate_methods sd clk = updateMethods ItemNonce_saver (ItemNonce_updateSave sd) clk"

definition ItemNonceUpdateOne_methods :: "('s, uint64, ItemNonce) save_drv \<Rightarrow> string list \<Rightarrow> ('s \<Rightarrow> int \<times> 's) \<Rightarrow> ('s, uint64, ItemNonce, ItemNonce) update_methods" where
  "ItemNonceUpdateOne_methods sd sel clk = updateMethods ItemNonce_saver (ItemNonce_updateOneSave sd sel) clk"

definition ItemNonce_immutable :: "ent_field list" where "ItemNonce_immutable = [ItemNonce_UID, ItemNonce_Nonce, ItemNonce_OpType, ItemNonce_CreateAtUnix]"

definition ItemNonceUpsertOne_options :: "(uint64, ItemNonce) mutation on_conflict" where
  "ItemNonceUpsertOne_options = onConflict (keepImmutable ''id'' ItemNonce_immutable)"

definition ItemNonceCreate_OnConflict :: "(uint64, ItemNonce) mutation conflict_option list \<Rightarrow> (uint64, ItemNonce) mutation conflict_option list \<Rightarrow> (uint64, ItemNonce) mutation conflict_option list" where
  "ItemNonceCreate_OnConflict = oc_OnConflict ItemNonceUpsertOne_options"

definition ItemNonceCreate_OnConflictColumns :: "string list \<Rightarrow> (uint64, ItemNonce) mutation conflict_option list \<Rightarrow> (uint64, ItemNonce) mutation conflict_option list" where
  "ItemNonceCreate_OnConflictColumns = oc_OnConflictColumns ItemNonceUpsertOne_options"

definition ItemNonceUpsertBulk_options :: "(uint64, ItemNonce) mutation list on_conflict" where
  "ItemNonceUpsertBulk_options = onConflict (keepAllImmutable ''id'' ItemNonce_immutable)"

definition ItemNonceCreateBulk_OnConflict :: "(uint64, ItemNonce) mutation list conflict_option list \<Rightarrow> (uint64, ItemNonce) mutation list conflict_option list \<Rightarrow> (uint64, ItemNonce) mutation list conflict_option list" where
  "ItemNonceCreateBulk_OnConflict = oc_OnConflict ItemNonceUpsertBulk_options"

definition ItemNonceCreateBulk_OnConflictColumns :: "string list \<Rightarrow> (uint64, ItemNonce) mutation list conflict_option list \<Rightarrow> (uint64, ItemNonce) mutation list conflict_option list" where
  "ItemNonceCreateBulk_OnConflictColumns = oc_OnConflictColumns ItemNonceUpsertBulk_options"

definition ItemNonceUpsertOne_methods :: "('s, uint64, ItemNonce) save_drv \<Rightarrow> ('s \<Rightarrow> int \<times> 's) \<Rightarrow> ('s, uint64, ItemNonce) upsert_methods" where "ItemNonceUpsertOne_methods = upsertMethods ItemNonce_saver"

definition ItemNonceUpsertBulk_methods :: "('s, uint64, ItemNonce) save_drv \<Rightarrow> ('s \<Rightarrow> int \<times> 's) \<Rightarrow> ('s, uint64, ItemNonce) upsert_bulk_methods" where "ItemNonceUpsertBulk_methods = upsertBulkMethods ItemNonce_saver"

definition ItemNonceCreateBulk_methods :: "('s, uint64, ItemNonce) save_drv \<Rightarrow> ('s \<Rightarrow> int \<times> 's) \<Rightarrow> ('s, uint64, ItemNonce) bulk_methods" where "ItemNonceCreateBulk_methods = bulkMethods ItemNonce_saver"

section \<open>The saves of ItemUserLock\<close>

definition ItemUserLock_node :: "uint64 \<Rightarrow> (string \<Rightarrow> ent_value option) \<Rightarrow> ItemUserLock" where
  "ItemUserLock_node i get = \<lparr>il_ID = i\<rparr>"

definition ItemUserLock_createFields :: "ent_field list" where "ItemUserLock_createFields = []"

definition ItemUserLock_saver :: "(uint64, ItemUserLock) ent_saver" where
  "ItemUserLock_saver = \<lparr>sa_typ = ''ItemUserLock'', sa_table = ''item_user_locks'', sa_idColumn = ''id'', sa_columns = ItemUserLock_columns, sa_zero = 0, sa_key = il_ID,
     sa_setKey = (\<lambda>i r. r\<lparr>il_ID := i\<rparr>), sa_sameId = sameUint64, sa_assertId = assertUint64, sa_node = ItemUserLock_node,
     sa_createFields = ItemUserLock_createFields, sa_createDefaults = [], sa_createChecks = [],
     sa_updateDefaults = [], sa_updateChecks = [],
     sa_set = [], sa_add = [],
     sa_append = [], sa_clear = []\<rparr>"

definition ItemUserLockCreate_methods :: "('s, uint64, ItemUserLock) save_drv \<Rightarrow> ('s \<Rightarrow> int \<times> 's) \<Rightarrow> (uint64, ItemUserLock) mutation conflict_option list \<Rightarrow> ('s, uint64, ItemUserLock) create_methods" where
  "ItemUserLockCreate_methods = createMethods ItemUserLock_saver"

definition ItemUserLock_createSave :: "('s, uint64, ItemUserLock) save_drv \<Rightarrow> (uint64, ItemUserLock) mutation conflict_option list \<Rightarrow> ((uint64, ItemUserLock) mutation \<times> 's, save_error, ItemUserLock) act" where
  "ItemUserLock_createSave = createSqlSave ItemUserLock_saver"

definition ItemUserLock_updateSave :: "('s, uint64, ItemUserLock) save_drv \<Rightarrow> ((uint64, ItemUserLock) mutation \<times> 's, save_error, nat) act" where "ItemUserLock_updateSave = updateSqlSave ItemUserLock_saver"

definition ItemUserLock_updateOneSave :: "('s, uint64, ItemUserLock) save_drv \<Rightarrow> string list \<Rightarrow> ((uint64, ItemUserLock) mutation \<times> 's, save_error, ItemUserLock) act" where "ItemUserLock_updateOneSave = updateOneSqlSave ItemUserLock_saver"

definition ItemUserLockUpdate_methods :: "('s, uint64, ItemUserLock) save_drv \<Rightarrow> ('s \<Rightarrow> int \<times> 's) \<Rightarrow> ('s, uint64, ItemUserLock, nat) update_methods" where
  "ItemUserLockUpdate_methods sd clk = updateMethods ItemUserLock_saver (ItemUserLock_updateSave sd) clk"

definition ItemUserLockUpdateOne_methods :: "('s, uint64, ItemUserLock) save_drv \<Rightarrow> string list \<Rightarrow> ('s \<Rightarrow> int \<times> 's) \<Rightarrow> ('s, uint64, ItemUserLock, ItemUserLock) update_methods" where
  "ItemUserLockUpdateOne_methods sd sel clk = updateMethods ItemUserLock_saver (ItemUserLock_updateOneSave sd sel) clk"

definition ItemUserLock_immutable :: "ent_field list" where "ItemUserLock_immutable = []"

definition ItemUserLockUpsertOne_options :: "(uint64, ItemUserLock) mutation on_conflict" where
  "ItemUserLockUpsertOne_options = onConflict (keepImmutable ''id'' ItemUserLock_immutable)"

definition ItemUserLockCreate_OnConflict :: "(uint64, ItemUserLock) mutation conflict_option list \<Rightarrow> (uint64, ItemUserLock) mutation conflict_option list \<Rightarrow> (uint64, ItemUserLock) mutation conflict_option list" where
  "ItemUserLockCreate_OnConflict = oc_OnConflict ItemUserLockUpsertOne_options"

definition ItemUserLockCreate_OnConflictColumns :: "string list \<Rightarrow> (uint64, ItemUserLock) mutation conflict_option list \<Rightarrow> (uint64, ItemUserLock) mutation conflict_option list" where
  "ItemUserLockCreate_OnConflictColumns = oc_OnConflictColumns ItemUserLockUpsertOne_options"

definition ItemUserLockUpsertBulk_options :: "(uint64, ItemUserLock) mutation list on_conflict" where
  "ItemUserLockUpsertBulk_options = onConflict (keepAllImmutable ''id'' ItemUserLock_immutable)"

definition ItemUserLockCreateBulk_OnConflict :: "(uint64, ItemUserLock) mutation list conflict_option list \<Rightarrow> (uint64, ItemUserLock) mutation list conflict_option list \<Rightarrow> (uint64, ItemUserLock) mutation list conflict_option list" where
  "ItemUserLockCreateBulk_OnConflict = oc_OnConflict ItemUserLockUpsertBulk_options"

definition ItemUserLockCreateBulk_OnConflictColumns :: "string list \<Rightarrow> (uint64, ItemUserLock) mutation list conflict_option list \<Rightarrow> (uint64, ItemUserLock) mutation list conflict_option list" where
  "ItemUserLockCreateBulk_OnConflictColumns = oc_OnConflictColumns ItemUserLockUpsertBulk_options"

definition ItemUserLockUpsertOne_methods :: "('s, uint64, ItemUserLock) save_drv \<Rightarrow> ('s \<Rightarrow> int \<times> 's) \<Rightarrow> ('s, uint64, ItemUserLock) upsert_methods" where "ItemUserLockUpsertOne_methods = upsertMethods ItemUserLock_saver"

definition ItemUserLockUpsertBulk_methods :: "('s, uint64, ItemUserLock) save_drv \<Rightarrow> ('s \<Rightarrow> int \<times> 's) \<Rightarrow> ('s, uint64, ItemUserLock) upsert_bulk_methods" where "ItemUserLockUpsertBulk_methods = upsertBulkMethods ItemUserLock_saver"

definition ItemUserLockCreateBulk_methods :: "('s, uint64, ItemUserLock) save_drv \<Rightarrow> ('s \<Rightarrow> int \<times> 's) \<Rightarrow> ('s, uint64, ItemUserLock) bulk_methods" where "ItemUserLockCreateBulk_methods = bulkMethods ItemUserLock_saver"

section \<open>The saves of PaymentOrder\<close>

definition PaymentOrder_createDefaults :: "(ent_field \<times> default) list" where
  "PaymentOrder_createDefaults = [(PaymentOrder_Status, DefaultValue (VNamed ''OrderStatus'' OrderStatusPending)), (PaymentOrder_RealAmountUnit, DefaultValue (VInt64 0)), (PaymentOrder_RealAmountNanos, DefaultValue (VInt32 0)), (PaymentOrder_RealCurrency, DefaultValue (VString '''')), (PaymentOrder_RetryTimes, DefaultValue (VInt32 0)), (PaymentOrder_CancelReason, DefaultValue (VString '''')), (PaymentOrder_RefundReason, DefaultValue (VString '''')), (PaymentOrder_IsSandbox, DefaultValue (VBool False)), (PaymentOrder_CreateAtUnix, DefaultNow), (PaymentOrder_UpdateAtUnix, DefaultNow), (PaymentOrder_PayAtUnix, DefaultValue (VInt64 0)), (PaymentOrder_RefundAtUnix, DefaultValue (VInt64 0)), (PaymentOrder_CancelAtUnix, DefaultValue (VInt64 0))]"

definition PaymentOrder_createChecks :: "(ent_field \<times> check) list" where
  "PaymentOrder_createChecks = [(PaymentOrder_UID, Required), (PaymentOrder_ProductID, Required), (PaymentOrder_ThirdPartyProductID, Required), (PaymentOrder_PaymentType, Required), (PaymentOrder_Status, Required), (PaymentOrder_OrderAmountUnit, Required), (PaymentOrder_OrderAmountNanos, Required), (PaymentOrder_OrderCurrency, Required), (PaymentOrder_RealAmountUnit, Required), (PaymentOrder_RealAmountNanos, Required), (PaymentOrder_RealCurrency, Required), (PaymentOrder_RetryTimes, Required), (PaymentOrder_CancelReason, Required), (PaymentOrder_RefundReason, Required), (PaymentOrder_IsSandbox, Required), (PaymentOrder_CreateAtUnix, Required), (PaymentOrder_UpdateAtUnix, Required), (PaymentOrder_PayAtUnix, Required), (PaymentOrder_RefundAtUnix, Required), (PaymentOrder_CancelAtUnix, Required)]"

definition PaymentOrder_node :: "uint64 \<Rightarrow> (string \<Rightarrow> ent_value option) \<Rightarrow> PaymentOrder" where
  "PaymentOrder_node i get = \<lparr>po_ID = i,
     po_UID = uintOf (get ''uid''),
     po_ProductID = intOf (get ''product_id''),
     po_ThirdPartyProductID = strOf (get ''third_party_product_id''),
     po_PaymentType = intOf (get ''payment_type''),
     po_Status = intOf (get ''status''),
     po_OrderAmountUnit = intOf (get ''order_amount_unit''),
     po_OrderAmountNanos = intOf (get ''order_amount_nanos''),
     po_OrderCurrency = strOf (get ''order_currency''),
     po_RealAmountUnit = intOf (get ''real_amount_unit''),
     po_RealAmountNanos = intOf (get ''real_amount_nanos''),
     po_RealCurrency = strOf (get ''real_currency''),
     po_ThirdPartyOrderID = ptrOf (get ''third_party_order_id''),
     po_Credential = ptrOf (get ''credential''),
     po_CredentialHash = ptrOf (get ''credential_hash''),
     po_Rewards = rawOf (get ''rewards''),
     po_RetryTimes = intOf (get ''retry_times''),
     po_CancelReason = strOf (get ''cancel_reason''),
     po_RefundReason = strOf (get ''refund_reason''),
     po_IsSandbox = boolOf (get ''is_sandbox''),
     po_CreateAtUnix = intOf (get ''create_at_unix''),
     po_UpdateAtUnix = intOf (get ''update_at_unix''),
     po_PayAtUnix = intOf (get ''pay_at_unix''),
     po_RefundAtUnix = intOf (get ''refund_at_unix''),
     po_CancelAtUnix = intOf (get ''cancel_at_unix'')\<rparr>"

definition PaymentOrder_createFields :: "ent_field list" where "PaymentOrder_createFields = [PaymentOrder_UID, PaymentOrder_ProductID, PaymentOrder_ThirdPartyProductID, PaymentOrder_PaymentType, PaymentOrder_Status, PaymentOrder_OrderAmountUnit, PaymentOrder_OrderAmountNanos, PaymentOrder_OrderCurrency, PaymentOrder_RealAmountUnit, PaymentOrder_RealAmountNanos, PaymentOrder_RealCurrency, PaymentOrder_ThirdPartyOrderID, PaymentOrder_Credential, PaymentOrder_CredentialHash, PaymentOrder_Rewards, PaymentOrder_RetryTimes, PaymentOrder_CancelReason, PaymentOrder_RefundReason, PaymentOrder_IsSandbox, PaymentOrder_CreateAtUnix, PaymentOrder_UpdateAtUnix, PaymentOrder_PayAtUnix, PaymentOrder_RefundAtUnix, PaymentOrder_CancelAtUnix]"

definition PaymentOrder_updateDefaults :: "(ent_field \<times> default) list" where "PaymentOrder_updateDefaults = [(PaymentOrder_UpdateAtUnix, DefaultNow)]"

definition PaymentOrder_saver :: "(uint64, PaymentOrder) ent_saver" where
  "PaymentOrder_saver = \<lparr>sa_typ = ''PaymentOrder'', sa_table = ''payment_orders'', sa_idColumn = ''id'', sa_columns = PaymentOrder_columns, sa_zero = 0, sa_key = po_ID,
     sa_setKey = (\<lambda>i r. r\<lparr>po_ID := i\<rparr>), sa_sameId = sameUint64, sa_assertId = assertUint64, sa_node = PaymentOrder_node,
     sa_createFields = PaymentOrder_createFields, sa_createDefaults = PaymentOrder_createDefaults, sa_createChecks = PaymentOrder_createChecks,
     sa_updateDefaults = PaymentOrder_updateDefaults, sa_updateChecks = [],
     sa_set = [PaymentOrder_Status, PaymentOrder_RealAmountUnit, PaymentOrder_RealAmountNanos, PaymentOrder_RealCurrency, PaymentOrder_ThirdPartyOrderID, PaymentOrder_Credential, PaymentOrder_CredentialHash, PaymentOrder_Rewards, PaymentOrder_RetryTimes, PaymentOrder_CancelReason, PaymentOrder_RefundReason, PaymentOrder_IsSandbox, PaymentOrder_UpdateAtUnix, PaymentOrder_PayAtUnix, PaymentOrder_RefundAtUnix, PaymentOrder_CancelAtUnix], sa_add = [PaymentOrder_Status, PaymentOrder_RealAmountUnit, PaymentOrder_RealAmountNanos, PaymentOrder_RetryTimes, PaymentOrder_UpdateAtUnix, PaymentOrder_PayAtUnix, PaymentOrder_RefundAtUnix, PaymentOrder_CancelAtUnix],
     sa_append = [PaymentOrder_Rewards], sa_clear = [PaymentOrder_ThirdPartyOrderID, PaymentOrder_Credential, PaymentOrder_CredentialHash, PaymentOrder_Rewards]\<rparr>"

definition PaymentOrderCreate_methods :: "('s, uint64, PaymentOrder) save_drv \<Rightarrow> ('s \<Rightarrow> int \<times> 's) \<Rightarrow> ('s, uint64, PaymentOrder) create_methods" where
  "PaymentOrderCreate_methods = (\<lambda>sd clk. createMethods PaymentOrder_saver sd clk [])"

definition PaymentOrder_createSave :: "('s, uint64, PaymentOrder) save_drv \<Rightarrow> (uint64, PaymentOrder) mutation conflict_option list \<Rightarrow> ((uint64, PaymentOrder) mutation \<times> 's, save_error, PaymentOrder) act" where
  "PaymentOrder_createSave = createSqlSave PaymentOrder_saver"

definition PaymentOrder_updateSave :: "('s, uint64, PaymentOrder) save_drv \<Rightarrow> ((uint64, PaymentOrder) mutation \<times> 's, save_error, nat) act" where "PaymentOrder_updateSave = updateSqlSave PaymentOrder_saver"

definition PaymentOrder_updateOneSave :: "('s, uint64, PaymentOrder) save_drv \<Rightarrow> string list \<Rightarrow> ((uint64, PaymentOrder) mutation \<times> 's, save_error, PaymentOrder) act" where "PaymentOrder_updateOneSave = updateOneSqlSave PaymentOrder_saver"

definition PaymentOrderUpdate_methods :: "('s, uint64, PaymentOrder) save_drv \<Rightarrow> ('s \<Rightarrow> int \<times> 's) \<Rightarrow> ('s, uint64, PaymentOrder, nat) update_methods" where
  "PaymentOrderUpdate_methods sd clk = updateMethods PaymentOrder_saver (PaymentOrder_updateSave sd) clk"

definition PaymentOrderUpdateOne_methods :: "('s, uint64, PaymentOrder) save_drv \<Rightarrow> string list \<Rightarrow> ('s \<Rightarrow> int \<times> 's) \<Rightarrow> ('s, uint64, PaymentOrder, PaymentOrder) update_methods" where
  "PaymentOrderUpdateOne_methods sd sel clk = updateMethods PaymentOrder_saver (PaymentOrder_updateOneSave sd sel) clk"

definition PaymentOrderCreateBulk_methods :: "('s, uint64, PaymentOrder) save_drv \<Rightarrow> ('s \<Rightarrow> int \<times> 's) \<Rightarrow> ('s, uint64, PaymentOrder) bulk_methods" where "PaymentOrderCreateBulk_methods = bulkMethods PaymentOrder_saver"

section \<open>The saves of Account\<close>

definition Account_createDefaults :: "(ent_field \<times> default) list" where
  "Account_createDefaults = [(Account_IsDeleted, DefaultValue (VBool False)), (Account_CreateAtUnix, DefaultNow), (Account_UpdateAtUnix, DefaultNow)]"

definition Account_createChecks :: "(ent_field \<times> check) list" where
  "Account_createChecks = [(Account_IsDeleted, Required), (Account_CreateAtUnix, Required), (Account_UpdateAtUnix, Required)]"

definition Account_node :: "uint64 \<Rightarrow> (string \<Rightarrow> ent_value option) \<Rightarrow> Account" where
  "Account_node i get = \<lparr>ac_ID = i,
     ac_IsDeleted = boolOf (get ''is_deleted''),
     ac_CreateAtUnix = intOf (get ''create_at_unix''),
     ac_UpdateAtUnix = intOf (get ''update_at_unix'')\<rparr>"

definition Account_createFields :: "ent_field list" where "Account_createFields = [Account_IsDeleted, Account_CreateAtUnix, Account_UpdateAtUnix]"

definition Account_updateDefaults :: "(ent_field \<times> default) list" where "Account_updateDefaults = [(Account_UpdateAtUnix, DefaultNow)]"

definition Account_saver :: "(uint64, Account) ent_saver" where
  "Account_saver = \<lparr>sa_typ = ''Account'', sa_table = ''account'', sa_idColumn = ''id'', sa_columns = Account_columns, sa_zero = 0, sa_key = ac_ID,
     sa_setKey = (\<lambda>i r. r\<lparr>ac_ID := i\<rparr>), sa_sameId = sameUint64, sa_assertId = assertUint64, sa_node = Account_node,
     sa_createFields = Account_createFields, sa_createDefaults = Account_createDefaults, sa_createChecks = Account_createChecks,
     sa_updateDefaults = Account_updateDefaults, sa_updateChecks = [],
     sa_set = [Account_IsDeleted, Account_UpdateAtUnix], sa_add = [Account_UpdateAtUnix],
     sa_append = [], sa_clear = []\<rparr>"

definition AccountCreate_methods :: "('s, uint64, Account) save_drv \<Rightarrow> ('s \<Rightarrow> int \<times> 's) \<Rightarrow> ('s, uint64, Account) create_methods" where
  "AccountCreate_methods = (\<lambda>sd clk. createMethods Account_saver sd clk [])"

definition Account_createSave :: "('s, uint64, Account) save_drv \<Rightarrow> (uint64, Account) mutation conflict_option list \<Rightarrow> ((uint64, Account) mutation \<times> 's, save_error, Account) act" where
  "Account_createSave = createSqlSave Account_saver"

definition Account_updateSave :: "('s, uint64, Account) save_drv \<Rightarrow> ((uint64, Account) mutation \<times> 's, save_error, nat) act" where "Account_updateSave = updateSqlSave Account_saver"

definition Account_updateOneSave :: "('s, uint64, Account) save_drv \<Rightarrow> string list \<Rightarrow> ((uint64, Account) mutation \<times> 's, save_error, Account) act" where "Account_updateOneSave = updateOneSqlSave Account_saver"

definition AccountUpdate_methods :: "('s, uint64, Account) save_drv \<Rightarrow> ('s \<Rightarrow> int \<times> 's) \<Rightarrow> ('s, uint64, Account, nat) update_methods" where
  "AccountUpdate_methods sd clk = updateMethods Account_saver (Account_updateSave sd) clk"

definition AccountUpdateOne_methods :: "('s, uint64, Account) save_drv \<Rightarrow> string list \<Rightarrow> ('s \<Rightarrow> int \<times> 's) \<Rightarrow> ('s, uint64, Account, Account) update_methods" where
  "AccountUpdateOne_methods sd sel clk = updateMethods Account_saver (Account_updateOneSave sd sel) clk"

definition AccountCreateBulk_methods :: "('s, uint64, Account) save_drv \<Rightarrow> ('s \<Rightarrow> int \<times> 's) \<Rightarrow> ('s, uint64, Account) bulk_methods" where "AccountCreateBulk_methods = bulkMethods Account_saver"

section \<open>The saves of Identity\<close>

definition Identity_createDefaults :: "(ent_field \<times> default) list" where
  "Identity_createDefaults = [(Identity_CreateAtUnix, DefaultNow)]"

definition Identity_createChecks :: "(ent_field \<times> check) list" where
  "Identity_createChecks = [(Identity_UID, Required), (Identity_LoginType, Required), (Identity_AppID, Required), (Identity_AppID, Valid (\<lambda>v. MaxLen255 (strOf (Some v)))), (Identity_OpenID, Required), (Identity_OpenID, Valid (\<lambda>v. MaxLen255 (strOf (Some v)))), (Identity_UnionID, Valid (\<lambda>v. MaxLen255 (strOf (Some v)))), (Identity_CreateAtUnix, Required)]"

definition Identity_node :: "uint64 \<Rightarrow> (string \<Rightarrow> ent_value option) \<Rightarrow> IdentityRow" where
  "Identity_node i get = \<lparr>id_ID = i,
     id_UID = uintOf (get ''uid''),
     id_LoginType = intOf (get ''login_type''),
     id_AppID = strOf (get ''app_id''),
     id_OpenID = strOf (get ''open_id''),
     id_UnionID = ptrOf (get ''union_id''),
     id_CreateAtUnix = intOf (get ''create_at_unix'')\<rparr>"

definition Identity_createFields :: "ent_field list" where "Identity_createFields = [Identity_UID, Identity_LoginType, Identity_AppID, Identity_OpenID, Identity_UnionID, Identity_CreateAtUnix]"

definition Identity_saver :: "(uint64, IdentityRow) ent_saver" where
  "Identity_saver = \<lparr>sa_typ = ''Identity'', sa_table = ''identity'', sa_idColumn = ''id'', sa_columns = Identity_columns, sa_zero = 0, sa_key = id_ID,
     sa_setKey = (\<lambda>i r. r\<lparr>id_ID := i\<rparr>), sa_sameId = sameUint64, sa_assertId = assertUint64, sa_node = Identity_node,
     sa_createFields = Identity_createFields, sa_createDefaults = Identity_createDefaults, sa_createChecks = Identity_createChecks,
     sa_updateDefaults = [], sa_updateChecks = [],
     sa_set = [], sa_add = [],
     sa_append = [], sa_clear = [Identity_UnionID]\<rparr>"

definition IdentityCreate_methods :: "('s, uint64, IdentityRow) save_drv \<Rightarrow> ('s \<Rightarrow> int \<times> 's) \<Rightarrow> ('s, uint64, IdentityRow) create_methods" where
  "IdentityCreate_methods = (\<lambda>sd clk. createMethods Identity_saver sd clk [])"

definition Identity_createSave :: "('s, uint64, IdentityRow) save_drv \<Rightarrow> (uint64, IdentityRow) mutation conflict_option list \<Rightarrow> ((uint64, IdentityRow) mutation \<times> 's, save_error, IdentityRow) act" where
  "Identity_createSave = createSqlSave Identity_saver"

definition Identity_updateSave :: "('s, uint64, IdentityRow) save_drv \<Rightarrow> ((uint64, IdentityRow) mutation \<times> 's, save_error, nat) act" where "Identity_updateSave = updateSqlSave Identity_saver"

definition Identity_updateOneSave :: "('s, uint64, IdentityRow) save_drv \<Rightarrow> string list \<Rightarrow> ((uint64, IdentityRow) mutation \<times> 's, save_error, IdentityRow) act" where "Identity_updateOneSave = updateOneSqlSave Identity_saver"

definition IdentityUpdate_methods :: "('s, uint64, IdentityRow) save_drv \<Rightarrow> ('s \<Rightarrow> int \<times> 's) \<Rightarrow> ('s, uint64, IdentityRow, nat) update_methods" where
  "IdentityUpdate_methods sd clk = updateMethods Identity_saver (Identity_updateSave sd) clk"

definition IdentityUpdateOne_methods :: "('s, uint64, IdentityRow) save_drv \<Rightarrow> string list \<Rightarrow> ('s \<Rightarrow> int \<times> 's) \<Rightarrow> ('s, uint64, IdentityRow, IdentityRow) update_methods" where
  "IdentityUpdateOne_methods sd sel clk = updateMethods Identity_saver (Identity_updateOneSave sd sel) clk"

definition IdentityCreateBulk_methods :: "('s, uint64, IdentityRow) save_drv \<Rightarrow> ('s \<Rightarrow> int \<times> 's) \<Rightarrow> ('s, uint64, IdentityRow) bulk_methods" where "IdentityCreateBulk_methods = bulkMethods Identity_saver"

section \<open>What a statement does to a row\<close>

text \<open>\<open>SET c = v\<close>, \<open>SET c = NULL\<close> and then \<open>SET c = COALESCE(c, 0) + d\<close>; the sums of the database do not wrap.\<close>

fun sqlPlus :: "ent_value \<Rightarrow> ent_value \<Rightarrow> ent_value" where
  "sqlPlus (VInt64 a) (VInt64 b) = VInt64 (a + b)"
| "sqlPlus (VInt32 a) (VInt32 b) = VInt32 (a + b)"
| "sqlPlus (VNamed n a) (VNamed _ b) = VNamed n (a + b)"
| "sqlPlus a _ = a"

definition columnAfter :: "('id, 'r) update_spec \<Rightarrow> string \<Rightarrow> ent_value option \<Rightarrow> ent_value option" where
  "columnAfter sp c x =
     (let y = (case map_of (us_set sp) c of Some v \<Rightarrow> Some v | None \<Rightarrow> if c \<in> set (us_clear sp) then None else x)
      in case map_of (us_add sp) c of None \<Rightarrow> y | Some d \<Rightarrow> Some (case y of None \<Rightarrow> d | Some z \<Rightarrow> sqlPlus z d))"

definition rowAfter :: "('id, 'r) ent_saver \<Rightarrow> (string \<Rightarrow> 'r \<Rightarrow> ent_value) \<Rightarrow> ('id, 'r) update_spec \<Rightarrow> 'r \<Rightarrow> 'r" where
  "rowAfter sa column sp r = sa_node sa (sa_key sa r)
     (\<lambda>c. columnAfter sp c (case column c r of VStringPtr p \<Rightarrow> map_option VString p | v \<Rightarrow> Some v))"

lemma map_of_setFields: "map_of (setFields fs get) c = (case find (\<lambda>f. ef_name f = c \<and> get f \<noteq> None) fs of None \<Rightarrow> None | Some f \<Rightarrow> get f)"
  by (induction fs) (auto simp: setFields_def map_filter_simps split: option.splits)

lemma setFields_values: "map_of (setFields fs (\<lambda>f. fieldGet f m)) = (\<lambda>c. if c \<in> ef_name ` set fs then mu_values m c else None)"
  by (induction fs) (auto simp: setFields_def map_filter_simps fieldGet_def fun_eq_iff split: option.splits)

text \<open>New ids that fit into 64 bits come back from \<open>LastInsertId\<close> as they are.\<close>

definition idsFit :: "('id, 'r) ent_saver \<Rightarrow> ('id \<Rightarrow> int) \<Rightarrow> ('s, 'r, 'id) nodes \<Rightarrow> bool" where
  "idsFit sa idInt nd \<longleftrightarrow> (\<forall>r s i t. CreateNode nd r s = (Inr i, t) \<longrightarrow> sa_assertId sa (Int64ID (idInt i)) = Some i)"

lemma no_append: "mu_appended m = (\<lambda>_. []) \<Longrightarrow> us_append (updateSpec sa i cols m) = []"
  by (simp add: updateSpec_def setFields_def fieldAppended_def List.map_filter_def)

lemma mapErr_fail: "mapErr g (fail e) = fail (g e)"
  by (simp add: mapErr_def fail_def fun_eq_iff)

text \<open>
  What the saves rely on: an INSERT without conflict options writes the node and yields the id of the row, one that resolves conflicts
  by ignoring them adds the row unless its key exists, an UPDATE changes the matching rows column by column.
  \<open>idInt\<close> is an id as \<open>LastInsertId\<close> has it, \<open>lastId\<close> what \<open>LastInsertId\<close> is after an upsert.
\<close>

locale save_backend =
  fixes sa :: "('id, 'r) ent_saver"
    and column :: "string \<Rightarrow> 'r \<Rightarrow> ent_value"
    and nd :: "('s, 'r, 'id) nodes"
    and idInt :: "'id \<Rightarrow> int"
    and lastId :: "'s \<Rightarrow> int"
    and sd :: "('s, 'id, 'r) save_drv"
  assumes setKey_key: "sa_setKey sa (sa_key sa r) r = r"
    and key_node: "sa_key sa (sa_node sa i get) = i"
    and assert_same: "sa_sameId sa (Int64ID j) i \<Longrightarrow> sa_assertId sa (Int64ID j) = Some i"
    and assert_int64: "sa_assertId sa (Int64ID j) \<noteq> None"
    and create_law: "cs_id sp = NilID \<Longrightarrow> cs_onConflict sp = [] \<Longrightarrow>
      sd_CreateNode sd sp = andThen (CreateNode nd (sa_node sa (sa_zero sa) (map_of (cs_fields sp)))) (\<lambda>i. ok (Int64ID (idInt i)))"
    and upsert_law: "cs_id sp = OwnID i \<Longrightarrow> cs_onConflict sp = [ResolveWithIgnore] \<Longrightarrow>
      sd_CreateNode sd sp = andThen (UpsertNode nd (sa_node sa i (map_of (cs_fields sp)))) (\<lambda>_ t. (Inr (Int64ID (lastId t)), t))"
    and update_law: "us_append up = [] \<Longrightarrow> sd_UpdateNodes sd up = UpdateNodes nd (us_predicate up) (rowAfter sa column up)"
    and update_one_law: "us_id up = Some i \<Longrightarrow> us_predicate up = [] \<Longrightarrow> us_columns up = sa_columns sa \<Longrightarrow> us_append up = [] \<Longrightarrow>
      sd_UpdateNode sd up = UpdateNode nd i (rowAfter sa column up)"
begin

lemma found_id:
  "(if sa_sameId sa (Int64ID j) (sa_key sa n) then Some n else map_option (\<lambda>i. sa_setKey sa i n) (sa_assertId sa (Int64ID j)))
     = map_option (\<lambda>i. sa_setKey sa i n) (sa_assertId sa (Int64ID j))"
  using assert_same [of j "sa_key sa n"] by (auto simp: setKey_key)

lemma create_refines:
  assumes "mu_id m = None" and "idsFit sa idInt nd"
  shows "onWorld (createSqlSave sa sd []) m = (case runChecks (sa_createChecks sa) m of
       Some e \<Rightarrow> fail (SaveFailed e)
     | None \<Rightarrow> mapErr SaveFailed (andThen (mapErr createErr (CreateNode nd (fst (createSpec sa [] m)))) (\<lambda>i. ok (sa_setKey sa i (fst (createSpec sa [] m))))))"
proof
  fix s
  let ?sp = "snd (createSpec sa [] m)" and ?n = "fst (createSpec sa [] m)"
  have n: "sa_node sa (sa_zero sa) (map_of (cs_fields ?sp)) = ?n"
    using assms(1) by (simp add: createSpec_def setFields_values)
  have law: "sd_CreateNode sd ?sp = andThen (CreateNode nd ?n) (\<lambda>i. ok (Int64ID (idInt i)))"
    using create_law [of ?sp] assms(1) by (simp add: n) (simp add: createSpec_def)
  have fit: "sa_assertId sa (Int64ID (idInt i)) = Some i" if "fst (CreateNode nd ?n s) = Inr i" for i
    using assms(2) that unfolding idsFit_def by (metis prod.collapse)
  show "onWorld (createSqlSave sa sd []) m s = (case runChecks (sa_createChecks sa) m of
       Some e \<Rightarrow> fail (SaveFailed e)
     | None \<Rightarrow> mapErr SaveFailed (andThen (mapErr createErr (CreateNode nd ?n)) (\<lambda>i. ok (sa_setKey sa i ?n)))) s"
    by (auto simp: fit onWorld_def createSqlSave_def case_prod_beta law found_id andThen_def mapErr_def ok_def fail_def split: option.splits prod.splits sum.splits)
qed

lemma ignore_refines:
  assumes "runChecks (sa_createChecks sa) m = None" and "mu_id m = Some i"
  shows "onWorld (noValue (createSqlSave sa sd [ResolveWithIgnore])) m
     = mapErr (\<lambda>e. SaveFailed (createErr e)) (UpsertNode nd (fst (createSpec sa [ResolveWithIgnore] m)))"
proof
  fix s
  let ?sp = "snd (createSpec sa [ResolveWithIgnore] m)" and ?n = "fst (createSpec sa [ResolveWithIgnore] m)"
  have n: "sa_node sa i (map_of (cs_fields ?sp)) = ?n"
    using assms(2) by (simp add: createSpec_def setFields_values)
  have law: "sd_CreateNode sd ?sp = andThen (UpsertNode nd ?n) (\<lambda>_ t. (Inr (Int64ID (lastId t)), t))"
    using upsert_law [of ?sp i] assms(2) by (simp add: n) (simp add: createSpec_def)
  show "onWorld (noValue (createSqlSave sa sd [ResolveWithIgnore])) m s = mapErr (\<lambda>e. SaveFailed (createErr e)) (UpsertNode nd ?n) s"
    by (auto simp: assert_int64 onWorld_def noValue_def createSqlSave_def case_prod_beta assms(1) law found_id andThen_def mapErr_def ok_def fail_def split: option.splits prod.splits sum.splits)
qed

lemma update_refines:
  assumes "us_append (updateSpec sa None (sa_columns sa) m) = []"
  shows "onWorld (updateSqlSave sa sd) m = (case runChecks (sa_updateChecks sa) m of
       Some e \<Rightarrow> fail (SaveFailed e)
     | None \<Rightarrow> mapErr SaveFailed (UpdateSave nd (mu_predicates m) (rowAfter sa column (updateSpec sa None (sa_columns sa) m))))"
  using update_law [OF assms]
  by (auto simp: onWorld_def updateSqlSave_def finishUpdate_def UpdateSave_def updateSpec_def mapErr_def fail_def fun_eq_iff split: option.splits prod.splits sum.splits)

lemma update_one_refines:
  assumes "mu_id m = Some i" and "mu_predicates m = []" and "us_append (updateSpec sa (Some i) (sa_columns sa) m) = []"
  shows "onWorld (updateOneSqlSave sa sd []) m = (case runChecks (sa_updateChecks sa) m of
       Some e \<Rightarrow> fail (SaveFailed e)
     | None \<Rightarrow> mapErr SaveFailed (UpdateOneSave nd i (rowAfter sa column (updateSpec sa (Some i) (sa_columns sa) m))))"
proof -
  have "sd_UpdateNode sd (updateSpec sa (Some i) (sa_columns sa) m) = UpdateNode nd i (rowAfter sa column (updateSpec sa (Some i) (sa_columns sa) m))"
    using update_one_law [OF _ _ _ assms(3)] assms(1,2) by (simp add: updateSpec_def)
  then show ?thesis
    by (auto simp: onWorld_def updateOneSqlSave_def selectColumns_def finishUpdate_def UpdateOneSave_def assms(1) mapErr_def fail_def fun_eq_iff
        split: option.splits prod.splits sum.splits)
qed

lemma create_as:
  assumes "idsFit sa idInt nd" and "mu_id m = None" and "runChecks (sa_createChecks sa) m = chk" and "fst (createSpec sa [] m) = n"
  shows "onWorld (createSqlSave sa sd []) m = mapErr SaveFailed (case chk of
      Some e \<Rightarrow> fail e | None \<Rightarrow> andThen (mapErr createErr (CreateNode nd n)) (\<lambda>i. ok (sa_setKey sa i n)))"
  using create_refines [OF assms(2,1)] by (simp add: assms(3,4) mapErr_fail split: option.split)

lemma update_as:
  assumes "mu_appended m = (\<lambda>_. [])" and "runChecks (sa_updateChecks sa) m = chk" and "\<And>i cols. rowAfter sa column (updateSpec sa i cols m) = u"
  shows "onWorld (updateSqlSave sa sd) m = mapErr SaveFailed (case chk of Some e \<Rightarrow> fail e | None \<Rightarrow> UpdateSave nd (mu_predicates m) u)"
    and "mu_predicates m = [] \<Longrightarrow> mu_id m = Some j \<Longrightarrow>
      onWorld (updateOneSqlSave sa sd []) m = mapErr SaveFailed (case chk of Some e \<Rightarrow> fail e | None \<Rightarrow> UpdateOneSave nd j u)"
  using update_refines [of m] update_one_refines [of m j] by (simp_all add: no_append [OF assms(1)] assms(2,3) mapErr_fail split: option.split)

end

text \<open>A driver on the rows of theory Ent.\<close>

definition nodesDriver ::
  "('id, 'r) ent_saver \<Rightarrow> (string \<Rightarrow> 'r \<Rightarrow> ent_value) \<Rightarrow> ('s, 'r, 'id) nodes \<Rightarrow> ('id \<Rightarrow> int) \<Rightarrow> ('s \<Rightarrow> int) \<Rightarrow> ('s, 'id, 'r) save_drv" where
  "nodesDriver sa column nd idInt lastId = \<lparr>
     sd_CreateNode = (\<lambda>sp. case cs_id sp of
         OwnID i \<Rightarrow> andThen (UpsertNode nd (sa_node sa i (map_of (cs_fields sp)))) (\<lambda>_ t. (Inr (Int64ID (lastId t)), t))
       | _ \<Rightarrow> andThen (CreateNode nd (sa_node sa (sa_zero sa) (map_of (cs_fields sp)))) (\<lambda>i. ok (Int64ID (idInt i)))),
     sd_BatchCreate = (\<lambda>sps _. fail SqlFailure),
     sd_UpdateNodes = (\<lambda>up. UpdateNodes nd (us_predicate up) (rowAfter sa column up)),
     sd_UpdateNode = (\<lambda>up. case us_id up of None \<Rightarrow> fail SqlNotFound | Some i \<Rightarrow> UpdateNode nd i (rowAfter sa column up))\<rparr>"

lemma nodesDriver_backend:
  assumes "\<And>r. sa_setKey sa (sa_key sa r) r = r" and "\<And>i get. sa_key sa (sa_node sa i get) = i"
    and "sa_sameId sa = sameInt64 \<and> sa_assertId sa = assertInt64"
  shows "save_backend sa column nd idInt lastId (nodesDriver sa column nd idInt lastId)"
  using assms by unfold_locales (auto simp: nodesDriver_def)

lemma nodesDriver_backend_uint64:
  assumes "\<And>r. sa_setKey sa (sa_key sa r) r = r" and "\<And>i get. sa_key sa (sa_node sa i get) = i"
    and "sa_sameId sa = sameUint64 \<and> sa_assertId sa = assertUint64"
  shows "save_backend sa column nd idInt lastId (nodesDriver sa column nd idInt lastId)"
  using assms by unfold_locales (auto simp: nodesDriver_def)

interpretation item_saves: save_backend Item_saver Item_column nd idInt lastId "nodesDriver Item_saver Item_column nd idInt lastId" for nd idInt lastId
  by (rule nodesDriver_backend) (auto simp: Item_saver_def Item_node_def)

interpretation nonce_saves: save_backend ItemNonce_saver ItemNonce_column nd idInt lastId "nodesDriver ItemNonce_saver ItemNonce_column nd idInt lastId" for nd idInt lastId
  by (rule nodesDriver_backend_uint64) (auto simp: ItemNonce_saver_def ItemNonce_node_def)

interpretation lock_saves: save_backend ItemUserLock_saver column nd idInt lastId "nodesDriver ItemUserLock_saver column nd idInt lastId" for column nd idInt lastId
  by (rule nodesDriver_backend_uint64) (auto simp: ItemUserLock_saver_def ItemUserLock_node_def)

interpretation order_saves: save_backend PaymentOrder_saver PaymentOrder_column nd idInt lastId "nodesDriver PaymentOrder_saver PaymentOrder_column nd idInt lastId" for nd idInt lastId
  by (rule nodesDriver_backend_uint64) (auto simp: PaymentOrder_saver_def PaymentOrder_node_def)

interpretation account_saves: save_backend Account_saver Account_column nd idInt lastId "nodesDriver Account_saver Account_column nd idInt lastId" for nd idInt lastId
  by (rule nodesDriver_backend_uint64) (auto simp: Account_saver_def Account_node_def)

interpretation identity_saves: save_backend Identity_saver Identity_column nd idInt lastId "nodesDriver Identity_saver Identity_column nd idInt lastId" for nd idInt lastId
  by (rule nodesDriver_backend_uint64) (auto simp: Identity_saver_def Identity_node_def)

section \<open>The saves of the stores\<close>

lemmas item_fields = Item_UID_def Item_ItemID_def Item_Count_def Item_UsedCount_def Item_ExpireAtUnix_def Item_Source_def Item_CreateAtUnix_def
  Item_UpdateAtUnix_def

lemmas paymentorder_fields = PaymentOrder_UID_def PaymentOrder_ProductID_def PaymentOrder_ThirdPartyProductID_def PaymentOrder_PaymentType_def
  PaymentOrder_Status_def PaymentOrder_OrderAmountUnit_def PaymentOrder_OrderAmountNanos_def PaymentOrder_OrderCurrency_def
  PaymentOrder_RealAmountUnit_def PaymentOrder_RealAmountNanos_def PaymentOrder_RealCurrency_def PaymentOrder_ThirdPartyOrderID_def
  PaymentOrder_Credential_def PaymentOrder_CredentialHash_def PaymentOrder_Rewards_def PaymentOrder_RetryTimes_def
  PaymentOrder_CancelReason_def PaymentOrder_RefundReason_def PaymentOrder_IsSandbox_def PaymentOrder_CreateAtUnix_def
  PaymentOrder_UpdateAtUnix_def PaymentOrder_PayAtUnix_def PaymentOrder_RefundAtUnix_def PaymentOrder_CancelAtUnix_def

lemmas account_fields = Account_IsDeleted_def Account_CreateAtUnix_def Account_UpdateAtUnix_def

lemmas identity_fields = Identity_UID_def Identity_LoginType_def Identity_AppID_def Identity_OpenID_def Identity_UnionID_def Identity_CreateAtUnix_def

text \<open>The value of a column from what is set and what is added, without clearing.\<close>

definition afterCol :: "ent_value option \<Rightarrow> ent_value option \<Rightarrow> ent_value option \<Rightarrow> ent_value option" where
  "afterCol st ad x =
     (let y = (case st of Some v \<Rightarrow> Some v | None \<Rightarrow> x) in case ad of None \<Rightarrow> y | Some d \<Rightarrow> Some (case y of None \<Rightarrow> d | Some z \<Rightarrow> sqlPlus z d))"

lemma columnAfter_update:
  assumes "mu_clearedFields m = (\<lambda>_. False)"
  shows "columnAfter (updateSpec sa i cols m) c x = afterCol (if c \<in> ef_name ` set (sa_set sa) then mu_values m c else None)
     (if c \<in> ef_name ` set (sa_add sa) then mu_added m c else None) x"
proof -
  have "map_of (setFields fs (\<lambda>f. fieldAdded f m)) = (\<lambda>c. if c \<in> ef_name ` set fs then mu_added m c else None)" for fs
    by (induction fs) (auto simp: setFields_def map_filter_simps fieldAdded_def fun_eq_iff split: option.splits)
  then show ?thesis
    by (auto simp: columnAfter_def updateSpec_def setFields_values fieldCleared_def assms afterCol_def Let_def split: option.split)
qed

lemma node_simps:
  "uintOf (map_option VUint64 n) = getOr 0 n" "intOf (map_option VInt64 i) = getOr 0 i" "intOf (map_option VInt32 i) = getOr 0 i"
  "intOf (map_option (VNamed t) i) = getOr 0 i" "strOf (map_option VString x) = getOr '''' x" "ptrOf (map_option VString x) = x"
  "boolOf (map_option VBool b) = getOr False b" "rawOf (map_option VRaw w) = getOr None w"
  by (simp_all add: node_values getOr_def split: option.split)

lemma after_simps:
  "afterCol None None x = x"
  "uintOf (Some (VUint64 n)) = n" "intOf (Some (VInt64 a)) = a" "intOf (Some (VInt32 a)) = a" "intOf (Some (VNamed t a)) = a"
  "strOf (Some (VString w)) = w" "ptrOf (map_option VString p) = p" "boolOf (Some (VBool b)) = b" "rawOf (Some (VRaw y)) = y"
  "intOf (afterCol (map_option VInt64 st) (map_option VInt64 ad) (Some (VInt64 a))) = setAdd st ad a"
  "intOf (afterCol (map_option VInt32 st) (map_option VInt32 ad) (Some (VInt32 a))) = setAdd st ad a"
  "intOf (afterCol (map_option VInt64 st) None (Some (VInt64 a))) = getOr a st"
  "intOf (afterCol (map_option VInt32 st) None (Some (VInt32 a))) = getOr a st"
  "intOf (afterCol (map_option (VNamed t) st) None (Some (VNamed t a))) = getOr a st"
  "strOf (afterCol (map_option VString sw) None (Some (VString w))) = getOr w sw"
  "ptrOf (afterCol (map_option VString sw) None (map_option VString p)) = (case sw of None \<Rightarrow> p | Some v \<Rightarrow> Some v)"
  "boolOf (afterCol (map_option VBool sb) None (Some (VBool b))) = getOr b sb"
  "rawOf (afterCol (map_option VRaw sy) None (Some (VRaw y))) = getOr y sy"
  by (simp_all add: afterCol_def node_values getOr_def setAdd_def split: option.split)

lemma item_values:
  "mu_values (absItem op m) ''uid'' = map_option VUint64 (m_uid m)"
  "mu_values (absItem op m) ''item_id'' = map_option VInt32 (m_item_id m)"
  "mu_values (absItem op m) ''count'' = map_option VInt64 (m_count m)"
  "mu_values (absItem op m) ''used_count'' = map_option VInt64 (m_used_count m)"
  "mu_values (absItem op m) ''expire_at_unix'' = map_option VInt64 (m_expire_at_unix m)"
  "mu_values (absItem op m) ''source'' = map_option VString (m_source m)"
  "mu_values (absItem op m) ''create_at_unix'' = map_option VInt64 (m_create_at_unix m)"
  "mu_values (absItem op m) ''update_at_unix'' = map_option VInt64 (m_update_at_unix m)"
  "mu_added (absItem op m) ''count'' = map_option VInt64 (m_addcount m)"
  "mu_added (absItem op m) ''used_count'' = map_option VInt64 (m_addused_count m)"
  "mu_added (absItem op m) ''expire_at_unix'' = map_option VInt64 (m_addexpire_at_unix m)"
  "mu_added (absItem op m) ''update_at_unix'' = map_option VInt64 (m_addupdate_at_unix m)"
  "mu_added (absItem op m) ''uid'' = None"
  "mu_added (absItem op m) ''item_id'' = None"
  "mu_added (absItem op m) ''source'' = None"
  "mu_added (absItem op m) ''create_at_unix'' = None"
  "mu_id (absItem op m) = None"
  "mu_predicates (absItem op m) = []"
  "mu_clearedFields (absItem op m) = (\<lambda>_. False)"
  "mu_appended (absItem op m) = (\<lambda>_. [])"
  by (simp_all add: absItem_def newMutation_def)

lemma paymentorder_values:
  "mu_values (absPaymentOrder op m) ''uid'' = map_option VUint64 (om_uid m)"
  "mu_values (absPaymentOrder op m) ''product_id'' = map_option VInt32 (om_product_id m)"
  "mu_values (absPaymentOrder op m) ''third_party_product_id'' = map_option VString (om_third_party_product_id m)"
  "mu_values (absPaymentOrder op m) ''payment_type'' = map_option (VNamed ''PaymentType'') (om_payment_type m)"
  "mu_values (absPaymentOrder op m) ''status'' = map_option (VNamed ''OrderStatus'') (om_status m)"
  "mu_values (absPaymentOrder op m) ''order_amount_unit'' = map_option VInt64 (om_order_amount_unit m)"
  "mu_values (absPaymentOrder op m) ''order_amount_nanos'' = map_option VInt32 (om_order_amount_nanos m)"
  "mu_values (absPaymentOrder op m) ''order_currency'' = map_option VString (om_order_currency m)"
  "mu_values (absPaymentOrder op m) ''real_amount_unit'' = map_option VInt64 (om_real_amount_unit m)"
  "mu_values (absPaymentOrder op m) ''real_amount_nanos'' = map_option VInt32 (om_real_amount_nanos m)"
  "mu_values (absPaymentOrder op m) ''real_currency'' = map_option VString (om_real_currency m)"
  "mu_values (absPaymentOrder op m) ''third_party_order_id'' = map_option VString (om_third_party_order_id m)"
  "mu_values (absPaymentOrder op m) ''credential'' = map_option VString (om_credential m)"
  "mu_values (absPaymentOrder op m) ''credential_hash'' = map_option VString (om_credential_hash m)"
  "mu_values (absPaymentOrder op m) ''rewards'' = map_option VRaw (om_rewards m)"
  "mu_values (absPaymentOrder op m) ''retry_times'' = map_option VInt32 (om_retry_times m)"
  "mu_values (absPaymentOrder op m) ''cancel_reason'' = map_option VString (om_cancel_reason m)"
  "mu_values (absPaymentOrder op m) ''refund_reason'' = map_option VString (om_refund_reason m)"
  "mu_values (absPaymentOrder op m) ''is_sandbox'' = map_option VBool (om_is_sandbox m)"
  "mu_values (absPaymentOrder op m) ''create_at_unix'' = map_option VInt64 (om_create_at_unix m)"
  "mu_values (absPaymentOrder op m) ''update_at_unix'' = map_option VInt64 (om_update_at_unix m)"
  "mu_values (absPaymentOrder op m) ''pay_at_unix'' = map_option VInt64 (om_pay_at_unix m)"
  "mu_values (absPaymentOrder op m) ''refund_at_unix'' = map_option VInt64 (om_refund_at_unix m)"
  "mu_values (absPaymentOrder op m) ''cancel_at_unix'' = map_option VInt64 (om_cancel_at_unix m)"
  "mu_added (absPaymentOrder op m) ''retry_times'' = map_option VInt32 (om_addretry_times m)"
  "mu_added (absPaymentOrder op m) ''uid'' = None"
  "mu_added (absPaymentOrder op m) ''product_id'' = None"
  "mu_added (absPaymentOrder op m) ''third_party_product_id'' = None"
  "mu_added (absPaymentOrder op m) ''payment_type'' = None"
  "mu_added (absPaymentOrder op m) ''status'' = None"
  "mu_added (absPaymentOrder op m) ''order_amount_unit'' = None"
  "mu_added (absPaymentOrder op m) ''order_amount_nanos'' = None"
  "mu_added (absPaymentOrder op m) ''order_currency'' = None"
  "mu_added (absPaymentOrder op m) ''real_amount_unit'' = None"
  "mu_added (absPaymentOrder op m) ''real_amount_nanos'' = None"
  "mu_added (absPaymentOrder op m) ''real_currency'' = None"
  "mu_added (absPaymentOrder op m) ''third_party_order_id'' = None"
  "mu_added (absPaymentOrder op m) ''credential'' = None"
  "mu_added (absPaymentOrder op m) ''credential_hash'' = None"
  "mu_added (absPaymentOrder op m) ''rewards'' = None"
  "mu_added (absPaymentOrder op m) ''cancel_reason'' = None"
  "mu_added (absPaymentOrder op m) ''refund_reason'' = None"
  "mu_added (absPaymentOrder op m) ''is_sandbox'' = None"
  "mu_added (absPaymentOrder op m) ''create_at_unix'' = None"
  "mu_added (absPaymentOrder op m) ''update_at_unix'' = None"
  "mu_added (absPaymentOrder op m) ''pay_at_unix'' = None"
  "mu_added (absPaymentOrder op m) ''refund_at_unix'' = None"
  "mu_added (absPaymentOrder op m) ''cancel_at_unix'' = None"
  "mu_id (absPaymentOrder op m) = None"
  "mu_predicates (absPaymentOrder op m) = []"
  "mu_clearedFields (absPaymentOrder op m) = (\<lambda>_. False)"
  "mu_appended (absPaymentOrder op m) = (\<lambda>_. [])"
  by (simp_all add: absPaymentOrder_def newMutation_def)

lemma account_values:
  "mu_values (absAccount op m) ''is_deleted'' = map_option VBool (am_is_deleted m)"
  "mu_values (absAccount op m) ''create_at_unix'' = map_option VInt64 (am_create_at_unix m)"
  "mu_values (absAccount op m) ''update_at_unix'' = map_option VInt64 (am_update_at_unix m)"
  "mu_added (absAccount op m) ''update_at_unix'' = map_option VInt64 (am_addupdate_at_unix m)"
  "mu_added (absAccount op m) ''is_deleted'' = None"
  "mu_added (absAccount op m) ''create_at_unix'' = None"
  "mu_id (absAccount op m) = None"
  "mu_predicates (absAccount op m) = []"
  "mu_clearedFields (absAccount op m) = (\<lambda>_. False)"
  "mu_appended (absAccount op m) = (\<lambda>_. [])"
  by (simp_all add: absAccount_def newMutation_def)

lemma identity_values:
  "mu_values (absIdentity op m) ''uid'' = map_option VUint64 (im_uid m)"
  "mu_values (absIdentity op m) ''login_type'' = map_option VInt32 (im_login_type m)"
  "mu_values (absIdentity op m) ''app_id'' = map_option VString (im_app_id m)"
  "mu_values (absIdentity op m) ''open_id'' = map_option VString (im_open_id m)"
  "mu_values (absIdentity op m) ''union_id'' = map_option VString (im_union_id m)"
  "mu_values (absIdentity op m) ''create_at_unix'' = map_option VInt64 (im_create_at_unix m)"
  "mu_added (absIdentity op m) ''uid'' = None"
  "mu_added (absIdentity op m) ''login_type'' = None"
  "mu_added (absIdentity op m) ''app_id'' = None"
  "mu_added (absIdentity op m) ''open_id'' = None"
  "mu_added (absIdentity op m) ''union_id'' = None"
  "mu_added (absIdentity op m) ''create_at_unix'' = None"
  "mu_id (absIdentity op m) = None"
  "mu_predicates (absIdentity op m) = []"
  "mu_clearedFields (absIdentity op m) = (\<lambda>_. False)"
  "mu_appended (absIdentity op m) = (\<lambda>_. [])"
  by (simp_all add: absIdentity_def newMutation_def)

lemma item_create:
  "runChecks Item_createChecks (absItem op m) = ItemCreate_check m"
  "fst (createSpec Item_saver [] (absItem op m)) = ItemCreate_createSpec m"
proof -
  show "runChecks Item_createChecks (absItem op m) = ItemCreate_check m"
    by (cases "m_count m"; cases "m_used_count m"; cases "m_source m")
      (simp_all add: Item_createChecks_def ItemCreate_check_def item_values fieldGet_def item_fields node_values)
  show "fst (createSpec Item_saver [] (absItem op m)) = ItemCreate_createSpec m"
    by (simp add: createSpec_def Item_saver_def Item_node_def Item_createFields_def ItemCreate_createSpec_def item_values item_fields node_simps)
qed

lemma item_update:
  assumes "mu_values m' = mu_values (absItem op m)"
  shows "runChecks Item_updateChecks m' = ItemUpdateOne_check m"
  using assms by (cases "m_count m"; cases "m_used_count m")
    (simp_all add: Item_updateChecks_def ItemUpdateOne_check_def item_values fieldGet_def item_fields node_values)

lemma item_rowAfter:
  assumes "mu_values m' = mu_values (absItem op m)" and "mu_added m' = mu_added (absItem op m)" and "mu_clearedFields m' = (\<lambda>_. False)"
  shows "rowAfter Item_saver Item_column (updateSpec Item_saver i cols m') = ItemUpdateOne_spec m"
  by (rule ext, unfold rowAfter_def columnAfter_update [OF assms(3)] assms(1,2),
      simp add: Item_saver_def Item_node_def Item_column_def item_fields item_values ItemUpdateOne_spec_def after_simps)

lemma order_create:
  "runChecks PaymentOrder_createChecks (absPaymentOrder op m) = PaymentOrderCreate_check m"
  "fst (createSpec PaymentOrder_saver [] (absPaymentOrder op m)) = PaymentOrderCreate_createSpec m"
proof -
  show "runChecks PaymentOrder_createChecks (absPaymentOrder op m) = PaymentOrderCreate_check m"
    by (simp add: PaymentOrder_createChecks_def PaymentOrderCreate_check_def paymentorder_values fieldGet_def paymentorder_fields del: not_None_eq cong: if_cong)
  show "fst (createSpec PaymentOrder_saver [] (absPaymentOrder op m)) = PaymentOrderCreate_createSpec m"
    by (simp add: createSpec_def PaymentOrder_saver_def PaymentOrder_node_def PaymentOrder_createFields_def PaymentOrderCreate_createSpec_def
        paymentorder_values paymentorder_fields node_simps)
qed

lemma order_rowAfter:
  assumes "mu_values m' = mu_values (absPaymentOrder op m)" and "mu_added m' = mu_added (absPaymentOrder op m)" and "mu_clearedFields m' = (\<lambda>_. False)"
  shows "rowAfter PaymentOrder_saver PaymentOrder_column (updateSpec PaymentOrder_saver i cols m') = PaymentOrderUpdate_spec m"
  by (rule ext, unfold rowAfter_def columnAfter_update [OF assms(3)] assms(1,2),
      simp add: PaymentOrder_saver_def PaymentOrder_node_def PaymentOrder_column_def paymentorder_fields paymentorder_values PaymentOrderUpdate_spec_def after_simps)

lemma account_create:
  "runChecks Account_createChecks (absAccount op m) = AccountCreate_check m"
  "fst (createSpec Account_saver [] (absAccount op m)) = AccountCreate_createSpec m"
  by (simp_all add: Account_createChecks_def AccountCreate_check_def createSpec_def Account_saver_def Account_node_def Account_createFields_def
      AccountCreate_createSpec_def account_values fieldGet_def account_fields node_simps)

lemma account_rowAfter:
  assumes "mu_values m' = mu_values (absAccount op m)" and "mu_added m' = mu_added (absAccount op m)" and "mu_clearedFields m' = (\<lambda>_. False)"
  shows "rowAfter Account_saver Account_column (updateSpec Account_saver i cols m') = AccountUpdate_spec m"
  by (rule ext, unfold rowAfter_def columnAfter_update [OF assms(3)] assms(1,2),
      simp add: Account_saver_def Account_node_def Account_column_def account_fields account_values AccountUpdate_spec_def after_simps setAdd_def)

lemma identity_create:
  "runChecks Identity_createChecks (absIdentity op m) = IdentityCreate_check m"
  "fst (createSpec Identity_saver [] (absIdentity op m)) = IdentityCreate_createSpec m"
proof -
  show "runChecks Identity_createChecks (absIdentity op m) = IdentityCreate_check m"
    by (cases "im_app_id m"; cases "im_open_id m"; cases "im_union_id m")
      (simp_all add: Identity_createChecks_def IdentityCreate_check_def identity_values fieldGet_def identity_fields node_values MaxLen255_def)
  show "fst (createSpec Identity_saver [] (absIdentity op m)) = IdentityCreate_createSpec m"
    by (simp add: createSpec_def Identity_saver_def Identity_node_def Identity_createFields_def IdentityCreate_createSpec_def identity_values identity_fields node_simps)
qed

fun upsertErr :: "upsert_error \<Rightarrow> item_error" where
  "upsertErr (CreateError (ExecError (SaveFailed e))) = EntErr e"
| "upsertErr _ = TxErr"

text \<open>The statement of \<open>lockUID\<close>: \<open>ItemUserLock.Create().SetID(uid).OnConflict().Ignore().Exec(ctx)\<close>.\<close>

definition lockStatement :: "('s, uint64, ItemUserLock) save_drv \<Rightarrow> ('s \<Rightarrow> int \<times> 's) \<Rightarrow> uint64 \<Rightarrow> ('s, upsert_error, unit) act" where
  "lockStatement sd clk uid = onWorld
     (un_Exec (ItemUserLockUpsertOne_methods sd clk) [] (oc_Ignore ItemUserLockUpsertOne_options (ItemUserLockCreate_OnConflict [] [])))
     (SetID uid (cb_Create ItemUserLockClient_build))"

lemma onWorld_mapErr: "onWorld (mapErr g act) m = mapErr g (onWorld act m)"
  by (auto simp: onWorld_def mapErr_def fun_eq_iff split: prod.splits sum.splits)

lemma lock_refines:
  assumes "save_backend ItemUserLock_saver column (TxLock drv) idInt lastId sd"
  shows "mapErr upsertErr (lockStatement sd clk uid) = lockUID drv uid"
proof -
  let ?m = "SetID uid (cb_Create ItemUserLockClient_build)"
  have m: "runChecks (sa_createChecks ItemUserLock_saver) ?m = None" "mu_id ?m = Some uid"
    by (simp_all add: ItemUserLock_saver_def SetID_def)
  have n: "fst (createSpec ItemUserLock_saver [ResolveWithIgnore] ?m) = \<lparr>il_ID = uid\<rparr>"
    by (simp add: createSpec_def ItemUserLock_saver_def ItemUserLock_node_def SetID_def)
  have "noValue (createSave ItemUserLock_saver sd clk conflict []) = mapErr ExecError (noValue (createSqlSave ItemUserLock_saver sd conflict))" for conflict
    by (auto simp: createSave_def withHooks_def noValue_def ItemUserLock_saver_def andThen_def mapErr_def ok_def fun_eq_iff split: prod.splits sum.splits)
  then show ?thesis
    using save_backend.ignore_refines [OF assms m]
    by (simp add: lockStatement_def ItemUserLockUpsertOne_methods_def upsertMethods_def ItemUserLockUpsertOne_options_def ItemUserLockCreate_OnConflict_def onConflict_def
        onWorld_mapErr n lockUID_def) (auto simp: mapErr_def fun_eq_iff split: prod.splits sum.splits)
qed

lemma item_saves_refine:
  assumes b: "save_backend Item_saver Item_column nd idInt lastId sd" and f: "idsFit Item_saver idInt nd"
  shows "onWorld (Item_createSave sd []) (absItem OpCreate m) = mapErr SaveFailed (ItemCreate_sqlSave nd m)"
    and "onWorld (Item_updateOneSave sd []) ((absItem OpUpdateOne m)\<lparr>mu_id := Some i\<rparr>) = mapErr SaveFailed (ItemUpdateOne_sqlSave nd i m)"
proof -
  have sa: "sa_createChecks Item_saver = Item_createChecks" "sa_setKey Item_saver = (\<lambda>i r. r\<lparr>it_ID := i\<rparr>)" "sa_updateChecks Item_saver = Item_updateChecks"
    by (simp_all add: Item_saver_def)
  show "onWorld (Item_createSave sd []) (absItem OpCreate m) = mapErr SaveFailed (ItemCreate_sqlSave nd m)"
    using save_backend.create_as [OF b f, of "absItem OpCreate m"] by (simp add: Item_createSave_def sa item_values item_create ItemCreate_sqlSave_def cong: option.case_cong)
  show "onWorld (Item_updateOneSave sd []) ((absItem OpUpdateOne m)\<lparr>mu_id := Some i\<rparr>) = mapErr SaveFailed (ItemUpdateOne_sqlSave nd i m)"
    using save_backend.update_as(2) [OF b, of "(absItem OpUpdateOne m)\<lparr>mu_id := Some i\<rparr>"] item_update [of "(absItem OpUpdateOne m)\<lparr>mu_id := Some i\<rparr>" OpUpdateOne m] item_rowAfter [of _ OpUpdateOne m]
    by (simp add: Item_updateOneSave_def sa item_values ItemUpdateOne_sqlSave_def)
qed

lemma order_saves_refine:
  assumes b: "save_backend PaymentOrder_saver PaymentOrder_column nd idInt lastId sd" and f: "idsFit PaymentOrder_saver idInt nd"
  shows "onWorld (PaymentOrder_createSave sd []) (absPaymentOrder OpCreate m) = mapErr SaveFailed (PaymentOrderCreate_sqlSave nd m)"
    and "onWorld (PaymentOrder_updateSave sd) (mutationWhere ps (absPaymentOrder OpUpdate m)) = mapErr SaveFailed (UpdateSave nd ps (PaymentOrderUpdate_spec m))"
    and "onWorld (PaymentOrder_updateOneSave sd []) ((absPaymentOrder OpUpdateOne m)\<lparr>mu_id := Some i\<rparr>)
      = mapErr SaveFailed (UpdateOneSave nd i (PaymentOrderUpdate_spec m))"
proof -
  have sa: "sa_createChecks PaymentOrder_saver = PaymentOrder_createChecks" "sa_setKey PaymentOrder_saver = (\<lambda>i r. r\<lparr>po_ID := i\<rparr>)" "sa_updateChecks PaymentOrder_saver = []"
    by (simp_all add: PaymentOrder_saver_def)
  show "onWorld (PaymentOrder_createSave sd []) (absPaymentOrder OpCreate m) = mapErr SaveFailed (PaymentOrderCreate_sqlSave nd m)"
    using save_backend.create_as [OF b f, of "absPaymentOrder OpCreate m"]
    by (simp add: PaymentOrder_createSave_def sa paymentorder_values order_create PaymentOrderCreate_sqlSave_def cong: option.case_cong)
  show "onWorld (PaymentOrder_updateSave sd) (mutationWhere ps (absPaymentOrder OpUpdate m)) = mapErr SaveFailed (UpdateSave nd ps (PaymentOrderUpdate_spec m))"
    using save_backend.update_as(1) [OF b, of "mutationWhere ps (absPaymentOrder OpUpdate m)"] order_rowAfter [of _ OpUpdate m]
    by (simp add: PaymentOrder_updateSave_def sa paymentorder_values mutationWhere_def)
  show "onWorld (PaymentOrder_updateOneSave sd []) ((absPaymentOrder OpUpdateOne m)\<lparr>mu_id := Some i\<rparr>)
      = mapErr SaveFailed (UpdateOneSave nd i (PaymentOrderUpdate_spec m))"
    using save_backend.update_as(2) [OF b, of "(absPaymentOrder OpUpdateOne m)\<lparr>mu_id := Some i\<rparr>"] order_rowAfter [of _ OpUpdateOne m]
    by (simp add: PaymentOrder_updateOneSave_def sa paymentorder_values)
qed

lemma account_saves_refine:
  assumes b: "save_backend Account_saver Account_column nd idInt lastId sd" and f: "idsFit Account_saver idInt nd"
  shows "onWorld (Account_createSave sd []) (absAccount OpCreate m) = mapErr SaveFailed (AccountCreate_sqlSave nd m)"
    and "onWorld (Account_updateSave sd) (mutationWhere ps (absAccount OpUpdate m)) = mapErr SaveFailed (UpdateSave nd ps (AccountUpdate_spec m))"
proof -
  have sa: "sa_createChecks Account_saver = Account_createChecks" "sa_setKey Account_saver = (\<lambda>i r. r\<lparr>ac_ID := i\<rparr>)" "sa_updateChecks Account_saver = []"
    by (simp_all add: Account_saver_def)
  show "onWorld (Account_createSave sd []) (absAccount OpCreate m) = mapErr SaveFailed (AccountCreate_sqlSave nd m)"
    using save_backend.create_as [OF b f, of "absAccount OpCreate m"] by (simp add: Account_createSave_def sa account_values account_create AccountCreate_sqlSave_def cong: option.case_cong)
  show "onWorld (Account_updateSave sd) (mutationWhere ps (absAccount OpUpdate m)) = mapErr SaveFailed (UpdateSave nd ps (AccountUpdate_spec m))"
    using save_backend.update_as(1) [OF b, of "mutationWhere ps (absAccount OpUpdate m)"] account_rowAfter [of _ OpUpdate m]
    by (simp add: Account_updateSave_def sa account_values mutationWhere_def)
qed

lemma identity_saves_refine:
  assumes b: "save_backend Identity_saver Identity_column nd idInt lastId sd" and f: "idsFit Identity_saver idInt nd"
  shows "onWorld (Identity_createSave sd []) (absIdentity OpCreate m) = mapErr SaveFailed (IdentityCreate_sqlSave nd m)"
proof -
  have sa: "sa_createChecks Identity_saver = Identity_createChecks" "sa_setKey Identity_saver = (\<lambda>i r. r\<lparr>id_ID := i\<rparr>)"
    by (simp_all add: Identity_saver_def)
  show ?thesis
    using save_backend.create_as [OF b f, of "absIdentity OpCreate m"] by (simp add: Identity_createSave_def sa identity_values identity_create IdentityCreate_sqlSave_def cong: option.case_cong)
qed

section \<open>Many at once\<close>

definition specOf :: "('id, 'r) ent_saver \<Rightarrow> ('id, 'r) mutation \<Rightarrow> 'id create_spec" where "specOf sa m = snd (createSpec sa [] m)"

definition createdNodes :: "('id, 'r) ent_saver \<Rightarrow> ('id, 'r) mutation list \<Rightarrow> 'id spec_value list \<Rightarrow> 'r option list" where
  "createdNodes sa ms vs = map2 (\<lambda>m v. bulkId sa (fst (createSpec sa [] m)) v) ms vs"

definition sound :: "('id, 'r) ent_saver \<Rightarrow> ('id, 'r) mutation \<Rightarrow> bool" where
  "sound sa m \<longleftrightarrow> mu_typ m = sa_typ sa \<and> runChecks (sa_createChecks sa) m = None"

definition enter :: "('id, 'r) ent_saver \<Rightarrow> nat \<Rightarrow> ('id, 'r) mutation \<Rightarrow> ('id, 'r) bulk \<Rightarrow> ('id, 'r) bulk" where
  "enter sa i m b = b\<lparr>bk_mutations := (bk_mutations b)[i := m], bk_nodes := (bk_nodes b)[i := Some (fst (createSpec sa [] m))],
     bk_specs := (bk_specs b)[i := Some (specOf sa m)]\<rparr>"

lemma bulkStep_sound:
  assumes "sound sa m" and "bk_mutations b ! i = m" and "bulkStep sa sd conflict (Suc i) hooks (enter sa i m b, s) = (res, b', t)"
  shows "case res of
      Inl e \<Rightarrow> \<exists>b''. bulkStep sa sd conflict i ([] # hooks) (b, s) = (Inl e, b'', t)
    | Inr _ \<Rightarrow> \<forall>sp n. bk_specs b' ! i = Some sp \<and> bulkId sa (fst (createSpec sa [] m)) (cs_id sp) = Some n \<longrightarrow>
        (\<exists>b''. bulkStep sa sd conflict i ([] # hooks) (b, s) = (Inr (), b'', t) \<and> bk_nodes b'' = (bk_nodes b')[i := Some n] \<and> bk_specs b'' = bk_specs b')"
  using assms by (cases "createSpec sa [] m") (auto simp: bulkBase_def enter_def sound_def specOf_def split: sum.split)

lemma enter_lists:
  assumes "length done = length dn" and "length dsp = length dn"
    and "bk_mutations b = done @ m # rest" and "bk_nodes b = dn @ map (\<lambda>_. None) (m # rest)" and "bk_specs b = map Some dsp @ map (\<lambda>_. None) (m # rest)"
  shows "bk_mutations (enter sa (length dn) m b) = (done @ [m]) @ rest"
    and "bk_nodes (enter sa (length dn) m b) = (dn @ [Some (fst (createSpec sa [] m))]) @ map (\<lambda>_. None) rest"
    and "bk_specs (enter sa (length dn) m b) = map Some (dsp @ [specOf sa m]) @ map (\<lambda>_. None) rest"
    and "bk_mutations b ! length dn = m"
  using assms by (simp_all add: enter_def list_update_append nth_append)

text \<open>The chain from builder \<open>i\<close> on, with the statements \<open>dsp\<close> of the builders before it.\<close>

lemma bulk_chain:
  assumes "list_all (sound sa) rest" and "length done = length dn" and "length dsp = length dn"
    and "bk_mutations b = done @ rest" and "bk_nodes b = dn @ map (\<lambda>_. None) rest" and "bk_specs b = map Some dsp @ map (\<lambda>_. None) rest"
    and "sd_BatchCreate sd (dsp @ map (specOf sa) rest) (map (atMutation (done @ rest)) conflict) s = (res, t)"
  shows "case res of
      Inl e \<Rightarrow> \<exists>b'. bulkStep sa sd conflict (length dn) (map (\<lambda>_. []) rest) (b, s) = (Inl (ExecError (SaveFailed (createErr e))), b', t)
    | Inr vs \<Rightarrow> length vs = length dn + length rest \<longrightarrow> None \<notin> set (createdNodes sa rest (drop (length dn) vs)) \<longrightarrow>
        (\<exists>b'. bulkStep sa sd conflict (length dn) (map (\<lambda>_. []) rest) (b, s) = (Inr (), b', t)
          \<and> bk_nodes b' = dn @ createdNodes sa rest (drop (length dn) vs)
          \<and> bk_specs b' = map2 (\<lambda>sp v. Some (sp\<lparr>cs_id := v\<rparr>)) (dsp @ map (specOf sa) rest) vs)"
  using assms
proof (induction rest arbitrary: "done" dn dsp b)
  case Nil
  have "List.map_filter id (map Some dsp) = dsp" by (induction dsp) (simp_all add: map_filter_simps)
  with Nil show ?case
    by (auto simp: batchCreate_def createdNodes_def zip_map1 case_prod_beta split: sum.splits)
next
  case (Cons m rest)
  let ?n = "fst (createSpec sa [] m)" and ?i = "length dn"
  note upd = enter_lists [OF Cons.prems(2-6)]
  have pre: "list_all (sound sa) rest" "length (done @ [m]) = length (dn @ [Some ?n])" "length (dsp @ [specOf sa m]) = length (dn @ [Some ?n])"
    and m: "sound sa m" using Cons.prems(1-3) by simp_all
  have bc: "sd_BatchCreate sd ((dsp @ [specOf sa m]) @ map (specOf sa) rest) (map (atMutation ((done @ [m]) @ rest)) conflict) s = (res, t)"
    using Cons.prems(7) by simp
  note IH = Cons.IH [OF pre upd(1-3) bc]
  obtain r b' u where nxt: "bulkStep sa sd conflict (Suc ?i) (map (\<lambda>_. []) rest) (enter sa ?i m b, s) = (r, b', u)" by (metis prod.exhaust)
  note step = bulkStep_sound [OF m upd(4) nxt]
  show ?case
  proof (cases res)
    case (Inl e)
    with IH nxt step show ?thesis by auto
  next
    case (Inr vs)
    have "\<exists>b''. bulkStep sa sd conflict ?i (map (\<lambda>_. []) (m # rest)) (b, s) = (Inr (), b'', t)
        \<and> bk_nodes b'' = dn @ createdNodes sa (m # rest) (drop ?i vs)
        \<and> bk_specs b'' = map2 (\<lambda>sp v. Some (sp\<lparr>cs_id := v\<rparr>)) (dsp @ map (specOf sa) (m # rest)) vs"
      if l: "length vs = ?i + length (m # rest)" and n: "None \<notin> set (createdNodes sa (m # rest) (drop ?i vs))"
    proof -
      have d: "drop ?i vs = vs ! ?i # drop (Suc ?i) vs" using l by (simp add: Cons_nth_drop_Suc)
      with n obtain x where x: "bulkId sa ?n (vs ! ?i) = Some x" by (cases "bulkId sa ?n (vs ! ?i)") (auto simp: createdNodes_def)
      have b': "r = Inr ()" "u = t" "bk_nodes b' = (dn @ [Some ?n]) @ createdNodes sa rest (drop (Suc ?i) vs)"
        "bk_specs b' = map2 (\<lambda>sp v. Some (sp\<lparr>cs_id := v\<rparr>)) (dsp @ specOf sa m # map (specOf sa) rest) vs"
        using IH nxt n d l Inr by (auto simp: createdNodes_def)
      then have "bk_specs b' ! ?i = Some ((specOf sa m)\<lparr>cs_id := vs ! ?i\<rparr>)" using l Cons.prems(3) by (simp add: nth_append)
      with step x b' d show ?thesis by (auto simp: createdNodes_def list_update_append)
    qed
    with Inr show ?thesis by simp
  qed
qed

lemma bulk_rejects:
  assumes "list_all (\<lambda>m. mu_typ m = sa_typ sa) rest" and "list_all (sound sa) good" and "rest = good @ bad # others" and "runChecks (sa_createChecks sa) bad = Some e"
    and "length (bk_mutations b) = i + length rest" and "length (bk_nodes b) = i + length rest" and "drop i (bk_mutations b) = rest"
  shows "\<exists>b'. bulkStep sa sd conflict i (map (\<lambda>_. []) rest) (b, s) = (Inl (ExecError (SaveFailed e)), b', s)"
  using assms
proof (induction good arbitrary: rest i b)
  case Nil
  then have "bk_mutations b ! i = bad" by (metis append_Nil drop_eq_Nil2 hd_drop_conv_nth leI length_greater_0_conv list.discI list.sel(1) nat_less_le)
  with Nil show ?case by (simp add: bulkBase_def)
next
  case (Cons m good)
  from Cons.prems have m: "bk_mutations b ! i = m" "sound sa m" by (simp_all add: nth_via_drop)
  have d: "drop (Suc i) (bk_mutations (enter sa i m b)) = good @ bad # others"
    using Cons.prems(3,7) tl_drop [of i "bk_mutations b"] by (simp add: enter_def drop_Suc [of i "bk_mutations b"])
  obtain b' where nxt: "bulkStep sa sd conflict (Suc i) (map (\<lambda>_. []) (good @ bad # others)) (enter sa i m b, s) = (Inl (ExecError (SaveFailed e)), b', s)"
    using Cons.IH [OF _ _ refl Cons.prems(4) _ _ d] Cons.prems(1-3,5,6) by (auto simp: enter_def)
  from bulkStep_sound [OF m(2,1) nxt] Cons.prems(3) show ?case by simp
qed

text \<open>
  Many entities are created by one statement or by none. Without hooks, with the mutations \<open>ms\<close> that the defaults leave: if a check rejects one of
  them, the first rejection is returned and no statement runs; otherwise one \<open>BatchCreate\<close> with the statements of all builders in their order
  runs, its error is returned, and when it succeeds the nodes of the builders, each with the id of its statement.
\<close>

theorem bulk_one_statement:
  assumes prep: "prepareBulk sa clk (map (\<lambda>_. []) builders) builders s = (Inr ms, s')"
    and ne: "ms \<noteq> []" and len: "length ms = length builders" and ty: "list_all (\<lambda>m. mu_typ m = sa_typ sa) ms"
  shows "ms = good @ bad # others \<and> list_all (\<lambda>m. runChecks (sa_createChecks sa) m = None) good \<and> runChecks (sa_createChecks sa) bad = Some e \<longrightarrow>
      bulkSave sa sd clk conflict (map (\<lambda>_. []) builders) (Inr builders) s = (Inl (CreateError (ExecError (SaveFailed e))), s')"
    and "list_all (\<lambda>m. runChecks (sa_createChecks sa) m = None) ms \<longrightarrow>
      (case sd_BatchCreate sd (map (specOf sa) ms) (map (atMutation ms) conflict) s' of
         (Inl e, t) \<Rightarrow> bulkSave sa sd clk conflict (map (\<lambda>_. []) builders) (Inr builders) s = (Inl (CreateError (ExecError (SaveFailed (createErr e)))), t)
       | (Inr vs, t) \<Rightarrow> length vs = length ms \<and> None \<notin> set (createdNodes sa ms vs) \<longrightarrow>
           bulkSave sa sd clk conflict (map (\<lambda>_. []) builders) (Inr builders) s = (Inr (createdNodes sa ms vs), t))"
proof -
  let ?b = "\<lparr>bk_mutations = ms, bk_nodes = map (\<lambda>_. None) ms, bk_specs = map (\<lambda>_. None) ms\<rparr>"
  have hooks: "map (\<lambda>_. []) builders = map (\<lambda>_. []) ms" using len by (simp add: map_replicate_const)
  have save: "bulkSave sa sd clk conflict (map (\<lambda>_. []) builders) (Inr builders) s = (case bulkStep sa sd conflict 0 (map (\<lambda>_. []) ms) (?b, s') of
      (Inl e, _, t) \<Rightarrow> (Inl (CreateError e), t) | (Inr _, b, t) \<Rightarrow> (Inr (bk_nodes b), t))"
    using prep ne by (simp add: bulkSave_def andThen_def mapErr_def hooks)
  show "ms = good @ bad # others \<and> list_all (\<lambda>m. runChecks (sa_createChecks sa) m = None) good \<and> runChecks (sa_createChecks sa) bad = Some e \<longrightarrow>
      bulkSave sa sd clk conflict (map (\<lambda>_. []) builders) (Inr builders) s = (Inl (CreateError (ExecError (SaveFailed e))), s')"
  proof (intro impI, elim conjE)
    assume ms: "ms = good @ bad # others" and good: "list_all (\<lambda>m. runChecks (sa_createChecks sa) m = None) good" and bad: "runChecks (sa_createChecks sa) bad = Some e"
    have "list_all (sound sa) good" using good ty ms by (auto simp: list_all_iff sound_def)
    from bulk_rejects [OF ty this ms bad, of ?b 0 sd conflict s'] save
    show "bulkSave sa sd clk conflict (map (\<lambda>_. []) builders) (Inr builders) s = (Inl (CreateError (ExecError (SaveFailed e))), s')" by auto
  qed
  obtain res t where bc: "sd_BatchCreate sd (map (specOf sa) ms) (map (atMutation ms) conflict) s' = (res, t)" by fastforce
  have "list_all (sound sa) ms" if "list_all (\<lambda>m. runChecks (sa_createChecks sa) m = None) ms" using that ty by (auto simp: list_all_iff sound_def)
  from bulk_chain [OF this, of "[]" "[]" "[]" ?b sd conflict s' res t] bc save
  show "list_all (\<lambda>m. runChecks (sa_createChecks sa) m = None) ms \<longrightarrow>
      (case sd_BatchCreate sd (map (specOf sa) ms) (map (atMutation ms) conflict) s' of
         (Inl e, t) \<Rightarrow> bulkSave sa sd clk conflict (map (\<lambda>_. []) builders) (Inr builders) s = (Inl (CreateError (ExecError (SaveFailed (createErr e)))), t)
       | (Inr vs, t) \<Rightarrow> length vs = length ms \<and> None \<notin> set (createdNodes sa ms vs) \<longrightarrow>
           bulkSave sa sd clk conflict (map (\<lambda>_. []) builders) (Inr builders) s = (Inr (createdNodes sa ms vs), t))"
    by (auto split: sum.splits)
qed

section \<open>Upserts with new values\<close>

text \<open>
  What the options do to the columns of an INSERT that conflicts, as documented in package \<open>sql\<close>: \<open>ResolveWithNewValues\<close> takes the new value for every
  column of the statement, and \<open>ResolveWith\<close> runs its function after the options before it. The last call on a column counts.
\<close>

fun opColumn :: "update_op \<Rightarrow> string" where
  "opColumn (SetTo c _) = c"
| "opColumn (AddTo c _) = c"
| "opColumn (SetExcluded c) = c"
| "opColumn (SetIgnore c) = c"

definition lastOn :: "string \<Rightarrow> update_set \<Rightarrow> update_op option" where
  "lastOn c u = find (\<lambda>x. opColumn x = c) (rev u)"

locale conflict_action =
  fixes resolve :: "unit conflict_option list \<Rightarrow> string list \<Rightarrow> update_set"
  assumes new_values: "resolve [ResolveWithNewValues] cols = map SetExcluded cols"
    and resolve_with: "resolve (opts @ [ResolveWith g]) cols = g () (resolve opts cols)"
begin

lemma new_values_keep:
  assumes "c \<in> set cols"
  shows "lastOn c (resolve (map (atMutation m) (oc_UpdateNewValues (onConflict (keepImmutable ic imm)) [])) cols)
    = Some (if c = ic \<and> mu_id m \<noteq> None \<or> c \<in> ef_name ` {f \<in> set imm. fieldGet f m \<noteq> None} then SetIgnore c else SetExcluded c)"
proof -
  let ?ig = "(if mu_id m \<noteq> None then [ic] else []) @ map ef_name (filter (\<lambda>f. fieldGet f m \<noteq> None) imm)"
  have u: "resolve (map (atMutation m) (oc_UpdateNewValues (onConflict (keepImmutable ic imm)) [])) cols = map SetExcluded cols @ map SetIgnore ?ig"
    using resolve_with [of "[ResolveWithNewValues]" "\<lambda>_. keepImmutable ic imm m" cols] by (simp add: onConflict_def new_values keepImmutable_def)
  have "find (\<lambda>x. opColumn x = c) (map SetIgnore xs) = (if c \<in> set xs then Some (SetIgnore c) else None)" for xs by (induction xs) auto
  moreover have "find (\<lambda>x. opColumn x = c) (map SetExcluded xs) = (if c \<in> set xs then Some (SetExcluded c) else None)" for xs by (induction xs) auto
  moreover have "find P (xs @ ys) = (case find P xs of None \<Rightarrow> find P ys | Some x \<Rightarrow> Some x)" for P :: "update_op \<Rightarrow> bool" and xs ys by (induction xs) auto
  ultimately show ?thesis
    unfolding lastOn_def u by (auto simp: rev_map assms simp del: map_append)
qed

end

fun resolveOption :: "string list \<Rightarrow> unit conflict_option \<Rightarrow> update_set \<Rightarrow> update_set" where
  "resolveOption cols ResolveWithNewValues u = u @ map SetExcluded cols"
| "resolveOption cols ResolveWithIgnore u = u @ map SetIgnore cols"
| "resolveOption cols (ResolveWith g) u = g () u"
| "resolveOption cols _ u = u"

interpretation update_set: conflict_action "\<lambda>opts cols. fold (resolveOption cols) opts []"
  by unfold_locales simp_all

text \<open>
  An upsert of an item with new values keeps the columns that the schema declares immutable, as far as the builder has set them, and takes the new value
  for every other column of the statement; an upsert without options is refused, except by \<open>ExecX\<close>, which inserts the row like \<open>Create\<close>.
\<close>

theorem upsert_keeps_immutable:
  assumes "conflict_action resolve" and "c \<in> set cols"
  shows "lastOn c (resolve (map (atMutation m) (oc_UpdateNewValues ItemUpsertOne_options (ItemCreate_OnConflict [] []))) cols)
      = Some (if c = ''id'' \<and> mu_id m \<noteq> None \<or> c \<in> {''uid'', ''item_id'', ''source'', ''create_at_unix''} \<and> mu_values m c \<noteq> None
              then SetIgnore c else SetExcluded c)"
    and "un_Exec (ItemUpsertOne_methods sd clk) hooks [] = fail MissingOptions"
    and "un_ExecX (ItemUpsertOne_methods sd clk) [] [] = mapErr (UpsertPanic \<circ> CreateError) (cr_Exec (ItemCreate_methods sd clk []) [])"
proof -
  have "ef_name ` {f \<in> set Item_immutable. fieldGet f m \<noteq> None} = {c \<in> {''uid'', ''item_id'', ''source'', ''create_at_unix''}. mu_values m c \<noteq> None}"
  proof -
    have "ef_name ` {f \<in> set Item_immutable. fieldGet f m \<noteq> None} = {c \<in> ef_name ` set Item_immutable. mu_values m c \<noteq> None}" by (auto simp: fieldGet_def)
    moreover have "ef_name ` set Item_immutable = {''uid'', ''item_id'', ''source'', ''create_at_unix''}" by (simp add: Item_immutable_def item_fields)
    ultimately show ?thesis by simp
  qed
  with conflict_action.new_values_keep [OF assms, of m "''id''" Item_immutable]
  show "lastOn c (resolve (map (atMutation m) (oc_UpdateNewValues ItemUpsertOne_options (ItemCreate_OnConflict [] []))) cols)
      = Some (if c = ''id'' \<and> mu_id m \<noteq> None \<or> c \<in> {''uid'', ''item_id'', ''source'', ''create_at_unix''} \<and> mu_values m c \<noteq> None
              then SetIgnore c else SetExcluded c)"
    by (simp add: ItemUpsertOne_options_def ItemCreate_OnConflict_def onConflict_def)
  show "un_Exec (ItemUpsertOne_methods sd clk) hooks [] = fail MissingOptions"
    and "un_ExecX (ItemUpsertOne_methods sd clk) [] [] = mapErr (UpsertPanic \<circ> CreateError) (cr_Exec (ItemCreate_methods sd clk []) [])"
    by (simp_all add: ItemUpsertOne_methods_def upsertMethods_def ItemCreate_methods_def createMethods_def)
qed

text \<open>
  C36: The generated saves are what the stores are modelled on. On a database that keeps the laws of \<open>save_backend\<close>, and with new ids that fit into 64 bits: saving a
  new item, order, account or identity runs the checks and the INSERT of the stores and returns their row or error; updating an item, orders
  by condition or one order by id, and accounts by condition changes the rows as the stores say, sums and NULL included; and the
  statement of \<open>lockUID\<close> adds the lock row of a player unless it is there.
\<close>

theorem store_saves_refine:
  assumes "save_backend Item_saver Item_column ni idI lastI si" and "idsFit Item_saver idI ni"
    and "save_backend PaymentOrder_saver PaymentOrder_column no idO lastO so" and "idsFit PaymentOrder_saver idO no"
    and "save_backend Account_saver Account_column na idA lastA da" and "idsFit Account_saver idA na"
    and "save_backend Identity_saver Identity_column ny idY lastY dy" and "idsFit Identity_saver idY ny"
    and "save_backend ItemUserLock_saver column (TxLock drv) idL lastL dl"
  shows "onWorld (Item_createSave si []) (absItem OpCreate im) = mapErr SaveFailed (ItemCreate_sqlSave ni im)
    \<and> onWorld (Item_updateOneSave si []) ((absItem OpUpdateOne im)\<lparr>mu_id := Some i\<rparr>) = mapErr SaveFailed (ItemUpdateOne_sqlSave ni i im)
    \<and> onWorld (PaymentOrder_createSave so []) (absPaymentOrder OpCreate om) = mapErr SaveFailed (PaymentOrderCreate_sqlSave no om)
    \<and> onWorld (PaymentOrder_updateSave so) (mutationWhere ps (absPaymentOrder OpUpdate om)) = mapErr SaveFailed (UpdateSave no ps (PaymentOrderUpdate_spec om))
    \<and> onWorld (PaymentOrder_updateOneSave so []) ((absPaymentOrder OpUpdateOne om)\<lparr>mu_id := Some oid\<rparr>)
        = mapErr SaveFailed (UpdateOneSave no oid (PaymentOrderUpdate_spec om))
    \<and> onWorld (Account_createSave da []) (absAccount OpCreate am) = mapErr SaveFailed (AccountCreate_sqlSave na am)
    \<and> onWorld (Account_updateSave da) (mutationWhere qs (absAccount OpUpdate am)) = mapErr SaveFailed (UpdateSave na qs (AccountUpdate_spec am))
    \<and> onWorld (Identity_createSave dy []) (absIdentity OpCreate ym) = mapErr SaveFailed (IdentityCreate_sqlSave ny ym)
    \<and> mapErr upsertErr (lockStatement dl clk uid) = lockUID drv uid"
  using item_saves_refine [OF assms(1,2)] order_saves_refine [OF assms(3,4)] account_saves_refine [OF assms(5,6)] identity_saves_refine [OF assms(7,8)]
    lock_refines [OF assms(9)]
  by simp

text \<open>An order whose retries are counted up, by its id, on a table in memory with one order.\<close>

definition identityNodes :: "(IdentityRow list, IdentityRow, uint64) nodes" where
  "identityNodes = listNodes id_ID (\<lambda>i r. r\<lparr>id_ID := i\<rparr>) (\<lambda>_. 7)"

definition sevenNodes :: "(PaymentOrder list, PaymentOrder, uint64) nodes" where
  "sevenNodes = listNodes po_ID setOrderID (\<lambda>_. 7)"

definition sevenAccounts :: "(Account list, Account, uint64) nodes" where
  "sevenAccounts = listNodes ac_ID (\<lambda>i r. r\<lparr>ac_ID := i\<rparr>) (\<lambda>_. 7)"

definition failingNodes :: "('s, 'r, 'id) nodes" where
  "failingNodes = \<lparr>QueryNodes = (\<lambda>_. fail SqlFailure), CountNodes = (\<lambda>_. fail SqlFailure), CreateNode = (\<lambda>_. fail SqlFailure),
     UpsertNode = (\<lambda>_. fail SqlFailure), UpdateNodes = (\<lambda>_ _. fail SqlFailure), UpdateNode = (\<lambda>_ _. fail SqlFailure), DeleteNodes = (\<lambda>_. fail SqlFailure)\<rparr>"

definition lockDrv :: "ItemUserLock list item_drv" where
  "lockDrv = \<lparr>BeginTx = ok (), CommitTx = ok (), RollbackTx = ok (), TxItem = failingNodes, TxNonce = failingNodes,
     TxLock = listNodes il_ID (\<lambda>i r. r\<lparr>il_ID := i\<rparr>) (\<lambda>_. 7), DbItem = failingNodes, Clock = (\<lambda>s. (0, s))\<rparr>"

definition sevenItems :: "(Item list, Item, int) nodes" where
  "sevenItems = listNodes it_ID (\<lambda>i r. r\<lparr>it_ID := i\<rparr>) (\<lambda>_. 7)"

lemma idsFit_seven: "sa_assertId sa (Int64ID (idInt i)) = Some i \<Longrightarrow> idsFit sa idInt (listNodes key setkey (\<lambda>_. i))"
  by (auto simp: idsFit_def listNodes_def mem_nodes_def Let_def split: if_splits)

definition noLast :: "'s \<Rightarrow> int" where "noLast _ = 0"

definition retried :: "(uint64, PaymentOrder) mutation" where
  "retried = (absPaymentOrder OpUpdateOne (AddRetryTimesField 1 newPaymentOrderMutation))\<lparr>mu_id := Some (po_ID openOrder)\<rparr>"

theorem store_saves_refine_witness:
  "fst (onWorld (PaymentOrder_updateOneSave (nodesDriver PaymentOrder_saver PaymentOrder_column sevenNodes int noLast) []) retried [openOrder])
     = Inr (openOrder\<lparr>po_RetryTimes := po_RetryTimes openOrder + 1\<rparr>)"
proof -
  have fit: "idsFit Item_saver id sevenItems" "idsFit PaymentOrder_saver int sevenNodes" "idsFit Account_saver int sevenAccounts" "idsFit Identity_saver int identityNodes"
    unfolding sevenItems_def sevenNodes_def sevenAccounts_def identityNodes_def
    by (rule idsFit_seven; simp add: Item_saver_def PaymentOrder_saver_def Account_saver_def Identity_saver_def toUint64_def)+
  have "fst (mapErr SaveFailed (UpdateOneSave sevenNodes (po_ID openOrder) (PaymentOrderUpdate_spec (AddRetryTimesField 1 newPaymentOrderMutation))) [openOrder])
      = Inr (openOrder\<lparr>po_RetryTimes := po_RetryTimes openOrder + 1\<rparr>)"
    by (simp add: UpdateOneSave_def sevenNodes_def listNodes_def mem_nodes_def updated_def uniq_def noIndex_def mapErr_def PaymentOrderUpdate_spec_def setAdd_def openOrder_def)
  then show ?thesis
    using store_saves_refine [where drv = lockDrv and lastI = noLast and lastO = noLast and lastA = noLast and lastY = noLast and lastL = noLast
        and oid = "po_ID openOrder" and om = "AddRetryTimesField 1 newPaymentOrderMutation",
        OF item_saves.save_backend_axioms fit(1) order_saves.save_backend_axioms fit(2) account_saves.save_backend_axioms fit(3)
        identity_saves.save_backend_axioms fit(4) lock_saves.save_backend_axioms]
    by (simp add: retried_def)
qed

end
