(* ===== verification/GoFloat.thy ===== *)
theory GoFloat
  imports Complex_Main "HOL-Library.Log_Nat" GoStd
begin

text \<open>
  \<open>float64\<close> arithmetic as the generic state machine (\<open>internal/fsm\<close>) uses it: conversions from and to 64-bit
  integers, sums, quotients and products. A finite \<open>float64\<close> is its rational value, and an operation is the exact
  one rounded to 53 bits, to the nearest number and to the even one of two (IEEE 754). The exponent
  is not bounded here: the operands come from 64-bit integers and the constant 100, so that no
  result comes near the ends of its range. A conversion of a number that no \<open>int64\<close> can hold is up
  to the implementation of Go: a parameter.
\<close>

definition ilog2 :: "rat \<Rightarrow> int" where
  "ilog2 x = (let (n, d) = quotient_of x; k = int (floorlog 2 (nat n)) - int (floorlog 2 (nat d))
              in if 2 powi k \<le> x then k else k - 1)"

definition roundEven :: "rat \<Rightarrow> int" where
  "roundEven y = (let f = \<lfloor>y\<rfloor>; r = y - of_int f
     in if r < 1 / 2 then f else if 1 / 2 < r then f + 1 else if even f then f else f + 1)"

definition round53 :: "rat \<Rightarrow> rat" where
  "round53 x = (if x = 0 then 0 else
     let ulp = 2 powi (ilog2 \<bar>x\<bar> - 52) in sgn x * of_int (roundEven (\<bar>x\<bar> / ulp)) * ulp)"

definition floatOfInt :: "int \<Rightarrow> rat" where
  "floatOfInt n = round53 (of_int n)"

definition floatAdd :: "rat \<Rightarrow> rat \<Rightarrow> rat" where
  "floatAdd x y = round53 (x + y)"

definition floatMul :: "rat \<Rightarrow> rat \<Rightarrow> rat" where
  "floatMul x y = round53 (x * y)"

definition floatDiv :: "rat \<Rightarrow> rat \<Rightarrow> rat" where
  "floatDiv x y = round53 (x / y)"

definition truncate :: "rat \<Rightarrow> int" where
  "truncate x = (if 0 \<le> x then \<lfloor>x\<rfloor> else \<lceil>x\<rceil>)"

definition int64OfFloat :: "(rat \<Rightarrow> int) \<Rightarrow> rat \<Rightarrow> int" where
  "int64OfFloat outOfRange x = (let n = truncate x in if - (2 ^ 63) \<le> n \<and> n < 2 ^ 63 then n else outOfRange x)"

section \<open>Exact results\<close>

lemma roundEven_int [simp]: "roundEven (of_int n) = n"
  by (simp add: roundEven_def Let_def)

lemma ilog2_bounds:
  assumes "0 < x"
  shows "2 powi ilog2 x \<le> x" and "x < 2 powi (ilog2 x + 1)"
proof -
  obtain n d where q: "quotient_of x = (n, d)" by (cases "quotient_of x")
  have d: "0 < d" using q by (rule quotient_of_denom_pos)
  have x: "x = of_int n / of_int d" using q by (rule quotient_of_div)
  have n: "0 < n" using assms x d by (simp add: zero_less_divide_iff)
  define a b where ab: "a = floorlog 2 (nat n)" "b = floorlog 2 (nat d)"
  have fl: "2 ^ (floorlog 2 m - 1) \<le> (of_nat m :: rat) \<and> of_nat m < (2 :: rat) ^ floorlog 2 m \<and> 0 < floorlog 2 m" if "0 < m" for m
  proof -
    have "2 ^ (floorlog 2 m - 1) \<le> m" "m < 2 ^ floorlog 2 m" using floorlog_bounds [of m 2] that by simp_all
    then have "(of_nat (2 ^ (floorlog 2 m - 1)) :: rat) \<le> of_nat m" "(of_nat m :: rat) < of_nat (2 ^ floorlog 2 m)"
      by (simp_all only: of_nat_le_iff of_nat_less_iff)
    moreover have "floorlog 2 m \<noteq> 0" using that by (simp add: floorlog_eq_zero_iff)
    ultimately show ?thesis by simp
  qed
  have "of_nat (nat n) = (of_int n :: rat)" "of_nat (nat d) = (of_int d :: rat)" using n d by simp_all
  with fl [of "nat n"] fl [of "nat d"] n d
  have r: "(2::rat) ^ (a - 1) \<le> of_int n" "of_int n < (2::rat) ^ a" "(2::rat) ^ (b - 1) \<le> of_int d" "of_int d < (2::rat) ^ b"
    and pos: "0 < a" "0 < b" by (simp_all add: ab)
  define k where "k = int a - int b"
  have lo: "2 powi (k - 1) \<le> x"
  proof -
    have "2 powi (k - 1) = (2::rat) ^ (a - 1) / 2 ^ b"
      using pos by (simp add: k_def power_int_diff power_int_add of_nat_diff flip: power_int_of_nat)
    also have "\<dots> \<le> x" unfolding x using r d n by (intro frac_le) auto
    finally show ?thesis .
  qed
  have hi: "x < 2 powi (k + 1)"
  proof -
    have "x < (2::rat) ^ a / 2 ^ (b - 1)" unfolding x using r d n by (intro frac_less) auto
    also have "\<dots> = 2 powi (k + 1)"
      using pos by (simp add: k_def power_int_diff power_int_add of_nat_diff flip: power_int_of_nat)
    finally show ?thesis .
  qed
  have il: "ilog2 x = (if 2 powi k \<le> x then k else k - 1)" by (simp add: ilog2_def q k_def ab)
  show "2 powi ilog2 x \<le> x" using lo by (simp add: il)
  show "x < 2 powi (ilog2 x + 1)" using hi by (simp add: il)
qed

lemma round53_exact:
  assumes "\<bar>x\<bar> / 2 powi (ilog2 \<bar>x\<bar> - 52) = of_int m"
  shows "round53 x = x"
proof (cases "x = 0")
  case False
  have "of_int m * 2 powi (ilog2 \<bar>x\<bar> - 52) = \<bar>x\<bar>" using assms by (auto simp: field_simps)
  with False show ?thesis by (simp add: round53_def Let_def assms sgn_mult_abs mult.assoc)
qed (simp add: round53_def)

lemma round53_int:
  assumes "\<bar>n\<bar> \<le> 2 ^ 53"
  shows "round53 (of_int n) = of_int n"
proof (cases "n = 0")
  case False
  define x where "x = (of_int \<bar>n\<bar> :: rat)"
  have x: "0 < x" "x \<le> 2 ^ 53" using False assms unfolding x_def by (simp, metis of_int_le_iff of_int_numeral of_int_power)
  have lo: "2 powi ilog2 x \<le> x" using ilog2_bounds(1) [OF x(1)] .
  with x have "(2 :: rat) powi ilog2 x \<le> 2 powi 53" by simp
  then have "ilog2 x \<le> 53" using power_int_strict_increasing [of 53 "ilog2 x" "2 :: rat"] by (cases "ilog2 x \<le> 53") auto
  have "\<exists>m. x / 2 powi (ilog2 x - 52) = of_int m"
  proof (cases "ilog2 x = 53")
    case True
    with lo x have "x = 2 ^ 53" by simp
    with True have "x / 2 powi (ilog2 x - 52) = of_int (2 ^ 52)" by simp
    then show ?thesis ..
  next
    case False
    with \<open>ilog2 x \<le> 53\<close> have "0 \<le> 52 - ilog2 x" by simp
    then obtain k where k: "52 - ilog2 x = int k" by (metis nonneg_int_cases)
    have "x / 2 powi (ilog2 x - 52) = x * 2 powi (52 - ilog2 x)" by (simp add: power_int_diff)
    also have "\<dots> = of_int (\<bar>n\<bar> * 2 ^ k)" unfolding k by (simp add: x_def)
    finally show ?thesis ..
  qed
  then show ?thesis using round53_exact [of "of_int n"] by (auto simp: x_def)
qed (simp add: round53_def)

lemma roundEven_nonneg: "0 \<le> y \<Longrightarrow> 0 \<le> roundEven y"
  by (simp add: roundEven_def Let_def)

lemma round53_nonneg: "0 \<le> x \<Longrightarrow> 0 \<le> round53 x"
  by (simp add: round53_def Let_def roundEven_nonneg)

lemma roundEven_error: "\<bar>of_int (roundEven y) - y\<bar> \<le> 1 / 2"
proof -
  have "of_int \<lfloor>y\<rfloor> \<le> y" "y < of_int \<lfloor>y\<rfloor> + 1" by linarith+
  then show ?thesis by (auto simp: roundEven_def Let_def abs_le_iff)
qed

lemma round53_error: "\<bar>round53 x - x\<bar> \<le> \<bar>x\<bar> / 2 ^ 53"
proof (cases "x = 0")
  case False
  define u where "u = (2 :: rat) powi (ilog2 \<bar>x\<bar> - 52)"
  have u: "0 < u" "u \<le> \<bar>x\<bar> / 2 ^ 52" using ilog2_bounds(1) [of "\<bar>x\<bar>"] False by (simp_all add: u_def power_int_diff divide_right_mono)
  have "round53 x - x = sgn x * (of_int (roundEven (\<bar>x\<bar> / u)) * u - \<bar>x\<bar>)"
    using False by (simp add: round53_def Let_def u_def [symmetric] right_diff_distrib mult.assoc sgn_mult_abs)
  also have "\<dots> = sgn x * ((of_int (roundEven (\<bar>x\<bar> / u)) - \<bar>x\<bar> / u) * u)" using u by (simp add: field_simps)
  finally have "\<bar>round53 x - x\<bar> = \<bar>of_int (roundEven (\<bar>x\<bar> / u)) - \<bar>x\<bar> / u\<bar> * u"
    using False u by (simp add: abs_mult abs_sgn_eq)
  also have "\<dots> \<le> 1 / 2 * u" using roundEven_error u by (intro mult_right_mono) auto
  also have "\<dots> \<le> \<bar>x\<bar> / 2 ^ 53" using u by simp
  finally show ?thesis .
qed (simp add: round53_def)

lemma floatOfInt_exact [simp]: "\<bar>n\<bar> \<le> 2 ^ 53 \<Longrightarrow> floatOfInt n = of_int n"
  by (simp add: floatOfInt_def round53_int)

lemma int64OfFloat_int [simp]: "fits64 n \<Longrightarrow> int64OfFloat out (of_int n) = n"
  by (simp add: int64OfFloat_def Let_def truncate_def fits64_def)

lemma truncate_nonneg: "0 \<le> x \<Longrightarrow> 0 \<le> truncate x"
  by (simp add: truncate_def)

end
