(* ===== verification/Fsm.thy ===== *)
theory Fsm
  imports GoFloat
begin

text \<open>
  The generic state machine of \<open>internal/fsm\<close>: states with a duration, a timeout that moves to the next state,
  a speed that scales time, and callbacks around every switch. The states a machine is given are interface values:
  here handles \<open>'i\<close> whose methods are the record \<open>callbacks\<close>. A callback may change everything, the machine
  included (the argument of a callback can lead back to it), so a method is a function on the
  world: the argument \<open>'a\<close> and the machine. \<open>SimpleState\<close> is the implementation of a state by optional
  functions.
\<close>

section \<open>Machines\<close>

record ('t, 'i, 'h) FSM =
  fs_defaultState :: 't
  fs_states :: "'t \<Rightarrow> 'i option"
  fs_preSwitchState :: "'h option"
  fs_postSwitchState :: "'h option"
  fs_lastState :: 't
  fs_currentState :: 't
  fs_stateLeftDuration :: duration
  fs_stateTotalDuration :: duration
  fs_extraSpeed100 :: int
  fs_curStateInfo :: "'i option"

type_synonym ('a, 't, 'i, 'h) fsm_world = "'a \<times> ('t, 'i, 'h) FSM"

record ('t, 'i, 'h, 'ev, 'w) callbacks =
  cb_PreEnter :: "'i \<Rightarrow> 't \<Rightarrow> bool \<Rightarrow> 'w \<Rightarrow> duration \<times> 'w"
  cb_PostEnter :: "'i \<Rightarrow> 't \<Rightarrow> bool \<Rightarrow> 'w \<Rightarrow> 'w"
  cb_Update :: "'i \<Rightarrow> duration \<Rightarrow> 'w \<Rightarrow> 'w"
  cb_PreExist :: "'i \<Rightarrow> 't \<Rightarrow> bool \<Rightarrow> 'w \<Rightarrow> 'w"
  cb_PostExist :: "'i \<Rightarrow> 't \<Rightarrow> bool \<Rightarrow> 'w \<Rightarrow> 'w"
  cb_GetNextStateOnTimeOut :: "'i \<Rightarrow> 'w \<Rightarrow> 't \<times> 'w"
  cb_OnEventTrigger :: "'i \<Rightarrow> 'ev \<Rightarrow> 'w \<Rightarrow> 'w"
  cb_switchFunc :: "'h \<Rightarrow> 't \<Rightarrow> 't \<Rightarrow> 'w \<Rightarrow> 'w"

definition Init :: "'t \<Rightarrow> ('t, 'i, 'h) FSM \<Rightarrow> ('t, 'i, 'h) FSM" where
  "Init defaultState f = f\<lparr>fs_defaultState := defaultState, fs_states := (\<lambda>_. None), fs_preSwitchState := None,
     fs_postSwitchState := None, fs_currentState := defaultState, fs_lastState := defaultState\<rparr>"

text \<open>\<open>zero\<close> is the zero value of the type of states.\<close>

definition NewFsm :: "'t \<Rightarrow> 't \<Rightarrow> ('t, 'i, 'h) FSM" where
  "NewFsm zero defaultState = Init defaultState \<lparr>fs_defaultState = zero, fs_states = (\<lambda>_. None), fs_preSwitchState = None,
     fs_postSwitchState = None, fs_lastState = zero, fs_currentState = zero, fs_stateLeftDuration = 0,
     fs_stateTotalDuration = 0, fs_extraSpeed100 = 0, fs_curStateInfo = None\<rparr>"

definition recover ::
  "'t \<Rightarrow> (('a, 't, 'i, 'h) fsm_world \<Rightarrow> ('a, 't, 'i, 'h) fsm_world) option \<Rightarrow> ('a, 't, 'i, 'h) fsm_world \<Rightarrow> ('a, 't, 'i, 'h) fsm_world" where
  "recover defaultState initF w =
     (let (a, f) = w;
          currentState = fs_currentState f;
          w1 = (a, f\<lparr>fs_defaultState := defaultState, fs_states := (\<lambda>_. None), fs_preSwitchState := None, fs_postSwitchState := None\<rparr>);
          (a2, f2) = (case initF of None \<Rightarrow> w1 | Some i \<Rightarrow> i w1)
      in (a2, f2\<lparr>fs_curStateInfo := fs_states f2 currentState\<rparr>))"

definition RecoverFsm where "RecoverFsm initF w = recover (fs_defaultState (snd w)) initF w"

definition RecoverWithDefault where "RecoverWithDefault defaultState initF w = recover defaultState initF w"

definition RegisterState :: "'t \<Rightarrow> 'i option \<Rightarrow> ('t, 'i, 'h) FSM \<Rightarrow> ('t, 'i, 'h) FSM" where
  "RegisterState state value f =
     (let f1 = f\<lparr>fs_states := (fs_states f)(state := value)\<rparr>
      in if state = fs_currentState f1 then f1\<lparr>fs_curStateInfo := value\<rparr> else f1)"

section \<open>Switching and time\<close>

definition ensureInfo :: "('t, 'i, 'h) FSM \<Rightarrow> ('t, 'i, 'h) FSM" where
  "ensureInfo f = (if fs_curStateInfo f = None then f\<lparr>fs_curStateInfo := fs_states f (fs_currentState f)\<rparr> else f)"

definition runHook :: "('t, 'i, 'h, 'ev, 'w) callbacks \<Rightarrow> 'h option \<Rightarrow> 't \<Rightarrow> 't \<Rightarrow> 'w \<Rightarrow> 'w" where
  "runHook cb h oldState newState w = (case h of None \<Rightarrow> w | Some h' \<Rightarrow> cb_switchFunc cb h' oldState newState w)"

definition switchState ::
  "('t, 'i, 'h, 'ev, ('a, 't, 'i, 'h) fsm_world) callbacks \<Rightarrow> 't \<Rightarrow> bool \<Rightarrow> ('a, 't, 'i, 'h) fsm_world \<Rightarrow> ('a, 't, 'i, 'h) fsm_world" where
  "switchState cb newState isTimeOut w =
     (let (a, f0) = w; f = ensureInfo f0; oldState = fs_currentState f in
      case (fs_curStateInfo f, fs_states f newState) of
        (Some oldStateInfo, Some newStateInfo) \<Rightarrow>
          let w1 = runHook cb (fs_preSwitchState f) oldState newState (a, f);
              w2 = cb_PreExist cb oldStateInfo newState isTimeOut w1;
              (stateDuration, a3, f3) = cb_PreEnter cb newStateInfo oldState isTimeOut w2;
              f4 = f3\<lparr>fs_currentState := newState, fs_curStateInfo := Some newStateInfo, fs_lastState := oldState,
                     fs_stateLeftDuration := stateDuration, fs_stateTotalDuration := stateDuration\<rparr>;
              w5 = cb_PostExist cb oldStateInfo newState isTimeOut (a3, f4);
              w6 = cb_PostEnter cb newStateInfo oldState isTimeOut w5
          in runHook cb (fs_postSwitchState (snd w6)) oldState newState w6
      | _ \<Rightarrow> (a, f))"

definition Switch where "Switch cb newState w = switchState cb newState False w"

definition realDT :: "(rat \<Rightarrow> int) \<Rightarrow> int \<Rightarrow> duration \<Rightarrow> duration" where
  "realDT out extraSpeed100 dt =
     (let scale = floatDiv (floatAdd 100 (floatOfInt extraSpeed100)) 100
      in int64OfFloat out (floatMul (floatOfInt dt) scale))"

text \<open>The last line calls a method of a state that a callback may have taken away: a panic, \<open>None\<close>.\<close>

definition Update ::
  "(rat \<Rightarrow> int) \<Rightarrow> ('t, 'i, 'h, 'ev, ('a, 't, 'i, 'h) fsm_world) callbacks \<Rightarrow> duration \<Rightarrow> ('a, 't, 'i, 'h) fsm_world
     \<Rightarrow> ('a, 't, 'i, 'h) fsm_world option" where
  "Update out cb dt w =
     (let (a, f0) = w;
          f = (if fs_curStateInfo f0 = None
               then f0\<lparr>fs_currentState := fs_defaultState f0, fs_curStateInfo := fs_states f0 (fs_defaultState f0)\<rparr> else f0)
      in case fs_curStateInfo f of
        None \<Rightarrow> Some (a, f)
      | Some info \<Rightarrow>
          let dt' = realDT out (fs_extraSpeed100 f) dt;
              w' = (if fs_stateTotalDuration f \<ge> 0 then
                      let f1 = f\<lparr>fs_stateLeftDuration := wrap64 (fs_stateLeftDuration f - dt')\<rparr>
                      in if fs_stateLeftDuration f1 < 0 then
                           (case cb_GetNextStateOnTimeOut cb info (a, f1) of (nextState, w1) \<Rightarrow> switchState cb nextState True w1)
                         else (a, f1)
                    else (a, f))
          in map_option (\<lambda>i. cb_Update cb i dt' w') (fs_curStateInfo (snd w')))"

definition TriggerEvent ::
  "('t, 'i, 'h, 'ev, ('a, 't, 'i, 'h) fsm_world) callbacks \<Rightarrow> 'ev \<Rightarrow> ('a, 't, 'i, 'h) fsm_world \<Rightarrow> ('a, 't, 'i, 'h) fsm_world" where
  "TriggerEvent cb event w =
     (let (a, f0) = w; f = ensureInfo f0 in
      case fs_curStateInfo f of None \<Rightarrow> (a, f) | Some info \<Rightarrow> cb_OnEventTrigger cb info event (a, f))"

definition PreSwitchState where "PreSwitchState preF f = f\<lparr>fs_preSwitchState := preF\<rparr>"

definition PostSwitchState where "PostSwitchState postF f = f\<lparr>fs_postSwitchState := postF\<rparr>"

definition SetSpeed100 where "SetSpeed100 speed100 f = f\<lparr>fs_extraSpeed100 := speed100\<rparr>"

definition GetLastState where "GetLastState f = fs_lastState f"
definition GetCurrentState where "GetCurrentState f = fs_currentState f"
definition GetStateLeftDuration where "GetStateLeftDuration f = fs_stateLeftDuration f"
definition SetStateLeftDuration where "SetStateLeftDuration value f = f\<lparr>fs_stateLeftDuration := value\<rparr>"
definition GetStateTotalDuration where "GetStateTotalDuration f = fs_stateTotalDuration f"
definition GetExtraSpeed100 where "GetExtraSpeed100 f = fs_extraSpeed100 f"
definition SetExtraSpeed100 where "SetExtraSpeed100 value f = f\<lparr>fs_extraSpeed100 := value\<rparr>"

section \<open>States made of functions\<close>

record ('t, 'ev, 'w) SimpleState =
  MPreEnter :: "('t \<Rightarrow> bool \<Rightarrow> 'w \<Rightarrow> duration \<times> 'w) option"
  MPostEnter :: "('t \<Rightarrow> bool \<Rightarrow> 'w \<Rightarrow> 'w) option"
  MUpdate :: "(duration \<Rightarrow> 'w \<Rightarrow> 'w) option"
  MPreExist :: "('t \<Rightarrow> bool \<Rightarrow> 'w \<Rightarrow> 'w) option"
  MPostExist :: "('t \<Rightarrow> bool \<Rightarrow> 'w \<Rightarrow> 'w) option"
  MGetNextStateOnTimeOut :: "('w \<Rightarrow> 't \<times> 'w) option"
  MOnEventTrigger :: "('ev \<Rightarrow> 'w \<Rightarrow> 'w) option"

definition SimplePreEnter where
  "SimplePreEnter s lastState isTimeOut w = (case MPreEnter s of Some f \<Rightarrow> f lastState isTimeOut w | None \<Rightarrow> (-1, w))"

definition SimplePostEnter where
  "SimplePostEnter s lastState isTimeOut w = (case MPostEnter s of Some f \<Rightarrow> f lastState isTimeOut w | None \<Rightarrow> w)"

definition SimpleUpdate where
  "SimpleUpdate s dt w = (case MUpdate s of Some f \<Rightarrow> f dt w | None \<Rightarrow> w)"

definition SimplePreExist where
  "SimplePreExist s nextState isTimeOut w = (case MPreExist s of Some f \<Rightarrow> f nextState isTimeOut w | None \<Rightarrow> w)"

definition SimplePostExist where
  "SimplePostExist s nextState isTimeOut w = (case MPostExist s of Some f \<Rightarrow> f nextState isTimeOut w | None \<Rightarrow> w)"

definition SimpleGetNextState where
  "SimpleGetNextState zero s w = (case MGetNextStateOnTimeOut s of Some f \<Rightarrow> f w | None \<Rightarrow> (zero, w))"

definition SimpleOnEvent where
  "SimpleOnEvent s event w = (case MOnEventTrigger s of Some f \<Rightarrow> f event w | None \<Rightarrow> w)"

definition simpleCallbacks ::
  "'t \<Rightarrow> ('i \<Rightarrow> ('t, 'ev, 'w) SimpleState) \<Rightarrow> ('h \<Rightarrow> 't \<Rightarrow> 't \<Rightarrow> 'w \<Rightarrow> 'w) \<Rightarrow> ('t, 'i, 'h, 'ev, 'w) callbacks" where
  "simpleCallbacks zero simple hook = \<lparr>
     cb_PreEnter = (\<lambda>i. SimplePreEnter (simple i)), cb_PostEnter = (\<lambda>i. SimplePostEnter (simple i)),
     cb_Update = (\<lambda>i. SimpleUpdate (simple i)), cb_PreExist = (\<lambda>i. SimplePreExist (simple i)),
     cb_PostExist = (\<lambda>i. SimplePostExist (simple i)), cb_GetNextStateOnTimeOut = (\<lambda>i. SimpleGetNextState zero (simple i)),
     cb_OnEventTrigger = (\<lambda>i. SimpleOnEvent (simple i)), cb_switchFunc = hook\<rparr>"

section \<open>States that leave the machine alone\<close>

locale passive_states =
  fixes cb :: "('t, 'i, 'h, 'ev, ('a, 't, 'i, 'h) fsm_world) callbacks"
  assumes passive_PreEnter: "snd (snd (cb_PreEnter cb i t b w)) = snd w"
    and passive_PostEnter: "snd (cb_PostEnter cb i t b w) = snd w"
    and passive_Update: "snd (cb_Update cb i dt w) = snd w"
    and passive_PreExist: "snd (cb_PreExist cb i t b w) = snd w"
    and passive_PostExist: "snd (cb_PostExist cb i t b w) = snd w"
    and passive_GetNext: "snd (snd (cb_GetNextStateOnTimeOut cb i w)) = snd w"
    and passive_OnEvent: "snd (cb_OnEventTrigger cb i ev w) = snd w"
    and passive_switchFunc: "snd (cb_switchFunc cb h t t' w) = snd w"

lemmas passive_laws = passive_states.passive_PreEnter passive_states.passive_PostEnter passive_states.passive_Update
  passive_states.passive_PreExist passive_states.passive_PostExist passive_states.passive_GetNext
  passive_states.passive_OnEvent passive_states.passive_switchFunc

definition consistent :: "('t, 'i, 'h) FSM \<Rightarrow> bool" where
  "consistent f \<longleftrightarrow> fs_curStateInfo f = None \<or> fs_curStateInfo f = fs_states f (fs_currentState f)"

lemma consistent_ensure [simp]: "consistent f \<Longrightarrow> consistent (ensureInfo f)"
  by (simp add: consistent_def ensureInfo_def)

text \<open>The effect of a switch on the machine.\<close>

definition entered :: "'t \<Rightarrow> 'i \<Rightarrow> duration \<Rightarrow> ('t, 'i, 'h) FSM \<Rightarrow> ('t, 'i, 'h) FSM" where
  "entered newState info d f = f\<lparr>fs_currentState := newState, fs_curStateInfo := Some info, fs_lastState := fs_currentState f,
     fs_stateLeftDuration := d, fs_stateTotalDuration := d\<rparr>"

context passive_states
begin

lemma runHook_passive: "snd (runHook cb h t t' w) = snd w"
  by (simp add: runHook_def passive_switchFunc split: option.split)

lemma switchState_machine:
  "snd (switchState cb newState b (a, f)) =
     (case (fs_curStateInfo (ensureInfo f), fs_states (ensureInfo f) newState) of
        (Some oldInfo, Some info) \<Rightarrow>
          entered newState info (fst (cb_PreEnter cb info (fs_currentState f) b
            (cb_PreExist cb oldInfo newState b
              (runHook cb (fs_preSwitchState f) (fs_currentState f) newState (a, ensureInfo f))))) (ensureInfo f)
      | _ \<Rightarrow> ensureInfo f)"
proof -
  have c: "fs_currentState (ensureInfo f) = fs_currentState f" "fs_preSwitchState (ensureInfo f) = fs_preSwitchState f"
    by (simp_all add: ensureInfo_def)
  have p: "snd p2 = snd w" if "cb_PreEnter cb i t b w = (d, p2)" for i t b w d and p2 :: "('a, 't, 'i, 'h) fsm_world"
    using passive_PreEnter [of i t b w] that by simp
  show ?thesis
    by (auto simp: switchState_def Let_def c entered_def runHook_passive passive_PostEnter passive_PostExist passive_PreExist
        split: option.split prod.splits dest!: p)
qed

lemma switchState_consistent: "consistent f \<Longrightarrow> consistent (snd (switchState cb t b (a, f)))"
  unfolding switchState_machine using consistent_ensure [of f]
  by (auto simp: entered_def consistent_def split: option.split)

lemma switchState_info: "fs_curStateInfo f \<noteq> None \<Longrightarrow> fs_curStateInfo (snd (switchState cb t b (a, f))) \<noteq> None"
  unfolding switchState_machine by (auto simp: entered_def ensureInfo_def split: option.split)

end

section \<open>Updates\<close>

text \<open>The machine that an update works on, and where it leads.\<close>

definition startInfo :: "('t, 'i, 'h) FSM \<Rightarrow> ('t, 'i, 'h) FSM" where
  "startInfo f = (if fs_curStateInfo f = None
     then f\<lparr>fs_currentState := fs_defaultState f, fs_curStateInfo := fs_states f (fs_defaultState f)\<rparr> else f)"

definition elapsed :: "duration \<Rightarrow> ('t, 'i, 'h) FSM \<Rightarrow> ('t, 'i, 'h) FSM" where
  "elapsed d f = f\<lparr>fs_stateLeftDuration := wrap64 (fs_stateLeftDuration f - d)\<rparr>"

fun updates ::
  "(rat \<Rightarrow> int) \<Rightarrow> ('t, 'i, 'h, 'ev, ('a, 't, 'i, 'h) fsm_world) callbacks \<Rightarrow> duration list \<Rightarrow> ('a, 't, 'i, 'h) fsm_world
     \<Rightarrow> ('a, 't, 'i, 'h) fsm_world option" where
  "updates out cb [] w = Some w"
| "updates out cb (dt # dts) w = Option.bind (Update out cb dt w) (updates out cb dts)"

context passive_states
begin

lemma Update_machine:
  assumes "fs_curStateInfo (startInfo f) = Some i"
    and r_def: "r = realDT out (fs_extraSpeed100 (startInfo f)) dt"
  shows "\<exists>w. Update out cb dt (a, f) = Some w \<and>
     snd w = (if fs_stateTotalDuration (startInfo f) < 0 then startInfo f
              else if fs_stateLeftDuration (elapsed r (startInfo f)) < 0
              then (case cb_GetNextStateOnTimeOut cb i (a, elapsed r (startInfo f)) of
                      (nextState, a', f') \<Rightarrow> snd (switchState cb nextState True (a', elapsed r (startInfo f))))
              else elapsed r (startInfo f))"
proof -
  let ?f = "startInfo f" and ?g = "elapsed r (startInfo f)"
  obtain t a' f' where nxt: "cb_GetNextStateOnTimeOut cb i (a, ?g) = (t, a', f')" by (metis prod_cases3)
  then have f': "f' = ?g" using passive_GetNext [of i "(a, ?g)"] by simp
  define w where "w = (if 0 \<le> fs_stateTotalDuration ?f then
       if fs_stateLeftDuration ?g < 0 then switchState cb t True (a', ?g) else (a, ?g)
     else (a, ?f))"
  have u: "Update out cb dt (a, f) = map_option (\<lambda>j. cb_Update cb j r w) (fs_curStateInfo (snd w))"
    using assms(1) nxt unfolding r_def w_def f' by (simp add: Update_def startInfo_def [symmetric] elapsed_def Let_def cong: if_cong)
  have "fs_curStateInfo ?g \<noteq> None" using assms(1) by (simp add: elapsed_def)
  then have "fs_curStateInfo (snd w) \<noteq> None" using switchState_info assms(1) by (simp add: w_def del: not_None_eq)
  then obtain j where "Update out cb dt (a, f) = Some (cb_Update cb j r w)" using u by auto
  moreover have "snd (cb_Update cb j r w) = snd w" by (rule passive_Update)
  moreover have "snd w = (if fs_stateTotalDuration ?f < 0 then ?f
      else if fs_stateLeftDuration ?g < 0 then snd (switchState cb t True (a', ?g)) else ?g)"
    by (simp add: w_def)
  ultimately show ?thesis unfolding nxt prod.case by auto
qed

lemma Update_idle: "fs_curStateInfo (startInfo f) = None \<Longrightarrow> Update out cb dt (a, f) = Some (a, startInfo f)"
  by (simp add: Update_def startInfo_def)

lemma startInfo_consistent: "consistent f \<Longrightarrow> consistent (startInfo f)"
  by (simp add: consistent_def startInfo_def)

lemma Update_ok:
  assumes "consistent f"
  shows "\<exists>w. Update out cb dt (a, f) = Some w \<and> consistent (snd w)"
proof (cases "fs_curStateInfo (startInfo f)")
  case None
  with assms show ?thesis by (simp add: Update_idle startInfo_consistent)
next
  case (Some i)
  have "consistent (elapsed d (startInfo f))" for d
    using startInfo_consistent [OF assms] by (simp add: consistent_def elapsed_def)
  with Update_machine [OF Some refl, of out dt a] startInfo_consistent [OF assms] show ?thesis
    by (auto simp: switchState_consistent split: if_splits prod.splits)
qed

lemma updates_stay:
  assumes "fs_curStateInfo f = Some i" and "0 \<le> fs_stateTotalDuration f" and "fits64 (fs_stateLeftDuration f)"
    and "\<And>dt. dt \<in> set dts \<Longrightarrow> 0 \<le> realDT out (fs_extraSpeed100 f) dt"
    and "sum_list (map (realDT out (fs_extraSpeed100 f)) dts) \<le> fs_stateLeftDuration f"
  shows "\<exists>a'. updates out cb dts (a, f) =
    Some (a', f\<lparr>fs_stateLeftDuration := fs_stateLeftDuration f - sum_list (map (realDT out (fs_extraSpeed100 f)) dts)\<rparr>)"
  using assms
proof (induction dts arbitrary: a f)
  case (Cons dt dts)
  let ?r = "realDT out (fs_extraSpeed100 f) dt"
  have s: "startInfo f = f" using Cons.prems(1) by (simp add: startInfo_def)
  have "0 \<le> sum_list (map (realDT out (fs_extraSpeed100 f)) dts)" using Cons.prems(4) by (intro sum_list_nonneg) auto
  moreover have "0 \<le> ?r" using Cons.prems(4) by simp
  ultimately have r: "0 \<le> ?r" "?r \<le> fs_stateLeftDuration f" "fits64 (fs_stateLeftDuration f - ?r)"
    using Cons.prems(3,5) by (auto simp: fits64_def)
  define f1 where "f1 = f\<lparr>fs_stateLeftDuration := fs_stateLeftDuration f - ?r\<rparr>"
  have "elapsed ?r f = f1" using r by (simp add: elapsed_def f1_def)
  with Update_machine [of f i _ out dt a] Cons.prems(1,2) r s obtain a1 where u: "Update out cb dt (a, f) = Some (a1, f1)"
    by (auto simp: f1_def split: if_splits)
  have "\<exists>a'. updates out cb dts (a1, f1) =
    Some (a', f1\<lparr>fs_stateLeftDuration := fs_stateLeftDuration f1 - sum_list (map (realDT out (fs_extraSpeed100 f1)) dts)\<rparr>)"
    using Cons.prems r by (intro Cons.IH) (auto simp: f1_def)
  with u show ?case by (auto simp: f1_def algebra_simps)
qed simp

lemma Update_leaves:
  assumes "fs_curStateInfo f = Some i" and "0 \<le> fs_stateTotalDuration f" and "fits64 (fs_stateLeftDuration f - r)"
    and "r = realDT out (fs_extraSpeed100 f) dt" and "fs_stateLeftDuration f < r"
    and "fst (cb_GetNextStateOnTimeOut cb i (a, elapsed r f)) = nextState" and "fs_states f nextState = Some info"
  shows "\<exists>a' d. Update out cb dt (a, f) = Some (a', entered nextState info d f)"
proof -
  have s: "startInfo f = f" using assms(1) by (simp add: startInfo_def)
  have e: "ensureInfo (elapsed r f) = elapsed r f" using assms(1) by (simp add: ensureInfo_def elapsed_def)
  have neg: "fs_stateLeftDuration (elapsed r f) < 0" using assms(3,5) by (simp add: elapsed_def)
  have el: "entered nextState info d (elapsed r f) = entered nextState info d f" for d by (simp add: entered_def elapsed_def)
  have m: "\<exists>d. snd (switchState cb nextState True (a', elapsed r f)) = entered nextState info d f" for a'
    unfolding switchState_machine e using assms(1,7) by (auto simp: elapsed_def el [unfolded elapsed_def])
  obtain w where w: "Update out cb dt (a, f) = Some w" and
    sw: "snd w = (case cb_GetNextStateOnTimeOut cb i (a, elapsed r f) of (nextState, a', f') \<Rightarrow> snd (switchState cb nextState True (a', elapsed r f)))"
    using Update_machine [of f i _ out dt a] assms(1,2,4) neg s by auto
  from sw assms(6) m have "\<exists>d. snd w = entered nextState info d f" by (auto split: prod.splits)
  with w show ?thesis by (metis prod.collapse)
qed

lemma updates_forever:
  assumes "fs_curStateInfo f = Some i" and "fs_stateTotalDuration f < 0"
  shows "\<exists>a'. updates out cb dts (a, f) = Some (a', f)"
proof (induction dts arbitrary: a)
  case (Cons dt dts)
  have "startInfo f = f" using assms(1) by (simp add: startInfo_def)
  with Update_machine [of f i _ out dt a] assms obtain a1 where "Update out cb dt (a, f) = Some (a1, f)" by auto
  with Cons.IH [of a1] show ?case by simp
qed simp

end

section \<open>Speed\<close>

lemma realDT_normal [simp]:
  assumes "\<bar>dt\<bar> \<le> 2 ^ 53"
  shows "realDT out 0 dt = dt"
proof -
  have "floatDiv (floatAdd 100 (floatOfInt 0)) 100 = 1"
    using round53_int [of 100] round53_int [of 1] by (simp add: floatDiv_def floatAdd_def)
  moreover have "fits64 dt" using assms by (simp add: fits64_def abs_le_iff)
  ultimately show ?thesis using assms round53_int [OF assms] by (simp add: realDT_def floatMul_def)
qed

text \<open>An extra speed of 100 percent makes time run twice as fast, up to the precision of \<open>float64\<close>.\<close>

lemma realDT_double:
  assumes "\<bar>dt\<bar> \<le> 2 ^ 52"
  shows "realDT out 100 dt = 2 * dt"
proof -
  have "floatDiv (floatAdd 100 (floatOfInt 100)) 100 = 2"
    using round53_int [of 200] round53_int [of 2] by (simp add: floatDiv_def floatAdd_def)
  moreover have "\<bar>2 * dt\<bar> \<le> 2 ^ 53" "fits64 (2 * dt)" using assms by (simp_all add: fits64_def abs_le_iff)
  moreover have "floatMul (of_int dt) 2 = of_int (2 * dt)"
    using round53_int [OF \<open>\<bar>2 * dt\<bar> \<le> 2 ^ 53\<close>] by (simp add: floatMul_def mult.commute)
  moreover have "\<bar>dt\<bar> \<le> 2 ^ 53" using assms by simp
  ultimately show ?thesis by (simp add: realDT_def del: of_int_mult)
qed

section \<open>Runs\<close>

definition registering :: "('t \<times> 'i option) list \<Rightarrow> ('a, 't, 'i, 'h) fsm_world \<Rightarrow> ('a, 't, 'i, 'h) fsm_world" where
  "registering regs = (\<lambda>(a, f). (a, fold (\<lambda>(s, v). RegisterState s v) regs f))"

inductive fsm_step ::
  "(rat \<Rightarrow> int) \<Rightarrow> ('t, 'i, 'h, 'ev, ('a, 't, 'i, 'h) fsm_world) callbacks \<Rightarrow> ('a, 't, 'i, 'h) fsm_world \<Rightarrow> ('a, 't, 'i, 'h) fsm_world \<Rightarrow> bool"
  for out cb where
  step_arg: "fsm_step out cb (a, f) (a', f)"
| step_register: "fsm_step out cb (a, f) (a, RegisterState state value f)"
| step_switch: "fsm_step out cb w (Switch cb state w)"
| step_update: "Update out cb dt w = Some w' \<Longrightarrow> fsm_step out cb w w'"
| step_event: "fsm_step out cb w (TriggerEvent cb event w)"
| step_recover: "fsm_step out cb w (RecoverFsm (Some (registering regs)) w)"
| step_recover_default: "fsm_step out cb w (RecoverWithDefault state (Some (registering regs)) w)"
| step_hooks: "fsm_step out cb (a, f) (a, PreSwitchState pre (PostSwitchState post f))"
| step_speed: "fsm_step out cb (a, f) (a, SetSpeed100 speed f)"
| step_extra_speed: "fsm_step out cb (a, f) (a, SetExtraSpeed100 speed f)"
| step_left: "fsm_step out cb (a, f) (a, SetStateLeftDuration left f)"

lemma registering_current: "fs_currentState (fold (\<lambda>(s, v). RegisterState s v) regs f) = fs_currentState f"
  by (induction regs arbitrary: f) (auto simp: RegisterState_def Let_def)

lemma recover_consistent: "consistent (snd (recover d (Some (registering regs)) w))"
  by (simp add: recover_def registering_def Let_def consistent_def registering_current split: prod.split)

context passive_states
begin

lemma step_consistent:
  assumes "fsm_step out cb w w'" and c: "consistent (snd w)"
  shows "consistent (snd w')"
  using assms(1)
proof (cases rule: fsm_step.cases)
  case (step_update dt)
  with Update_ok [of "snd w" out dt "fst w"] c show ?thesis by auto
next
  case (step_event event)
  with c show ?thesis
    by (cases w) (auto simp: TriggerEvent_def passive_OnEvent Let_def split: option.splits)
next
  case (step_switch state)
  with switchState_consistent [of "snd w" state False "fst w"] c show ?thesis by (simp add: Switch_def)
next
  case (step_recover regs)
  then show ?thesis by (simp add: RecoverFsm_def recover_consistent)
next
  case (step_recover_default state regs)
  then show ?thesis by (simp add: RecoverWithDefault_def recover_consistent)
qed (use c in \<open>auto simp: consistent_def RegisterState_def Let_def PreSwitchState_def PostSwitchState_def SetSpeed100_def SetExtraSpeed100_def SetStateLeftDuration_def\<close>)

lemma steps_consistent: "(fsm_step out cb)\<^sup>*\<^sup>* w w' \<Longrightarrow> consistent (snd w) \<Longrightarrow> consistent (snd w')"
  by (induction rule: rtranclp_induct) (auto dest: step_consistent)

end

lemma updates_append: "updates out cb (xs @ ys) w = Option.bind (updates out cb xs w) (updates out cb ys)"
  by (induction xs arbitrary: w) (auto split: bind_splits)

section \<open>A traffic light\<close>

text \<open>State 0 lasts until it is left by a switch, state 1 for five nanoseconds; the argument counts the updates of state 1.\<close>

definition simpleNil :: "('t, 'ev, 'w) SimpleState" where
  "simpleNil = \<lparr>MPreEnter = None, MPostEnter = None, MUpdate = None, MPreExist = None, MPostExist = None,
     MGetNextStateOnTimeOut = None, MOnEventTrigger = None\<rparr>"

definition lightState :: "nat \<Rightarrow> (nat, unit, (nat, nat, nat, unit) fsm_world) SimpleState" where
  "lightState i = (if i = 1 then simpleNil\<lparr>MPreEnter := Some (\<lambda>_ _ w. (5, w)), MUpdate := Some (\<lambda>_ (n, f). (Suc n, f))\<rparr> else simpleNil)"

definition lightCallbacks :: "(nat, nat, unit, unit, (nat, nat, nat, unit) fsm_world) callbacks" where
  "lightCallbacks = simpleCallbacks 0 lightState (\<lambda>_ _ _ w. w)"

lemma light_passive: "passive_states lightCallbacks"
  by unfold_locales
     (auto simp: lightCallbacks_def simpleCallbacks_def lightState_def simpleNil_def SimplePreEnter_def SimplePostEnter_def SimpleUpdate_def
        SimplePreExist_def SimplePostExist_def SimpleGetNextState_def SimpleOnEvent_def)

interpretation light: passive_states lightCallbacks
  by (rule light_passive)

definition lightMachine :: "(nat, nat, unit) FSM" where
  "lightMachine = RegisterState 1 (Some 1) (RegisterState 0 (Some 0) (NewFsm 0 0))"

definition greenLight :: "(nat, nat, nat, unit) fsm_world" where
  "greenLight = Switch lightCallbacks 1 (0, lightMachine)"

lemma greenLight_eq: "greenLight = (0, entered 1 1 5 lightMachine)"
  by (simp add: greenLight_def Switch_def switchState_def lightMachine_def RegisterState_def NewFsm_def Init_def ensureInfo_def Let_def entered_def
      lightCallbacks_def simpleCallbacks_def lightState_def simpleNil_def runHook_def SimplePreEnter_def SimplePostEnter_def
      SimplePreExist_def SimplePostExist_def)

section \<open>Properties\<close>

text \<open>
  The machine knows the state it is in. From a new machine on, in every sequence of registrations, switches,
  updates, events, recoveries, hooks and changes of speed, with states that leave the machine alone, the object
  whose methods are called is the one registered for the current state, and an update never runs
  into a missing one.
\<close>

theorem fsm_runs_consistent:
  assumes "passive_states cb" and "(fsm_step out cb)\<^sup>*\<^sup>* (a, NewFsm zero state) w"
  shows "(fs_curStateInfo (snd w) = None \<or> fs_curStateInfo (snd w) = fs_states (snd w) (fs_currentState (snd w))) \<and>
    (\<exists>w'. Update out cb dt w = Some w')"
proof -
  have "consistent (NewFsm zero state)" by (simp add: consistent_def NewFsm_def Init_def)
  then have c: "consistent (snd w)" using passive_states.steps_consistent [OF assms(1,2)] by simp
  then show ?thesis using passive_states.Update_ok [OF assms(1) c, of out dt "fst w"] by (auto simp: consistent_def)
qed

theorem fsm_runs_consistent_witness:
  "fs_curStateInfo (snd greenLight) = Some 1 \<and> (\<exists>w'. Update (\<lambda>_. 0) lightCallbacks 6 greenLight = Some w')"
proof -
  have "(fsm_step (\<lambda>_. 0) lightCallbacks)\<^sup>*\<^sup>* (0, NewFsm 0 0) (0, lightMachine)"
    unfolding lightMachine_def by (rule rtranclp_trans; rule r_into_rtranclp, rule step_register)
  then have "(fsm_step (\<lambda>_. 0) lightCallbacks)\<^sup>*\<^sup>* (0, NewFsm 0 0) greenLight"
    unfolding greenLight_def by (rule rtranclp.rtrancl_into_rtrancl) (rule step_switch)
  moreover have "fs_curStateInfo (snd greenLight) = Some 1" by (simp add: greenLight_eq entered_def)
  ultimately show ?thesis using fsm_runs_consistent [OF light_passive, of "\<lambda>_. 0" 0 0 0 greenLight 6] by blast
qed

text \<open>
  C32: A state lasts exactly as long as it said. At normal speed and with states that leave the machine alone, a machine
  stays in its state while the updates add up to at most the time left, and counts it down
  exactly; the update that exceeds it moves to the next state, with the duration this state asks for.
  Each update is at most \<open>2 ^ 53\<close> nanoseconds, a hundred days, so that \<open>float64\<close> loses nothing.
\<close>

theorem timeout_exact:
  assumes "passive_states cb" and "fs_curStateInfo f = Some i" and "0 \<le> fs_stateTotalDuration f"
    and "fits64 (fs_stateLeftDuration f)" and "fs_extraSpeed100 f = 0"
    and "list_all (\<lambda>dt. 0 \<le> dt \<and> dt \<le> 2 ^ 53) (dts @ [dt])"
    and "sum_list dts \<le> fs_stateLeftDuration f" and "fs_stateLeftDuration f < sum_list dts + dt"
    and "\<And>w. fst (cb_GetNextStateOnTimeOut cb i w) = nextState" and "fs_states f nextState = Some info"
  shows "\<exists>a1 a2 d. updates out cb dts (a, f) = Some (a1, f\<lparr>fs_stateLeftDuration := fs_stateLeftDuration f - sum_list dts\<rparr>) \<and>
    updates out cb (dts @ [dt]) (a, f) = Some (a2, entered nextState info d f)"
proof -
  have real: "realDT out (fs_extraSpeed100 f) x = x" if "x \<in> set (dts @ [dt])" for x
    using that assms(5,6) by (auto simp: list_all_iff)
  then have m: "map (realDT out (fs_extraSpeed100 f)) dts = dts" by (intro map_idI) simp
  have nn: "0 \<le> sum_list dts" using assms(6) by (intro sum_list_nonneg) (auto simp: list_all_iff)
  obtain a1 where stay: "updates out cb dts (a, f) = Some (a1, f\<lparr>fs_stateLeftDuration := fs_stateLeftDuration f - sum_list dts\<rparr>)"
    using passive_states.updates_stay [OF assms(1-4), of dts out a] m real assms(6,7) by (auto simp: list_all_iff)
  define g where "g = f\<lparr>fs_stateLeftDuration := fs_stateLeftDuration f - sum_list dts\<rparr>"
  have "fits64 (fs_stateLeftDuration g - dt)" using assms(4,6-8) nn by (simp add: fits64_def g_def)
  moreover have "dt = realDT out (fs_extraSpeed100 g) dt" using real [of dt] by (simp add: g_def)
  ultimately obtain a2 d where "Update out cb dt (a1, g) = Some (a2, entered nextState info d g)"
    using passive_states.Update_leaves [OF assms(1), of g i dt out dt a1 nextState info] assms by (auto simp: g_def)
  moreover have "entered nextState info d g = entered nextState info d f" by (simp add: g_def entered_def)
  ultimately show ?thesis using stay by (auto simp: updates_append g_def)
qed

theorem timeout_exact_witness:
  "\<exists>a1 a2 d. updates (\<lambda>_. 0) lightCallbacks [2, 3] greenLight = Some (a1, (snd greenLight)\<lparr>fs_stateLeftDuration := 0\<rparr>) \<and>
    updates (\<lambda>_. 0) lightCallbacks ([2, 3] @ [1]) greenLight = Some (a2, entered 0 0 d (snd greenLight))"
proof -
  have g: "fs_curStateInfo (snd greenLight) = Some 1" "0 \<le> fs_stateTotalDuration (snd greenLight)" "fits64 (fs_stateLeftDuration (snd greenLight))"
    "fs_extraSpeed100 (snd greenLight) = 0" "fs_stateLeftDuration (snd greenLight) = 5" "fs_states (snd greenLight) 0 = Some 0" "fst greenLight = 0"
    by (simp_all add: greenLight_eq entered_def lightMachine_def RegisterState_def NewFsm_def Init_def Let_def fits64_def)
  have n: "fst (cb_GetNextStateOnTimeOut lightCallbacks 1 w) = 0" for w
    by (simp add: lightCallbacks_def simpleCallbacks_def SimpleGetNextState_def lightState_def simpleNil_def)
  have "list_all (\<lambda>dt. 0 \<le> dt \<and> dt \<le> 2 ^ 53) ([2, 3] @ [1 :: int])" by simp
  moreover have "greenLight = (0, snd greenLight)" using g(7) by (metis prod.collapse)
  ultimately show ?thesis
    using timeout_exact [OF light_passive g(1-4), of "[2, 3]" 1 0 0 "\<lambda>_. 0" 0] g(5,6) n by simp
qed

end
