(* ===== verification/MockClient.thy ===== *)
theory MockClient
  imports Fsm Routers
begin

text \<open>
  The client of \<open>cmd/mock/client\<close>, which plays one player against a running server: a machine of \<open>internal/fsm\<close> with the states
  \<open>Login\<close>, \<open>BindGate\<close>, \<open>Playing\<close> and \<open>Undefine\<close>. The HTTP client, \<open>url.JoinPath\<close> and the network client of nova
  are the record \<open>mock_net\<close> over a world \<open>'n\<close>; a response with code 200 has a result, as the responses of
  the server do. Log lines are left out.
  Shown: the client only plays on a connection that it bound with the gate token of its login, ends in \<open>Undefine\<close> otherwise,
  and reaches \<open>Playing\<close> in two updates when the server answers.
\<close>

section \<open>The client\<close>

record 'g MockClient =
  mc_uid :: uint64
  mc_gateClient :: "'g option"
  mc_baseUrl :: string
  mc_accessToken :: string
  mc_lang :: string
  mc_appVersion :: string
  mc_appChannel :: string
  mc_appPlatform :: string
  mc_deviceOS :: int
  mc_gateToken :: string

record 'r ApiRsp =
  ar_Code :: int
  ar_Msg :: string
  ar_Result :: 'r

type_synonym headers = "(string \<times> string) list"

record ('g, 'n) mock_net =
  mn_JoinPath :: "string \<Rightarrow> string \<Rightarrow> string option"
  mn_castInt :: "int \<Rightarrow> string"
  mn_postLogin :: "string \<Rightarrow> headers \<Rightarrow> LoginReq \<Rightarrow> 'n \<Rightarrow> (unit + int \<times> LoginRsp ApiRsp) \<times> 'n"
  mn_postGate :: "string \<Rightarrow> headers \<Rightarrow> unit \<Rightarrow> 'n \<Rightarrow> (unit + int \<times> GateAddressRsp ApiRsp) \<times> 'n"
  mn_NewClient :: "string \<Rightarrow> 'n \<Rightarrow> 'g option \<times> 'n"
  mn_Dial :: "'g \<Rightarrow> 'n \<Rightarrow> bool \<times> 'n"
  mn_Bind :: "'g \<Rightarrow> string \<Rightarrow> 'n \<Rightarrow> bool \<times> 'n"
  mn_Close :: "'g \<Rightarrow> 'n \<Rightarrow> 'n"

definition clientPath :: "('g, 'n) mock_net \<Rightarrow> 'g MockClient \<Rightarrow> string \<Rightarrow> string option" where
  "clientPath net c p =
     (let baseUrl = mc_baseUrl c;
          baseUrl1 = (if \<not> containsStr baseUrl ''://'' then ''http://'' @ baseUrl else baseUrl)
      in mn_JoinPath net baseUrl1 p)"

definition clientHeaders :: "('g, 'n) mock_net \<Rightarrow> 'g MockClient \<Rightarrow> headers" where
  "clientHeaders net c =
     [(''Content-Type'', ''application/json''), (''format'', ''1''), (''lang'', mc_lang c), (''app_version'', mc_appVersion c),
      (''app_channel'', mc_appChannel c), (''app_platform'', mc_appPlatform c), (''device_os'', mn_castInt net (mc_deviceOS c))]
     @ (if mc_accessToken c \<noteq> '''' then [(''token'', mc_accessToken c)] else [])"

definition POST ::
  "('g, 'n) mock_net \<Rightarrow> (string \<Rightarrow> headers \<Rightarrow> 'req \<Rightarrow> 'n \<Rightarrow> (unit + int \<times> 'rsp) \<times> 'n) \<Rightarrow> 'g MockClient \<Rightarrow> string \<Rightarrow> 'req
     \<Rightarrow> 'n \<Rightarrow> 'rsp option \<times> 'n" where
  "POST net post c p req n =
     (case clientPath net c p of
        None \<Rightarrow> (None, n)
      | Some requestUrl \<Rightarrow>
          (case post requestUrl (clientHeaders net c) req n of
             (Inl _, n1) \<Rightarrow> (None, n1)
           | (Inr (status, rsp), n1) \<Rightarrow> if status \<noteq> 200 then (None, n1) else (Some rsp, n1)))"

section \<open>Its states\<close>

definition Undefine :: string where "Undefine = ''Undefine''"
definition LoginS :: string where "LoginS = ''Login''"
definition BindGate :: string where "BindGate = ''BindGate''"
definition Playing :: string where "Playing = ''Playing''"

definition Millisecond :: duration where "Millisecond = 1000000"

lemmas client_states = Undefine_def LoginS_def BindGate_def Playing_def

lemma client_states_distinct [simp]:
  "LoginS \<noteq> BindGate" "BindGate \<noteq> LoginS" "LoginS \<noteq> Playing" "Playing \<noteq> LoginS" "BindGate \<noteq> Playing" "Playing \<noteq> BindGate"
  "Undefine \<noteq> LoginS" "LoginS \<noteq> Undefine" "Undefine \<noteq> BindGate" "BindGate \<noteq> Undefine" "Undefine \<noteq> Playing" "Playing \<noteq> Undefine"
  by (simp_all add: client_states)

type_synonym ('g, 'n) client_world = "('g MockClient \<times> 'n, string, string, unit) fsm_world"

definition loginNext :: "('g, 'n) mock_net \<Rightarrow> ('g, 'n) client_world \<Rightarrow> string \<times> ('g, 'n) client_world" where
  "loginNext net w = (case w of ((c, n), f) \<Rightarrow>
     let loginReq = \<lparr>lq_LoginType = LoginTypeDebug, lq_GuestID = [], lq_Code = [], lq_IdentityToken = decimal (mc_uid c),
           lq_AccessToken = [], lq_Nonce = []\<rparr>
     in case POST net (mn_postLogin net) c ''api/login'' loginReq n of
          (None, n1) \<Rightarrow> (Undefine, (c, n1), f)
        | (Some rsp, n1) \<Rightarrow>
            if ar_Code rsp \<noteq> 200 then (Undefine, (c, n1), f)
            else (BindGate, (c\<lparr>mc_accessToken := lr_AccessToken (ar_Result rsp), mc_uid := lr_Uid (ar_Result rsp),
                               mc_gateToken := lr_GateToken (ar_Result rsp)\<rparr>, n1), f))"

definition bindGateNext :: "('g, 'n) mock_net \<Rightarrow> ('g, 'n) client_world \<Rightarrow> string \<times> ('g, 'n) client_world" where
  "bindGateNext net w = (case w of ((c, n), f) \<Rightarrow>
     (case POST net (mn_postGate net) c ''api/config/gate_address'' () n of
        (None, n1) \<Rightarrow> (Undefine, (c, n1), f)
      | (Some rsp, n1) \<Rightarrow>
          if ar_Code rsp \<noteq> 200 then (Undefine, (c, n1), f)
          else (case mn_NewClient net (ga_WsAddress (ar_Result rsp)) n1 of
             (None, n2) \<Rightarrow> (Undefine, (c\<lparr>mc_gateClient := None\<rparr>, n2), f)
           | (Some g, n2) \<Rightarrow>
               let c1 = c\<lparr>mc_gateClient := Some g\<rparr> in
               case mn_Dial net g n2 of
                 (False, n3) \<Rightarrow> (Undefine, (c1, n3), f)
               | (True, n3) \<Rightarrow>
                   (case mn_Bind net g (mc_gateToken c1) n3 of
                      (False, n4) \<Rightarrow> (Undefine, (c1, n4), f)
                    | (True, n4) \<Rightarrow> (Playing, (c1, n4), f)))))"

definition closeGate :: "('g, 'n) mock_net \<Rightarrow> ('g, 'n) client_world \<Rightarrow> ('g, 'n) client_world" where
  "closeGate net w = (case w of ((c, n), f) \<Rightarrow>
     (case mc_gateClient c of None \<Rightarrow> w | Some g \<Rightarrow> ((c, mn_Close net g n), f)))"

definition noState :: "(string, unit, 'w) SimpleState" where
  "noState = \<lparr>MPreEnter = None, MPostEnter = None, MUpdate = None, MPreExist = None, MPostExist = None,
     MGetNextStateOnTimeOut = None, MOnEventTrigger = None\<rparr>"

definition clientState :: "('g, 'n) mock_net \<Rightarrow> string \<Rightarrow> (string, unit, ('g, 'n) client_world) SimpleState" where
  "clientState net s =
     (if s = LoginS then noState\<lparr>MPreEnter := Some (\<lambda>_ _ w. (100 * Millisecond, w)), MGetNextStateOnTimeOut := Some (loginNext net)\<rparr>
      else if s = BindGate then noState\<lparr>MPreEnter := Some (\<lambda>_ _ w. (100 * Millisecond, w)), MGetNextStateOnTimeOut := Some (bindGateNext net)\<rparr>
      else if s = Playing then noState\<lparr>MPostEnter := Some (\<lambda>_ _ w. w)\<rparr>
      else noState\<lparr>MPostEnter := Some (\<lambda>_ _. closeGate net)\<rparr>)"

definition clientCallbacks :: "('g, 'n) mock_net \<Rightarrow> (string, string, unit, unit, ('g, 'n) client_world) callbacks" where
  "clientCallbacks net = simpleCallbacks '''' (clientState net) (\<lambda>_ _ _ w. w)"

definition initFsm :: "(string, string, unit) FSM" where
  "initFsm = RegisterState Undefine (Some Undefine) (RegisterState Playing (Some Playing) (RegisterState BindGate (Some BindGate)
     (RegisterState LoginS (Some LoginS) (PostSwitchState (Some ()) (NewFsm '''' Undefine)))))"

definition NewMockClient :: "('g, 'n) mock_net \<Rightarrow> uint64 \<Rightarrow> string \<Rightarrow> 'n \<Rightarrow> ('g, 'n) client_world" where
  "NewMockClient net uid baseUrl n =
     (let c = \<lparr>mc_uid = uid, mc_gateClient = None, mc_baseUrl = baseUrl, mc_accessToken = [], mc_lang = ''Zh'', mc_appVersion = [],
            mc_appChannel = [], mc_appPlatform = [], mc_deviceOS = 0, mc_gateToken = []\<rparr>
      in Switch (clientCallbacks net) LoginS ((c, n), initFsm))"

definition clientUpdate :: "(rat \<Rightarrow> int) \<Rightarrow> ('g, 'n) mock_net \<Rightarrow> duration \<Rightarrow> ('g, 'n) client_world \<Rightarrow> ('g, 'n) client_world option" where
  "clientUpdate out net dt w = Update out (clientCallbacks net) dt w"

text \<open>A player of \<open>cmd/mock/main.go\<close> over ticks that are \<open>dts\<close> apart.\<close>

definition runOnePlayer :: "(rat \<Rightarrow> int) \<Rightarrow> ('g, 'n) mock_net \<Rightarrow> duration list \<Rightarrow> uint64 \<Rightarrow> string \<Rightarrow> 'n \<Rightarrow> ('g, 'n) client_world option" where
  "runOnePlayer out net dts uid baseUrl n = updates out (clientCallbacks net) dts (NewMockClient net uid baseUrl n)"

section \<open>Runs\<close>

definition clientRegistry :: "string \<Rightarrow> string option" where
  "clientRegistry s = (if s \<in> {Undefine, LoginS, BindGate, Playing} then Some s else None)"

text \<open>The machine of a client: a state of the four, the first two with their time.\<close>

definition clientMachine :: "(string, string, unit) FSM \<Rightarrow> bool" where
  "clientMachine f \<longleftrightarrow> fs_states f = clientRegistry \<and> fs_currentState f \<in> {Undefine, LoginS, BindGate, Playing}
     \<and> fs_curStateInfo f = Some (fs_currentState f) \<and> fs_preSwitchState f = None \<and> fs_extraSpeed100 f = 0
     \<and> (0 \<le> fs_stateTotalDuration f \<longleftrightarrow> fs_currentState f \<in> {LoginS, BindGate})"

text \<open>A client that plays has a connection that was bound with its gate token.\<close>

definition playsBound :: "('n \<Rightarrow> 'g \<Rightarrow> string \<Rightarrow> bool) \<Rightarrow> ('g, 'n) client_world \<Rightarrow> bool" where
  "playsBound bound w = (case w of ((c, n), f) \<Rightarrow>
     fs_currentState f = Playing \<longrightarrow> (\<exists>g. mc_gateClient c = Some g \<and> bound n g (mc_gateToken c)))"

text \<open>What the network promises: \<open>bound n g token\<close> holds after a successful bind.\<close>

locale gate_net =
  fixes net :: "('g, 'n) mock_net"
    and bound :: "'n \<Rightarrow> 'g \<Rightarrow> string \<Rightarrow> bool"
  assumes bind_law: "mn_Bind net g token n = (True, n') \<Longrightarrow> bound n' g token"
begin

lemma bindGateNext_cases:
  assumes "bindGateNext net ((c, n), f) = (s, w)"
  shows "snd w = f \<and> (s = Undefine \<or> s = Playing \<and> (\<exists>g. mc_gateClient (fst (fst w)) = Some g \<and> bound (snd (fst w)) g (mc_gateToken (fst (fst w)))))"
  using assms bind_law
  by (auto simp: bindGateNext_def Let_def split: prod.splits option.splits if_splits bool.splits)

end

lemmas simple_defs = SimplePreEnter_def SimplePostEnter_def SimpleUpdate_def SimplePreExist_def SimplePostExist_def
  SimpleGetNextState_def simpleCallbacks_def clientCallbacks_def clientState_def noState_def

lemma client_calls [simp]:
  "cb_PreExist (clientCallbacks net) i t b w = w"
  "cb_PostExist (clientCallbacks net) i t b w = w"
  "cb_Update (clientCallbacks net) i dt w = w"
  "runHook (clientCallbacks net) h s t w = w"
  by (simp_all add: simple_defs runHook_def split: option.split)

lemma client_PreEnter [simp]:
  "cb_PreEnter (clientCallbacks net) i t b w = (if i \<in> {LoginS, BindGate} then 100 * Millisecond else -1, w)"
  by (simp add: simple_defs)

lemma client_PostEnter [simp]:
  "cb_PostEnter (clientCallbacks net) i t b w = (if i \<in> {LoginS, BindGate, Playing} then w else closeGate net w)"
  by (simp add: simple_defs)

lemma client_GetNext [simp]:
  "cb_GetNextStateOnTimeOut (clientCallbacks net) LoginS w = loginNext net w"
  "cb_GetNextStateOnTimeOut (clientCallbacks net) BindGate w = bindGateNext net w"
  by (simp_all add: simple_defs client_states)

definition enteredState :: "string \<Rightarrow> (string, string, unit) FSM \<Rightarrow> (string, string, unit) FSM" where
  "enteredState s f = entered s s (if s \<in> {LoginS, BindGate} then 100 * Millisecond else -1) f"

lemma client_switch:
  assumes "clientMachine f" and "s \<in> {Undefine, LoginS, BindGate, Playing}"
  shows "switchState (clientCallbacks net) s b (a, f) =
    (if s = Undefine then closeGate net (a, enteredState s f) else (a, enteredState s f))"
  using assms
  by (auto simp: switchState_def ensureInfo_def clientMachine_def clientRegistry_def Let_def enteredState_def entered_def client_states
      split: option.split)

lemma enteredState_machine:
  assumes "clientMachine f" and "s \<in> {Undefine, LoginS, BindGate, Playing}"
  shows "clientMachine (enteredState s f)"
  using assms by (auto simp: clientMachine_def enteredState_def entered_def Millisecond_def client_states)

lemma initFsm_machine:
  "switchState (clientCallbacks net) LoginS b (a, initFsm) = (a, enteredState LoginS initFsm)"
  "clientMachine (enteredState LoginS initFsm)"
  by (auto simp: initFsm_def RegisterState_def NewFsm_def Init_def PostSwitchState_def Let_def switchState_def ensureInfo_def
      enteredState_def entered_def clientMachine_def clientRegistry_def Millisecond_def client_states fun_eq_iff)

lemma closeGate_machine [simp]: "snd (closeGate net w) = snd w"
  by (simp add: closeGate_def split: prod.split option.split)

lemma elapsed_machine [simp]: "clientMachine (elapsed r f) = clientMachine f" "fs_currentState (elapsed r f) = fs_currentState f"
  by (simp_all add: clientMachine_def elapsed_def)

lemma enteredState_current [simp]: "fs_currentState (enteredState s f) = s"
  by (simp add: enteredState_def entered_def)

lemma loginNext_cases:
  assumes "loginNext net ((c, n), f) = (s, w)"
  shows "snd w = f \<and> s \<in> {Undefine, BindGate}"
  using assms by (auto simp: loginNext_def Let_def split: prod.splits option.splits if_splits)

text \<open>One update of a client.\<close>

lemma client_update:
  assumes "clientMachine f"
  shows "Update out (clientCallbacks net) dt (a, f) = Some
    (if fs_currentState f \<notin> {LoginS, BindGate} then (a, f)
     else if fs_stateLeftDuration (elapsed (realDT out 0 dt) f) < 0
     then (case cb_GetNextStateOnTimeOut (clientCallbacks net) (fs_currentState f) (a, elapsed (realDT out 0 dt) f) of
             (s, w) \<Rightarrow> switchState (clientCallbacks net) s True w)
     else (a, elapsed (realDT out 0 dt) f))"
proof -
  have f: "fs_curStateInfo f = Some (fs_currentState f)" "fs_extraSpeed100 f = 0"
    "0 \<le> fs_stateTotalDuration f \<longleftrightarrow> fs_currentState f \<in> {LoginS, BindGate}"
    using assms by (simp_all add: clientMachine_def)
  let ?g = "elapsed (realDT out 0 dt) f"
  have "fs_curStateInfo (snd (switchState (clientCallbacks net) s True w)) \<noteq> None"
    if "fs_currentState f \<in> {LoginS, BindGate}"
      "cb_GetNextStateOnTimeOut (clientCallbacks net) (fs_currentState f) (a, ?g) = (s, w)" for s w
  proof -
    obtain c n where a: "a = (c, n)" by (cases a)
    have w: "snd w = ?g" and s: "s \<in> {Undefine, LoginS, BindGate, Playing}"
      using that loginNext_cases [of net c n ?g s w] gate_net.bindGateNext_cases [of net "\<lambda>_ _ _. True" c n ?g s w]
      by (auto simp: a gate_net_def)
    then have "switchState (clientCallbacks net) s True w =
        (if s = Undefine then closeGate net (fst w, enteredState s ?g) else (fst w, enteredState s ?g))"
      using client_switch [of ?g s net True "fst w"] assms by (metis elapsed_machine(1) prod.collapse)
    then show ?thesis by (simp add: enteredState_def entered_def)
  qed
  then show ?thesis
    using f by (auto simp: Update_def Let_def elapsed_def split: prod.split if_split)
qed

lemma client_next:
  assumes "gate_net net bound" and "clientMachine f" and "fs_currentState f \<in> {LoginS, BindGate}"
    and "cb_GetNextStateOnTimeOut (clientCallbacks net) (fs_currentState f) (a, f) = (s, w)"
  shows "snd w = f \<and> s \<in> {Undefine, BindGate, Playing}
    \<and> (s = Playing \<longrightarrow> (\<exists>g. mc_gateClient (fst (fst w)) = Some g \<and> bound (snd (fst w)) g (mc_gateToken (fst (fst w)))))"
proof -
  obtain c n where "a = (c, n)" by (cases a)
  then show ?thesis
    using assms(3,4) loginNext_cases [of net c n f s w] gate_net.bindGateNext_cases [OF assms(1), of c n f s w]
    by auto
qed

lemma client_step:
  assumes "gate_net net bound" and "clientMachine f" and "playsBound bound (a, f)"
  shows "\<exists>a' f'. Update out (clientCallbacks net) dt (a, f) = Some (a', f') \<and> clientMachine f' \<and> playsBound bound (a', f')"
proof (cases "fs_currentState f \<in> {LoginS, BindGate} \<and> fs_stateLeftDuration (elapsed (realDT out 0 dt) f) < 0")
  case False
  then show ?thesis using assms(2,3) unfolding client_update [OF assms(2)] by (auto simp: playsBound_def client_states split: prod.splits)
next
  case True
  let ?g = "elapsed (realDT out 0 dt) f"
  obtain s w where n: "cb_GetNextStateOnTimeOut (clientCallbacks net) (fs_currentState f) (a, ?g) = (s, w)" by (meson surj_pair)
  have m: "clientMachine ?g" using assms(2) by simp
  have "fs_currentState ?g \<in> {LoginS, BindGate}" using True by simp
  from client_next [OF assms(1) m this, of a s w] n
  have w: "snd w = ?g" and s: "s \<in> {Undefine, LoginS, BindGate, Playing}"
    and b: "s = Playing \<longrightarrow> (\<exists>g. mc_gateClient (fst (fst w)) = Some g \<and> bound (snd (fst w)) g (mc_gateToken (fst (fst w))))"
    by auto
  have "switchState (clientCallbacks net) s True w =
      (if s = Undefine then closeGate net (fst w, enteredState s ?g) else (fst w, enteredState s ?g))"
    using client_switch [OF m s, of net True "fst w"] w by (metis prod.collapse)
  then have "Update out (clientCallbacks net) dt (a, f) =
      Some (if s = Undefine then closeGate net (fst w, enteredState s ?g) else (fst w, enteredState s ?g))"
    using True n unfolding client_update [OF assms(2)] by (simp only: if_True simp_thms prod.case) simp
  moreover have "clientMachine (enteredState s ?g)" using enteredState_machine [OF m s] .
  moreover have "playsBound bound (fst w, enteredState s ?g)" using b by (auto simp: playsBound_def split: prod.split)
  moreover have "playsBound bound (closeGate net (fst w, enteredState s ?g))" if "s = Undefine"
    using that by (auto simp: playsBound_def closeGate_def client_states split: prod.splits option.splits)
  ultimately show ?thesis using closeGate_machine [of net "(fst w, enteredState s ?g)"]
    by (cases "closeGate net (fst w, enteredState s ?g)"; cases "fst w") (auto split: if_splits)
qed

lemma client_runs:
  assumes "gate_net net bound" and "clientMachine f" and "playsBound bound (a, f)"
  shows "\<exists>a' f'. updates out (clientCallbacks net) dts (a, f) = Some (a', f') \<and> clientMachine f' \<and> playsBound bound (a', f')"
  using assms(2,3)
proof (induction dts arbitrary: a f)
  case (Cons dt dts)
  from client_step [OF assms(1) Cons.prems, of out dt] Cons.IH show ?case by fastforce
qed auto

text \<open>A server that answers every request of the client, with a gate that accepts it.\<close>

definition serverAnswers :: "('g, 'n) mock_net \<Rightarrow> bool" where
  "serverAnswers net \<longleftrightarrow> (\<forall>base p. mn_JoinPath net base p \<noteq> None)
     \<and> (\<forall>url h req n. \<exists>rsp n'. mn_postLogin net url h req n = (Inr (200, rsp), n') \<and> ar_Code rsp = 200)
     \<and> (\<forall>url h req n. \<exists>rsp n'. mn_postGate net url h req n = (Inr (200, rsp), n') \<and> ar_Code rsp = 200)
     \<and> (\<forall>addr n. \<exists>g n'. mn_NewClient net addr n = (Some g, n'))
     \<and> (\<forall>g n. fst (mn_Dial net g n)) \<and> (\<forall>g token n. fst (mn_Bind net g token n))"

lemma POST_answers:
  assumes "\<And>base p. mn_JoinPath net base p \<noteq> None" and "\<And>url h req n. \<exists>rsp n'. post url h req n = (Inr (200, rsp), n') \<and> ar_Code rsp = 200"
  shows "\<exists>rsp n'. POST net post c p req n = (Some rsp, n') \<and> ar_Code rsp = 200"
proof -
  obtain url where "clientPath net c p = Some url" using assms(1) by (auto simp: clientPath_def Let_def)
  with assms(2) [of url "clientHeaders net c" req n] show ?thesis by (auto simp: POST_def)
qed

lemma answered_next:
  assumes "serverAnswers net"
  shows "fst (loginNext net ((c, n), f)) = BindGate" and "fst (bindGateNext net ((c, n), f)) = Playing"
proof -
  note a = assms [unfolded serverAnswers_def]
  let ?req = "\<lparr>lq_LoginType = LoginTypeDebug, lq_GuestID = [], lq_Code = [], lq_IdentityToken = decimal (mc_uid c), lq_AccessToken = [], lq_Nonce = []\<rparr>"
  from POST_answers [of net "mn_postLogin net" c "''api/login''" ?req n] a obtain rsp n1
    where "POST net (mn_postLogin net) c ''api/login'' ?req n = (Some rsp, n1)" "ar_Code rsp = 200" by blast
  then show "fst (loginNext net ((c, n), f)) = BindGate" by (simp add: loginNext_def)
  from POST_answers [of net "mn_postGate net" c "''api/config/gate_address''" "()" n] a obtain rsp n1
    where p: "POST net (mn_postGate net) c ''api/config/gate_address'' () n = (Some rsp, n1)" "ar_Code rsp = 200" by blast
  from a obtain g n2 where g: "mn_NewClient net (ga_WsAddress (ar_Result rsp)) n1 = (Some g, n2)" by blast
  obtain n3 where d: "mn_Dial net g n2 = (True, n3)" using a by (metis prod.collapse)
  obtain n4 where "mn_Bind net g (mc_gateToken c) n3 = (True, n4)" using a by (metis prod.collapse)
  with p g d show "fst (bindGateNext net ((c, n), f)) = Playing" by (simp add: bindGateNext_def)
qed

lemma answered_step:
  assumes "serverAnswers net" and "clientMachine f" and "fs_currentState f \<in> {LoginS, BindGate}"
    and "fs_stateLeftDuration f = 100 * Millisecond" and "100 * Millisecond < dt" and "dt \<le> 2 ^ 53"
  shows "\<exists>a' f'. Update out (clientCallbacks net) dt (a, f) = Some (a', f') \<and> clientMachine f'
    \<and> fs_currentState f' = (if fs_currentState f = LoginS then BindGate else Playing)
    \<and> (fs_currentState f = LoginS \<longrightarrow> fs_stateLeftDuration f' = 100 * Millisecond)"
proof -
  let ?g = "elapsed (realDT out 0 dt) f" and ?t = "if fs_currentState f = LoginS then BindGate else Playing"
  have "realDT out 0 dt = dt" using assms(5,6) by (intro realDT_normal) (simp add: Millisecond_def)
  moreover have "fits64 (100 * Millisecond - dt)" using assms(5,6) by (simp add: fits64_def Millisecond_def)
  ultimately have neg: "fs_stateLeftDuration ?g < 0" using assms(4,5) by (simp add: elapsed_def)
  obtain s w where n: "cb_GetNextStateOnTimeOut (clientCallbacks net) (fs_currentState f) (a, ?g) = (s, w)" by (meson surj_pair)
  have m: "clientMachine ?g" using assms(2) by simp
  have st: "fs_currentState ?g \<in> {LoginS, BindGate}" using assms(3) by simp
  have g: "gate_net net (\<lambda>_ _ _. True)" by (simp add: gate_net_def)
  have w: "snd w = ?g" using client_next [OF g m st, of a s w] n by simp
  obtain c m0 where "a = (c, m0)" by (cases a)
  then have t: "s = ?t" using n assms(3) answered_next [OF assms(1), of c m0 ?g] by auto
  have "switchState (clientCallbacks net) s True (fst w, ?g) = (fst w, enteredState s ?g)"
    using client_switch [OF m, of s net True "fst w"] t by simp
  then have "switchState (clientCallbacks net) s True w = (fst w, enteredState s ?g)" using w by (metis prod.collapse)
  then have "Update out (clientCallbacks net) dt (a, f) = Some (fst w, enteredState s ?g)"
    using neg n assms(3) unfolding client_update [OF assms(2)] by auto
  moreover have "clientMachine (enteredState s ?g)" using enteredState_machine [OF m, of s] t by simp
  ultimately show ?thesis using t by (auto simp: enteredState_def entered_def)
qed


text \<open>A network that answers everything; its world is the list of bound connections.\<close>

definition kindNet :: "(string, (string \<times> string) list) mock_net" where
  "kindNet = \<lparr>mn_JoinPath = (\<lambda>b p. Some (b @ ''/'' @ p)), mn_castInt = (\<lambda>_. ''0''),
     mn_postLogin = (\<lambda>_ _ req n. (Inr (200, \<lparr>ar_Code = 200, ar_Msg = [], ar_Result = \<lparr>lr_Uid = 7, lr_OpenId = lq_IdentityToken req,
        lr_IsRegister = False, lr_GateToken = ''gate 7'', lr_AccessToken = ''access 7''\<rparr>\<rparr>), n)),
     mn_postGate = (\<lambda>_ _ _ n. (Inr (200, \<lparr>ar_Code = 200, ar_Msg = [], ar_Result = \<lparr>ga_WsAddress = ''ws'', ga_KcpAddress = [], ga_TcpAddress = []\<rparr>\<rparr>), n)),
     mn_NewClient = (\<lambda>addr n. (Some addr, n)), mn_Dial = (\<lambda>_ n. (True, n)), mn_Bind = (\<lambda>g token n. (True, (g, token) # n)),
     mn_Close = (\<lambda>_ n. n)\<rparr>"

interpretation kind: gate_net kindNet "\<lambda>n g token. (g, token) \<in> set n"
  by unfold_locales (auto simp: kindNet_def)


end
