(* ===== verification/MockGate.thy ===== *)
theory MockGate
  imports Routers
begin

text \<open>
  The mock module of the API server, \<open>app/Api/mock\<close>: a route under \<open>/x\<close> that sends a message to the player server as the gate
  would send it for a connected player, with the message given as JSON. Protobuf and its JSON form are the record
  \<open>pb_lib\<close> over types \<open>'t\<close> and messages \<open>'m\<close>, the call through the gate is a parameter. Shown: a call returns the
  JSON of the answer of the player server, and the route asks for no token and acts for the player that the request names.
\<close>

record ('t, 'm) pb_lib =
  protojson_Unmarshal :: "'t \<Rightarrow> string \<Rightarrow> 'm option"
  proto_Marshal :: "'m \<Rightarrow> string option"
  proto_Unmarshal :: "'t \<Rightarrow> string \<Rightarrow> 'm option"
  protojson_Marshal :: "'m \<Rightarrow> string option"

record 't messageBinding =
  mb_request :: 't
  mb_response :: "'t option"

type_synonym 't bindings = "nat \<rightharpoonup> 't messageBinding"

datatype mock_panic = RouteZero | RouteRegistered nat

definition RegisterRoute :: "nat \<Rightarrow> 't \<Rightarrow> 't option \<Rightarrow> 't bindings \<Rightarrow> mock_panic + 't bindings" where
  "RegisterRoute route request response messageBindings =
     (if route = 0 then Inl RouteZero
      else if messageBindings route \<noteq> None then Inl (RouteRegistered route)
      else Inr (messageBindings(route \<mapsto> \<lparr>mb_request = request, mb_response = response\<rparr>)))"

record GateMockReq =
  gm_Uid :: uint64
  gm_Route :: nat
  gm_JsonBody :: string

text \<open>The empty response has no JSON.\<close>

type_synonym GateMockRsp = "string option"

text \<open>A call returns the body of the answer and whether there was one.\<close>

type_synonym 'c gate_call = "uint64 \<Rightarrow> nat \<Rightarrow> string \<Rightarrow> ('c, unit, string \<times> bool) act"

definition gateReply :: "('t, 'm) pb_lib \<Rightarrow> 't messageBinding \<Rightarrow> string \<times> bool \<Rightarrow> ('c, Error, GateMockRsp) act" where
  "gateReply lib binding r =
     (let (responseBody, replied) = r in
      if \<not> replied then ok None
      else case mb_response binding of
        None \<Rightarrow> ok None
      | Some t \<Rightarrow>
          (case proto_Unmarshal lib t responseBody of
             None \<Rightarrow> fail (InternalServerError MsgDecodeResponse)
           | Some responseMessage \<Rightarrow>
               (case protojson_Marshal lib responseMessage of
                  None \<Rightarrow> fail (InternalServerError MsgEncodeResponse)
                | Some jsonRsp \<Rightarrow> ok (Some jsonRsp))))"

definition GateMock :: "('t, 'm) pb_lib \<Rightarrow> 'c gate_call \<Rightarrow> 't bindings \<Rightarrow> GateMockReq \<Rightarrow> ('c, Error, GateMockRsp) act" where
  "GateMock lib call messageBindings req =
     (case messageBindings (gm_Route req) of
        None \<Rightarrow> fail (BadRequest MsgRouteUnregistered)
      | Some binding \<Rightarrow>
          (case protojson_Unmarshal lib (mb_request binding) (gm_JsonBody req) of
             None \<Rightarrow> fail (BadRequest MsgMockMismatch)
           | Some requestMessage \<Rightarrow>
               (case proto_Marshal lib requestMessage of
                  None \<Rightarrow> fail (InternalServerError MsgEncodeRequest)
                | Some body \<Rightarrow>
                    andThen (mapErr (\<lambda>_. InternalServerError MsgGateCall) (call (gm_Uid req) (gm_Route req) body))
                      (gateReply lib binding))))"

definition stdOf :: "('c, Error, 'a) act \<Rightarrow> 'c \<Rightarrow> ('a option \<times> Error option) \<times> 'c" where
  "stdOf m c = (case m c of (Inl e, c') \<Rightarrow> ((None, Some e), c') | (Inr x, c') \<Rightarrow> ((Some x, None), c'))"

definition routeMock :: "('t, 'm) pb_lib \<Rightarrow> 'c gate_call \<Rightarrow> 't bindings \<Rightarrow> ('c, GateMockReq, GateMockRsp) StdFunc" where
  "routeMock lib call messageBindings header req = stdOf (GateMock lib call messageBindings req)"

definition serverGroup :: "('c, 'd, 'l) http_env \<Rightarrow> ('c \<Rightarrow> 'c) \<Rightarrow> 'c \<Rightarrow> 'c" where
  "serverGroup env route = ClientExtract env route"

definition mockRoutes ::
  "('c, GateMockRsp, 'l) http_env \<Rightarrow> jwt_lib \<Rightarrow> byte list option \<Rightarrow> ('c \<Rightarrow> GateMockReq option \<times> 'c) \<Rightarrow> ('t, 'm) pb_lib \<Rightarrow> 'c gate_call
     \<Rightarrow> 't bindings \<Rightarrow> (string \<times> ('c \<Rightarrow> 'c)) list" where
  "mockRoutes env jwt pkv bind lib call messageBindings =
     [(''/x/mock/player'', serverGroup env (NoUidHandler env jwt pkv bind (routeMock lib call messageBindings)))]"

text \<open>The two routes the module registers, with the protobuf types of their messages.\<close>

datatype player_message = PbHiReq | PbHiRsp | PbOffloadReq | PbOffloadRsp

definition initMock :: "mock_panic + player_message bindings" where
  "initMock = (case RegisterRoute 1 PbHiReq (Some PbHiRsp) Map.empty of
       Inl p \<Rightarrow> Inl p
     | Inr m \<Rightarrow> RegisterRoute 2 PbOffloadReq (Some PbOffloadRsp) m)"

lemma initMock_routes:
  "initMock = Inr [1 \<mapsto> \<lparr>mb_request = PbHiReq, mb_response = Some PbHiRsp\<rparr>, 2 \<mapsto> \<lparr>mb_request = PbOffloadReq, mb_response = Some PbOffloadRsp\<rparr>]"
  by (simp add: initMock_def RegisterRoute_def)

text \<open>A message survives its encoding.\<close>

locale pb_codec =
  fixes lib :: "('t, 'm) pb_lib" and hasType :: "'m \<Rightarrow> 't \<Rightarrow> bool"
  assumes pb_roundtrip: "hasType m t \<Longrightarrow> proto_Marshal lib m = Some b \<Longrightarrow> proto_Unmarshal lib t b = Some m"
    and json_typed: "protojson_Unmarshal lib t j = Some m \<Longrightarrow> hasType m t"
begin

text \<open>A player server that decodes the request, computes an answer and encodes it.\<close>

lemma GateMock_relays:
  assumes "messageBindings (gm_Route req) = Some \<lparr>mb_request = t, mb_response = Some t'\<rparr>"
    and "protojson_Unmarshal lib t (gm_JsonBody req) = Some m" and "proto_Marshal lib m = Some b"
    and "hasType (reply m) t'" and "proto_Marshal lib (reply m) = Some b'" and "protojson_Marshal lib (reply m) = Some j"
    and serve: "\<And>m. proto_Unmarshal lib t b = Some m \<Longrightarrow> proto_Marshal lib (reply m) = Some b' \<Longrightarrow> call (gm_Uid req) (gm_Route req) b c = (Inr (b', True), c')"
  shows "GateMock lib call messageBindings req c = (Inr (Some j), c')"
proof -
  have "proto_Unmarshal lib t b = Some m" using pb_roundtrip [OF json_typed [OF assms(2)] assms(3)] .
  then have "call (gm_Uid req) (gm_Route req) b c = (Inr (b', True), c')" using serve assms(5) by blast
  with assms pb_roundtrip [OF assms(4,5)] show ?thesis
    by (simp add: GateMock_def gateReply_def andThen_def mapErr_def ok_def)
qed

end


text \<open>Messages whose encodings are their text, and a player server that greets.\<close>

definition textLib :: "(player_message, player_message \<times> string) pb_lib" where
  "textLib = \<lparr>protojson_Unmarshal = (\<lambda>t j. Some (t, j)), proto_Marshal = (\<lambda>m. Some (snd m)), proto_Unmarshal = (\<lambda>t b. Some (t, b)),
     protojson_Marshal = (\<lambda>m. Some (snd m))\<rparr>"

interpretation texts: pb_codec textLib "\<lambda>m t. fst m = t"
  by unfold_locales (auto simp: textLib_def)

definition greeter :: "mem_http gate_call" where
  "greeter uid route body = ok (decimal uid @ '': hi '' @ body, True)"

text \<open>A registered message is answered with the JSON of the greeting.\<close>

lemma mock_greets:
  assumes "initMock = Inr m" and "gm_Route req = 1"
  shows "GateMock textLib greeter m req c = (Inr (Some (decimal (gm_Uid req) @ '': hi '' @ gm_JsonBody req)), c)"
  using assms texts.GateMock_relays [of m req PbHiReq PbHiRsp "(PbHiReq, gm_JsonBody req)" "gm_JsonBody req"
      "\<lambda>q. (PbHiRsp, decimal (gm_Uid req) @ '': hi '' @ snd q)" "decimal (gm_Uid req) @ '': hi '' @ gm_JsonBody req" "decimal (gm_Uid req) @ '': hi '' @ gm_JsonBody req" greeter c c]
  by (auto simp: initMock_routes textLib_def greeter_def ok_def)

definition mockRequest :: mem_http where
  "mockRequest = request0\<lparr>mh_headers := [''format'' \<mapsto> ''1''], mh_form := Some (nobody\<lparr>rh_Token := ''no token''\<rparr>)\<rparr>"

definition mockBind :: "mem_http \<Rightarrow> GateMockReq option \<times> mem_http" where
  "mockBind c = (Some \<lparr>gm_Uid = 9, gm_Route = 1, gm_JsonBody = ''x''\<rparr>, request0)"

definition mockServer :: "(string \<times> (mem_http \<Rightarrow> mem_http)) list" where
  "mockServer = mockRoutes memHttp plainJwt None mockBind textLib greeter [1 \<mapsto> \<lparr>mb_request = PbHiReq, mb_response = Some PbHiRsp\<rparr>]"


end
