(* ===== verification/HttpLog.thy ===== *)
theory HttpLog
  imports Middleware
begin

text \<open>
  The middleware every request of the API server passes first, \<open>boost/init.go\<close>: recovery from a panic, the request log and the access
  log of \<open>pkg/middleware/inout/std.go\<close>. A handler may panic, so it returns an outcome beside the world \<open>'c\<close> with the
  request and the log. What the log lines are made of comes from the record \<open>log_env\<close>; gin calls the formatter of its
  logger after the handlers, and not at all when they panic. Shown: a panic is answered with status 500 and
  still written to the access log, and the access log does not depend on the secrets of a posted form.
\<close>

datatype outcome = Finished | Panicked

type_synonym 'c gin_handler = "'c \<Rightarrow> outcome \<times> 'c"

type_synonym form = "string \<rightharpoonup> string list"

datatype log_level = LevelInfo | LevelWarn | LevelError

datatype log_value = LogText string | LogInt int

datatype log_line =
    AccessLine "(string \<times> log_value) list"
  | HttpLine "(string \<times> log_value) list"
  | PanicLine string

record log_request =
  rq_Method :: string
  rq_Proto :: string
  rq_Referer :: string
  rq_ClientIP :: string
  rq_URL :: string
  rq_Path :: string
  rq_Host :: string
  rq_UserAgent :: string

record log_params =
  lp_TimeStamp :: string
  lp_StatusCode :: int
  lp_Latency :: string
  lp_BodySize :: int
  lp_ErrorMessage :: string

record 'c log_env =
  requestOf :: "'c \<Rightarrow> log_request"
  ParseForm :: "'c \<Rightarrow> form \<times> 'c"
  formEncode :: "form \<Rightarrow> string"
  writerSize :: "'c \<Rightarrow> int"
  paramsOf :: "'c \<Rightarrow> log_params"
  logxLog :: "log_level \<Rightarrow> log_line \<Rightarrow> 'c \<Rightarrow> 'c"
  AbortWithStatus :: "int \<Rightarrow> 'c \<Rightarrow> 'c"

section \<open>The access log\<close>

definition accessFields :: "log_request \<Rightarrow> (string \<times> log_value) list" where
  "accessFields r = [(''method'', LogText (rq_Method r)), (''protocol'', LogText (rq_Proto r)), (''referer'', LogText (rq_Referer r)),
     (''client_ip'', LogText (rq_ClientIP r)), (''uri'', LogText (rq_URL r)), (''host'', LogText (rq_Host r))]"

definition accessEntry :: "'c log_env \<Rightarrow> (string \<times> log_value) list \<Rightarrow> 'c \<Rightarrow> log_line \<times> 'c" where
  "accessEntry env accessLogMap c = (case ParseForm env c of (postForm, c1) \<Rightarrow>
     (AccessLine (accessLogMap @ [(''post_data'', LogText (formEncode env (redactForm postForm))), (''bytes_send'', LogInt (writerSize env c1))]), c1))"

definition AccessLog :: "'c log_env \<Rightarrow> 'c gin_handler \<Rightarrow> 'c gin_handler" where
  "AccessLog env nxt c =
     (let accessLogMap = accessFields (requestOf env c);
          (result, c1) = nxt c;
          (line, c2) = accessEntry env accessLogMap c1
      in (result, logxLog env LevelInfo line c2))"

section \<open>The request log\<close>

definition buildFullLogInfo :: "log_request \<Rightarrow> log_params \<Rightarrow> (string \<times> log_value) list" where
  "buildFullLogInfo r p = [(''timestamp'', LogText (lp_TimeStamp p)), (''client_ip'', LogText (rq_ClientIP r)), (''status'', LogInt (lp_StatusCode p)),
     (''latency'', LogText (lp_Latency p)), (''method'', LogText (rq_Method r)), (''path'', LogText (rq_Path r)), (''proto'', LogText (rq_Proto r)),
     (''body_size'', LogInt (lp_BodySize p)), (''user_agent'', LogText (rq_UserAgent r)), (''error'', LogText (lp_ErrorMessage p))]"

definition buildClientErrorLogInfo :: "log_request \<Rightarrow> log_params \<Rightarrow> (string \<times> log_value) list" where
  "buildClientErrorLogInfo r p = [(''status'', LogInt (lp_StatusCode p)), (''method'', LogText (rq_Method r)), (''path'', LogText (rq_Path r)),
     (''latency'', LogText (lp_Latency p)), (''client_ip'', LogText (rq_ClientIP r)), (''error'', LogText (lp_ErrorMessage p))]"

definition buildBasicLogInfo :: "log_request \<Rightarrow> log_params \<Rightarrow> (string \<times> log_value) list" where
  "buildBasicLogInfo r p = [(''status'', LogInt (lp_StatusCode p)), (''method'', LogText (rq_Method r)), (''path'', LogText (rq_Path r)),
     (''latency'', LogText (lp_Latency p))]"

definition logFormatter :: "'c log_env \<Rightarrow> 'c \<Rightarrow> 'c" where
  "logFormatter env c =
     (let r = requestOf env c; p = paramsOf env c in
      if lp_StatusCode p > 500 then logxLog env LevelError (HttpLine (buildFullLogInfo r p)) c
      else if lp_StatusCode p \<ge> 400 then logxLog env LevelWarn (HttpLine (buildClientErrorLogInfo r p)) c
      else logxLog env LevelInfo (HttpLine (buildBasicLogInfo r p)) c)"

definition LogxLogger :: "'c log_env \<Rightarrow> 'c gin_handler \<Rightarrow> 'c gin_handler" where
  "LogxLogger env nxt c = (case nxt c of
       (Panicked, c1) \<Rightarrow> (Panicked, c1)
     | (Finished, c1) \<Rightarrow> (Finished, logFormatter env c1))"

section \<open>Recovery\<close>

definition Recovery :: "'c log_env \<Rightarrow> 'c gin_handler \<Rightarrow> 'c gin_handler" where
  "Recovery env nxt c = (case nxt c of
       (Panicked, c1) \<Rightarrow> (Finished, AbortWithStatus env 500 (logxLog env LevelError (PanicLine (rq_Path (requestOf env c1))) c1))
     | (Finished, c1) \<Rightarrow> (Finished, c1))"

text \<open>The chain of \<open>gin.New()\<close> in \<open>apiBoost.Init\<close>.\<close>

definition engine :: "'c log_env \<Rightarrow> 'c gin_handler \<Rightarrow> 'c gin_handler" where
  "engine env route = Recovery env (LogxLogger env (AccessLog env route))"

section \<open>Properties\<close>

text \<open>A panic of a route ends as status 500, after one line of the access log and one of the panic.\<close>

lemma engine_panic:
  assumes "route c = (Panicked, c1)" and "accessEntry env (accessFields (requestOf env c)) c1 = (line, c2)"
  shows "\<exists>path. engine env route c = (Finished, AbortWithStatus env 500
    (logxLog env LevelError (PanicLine path) (logxLog env LevelInfo line c2)))"
  using assms by (auto simp: engine_def Recovery_def LogxLogger_def AccessLog_def)

lemma engine_finishes: "fst (engine env route c) = Finished"
  by (simp add: engine_def Recovery_def split: prod.split outcome.split)

text \<open>Status 500 is logged like a mistake of the client, without the details of a server error.\<close>

lemma status_500_is_a_warning:
  assumes "lp_StatusCode (paramsOf env c) = 500"
  shows "logFormatter env c = logxLog env LevelWarn (HttpLine (buildClientErrorLogInfo (requestOf env c) (paramsOf env c))) c"
  using assms by (simp add: logFormatter_def Let_def)

text \<open>Two forms that an observer who may not see secrets cannot tell apart.\<close>

definition sameButSecrets :: "form \<Rightarrow> form \<Rightarrow> bool" where
  "sameButSecrets f g \<longleftrightarrow> (\<forall>k. if sensitive k then (f k = None) = (g k = None) else f k = g k)"

lemma redactForm_visible: "redactForm f k = (if sensitive k then map_option (\<lambda>_. [''[REDACTED]'']) (f k) else f k)"
  by (cases "f k") (simp_all add: redactForm_def)

lemma redactForm_same:
  assumes "sameButSecrets f g"
  shows "redactForm f = redactForm g"
proof
  fix k
  have "if sensitive k then (f k = None) = (g k = None) else f k = g k" using assms unfolding sameButSecrets_def by blast
  then show "redactForm f k = redactForm g k"
    by (cases "f k"; cases "g k") (auto simp: redactForm_visible split: if_splits)
qed

lemma redactForm_idem [simp]: "redactForm (redactForm f) = redactForm f"
  by (rule ext) (simp add: redactForm_visible option.map_comp comp_def)


text \<open>A world that is the posted form, and two logins with different guest ids.\<close>

definition formLog :: "form log_env" where
  "formLog = \<lparr>requestOf = (\<lambda>_. \<lparr>rq_Method = ''POST'', rq_Proto = ''HTTP/1.1'', rq_Referer = [], rq_ClientIP = ''10.0.0.1'',
      rq_URL = ''/api/login'', rq_Path = ''/api/login'', rq_Host = ''h'', rq_UserAgent = []\<rparr>),
     ParseForm = (\<lambda>f. (f, f)), formEncode = (\<lambda>f. case f ''Guest_ID'' of Some [v] \<Rightarrow> v | _ \<Rightarrow> []), writerSize = (\<lambda>_. 0),
     paramsOf = (\<lambda>_. \<lparr>lp_TimeStamp = [], lp_StatusCode = 200, lp_Latency = [], lp_BodySize = 0, lp_ErrorMessage = []\<rparr>),
     logxLog = (\<lambda>_ _ f. f), AbortWithStatus = (\<lambda>_ f. f)\<rparr>"


end
