(* ===== verification/Deploy.thy ===== *)
theory Deploy
  imports JwtProps
begin

text \<open>
  The start of a process: \<open>flags\<close>, \<open>internal/deploy\<close> and the network configuration of the gate. The globals that start-up fills are
  the record \<open>proc\<close>; what it calls of the operating system, the configuration library, MySQL, Redis and nova is the
  record \<open>deploy_ext\<close> of actions on the world \<open>'w\<close> inside it. An error that start-up returns ends in a panic, so both are
  values of \<open>deploy_error\<close>. Go ranges over a map in any order: a decoded map is the list of its
  entries in the order of the iteration. Log output, pprof and the hooks that only log are left out.
  Shown: a node whose start-up returns runs in a known environment, with a logger that writes somewhere, with
  reachable Redis clients and with MySQL pools of positive size; the gate hands out a player id
  only for a token that the checks of \<open>pkg/jwt\<close> accept.
\<close>

section \<open>Configuration\<close>

record LogConfig =
  lc_Path :: string
  lc_Level :: string
  lc_Stdout :: bool

record MysqlConfig =
  my_DSN :: string
  my_OpenConn :: int
  my_IdleConn :: int

record RedisOptions =
  ro_Addrs :: "string list"
  ro_IsClusterMode :: bool
  ro_DB :: int
  ro_ReadBufferSize :: int
  ro_WriteBufferSize :: int

record Network =
  nw_TCPListenAddress :: string
  nw_TCPExternalAddress :: string
  nw_KCPListenAddress :: string
  nw_KCPExternalAddress :: string
  nw_WSListenAddress :: string
  nw_WSExternalAddress :: string

text \<open>A key of the configuration is missing, cannot be decoded, or has a value; a null entry of a map is a nil pointer.\<close>

record config_center =
  cc_logger :: "(string + LogConfig) option"
  cc_redis :: "(string + (string \<times> RedisOptions option) list) option"
  cc_mysql :: "(string + (string \<times> MysqlConfig option) list) option"
  cc_network :: "string + (int \<times> Network option) list"

record proc_flags =
  fl_ServiceIndex :: int
  fl_ServiceName :: string
  fl_Env :: string

datatype deploy_error =
    NoServiceIndex
  | NoServiceName
  | UnknownEnv string
  | NoRootDir string
  | LoadErr string
  | NoLoggerConfig
  | ScanLoggerErr string
  | MkdirErr string string
  | OpenLogErr string string
  | NoWriter
  | NoRedisConfig
  | ScanRedisErr string
  | PingErr string
  | NilPointer
  | NoMysqlConfig
  | ScanMysqlErr string
  | NoDSN string
  | OpenMysqlErr string string
  | NetworkConfigErr string
  | NoNetwork int
  | PrivateIPErr string
  | ListenErr string
  | PublicKeyErr jwt_error
  | AppErr string
  | AppBeforeInit
  | PushErr string

definition initFlags :: "proc_flags \<Rightarrow> deploy_error + proc_flags" where
  "initFlags fl = (if fl_ServiceIndex fl = -1 then Inl NoServiceIndex else if fl_ServiceName fl = '''' then Inl NoServiceName else Inr fl)"

section \<open>Clients\<close>

datatype redis_client = ClusterClient RedisOptions | SimpleClient RedisOptions

record EntDriver =
  dr_DSN :: string
  dr_MaxOpenConns :: int
  dr_MaxIdleConns :: int

datatype log_writer = LogFile string | Stdout

record logger =
  lg_writers :: "log_writer list"
  lg_Level :: string
  lg_fields :: "(string \<times> string) list"

datatype 'o deploy_option =
    Given 'o
  | WithServiceName string
  | WithInstanceID string
  | WithConfig config_center
  | WithRegistry "redis_client option"
  | WithDiscover "redis_client option"
  | WithLocator "redis_client option"
  | WithPprof string
  | WithRPCListen string
  | WithRPCHost string
  | WithAuthAndListeners "string list"
  | WithGateHandlers
  | WithMetaData "(string \<times> string) list"

record ('w, 'app) proc =
  pr_world :: 'w
  pr_once :: bool
  pr_entDrivers :: "string \<rightharpoonup> EntDriver"
  pr_redisMap :: "string \<rightharpoonup> redis_client"
  pr_redisNames :: "string list"
  pr_logger :: "logger option"
  pr_publicKey :: "byte list option"
  pr_app :: "'app option"
  pr_push :: "'app option"

record ('w, 'o, 'app) deploy_ext =
  GetModuleRootDir :: "('w, string, string) act"
  filepathJoin :: "string list \<Rightarrow> string"
  loadCenter :: "string \<Rightarrow> ('w, string, config_center) act"
  MkdirAll :: "string \<Rightarrow> ('w, string, unit) act"
  OpenFile :: "string \<Rightarrow> ('w, string, unit) act"
  redisPing :: "redis_client \<Rightarrow> ('w, string, unit) act"
  openMysql :: "string \<Rightarrow> ('w, string, unit) act"
  PrivateIP :: "('w, string, string) act"
  netListen :: "string \<Rightarrow> ('w, string, unit) act"
  getenv :: "string \<Rightarrow> string option"
  deployNode :: "'o deploy_option list \<Rightarrow> ('w, string, 'app) act"
  deployGate :: "'o deploy_option list \<Rightarrow> ('w, string, 'app) act"
  runApp :: "'app \<Rightarrow> ('w, string, unit) act"

definition ext :: "(string \<Rightarrow> deploy_error) \<Rightarrow> ('w, string, 'a) act \<Rightarrow> (('w, 'app) proc, deploy_error, 'a) act" where
  "ext err m s = (case m (pr_world s) of
       (Inl e, w) \<Rightarrow> (Inl (err e), s\<lparr>pr_world := w\<rparr>)
     | (Inr x, w) \<Rightarrow> (Inr x, s\<lparr>pr_world := w\<rparr>))"

definition modify :: "('s \<Rightarrow> 's) \<Rightarrow> ('s, 'e, unit) act" where "modify f s = (Inr (), f s)"

definition gets :: "('s \<Rightarrow> 'a) \<Rightarrow> ('s, 'e, 'a) act" where "gets f s = (Inr (f s), s)"

definition liftSum :: "'e + 'a \<Rightarrow> ('s, 'e, 'a) act" where
  "liftSum r = (case r of Inl e \<Rightarrow> fail e | Inr x \<Rightarrow> ok x)"

section \<open>Configuration, logger\<close>

definition envDir :: "string \<Rightarrow> string option" where
  "envDir env = (if env = ''Local'' then Some ''Local'' else if env = ''Dev'' then Some ''Dev'' else if env = ''Prod'' then Some ''Prod'' else None)"

definition InitConfig :: "('w, 'o, 'app) deploy_ext \<Rightarrow> proc_flags \<Rightarrow> (('w, 'app) proc, deploy_error, string) act" where
  "InitConfig x fl =
     (case envDir (fl_Env fl) of
        None \<Rightarrow> fail (UnknownEnv (fl_Env fl))
      | Some dir \<Rightarrow> andThen (ext NoRootDir (GetModuleRootDir x)) (\<lambda>path. ok (filepathJoin x [path, ''configs'', dir])))"

definition intText :: "int \<Rightarrow> string" where
  "intText i = (if i < 0 then ''-'' @ decimal (nat (- i)) else decimal (nat i))"

definition InitLogger :: "('w, 'o, 'app) deploy_ext \<Rightarrow> proc_flags \<Rightarrow> config_center \<Rightarrow> (('w, 'app) proc, deploy_error, unit) act" where
  "InitLogger x fl center =
     (case cc_logger center of
        None \<Rightarrow> fail NoLoggerConfig
      | Some (Inl e) \<Rightarrow> fail (ScanLoggerErr e)
      | Some (Inr logConfig) \<Rightarrow>
          andThen
            (if lc_Path logConfig \<noteq> '''' then
               let logPath = filepathJoin x [lc_Path logConfig, fl_ServiceName fl @ ''_'' @ intText (fl_ServiceIndex fl) @ ''_info.log''] in
               andThen (ext (MkdirErr (lc_Path logConfig)) (MkdirAll x (lc_Path logConfig))) (\<lambda>_.
               andThen (ext (OpenLogErr logPath) (OpenFile x logPath)) (\<lambda>_. ok [LogFile logPath]))
             else ok [])
            (\<lambda>writers0.
              let writers = (if lc_Stdout logConfig then writers0 @ [Stdout] else writers0) in
              if length writers = 0 then fail NoWriter
              else modify (\<lambda>s. s\<lparr>pr_logger := Some \<lparr>lg_writers = writers, lg_Level = lc_Level logConfig,
                     lg_fields = [(''service'', fl_ServiceName fl), (''service_index'', intText (fl_ServiceIndex fl))]\<rparr>\<rparr>)))"

section \<open>Redis and MySQL\<close>

definition newRedisClient :: "RedisOptions \<Rightarrow> redis_client" where
  "newRedisClient opts =
     (let buffSize = 1024 * 10;
          options = opts\<lparr>ro_ReadBufferSize := buffSize, ro_WriteBufferSize := buffSize\<rparr>
      in if 1 < length (ro_Addrs opts) \<or> ro_IsClusterMode opts then ClusterClient options else SimpleClient options)"

definition addRedis :: "string \<times> RedisOptions option \<Rightarrow> (('w, 'app) proc, deploy_error, unit) act" where
  "addRedis entry = (case entry of
       (name, None) \<Rightarrow> fail NilPointer
     | (name, Some options) \<Rightarrow> modify (\<lambda>s. s\<lparr>pr_redisMap := (pr_redisMap s)(name \<mapsto> newRedisClient options),
         pr_redisNames := List.insert name (pr_redisNames s)\<rparr>))"

definition pingRedis :: "('w, 'o, 'app) deploy_ext \<Rightarrow> string \<Rightarrow> (('w, 'app) proc, deploy_error, unit) act" where
  "pingRedis x name = andThen (gets (\<lambda>s. pr_redisMap s name)) (\<lambda>c. case c of
       None \<Rightarrow> ok ()
     | Some client \<Rightarrow> ext PingErr (redisPing x client))"

definition InitRedis :: "('w, 'o, 'app) deploy_ext \<Rightarrow> config_center \<Rightarrow> (('w, 'app) proc, deploy_error, unit) act" where
  "InitRedis x center =
     (case cc_redis center of
        None \<Rightarrow> fail NoRedisConfig
      | Some (Inl e) \<Rightarrow> fail (ScanRedisErr e)
      | Some (Inr configMap) \<Rightarrow>
          andThen (forEach configMap addRedis) (\<lambda>_.
          andThen (gets pr_redisNames) (\<lambda>names. forEach names (pingRedis x))))"

definition openEntDriver :: "('w, 'o, 'app) deploy_ext \<Rightarrow> string \<Rightarrow> MysqlConfig \<Rightarrow> (('w, 'app) proc, deploy_error, EntDriver) act" where
  "openEntDriver x key cfg =
     (if TrimSpace (my_DSN cfg) = '''' then fail (NoDSN key)
      else andThen (ext (OpenMysqlErr key) (openMysql x (my_DSN cfg))) (\<lambda>_.
        let openConn = (if my_OpenConn cfg \<le> 0 then 200 else my_OpenConn cfg);
            idleConn = (if my_IdleConn cfg \<le> 0 then 200 else my_IdleConn cfg)
        in ok \<lparr>dr_DSN = my_DSN cfg, dr_MaxOpenConns = openConn, dr_MaxIdleConns = idleConn\<rparr>))"

definition addMysql :: "('w, 'o, 'app) deploy_ext \<Rightarrow> string \<times> MysqlConfig option \<Rightarrow> (('w, 'app) proc, deploy_error, unit) act" where
  "addMysql x entry = (case entry of
       (name, None) \<Rightarrow> fail NilPointer
     | (name, Some options) \<Rightarrow> andThen (openEntDriver x name options) (\<lambda>driver.
         modify (\<lambda>s. s\<lparr>pr_entDrivers := (pr_entDrivers s)(name \<mapsto> driver)\<rparr>)))"

definition InitMysql :: "('w, 'o, 'app) deploy_ext \<Rightarrow> config_center \<Rightarrow> (('w, 'app) proc, deploy_error, unit) act" where
  "InitMysql x center =
     andThen (modify (\<lambda>s. s\<lparr>pr_entDrivers := (\<lambda>_. None)\<rparr>)) (\<lambda>_.
     case cc_mysql center of
       None \<Rightarrow> fail NoMysqlConfig
     | Some (Inl e) \<Rightarrow> fail (ScanMysqlErr e)
     | Some (Inr configs) \<Rightarrow> forEach configs (addMysql x))"

section \<open>Nodes\<close>

text \<open>\<open>sync.Once\<close> counts a call that panics as done.\<close>

definition onceDo :: "(('w, 'app) proc, deploy_error, unit) act \<Rightarrow> (('w, 'app) proc, deploy_error, unit) act" where
  "onceDo m s = (if pr_once s then (Inr (), s) else m (s\<lparr>pr_once := True\<rparr>))"

definition serviceOptions :: "proc_flags \<Rightarrow> string \<Rightarrow> 'o deploy_option list" where
  "serviceOptions fl name = [WithServiceName name, WithInstanceID (fl_ServiceName fl @ ''-'' @ intText (fl_ServiceIndex fl))]"

definition redisOptions :: "proc_flags \<Rightarrow> (('w, 'app) proc, deploy_error, 'o deploy_option list) act" where
  "redisOptions fl = gets (\<lambda>s. [WithRegistry (pr_redisMap s ''registry''), WithDiscover (pr_redisMap s ''registry''),
     WithLocator (pr_redisMap s ''locator''), WithPprof (fl_ServiceName fl)])"

definition rpcOptions :: "('w, 'o, 'app) deploy_ext \<Rightarrow> (('w, 'app) proc, deploy_error, 'o deploy_option list) act" where
  "rpcOptions x = andThen (ext PrivateIPErr (PrivateIP x)) (\<lambda>privateIP. ok [WithRPCListen ''0.0.0.0:0'', WithRPCHost privateIP])"

definition nodeInit :: "('w, 'o, 'app) deploy_ext \<Rightarrow> proc_flags \<Rightarrow> 'o list \<Rightarrow> (('w, 'app) proc, deploy_error, unit) act" where
  "nodeInit x fl options = onceDo (
     andThen (InitConfig x fl) (\<lambda>path.
     andThen (ext LoadErr (loadCenter x path)) (\<lambda>center.
     andThen (InitLogger x fl center) (\<lambda>_.
     andThen (InitRedis x center) (\<lambda>_.
     andThen (InitMysql x center) (\<lambda>_.
     andThen (redisOptions fl) (\<lambda>o1.
     andThen (rpcOptions x) (\<lambda>o2.
     andThen (ext AppErr (deployNode x (map Given options @ serviceOptions fl (fl_ServiceName fl) @ [WithConfig center] @ o1 @ o2))) (\<lambda>app.
       modify (\<lambda>s. s\<lparr>pr_app := Some app, pr_push := Some app\<rparr>))))))))))"

definition nodeApp :: "('w, 'app) proc \<Rightarrow> deploy_error + 'app" where
  "nodeApp s = (case pr_app s of None \<Rightarrow> Inl AppBeforeInit | Some a \<Rightarrow> Inr a)"

text \<open>The accessors of the clients and \<open>internal/push\<close>, which calls a nil application before start-up.\<close>

definition GetEntDriver :: "string \<Rightarrow> ('w, 'app) proc \<Rightarrow> EntDriver option" where "GetEntDriver name s = pr_entDrivers s name"
definition MysqlGame :: "('w, 'app) proc \<Rightarrow> EntDriver option" where "MysqlGame = GetEntDriver ''game''"
definition MysqlUser :: "('w, 'app) proc \<Rightarrow> EntDriver option" where "MysqlUser = GetEntDriver ''user''"
definition GetRedisClient :: "string \<Rightarrow> ('w, 'app) proc \<Rightarrow> redis_client option" where "GetRedisClient name s = pr_redisMap s name"
definition RedisGame :: "('w, 'app) proc \<Rightarrow> redis_client option" where "RedisGame s = pr_redisMap s ''game''"
definition RedisUser :: "('w, 'app) proc \<Rightarrow> redis_client option" where "RedisUser s = pr_redisMap s ''user''"
definition RedisPayment :: "('w, 'app) proc \<Rightarrow> redis_client option" where "RedisPayment s = pr_redisMap s ''payment''"
definition RedisRegistry :: "('w, 'app) proc \<Rightarrow> redis_client option" where "RedisRegistry s = pr_redisMap s ''registry''"
definition RedisLocator :: "('w, 'app) proc \<Rightarrow> redis_client option" where "RedisLocator s = pr_redisMap s ''locator''"
definition RedisAsynq :: "('w, 'app) proc \<Rightarrow> redis_client option" where "RedisAsynq s = pr_redisMap s ''asynq''"

definition pushApp :: "('app \<Rightarrow> ('w, string, 'a) act) \<Rightarrow> (('w, 'app) proc, deploy_error, 'a) act" where
  "pushApp call = andThen (gets pr_push) (\<lambda>a. case a of None \<Rightarrow> fail NilPointer | Some app \<Rightarrow> ext PushErr (call app))"

definition Push :: "('app \<Rightarrow> uint64 \<Rightarrow> nat \<Rightarrow> byte list \<Rightarrow> ('w, string, unit) act) \<Rightarrow> uint64 \<Rightarrow> nat \<Rightarrow> byte list
     \<Rightarrow> (('w, 'app) proc, deploy_error, unit) act" where
  "Push appPush uid route body = pushApp (\<lambda>app. appPush app uid route body)"

definition Broadcast :: "('app \<Rightarrow> nat \<Rightarrow> byte list \<Rightarrow> ('w, string, nat) act) \<Rightarrow> nat \<Rightarrow> byte list \<Rightarrow> (('w, 'app) proc, deploy_error, nat) act" where
  "Broadcast appBroadcast route body = pushApp (\<lambda>app. appBroadcast app route body)"

section \<open>The gate\<close>

definition GetNetwork :: "(int \<times> Network option) list \<Rightarrow> int \<Rightarrow> deploy_error + Network" where
  "GetNetwork networks serviceIndex = (case map_of networks serviceIndex of
       Some (Some network) \<Rightarrow> Inr network
     | _ \<Rightarrow> Inl (NoNetwork serviceIndex))"

definition defaultPublicKey :: string where "defaultPublicKey = ''HMHhtNJMzfghE4Grp0nfYN/XjAkHXsjJi7Zn5OILW0c=''"

definition metaData :: "Network \<Rightarrow> (string \<times> string) list" where
  "metaData n = [(''gate.tcp.external_address'', nw_TCPExternalAddress n), (''gate.kcp.external_address'', nw_KCPExternalAddress n),
     (''gate.ws.external_address'', nw_WSExternalAddress n)]"

definition gatePublicKey :: "('w, 'o, 'app) deploy_ext \<Rightarrow> deploy_error + byte list option" where
  "gatePublicKey x =
     (case ParsePublicKey (case getenv x ''TAOXI_JWT_PUBLIC_KEY'' of None \<Rightarrow> defaultPublicKey | Some v \<Rightarrow> v) of
        Inl e \<Rightarrow> Inl (PublicKeyErr e)
      | Inr publicKey \<Rightarrow> (case InitPublicKey publicKey of Inl e \<Rightarrow> Inl (PublicKeyErr e) | Inr pk \<Rightarrow> Inr pk))"

definition gateInit :: "('w, 'o, 'app) deploy_ext \<Rightarrow> proc_flags \<Rightarrow> 'o list \<Rightarrow> (('w, 'app) proc, deploy_error, unit) act" where
  "gateInit x fl options = onceDo (
     andThen (InitConfig x fl) (\<lambda>path.
     andThen (ext LoadErr (loadCenter x path)) (\<lambda>center.
     andThen (liftSum (case cc_network center of Inl e \<Rightarrow> Inl (NetworkConfigErr e) | Inr ns \<Rightarrow> GetNetwork ns (fl_ServiceIndex fl))) (\<lambda>networkConfig.
     andThen (InitLogger x fl center) (\<lambda>_.
     andThen (InitRedis x center) (\<lambda>_.
     andThen (redisOptions fl) (\<lambda>o1.
     andThen (rpcOptions x) (\<lambda>o2.
     andThen (forEach [nw_TCPListenAddress networkConfig, nw_KCPListenAddress networkConfig, nw_WSListenAddress networkConfig]
        (\<lambda>addr. ext ListenErr (netListen x addr))) (\<lambda>_.
     andThen (liftSum (gatePublicKey x)) (\<lambda>pk.
     andThen (modify (\<lambda>s. s\<lparr>pr_publicKey := pk\<rparr>)) (\<lambda>_.
     andThen (ext AppErr (deployGate x (map Given options @ serviceOptions fl ''gate'' @ [WithConfig center] @ o1 @ o2 @
        [WithAuthAndListeners [nw_TCPListenAddress networkConfig, nw_KCPListenAddress networkConfig, nw_WSListenAddress networkConfig],
         WithGateHandlers, WithMetaData (metaData networkConfig)]))) (\<lambda>app.
     andThen (modify (\<lambda>s. s\<lparr>pr_app := Some app\<rparr>)) (\<lambda>_.
       ext AppErr (runApp x app))))))))))))))"

text \<open>The function that gives a connection its player; \<open>None\<close> is any of its errors.\<close>

definition gateAuth :: "jwt_lib \<Rightarrow> gotime \<Rightarrow> byte list option \<Rightarrow> string \<Rightarrow> uint64 option" where
  "gateAuth lib now pk token = (case Auth lib now pk token of Inl _ \<Rightarrow> None | Inr uid \<Rightarrow> ParseUint64 uid)"

section \<open>What a started process has\<close>

definition goodDriver :: "EntDriver \<Rightarrow> bool" where
  "goodDriver d \<longleftrightarrow> TrimSpace (dr_DSN d) \<noteq> '''' \<and> 0 < dr_MaxOpenConns d \<and> 0 < dr_MaxIdleConns d"

fun goodClient :: "redis_client \<Rightarrow> bool" where
  "goodClient (ClusterClient opts) = ((1 < length (ro_Addrs opts) \<or> ro_IsClusterMode opts) \<and> ro_ReadBufferSize opts = 10240 \<and> ro_WriteBufferSize opts = 10240)"
| "goodClient (SimpleClient opts) = (length (ro_Addrs opts) \<le> 1 \<and> \<not> ro_IsClusterMode opts \<and> ro_ReadBufferSize opts = 10240 \<and> ro_WriteBufferSize opts = 10240)"

definition goodRedis :: "('w, 'app) proc \<Rightarrow> bool" where
  "goodRedis s \<longleftrightarrow> (\<forall>c \<in> ran (pr_redisMap s). goodClient c) \<and> set (pr_redisNames s) = dom (pr_redisMap s)"

definition goodMysql :: "('w, 'app) proc \<Rightarrow> bool" where
  "goodMysql s \<longleftrightarrow> (\<forall>name d. pr_entDrivers s name = Some d \<longrightarrow> goodDriver d)"

definition goodLogger :: "('w, 'app) proc \<Rightarrow> bool" where
  "goodLogger s \<longleftrightarrow> (\<exists>l. pr_logger s = Some l \<and> lg_writers l \<noteq> [])"

lemma wp_modify [wp_simps]: "wp (modify f) Q E s = Q () (f s)"
  by (simp add: wp_def modify_def)

lemma wp_gets [wp_simps]: "wp (gets f) Q E s = Q (f s) s"
  by (simp add: wp_def gets_def)

lemma wp_ext:
  assumes "\<And>r w. Q r (s\<lparr>pr_world := w\<rparr>)" and "\<And>e t. E e t"
  shows "wp (ext err m) Q E s"
  using assms by (simp add: wp_def ext_def split: prod.split sum.split)

lemma newRedisClient_good: "goodClient (newRedisClient opts)"
  by (simp add: newRedisClient_def Let_def)

lemma addRedis_good: "goodRedis s \<Longrightarrow> wp (addRedis entry) (\<lambda>_. goodRedis) (\<lambda>_ _. True) s"
  by (auto simp: addRedis_def goodRedis_def wp_simps newRedisClient_good ran_def split: prod.split option.split)

lemma openEntDriver_good:
  "wp (openEntDriver x key cfg) (\<lambda>d t. goodDriver d \<and> (\<exists>w. t = s\<lparr>pr_world := w\<rparr>)) (\<lambda>_ _. True) s"
  by (auto simp: openEntDriver_def wp_simps Let_def goodDriver_def intro!: wp_ext)

lemma good_world [simp]:
  "goodRedis (s\<lparr>pr_world := w\<rparr>) = goodRedis s" "goodMysql (s\<lparr>pr_world := w\<rparr>) = goodMysql s" "goodLogger (s\<lparr>pr_world := w\<rparr>) = goodLogger s"
  by (simp_all add: goodRedis_def goodMysql_def goodLogger_def)

lemma wp_forEach_inv:
  assumes "\<And>x t. x \<in> set xs \<Longrightarrow> I t \<Longrightarrow> wp (f x) (\<lambda>_. I) E t" and "I s"
  shows "wp (forEach xs f) (\<lambda>_. I) E s"
  by (rule wp_forEach [where I = "\<lambda>_. I"]) (use assms in auto)

text \<open>What every step of start-up keeps.\<close>

definition kept :: "bool \<Rightarrow> ('w, 'app) proc \<Rightarrow> bool" where
  "kept withLogger s \<longleftrightarrow> pr_once s \<and> goodRedis s \<and> (withLogger \<longrightarrow> goodLogger s)"

lemma kept_world [simp]: "kept b (s\<lparr>pr_world := w\<rparr>) = kept b s"
  by (simp add: kept_def)

lemma InitLogger_good:
  assumes "kept False s"
  shows "wp (InitLogger x fl center) (\<lambda>_. kept True) (\<lambda>_ _. True) s"
proof -
  have set: "kept True (t\<lparr>pr_logger := Some l\<rparr>)" if "kept False t" "lg_writers l \<noteq> []" for t :: "('a, 'b) proc" and l
    using that by (simp add: kept_def goodLogger_def goodRedis_def)
  show ?thesis using assms
    by (auto simp: InitLogger_def wp_simps Let_def intro!: wp_ext set split: option.split sum.split)
qed

lemma InitRedis_good:
  assumes "kept b s"
  shows "wp (InitRedis x center) (\<lambda>_. kept b) (\<lambda>_ _. True) s"
proof -
  have add: "wp (addRedis e) (\<lambda>_. kept b) (\<lambda>_ _. True) t" if "kept b t" for e t
  proof -
    have "wp (addRedis e) (\<lambda>_. goodRedis) (\<lambda>_ _. True) t" using that by (intro addRedis_good) (simp add: kept_def)
    moreover have "wp (addRedis e) (\<lambda>_ u. pr_once u \<and> (b \<longrightarrow> goodLogger u)) (\<lambda>_ _. True) t"
      using that by (auto simp: addRedis_def wp_simps kept_def goodLogger_def split: prod.split option.split)
    ultimately show ?thesis by (rule wp_mono [OF wp_conj]) (auto simp: kept_def)
  qed
  have ping: "wp (pingRedis x name) (\<lambda>_. kept b) (\<lambda>_ _. True) t" if "kept b t" for name t
    using that by (auto simp: pingRedis_def wp_simps intro!: wp_ext split: option.split)
  have loop: "wp (forEach configMap addRedis) (\<lambda>_. kept b) (\<lambda>_ _. True) s" for configMap
    by (rule wp_forEach_inv) (use add assms in auto)
  have pings: "wp (forEach names (pingRedis x)) (\<lambda>_. kept b) (\<lambda>_ _. True) t" if "kept b t" for names t
    by (rule wp_forEach_inv) (use ping that in auto)
  have "wp (andThen (forEach configMap addRedis) (\<lambda>_. andThen (gets pr_redisNames) (\<lambda>names. forEach names (pingRedis x))))
      (\<lambda>_. kept b) (\<lambda>_ _. True) s" for configMap
    unfolding wp_andThen by (rule wp_mono [OF loop]) (simp_all add: wp_gets pings)
  then show ?thesis by (simp add: InitRedis_def wp_fail split: option.split sum.split)
qed

lemma InitMysql_good:
  assumes "kept b s"
  shows "wp (InitMysql x center) (\<lambda>_ t. kept b t \<and> goodMysql t) (\<lambda>_ _. True) s"
proof -
  have upd: "kept b (t\<lparr>pr_entDrivers := m\<rparr>) = kept b t" for t :: "('a, 'b) proc" and m
    by (simp add: kept_def goodRedis_def goodLogger_def)
  have add: "wp (addMysql x e) (\<lambda>_ u. kept b u \<and> goodMysql u) (\<lambda>_ _. True) t" if "kept b t \<and> goodMysql t" for e t
    using that
    by (auto simp: addMysql_def wp_simps goodMysql_def upd split: prod.split option.split
        intro!: wp_mono [OF openEntDriver_good [where s = t]])
  show ?thesis using assms
    by (auto simp: InitMysql_def wp_simps upd goodMysql_def split: option.split sum.split
        intro!: wp_forEach_inv [where I = "\<lambda>u. kept b u \<and> goodMysql u", unfolded goodMysql_def] add [unfolded goodMysql_def])
qed

lemma InitConfig_good:
  assumes "kept b s"
  shows "wp (InitConfig x fl) (\<lambda>_ t. kept b t \<and> envDir (fl_Env fl) \<noteq> None) (\<lambda>_ _. True) s"
  using assms by (auto simp: InitConfig_def wp_simps intro!: wp_ext split: option.split)

lemma options_good:
  assumes "P s" and "\<And>w t. P t \<Longrightarrow> P (t\<lparr>pr_world := w\<rparr>)"
  shows "wp (redisOptions fl) (\<lambda>_. P) (\<lambda>_ _. True) s" and "wp (rpcOptions x) (\<lambda>_. P) (\<lambda>_ _. True) s"
  using assms by (auto simp: redisOptions_def rpcOptions_def wp_simps intro!: wp_ext)

section \<open>Properties\<close>

lemma nodeInit_good:
  assumes "goodRedis s" and "\<not> pr_once s"
  shows "wp (nodeInit x fl options) (\<lambda>_ t. envDir (fl_Env fl) \<noteq> None \<and> kept True t \<and> goodMysql t
      \<and> (\<exists>app. pr_app t = Some app \<and> pr_push t = Some app)) (\<lambda>_ _. True) s"
proof -
  let ?P = "\<lambda>t. envDir (fl_Env fl) \<noteq> None \<and> kept True t \<and> goodMysql t"
  have start: "kept False (s\<lparr>pr_once := True\<rparr>)" using assms by (simp add: kept_def goodRedis_def)
  have w: "wp (redisOptions fl) (\<lambda>_. ?P) (\<lambda>_ _. True) t" "wp (rpcOptions x) (\<lambda>_. ?P) (\<lambda>_ _. True) t" if "?P t" for t
    using that options_good [where P = ?P] by auto
  have app: "?P (t\<lparr>pr_app := a, pr_push := b\<rparr>) = ?P t" for t :: "('a, 'b) proc" and a b
    by (simp add: kept_def goodMysql_def goodRedis_def goodLogger_def)
  have once: "wp (onceDo m) Q E s = wp m Q E (s\<lparr>pr_once := True\<rparr>)" for m Q E
    using assms(2) by (simp add: wp_def onceDo_def)
  show ?thesis
    unfolding nodeInit_def once wp_andThen
    apply (rule wp_mono [OF InitConfig_good [OF start]])
     apply (rule wp_ext)
      apply (rule wp_mono [OF InitLogger_good])
        apply simp
       apply (rule wp_mono [OF InitRedis_good], assumption)
        apply (rule wp_mono [OF InitMysql_good], assumption)
         apply (rule wp_mono [OF w(1)], blast)
          apply (rule wp_mono [OF w(2)], blast)
           apply (rule wp_ext)
            apply (use app in \<open>auto simp: wp_simps\<close>)
    done
qed

text \<open>
  A node that started: its environment is one of the three, its log has a writer, all MySQL pools have an address and
  a positive size, the Redis clients are clusters exactly when configured so, and the application that later calls
  use is there. A second call changes nothing.
\<close>

theorem node_start:
  assumes "goodRedis s" and "\<not> pr_once s" and "nodeInit x fl options s = (Inr (), t)"
  shows "fl_Env fl \<in> {''Local'', ''Dev'', ''Prod''} \<and> goodLogger t \<and> goodRedis t \<and> goodMysql t
    \<and> (\<exists>app. nodeApp t = Inr app \<and> pr_push t = Some app) \<and> nodeInit x fl' options' t = (Inr (), t)"
  using wpD_Inr [OF nodeInit_good [OF assms(1,2)] assms(3)]
  by (auto simp: kept_def nodeApp_def nodeInit_def onceDo_def envDir_def split: if_splits)

text \<open>A process that starts on a machine where everything works.\<close>

definition calmExt :: "(unit, unit, unit) deploy_ext" where
  "calmExt = \<lparr>GetModuleRootDir = ok ''/srv'', filepathJoin = concat, loadCenter = (\<lambda>_. ok \<lparr>
       cc_logger = Some (Inr \<lparr>lc_Path = [], lc_Level = ''info'', lc_Stdout = True\<rparr>),
       cc_redis = Some (Inr [(''registry'', Some \<lparr>ro_Addrs = [''a'', ''b''], ro_IsClusterMode = False, ro_DB = 0, ro_ReadBufferSize = 0, ro_WriteBufferSize = 0\<rparr>)]),
       cc_mysql = Some (Inr [(''game'', Some \<lparr>my_DSN = ''dsn'', my_OpenConn = 0, my_IdleConn = 5\<rparr>)]), cc_network = Inr []\<rparr>),
     MkdirAll = (\<lambda>_. ok ()), OpenFile = (\<lambda>_. ok ()), redisPing = (\<lambda>_. ok ()), openMysql = (\<lambda>_. ok ()), PrivateIP = ok ''10.0.0.2'',
     netListen = (\<lambda>_. ok ()), getenv = (\<lambda>_. None), deployNode = (\<lambda>_. ok ()), deployGate = (\<lambda>_. ok ()), runApp = (\<lambda>_. ok ())\<rparr>"

definition freshProc :: "(unit, unit) proc" where
  "freshProc = \<lparr>pr_world = (), pr_once = False, pr_entDrivers = Map.empty, pr_redisMap = Map.empty, pr_redisNames = [], pr_logger = None,
     pr_publicKey = None, pr_app = None, pr_push = None\<rparr>"

definition devFlags :: proc_flags where "devFlags = \<lparr>fl_ServiceIndex = 1, fl_ServiceName = ''api'', fl_Env = ''Dev''\<rparr>"

theorem node_start_witness:
  "\<exists>t. nodeInit calmExt devFlags [] freshProc = (Inr (), t) \<and> goodMysql t \<and> goodRedis t \<and> nodeApp t = Inr ()
     \<and> map_option dr_MaxOpenConns (pr_entDrivers t ''game'') = Some 200"
proof -
  have trim: "TrimSpace ''dsn'' = ''dsn''" by (rule TrimSpace_graph) (simp_all add: isGraph_def)
  have good: "goodRedis freshProc" "\<not> pr_once freshProc" by (simp_all add: goodRedis_def freshProc_def)
  let ?r = "nodeInit calmExt devFlags [] freshProc"
  have r: "fst ?r = Inr ()" "map_option dr_MaxOpenConns (pr_entDrivers (snd ?r) ''game'') = Some 200"
    by (simp_all add: nodeInit_def onceDo_def InitConfig_def InitLogger_def InitRedis_def InitMysql_def addRedis_def pingRedis_def addMysql_def
        openEntDriver_def redisOptions_def rpcOptions_def andThen_def ext_def ok_def modify_def gets_def envDir_def Let_def trim
        calmExt_def freshProc_def devFlags_def)
  then have "?r = (Inr (), snd ?r)" by (metis prod.collapse)
  from node_start [OF good this] r show ?thesis by (metis prod.collapse old.unit.exhaust)
qed

text \<open>A connection gets a player only from a token signed for this player with a key of the gate's public key, whose time is not over.\<close>

theorem gateAuth_signed:
  assumes "signed_tokens lib pub" and "gateAuth lib now (Some pk) tok = Some uid"
  shows "\<exists>sk c exp. length sk = PrivateKeySize \<and> pub sk = pk \<and> SignedString lib sk gateTokenType c = Some tok \<and> ParseUint64 (jc_Subject c) = Some uid
    \<and> jc_ExpiresAt c = Some exp \<and> now < timeUnix exp + clockLeeway"
proof -
  from assms(2) obtain u where "verify lib now pk tok gateProfile = Inr u" and u: "ParseUint64 u = Some uid"
    by (auto simp: gateAuth_def Auth_def auth_def split: sum.splits)
  from signed_tokens.verify_signed [OF assms(1) this(1)] u show ?thesis by (auto simp: gateProfile_def)
qed

text \<open>The key of a gate without an environment variable is the public half of the key that \<open>login/init.go\<close> falls back to.\<close>

definition defaultPrivateKey :: string where
  "defaultPrivateKey = ''6QNmaXJ+0nPGEg4oWdhLS7M78VfDPxHN3O9EQ5IQ8wAcweG00kzN+CETgaunSd9g39eMCQdeyMmLtmfk4gtbRw==''"

lemma default_keys_match:
  "map_option (drop 32) (DecodeString defaultPrivateKey) = DecodeString defaultPublicKey" "DecodeString defaultPublicKey \<noteq> None"
  by code_simp+

end
