(* ===== verification/Spec2Isabelle.thy ===== *)
theory Spec2Isabelle
  imports ItemsSpec CacheRuns PaymentTasks TaskServer LoginTheorems MessageRouter Routers EntSave MockClient MockGate HttpLog Deploy
begin

text \<open>
  \<^bold>\<open>A model of the taoxi game server.\<close>

  The program (Go, under \<open>src/\<close>) has an API server (\<open>app/Api\<close>) with the modules login, items, payment
  and config, a player server (\<open>app/Player\<close>) and a gate. A player logs in over HTTP and gets two
  signed tokens, one for the gate and one for the API; behind the access token are the bag of
  items and the purchases. A purchase is an order row that Google Play confirms, by the receipt
  the client uploads, by a notification or by a scan for old orders; a paid order queues a
  task that adds the rewards to the bag, a refund queues one that takes them back. The player
  server keeps a player as an actor whose data is a log of deltas in Redis.

  \<^bold>\<open>How the code is modelled.\<close> Each Go function is a definition with the same name (or the name of its
  receiver in front), with every early return as a branch. A call that leaves the process is an
  \<^emph>\<open>action\<close> (theory Prelude): a function of the world to an error or a value and the next world. What
  is outside the repository is a parameter: a record of actions over an arbitrary world, with a
  locale that states what the code relies on, interpreted on an executable world that the
  witnesses run. A flag \<open>mf\<close> of a locale says whether statements may fail, so the safety theorems
  cover every failure of the database, Redis and Google at every statement. Error texts are the
  constructors of \<open>Stderr.message\<close>. \<open>uint64\<close> ids are natural numbers, since they are only
  compared and printed; \<open>int32\<close>, \<open>int64\<close> are integers with \<open>wrap32\<close>, \<open>wrap64\<close> where the code computes; a
  time is a number of nanoseconds. Go strings are byte strings.

  \<^bold>\<open>The theories.\<close>
  \<^item> Shared: Prelude (actions, weakest preconditions), GoStd and GoTime (integers, decimal text, time,
    RFC 3339), Json and JsonText (\<open>encoding/json\<close>), Sha256, Sha1, Aes, Base64 (the cryptography and
    encodings the code calls), Ent (the generated query and mutation code over the row functions
    of \<open>sqlgraph\<close>), EntMutation and EntSchemas (the generated mutations of the six tables, \<open>ent/mutation.go\<close>: typed
    methods and the interface by name), GoFloat (\<open>float64\<close>), Stderr (\<open>pkg/stderr\<close>).
  \<^item> Items: ItemsStore (\<open>items/internal/store\<close> with its ent builders), ItemsLaws (locale \<open>item_db\<close>),
    ItemsProps and ItemsRevoke (what granting, merging of timed items and revoking do to a bag),
    ItemsSpec (reachable states, the ledger specification, exactly-once), Cachex
    (\<open>pkg/cachex\<close>, a versioned cache in front of a loader), CacheRuns (the same cache with many
    goroutines on many nodes, as a step relation), ItemsService (the service and its cache).
  \<^item> Payment: PaymentStore (the order table), PaymentTypes (configuration, channel interface, tasks and
    queue client \<open>pkg/asynqx/client.go\<close>), IapPayload (\<open>pkg/googleplay/iap\<close>), GoogleChannel and GoogleRtdn
    (the Google Play channel and its notifications), PaymentService (orders, the steps of a
    purchase, refunds, expiry scan, task handlers), PaymentLaws, PaymentProps, PaymentFlow (the
    invariants and what each operation keeps of them), PaymentSpec (the step relation of the
    service), Shop and ShopRun (an executable shop with one product), PaymentTheorems and PaymentTasks (the
    properties), TaskServer (\<open>pkg/asynqx/registry.go\<close>, \<open>server.go\<close> and the registration of the payment tasks;
    locale \<open>asynq_mux\<close>).
  \<^item> Login: LoginStore, LoginLaws (locale \<open>login_db\<close>, with the other API nodes as a rely condition),
    LoginProps and LoginSpec (the directory of logins and the refinement), Jwt and JwtProps (\<open>pkg/jwt\<close>, locale
    \<open>signed_tokens\<close>), LoginService and LoginTheorems (providers, manager, start-up).
  \<^item> HTTP: Middleware (\<open>pkg/middleware\<close>, \<open>pkg/xhttp\<close>), MiddlewareProps (locales \<open>rate_cache\<close> and
    \<open>header_ctx\<close>), HttpWorld, Routers (the client routes of every module and the gate address).
  \<^item> Player: Offline (\<open>internal/util/leave_cal.go\<close>), PlayerLog (\<open>internal/diff_manager\<close>, the
    change-tracking state of \<open>pb/player/actor\<close>; locales \<open>diff_codec\<close> and \<open>list_store\<close>), PlayerActor (\<open>app/Player/player\<close>), MessageRouter (\<open>pkg/message_router\<close> and the
    handlers of \<open>app/Player/router\<close> and \<open>rpc\<close>; locales \<open>message_pool\<close> and \<open>route_pools\<close>).
  \<^item> Generated database code (\<open>*/internal/store/ent\<close>), beyond what theory Ent takes of it: EntPredicates (\<open>*/where.go\<close> and the three-valued
    conditions of SQL, locale \<open>sql_selection\<close>), EntScan (rows read back into structs), EntBuilders (the setters of every builder),
    EntQuery (\<open>*_query.go\<close>, the selectors and orders of \<open>ent.go\<close>; locale \<open>query_backend\<close>, interpreted for the six tables), EntClient
    (\<open>client.go\<close>, \<open>tx.go\<close>, \<open>hook/hook.go\<close>, \<open>*_delete.go\<close>), EntSave (saving, upserts and creating many: \<open>*_create.go\<close>, \<open>*_update.go\<close>; locales
    \<open>save_backend\<close>, interpreted for the six tables, and \<open>conflict_action\<close>).
  \<^item> Around the servers: Deploy (\<open>flags\<close>, \<open>internal/deploy\<close> with the configuration of the gate, \<open>internal/push\<close>), HttpLog (the access
    log of \<open>pkg/middleware/inout\<close>), Fsm (the generic state machine \<open>internal/fsm\<close>, locale \<open>passive_states\<close>), MockClient (\<open>cmd/mock\<close>, a client that plays
    one player, built on that state machine; locale \<open>gate_net\<close>), MockGate (\<open>app/Api/mock\<close>, a route that sends messages as
    the gate would; locale \<open>pb_codec\<close>).

  \<^bold>\<open>What is shown.\<close>
  \<^item> Rewards: a grant with a nonce is applied exactly once whatever is retried and wherever a run
    fails; every queued grant is for an order that Google reported as paid by this player, every
    queued revoke for a cancelled one, and takes back only what was granted. The bag never holds
    less than nothing, timed items merge without losing time, granting refines a ledger.
  \<^item> Orders: they keep their identity and credential, no credential pays two orders, a player has
    at most one open order per product and channel, an uploaded receipt settles its order, and a
    notification is acknowledged only when its order is settled.
  \<^item> Accounts: every identity leads to one active account in every interleaving with other nodes; binding,
    unbinding and deleting refine operations of an abstract directory; a race of two
    registrations ends with one account.
  \<^item> Tokens and requests: only tokens of this server are accepted, for their lifetime and purpose; a
    handler runs as the player its token was signed for; the signature check equals its
    specification; the rate limit bounds what gets through.
  \<^item> Players: catching up after an absence ends, plays exactly the time that passed and needs at most
    one update per tick; what is saved is what is loaded, with a log of bounded length.
  \<^item> The cache: in every interleaving a read without failures has all writes announced before it, or
    before the load it joined, as long as the version counter lives; the steps of one goroutine are
    the sequential \<open>Get\<close>.
  \<^item> Tasks and messages: a running worker handles the payment tasks by the handlers the delivery theorems
    are about, whatever else is registered; pooled messages carry nothing from one request to the next.
  \<^item> State machines keep the state object of their current state and end a state exactly when its time is
    exceeded; mutations keep the types of their fields, and the builders of the stores are such mutations.
  \<^item> Generated queries and saves refine the operations the stores are modelled on, for every row they can read; many rows are
    created by one statement or not at all; rows are read back as they were stored; builder calls take effect in their
    order; hooks run in the order of their chain and a rejected operation changes nothing; transactions do not nest.
  \<^item> Operation: a node that has started has its logger and its pools; the access log never has the secret fields of a form;
    the mock client sends game messages only on a connection that is bound to its player.
  \<^item> Encodings: round trips for AES-CBC payloads, base64 keys and JSON task payloads.
  \<^item> Defects of the code are theorems too: a retried purchase whose task is queued already fails,
    a refund can leave its grant, the payment routes lock player 0, a read that joins a load in flight can
    miss a write of its own node, an expired version counter makes an old entry valid again, ids from \<open>2 ^ 63\<close> on cannot be
    read back, and the mock route acts for any player.

  \<^bold>\<open>Loops, fuel and bounds.\<close> Loops are structural or have a termination proof (\<open>offlineLoop\<close>,
    \<open>stripAll\<close>, \<open>decimal\<close>); the loops that ask a library for the next entry of a delta or frame
    (\<open>applyFields\<close>, \<open>applyFrame\<close>) are partial functions and are shown to return on what the writer wrote. The
    JSON parser of JsonText has the length of the text as fuel: every call consumes a byte. In Fsm an update of
    at most \<open>2 ^ 53\<close> nanoseconds is the bound up to which \<open>float64\<close> is exact.

  \<^bold>\<open>Not modelled.\<close> The start of the processes: the web server with its CORS and profiling routes in \<open>boost/init.go\<close>, the schedule of
  the cron job, the order in which \<open>main.go\<close> starts the modules, and the registration of the player server's handlers with the nova runtime;
  these are calls into gin, cron and nova without logic of their own. Schema migration and the ent test helpers, which describe tables
  to a library. The generated protobuf code apart from the player state, whose logic is reflection of the protobuf runtime. Of the
  generated database code, eager loading of edges (there are none), interceptors that wrap a query, and the string forms of entities.
\<close>

end
